(* ===== verification/Prelude.thy ===== *)
theory Prelude
  imports Main "HOL-Library.Word"
begin

text \<open>
  Shared vocabulary of the development: the machine types of the C++ sources, the
  big-endian reading of byte runs, and the state-and-exception combinators in which the
  run-time interface (Hera) is written. The components' theories import this one; the
  collections declared here carry their proofs.
\<close>

unbundle bit_operations_syntax

section \<open>Machine types\<close>

type_synonym byte = "8 word"
type_synonym u32 = "32 word"
type_synonym u64 = "64 word"
type_synonym w256 = "256 word"

named_theorems code_scan \<open>facts about the scanners over EVM byte code\<close>
named_theorems eff_simps \<open>unfolding rules of the state-and-exception combinators\<close>
named_theorems eei_defs \<open>definitions of the interface operations\<close>

section \<open>Big-endian byte runs\<close>

definition be_nat :: "byte list \<Rightarrow> nat" where
  "be_nat bs = foldl (\<lambda>a b. a * 256 + unat b) 0 bs"

lemma be_nat_Nil [simp]: "be_nat [] = 0"
  by (simp add: be_nat_def)

lemma be_nat_snoc [simp]: "be_nat (bs @ [b]) = be_nat bs * 256 + unat b"
  by (simp add: be_nat_def)

lemma be_nat_bound: "be_nat bs < 256 ^ length bs"
proof (induction bs rule: rev_induct)
  case Nil
  then show ?case by simp
next
  case (snoc b bs)
  have "unat b < 256" using unsigned_less [of b, where ?'a = nat] by simp
  moreover have "be_nat bs + 1 \<le> 256 ^ length bs" using snoc.IH by simp
  then have "(be_nat bs + 1) * 256 \<le> 256 ^ length bs * 256" by (rule mult_le_mono1)
  ultimately show ?case by simp
qed

lemma be_nat_append: "be_nat (xs @ ys) = be_nat xs * 256 ^ length ys + be_nat ys"
proof (induction ys rule: rev_induct)
  case Nil
  then show ?case by simp
next
  case (snoc y ys)
  have "be_nat (xs @ ys @ [y]) = be_nat (xs @ ys) * 256 + unat y"
    using be_nat_snoc [of "xs @ ys" y] by simp
  with snoc.IH show ?case by (simp add: algebra_simps)
qed

lemma be_nat_zeros [simp]: "be_nat (replicate n 0) = 0"
  by (induction n) (simp_all add: replicate_append_same [symmetric] del: replicate_append_same)

lemma be_nat_padded: "be_nat (xs @ replicate n 0) = be_nat xs * 256 ^ n"
  by (simp add: be_nat_append)

section \<open>State and exceptions\<close>

text \<open>
  An operation takes the state and returns either an exception or a value, together with
  the state reached: a C++ throw keeps the side effects made before it.
\<close>

type_synonym ('s, 'e, 'a) eff = "'s \<Rightarrow> ('e + 'a) \<times> 's"

definition returnE :: "'a \<Rightarrow> ('s, 'e, 'a) eff" where
  "returnE x s = (Inr x, s)"

definition throwE :: "'e \<Rightarrow> ('s, 'e, 'a) eff" where
  "throwE e s = (Inl e, s)"

definition bindE :: "('s, 'e, 'a) eff \<Rightarrow> ('a \<Rightarrow> ('s, 'e, 'b) eff) \<Rightarrow> ('s, 'e, 'b) eff" where
  "bindE m f s = (case m s of (Inl e, t) \<Rightarrow> (Inl e, t) | (Inr x, t) \<Rightarrow> f x t)"

definition seqE :: "('s, 'e, 'a) eff \<Rightarrow> ('s, 'e, 'b) eff \<Rightarrow> ('s, 'e, 'b) eff" where
  "seqE m k = bindE m (\<lambda>_. k)"

definition ensureE :: "bool \<Rightarrow> 'e \<Rightarrow> ('s, 'e, unit) eff" where
  "ensureE c e = (if c then returnE () else throwE e)"

definition whenE :: "bool \<Rightarrow> ('s, 'e, unit) eff \<Rightarrow> ('s, 'e, unit) eff" where
  "whenE c m = (if c then m else returnE ())"

definition getE :: "('s \<Rightarrow> 'a) \<Rightarrow> ('s, 'e, 'a) eff" where
  "getE f s = (Inr (f s), s)"

definition modifyE :: "('s \<Rightarrow> 's) \<Rightarrow> ('s, 'e, unit) eff" where
  "modifyE f s = (Inr (), f s)"

lemmas [eff_simps] =
  returnE_def throwE_def bindE_def seqE_def ensureE_def whenE_def getE_def modifyE_def

text \<open>A computation that returns, step by step.\<close>

lemma bindE_Inr_iff:
  "bindE m f s = (Inr y, t) \<longleftrightarrow> (\<exists>x u. m s = (Inr x, u) \<and> f x u = (Inr y, t))"
  by (auto simp: bindE_def split: prod.splits sum.splits)

lemma seqE_Inr_iff:
  "seqE m k s = (Inr y, t) \<longleftrightarrow> (\<exists>x u. m s = (Inr x, u) \<and> k u = (Inr y, t))"
  by (simp add: seqE_def bindE_Inr_iff)

lemma ensureE_Inr_iff: "ensureE c e s = (Inr x, t) \<longleftrightarrow> c \<and> t = s"
  by (auto simp: ensureE_def returnE_def throwE_def)

lemma getE_Inr_iff: "getE f s = (Inr x, t) \<longleftrightarrow> x = f s \<and> t = s"
  by (auto simp: getE_def)

lemmas returns_iff = bindE_Inr_iff seqE_Inr_iff ensureE_Inr_iff getE_Inr_iff

text \<open>
  Partial correctness with an exceptional postcondition: started in a state with \<open>P\<close>, a
  normal return satisfies \<open>Q\<close> and a throw satisfies \<open>E\<close>. Invariants, frame conditions and
  the absence of an exception are all instances.
\<close>

definition hoare ::
  "('s \<Rightarrow> bool) \<Rightarrow> ('s, 'e, 'a) eff \<Rightarrow> ('a \<Rightarrow> 's \<Rightarrow> bool) \<Rightarrow> ('e \<Rightarrow> 's \<Rightarrow> bool) \<Rightarrow> bool" where
  "hoare P m Q E \<longleftrightarrow> (\<forall>s. P s \<longrightarrow> (case m s of (Inl e, t) \<Rightarrow> E e t | (Inr x, t) \<Rightarrow> Q x t))"

named_theorems hoare_intros \<open>rules that decompose an operation into its steps\<close>

lemma hoareI:
  "(\<And>s e t. P s \<Longrightarrow> m s = (Inl e, t) \<Longrightarrow> E e t) \<Longrightarrow>
   (\<And>s x t. P s \<Longrightarrow> m s = (Inr x, t) \<Longrightarrow> Q x t) \<Longrightarrow> hoare P m Q E"
  by (auto simp: hoare_def split: prod.splits sum.splits)

lemma hoareD_return: "hoare P m Q E \<Longrightarrow> P s \<Longrightarrow> m s = (Inr x, t) \<Longrightarrow> Q x t"
  by (auto simp: hoare_def split: prod.splits sum.splits)

lemma hoareD_throw: "hoare P m Q E \<Longrightarrow> P s \<Longrightarrow> m s = (Inl e, t) \<Longrightarrow> E e t"
  by (auto simp: hoare_def split: prod.splits sum.splits)

lemma hoare_conseq:
  "hoare P m Q E \<Longrightarrow> (\<And>s. P' s \<Longrightarrow> P s) \<Longrightarrow> (\<And>x s. Q x s \<Longrightarrow> Q' x s) \<Longrightarrow>
   (\<And>e s. E e s \<Longrightarrow> E' e s) \<Longrightarrow> hoare P' m Q' E'"
  by (fastforce simp: hoare_def split: prod.splits sum.splits)

lemma hoare_bind:
  "hoare P m R E \<Longrightarrow> (\<And>x. hoare (R x) (f x) Q E) \<Longrightarrow> hoare P (bindE m f) Q E"
  by (fastforce simp: hoare_def bindE_def split: prod.splits sum.splits)

lemma hoare_seq: "hoare P m (\<lambda>_. R) E \<Longrightarrow> hoare R k Q E \<Longrightarrow> hoare P (seqE m k) Q E"
  unfolding seqE_def by (rule hoare_bind)

lemma hoare_return: "(\<And>s. P s \<Longrightarrow> Q x s) \<Longrightarrow> hoare P (returnE x) Q E"
  by (simp add: hoare_def returnE_def)

lemma hoare_throw: "(\<And>s. P s \<Longrightarrow> E e s) \<Longrightarrow> hoare P (throwE e) Q E"
  by (simp add: hoare_def throwE_def)

lemma hoare_get: "(\<And>s. P s \<Longrightarrow> Q (f s) s) \<Longrightarrow> hoare P (getE f) Q E"
  by (simp add: hoare_def getE_def)

lemma hoare_modify: "(\<And>s. P s \<Longrightarrow> Q () (f s)) \<Longrightarrow> hoare P (modifyE f) Q E"
  by (simp add: hoare_def modifyE_def)

lemma hoare_ensure:
  "(\<And>s. P s \<Longrightarrow> c \<Longrightarrow> Q () s) \<Longrightarrow> (\<And>s. P s \<Longrightarrow> \<not> c \<Longrightarrow> E e s) \<Longrightarrow> hoare P (ensureE c e) Q E"
  by (simp add: ensureE_def hoare_return hoare_throw)

lemma hoare_if:
  "(c \<Longrightarrow> hoare P m Q E) \<Longrightarrow> (\<not> c \<Longrightarrow> hoare P k Q E) \<Longrightarrow> hoare P (if c then m else k) Q E"
  by simp

text \<open>An operation that keeps an invariant whatever happens and throws none of the given exceptions.\<close>

definition inv_ok :: "('s \<Rightarrow> bool) \<Rightarrow> 'e set \<Rightarrow> ('s, 'e, 'a) eff \<Rightarrow> bool" where
  "inv_ok I bad m \<longleftrightarrow> hoare I m (\<lambda>_. I) (\<lambda>e t. I t \<and> e \<notin> bad)"

lemma inv_okD:
  "inv_ok I bad m \<Longrightarrow> I s \<Longrightarrow> I (snd (m s))"
  "inv_ok I bad m \<Longrightarrow> I s \<Longrightarrow> e \<in> bad \<Longrightarrow> fst (m s) \<noteq> Inl e"
  by (cases "m s"; cases "fst (m s)"; force simp: inv_ok_def hoare_def)+

lemma inv_ok_bind [hoare_intros]:
  "inv_ok I bad m \<Longrightarrow> (\<And>x. inv_ok I bad (f x)) \<Longrightarrow> inv_ok I bad (bindE m f)"
  unfolding inv_ok_def by (rule hoare_bind)

lemma inv_ok_seq [hoare_intros]:
  "inv_ok I bad m \<Longrightarrow> inv_ok I bad k \<Longrightarrow> inv_ok I bad (seqE m k)"
  unfolding inv_ok_def by (rule hoare_seq)

lemma inv_ok_return [hoare_intros]: "inv_ok I bad (returnE x)"
  by (simp add: inv_ok_def hoare_return)

lemma inv_ok_get [hoare_intros]: "inv_ok I bad (getE f)"
  by (simp add: inv_ok_def hoare_get)

lemma inv_ok_throw [hoare_intros]: "e \<notin> bad \<Longrightarrow> inv_ok I bad (throwE e)"
  by (simp add: inv_ok_def hoare_throw)

lemma inv_ok_ensure [hoare_intros]: "e \<notin> bad \<Longrightarrow> inv_ok I bad (ensureE c e)"
  by (simp add: ensureE_def inv_ok_return inv_ok_throw)

lemma inv_ok_when [hoare_intros]: "inv_ok I bad m \<Longrightarrow> inv_ok I bad (whenE c m)"
  by (simp add: whenE_def inv_ok_return)

lemma inv_ok_if [hoare_intros]:
  "(c \<Longrightarrow> inv_ok I bad m) \<Longrightarrow> (\<not> c \<Longrightarrow> inv_ok I bad k) \<Longrightarrow> inv_ok I bad (if c then m else k)"
  by simp

lemma inv_ok_modify: "(\<And>s. I s \<Longrightarrow> I (f s)) \<Longrightarrow> inv_ok I bad (modifyE f)"
  by (simp add: inv_ok_def hoare_modify)

lemma inv_okI:
  "(\<And>s. I s \<Longrightarrow> I (snd (m s))) \<Longrightarrow> (\<And>s e. I s \<Longrightarrow> fst (m s) = Inl e \<Longrightarrow> e \<notin> bad) \<Longrightarrow> inv_ok I bad m"
  by (force simp: inv_ok_def hoare_def split: prod.splits sum.splits)

end
