(* ===== verification/Opcodes.thy ===== *)
theory Opcodes
  imports Prelude
begin

text \<open>
  The EVM instruction set as the translator sees it (src/evmtrans/Instruction.h and
  Instruction.cpp): the opcode numbering, the table of stack effects, and the three routines
  that walk over PUSH immediates. The enum has the fixed underlying type uint8_t, so every
  byte is a value of it: an instruction is a byte, and an iterator into the code is an index.
  Reading at an index at or past the end of the vector is not modelled as a value: the
  lemmas carry the bound that the callers maintain.
\<close>

section \<open>Opcode numbering and stack effects\<close>

type_synonym Instruction = byte

definition Instruction_enum :: "(string \<times> nat) list" where
  "Instruction_enum = [
    (''STOP'', 0x00), (''ADD'', 0x01), (''MUL'', 0x02), (''SUB'', 0x03),
    (''DIV'', 0x04), (''SDIV'', 0x05), (''MOD'', 0x06), (''SMOD'', 0x07),
    (''ADDMOD'', 0x08), (''MULMOD'', 0x09), (''EXP'', 0x0a), (''SIGNEXTEND'', 0x0b),
    (''LT'', 0x10), (''GT'', 0x11), (''SLT'', 0x12), (''SGT'', 0x13),
    (''EQ'', 0x14), (''ISZERO'', 0x15), (''AND'', 0x16), (''OR'', 0x17),
    (''XOR'', 0x18), (''NOT'', 0x19), (''BYTE'', 0x1a), (''SHL'', 0x1b),
    (''SHR'', 0x1c), (''SAR'', 0x1d), (''SHA3'', 0x20), (''ADDRESS'', 0x30),
    (''BALANCE'', 0x31), (''ORIGIN'', 0x32), (''CALLER'', 0x33), (''CALLVALUE'', 0x34),
    (''CALLDATALOAD'', 0x35), (''CALLDATASIZE'', 0x36), (''CALLDATACOPY'', 0x37), (''CODESIZE'', 0x38),
    (''CODECOPY'', 0x39), (''GASPRICE'', 0x3a), (''EXTCODESIZE'', 0x3b), (''EXTCODECOPY'', 0x3c),
    (''RETURNDATASIZE'', 0x3d), (''RETURNDATACOPY'', 0x3e), (''EXTCODEHASH'', 0x3f), (''BLOCKHASH'', 0x40),
    (''COINBASE'', 0x41), (''TIMESTAMP'', 0x42), (''NUMBER'', 0x43), (''DIFFICULTY'', 0x44),
    (''GASLIMIT'', 0x45), (''CHAINID'', 0x46), (''SELFBALANCE'', 0x47), (''BASEFEE'', 0x48),
    (''POP'', 0x50), (''MLOAD'', 0x51), (''MSTORE'', 0x52), (''MSTORE8'', 0x53),
    (''SLOAD'', 0x54), (''SSTORE'', 0x55), (''JUMP'', 0x56), (''JUMPI'', 0x57),
    (''PC'', 0x58), (''MSIZE'', 0x59), (''GAS'', 0x5a), (''JUMPDEST'', 0x5b),
    (''PUSH1'', 0x60), (''PUSH2'', 0x61), (''PUSH3'', 0x62), (''PUSH4'', 0x63),
    (''PUSH5'', 0x64), (''PUSH6'', 0x65), (''PUSH7'', 0x66), (''PUSH8'', 0x67),
    (''PUSH9'', 0x68), (''PUSH10'', 0x69), (''PUSH11'', 0x6a), (''PUSH12'', 0x6b),
    (''PUSH13'', 0x6c), (''PUSH14'', 0x6d), (''PUSH15'', 0x6e), (''PUSH16'', 0x6f),
    (''PUSH17'', 0x70), (''PUSH18'', 0x71), (''PUSH19'', 0x72), (''PUSH20'', 0x73),
    (''PUSH21'', 0x74), (''PUSH22'', 0x75), (''PUSH23'', 0x76), (''PUSH24'', 0x77),
    (''PUSH25'', 0x78), (''PUSH26'', 0x79), (''PUSH27'', 0x7a), (''PUSH28'', 0x7b),
    (''PUSH29'', 0x7c), (''PUSH30'', 0x7d), (''PUSH31'', 0x7e), (''PUSH32'', 0x7f),
    (''DUP1'', 0x80), (''DUP2'', 0x81), (''DUP3'', 0x82), (''DUP4'', 0x83),
    (''DUP5'', 0x84), (''DUP6'', 0x85), (''DUP7'', 0x86), (''DUP8'', 0x87),
    (''DUP9'', 0x88), (''DUP10'', 0x89), (''DUP11'', 0x8a), (''DUP12'', 0x8b),
    (''DUP13'', 0x8c), (''DUP14'', 0x8d), (''DUP15'', 0x8e), (''DUP16'', 0x8f),
    (''SWAP1'', 0x90), (''SWAP2'', 0x91), (''SWAP3'', 0x92), (''SWAP4'', 0x93),
    (''SWAP5'', 0x94), (''SWAP6'', 0x95), (''SWAP7'', 0x96), (''SWAP8'', 0x97),
    (''SWAP9'', 0x98), (''SWAP10'', 0x99), (''SWAP11'', 0x9a), (''SWAP12'', 0x9b),
    (''SWAP13'', 0x9c), (''SWAP14'', 0x9d), (''SWAP15'', 0x9e), (''SWAP16'', 0x9f),
    (''LOG0'', 0xa0), (''LOG1'', 0xa1), (''LOG2'', 0xa2), (''LOG3'', 0xa3),
    (''LOG4'', 0xa4), (''CREATE'', 0xf0), (''CALL'', 0xf1), (''CALLCODE'', 0xf2),
    (''RETURN'', 0xf3), (''DELEGATECALL'', 0xf4), (''CREATE2'', 0xf5), (''STATICCALL'', 0xfa),
    (''REVERT'', 0xfd), (''SUICIDE'', 0xff)]"

definition InstrMap :: "(nat \<times> string \<times> nat \<times> nat) list" where
  "InstrMap = [
    (0x00, ''STOP'', 0, 0), (0x01, ''ADD'', 2, 1), (0x02, ''MUL'', 2, 1),
    (0x03, ''SUB'', 2, 1), (0x04, ''DIV'', 2, 1), (0x05, ''SDIV'', 2, 1),
    (0x06, ''MOD'', 2, 1), (0x07, ''SMOD'', 2, 1), (0x08, ''ADDMOD'', 3, 1),
    (0x09, ''MULMOD'', 3, 1), (0x0a, ''EXP'', 2, 1), (0x0b, ''SIGNEXTEND'', 2, 1),
    (0x10, ''LT'', 2, 1), (0x11, ''GT'', 2, 1), (0x12, ''SLT'', 2, 1),
    (0x13, ''SGT'', 2, 1), (0x14, ''EQ'', 2, 1), (0x15, ''ISZERO'', 1, 1),
    (0x16, ''AND'', 2, 1), (0x17, ''OR'', 2, 1), (0x18, ''XOR'', 2, 1),
    (0x19, ''NOT'', 1, 1), (0x1a, ''BYTE'', 2, 1), (0x1b, ''SHL'', 2, 1),
    (0x1c, ''SHR'', 2, 1), (0x1d, ''SAR'', 2, 1), (0x20, ''SHA3'', 2, 1),
    (0x30, ''ADDRESS'', 0, 1), (0x31, ''BALANCE'', 1, 1), (0x32, ''ORIGIN'', 0, 1),
    (0x33, ''CALLER'', 0, 1), (0x34, ''CALLVALUE'', 0, 1), (0x35, ''CALLDATALOAD'', 1, 1),
    (0x36, ''CALLDATASIZE'', 0, 1), (0x37, ''CALLDATACOPY'', 3, 0), (0x38, ''CODESIZE'', 0, 1),
    (0x39, ''CODECOPY'', 3, 0), (0x3a, ''GASPRICE'', 0, 1), (0x3b, ''EXTCODESIZE'', 1, 1),
    (0x3c, ''EXTCODECOPY'', 4, 0), (0x3d, ''RETURNDATASIZE'', 0, 1), (0x3e, ''RETURNDATACOPY'', 3, 0),
    (0x3f, ''EXTCODEHASH'', 1, 1), (0x40, ''BLOCKHASH'', 1, 1), (0x41, ''COINBASE'', 0, 1),
    (0x42, ''TIMESTAMP'', 0, 1), (0x43, ''NUMBER'', 0, 1), (0x44, ''DIFFICULTY'', 0, 1),
    (0x45, ''GASLIMIT'', 0, 1), (0x46, ''CHAINID'', 0, 1), (0x47, ''SELFBALANCE'', 0, 1),
    (0x48, ''BASEFEE'', 0, 1), (0x50, ''POP'', 1, 0), (0x51, ''MLOAD'', 1, 1),
    (0x52, ''MSTORE'', 2, 0), (0x53, ''MSTORE8'', 2, 0), (0x54, ''SLOAD'', 1, 1),
    (0x55, ''SSTORE'', 2, 0), (0x56, ''JUMP'', 1, 0), (0x57, ''JUMPI'', 2, 0),
    (0x58, ''PC'', 0, 1), (0x59, ''MSIZE'', 0, 1), (0x5a, ''GAS'', 0, 1),
    (0x5b, ''JUMPDEST'', 0, 0), (0x60, ''PUSH1'', 0, 1), (0x61, ''PUSH2'', 0, 1),
    (0x62, ''PUSH3'', 0, 1), (0x63, ''PUSH4'', 0, 1), (0x64, ''PUSH5'', 0, 1),
    (0x65, ''PUSH6'', 0, 1), (0x66, ''PUSH7'', 0, 1), (0x67, ''PUSH8'', 0, 1),
    (0x68, ''PUSH9'', 0, 1), (0x69, ''PUSH10'', 0, 1), (0x6a, ''PUSH11'', 0, 1),
    (0x6b, ''PUSH12'', 0, 1), (0x6c, ''PUSH13'', 0, 1), (0x6d, ''PUSH14'', 0, 1),
    (0x6e, ''PUSH15'', 0, 1), (0x6f, ''PUSH16'', 0, 1), (0x70, ''PUSH17'', 0, 1),
    (0x71, ''PUSH18'', 0, 1), (0x72, ''PUSH19'', 0, 1), (0x73, ''PUSH20'', 0, 1),
    (0x74, ''PUSH21'', 0, 1), (0x75, ''PUSH22'', 0, 1), (0x76, ''PUSH23'', 0, 1),
    (0x77, ''PUSH24'', 0, 1), (0x78, ''PUSH25'', 0, 1), (0x79, ''PUSH26'', 0, 1),
    (0x7a, ''PUSH27'', 0, 1), (0x7b, ''PUSH28'', 0, 1), (0x7c, ''PUSH29'', 0, 1),
    (0x7d, ''PUSH20'', 0, 1), (0x7e, ''PUSH31'', 0, 1), (0x7f, ''PUSH32'', 0, 1),
    (0x80, ''DUP1'', 1, 2), (0x81, ''DUP2'', 2, 3), (0x82, ''DUP3'', 3, 4),
    (0x83, ''DUP4'', 4, 5), (0x84, ''DUP5'', 5, 6), (0x85, ''DUP6'', 6, 7),
    (0x86, ''DUP7'', 7, 8), (0x87, ''DUP8'', 8, 9), (0x88, ''DUP9'', 9, 10),
    (0x89, ''DUP10'', 10, 11), (0x8a, ''DUP11'', 11, 12), (0x8b, ''DUP12'', 12, 13),
    (0x8c, ''DUP13'', 13, 14), (0x8d, ''DUP14'', 14, 15), (0x8e, ''DUP15'', 15, 16),
    (0x8f, ''DUP16'', 16, 17), (0x90, ''SWAP1'', 2, 2), (0x91, ''SWAP2'', 3, 3),
    (0x92, ''SWAP3'', 4, 4), (0x93, ''SWAP4'', 5, 5), (0x94, ''SWAP5'', 6, 6),
    (0x95, ''SWAP6'', 7, 7), (0x96, ''SWAP7'', 8, 8), (0x97, ''SWAP8'', 9, 9),
    (0x98, ''SWAP9'', 10, 10), (0x99, ''SWAP10'', 11, 11), (0x9a, ''SWAP11'', 12, 12),
    (0x9b, ''SWAP12'', 13, 13), (0x9c, ''SWAP13'', 14, 14), (0x9d, ''SWAP14'', 15, 15),
    (0x9e, ''SWAP15'', 16, 16), (0x9f, ''SWAP16'', 17, 17), (0xa0, ''LOG0'', 2, 0),
    (0xa1, ''LOG1'', 3, 0), (0xa2, ''LOG2'', 4, 0), (0xa3, ''LOG3'', 5, 0),
    (0xa4, ''LOG4'', 6, 0), (0xf0, ''CREATE'', 3, 1), (0xf1, ''CALL'', 7, 1),
    (0xf2, ''CALLCODE'', 7, 1), (0xf3, ''RETURN'', 2, 0), (0xf4, ''DELEGATECALL'', 6, 1),
    (0xf5, ''CREATE2'', 4, 1), (0xfa, ''STATICCALL'', 6, 1), (0xfd, ''REVERT'', 2, 0),
    (0xfe, ''INVALID'', 0, 0), (0xff, ''SUICIDE'', 1, 0)]"

abbreviation (input) I_STOP :: byte where "I_STOP \<equiv> 0x00"
abbreviation (input) I_ADD :: byte where "I_ADD \<equiv> 0x01"
abbreviation (input) I_MUL :: byte where "I_MUL \<equiv> 0x02"
abbreviation (input) I_SUB :: byte where "I_SUB \<equiv> 0x03"
abbreviation (input) I_DIV :: byte where "I_DIV \<equiv> 0x04"
abbreviation (input) I_SDIV :: byte where "I_SDIV \<equiv> 0x05"
abbreviation (input) I_MOD :: byte where "I_MOD \<equiv> 0x06"
abbreviation (input) I_SMOD :: byte where "I_SMOD \<equiv> 0x07"
abbreviation (input) I_ADDMOD :: byte where "I_ADDMOD \<equiv> 0x08"
abbreviation (input) I_MULMOD :: byte where "I_MULMOD \<equiv> 0x09"
abbreviation (input) I_EXP :: byte where "I_EXP \<equiv> 0x0a"
abbreviation (input) I_SIGNEXTEND :: byte where "I_SIGNEXTEND \<equiv> 0x0b"
abbreviation (input) I_LT :: byte where "I_LT \<equiv> 0x10"
abbreviation (input) I_GT :: byte where "I_GT \<equiv> 0x11"
abbreviation (input) I_SLT :: byte where "I_SLT \<equiv> 0x12"
abbreviation (input) I_SGT :: byte where "I_SGT \<equiv> 0x13"
abbreviation (input) I_EQ :: byte where "I_EQ \<equiv> 0x14"
abbreviation (input) I_ISZERO :: byte where "I_ISZERO \<equiv> 0x15"
abbreviation (input) I_AND :: byte where "I_AND \<equiv> 0x16"
abbreviation (input) I_OR :: byte where "I_OR \<equiv> 0x17"
abbreviation (input) I_XOR :: byte where "I_XOR \<equiv> 0x18"
abbreviation (input) I_NOT :: byte where "I_NOT \<equiv> 0x19"
abbreviation (input) I_BYTE :: byte where "I_BYTE \<equiv> 0x1a"
abbreviation (input) I_SHL :: byte where "I_SHL \<equiv> 0x1b"
abbreviation (input) I_SHR :: byte where "I_SHR \<equiv> 0x1c"
abbreviation (input) I_SAR :: byte where "I_SAR \<equiv> 0x1d"
abbreviation (input) I_SHA3 :: byte where "I_SHA3 \<equiv> 0x20"
abbreviation (input) I_CODECOPY :: byte where "I_CODECOPY \<equiv> 0x39"
abbreviation (input) I_POP :: byte where "I_POP \<equiv> 0x50"
abbreviation (input) I_JUMP :: byte where "I_JUMP \<equiv> 0x56"
abbreviation (input) I_JUMPI :: byte where "I_JUMPI \<equiv> 0x57"
abbreviation (input) I_PC :: byte where "I_PC \<equiv> 0x58"
abbreviation (input) I_JUMPDEST :: byte where "I_JUMPDEST \<equiv> 0x5b"
abbreviation (input) I_PUSH1 :: byte where "I_PUSH1 \<equiv> 0x60"
abbreviation (input) I_PUSH32 :: byte where "I_PUSH32 \<equiv> 0x7f"
abbreviation (input) I_DUP1 :: byte where "I_DUP1 \<equiv> 0x80"
abbreviation (input) I_DUP16 :: byte where "I_DUP16 \<equiv> 0x8f"
abbreviation (input) I_SWAP1 :: byte where "I_SWAP1 \<equiv> 0x90"
abbreviation (input) I_SWAP16 :: byte where "I_SWAP16 \<equiv> 0x9f"
abbreviation (input) I_LOG0 :: byte where "I_LOG0 \<equiv> 0xa0"
abbreviation (input) I_LOG4 :: byte where "I_LOG4 \<equiv> 0xa4"
abbreviation (input) I_CREATE :: byte where "I_CREATE \<equiv> 0xf0"
abbreviation (input) I_CALL :: byte where "I_CALL \<equiv> 0xf1"
abbreviation (input) I_CALLCODE :: byte where "I_CALLCODE \<equiv> 0xf2"
abbreviation (input) I_RETURN :: byte where "I_RETURN \<equiv> 0xf3"
abbreviation (input) I_DELEGATECALL :: byte where "I_DELEGATECALL \<equiv> 0xf4"
abbreviation (input) I_CREATE2 :: byte where "I_CREATE2 \<equiv> 0xf5"
abbreviation (input) I_STATICCALL :: byte where "I_STATICCALL \<equiv> 0xfa"
abbreviation (input) I_REVERT :: byte where "I_REVERT \<equiv> 0xfd"
abbreviation (input) I_SUICIDE :: byte where "I_SUICIDE \<equiv> 0xff"

text \<open>
  The keys of both tables are written as numbers; the key of an opcode is its byte's value.
  The subscript operator of std::map default-constructs the entry of an absent key: an
  opcode outside the table has the empty name and the stack effect (0, 0).
\<close>

definition InstrMap_get :: "Instruction \<Rightarrow> string \<times> nat \<times> nat" where
  "InstrMap_get op = (case map_of InstrMap (unat op) of None \<Rightarrow> ('''', 0, 0) | Some t \<Rightarrow> t)"

definition stk_outs :: "Instruction \<Rightarrow> nat" where
  "stk_outs op = fst (snd (InstrMap_get op))"

definition stk_ins :: "Instruction \<Rightarrow> nat" where
  "stk_ins op = snd (snd (InstrMap_get op))"

section \<open>PUSH immediates\<close>

definition isPush :: "Instruction \<Rightarrow> bool" where
  "isPush op \<longleftrightarrow> I_PUSH1 \<le> op \<and> op \<le> I_PUSH32"

definition pushBytes :: "Instruction \<Rightarrow> nat" where
  "pushBytes op = unat op - 0x60 + 1"

fun readPushLoop :: "byte list \<Rightarrow> nat \<Rightarrow> nat \<Rightarrow> nat \<Rightarrow> w256 \<Rightarrow> nat \<times> w256" where
  "readPushLoop code 0 cur e value = (cur, value)"
| "readPushLoop code (Suc n) cur e value =
     (let (b, cur') = (if cur \<noteq> e then (code ! cur, Suc cur) else (0, cur))
      in readPushLoop code n cur' e ((push_bit 8 value) OR ucast b))"

text \<open>\<open>None\<close> is the failed assertion that the iterator points at a PUSH.\<close>

definition readPushData :: "byte list \<Rightarrow> nat \<Rightarrow> nat \<Rightarrow> (w256 \<times> nat) option" where
  "readPushData code cur e =
     (let pushInst = code ! cur in
      if \<not> isPush pushInst then None
      else (let (cur', value) = readPushLoop code (pushBytes pushInst) (Suc cur) e 0
            in Some (value, cur' - 1)))"

fun skipPushLoop :: "nat \<Rightarrow> nat \<Rightarrow> nat \<Rightarrow> nat" where
  "skipPushLoop 0 cur e = cur"
| "skipPushLoop (Suc n) cur e = (if cur < e then skipPushLoop n (Suc cur) e else cur)"

definition skipPushData :: "byte list \<Rightarrow> nat \<Rightarrow> nat \<Rightarrow> nat option" where
  "skipPushData code cur e =
     (let pushInst = code ! cur in
      if \<not> isPush pushInst then None
      else Some (skipPushLoop (pushBytes pushInst) cur (e - 1)))"

definition skipPushDataAndGetNext :: "byte list \<Rightarrow> nat \<Rightarrow> nat \<Rightarrow> nat" where
  "skipPushDataAndGetNext code cur e =
     (let offset = 1 + (if I_PUSH1 \<le> code ! cur \<and> code ! cur \<le> I_PUSH32
                        then min (unat (code ! cur) - 0x60 + 1) ((e - cur) - 1) else 0)
      in cur + offset)"

section \<open>Reference readings\<close>

text \<open>The immediate of a PUSH: the bytes that are there, then zeros.\<close>

definition pushSlice :: "byte list \<Rightarrow> nat \<Rightarrow> nat \<Rightarrow> nat \<Rightarrow> byte list" where
  "pushSlice code cur e n =
     take (min n (e - cur)) (drop cur code) @ replicate (n - (e - cur)) 0"

text \<open>The stack effects of the opcodes in a range, in table order.\<close>

definition InstrMap_range :: "nat \<Rightarrow> nat \<Rightarrow> (nat \<times> nat \<times> nat) list" where
  "InstrMap_range a b =
     map (\<lambda>(k, n, ou, i). (k, ou, i)) (filter (\<lambda>(k, _). a \<le> k \<and> k < b) InstrMap)"

section \<open>Facts\<close>

lemma shift_in_byte: "(push_bit 8 v OR ucast (b :: byte) :: w256) = v * 256 + ucast b"
proof -
  have "push_bit 8 v AND (ucast b :: w256) = 0"
    by (rule bit_word_eqI) (auto simp: bit_simps dest: bit_imp_le_length)
  then have "push_bit 8 v OR (ucast b :: w256) = push_bit 8 v + ucast b"
    by (simp add: disjunctive_add_eq_or)
  then show ?thesis by (simp add: push_bit_eq_mult)
qed

lemma pushSlice_Suc_in:
  assumes "cur < e" "e \<le> length code"
  shows "pushSlice code cur e (Suc n) = code ! cur # pushSlice code (Suc cur) e n"
proof -
  have d: "drop cur code = code ! cur # drop (Suc cur) code"
    using assms by (simp add: Cons_nth_drop_Suc)
  have m: "min (Suc n) (e - cur) = Suc (min n (e - Suc cur))"
    and r: "Suc n - (e - cur) = n - (e - Suc cur)"
    using assms by auto
  show ?thesis unfolding pushSlice_def by (simp only: d m r take_Suc_Cons append_Cons)
qed

lemma pushSlice_end: "pushSlice code e e n = replicate n 0"
  by (simp add: pushSlice_def)

lemma length_pushSlice: "e \<le> length code \<Longrightarrow> cur \<le> e \<Longrightarrow> length (pushSlice code cur e n) = n"
  by (auto simp: pushSlice_def)

lemma be_nat_Cons: "be_nat (b # bs) = unat b * 256 ^ length bs + be_nat bs"
  using be_nat_append [of "[b]" bs] by (simp add: be_nat_def)

lemma readPushLoop_value:
  assumes "cur \<le> e" "e \<le> length code"
  shows "readPushLoop code n cur e v =
           (cur + min n (e - cur), v * 256 ^ n + of_nat (be_nat (pushSlice code cur e n)))"
  using assms
proof (induction n arbitrary: cur v)
  case 0
  then show ?case by (simp add: pushSlice_def)
next
  case (Suc n)
  show ?case
  proof (cases "cur = e")
    case True
    then show ?thesis
      using Suc by (simp add: pushSlice_end shift_in_byte algebra_simps be_nat_Cons)
  next
    case False
    with Suc.prems have lt: "cur < e" by simp
    have len: "length (pushSlice code (Suc cur) e n) = n"
      using lt Suc.prems by (intro length_pushSlice) auto
    have "readPushLoop code (Suc n) cur e v =
            readPushLoop code n (Suc cur) e (v * 256 + ucast (code ! cur))"
      using lt by (simp add: shift_in_byte)
    also have "\<dots> = (Suc cur + min n (e - Suc cur),
        (v * 256 + ucast (code ! cur)) * 256 ^ n + of_nat (be_nat (pushSlice code (Suc cur) e n)))"
      using lt Suc.prems by (intro Suc.IH) auto
    also have "\<dots> = (cur + min (Suc n) (e - cur),
        v * 256 ^ Suc n + of_nat (be_nat (pushSlice code cur e (Suc n))))"
      using lt Suc.prems len
      by (simp add: pushSlice_Suc_in be_nat_Cons algebra_simps)
    finally show ?thesis .
  qed
qed

lemma skipPushLoop_eq: "cur \<le> e \<Longrightarrow> skipPushLoop n cur e = cur + min n (e - cur)"
  by (induction n arbitrary: cur) auto

lemma pushBytes_range: "isPush op \<Longrightarrow> 1 \<le> pushBytes op \<and> pushBytes op \<le> 32"
  by (auto simp: isPush_def pushBytes_def word_le_nat_alt)

lemma getNext_gt [code_scan]: "cur < skipPushDataAndGetNext code cur e"
  by (simp add: skipPushDataAndGetNext_def Let_def)

lemma getNext_le [code_scan]: "cur < e \<Longrightarrow> skipPushDataAndGetNext code cur e \<le> e"
  by (auto simp: skipPushDataAndGetNext_def Let_def)

lemma getNext_push:
  "isPush (code ! cur) \<Longrightarrow> cur < e \<Longrightarrow>
     skipPushDataAndGetNext code cur e = Suc cur + min (pushBytes (code ! cur)) (e - Suc cur)"
  by (simp add: skipPushDataAndGetNext_def isPush_def pushBytes_def Let_def)

lemma getNext_other [code_scan]:
  "\<not> isPush (code ! cur) \<Longrightarrow> skipPushDataAndGetNext code cur e = Suc cur"
  by (auto simp: skipPushDataAndGetNext_def isPush_def Let_def)

lemma InstrMap_push_range: "InstrMap_range 0x60 0x80 = map (\<lambda>k. (k, 0, 1)) [0x60..<0x80]"
  by (simp add: InstrMap_range_def InstrMap_def)

lemma InstrMap_dup_range:
  "InstrMap_range 0x80 0x90 = map (\<lambda>k. (k, k - 0x7f, k - 0x7e)) [0x80..<0x90]"
  by (simp add: InstrMap_range_def InstrMap_def)

lemma InstrMap_swap_range:
  "InstrMap_range 0x90 0xa0 = map (\<lambda>k. (k, k - 0x8e, k - 0x8e)) [0x90..<0xa0]"
  by (simp add: InstrMap_range_def InstrMap_def)

lemma InstrMap_distinct: "distinct (map fst InstrMap)"
  by (simp add: InstrMap_def)

lemma InstrMap_bound: "list_all (\<lambda>(k, n, ou, i). ou \<le> 17 \<and> i \<le> 17) InstrMap"
  by (simp add: InstrMap_def)

lemma stk_effect_range:
  assumes "InstrMap_range a b = map (\<lambda>k. (k, f k, g k)) [a..<b]"
    and "a \<le> unat op" "unat op < b"
  shows "stk_outs op = f (unat op) \<and> stk_ins op = g (unat op)"
proof -
  have "(unat op, f (unat op), g (unat op)) \<in> set (map (\<lambda>k. (k, f k, g k)) [a..<b])"
    using assms by auto
  then have "(unat op, f (unat op), g (unat op)) \<in> set (InstrMap_range a b)"
    using assms by simp
  then obtain n where "(unat op, n, f (unat op), g (unat op)) \<in> set InstrMap"
    by (auto simp: InstrMap_range_def)
  then have "map_of InstrMap (unat op) = Some (n, f (unat op), g (unat op))"
    using InstrMap_distinct by simp
  then show ?thesis by (simp add: stk_outs_def stk_ins_def InstrMap_get_def)
qed

lemma stk_effect_push: "isPush op \<Longrightarrow> stk_outs op = 0 \<and> stk_ins op = 1"
  using stk_effect_range [OF InstrMap_push_range, of op] by (auto simp: isPush_def word_le_nat_alt)

lemma stk_effect_dup: "I_DUP1 \<le> op \<and> op \<le> I_DUP16 \<Longrightarrow> stk_outs op = unat op - 0x7f \<and> stk_ins op = unat op - 0x7e"
  using stk_effect_range [OF InstrMap_dup_range, of op] by (auto simp: word_le_nat_alt)

lemma stk_effect_swap: "I_SWAP1 \<le> op \<and> op \<le> I_SWAP16 \<Longrightarrow> stk_outs op = unat op - 0x8e \<and> stk_ins op = unat op - 0x8e"
  using stk_effect_range [OF InstrMap_swap_range, of op] by (auto simp: word_le_nat_alt)

lemma stk_effect_bound: "stk_outs op \<le> 17 \<and> stk_ins op \<le> 17"
  using InstrMap_bound
  by (force simp: stk_outs_def stk_ins_def InstrMap_get_def list_all_iff split: option.splits dest: map_of_SomeD)

lemma readPushLoop_ge: "cur \<le> fst (readPushLoop code n cur e v)"
proof (induction n arbitrary: cur v)
  case (Suc n)
  have "cur \<le> fst (readPushLoop code n (Suc cur) e w)" for w using Suc.IH [of "Suc cur" w] by simp
  then show ?case using Suc.IH by (auto simp: Let_def)
qed simp

lemma readPushData_ge: "readPushData code it e = Some (v, it') \<Longrightarrow> it \<le> it'"
  using readPushLoop_ge [of "Suc it" code "pushBytes (code ! it)" e 0]
  by (auto simp: readPushData_def Let_def split: if_splits prod.splits)

lemma readPushData_eq:
  assumes "isPush (code ! it)" and "it < e" and "e \<le> length code"
  shows "readPushData code it e =
    Some (of_nat (be_nat (pushSlice code (Suc it) e (pushBytes (code ! it)))), skipPushDataAndGetNext code it e - 1)"
  using assms readPushLoop_value [of "Suc it" e code "pushBytes (code ! it)" 0]
  by (simp add: readPushData_def Let_def getNext_push)

text \<open>
  The value a PUSH reads is the big-endian number of its immediate bytes, bytes past
  the end of the code read as zero, and it is below 256 to the number of bytes.
\<close>

theorem readPushData_big_endian:
  assumes "cur < e" "e \<le> length code" "isPush (code ! cur)"
  shows "\<exists>value cur'. readPushData code cur e = Some (value, cur')
       \<and> unat value = be_nat (pushSlice code (Suc cur) e (pushBytes (code ! cur)))
       \<and> unat value < 256 ^ pushBytes (code ! cur)
       \<and> cur' = cur + min (pushBytes (code ! cur)) (e - Suc cur)"
proof -
  let ?n = "pushBytes (code ! cur)"
  let ?bs = "pushSlice code (Suc cur) e ?n"
  have len: "length ?bs = ?n" using assms by (intro length_pushSlice) auto
  have lt: "be_nat ?bs < 256 ^ ?n" using be_nat_bound [of ?bs] by (simp add: len)
  have "(256::nat) ^ ?n \<le> 256 ^ 32"
    using pushBytes_range [OF assms(3)] by (intro power_increasing) auto
  then have "be_nat ?bs < 2 ^ 256" using lt by simp
  then have u: "unat (of_nat (be_nat ?bs) :: w256) = be_nat ?bs"
    by (simp add: unat_of_nat)
  have "readPushData code cur e =
          Some (of_nat (be_nat ?bs), cur + min ?n (e - Suc cur))"
    using assms readPushLoop_value [of "Suc cur" e code ?n 0]
    by (simp add: readPushData_def Let_def)
  then show ?thesis using u lt by auto
qed

theorem readPushData_big_endian_witness:
  "\<exists>value cur'. readPushData [0x61, 0x12] 0 2 = Some (value, cur')
     \<and> unat value = be_nat (pushSlice [0x61, 0x12] (Suc 0) 2 (pushBytes 0x61))
     \<and> unat value < 256 ^ pushBytes 0x61
     \<and> cur' = 0 + min (pushBytes 0x61) (2 - Suc 0)"
  using readPushData_big_endian [of 0 2 "[0x61, 0x12]"] by (simp add: isPush_def)

text \<open>
  the three walkers agree on every PUSH: after reading, after skipping, and one before
  the next instruction, the iterator is at the same last real byte, inside the code.
\<close>

theorem push_walkers_agree:
  assumes "cur < e" "e \<le> length code" "isPush (code ! cur)"
  shows "map_option snd (readPushData code cur e) = skipPushData code cur e
       \<and> skipPushData code cur e = Some (skipPushDataAndGetNext code cur e - 1)
       \<and> cur < skipPushDataAndGetNext code cur e
       \<and> skipPushDataAndGetNext code cur e \<le> e"
proof -
  let ?n = "pushBytes (code ! cur)"
  have r: "map_option snd (readPushData code cur e) = Some (cur + min ?n (e - Suc cur))"
    using assms readPushLoop_value [of "Suc cur" e code ?n 0]
    by (simp add: readPushData_def Let_def)
  have s: "skipPushData code cur e = Some (cur + min ?n (e - Suc cur))"
    using assms by (simp add: skipPushData_def skipPushLoop_eq Let_def)
  have g: "skipPushDataAndGetNext code cur e = Suc (cur + min ?n (e - Suc cur))"
    using assms by (simp add: getNext_push)
  show ?thesis using r s g getNext_le [OF assms(1), of code] by simp
qed

theorem push_walkers_agree_witness:
  "map_option snd (readPushData [0x62, 1] 0 2) = skipPushData [0x62, 1] 0 2
     \<and> skipPushData [0x62, 1] 0 2 = Some (skipPushDataAndGetNext [0x62, 1] 0 2 - 1)
     \<and> 0 < skipPushDataAndGetNext [0x62, 1] 0 2
     \<and> skipPushDataAndGetNext [0x62, 1] 0 2 \<le> 2"
  using push_walkers_agree [of 0 2 "[0x62, 1]"] by (simp add: isPush_def)

text \<open>
  the enum and the table of stack effects list the same opcodes in the same order; every
  name agrees but one: the entry of 0x7d, the enum's PUSH30, is named PUSH20. The table adds
  the one opcode 0xfe (INVALID). The PUSH, DUP and SWAP rows have the effects of these
  families, and no opcode takes or leaves more than 17 items.
\<close>

theorem instr_tables_agree:
  "map (\<lambda>(k, n, _). (n, k)) (filter (\<lambda>(k, _). k \<noteq> 0xfe) InstrMap)
     = map (\<lambda>(n, v). (if v = 0x7d then ''PUSH20'' else n, v)) Instruction_enum
   \<and> InstrMap_range 0x60 0x80 = map (\<lambda>k. (k, 0, 1)) [0x60..<0x80]
   \<and> InstrMap_range 0x80 0x90 = map (\<lambda>k. (k, k - 0x7f, k - 0x7e)) [0x80..<0x90]
   \<and> InstrMap_range 0x90 0xa0 = map (\<lambda>k. (k, k - 0x8e, k - 0x8e)) [0x90..<0xa0]
   \<and> (\<forall>op. stk_outs op \<le> 17 \<and> stk_ins op \<le> 17)"
proof (intro conjI)
  show "map (\<lambda>(k, n, _). (n, k)) (filter (\<lambda>(k, _). k \<noteq> 0xfe) InstrMap)
     = map (\<lambda>(n, v). (if v = 0x7d then ''PUSH20'' else n, v)) Instruction_enum"
    by (simp add: InstrMap_def Instruction_enum_def)
qed (simp_all only: InstrMap_push_range InstrMap_dup_range InstrMap_swap_range stk_effect_bound simp_thms)

end
