(* ===== verification/Blocks.thy ===== *)
theory Blocks
  imports Opcodes
begin

text \<open>
  Splitting EVM byte code: the separation of deployment and run-time code (splitCode), the
  partition into basic blocks (WASMCompiler::createBasicBlocks) and the stack summary of a
  block (BasicBlock::ctxDep). An iterator is an index into the code vector; the loops stop at
  the end iterator, which every walk reaches exactly (lemma getNext_le). The CFG edges that
  BasicBlock also stores are filled in by the theory Dry_Run.
\<close>

section \<open>Blocks\<close>

record BasicBlock =
  firstInstrIdx :: nat
  bb_begin :: nat
  bb_end :: nat
  stk_in :: nat
  stk_out :: nat

text \<open>BasicBlock::terminator is the last byte of the block, not its last instruction.\<close>

definition terminatorIdx :: "BasicBlock \<Rightarrow> nat" where
  "terminatorIdx b = firstInstrIdx b + bb_end b - bb_begin b - 1"

definition terminator :: "byte list \<Rightarrow> BasicBlock \<Rightarrow> Instruction" where
  "terminator code b = code ! (bb_end b - 1)"

section \<open>The stack summary of a block\<close>

definition ctxDep_step :: "Instruction \<Rightarrow> nat \<times> nat \<Rightarrow> nat \<times> nat" where
  "ctxDep_step op = (\<lambda>(prev_s, curr_s).
     (let (prev_s', curr_s') =
        (if curr_s \<ge> stk_outs op then (prev_s, curr_s - stk_outs op)
         else (prev_s + (stk_outs op - curr_s), 0))
      in (prev_s', curr_s' + stk_ins op)))"

function ctxDep_loop :: "byte list \<Rightarrow> nat \<Rightarrow> nat \<Rightarrow> nat \<times> nat \<Rightarrow> nat \<times> nat" where
  "ctxDep_loop code it e acc =
     (if e \<le> it then acc
      else ctxDep_loop code (skipPushDataAndGetNext code it e) e (ctxDep_step (code ! it) acc))"
  by pat_completeness auto
termination
  by (relation "measure (\<lambda>(code, it, e, acc). e - it)") (auto simp: getNext_gt diff_less_mono2)

definition ctxDep :: "byte list \<Rightarrow> nat \<Rightarrow> nat \<Rightarrow> nat \<times> nat" where
  "ctxDep code b e = ctxDep_loop code b e (0, 0)"

definition mkBasicBlock :: "byte list \<Rightarrow> nat \<Rightarrow> nat \<Rightarrow> BasicBlock" where
  "mkBasicBlock code b e =
     (let (prev_s, curr_s) = ctxDep code b e
      in \<lparr>firstInstrIdx = b, bb_begin = b, bb_end = e, stk_in = prev_s, stk_out = curr_s\<rparr>)"

section \<open>Splitting the code\<close>

definition endsFlow :: "Instruction \<Rightarrow> bool" where
  "endsFlow op \<longleftrightarrow> op = I_JUMP \<or> op = I_RETURN \<or> op = I_REVERT \<or> op = I_STOP \<or> op = I_SUICIDE"

function createBlocksLoop ::
  "byte list \<Rightarrow> nat \<Rightarrow> nat \<Rightarrow> bool \<Rightarrow> nat \<Rightarrow> BasicBlock list \<Rightarrow> BasicBlock list" where
  "createBlocksLoop code e cur isDead blk blocks =
     (if e \<le> cur then blocks
      else
        (let next = skipPushDataAndGetNext code cur e in
         if isDead \<and> code ! cur \<noteq> I_JUMPDEST
         then createBlocksLoop code e next isDead blk blocks
         else
           (let begin1 = (if isDead then cur else blk);
                isDead1 = endsFlow (code ! cur);
                isEnd = (isDead1 \<or> code ! cur = I_JUMPI \<or> next = e \<or> code ! next = I_JUMPDEST)
            in if isEnd
               then createBlocksLoop code e next isDead1 next (blocks @ [mkBasicBlock code begin1 next])
               else createBlocksLoop code e next isDead1 begin1 blocks)))"
  by pat_completeness auto
termination
  by (relation "measure (\<lambda>(code, e, cur, isDead, blk, blocks). e - cur)")
     (auto simp: getNext_gt diff_less_mono2)

definition createBasicBlocks :: "byte list \<Rightarrow> BasicBlock list" where
  "createBasicBlocks code = createBlocksLoop code (length code) 0 False 0 []"

function splitLoop :: "byte list \<Rightarrow> nat \<Rightarrow> bool \<Rightarrow> bool \<Rightarrow> nat \<Rightarrow> int \<times> nat" where
  "splitLoop code cur existCodeCopy existReturn retPC =
     (if length code \<le> cur then (-1, retPC)
      else
        (let next = skipPushDataAndGetNext code cur (length code) in
         if code ! cur = I_CODECOPY then splitLoop code next True existReturn retPC
         else if code ! cur = I_RETURN then
           (if existCodeCopy then splitLoop code next existCodeCopy True cur
            else splitLoop code next existCodeCopy existReturn retPC)
         else if code ! cur = I_PUSH1 then
           (if existReturn then (int cur, retPC)
            else splitLoop code next existCodeCopy existReturn retPC)
         else splitLoop code next existCodeCopy existReturn retPC))"
  by pat_completeness auto
termination
  by (relation "measure (\<lambda>(code, cur, c, r, p). length code - cur)")
     (auto simp: getNext_gt diff_less_mono2)

definition splitCode :: "byte list \<Rightarrow> nat \<Rightarrow> int \<times> nat" where
  "splitCode code retPC = splitLoop code 0 False False retPC"

declare ctxDep_loop.simps [simp del] createBlocksLoop.simps [simp del] splitLoop.simps [simp del]

section \<open>Reference readings\<close>

text \<open>The instruction boundaries of the code between two boundaries.\<close>

function instrs :: "byte list \<Rightarrow> nat \<Rightarrow> nat \<Rightarrow> nat list" where
  "instrs code cur e =
     (if e \<le> cur then [] else cur # instrs code (skipPushDataAndGetNext code cur e) e)"
  by pat_completeness auto
termination
  by (relation "measure (\<lambda>(code, cur, e). e - cur)") (auto simp: getNext_gt diff_less_mono2)

declare instrs.simps [simp del]

text \<open>The jump destinations of the Yellow Paper: the JUMPDEST bytes that are instructions.\<close>

definition validJumpdests :: "byte list \<Rightarrow> nat set" where
  "validJumpdests code = {i \<in> set (instrs code 0 (length code)). code ! i = I_JUMPDEST}"

text \<open>The height of the EVM stack after a run of instructions; \<open>None\<close> is an underflow.\<close>

fun run_height :: "Instruction list \<Rightarrow> nat \<Rightarrow> nat option" where
  "run_height [] h = Some h"
| "run_height (op # ops) h =
     (if h < stk_outs op then None else run_height ops (h - stk_outs op + stk_ins op))"

text \<open>
  What a block of the partition satisfies: it lies between two boundaries, JUMPDEST occurs
  only as its first instruction, and an instruction that ends the flow only as its last one.
\<close>

definition wf_block :: "byte list \<Rightarrow> BasicBlock \<Rightarrow> bool" where
  "wf_block code b \<longleftrightarrow>
     bb_begin b < bb_end b \<and> bb_end b \<le> length code
   \<and> firstInstrIdx b = bb_begin b
   \<and> bb_begin b \<in> set (instrs code 0 (length code))
   \<and> (\<forall>i \<in> set (instrs code (bb_begin b) (bb_end b)).
        i \<in> set (instrs code 0 (length code))
        \<and> (code ! i = I_JUMPDEST \<longrightarrow> i = bb_begin b)
        \<and> (endsFlow (code ! i) \<or> code ! i = I_JUMPI \<longrightarrow>
             skipPushDataAndGetNext code i (length code) = bb_end b))
   \<and> (stk_in b, stk_out b) = ctxDep code (bb_begin b) (bb_end b)"

fun ordered_blocks :: "BasicBlock list \<Rightarrow> bool" where
  "ordered_blocks [] = True"
| "ordered_blocks [b] = True"
| "ordered_blocks (b # c # bs) = (bb_end b \<le> bb_begin c \<and> ordered_blocks (c # bs))"

text \<open>
  Where the run-time code starts: the first PUSH1 after the first RETURN after the first
  CODECOPY, over the instructions of the code.
\<close>

definition after_first :: "byte list \<Rightarrow> Instruction \<Rightarrow> nat list \<Rightarrow> nat list" where
  "after_first code op is = drop 1 (dropWhile (\<lambda>i. code ! i \<noteq> op) is)"

definition splitSpec :: "byte list \<Rightarrow> nat option" where
  "splitSpec code =
     (case dropWhile (\<lambda>i. code ! i \<noteq> I_PUSH1)
             (after_first code I_RETURN (after_first code I_CODECOPY (instrs code 0 (length code)))) of
        [] \<Rightarrow> None | p # _ \<Rightarrow> Some p)"

text \<open>When the splitting loop ends a block, and what holds of a block it has open.\<close>

definition closesBlock :: "byte list \<Rightarrow> nat \<Rightarrow> nat \<Rightarrow> bool" where
  "closesBlock code e cur \<longleftrightarrow>
     endsFlow (code ! cur) \<or> code ! cur = I_JUMPI
   \<or> skipPushDataAndGetNext code cur e = e
   \<or> code ! (skipPushDataAndGetNext code cur e) = I_JUMPDEST"

definition openRun :: "byte list \<Rightarrow> nat \<Rightarrow> nat \<Rightarrow> bool" where
  "openRun code blk cur \<longleftrightarrow>
     blk = cur
   \<or> (blk < cur \<and> blk \<in> set (instrs code 0 (length code))
      \<and> cur \<in> set (instrs code blk (length code)) \<and> code ! cur \<noteq> I_JUMPDEST
      \<and> (\<forall>i \<in> set (instrs code blk cur).
           (code ! i = I_JUMPDEST \<longrightarrow> i = blk) \<and> \<not> endsFlow (code ! i) \<and> code ! i \<noteq> I_JUMPI))"

text \<open>
  Code the flow cannot fall into: a flow-ending instruction lies before it with no JUMPDEST
  instruction between.
\<close>

definition deadBefore :: "byte list \<Rightarrow> nat \<Rightarrow> bool" where
  "deadBefore code cur \<longleftrightarrow>
     (\<exists>t \<in> set (instrs code 0 (length code)). t < cur \<and> endsFlow (code ! t)
        \<and> (\<forall>j \<in> set (instrs code 0 (length code)). t < j \<and> j < cur \<longrightarrow> code ! j \<noteq> I_JUMPDEST))"

definition deadInstr :: "byte list \<Rightarrow> nat \<Rightarrow> bool" where
  "deadInstr code i \<longleftrightarrow> deadBefore code i \<and> code ! i \<noteq> I_JUMPDEST"

definition covers :: "BasicBlock \<Rightarrow> nat \<Rightarrow> bool" where
  "covers b i \<longleftrightarrow> bb_begin b \<le> i \<and> i < bb_end b"

section \<open>Walking over instructions\<close>

lemma getNext_restrict:
  assumes "i < m" "m \<le> e" "skipPushDataAndGetNext code i e \<le> m"
  shows "skipPushDataAndGetNext code i m = skipPushDataAndGetNext code i e"
proof (cases "isPush (code ! i)")
  case True
  with assms show ?thesis by (auto simp: getNext_push min_def split: if_splits)
next
  case False
  then show ?thesis by (simp add: getNext_other)
qed

lemma instrs_done [simp]: "e \<le> cur \<Longrightarrow> instrs code cur e = []"
  by (simp add: instrs.simps)

lemma instrs_step:
  "cur < e \<Longrightarrow> instrs code cur e = cur # instrs code (skipPushDataAndGetNext code cur e) e"
  by (subst instrs.simps) simp

lemma instrs_range: "i \<in> set (instrs code cur e) \<Longrightarrow> cur \<le> i \<and> i < e"
proof (induction code cur e rule: instrs.induct)
  case (1 code cur e)
  show ?case
  proof (cases "e \<le> cur")
    case False
    with 1 getNext_gt [of cur code e] show ?thesis by (fastforce simp: instrs_step)
  qed (use 1 in simp)
qed

lemma instrs_split:
  "m \<in> set (instrs code a e) \<Longrightarrow> instrs code a e = instrs code a m @ instrs code m e"
proof (induction code a e rule: instrs.induct)
  case (1 code a e)
  from 1(2) have "a < e" by (auto dest: instrs_range)
  show ?case
  proof (cases "m = a")
    case False
    let ?n = "skipPushDataAndGetNext code a e"
    from False 1(2) \<open>a < e\<close> have m: "m \<in> set (instrs code ?n e)" by (simp add: instrs_step)
    then have r: "?n \<le> m" "m < e" by (auto dest: instrs_range)
    have "a < m" using r(1) getNext_gt [of a code e] by simp
    then have "instrs code a m = a # instrs code ?n m"
      using getNext_restrict [of a m e code] r by (simp add: instrs_step)
    moreover have "instrs code ?n e = instrs code ?n m @ instrs code m e"
      using 1(1) \<open>a < e\<close> m by simp
    ultimately show ?thesis using \<open>a < e\<close> by (simp add: instrs_step)
  qed simp
qed

lemma instrs_snoc:
  assumes "cur \<in> set (instrs code a e)"
  shows "instrs code a (skipPushDataAndGetNext code cur e) = instrs code a cur @ [cur]"
proof -
  let ?n = "skipPushDataAndGetNext code cur e"
  have lt: "cur < e" using assms by (auto dest: instrs_range)
  have a: "instrs code a e = instrs code a cur @ cur # instrs code ?n e"
    using instrs_split [OF assms] lt by (simp add: instrs_step)
  show ?thesis
  proof (cases "?n = e")
    case True
    with a show ?thesis by simp
  next
    case False
    with getNext_le [OF lt, of code] have "?n < e" by simp
    then have "?n \<in> set (instrs code a e)" using a by (simp add: instrs_step)
    from instrs_split [OF this] a show ?thesis by simp
  qed
qed

lemma instrs_next:
  assumes "cur \<in> set (instrs code a e)"
  shows "skipPushDataAndGetNext code cur e = e
         \<or> skipPushDataAndGetNext code cur e \<in> set (instrs code a e)"
proof -
  have lt: "cur < e" using assms by (auto dest: instrs_range)
  show ?thesis
    using instrs_split [OF assms] lt getNext_le [OF lt, of code]
    by (cases "skipPushDataAndGetNext code cur e = e") (auto simp: instrs_step)
qed

lemma instrs_trans:
  assumes "b \<in> set (instrs code a e)" "i \<in> set (instrs code b e)"
  shows "i \<in> set (instrs code a e)"
  using instrs_split [OF assms(1)] assms(2) by simp

lemma instrs_prefix:
  assumes "m \<in> set (instrs code a e)" "i \<in> set (instrs code a m)"
  shows "i \<in> set (instrs code a e)"
  using instrs_split [OF assms(1)] assms(2) by simp

section \<open>The stack summary is exact\<close>

lemma ctxDep_loop_fold:
  "ctxDep_loop code it e acc = fold (\<lambda>i. ctxDep_step (code ! i)) (instrs code it e) acc"
proof (induction code it e acc rule: ctxDep_loop.induct)
  case (1 code it e acc)
  show ?case
  proof (cases "e \<le> it")
    case False
    with 1 show ?thesis by (subst ctxDep_loop.simps) (simp add: instrs_step)
  qed (simp add: ctxDep_loop.simps)
qed

lemma ctxDep_fold:
  "ctxDep code b e = fold ctxDep_step (map ((!) code) (instrs code b e)) (0, 0)"
  by (simp add: ctxDep_def ctxDep_loop_fold fold_map comp_def)

lemma ctxDep_step_mono: "fst acc \<le> fst (ctxDep_step op acc)"
  by (cases acc) (auto simp: ctxDep_step_def Let_def)

lemma fold_ctxDep_mono: "fst acc \<le> fst (fold ctxDep_step ops acc)"
proof (induction ops arbitrary: acc)
  case (Cons op ops)
  have "fst acc \<le> fst (ctxDep_step op acc)" by (rule ctxDep_step_mono)
  also have "\<dots> \<le> fst (fold ctxDep_step ops (ctxDep_step op acc))" by (rule Cons.IH)
  finally show ?case by simp
qed simp

lemma run_height_fold:
  "fst acc \<le> h \<Longrightarrow>
     run_height ops (h - fst acc + snd acc) =
       (let (p, c) = fold ctxDep_step ops acc in if h < p then None else Some (h - p + c))"
proof (induction ops arbitrary: acc)
  case Nil
  then show ?case by (cases acc) simp
next
  case (Cons op ops)
  obtain p0 c0 where acc: "acc = (p0, c0)" by (cases acc)
  let ?acc1 = "ctxDep_step op acc"
  show ?case
  proof (cases "h < fst ?acc1")
    case True
    then have "h < fst (fold ctxDep_step ops ?acc1)"
      using fold_ctxDep_mono [of ?acc1 ops] by simp
    moreover have "h - p0 + c0 < stk_outs op"
      using True Cons.prems by (auto simp: acc ctxDep_step_def Let_def split: if_splits)
    ultimately show ?thesis by (auto simp: acc split: prod.splits)
  next
    case False
    have "h - fst ?acc1 + snd ?acc1 = h - p0 + c0 - stk_outs op + stk_ins op"
      and "stk_outs op \<le> h - p0 + c0"
      using False Cons.prems by (auto simp: acc ctxDep_step_def Let_def split: if_splits)
    with Cons.IH [of ?acc1] False show ?thesis by (simp add: acc)
  qed
qed

lemma run_height_fold0:
  "fold ctxDep_step ops (0, 0) = (p, c) \<Longrightarrow>
     run_height ops h = (if h < p then None else Some (h - p + c))"
  using run_height_fold [of "(0, 0)" h ops] by simp

section \<open>Cases and induction of the splitting loop\<close>

lemma createBlocks_done: "e \<le> cur \<Longrightarrow> createBlocksLoop code e cur isDead blk blocks = blocks"
  by (simp add: createBlocksLoop.simps)

lemma createBlocks_skip:
  "cur < e \<Longrightarrow> code ! cur \<noteq> I_JUMPDEST \<Longrightarrow>
     createBlocksLoop code e cur True blk blocks =
     createBlocksLoop code e (skipPushDataAndGetNext code cur e) True blk blocks"
  by (subst createBlocksLoop.simps) simp

lemma createBlocks_close:
  "cur < e \<Longrightarrow> isDead \<longrightarrow> code ! cur = I_JUMPDEST \<Longrightarrow> closesBlock code e cur \<Longrightarrow>
     createBlocksLoop code e cur isDead blk blocks =
     (let next = skipPushDataAndGetNext code cur e
      in createBlocksLoop code e next (endsFlow (code ! cur)) next
           (blocks @ [mkBasicBlock code (if isDead then cur else blk) next]))"
  by (subst createBlocksLoop.simps) (auto simp: Let_def closesBlock_def)

lemma createBlocks_open:
  "cur < e \<Longrightarrow> isDead \<longrightarrow> code ! cur = I_JUMPDEST \<Longrightarrow> \<not> closesBlock code e cur \<Longrightarrow>
     createBlocksLoop code e cur isDead blk blocks =
     createBlocksLoop code e (skipPushDataAndGetNext code cur e) False (if isDead then cur else blk) blocks"
  by (subst createBlocksLoop.simps) (auto simp: Let_def closesBlock_def)

lemma blocks_induct [case_names Fin Skip Close Open]:
  assumes "\<And>cur isDead blk. e \<le> cur \<Longrightarrow> P cur isDead blk"
    and "\<And>cur blk. cur < e \<Longrightarrow> code ! cur \<noteq> I_JUMPDEST \<Longrightarrow>
           P (skipPushDataAndGetNext code cur e) True blk \<Longrightarrow> P cur True blk"
    and "\<And>cur isDead blk. cur < e \<Longrightarrow> isDead \<longrightarrow> code ! cur = I_JUMPDEST \<Longrightarrow>
           closesBlock code e cur \<Longrightarrow>
           P (skipPushDataAndGetNext code cur e) (endsFlow (code ! cur))
             (skipPushDataAndGetNext code cur e) \<Longrightarrow> P cur isDead blk"
    and "\<And>cur isDead blk. cur < e \<Longrightarrow> isDead \<longrightarrow> code ! cur = I_JUMPDEST \<Longrightarrow>
           \<not> closesBlock code e cur \<Longrightarrow>
           P (skipPushDataAndGetNext code cur e) False (if isDead then cur else blk) \<Longrightarrow>
           P cur isDead blk"
  shows "P cur isDead blk"
proof (induction "e - cur" arbitrary: cur isDead blk rule: less_induct)
  case less
  show ?case
  proof (cases "e \<le> cur")
    case True
    then show ?thesis by (rule assms(1))
  next
    case False
    then have lt: "cur < e" by simp
    have IH: "P (skipPushDataAndGetNext code cur e) d b" for d b
      using lt getNext_gt [of cur code e] by (intro less) simp
    consider "isDead" "code ! cur \<noteq> I_JUMPDEST"
      | "isDead \<longrightarrow> code ! cur = I_JUMPDEST" "closesBlock code e cur"
      | "isDead \<longrightarrow> code ! cur = I_JUMPDEST" "\<not> closesBlock code e cur" by blast
    then show ?thesis
      using assms(2) [OF lt _ IH] assms(3) [OF lt _ _ IH] assms(4) [OF lt _ _ IH]
      by cases auto
  qed
qed

lemma createBlocks_append:
  "createBlocksLoop code e cur isDead blk blocks = blocks @ createBlocksLoop code e cur isDead blk []"
proof (induction cur isDead blk arbitrary: blocks rule: blocks_induct [where code = code and e = e])
  case (Fin cur isDead blk)
  then show ?case by (simp add: createBlocks_done)
next
  case (Skip cur blk)
  show ?case using Skip.hyps Skip.IH [of blocks] by (simp add: createBlocks_skip)
next
  case (Close cur isDead blk)
  let ?n = "skipPushDataAndGetNext code cur e"
  let ?b = "mkBasicBlock code (if isDead then cur else blk) ?n"
  let ?rest = "createBlocksLoop code e ?n (endsFlow (code ! cur)) ?n"
  have "createBlocksLoop code e cur isDead blk bs = bs @ ?b # ?rest []" for bs
    using createBlocks_close [OF Close.hyps, of blk bs] Close.IH [of "bs @ [?b]"]
    by (simp add: Let_def)
  from this [of blocks] this [of "[]"] show ?case by simp
next
  case (Open cur isDead blk)
  show ?case
    using createBlocks_open [OF Open.hyps, of blk blocks] createBlocks_open [OF Open.hyps, of blk "[]"]
      Open.IH [of blocks] by simp
qed

lemma createBlocks_close':
  "cur < e \<Longrightarrow> isDead \<longrightarrow> code ! cur = I_JUMPDEST \<Longrightarrow> closesBlock code e cur \<Longrightarrow>
     createBlocksLoop code e cur isDead blk [] =
     (let next = skipPushDataAndGetNext code cur e
      in mkBasicBlock code (if isDead then cur else blk) next #
         createBlocksLoop code e next (endsFlow (code ! cur)) next [])"
  using createBlocks_close [of cur e isDead code blk "[]"]
    createBlocks_append [of code e "skipPushDataAndGetNext code cur e" "endsFlow (code ! cur)"
      "skipPushDataAndGetNext code cur e"
      "[mkBasicBlock code (if isDead then cur else blk) (skipPushDataAndGetNext code cur e)]"]
  by (simp add: Let_def)

lemmas createBlocks_cases = createBlocks_done createBlocks_skip createBlocks_close' createBlocks_open

section \<open>The partition is well formed\<close>

lemma openRun_start:
  assumes "cur \<in> set (instrs code 0 (length code))" "\<not> isDead \<longrightarrow> openRun code blk cur"
    and "isDead \<longrightarrow> code ! cur = I_JUMPDEST" "b = (if isDead then cur else blk)"
  shows "b \<le> cur" "b \<in> set (instrs code 0 (length code))"
    "cur \<in> set (instrs code b (length code))" "code ! cur = I_JUMPDEST \<Longrightarrow> b = cur"
    "\<And>i. i \<in> set (instrs code b cur) \<Longrightarrow>
       (code ! i = I_JUMPDEST \<longrightarrow> i = b) \<and> \<not> endsFlow (code ! i) \<and> code ! i \<noteq> I_JUMPI"
proof -
  have lt: "cur < length code" using assms(1) by (auto dest: instrs_range)
  then have self: "cur \<in> set (instrs code cur (length code))" by (simp add: instrs_step)
  show "b \<le> cur" "b \<in> set (instrs code 0 (length code))"
    "cur \<in> set (instrs code b (length code))" "code ! cur = I_JUMPDEST \<Longrightarrow> b = cur"
    "\<And>i. i \<in> set (instrs code b cur) \<Longrightarrow>
       (code ! i = I_JUMPDEST \<longrightarrow> i = b) \<and> \<not> endsFlow (code ! i) \<and> code ! i \<noteq> I_JUMPI"
    using assms self by (auto simp: openRun_def split: if_splits)
qed

lemma openRun_extend:
  assumes "cur \<in> set (instrs code 0 (length code))" "\<not> isDead \<longrightarrow> openRun code blk cur"
    and "isDead \<longrightarrow> code ! cur = I_JUMPDEST" "\<not> closesBlock code (length code) cur"
  shows "openRun code (if isDead then cur else blk) (skipPushDataAndGetNext code cur (length code))"
proof -
  let ?b = "if isDead then cur else blk"
  let ?n = "skipPushDataAndGetNext code cur (length code)"
  note st = openRun_start [OF assms(1,2,3) refl]
  have "?b < ?n" using st(1) getNext_gt [of cur code "length code"] by simp
  moreover have "?n \<in> set (instrs code ?b (length code))"
    using instrs_next [OF st(3)] assms(4) by (auto simp: closesBlock_def)
  moreover have "instrs code ?b ?n = instrs code ?b cur @ [cur]"
    by (rule instrs_snoc [OF st(3)])
  ultimately show ?thesis
    using st(2,4,5) assms(4) by (auto simp: openRun_def closesBlock_def)
qed

lemma wf_block_close:
  assumes "cur \<in> set (instrs code 0 (length code))" "\<not> isDead \<longrightarrow> openRun code blk cur"
    and "isDead \<longrightarrow> code ! cur = I_JUMPDEST"
  shows "wf_block code (mkBasicBlock code (if isDead then cur else blk)
           (skipPushDataAndGetNext code cur (length code)))"
proof -
  let ?b = "if isDead then cur else blk"
  let ?n = "skipPushDataAndGetNext code cur (length code)"
  note st = openRun_start [OF assms refl]
  have lt: "cur < length code" using assms(1) by (auto dest: instrs_range)
  have "?b < ?n" using st(1) getNext_gt [of cur code "length code"] by simp
  moreover have "?n \<le> length code" by (rule getNext_le [OF lt])
  moreover have ins: "instrs code ?b ?n = instrs code ?b cur @ [cur]"
    by (rule instrs_snoc [OF st(3)])
  moreover have "i \<in> set (instrs code 0 (length code))" if "i \<in> set (instrs code ?b cur)" for i
    using instrs_prefix [OF st(3) that] instrs_trans [OF st(2)] by blast
  ultimately show ?thesis
    using st(2,4,5) assms(1)
    by (auto simp: wf_block_def mkBasicBlock_def split: prod.splits)
qed

lemma bb_mk [simp]:
  "bb_begin (mkBasicBlock code b e) = b" "bb_end (mkBasicBlock code b e) = e"
  "firstInstrIdx (mkBasicBlock code b e) = b"
  by (simp_all add: mkBasicBlock_def split: prod.splits)

abbreviation blocksFrom :: "byte list \<Rightarrow> nat \<Rightarrow> bool \<Rightarrow> nat \<Rightarrow> BasicBlock list" where
  "blocksFrom code cur isDead blk \<equiv> createBlocksLoop code (length code) cur isDead blk []"

lemma next_boundary:
  "cur \<in> set (instrs code 0 (length code)) \<Longrightarrow>
   skipPushDataAndGetNext code cur (length code) = length code
   \<or> skipPushDataAndGetNext code cur (length code) \<in> set (instrs code 0 (length code))"
  by (rule instrs_next)

lemma blocks_wf:
  assumes "cur = length code \<or> cur \<in> set (instrs code 0 (length code))"
    and "\<not> isDead \<longrightarrow> openRun code blk cur"
  shows "(\<forall>b \<in> set (blocksFrom code cur isDead blk).
            wf_block code b \<and> (if isDead then cur else blk) \<le> bb_begin b)
         \<and> ordered_blocks (blocksFrom code cur isDead blk)"
  using assms
proof (induction cur isDead blk rule: blocks_induct [where code = code and e = "length code"])
  case (Fin cur isDead blk)
  then show ?case by (simp add: createBlocks_done)
next
  case (Skip cur blk)
  then show ?case
    using getNext_gt [of cur code "length code"] next_boundary [of cur code]
    by (fastforce simp: createBlocks_skip)
next
  case (Close cur isDead blk)
  then have cur: "cur \<in> set (instrs code 0 (length code))" by auto
  let ?b = "if isDead then cur else blk"
  let ?n = "skipPushDataAndGetNext code cur (length code)"
  let ?rest = "blocksFrom code ?n (endsFlow (code ! cur)) ?n"
  note st = openRun_start [OF cur Close.prems(2) Close.hyps(2) refl]
  have "\<forall>b \<in> set ?rest. wf_block code b \<and> ?n \<le> bb_begin b" and o: "ordered_blocks ?rest"
    using Close.IH next_boundary [OF cur] by (auto simp: openRun_def)
  moreover have "?b \<le> ?n" using st(1) getNext_gt [of cur code "length code"] by simp
  ultimately show ?case
    using wf_block_close [OF cur Close.prems(2) Close.hyps(2)] createBlocks_close' [OF Close.hyps, of blk]
    by (cases ?rest) (fastforce simp: Let_def)+
next
  case (Open cur isDead blk)
  then have cur: "cur \<in> set (instrs code 0 (length code))" by auto
  note ext = openRun_extend [OF cur Open.prems(2) Open.hyps(2,3)]
  show ?case
    using Open.IH next_boundary [OF cur] ext createBlocks_open [OF Open.hyps, of blk "[]"]
    by auto
qed

lemma blocks_jumpdests:
  assumes "cur = length code \<or> cur \<in> set (instrs code 0 (length code))"
    and "\<not> isDead \<longrightarrow> openRun code blk cur"
  shows "bb_begin ` {b \<in> set (blocksFrom code cur isDead blk). code ! bb_begin b = I_JUMPDEST}
       = {i \<in> set (instrs code cur (length code)). code ! i = I_JUMPDEST}
         \<union> {i. \<not> isDead \<and> i = blk \<and> blk < cur \<and> cur < length code \<and> code ! blk = I_JUMPDEST}"
  using assms
proof (induction cur isDead blk rule: blocks_induct [where code = code and e = "length code"])
  case (Fin cur isDead blk)
  then show ?case by (auto simp: createBlocks_done)
next
  case (Skip cur blk)
  then have "cur \<in> set (instrs code 0 (length code))" by auto
  then show ?case
    using Skip next_boundary [of cur code] by (auto simp: createBlocks_skip instrs_step)
next
  case (Close cur isDead blk)
  then have cur: "cur \<in> set (instrs code 0 (length code))" by auto
  let ?n = "skipPushDataAndGetNext code cur (length code)"
  note st = openRun_start [OF cur Close.prems(2) Close.hyps(2) refl]
  have "bb_begin ` {b \<in> set (blocksFrom code ?n (endsFlow (code ! cur)) ?n). code ! bb_begin b = I_JUMPDEST}
        = {i \<in> set (instrs code ?n (length code)). code ! i = I_JUMPDEST}"
    using Close.IH next_boundary [OF cur] by (simp add: openRun_def)
  moreover have "instrs code cur (length code) = cur # instrs code ?n (length code)"
    using Close.hyps(1) by (rule instrs_step)
  moreover have "{b \<in> set (x # xs). Q b} = (if Q x then {x} else {}) \<union> {b \<in> set xs. Q b}"
    for x :: BasicBlock and xs Q by auto
  ultimately show ?case
    using createBlocks_close' [OF Close.hyps, of blk] st(1,4) Close.hyps(1,2) Close.prems(2)
    by (auto simp: Let_def image_Un openRun_def)
next
  case (Open cur isDead blk)
  then have cur: "cur \<in> set (instrs code 0 (length code))" by auto
  let ?n = "skipPushDataAndGetNext code cur (length code)"
  note st = openRun_start [OF cur Open.prems(2) Open.hyps(2) refl]
  note ext = openRun_extend [OF cur Open.prems(2) Open.hyps(2,3)]
  have "?n < length code"
    using Open.hyps(3) getNext_le [OF Open.hyps(1), of code] by (auto simp: closesBlock_def)
  moreover have "cur < ?n" by (rule getNext_gt)
  moreover have "instrs code cur (length code) = cur # instrs code ?n (length code)"
    using Open.hyps(1) by (rule instrs_step)
  ultimately show ?case
    using Open.IH next_boundary [OF cur] ext createBlocks_open [OF Open.hyps, of blk "[]"]
      st(1,4) Open.hyps(1,2) Open.prems(2)
    by (auto simp: openRun_def)
qed

lemma deadBefore_step:
  assumes "cur \<in> set (instrs code 0 (length code))"
    and "endsFlow (code ! cur) \<or> (deadBefore code cur \<and> code ! cur \<noteq> I_JUMPDEST)"
  shows "deadBefore code (skipPushDataAndGetNext code cur (length code))"
proof -
  let ?n = "skipPushDataAndGetNext code cur (length code)"
  have sp: "instrs code 0 (length code) = instrs code 0 cur @ cur # instrs code ?n (length code)"
    using instrs_split [OF assms(1)] instrs_range [OF assms(1)] by (simp add: instrs_step)
  have gap: "j \<le> cur" if "j \<in> set (instrs code 0 (length code))" "j < ?n" for j
    using that unfolding sp by (auto dest: instrs_range)
  have lt: "cur < ?n" by (rule getNext_gt)
  from assms(2) show ?thesis
  proof
    assume "endsFlow (code ! cur)"
    then show ?thesis
      unfolding deadBefore_def using assms(1) lt gap by (intro bexI [of _ cur]) force+
  next
    assume d: "deadBefore code cur \<and> code ! cur \<noteq> I_JUMPDEST"
    then obtain t where t: "t \<in> set (instrs code 0 (length code))" "t < cur" "endsFlow (code ! t)"
      and nj: "\<And>j. j \<in> set (instrs code 0 (length code)) \<Longrightarrow> t < j \<Longrightarrow> j < cur \<Longrightarrow> code ! j \<noteq> I_JUMPDEST"
      by (auto simp: deadBefore_def)
    have "code ! j \<noteq> I_JUMPDEST" if "j \<in> set (instrs code 0 (length code))" "t < j" "j < ?n" for j
      using gap [OF that(1,3)] nj [OF that(1,2)] d by (cases "j = cur") auto
    with t lt show ?thesis unfolding deadBefore_def by (intro bexI [of _ t]) auto
  qed
qed

lemma blocks_cover:
  assumes "cur = length code \<or> cur \<in> set (instrs code 0 (length code))"
    and "\<not> isDead \<longrightarrow> openRun code blk cur" "isDead \<longrightarrow> deadBefore code cur"
    and "i \<in> set (instrs code cur (length code)) \<or> (\<not> isDead \<and> blk \<le> i \<and> i < cur \<and> cur < length code)"
  shows "(\<exists>b \<in> set (blocksFrom code cur isDead blk). covers b i) \<or> deadInstr code i"
  using assms
proof (induction cur isDead blk rule: blocks_induct [where code = code and e = "length code"])
  case (Fin cur isDead blk)
  then show ?case by (auto dest: instrs_range)
next
  case (Skip cur blk)
  then have cur: "cur \<in> set (instrs code 0 (length code))" by auto
  show ?case
  proof (cases "i = cur")
    case True
    with Skip show ?thesis by (simp add: deadInstr_def)
  next
    case False
    then show ?thesis
      using Skip next_boundary [OF cur] deadBefore_step [OF cur]
      by (simp add: createBlocks_skip instrs_step)
  qed
next
  case (Close cur isDead blk)
  then have cur: "cur \<in> set (instrs code 0 (length code))" by auto
  let ?n = "skipPushDataAndGetNext code cur (length code)"
  note st = openRun_start [OF cur Close.prems(2) Close.hyps(2) refl]
  have eq: "blocksFrom code cur isDead blk = mkBasicBlock code (if isDead then cur else blk) ?n
              # blocksFrom code ?n (endsFlow (code ! cur)) ?n"
    using createBlocks_close' [OF Close.hyps, of blk] by (simp add: Let_def)
  show ?case
  proof (cases "i \<in> set (instrs code ?n (length code))")
    case True
    then show ?thesis
      using Close.IH next_boundary [OF cur] deadBefore_step [OF cur] unfolding eq
      by (auto simp: openRun_def)
  next
    case False
    then have "(if isDead then cur else blk) \<le> i" "i \<le> cur"
      using Close.prems(4) st(1) Close.hyps(1) by (auto simp: instrs_step)
    then show ?thesis
      using getNext_gt [of cur code "length code"] unfolding eq by (auto simp: covers_def)
  qed
next
  case (Open cur isDead blk)
  then have cur: "cur \<in> set (instrs code 0 (length code))" by auto
  let ?n = "skipPushDataAndGetNext code cur (length code)"
  note st = openRun_start [OF cur Open.prems(2) Open.hyps(2) refl]
  note ext = openRun_extend [OF cur Open.prems(2) Open.hyps(2,3)]
  have "?n < length code"
    using Open.hyps(3) getNext_le [OF Open.hyps(1), of code] by (auto simp: closesBlock_def)
  moreover have "cur < ?n" by (rule getNext_gt)
  moreover have "i \<in> set (instrs code ?n (length code)) \<or> (if isDead then cur else blk) \<le> i \<and> i \<le> cur"
    using Open.prems(4) Open.hyps(1) st(1) by (auto simp: instrs_step)
  ultimately show ?case
    using Open.IH next_boundary [OF cur] ext createBlocks_open [OF Open.hyps, of blk "[]"]
    by auto
qed

section \<open>Deployment and run-time code\<close>

lemma splitLoop_done: "length code \<le> cur \<Longrightarrow> splitLoop code cur c r pc = (-1, pc)"
  by (simp add: splitLoop.simps)

lemma splitLoop_step:
  "cur < length code \<Longrightarrow>
     splitLoop code cur c r pc =
       (if code ! cur = I_PUSH1 \<and> r then (int cur, pc)
        else splitLoop code (skipPushDataAndGetNext code cur (length code))
               (c \<or> code ! cur = I_CODECOPY) (r \<or> code ! cur = I_RETURN \<and> c)
               (if code ! cur = I_RETURN \<and> c then cur else pc))"
  by (subst splitLoop.simps) (auto simp: Let_def)

definition first_push1 :: "byte list \<Rightarrow> nat list \<Rightarrow> int" where
  "first_push1 code is = (case dropWhile (\<lambda>i. code ! i \<noteq> I_PUSH1) is of [] \<Rightarrow> -1 | p # _ \<Rightarrow> int p)"

lemma instrs_scan_induct [case_names Fin Step]:
  assumes "\<And>cur. length code \<le> cur \<Longrightarrow> P cur"
    and "\<And>cur. cur < length code \<Longrightarrow> P (skipPushDataAndGetNext code cur (length code)) \<Longrightarrow> P cur"
  shows "P cur"
proof (induction "length code - cur" arbitrary: cur rule: less_induct)
  case less
  then show ?case
    using assms getNext_gt [of cur code "length code"]
    by (cases "length code \<le> cur") (auto simp: diff_less_mono2)
qed

lemma split_phase3:
  "fst (splitLoop code cur True True pc) = first_push1 code (instrs code cur (length code))"
proof (induction cur arbitrary: pc rule: instrs_scan_induct [where code = code])
  case (Step cur)
  then show ?case by (simp add: splitLoop_step instrs_step first_push1_def)
qed (simp add: splitLoop_done first_push1_def)

lemma split_phase2:
  "fst (splitLoop code cur True False pc) =
     first_push1 code (after_first code I_RETURN (instrs code cur (length code)))"
proof (induction cur arbitrary: pc rule: instrs_scan_induct [where code = code])
  case (Step cur)
  then show ?case by (simp add: splitLoop_step instrs_step after_first_def split_phase3)
qed (simp add: splitLoop_done first_push1_def after_first_def)

lemma split_phase1:
  "fst (splitLoop code cur False False pc) =
     first_push1 code (after_first code I_RETURN (after_first code I_CODECOPY (instrs code cur (length code))))"
proof (induction cur arbitrary: pc rule: instrs_scan_induct [where code = code])
  case (Step cur)
  then show ?case
    by (simp add: splitLoop_step instrs_step split_phase2 after_first_def [of code "57 :: byte"])
qed (simp add: splitLoop_done first_push1_def after_first_def)

lemma splitLoop_retPC:
  "r \<longrightarrow> code ! pc = I_RETURN \<and> pc < cur \<Longrightarrow>
   fst (splitLoop code cur c r pc) \<noteq> -1 \<Longrightarrow>
   code ! snd (splitLoop code cur c r pc) = I_RETURN
   \<and> int (snd (splitLoop code cur c r pc)) < fst (splitLoop code cur c r pc)
   \<and> code ! nat (fst (splitLoop code cur c r pc)) = I_PUSH1"
proof (induction cur arbitrary: c r pc rule: instrs_scan_induct [where code = code])
  case (Fin cur)
  then show ?case by (simp add: splitLoop_done)
next
  case (Step cur)
  then show ?case
    using getNext_gt [of cur code "length code"]
    by (auto simp: splitLoop_step split: if_splits)
qed

section \<open>Properties\<close>

lemma start_boundary: "0 = length code \<or> 0 \<in> set (instrs code 0 (length code))"
  by (cases code) (simp_all add: instrs_step)

text \<open>
  createBasicBlocks returns well-formed blocks in code order that do not overlap: each
  is a run of whole instructions, a JUMPDEST is only ever the first instruction of a block
  (which compileBasicBlock asserts) and an instruction that transfers control only the last.
\<close>

theorem createBasicBlocks_wf:
  "list_all (wf_block code) (createBasicBlocks code) \<and> ordered_blocks (createBasicBlocks code)"
  using blocks_wf [OF start_boundary [of code], of False 0]
  by (auto simp: createBasicBlocks_def openRun_def list_all_iff)

text \<open>
  The blocks that start with a JUMPDEST start exactly at the valid jump destinations of
  the EVM, so the jump table, which compileBasicBlock fills from them, is complete and sound.
\<close>

theorem block_starts_are_jumpdests:
  "firstInstrIdx ` {b \<in> set (createBasicBlocks code). code ! firstInstrIdx b = I_JUMPDEST}
     = validJumpdests code"
proof -
  have f: "firstInstrIdx b = bb_begin b" if "b \<in> set (createBasicBlocks code)" for b
    using blocks_wf [OF start_boundary [of code], of False 0] that
    by (auto simp: createBasicBlocks_def openRun_def wf_block_def)
  have "firstInstrIdx ` {b \<in> set (createBasicBlocks code). code ! firstInstrIdx b = I_JUMPDEST}
      = bb_begin ` {b \<in> set (createBasicBlocks code). code ! bb_begin b = I_JUMPDEST}"
    by (rule image_cong) (auto simp: f)
  also have "\<dots> = validJumpdests code"
    using blocks_jumpdests [OF start_boundary [of code], of False 0]
    by (simp add: createBasicBlocks_def openRun_def validJumpdests_def)
  finally show ?thesis .
qed

text \<open>
  C25: no instruction that can be executed is lost: every instruction outside all blocks
  comes after a JUMP, RETURN, REVERT, STOP or SUICIDE with no JUMPDEST in between.
\<close>

theorem createBasicBlocks_cover:
  "{i \<in> set (instrs code 0 (length code)). \<not> deadInstr code i}
     \<subseteq> (\<Union>b \<in> set (createBasicBlocks code). {bb_begin b..<bb_end b})"
  using blocks_cover [OF start_boundary [of code], of False 0]
  by (fastforce simp: createBasicBlocks_def openRun_def covers_def)

text \<open>
  the stack summary of a block is exact: its instructions run without underflow from
  precisely the heights at or above stk_in, and they leave stk_out items in place of the
  stk_in items they took.
\<close>

theorem ctxDep_exact:
  "run_height (map ((!) code) (instrs code b e)) h =
     (let (stk_in, stk_out) = ctxDep code b e
      in if h < stk_in then None else Some (h - stk_in + stk_out))"
  using run_height_fold0 [of "map ((!) code) (instrs code b e)"]
  by (simp add: ctxDep_fold split: prod.splits)

text \<open>
  SplitCode finds the run-time code at the first PUSH1 after a RETURN after a CODECOPY,
  reports -1 when there is none, and the return position it reports is a RETURN before it.
\<close>

theorem splitCode_correct:
  "case splitSpec code of
     None \<Rightarrow> fst (splitCode code r) = -1
   | Some p \<Rightarrow> fst (splitCode code r) = int p \<and> code ! p = I_PUSH1
       \<and> snd (splitCode code r) < p \<and> code ! snd (splitCode code r) = I_RETURN"
proof -
  obtain xs where xs: "xs = dropWhile (\<lambda>i. code ! i \<noteq> I_PUSH1)
      (after_first code I_RETURN (after_first code I_CODECOPY (instrs code 0 (length code))))"
    by simp
  show ?thesis
    using split_phase1 [of code 0 r] splitLoop_retPC [of False code r 0 False]
    unfolding splitSpec_def splitCode_def first_push1_def xs [symmetric]
    by (cases xs) simp_all
qed

end
