(* ===== verification/Dry_Run.thy ===== *)
theory Dry_Run
  imports Blocks
begin

text \<open>
  The control flow graph the compiler recovers by simulating each block once
  (WASMCompiler::dry\_run\_bb and dry\_run). A std::vector is a list whose last element is its
  back; a block pointer is the index of the block in the vector of blocks and nullptr is
  \<open>None\<close>. The simulated stack holds 64-bit words: the constants a block pushes, and zero for
  everything the simulation does not know.
\<close>

section \<open>Simulating a block\<close>

fun popLoop :: "nat \<Rightarrow> u64 list \<Rightarrow> u64 list" where
  "popLoop 0 stk = stk"
| "popLoop (Suc n) stk = popLoop n (butlast (if stk = [] then [0] else stk))"

definition balanced_stk :: "u64 list \<Rightarrow> nat \<Rightarrow> nat \<Rightarrow> u64 list" where
  "balanced_stk stk ou i = popLoop ou stk @ replicate i 0"

definition pushed_value :: "w256 \<Rightarrow> u64" where
  "pushed_value v = (if unat v < 2 ^ 64 then ucast v else 0)"

definition dry_dup :: "Instruction \<Rightarrow> u64 list \<Rightarrow> u64 list" where
  "dry_dup op stk =
     (let depth = unat op - 0x7f
      in stk @ [if depth \<le> length stk then stk ! (length stk - depth) else 0])"

definition dry_swap :: "Instruction \<Rightarrow> u64 list \<Rightarrow> u64 list" where
  "dry_swap op stk =
     (let depth = unat op - 0x8e in
      if depth < length stk
      then (let tmp = stk ! (length stk - 1);
                stk1 = stk[length stk - 1 := stk ! (length stk - depth - 1)]
            in stk1[length stk - depth - 1 := tmp])
      else stk)"

text \<open>
  One instruction other than a PUSH; the flag says that the simulation of the block returns.
\<close>

definition dry_op :: "Instruction \<Rightarrow> u64 list \<Rightarrow> bool \<times> u64 list" where
  "dry_op op stk =
     (if op < 0x10 then
        (if op = I_STOP then (True, stk) else (False, balanced_stk stk (stk_outs op) (stk_ins op)))
      else if op < 0x50 then (False, balanced_stk stk (stk_outs op) (stk_ins op))
      else if op < 0x60 then
        (if op = I_POP then (False, if stk = [] then stk else butlast stk)
         else if op = I_JUMP \<or> op = I_JUMPI then (True, stk)
         else (False, balanced_stk stk (stk_outs op) (stk_ins op)))
      else if I_DUP1 \<le> op \<and> op \<le> I_DUP16 then (False, dry_dup op stk)
      else if I_SWAP1 \<le> op \<and> op \<le> I_SWAP16 then (False, dry_swap op stk)
      else if I_LOG0 \<le> op \<and> op \<le> I_LOG4 then (False, balanced_stk stk (stk_outs op) (stk_ins op))
      else if op = I_CREATE \<or> op = I_CALL \<or> op = I_CALLCODE \<or> op = I_DELEGATECALL
           \<or> op = I_CREATE2 \<or> op = I_STATICCALL
      then (False, balanced_stk stk (stk_outs op) (stk_ins op))
      else if op = I_RETURN \<or> op = I_REVERT \<or> op = I_SUICIDE
      then (True, balanced_stk stk (stk_outs op) (stk_ins op))
      else (False, stk))"

text \<open>A PUSH moves the iterator to its last byte before the loop increments it.\<close>

function dry_run_bb_loop :: "byte list \<Rightarrow> nat \<Rightarrow> nat \<Rightarrow> u64 list \<Rightarrow> u64 list" where
  "dry_run_bb_loop code it e stk =
     (if e \<le> it then stk
      else if isPush (code ! it) then
        (case readPushData code it e of
           None \<Rightarrow> stk
         | Some (v, it') \<Rightarrow> dry_run_bb_loop code (Suc it') e (stk @ [pushed_value v]))
      else (let (done, stk') = dry_op (code ! it) stk
            in if done then stk' else dry_run_bb_loop code (Suc it) e stk'))"
  by pat_completeness auto
termination
  by (relation "measure (\<lambda>(code, it, e, stk). e - it)") (auto dest!: readPushData_ge)

definition dry_run_bb :: "byte list \<Rightarrow> BasicBlock \<Rightarrow> u64 list \<Rightarrow> u64 list" where
  "dry_run_bb code b stk = dry_run_bb_loop code (bb_begin b) (bb_end b) stk"

section \<open>Building the graph\<close>

definition idxMap :: "BasicBlock list \<Rightarrow> nat \<Rightarrow> nat option" where
  "idxMap blocks = map_of (rev (zip (map firstInstrIdx blocks) [0..<length blocks]))"

definition stk_back :: "u64 list \<Rightarrow> u64" where
  "stk_back stk = (if stk = [] then 0 else last stk)"

definition stk_pop :: "u64 list \<Rightarrow> u64 list" where
  "stk_pop stk = (if stk = [] then stk else butlast stk)"

definition jump_bb :: "byte list \<Rightarrow> BasicBlock list \<Rightarrow> u64 \<Rightarrow> nat option" where
  "jump_bb code blocks jump_pc =
     (case idxMap blocks (unat jump_pc) of
        None \<Rightarrow> None
      | Some j \<Rightarrow> if code ! bb_begin (blocks ! j) = I_JUMPDEST then Some j else None)"

definition fallout_bb :: "byte list \<Rightarrow> BasicBlock list \<Rightarrow> nat \<Rightarrow> nat option" where
  "fallout_bb code blocks fallout_pc =
     (case idxMap blocks fallout_pc of
        None \<Rightarrow> None
      | Some j \<Rightarrow> if code ! bb_begin (blocks ! j) \<noteq> 0xfe then Some j else None)"

text \<open>The edges a block gets, in the order they are added, with the stack each target starts from.\<close>

definition dry_exits :: "byte list \<Rightarrow> BasicBlock list \<Rightarrow> BasicBlock \<Rightarrow> u64 list \<Rightarrow> (nat option \<times> u64 list) list" where
  "dry_exits code blocks b stk =
     (let pc = terminatorIdx b; t = terminator code b in
      if t = I_JUMP then [(jump_bb code blocks (stk_back stk), stk_pop stk)]
      else if t = I_JUMPI then
        (let stk' = stk_pop (stk_pop stk)
         in [(fallout_bb code blocks (pc + 1), stk'), (jump_bb code blocks (stk_back stk), stk')])
      else [])"

record cfg =
  bbs_to :: "nat \<Rightarrow> nat option list"
  bbs_from :: "nat \<Rightarrow> nat list"

definition add_edge :: "nat \<Rightarrow> nat option \<Rightarrow> cfg \<Rightarrow> cfg" where
  "add_edge i tgt g =
     (let g1 = g\<lparr>bbs_to := (bbs_to g)(i := bbs_to g i @ [tgt])\<rparr>
      in case tgt of None \<Rightarrow> g1 | Some j \<Rightarrow> g1\<lparr>bbs_from := (bbs_from g1)(j := bbs_from g1 j @ [i])\<rparr>)"

lemma card_visit:
  assumes "i \<notin> V" and "i < (n :: nat)"
  shows "card ({..<n} - insert i V) < card ({..<n} - V)"
proof (rule psubset_card_mono)
  have "i \<in> {..<n} - V" using assms by simp
  then show "{..<n} - insert i V \<subset> {..<n} - V" by blast
qed simp

text \<open>What visiting block \<open>i\<close> with a stack adds: its edges, and the targets to visit next.\<close>

definition dry_visit ::
  "byte list \<Rightarrow> BasicBlock list \<Rightarrow> nat \<Rightarrow> u64 list \<Rightarrow> cfg \<Rightarrow> cfg \<times> (nat \<times> u64 list) list" where
  "dry_visit code blocks i stk g =
     (let exits = dry_exits code blocks (blocks ! i) (dry_run_bb code (blocks ! i) stk)
      in (fold (add_edge i) (map fst exits) g,
          List.map_filter (\<lambda>(tgt, stk'). map_option (\<lambda>j. (j, stk')) tgt) exits))"

text \<open>
  The worklist is a stack whose top is the back of the vector. Every index on it is the index
  of a block; an entry outside the vector, which the code never makes, is dropped.
\<close>

function dry_run_loop ::
  "byte list \<Rightarrow> BasicBlock list \<Rightarrow> (nat \<times> u64 list) list \<Rightarrow> nat set \<Rightarrow> cfg \<Rightarrow> nat set \<times> cfg" where
  "dry_run_loop code blocks dfs visited g =
     (if dfs = [] then (visited, g)
      else if fst (last dfs) \<in> visited \<or> length blocks \<le> fst (last dfs)
      then dry_run_loop code blocks (butlast dfs) visited g
      else dry_run_loop code blocks
             (butlast dfs @ snd (dry_visit code blocks (fst (last dfs)) (snd (last dfs)) g))
             (insert (fst (last dfs)) visited)
             (fst (dry_visit code blocks (fst (last dfs)) (snd (last dfs)) g)))"
  by pat_completeness auto
termination
  by (relation "measures [\<lambda>(code, blocks, dfs, visited, g). card ({..<length blocks} - visited),
                          \<lambda>(code, blocks, dfs, visited, g). length dfs]")
     (auto simp: card_visit not_le simp del: card_Diff_insert)

text \<open>\<open>None\<close> is the access to the first block of an empty vector.\<close>

definition dry_run :: "byte list \<Rightarrow> BasicBlock list \<Rightarrow> (nat set \<times> cfg) option" where
  "dry_run code blocks =
     (if blocks = [] then None
      else Some (dry_run_loop code blocks [(0, [])] {} \<lparr>bbs_to = (\<lambda>_. []), bbs_from = (\<lambda>_. [])\<rparr>))"

declare dry_run_bb_loop.simps [simp del] dry_run_loop.simps [simp del]

section \<open>Stack heights\<close>

lemma length_popLoop [simp]: "length (popLoop n stk) = length stk - n"
  by (induction n arbitrary: stk) auto

lemma length_balanced [simp]: "length (balanced_stk stk ou i) = length stk - ou + i"
  by (simp add: balanced_stk_def)

lemma length_dry_swap [simp]: "length (dry_swap op stk) = length stk"
  by (simp add: dry_swap_def Let_def)

lemma InstrMap_high:
  "list_all (\<lambda>(k, n, ou, i). 0xa5 \<le> k \<and> (ou, i) \<noteq> (0, 0) \<longrightarrow>
     k \<in> {0xf0, 0xf1, 0xf2, 0xf3, 0xf4, 0xf5, 0xfa, 0xfd, 0xff}) InstrMap"
  by (simp add: InstrMap_def)

lemma stk_effect_high:
  assumes "0xa5 \<le> unat op" and "unat op \<notin> {0xf0, 0xf1, 0xf2, 0xf3, 0xf4, 0xf5, 0xfa, 0xfd, 0xff}"
  shows "stk_outs op = 0 \<and> stk_ins op = 0"
proof (cases "map_of InstrMap (unat op)")
  case None
  then show ?thesis by (simp add: stk_outs_def stk_ins_def InstrMap_get_def)
next
  case (Some t)
  obtain n ou i where t: "t = (n, ou, i)" by (cases t)
  have "(unat op, n, ou, i) \<in> set InstrMap" using Some t by (simp add: map_of_SomeD)
  then have "(ou, i) = (0, 0)" using InstrMap_high assms by (auto simp: list_all_iff)
  then show ?thesis using Some t by (simp add: stk_outs_def stk_ins_def InstrMap_get_def)
qed

lemma stk_effect_flow:
  "stk_outs 0x00 = 0 \<and> stk_ins 0x00 = 0" "stk_outs 0x50 = 1 \<and> stk_ins 0x50 = 0"
  "stk_outs 0x56 = 1 \<and> stk_ins 0x56 = 0" "stk_outs 0x57 = 2 \<and> stk_ins 0x57 = 0"
  by (simp_all add: stk_outs_def stk_ins_def InstrMap_get_def InstrMap_def)

definition stopsFlow :: "Instruction \<Rightarrow> bool" where
  "stopsFlow op \<longleftrightarrow> endsFlow op \<or> op = I_JUMPI"

lemma dry_op_stops: "\<not> isPush op \<Longrightarrow> fst (dry_op op stk) \<longleftrightarrow> stopsFlow op"
  by (auto simp: dry_op_def stopsFlow_def endsFlow_def isPush_def)

lemma byte_eq_unat: "(a :: byte) = b \<longleftrightarrow> unat a = unat b"
  by (simp add: word_unat_eq_iff)

lemma dry_op_height_high:
  assumes "\<not> isPush op" and "stk_outs op \<le> length stk" and "\<not> op < 0x60" and "\<not> (I_LOG0 \<le> op \<and> op \<le> I_LOG4)"
  shows "length (snd (dry_op op stk)) = length stk - stk_outs op + stk_ins op"
proof -
  have ge: "0x80 \<le> unat op" "unat op < 0xa0 \<or> 0xa5 \<le> unat op"
    using assms(1,3,4) by (auto simp: isPush_def word_le_nat_alt word_less_nat_alt not_less)
  show ?thesis
  proof (cases "unat op < 0xa0")
    case True
    then show ?thesis using ge assms stk_effect_dup [of op] stk_effect_swap [of op]
      by (auto simp: dry_op_def dry_dup_def Let_def word_le_nat_alt word_less_nat_alt)
  next
    case 2: False
    then have a5: "0xa5 \<le> unat op" using ge by simp
    show ?thesis
    proof (cases "unat op \<in> {0xf0, 0xf1, 0xf2, 0xf3, 0xf4, 0xf5, 0xfa, 0xfd, 0xff}")
      case True
      then show ?thesis using a5
        by (auto simp: dry_op_def word_le_nat_alt word_less_nat_alt byte_eq_unat)
    next
      case no: False
      then have e: "stk_outs op = 0 \<and> stk_ins op = 0" using stk_effect_high [OF a5] by simp
      then show ?thesis using a5 no
        by (auto simp: dry_op_def word_le_nat_alt word_less_nat_alt byte_eq_unat)
    qed
  qed
qed

lemma dry_op_height:
  assumes "\<not> isPush op" and "stk_outs op \<le> length stk" and "op \<noteq> I_JUMP" "op \<noteq> I_JUMPI"
  shows "length (snd (dry_op op stk)) = length stk - stk_outs op + stk_ins op"
proof (cases "op < 0x60")
  case True
  then show ?thesis using assms stk_effect_flow by (auto simp: dry_op_def)
next
  case 60: False
  show ?thesis
  proof (cases "I_LOG0 \<le> op \<and> op \<le> I_LOG4")
    case True
    then have "160 \<le> unat op" "unat op \<le> 164" by (simp_all add: word_le_nat_alt)
    then show ?thesis by (simp add: dry_op_def word_le_nat_alt word_less_nat_alt)
  next
    case False
    with 60 show ?thesis using assms by (intro dry_op_height_high) auto
  qed
qed

text \<open>The items a JUMP or JUMPI at the end of a block leaves for the caller to pop.\<close>

definition pending :: "Instruction \<Rightarrow> nat" where
  "pending op = (if op = I_JUMP then 1 else if op = I_JUMPI then 2 else 0)"

definition pendingLast :: "byte list \<Rightarrow> nat list \<Rightarrow> nat" where
  "pendingLast code is = (if is = [] then 0 else pending (code ! last is))"

lemma dry_step_push:
  assumes "isPush (code ! it)" and "it < e" and "e \<le> length code"
  shows "\<exists>v. dry_run_bb_loop code it e stk =
    dry_run_bb_loop code (skipPushDataAndGetNext code it e) e (stk @ [v])"
proof -
  obtain v where "readPushData code it e = Some (v, skipPushDataAndGetNext code it e - 1)"
    using readPushData_eq [OF assms] by blast
  then show ?thesis
    using assms getNext_gt [of it code e] by (subst dry_run_bb_loop.simps) auto
qed

lemma dry_step_op:
  "\<not> isPush (code ! it) \<Longrightarrow> it < e \<Longrightarrow> dry_run_bb_loop code it e stk =
     (if stopsFlow (code ! it) then snd (dry_op (code ! it) stk)
      else dry_run_bb_loop code (Suc it) e (snd (dry_op (code ! it) stk)))"
  using dry_op_stops [of "code ! it" stk] by (subst dry_run_bb_loop.simps) (auto split: prod.splits)

lemma stopsFlow_not_push: "isPush op \<Longrightarrow> \<not> stopsFlow op \<and> pending op = 0"
  by (auto simp: stopsFlow_def endsFlow_def isPush_def pending_def)

lemma dry_op_jumps: "dry_op 0x56 stk = (True, stk)" "dry_op 0x57 stk = (True, stk)"
  by (simp_all add: dry_op_def)

lemma dry_stop_height:
  assumes "\<not> isPush op" and "stk_outs op \<le> length stk"
  shows "length (snd (dry_op op stk)) = length stk - stk_outs op + stk_ins op + pending op"
proof (cases "op = I_JUMP \<or> op = I_JUMPI")
  case True
  then have "snd (dry_op op stk) = stk" "stk_outs op = pending op" "stk_ins op = 0"
    using dry_op_jumps stk_effect_flow(3,4) by (auto simp: pending_def)
  then show ?thesis using assms(2) by simp
next
  case False
  then have "pending op = 0" by (simp add: pending_def)
  then show ?thesis using dry_op_height [OF assms] False by simp
qed

lemma scan_induct [case_names Fin Step]:
  assumes "\<And>it. e \<le> it \<Longrightarrow> P it"
    and "\<And>it. it < e \<Longrightarrow> P (skipPushDataAndGetNext code it e) \<Longrightarrow> P it"
  shows "P it"
proof (induction "e - it" arbitrary: it rule: less_induct)
  case less
  then show ?case
    using assms getNext_gt [of it code e] by (cases "e \<le> it") (auto simp: diff_less_mono2)
qed

lemma pendingLast_simps:
  "pendingLast code [] = 0"
  "pendingLast code (i # is) = (if is = [] then pending (code ! i) else pendingLast code is)"
  by (simp_all add: pendingLast_def)

text \<open>
  One instruction of the simulation that does not end it: the height it leaves is the height
  of the EVM stack, and the simulation goes on at the next instruction.
\<close>

lemma dry_step_height:
  assumes "it < e" and "e \<le> length code" and "stk_outs (code ! it) \<le> length stk"
    and "\<not> stopsFlow (code ! it)"
  shows "\<exists>stk'. dry_run_bb_loop code it e stk = dry_run_bb_loop code (skipPushDataAndGetNext code it e) e stk'
    \<and> length stk' = length stk - stk_outs (code ! it) + stk_ins (code ! it) \<and> pending (code ! it) = 0"
proof (cases "isPush (code ! it)")
  case True
  then show ?thesis
    using dry_step_push [OF True assms(1,2), of stk] stk_effect_push [OF True] stopsFlow_not_push [OF True]
    by fastforce
next
  case False
  have p: "pending (code ! it) = 0" using assms(4) by (auto simp: stopsFlow_def endsFlow_def pending_def)
  show ?thesis
    using dry_step_op [OF False assms(1), of stk] dry_stop_height [OF False assms(3)] assms(4)
      getNext_other [OF False, of e] p
    by (intro exI [of _ "snd (dry_op (code ! it) stk)"]) simp
qed

lemma dry_loop_height:
  assumes "e \<le> length code"
    and "run_height (map ((!) code) (instrs code it e)) (length stk) = Some h"
    and "\<forall>i \<in> set (instrs code it e). stopsFlow (code ! i) \<longrightarrow> Suc i = e"
  shows "length (dry_run_bb_loop code it e stk) = h + pendingLast code (instrs code it e)"
  using assms(2,3)
proof (induction it arbitrary: stk rule: scan_induct [where code = code and e = e])
  case (Fin it)
  then show ?case by (subst dry_run_bb_loop.simps) (simp add: pendingLast_def)
next
  case (Step it)
  let ?op = "code ! it" and ?n = "skipPushDataAndGetNext code it e"
  have is1: "instrs code it e = it # instrs code ?n e" using Step.hyps by (simp add: instrs_step)
  have le: "stk_outs ?op \<le> length stk"
    and rest: "run_height (map ((!) code) (instrs code ?n e)) (length stk - stk_outs ?op + stk_ins ?op) = Some h"
    using Step.prems(1) is1 by (simp_all split: if_splits)
  have tail: "\<forall>i \<in> set (instrs code ?n e). stopsFlow (code ! i) \<longrightarrow> Suc i = e"
    using Step.prems(2) is1 by simp
  show ?case
  proof (cases "stopsFlow ?op")
    case True
    then have e: "Suc it = e" and np: "\<not> isPush ?op"
      using Step.prems(2) is1 stopsFlow_not_push by auto
    have n: "?n = e" using getNext_other [OF np, of e] e by simp
    have h: "h = length stk - stk_outs ?op + stk_ins ?op" using rest n by simp
    show ?thesis
      using dry_step_op [OF np Step.hyps, of stk] True dry_stop_height [OF np le] h is1 n
      by (simp add: pendingLast_simps)
  next
    case False
    obtain stk' where s': "dry_run_bb_loop code it e stk = dry_run_bb_loop code ?n e stk'"
      "length stk' = length stk - stk_outs ?op + stk_ins ?op" "pending ?op = 0"
      using dry_step_height [OF Step.hyps assms(1) le False] by blast
    from Step.IH [of stk'] rest tail s'
    have "length (dry_run_bb_loop code ?n e stk') = h + pendingLast code (instrs code ?n e)" by simp
    then show ?thesis using s' is1 by (simp add: pendingLast_simps)
  qed
qed

lemma last_instr:
  assumes "e - 1 \<in> set (instrs code b e)"
  shows "last (instrs code b e) = e - 1 \<and> instrs code b e \<noteq> []"
proof -
  let ?m = "e - 1"
  have lt: "?m < e" using instrs_range [OF assms] by simp
  have "instrs code ?m e = [?m]"
    using lt getNext_gt [of ?m code e] by (simp add: instrs_step)
  then show ?thesis using instrs_split [OF assms] by simp
qed

lemma block_run_height:
  assumes "wf_block code b" and "stk_in b \<le> h"
  shows "run_height (map ((!) code) (instrs code (bb_begin b) (bb_end b))) h = Some (h - stk_in b + stk_out b)"
proof -
  have "fold ctxDep_step (map ((!) code) (instrs code (bb_begin b) (bb_end b))) (0, 0) = (stk_in b, stk_out b)"
    using assms(1) by (simp add: wf_block_def ctxDep_fold)
  then show ?thesis using assms(2) run_height_fold0 by simp
qed

lemma wf_block_stops:
  assumes "wf_block code b" and "i \<in> set (instrs code (bb_begin b) (bb_end b))" and "stopsFlow (code ! i)"
  shows "Suc i = bb_end b"
proof -
  have "\<not> isPush (code ! i)" using assms(3) stopsFlow_not_push by blast
  then show ?thesis
    using assms getNext_other [of code i "length code"] by (auto simp: wf_block_def stopsFlow_def)
qed

lemma dry_run_bb_height:
  assumes "wf_block code b" and "stk_in b \<le> length stk"
    and "bb_end b - 1 \<in> set (instrs code (bb_begin b) (bb_end b))"
  shows "length (dry_run_bb code b stk) = length stk - stk_in b + stk_out b + pending (terminator code b)"
proof -
  have "bb_end b \<le> length code" using assms(1) by (simp add: wf_block_def)
  from dry_loop_height [OF this block_run_height [OF assms(1,2)]] wf_block_stops [OF assms(1)]
  show ?thesis
    using last_instr [OF assms(3)] by (simp add: dry_run_bb_def pendingLast_def terminator_def)
qed

lemma length_stk_pop [simp]: "length (stk_pop stk) = length stk - 1"
  by (simp add: stk_pop_def)

section \<open>Edges\<close>

lemma idxMap_Some:
  assumes "idxMap blocks p = Some j"
  shows "j < length blocks \<and> firstInstrIdx (blocks ! j) = p"
  using map_of_SomeD [OF assms [unfolded idxMap_def]] by (auto simp: set_zip)

definition edge_ok :: "byte list \<Rightarrow> BasicBlock list \<Rightarrow> nat \<Rightarrow> nat option \<Rightarrow> bool" where
  "edge_ok code blocks i tgt \<longleftrightarrow>
     (case tgt of None \<Rightarrow> True
      | Some j \<Rightarrow> j < length blocks \<and>
          (code ! bb_begin (blocks ! j) = I_JUMPDEST
           \<or> terminator code (blocks ! i) = I_JUMPI
             \<and> firstInstrIdx (blocks ! j) = terminatorIdx (blocks ! i) + 1))"

lemma jump_bb_ok: "edge_ok code blocks i (jump_bb code blocks pc)"
  by (auto simp: edge_ok_def jump_bb_def dest: idxMap_Some split: option.splits)

lemma exits_ok:
  "length (dry_exits code blocks (blocks ! i) stk) \<le> 2
   \<and> (\<forall>(tgt, stk') \<in> set (dry_exits code blocks (blocks ! i) stk). edge_ok code blocks i tgt)"
proof -
  have "edge_ok code blocks i (fallout_bb code blocks (terminatorIdx (blocks ! i) + 1))"
    if "terminator code (blocks ! i) = I_JUMPI"
    using that by (auto simp: edge_ok_def fallout_bb_def dest: idxMap_Some split: option.splits)
  then show ?thesis using jump_bb_ok [of code blocks i] by (auto simp: dry_exits_def Let_def)
qed

lemma add_edges_to: "bbs_to (fold (add_edge i) ts g) = (bbs_to g)(i := bbs_to g i @ ts)"
  by (induction ts arbitrary: g) (simp_all add: add_edge_def Let_def split: option.split)

lemma add_edges_from:
  "count_list (bbs_from (fold (add_edge i) ts g) j) k =
     count_list (bbs_from g j) k + (if k = i then count_list ts (Some j) else 0)"
  by (induction ts arbitrary: g) (simp_all add: add_edge_def Let_def split: option.split)

text \<open>What holds of the graph and the worklist whenever the loop is entered.\<close>

definition cfg_inv :: "byte list \<Rightarrow> BasicBlock list \<Rightarrow> nat set \<Rightarrow> cfg \<Rightarrow> bool" where
  "cfg_inv code blocks visited g \<longleftrightarrow>
     visited \<subseteq> {..<length blocks}
   \<and> (\<forall>i. i \<notin> visited \<longrightarrow> bbs_to g i = [])
   \<and> (\<forall>i. length (bbs_to g i) \<le> 2 \<and> (\<forall>tgt \<in> set (bbs_to g i). edge_ok code blocks i tgt))
   \<and> (\<forall>i j. count_list (bbs_from g j) i = count_list (bbs_to g i) (Some j))"

definition frontier :: "nat set \<Rightarrow> cfg \<Rightarrow> nat set \<Rightarrow> bool" where
  "frontier visited g todo \<longleftrightarrow> (\<forall>i j. Some j \<in> set (bbs_to g i) \<longrightarrow> j \<in> visited \<union> todo)"

lemma visit_inv:
  assumes "cfg_inv code blocks visited g" and "i < length blocks" and "i \<notin> visited"
  shows "cfg_inv code blocks (insert i visited) (fst (dry_visit code blocks i stk g))"
proof -
  let ?ex = "dry_exits code blocks (blocks ! i) (dry_run_bb code (blocks ! i) stk)"
  have "bbs_to g i = []" using assms(1,3) by (simp add: cfg_inv_def)
  then show ?thesis
    using assms exits_ok [of code blocks i "dry_run_bb code (blocks ! i) stk"]
    by (auto simp: cfg_inv_def dry_visit_def Let_def add_edges_to add_edges_from)
qed

lemma in_map_filter: "y \<in> set (List.map_filter f xs) \<longleftrightarrow> (\<exists>x \<in> set xs. f x = Some y)"
  by (force simp: map_filter_def)

lemma visit_targets:
  "Some j \<in> fst ` set (dry_exits code blocks (blocks ! i) (dry_run_bb code (blocks ! i) stk)) \<longleftrightarrow>
   j \<in> fst ` set (snd (dry_visit code blocks i stk g))"
proof -
  let ?ex = "dry_exits code blocks (blocks ! i) (dry_run_bb code (blocks ! i) stk)"
  have "j \<in> fst ` set (snd (dry_visit code blocks i stk g)) \<longleftrightarrow>
      (\<exists>s. (j, s) \<in> set (List.map_filter (\<lambda>(tgt, stk'). map_option (\<lambda>j. (j, stk')) tgt) ?ex))"
    unfolding dry_visit_def Let_def snd_conv by force
  also have "\<dots> \<longleftrightarrow> (\<exists>s. (Some j, s) \<in> set ?ex)" 
  proof
    assume "\<exists>s. (Some j, s) \<in> set ?ex"
    then obtain s where "(Some j, s) \<in> set ?ex" by blast
    then show "\<exists>s. (j, s) \<in> set (List.map_filter (\<lambda>(tgt, stk'). map_option (\<lambda>j. (j, stk')) tgt) ?ex)"
      by (intro exI [of _ s]) (force simp: in_map_filter intro: bexI [of _ "(Some j, s)"])
  qed (auto simp: in_map_filter)
  finally show ?thesis by force
qed

lemma visit_frontier:
  assumes "frontier visited g (insert i todo)"
  shows "frontier (insert i visited) (fst (dry_visit code blocks i stk g))
     (todo \<union> fst ` set (snd (dry_visit code blocks i stk g)))"
  unfolding frontier_def
proof (intro allI impI)
  fix a j assume "Some j \<in> set (bbs_to (fst (dry_visit code blocks i stk g)) a)"
  then consider "Some j \<in> set (bbs_to g a)"
    | "Some j \<in> fst ` set (dry_exits code blocks (blocks ! i) (dry_run_bb code (blocks ! i) stk))"
    by (auto simp: dry_visit_def Let_def add_edges_to split: if_splits)
  then show "j \<in> insert i visited \<union> (todo \<union> fst ` set (snd (dry_visit code blocks i stk g)))"
  proof cases
    case 1
    then show ?thesis using assms by (auto simp: frontier_def)
  next
    case 2
    then show ?thesis using visit_targets by blast
  qed
qed

lemma visit_todo: "\<forall>x \<in> fst ` set (snd (dry_visit code blocks i stk g)). x < length blocks"
proof
  fix x assume "x \<in> fst ` set (snd (dry_visit code blocks i stk g))"
  then have "Some x \<in> fst ` set (dry_exits code blocks (blocks ! i) (dry_run_bb code (blocks ! i) stk))"
    using visit_targets by blast
  then have "edge_ok code blocks i (Some x)"
    using exits_ok [of code blocks i "dry_run_bb code (blocks ! i) stk"] by auto
  then show "x < length blocks" by (simp add: edge_ok_def)
qed

lemma dry_loop_done: "dry_run_loop code blocks [] visited g = (visited, g)"
  by (subst dry_run_loop.simps) simp

lemma dry_loop_skip:
  "i \<in> visited \<Longrightarrow> dry_run_loop code blocks (rest @ [(i, stk)]) visited g = dry_run_loop code blocks rest visited g"
  by (subst dry_run_loop.simps) simp

lemma dry_loop_visit:
  "i \<notin> visited \<Longrightarrow> i < length blocks \<Longrightarrow>
   dry_run_loop code blocks (rest @ [(i, stk)]) visited g =
   dry_run_loop code blocks (rest @ snd (dry_visit code blocks i stk g)) (insert i visited)
     (fst (dry_visit code blocks i stk g))"
  by (subst dry_run_loop.simps) simp

lemma dry_loop_inv:
  "cfg_inv code blocks visited g \<Longrightarrow> frontier visited g (fst ` set dfs) \<Longrightarrow>
   \<forall>x \<in> fst ` set dfs. x < length blocks \<Longrightarrow> dry_run_loop code blocks dfs visited g = (visited', g') \<Longrightarrow>
   cfg_inv code blocks visited' g' \<and> frontier visited' g' {} \<and> visited \<union> fst ` set dfs \<subseteq> visited'"
proof (induction code blocks dfs visited g rule: dry_run_loop.induct)
  case (1 code blocks dfs visited g)
  show ?case
  proof (cases dfs rule: rev_exhaust)
    case Nil
    then show ?thesis using "1.prems" by (simp add: dry_loop_done)
  next
    case (snoc rest x)
    then obtain i stk where dfs: "dfs = rest @ [(i, stk)]" by (cases x) simp
    then have i: "i < length blocks" using "1.prems"(3) by simp
    show ?thesis
    proof (cases "i \<in> visited")
      case True
      have "frontier visited g (fst ` set rest)"
        using "1.prems"(2) True dfs by (auto simp: frontier_def)
      moreover have "dry_run_loop code blocks rest visited g = (visited', g')"
        using "1.prems"(4) dfs True by (simp add: dry_loop_skip)
      moreover have "\<forall>x \<in> fst ` set rest. x < length blocks" using "1.prems"(3) dfs by simp
      ultimately show ?thesis
        using "1.IH"(1) "1.prems"(1) dfs True by (auto simp: butlast_append)
    next
      case False
      let ?v = "dry_visit code blocks i stk g"
      have inv: "cfg_inv code blocks (insert i visited) (fst ?v)"
        using visit_inv [OF "1.prems"(1) i False] .
      have "frontier visited g (insert i (fst ` set rest))" using "1.prems"(2) dfs by simp
      then have fr: "frontier (insert i visited) (fst ?v) (fst ` set (rest @ snd ?v))"
        using visit_frontier [of visited g i "fst ` set rest" code blocks stk] by (simp add: image_Un)
      have todo: "\<forall>x \<in> fst ` set (rest @ snd ?v). x < length blocks"
        using "1.prems"(3) dfs visit_todo [of code blocks i stk g] by (auto simp: image_Un)
      have run: "dry_run_loop code blocks (rest @ snd ?v) (insert i visited) (fst ?v) = (visited', g')"
        using "1.prems"(4) dfs False i by (simp add: dry_loop_visit)
      have "cfg_inv code blocks visited' g' \<and> frontier visited' g' {}
          \<and> insert i visited \<union> fst ` set (rest @ snd ?v) \<subseteq> visited'"
        using "1.IH"(2) inv fr todo run dfs False i by simp
      then show ?thesis using dfs by auto
    qed
  qed
qed

section \<open>Properties\<close>

text \<open>
  the simulated stack has the height of the real one: when a block whose last byte is an
  instruction starts with at least the stk\_in items it needs, every successor starts with
  stk\_out items in place of these.
\<close>

theorem dry_exit_heights:
  assumes "wf_block code b" and "stk_in b \<le> length stk"
    and "bb_end b - 1 \<in> set (instrs code (bb_begin b) (bb_end b))"
    and "(tgt, stk') \<in> set (dry_exits code blocks b (dry_run_bb code b stk))"
  shows "length stk' = length stk - stk_in b + stk_out b"
  using dry_run_bb_height [OF assms(1-3)] assms(4)
  by (auto simp: dry_exits_def Let_def pending_def split: if_splits)

text \<open>A block JUMPDEST, JUMP that needs one item.\<close>

definition sample_block :: BasicBlock where
  "sample_block = \<lparr>firstInstrIdx = 0, bb_begin = 0, bb_end = 2, stk_in = 1, stk_out = 0\<rparr>"

lemma sample_instrs: "instrs [0x5b, 0x56] 0 2 = [0, 1]" "instrs [0x5b, 0x56] 0 (Suc (Suc 0)) = [0, 1]"
  by (simp_all add: instrs_step getNext_other isPush_def)

lemma sample_block_wf: "wf_block [0x5b, 0x56] sample_block"
proof -
  have "stk_outs 0x5b = 0" "stk_ins 0x5b = 0"
    by (simp_all add: stk_outs_def stk_ins_def InstrMap_get_def InstrMap_def)
  then have c: "ctxDep [0x5b, 0x56] 0 2 = (1, 0)"
    using stk_effect_flow(3) by (simp add: ctxDep_fold sample_instrs ctxDep_step_def)
  show ?thesis
    by (auto simp: wf_block_def sample_block_def sample_instrs c getNext_other isPush_def endsFlow_def)
qed

lemma sample_dry: "dry_run_bb [0x5b, 0x56] sample_block [5, 0] = [5, 0]"
proof -
  have "stk_outs 0x5b = 0" "stk_ins 0x5b = 0"
    by (simp_all add: stk_outs_def stk_ins_def InstrMap_get_def InstrMap_def)
  then have "dry_op 0x5b stk = (False, stk)" for stk by (simp add: dry_op_def balanced_stk_def)
  then show ?thesis
    unfolding dry_run_bb_def sample_block_def
    by (simp add: dry_step_op isPush_def stopsFlow_def endsFlow_def dry_op_jumps)
qed

theorem dry_exit_heights_witness:
  "(Some 0, [5]) \<in> set (dry_exits [0x5b, 0x56] [sample_block] sample_block (dry_run_bb [0x5b, 0x56] sample_block [5, 0]))
   \<and> length [5 :: u64] = length [5, 0 :: u64] - stk_in sample_block + stk_out sample_block"
proof -
  have e: "(Some 0, [5]) \<in> set (dry_exits [0x5b, 0x56] [sample_block] sample_block (dry_run_bb [0x5b, 0x56] sample_block [5, 0]))"
    unfolding sample_dry
    by (simp add: sample_block_def dry_exits_def terminator_def jump_bb_def idxMap_def stk_back_def stk_pop_def)
  have "stk_in sample_block \<le> length [5, 0 :: u64]"
    "bb_end sample_block - 1 \<in> set (instrs [0x5b, 0x56] (bb_begin sample_block) (bb_end sample_block))"
    by (simp_all add: sample_block_def sample_instrs)
  from dry_exit_heights [OF sample_block_wf this e] e show ?thesis by blast
qed

text \<open>
  C26: the simulation ends and the graph it leaves is consistent: the first block is visited
  and the visited blocks are closed under the edges; only visited blocks have edges, at most
  two each; an edge leads to a block that starts with a JUMPDEST or, for JUMPI, to the block
  right after; and bbs\_from records exactly the edges of bbs\_to.
\<close>

theorem dry_run_graph:
  assumes "blocks \<noteq> []"
  shows "\<exists>visited g. dry_run code blocks = Some (visited, g)
    \<and> 0 \<in> visited \<and> cfg_inv code blocks visited g
    \<and> (\<forall>i \<in> visited. \<forall>j. Some j \<in> set (bbs_to g i) \<longrightarrow> j \<in> visited)"
proof -
  let ?g0 = "\<lparr>bbs_to = (\<lambda>_. []), bbs_from = (\<lambda>_. [])\<rparr> :: cfg"
  obtain visited g where run: "dry_run_loop code blocks [(0, [])] {} ?g0 = (visited, g)" by fastforce
  have "cfg_inv code blocks {} ?g0" "frontier {} ?g0 (fst ` set [(0, [])])"
    by (simp_all add: cfg_inv_def frontier_def)
  from dry_loop_inv [OF this _ run] assms
  have "cfg_inv code blocks visited g \<and> frontier visited g {} \<and> 0 \<in> visited" by auto
  then show ?thesis using run assms by (auto simp: dry_run_def frontier_def)
qed

theorem dry_run_graph_witness:
  "\<exists>visited g. dry_run [0x5b, 0x56] [sample_block] = Some (visited, g)
    \<and> 0 \<in> visited \<and> cfg_inv [0x5b, 0x56] [sample_block] visited g
    \<and> (\<forall>i \<in> visited. \<forall>j. Some j \<in> set (bbs_to g i) \<longrightarrow> j \<in> visited)"
  using dry_run_graph [of "[sample_block]" "[0x5b, 0x56]"] by simp

text \<open>
  the simulated SWAP goes one item too deep: SWAPn exchanges the top with the item n + 2
  below the end of the stack instead of n + 1, and does nothing on a stack of n + 1 items.
\<close>

theorem dry_swap_too_deep:
  assumes "1 \<le> n" and "n \<le> 16"
  shows "dry_swap (0x8f + of_nat n) stk =
    (if n + 1 < length stk
     then stk[length stk - 1 := stk ! (length stk - (n + 2)), length stk - (n + 2) := last stk]
     else stk)"
proof -
  have "unat (0x8f + of_nat n :: byte) = 0x8f + n"
    using assms by (simp add: unat_word_ariths unat_of_nat)
  then have d: "unat (0x8f + of_nat n :: byte) - 0x8e = n + 1" by simp
  show ?thesis unfolding dry_swap_def Let_def d by (cases "stk = []") (auto simp: last_conv_nth)
qed

theorem dry_swap_too_deep_witness: "dry_swap 0x90 [7, 8, 9] = [9, 8, 7] \<and> dry_swap 0x90 [8, 9] = [8, 9]"
  using dry_swap_too_deep [of 1 "[7, 8, 9]"] dry_swap_too_deep [of 1 "[8, 9]"] by simp

end
