(* ===== verification/Llvm.thy ===== *)
theory Llvm
  imports Prelude "HOL-Library.Signed_Division"
begin

text \<open>
  The part of LLVM the code generator relies on. The IR builder is not part of the sources:
  it is a record of functions over an abstract type of values, a parameter of every
  definition that emits code. The locale llvm\_ir states what the language reference says
  about the integer instructions: the type (width) of the result and, for operands that are
  neither poison nor undefined, its value. Nothing is said about a division by zero, a signed
  division that overflows or a shift by the width or more, which the reference leaves
  undefined or poison. Values are read as numbers from 0 to 2 to the width.
\<close>

section \<open>The builder\<close>

datatype binop =
    Add | Sub | Mul | UDiv | SDiv | URem | SRem | NUWAdd | NUWSub | NUWMul
  | And | Or | Xor | Shl | LShr | AShr

datatype icmp_pred = ICmpEQ | ICmpNE | ICmpULT | ICmpUGT | ICmpULE | ICmpUGE | ICmpSLT | ICmpSGT

record 'v IRBuilder =
  typeOf :: "'v \<Rightarrow> nat"
  isConst :: "'v \<Rightarrow> bool"
  isInst :: "'v \<Rightarrow> bool"
  constInt :: "nat \<Rightarrow> int \<Rightarrow> 'v"
  createBin :: "binop \<Rightarrow> 'v \<Rightarrow> 'v \<Rightarrow> 'v"
  createNot :: "'v \<Rightarrow> 'v"
  createICmp :: "icmp_pred \<Rightarrow> 'v \<Rightarrow> 'v \<Rightarrow> 'v"
  createZExt :: "'v \<Rightarrow> nat \<Rightarrow> 'v"
  createTrunc :: "'v \<Rightarrow> nat \<Rightarrow> 'v"
  createSelect :: "'v \<Rightarrow> 'v \<Rightarrow> 'v \<Rightarrow> 'v"

section \<open>What the language reference says\<close>

text \<open>The two's complement reading of a number of the given width.\<close>

definition signed :: "nat \<Rightarrow> int \<Rightarrow> int" where
  "signed w x = signed_take_bit (w - 1) x"

definition bin_defined :: "binop \<Rightarrow> nat \<Rightarrow> int \<Rightarrow> int \<Rightarrow> bool" where
  "bin_defined op w x y =
     (case op of
        UDiv \<Rightarrow> y \<noteq> 0
      | URem \<Rightarrow> y \<noteq> 0
      | SDiv \<Rightarrow> y \<noteq> 0 \<and> \<not> (signed w x = - (2 ^ (w - 1)) \<and> signed w y = - 1)
      | SRem \<Rightarrow> y \<noteq> 0 \<and> \<not> (signed w x = - (2 ^ (w - 1)) \<and> signed w y = - 1)
      | NUWAdd \<Rightarrow> x + y < 2 ^ w
      | NUWSub \<Rightarrow> y \<le> x
      | NUWMul \<Rightarrow> x * y < 2 ^ w
      | Shl \<Rightarrow> y < int w
      | LShr \<Rightarrow> y < int w
      | AShr \<Rightarrow> y < int w
      | _ \<Rightarrow> True)"

definition bin_value :: "binop \<Rightarrow> nat \<Rightarrow> int \<Rightarrow> int \<Rightarrow> int" where
  "bin_value op w x y =
     (case op of
        Add \<Rightarrow> take_bit w (x + y)
      | Sub \<Rightarrow> take_bit w (x - y)
      | Mul \<Rightarrow> take_bit w (x * y)
      | UDiv \<Rightarrow> x div y
      | SDiv \<Rightarrow> take_bit w (signed w x sdiv signed w y)
      | URem \<Rightarrow> x mod y
      | SRem \<Rightarrow> take_bit w (signed w x smod signed w y)
      | NUWAdd \<Rightarrow> x + y
      | NUWSub \<Rightarrow> x - y
      | NUWMul \<Rightarrow> x * y
      | And \<Rightarrow> x AND y
      | Or \<Rightarrow> x OR y
      | Xor \<Rightarrow> x XOR y
      | Shl \<Rightarrow> take_bit w (push_bit (nat y) x)
      | LShr \<Rightarrow> drop_bit (nat y) x
      | AShr \<Rightarrow> take_bit w (drop_bit (nat y) (signed w x)))"

definition icmp_value :: "icmp_pred \<Rightarrow> nat \<Rightarrow> int \<Rightarrow> int \<Rightarrow> bool" where
  "icmp_value p w x y =
     (case p of
        ICmpEQ \<Rightarrow> x = y
      | ICmpNE \<Rightarrow> x \<noteq> y
      | ICmpULT \<Rightarrow> x < y
      | ICmpUGT \<Rightarrow> y < x
      | ICmpULE \<Rightarrow> x \<le> y
      | ICmpUGE \<Rightarrow> y \<le> x
      | ICmpSLT \<Rightarrow> signed w x < signed w y
      | ICmpSGT \<Rightarrow> signed w y < signed w x)"

lemma take_bit_uint_word: "take_bit 256 (uint (x::w256)) = uint x"
  using take_bit_length_eq [of x] unsigned_take_bit_eq [of 256 x, where ?'a = int] by simp

text \<open>
  Which values are constants and which are instructions. The builder the code generator uses
  folds: an operation on constants gives a constant, and an operation with an instruction
  among its operands gives an instruction (a new one, or the operand itself).
\<close>

locale ir_folding =
  fixes B :: "'v IRBuilder"
  assumes const_not_inst: "isConst B v \<Longrightarrow> \<not> isInst B v"
    and const_const: "isConst B (constInt B w n)"
    and bin_const: "isConst B a \<Longrightarrow> isConst B b \<Longrightarrow> isConst B (createBin B op a b)"
    and icmp_const: "isConst B a \<Longrightarrow> isConst B b \<Longrightarrow> isConst B (createICmp B p a b)"
    and select_const: "isConst B c \<Longrightarrow> isConst B a \<Longrightarrow> isConst B b \<Longrightarrow> isConst B (createSelect B c a b)"
    and not_const: "isConst B a \<Longrightarrow> isConst B (createNot B a)"
    and zext_const: "isConst B a \<Longrightarrow> isConst B (createZExt B a w)"
    and trunc_const: "isConst B a \<Longrightarrow> isConst B (createTrunc B a w)"
    and bin_inst: "isInst B a \<or> isInst B b \<Longrightarrow> isInst B (createBin B op a b)"
    and icmp_inst: "isInst B a \<or> isInst B b \<Longrightarrow> isInst B (createICmp B p a b)"
    and select_inst: "isInst B c \<or> isInst B a \<or> isInst B b \<Longrightarrow> isInst B (createSelect B c a b)"
    and not_inst: "isInst B a \<Longrightarrow> isInst B (createNot B a)"
    and zext_inst: "isInst B a \<Longrightarrow> isInst B (createZExt B a w)"
    and trunc_inst: "isInst B a \<Longrightarrow> isInst B (createTrunc B a w)"

text \<open>The types and the values of the results.\<close>

locale llvm_ir = ir_folding B for B :: "'v IRBuilder" +
  fixes den :: "'v \<Rightarrow> int option"
  assumes const_law: "typeOf B (constInt B w n) = w \<and> den (constInt B w n) = Some (take_bit w n)"
    and bin_law:
      "\<lbrakk>typeOf B a = w; typeOf B b = w; den a = Some x; den b = Some y; bin_defined op w x y\<rbrakk> \<Longrightarrow>
       typeOf B (createBin B op a b) = w \<and> den (createBin B op a b) = Some (bin_value op w x y)"
    and not_law:
      "\<lbrakk>typeOf B a = w; den a = Some x\<rbrakk> \<Longrightarrow>
       typeOf B (createNot B a) = w \<and> den (createNot B a) = Some (take_bit w (NOT x))"
    and icmp_law:
      "\<lbrakk>typeOf B a = w; typeOf B b = w; den a = Some x; den b = Some y\<rbrakk> \<Longrightarrow>
       typeOf B (createICmp B p a b) = 1
       \<and> den (createICmp B p a b) = Some (if icmp_value p w x y then 1 else 0)"
    and zext_law:
      "\<lbrakk>typeOf B a \<le> w; den a = Some x\<rbrakk> \<Longrightarrow>
       typeOf B (createZExt B a w) = w \<and> den (createZExt B a w) = Some x"
    and trunc_law:
      "\<lbrakk>w \<le> typeOf B a; den a = Some x\<rbrakk> \<Longrightarrow>
       typeOf B (createTrunc B a w) = w \<and> den (createTrunc B a w) = Some (take_bit w x)"
    and select_law:
      "\<lbrakk>typeOf B c = 1; den c = Some k; typeOf B a = w; typeOf B b = w; den a = Some x; den b = Some y\<rbrakk> \<Longrightarrow>
       typeOf B (createSelect B c a b) = w \<and> den (createSelect B c a b) = Some (if k = 1 then x else y)"
begin

text \<open>A value of the given width that denotes the given number.\<close>

definition typed :: "'v \<Rightarrow> nat \<Rightarrow> int \<Rightarrow> bool" where
  "typed v w x \<longleftrightarrow> typeOf B v = w \<and> den v = Some x"

lemma typed_const: "typed (constInt B w n) w (take_bit w n)"
  using const_law by (simp add: typed_def)

lemma typed_bin:
  "typed a w x \<Longrightarrow> typed b w y \<Longrightarrow> bin_defined op w x y \<Longrightarrow> typed (createBin B op a b) w (bin_value op w x y)"
  using bin_law [of a w b x y op] by (simp add: typed_def)

lemma typed_not: "typed a w x \<Longrightarrow> typed (createNot B a) w (take_bit w (NOT x))"
  using not_law [of a w x] by (simp add: typed_def)

lemma typed_icmp:
  "typed a w x \<Longrightarrow> typed b w y \<Longrightarrow> typed (createICmp B p a b) 1 (if icmp_value p w x y then 1 else 0)"
  using icmp_law [of a w b x y p] by (simp add: typed_def)

lemma typed_zext: "typed a w x \<Longrightarrow> w \<le> w' \<Longrightarrow> typed (createZExt B a w') w' x"
  using zext_law [of a w' x] by (simp add: typed_def)

lemma typed_trunc: "typed a w x \<Longrightarrow> w' \<le> w \<Longrightarrow> typed (createTrunc B a w') w' (take_bit w' x)"
  using trunc_law [of w' a x] by (simp add: typed_def)

lemma typed_select:
  "typed c 1 k \<Longrightarrow> typed a w x \<Longrightarrow> typed b w y \<Longrightarrow> typed (createSelect B c a b) w (if k = 1 then x else y)"
  using select_law [of c k a w b x y] by (simp add: typed_def)

end

section \<open>LLVM values and words\<close>

lemma signed_uint: "signed 256 (uint (x::w256)) = sint x"
  by (simp add: signed_def sint_uint)

lemma sint_minus_one_iff: "sint (y::w256) = - 1 \<longleftrightarrow> y = - 1"
  by (metis signed_minus_1 sint_n1 signed_word_eqI)

lemma sint_min_iff: "sint (x::w256) = - (2 ^ 255) \<longleftrightarrow> x = 2 ^ 255"
proof -
  have "sint (2 ^ 255 :: w256) = - (2 ^ 255)" by (simp add: sint_uint signed_take_bit_def not_eq_complement mask_eq_exp_minus_1)
  then show ?thesis by (metis signed_word_eqI)
qed

lemma bin_value_words:
  "bin_value Add 256 (uint x) (uint y) = uint (x + y)"
  "bin_value Sub 256 (uint x) (uint y) = uint (x - y)"
  "bin_value Mul 256 (uint x) (uint y) = uint (x * y)"
  "bin_value UDiv 256 (uint x) (uint y) = uint (x div y)"
  "bin_value URem 256 (uint x) (uint y) = uint (x mod y)"
  "bin_value SDiv 256 (uint x) (uint y) = uint (word_of_int (sint x sdiv sint y) :: w256)"
  "bin_value SRem 256 (uint x) (uint y) = uint (word_of_int (sint x smod sint y) :: w256)"
  "bin_value And 256 (uint x) (uint y) = uint (x AND y)"
  "bin_value Or 256 (uint x) (uint y) = uint (x OR y)"
  "bin_value Xor 256 (uint x) (uint y) = uint (x XOR y)"
  "bin_value Shl 256 (uint x) (uint y) = uint (push_bit (unat y) x)"
  "bin_value LShr 256 (uint x) (uint y) = uint (drop_bit (unat y) x)"
  "bin_value AShr 256 (uint x) (uint y) = uint (word_of_int (drop_bit (unat y) (sint x)) :: w256)"
  for x y :: w256
  by (simp_all add: bin_value_def signed_uint unsigned_drop_bit_eq take_bit_uint_word)
    (simp_all add: uint_word_ariths uint_div uint_mod take_bit_eq_mod unsigned_and_eq
      unsigned_or_eq unsigned_xor_eq unsigned_push_bit_eq unsigned_of_int)

lemma bin_defined_words:
  "bin_defined UDiv 256 (uint x) (uint y) \<longleftrightarrow> y \<noteq> 0"
  "bin_defined URem 256 (uint x) (uint y) \<longleftrightarrow> y \<noteq> 0"
  "bin_defined SDiv 256 (uint x) (uint y) \<longleftrightarrow> y \<noteq> 0 \<and> \<not> (x = 2 ^ 255 \<and> y = - 1)"
  "bin_defined SRem 256 (uint x) (uint y) \<longleftrightarrow> y \<noteq> 0 \<and> \<not> (x = 2 ^ 255 \<and> y = - 1)"
  "bin_defined Shl 256 (uint x) (uint y) \<longleftrightarrow> y < 256"
  "bin_defined LShr 256 (uint x) (uint y) \<longleftrightarrow> y < 256"
  "bin_defined AShr 256 (uint x) (uint y) \<longleftrightarrow> y < 256"
  for x y :: w256
proof -
  show "bin_defined UDiv 256 (uint x) (uint y) \<longleftrightarrow> y \<noteq> 0"
    "bin_defined URem 256 (uint x) (uint y) \<longleftrightarrow> y \<noteq> 0"
    by (simp_all add: bin_defined_def unsigned_eq_0_iff)
  show "bin_defined SDiv 256 (uint x) (uint y) \<longleftrightarrow> y \<noteq> 0 \<and> \<not> (x = 2 ^ 255 \<and> y = - 1)"
    "bin_defined SRem 256 (uint x) (uint y) \<longleftrightarrow> y \<noteq> 0 \<and> \<not> (x = 2 ^ 255 \<and> y = - 1)"
    using sint_min_iff [of x] by (simp_all add: bin_defined_def signed_uint sint_minus_one_iff unsigned_eq_0_iff)
  show "bin_defined Shl 256 (uint x) (uint y) \<longleftrightarrow> y < 256"
    "bin_defined LShr 256 (uint x) (uint y) \<longleftrightarrow> y < 256"
    "bin_defined AShr 256 (uint x) (uint y) \<longleftrightarrow> y < 256"
    by (simp_all add: bin_defined_def word_less_def)
qed

lemma icmp_value_words:
  "icmp_value ICmpEQ 256 (uint x) (uint y) \<longleftrightarrow> x = y"
  "icmp_value ICmpULT 256 (uint x) (uint y) \<longleftrightarrow> x < y"
  "icmp_value ICmpUGT 256 (uint x) (uint y) \<longleftrightarrow> y < x"
  "icmp_value ICmpULE 256 (uint x) (uint y) \<longleftrightarrow> x \<le> y"
  "icmp_value ICmpSLT 256 (uint x) (uint y) \<longleftrightarrow> sint x < sint y"
  "icmp_value ICmpSGT 256 (uint x) (uint y) \<longleftrightarrow> sint y < sint x"
  for x y :: w256
  by (simp_all add: icmp_value_def signed_uint word_less_def word_le_def word_uint_eq_iff)

section \<open>A builder that folds everything\<close>

text \<open>
  A builder whose values are a width, a number (none when an instruction has no defined
  value) and whether the value is a constant. It shows that the laws can be met and serves to evaluate
  generated code on concrete inputs.
\<close>

record folded =
  f_width :: nat
  f_val :: "int option"
  f_const :: bool

definition fold_un :: "nat \<Rightarrow> (int \<Rightarrow> int) \<Rightarrow> folded \<Rightarrow> folded" where
  "fold_un w f a = \<lparr>f_width = w, f_val = map_option f (f_val a), f_const = f_const a\<rparr>"

definition fold_bin :: "binop \<Rightarrow> folded \<Rightarrow> folded \<Rightarrow> folded" where
  "fold_bin op a b =
     (let w = f_width a in
      \<lparr>f_width = w,
       f_val = (case (f_val a, f_val b) of
                  (Some x, Some y) \<Rightarrow>
                    if f_width b = w \<and> bin_defined op w x y then Some (bin_value op w x y) else None
                | _ \<Rightarrow> None),
       f_const = (f_const a \<and> f_const b)\<rparr>)"

definition fold_icmp :: "icmp_pred \<Rightarrow> folded \<Rightarrow> folded \<Rightarrow> folded" where
  "fold_icmp p a b =
     (let w = f_width a in
      \<lparr>f_width = 1,
       f_val = (case (f_val a, f_val b) of
                  (Some x, Some y) \<Rightarrow> if f_width b = w then Some (if icmp_value p w x y then 1 else 0) else None
                | _ \<Rightarrow> None),
       f_const = (f_const a \<and> f_const b)\<rparr>)"

definition fold_select :: "folded \<Rightarrow> folded \<Rightarrow> folded \<Rightarrow> folded" where
  "fold_select c a b =
     \<lparr>f_width = f_width a,
      f_val = (case f_val c of None \<Rightarrow> None | Some k \<Rightarrow> if k = 1 then f_val a else f_val b),
      f_const = (f_const c \<and> f_const a \<and> f_const b)\<rparr>"

definition fold_builder :: "folded IRBuilder" where
  "fold_builder =
     \<lparr>typeOf = f_width, isConst = f_const, isInst = (\<lambda>v. \<not> f_const v),
      constInt = (\<lambda>w n. \<lparr>f_width = w, f_val = Some (take_bit w n), f_const = True\<rparr>),
      createBin = fold_bin,
      createNot = (\<lambda>a. fold_un (f_width a) (\<lambda>x. take_bit (f_width a) (NOT x)) a),
      createICmp = fold_icmp, createZExt = (\<lambda>a w. fold_un w (\<lambda>x. x) a),
      createTrunc = (\<lambda>a w. fold_un w (take_bit w) a), createSelect = fold_select\<rparr>"

lemmas fold_defs = fold_builder_def fold_un_def fold_bin_def fold_icmp_def fold_select_def

interpretation folding: llvm_ir fold_builder f_val
  by unfold_locales (auto simp: fold_defs Let_def)

end
