(* ===== verification/Ir.thy ===== *)
theory Ir
  imports Llvm
begin

text \<open>
  LLVM functions as the code generator assembles them: basic blocks with their PHI nodes,
  instructions in order and a terminator, and what running such a function does. The builder
  calls of the sources (SetInsertPoint, CreateX, addIncoming) correspond one to one to the
  fields of a block. The semantics follows the language reference: the PHI nodes of a block
  are read together on entry from the block control came from; an operation on poison, a
  wrapped no-unsigned-wrap operation and a shift by the width or more give poison; a select
  is poison only if its condition or the chosen arm is; a division by zero and a branch on
  poison are undefined behaviour. A function that does not come back has the outcome \<open>None\<close>.
\<close>

section \<open>Functions\<close>

datatype opnd = Reg string | Imm int | UndefVec nat

datatype irop =
    OBin binop nat opnd opnd
  | OICmp icmp_pred nat opnd opnd
  | OSelect opnd opnd opnd
  | OZExt nat opnd
  | OTrunc nat opnd
  | OInsertElement opnd opnd nat
  | OExtractElement opnd nat
  | OCall string "opnd list"

datatype irterm = Br string | CondBr opnd string string | Ret opnd

record ir_block =
  blk_phis :: "(string \<times> (string \<times> opnd) list) list"
  blk_body :: "(string \<times> irop) list"
  blk_term :: irterm

record ir_func =
  fn_params :: "string list"
  fn_entry :: string
  fn_blocks :: "(string \<times> ir_block) list"

section \<open>Running a function\<close>

datatype irval = Poison | I int | V "irval list"

text \<open>A call of a host function that ends the contract does not come back: it halts.\<close>

datatype outcome = Returns irval | UB | Halts

type_synonym env = "string \<Rightarrow> irval"

fun opval :: "env \<Rightarrow> opnd \<Rightarrow> irval" where
  "opval env (Reg r) = env r"
| "opval env (Imm n) = I n"
| "opval env (UndefVec n) = V (replicate n Poison)"

definition divides :: "binop \<Rightarrow> bool" where
  "divides op \<longleftrightarrow> op = UDiv \<or> op = SDiv \<or> op = URem \<or> op = SRem"

fun bin_result :: "binop \<Rightarrow> nat \<Rightarrow> irval \<Rightarrow> irval \<Rightarrow> outcome" where
  "bin_result op w (I x) (I y) =
     (if bin_defined op w x y then Returns (I (bin_value op w x y)) else if divides op then UB else Returns Poison)"
| "bin_result op w a (I y) = (if divides op \<and> y = 0 then UB else Returns Poison)"
| "bin_result op w a b = (if divides op then UB else Returns Poison)"

fun icmp_result :: "icmp_pred \<Rightarrow> nat \<Rightarrow> irval \<Rightarrow> irval \<Rightarrow> irval" where
  "icmp_result p w (I x) (I y) = I (if icmp_value p w x y then 1 else 0)"
| "icmp_result p w a b = Poison"

fun select_result :: "irval \<Rightarrow> irval \<Rightarrow> irval \<Rightarrow> irval" where
  "select_result (I k) a b = (if k = 1 then a else b)"
| "select_result c a b = Poison"

fun on_int :: "(int \<Rightarrow> int) \<Rightarrow> irval \<Rightarrow> irval" where
  "on_int f (I x) = I (f x)"
| "on_int f v = Poison"

fun insert_result :: "irval \<Rightarrow> irval \<Rightarrow> nat \<Rightarrow> irval" where
  "insert_result (V vs) x i = (if i < length vs then V (vs[i := x]) else Poison)"
| "insert_result v x i = Poison"

fun extract_result :: "irval \<Rightarrow> nat \<Rightarrow> irval" where
  "extract_result (V vs) i = (if i < length vs then vs ! i else Poison)"
| "extract_result v i = Poison"

type_synonym callees = "string \<Rightarrow> irval list \<Rightarrow> outcome option"

definition op_result :: "callees \<Rightarrow> env \<Rightarrow> irop \<Rightarrow> outcome option" where
  "op_result calls env op =
     (case op of
        OBin b w x y \<Rightarrow> Some (bin_result b w (opval env x) (opval env y))
      | OICmp p w x y \<Rightarrow> Some (Returns (icmp_result p w (opval env x) (opval env y)))
      | OSelect c x y \<Rightarrow> Some (Returns (select_result (opval env c) (opval env x) (opval env y)))
      | OZExt w x \<Rightarrow> Some (Returns (on_int (\<lambda>n. n) (opval env x)))
      | OTrunc w x \<Rightarrow> Some (Returns (on_int (take_bit w) (opval env x)))
      | OInsertElement v x i \<Rightarrow> Some (Returns (insert_result (opval env v) (opval env x) i))
      | OExtractElement v i \<Rightarrow> Some (Returns (extract_result (opval env v) i))
      | OCall f args \<Rightarrow> calls f (map (opval env) args))"

fun run_body :: "callees \<Rightarrow> (string \<times> irop) list \<Rightarrow> env \<Rightarrow> outcome option + env" where
  "run_body calls [] env = Inr env"
| "run_body calls ((r, op) # ops) env =
     (case op_result calls env op of
        Some (Returns v) \<Rightarrow> run_body calls ops (env(r := v))
      | out \<Rightarrow> Inl out)"

fun assign_phis :: "string \<Rightarrow> env \<Rightarrow> (string \<times> (string \<times> opnd) list) list \<Rightarrow> env \<Rightarrow> env" where
  "assign_phis prev old [] env = env"
| "assign_phis prev old ((r, ins) # ps) env =
     assign_phis prev old ps (env(r := (case map_of ins prev of Some v \<Rightarrow> opval old v | None \<Rightarrow> Poison)))"

partial_function (option) run_from ::
  "callees \<Rightarrow> (string \<times> ir_block) list \<Rightarrow> string \<Rightarrow> string \<Rightarrow> env \<Rightarrow> outcome option" where
  "run_from calls bs prev lbl env =
     (case map_of bs lbl of
        None \<Rightarrow> Some UB
      | Some b \<Rightarrow>
          (case run_body calls (blk_body b) (assign_phis prev env (blk_phis b) env) of
             Inl out \<Rightarrow> out
           | Inr env' \<Rightarrow>
               (case blk_term b of
                  Ret v \<Rightarrow> Some (Returns (opval env' v))
                | Br l \<Rightarrow> run_from calls bs lbl l env'
                | CondBr c t e \<Rightarrow>
                    (case opval env' c of
                       I k \<Rightarrow> run_from calls bs lbl (if k = 1 then t else e) env'
                     | _ \<Rightarrow> Some UB))))"

declare run_from.simps [code]

definition run_func :: "callees \<Rightarrow> ir_func \<Rightarrow> irval list \<Rightarrow> outcome option" where
  "run_func calls f args =
     run_from calls (fn_blocks f) [] (fn_entry f)
       (\<lambda>r. case map_of (zip (fn_params f) args) r of Some v \<Rightarrow> v | None \<Rightarrow> Poison)"

text \<open>A module: functions that may call the ones after them, and the functions of the host.\<close>

fun run_module :: "(string \<times> ir_func) list \<Rightarrow> callees \<Rightarrow> callees" where
  "run_module [] ext name args = ext name args"
| "run_module ((n, f) # fs) ext name args =
     (if name = n then run_func (run_module fs ext) f args else run_module fs ext name args)"

end
