(* ===== verification/Endian.thy ===== *)
theory Endian
  imports Ir
begin

text \<open>
  The byte swap that EEIModule.cpp emits as an LLVM function (initBswapI256). The reference is
  the reversal of the bytes of a number; the emitted code collects the bytes with shifts and
  masks. Integers of LLVM are read as numbers, and their bytes least significant first, the
  order in which WebAssembly stores them.
\<close>

section \<open>Bytes of a number\<close>

definition le_bytes :: "nat \<Rightarrow> int \<Rightarrow> byte list" where
  "le_bytes k n = map (\<lambda>i. word_of_int (drop_bit (8 * i) n)) [0..<k]"

definition le_int :: "byte list \<Rightarrow> int" where
  "le_int bs = horner_sum uint 256 bs"

definition byte_swap :: "nat \<Rightarrow> int \<Rightarrow> int" where
  "byte_swap k n = le_int (rev (le_bytes k n))"

lemma length_le_bytes [simp]: "length (le_bytes k n) = k"
  by (simp add: le_bytes_def)

lemma le_int_Cons: "le_int (b # bs) = uint b + 256 * le_int bs"
  by (simp add: le_int_def)

lemma le_int_Nil [simp]: "le_int [] = 0"
  by (simp add: le_int_def)

lemma byte_below: "uint (b :: byte) < 256" "0 \<le> uint b"
  using unsigned_less [of b, where ?'a = int] by simp_all

lemma bit_le_int: "bit (le_int bs) j \<longleftrightarrow> j < 8 * length bs \<and> bit (bs ! (j div 8)) (j mod 8)"
proof (induction bs arbitrary: j)
  case (Cons b bs)
  have "le_int (b # bs) = push_bit 8 (le_int bs) OR uint b"
  proof -
    have "push_bit 8 (le_int bs) AND uint b = 0"
    proof (rule bit_eqI)
      fix i
      have "\<not> bit (uint b) i" if "8 \<le> i" using that by (simp add: bit_uint_iff)
      then show "bit (push_bit 8 (le_int bs) AND uint b) i = bit 0 i" by (auto simp: bit_simps)
    qed
    from disjunctive_add_eq_or [OF this] show ?thesis by (simp add: le_int_Cons push_bit_eq_mult add.commute)
  qed
  moreover have "bit (uint b) j \<longleftrightarrow> j < 8 \<and> bit b j" by (simp add: bit_uint_iff)
  ultimately show ?case using Cons.IH [of "j - 8"]
    by (cases "j < 8") (auto simp: bit_simps le_div_geq le_mod_geq)
qed (simp add: le_int_def)

lemma nth_le_bytes: "i < k \<Longrightarrow> le_bytes k n ! i = word_of_int (drop_bit (8 * i) n)"
  by (simp add: le_bytes_def)

lemma bit_byte: "bit (word_of_int (drop_bit m n) :: byte) r \<longleftrightarrow> r < 8 \<and> bit n (m + r)"
  by (simp add: bit_simps)

lemma bit_byte_swap: "bit (byte_swap k n) j \<longleftrightarrow> j < 8 * k \<and> bit n (8 * (k - Suc (j div 8)) + j mod 8)"
proof (cases "j < 8 * k")
  case True
  then have "j div 8 < k" by auto
  then show ?thesis using True
    by (simp add: byte_swap_def bit_le_int rev_nth nth_le_bytes bit_byte)
qed (simp add: byte_swap_def bit_le_int)

lemma le_int_bytes: "0 \<le> n \<Longrightarrow> n < 2 ^ (8 * k) \<Longrightarrow> le_int (le_bytes k n) = n"
proof (rule bit_eqI)
  fix j assume n: "0 \<le> n" "n < 2 ^ (8 * k)"
  then have "take_bit (8 * k) n = n" by (simp add: take_bit_int_eq_self)
  then have big: "\<not> bit n j" if "8 * k \<le> j" using that by (metis bit_take_bit_iff linorder_not_le)
  show "bit (le_int (le_bytes k n)) j = bit n j"
  proof (cases "j < 8 * k")
    case True
    then have "j div 8 < k" by auto
    then show ?thesis using True by (simp add: bit_le_int nth_le_bytes bit_byte)
  qed (simp add: bit_le_int big)
qed

lemma le_bytes_int: "le_bytes (length bs) (le_int bs) = bs"
proof (rule nth_equalityI)
  fix i assume "i < length (le_bytes (length bs) (le_int bs))"
  then have i: "i < length bs" by simp
  show "le_bytes (length bs) (le_int bs) ! i = bs ! i"
  proof (rule bit_word_eqI)
    fix r assume "r < LENGTH(8)"
    then show "bit (le_bytes (length bs) (le_int bs) ! i) r = bit (bs ! i) r"
      using i by (simp add: nth_le_bytes bit_byte bit_le_int)
  qed
qed simp

lemma le_bytes_swap: "le_bytes k (byte_swap k n) = rev (le_bytes k n)"
  unfolding byte_swap_def using le_bytes_int [of "rev (le_bytes k n)"] by simp

lemma le_int_bounds: "0 \<le> le_int bs \<and> le_int bs < 2 ^ (8 * length bs)"
proof (induction bs)
  case (Cons b bs)
  then have "le_int bs \<le> 2 ^ (8 * length bs) - 1" by simp
  then show ?case using byte_below [of b] Cons by (simp add: le_int_Cons power_add)
qed simp

lemma byte_swap_bounds: "0 \<le> byte_swap k n" "byte_swap k n < 2 ^ (8 * k)"
  using le_int_bounds [of "rev (le_bytes k n)"] by (simp_all add: byte_swap_def)

lemma byte_swap_twice: "0 \<le> n \<Longrightarrow> n < 2 ^ (8 * k) \<Longrightarrow> byte_swap k (byte_swap k n) = n"
  by (subst byte_swap_def) (simp add: le_bytes_swap le_int_bytes)

section \<open>The emitted function (initBswapI256)\<close>

text \<open>
  Register names: d, a and r stand for the shifted argument, the masked one and the partial
  result, followed by the index of the loop.
\<close>

definition idx_reg :: "char \<Rightarrow> nat \<Rightarrow> string" where
  "idx_reg c i = [c, char_of i]"

definition bswap_shift :: "nat \<Rightarrow> irop" where
  "bswap_shift i =
     (if i < 16 then OBin Shl 256 (Reg ''data'') (Imm (248 - int i * 16))
      else OBin LShr 256 (Reg ''data'') (Imm (int i * 16 - 248)))"

definition bswap_masked :: "nat \<Rightarrow> bool" where
  "bswap_masked i \<longleftrightarrow> i \<noteq> 0 \<and> i \<noteq> 31"

definition bswap_data :: "nat \<Rightarrow> (string \<times> irop) list" where
  "bswap_data i =
     (idx_reg (CHR ''d'') i, bswap_shift i) #
     (if bswap_masked i
      then [(idx_reg (CHR ''a'') i, OBin And 256 (Reg (idx_reg (CHR ''d'') i)) (Imm (push_bit ((31 - i) * 8) 0xFF)))]
      else [])"

definition Data :: "nat \<Rightarrow> string" where
  "Data i = idx_reg (if bswap_masked i then CHR ''a'' else CHR ''d'') i"

definition bswap_ors :: "(string \<times> irop) list" where
  "bswap_ors =
     (idx_reg (CHR ''r'') 1, OBin Or 256 (Reg (Data 0)) (Reg (Data 1))) #
     map (\<lambda>i. (idx_reg (CHR ''r'') i, OBin Or 256 (Reg (idx_reg (CHR ''r'') (i - 1))) (Reg (Data i)))) [2..<32]"

definition initBswapI256 :: ir_func where
  "initBswapI256 =
     \<lparr>fn_params = [''data''], fn_entry = ''bswapi256.entry'',
      fn_blocks =
        [(''bswapi256.entry'',
          \<lparr>blk_phis = [], blk_body = concat (map bswap_data [0..<32]) @ bswap_ors,
           blk_term = Ret (Reg (idx_reg (CHR ''r'') 31))\<rparr>)]\<rparr>"

section \<open>Correctness\<close>

lemma run_body_append:
  "run_body calls (xs @ ys) env = (case run_body calls xs env of Inl out \<Rightarrow> Inl out | Inr env' \<Rightarrow> run_body calls ys env')"
proof (induction xs arbitrary: env)
  case (Cons x xs)
  then show ?case by (cases x) (simp add: fun_upd_def split: option.splits outcome.splits)
qed simp

lemma idx_reg_eq [simp]: "i < 256 \<Longrightarrow> j < 256 \<Longrightarrow> idx_reg c i = idx_reg d j \<longleftrightarrow> c = d \<and> i = j"
proof -
  assume "i < 256" "j < 256"
  then have "char_of i = (char_of j :: char) \<longleftrightarrow> i = j"
    by (metis mod_less of_char_of)
  then show ?thesis by (simp add: idx_reg_def)
qed

lemma idx_reg_data [simp]: "idx_reg c i \<noteq> ''data''" "''data'' \<noteq> idx_reg c i"
  by (simp_all add: idx_reg_def)

definition piece :: "int \<Rightarrow> nat \<Rightarrow> int" where
  "piece x i =
     (let s = (if i < 16 then take_bit 256 (push_bit (248 - i * 16) x) else drop_bit (i * 16 - 248) x)
      in if bswap_masked i then s AND push_bit ((31 - i) * 8) 0xFF else s)"

lemma bit_FF: "bit (0xFF :: int) n \<longleftrightarrow> n < 8"
proof -
  have "(0xFF :: int) = mask 8" by (simp add: mask_eq_exp_minus_1)
  then show ?thesis by (simp only: bit_mask_iff) simp
qed

lemma bit_piece:
  assumes "0 \<le> x" "x < 2 ^ 256" "i < 32"
  shows "bit (piece x i) j \<longleftrightarrow> j div 8 = 31 - i \<and> bit x (8 * i + j mod 8)"
proof -
  have "take_bit 256 x = x" using assms by (simp add: take_bit_int_eq_self)
  then have big: "\<not> bit x k" if "256 \<le> k" for k using that by (metis bit_take_bit_iff linorder_not_le)
  have pos: "j div 8 = 31 - i \<longleftrightarrow> (31 - i) * 8 \<le> j \<and> j < (31 - i) * 8 + 8" by auto
  have idx: "8 * i + j mod 8 = i * 16 + j - 248" if "j div 8 = 31 - i"
  proof -
    have "j = 8 * (31 - i) + j mod 8" using that by (metis mult_div_mod_eq)
    then show ?thesis using assms(3) by linarith
  qed
  show ?thesis
  proof (cases "bswap_masked i")
    case True
    have c: "j + i * 16 = i * 16 + j" by simp
    show ?thesis using True assms(3) pos idx big
      by (auto simp: c piece_def Let_def bit_simps bit_FF bswap_masked_def)
  next
    case False
    then have "i = 0 \<or> i = 31" by (auto simp: bswap_masked_def)
    then show ?thesis using pos idx big by (auto simp: piece_def Let_def bit_simps bswap_masked_def)
  qed
qed

lemma shift_value:
  assumes "i < 32"
  shows "op_result calls env (bswap_shift i) = Some (Returns (on_int (\<lambda>x. if i < 16 then take_bit 256 (push_bit (248 - i * 16) x)
     else drop_bit (i * 16 - 248) x) (env ''data'')))"
proof -
  have n: "nat (248 - int i * 16) = 248 - i * 16" "nat (int i * 16 - 248) = i * 16 - 248" by linarith+
  show ?thesis using assms
    by (cases "env ''data''") (auto simp: op_result_def bswap_shift_def bin_value_def bin_defined_def divides_def n)
qed

lemma op_bin [simp]:
  "op_result calls env (OBin b w x y) = Some (bin_result b w (opval env x) (opval env y))"
  by (simp add: op_result_def)

lemma Data_eq [simp]: "i < 32 \<Longrightarrow> j < 32 \<Longrightarrow> Data i = Data j \<longleftrightarrow> i = j"
  "Data i \<noteq> ''data''" "i < 32 \<Longrightarrow> j < 32 \<Longrightarrow> Data i \<noteq> idx_reg (CHR ''r'') j"
  by (auto simp: Data_def)

lemma run_data_step:
  assumes "i < 32" "env ''data'' = I x"
  shows "\<exists>env'. run_body calls (bswap_data i) env = Inr env' \<and> env' ''data'' = I x
    \<and> (\<forall>j < i. env' (Data j) = env (Data j)) \<and> env' (Data i) = I (piece x i)"
  using assms
  by (auto simp: bswap_data_def shift_value piece_def Let_def Data_def bin_value_def bin_defined_def)

lemma run_data:
  assumes "n \<le> 32" "env ''data'' = I x"
  shows "\<exists>env'. run_body calls (concat (map bswap_data [0..<n])) env = Inr env' \<and> env' ''data'' = I x
    \<and> (\<forall>j < n. env' (Data j) = I (piece x j))"
  using assms(1)
proof (induction n)
  case (Suc n)
  then obtain env1 where e: "run_body calls (concat (map bswap_data [0..<n])) env = Inr env1" "env1 ''data'' = I x"
    "\<forall>j < n. env1 (Data j) = I (piece x j)" by auto
  from run_data_step [of n env1 x calls] e(2) Suc.prems obtain env2 where
    "run_body calls (bswap_data n) env1 = Inr env2" "env2 ''data'' = I x"
    "\<forall>j < n. env2 (Data j) = env1 (Data j)" "env2 (Data n) = I (piece x n)" by auto
  then show ?case using e by (auto simp: run_body_append less_Suc_eq)
qed (use assms(2) in simp)

fun ors :: "int \<Rightarrow> nat \<Rightarrow> int" where
  "ors x 0 = piece x 0"
| "ors x (Suc n) = ors x n OR piece x (Suc n)"

lemma bit_ors: "bit (ors x n) j \<longleftrightarrow> (\<exists>i \<le> n. bit (piece x i) j)"
  by (induction n) (auto simp: bit_simps le_Suc_eq)

definition or_code :: "nat \<Rightarrow> (string \<times> irop) list" where
  "or_code n =
     (idx_reg (CHR ''r'') 1, OBin Or 256 (Reg (Data 0)) (Reg (Data 1))) #
     map (\<lambda>i. (idx_reg (CHR ''r'') i, OBin Or 256 (Reg (idx_reg (CHR ''r'') (i - 1))) (Reg (Data i)))) [2..<Suc n]"

lemma or_code_Suc:
  "1 \<le> n \<Longrightarrow> or_code (Suc n) =
     or_code n @ [(idx_reg (CHR ''r'') (Suc n), OBin Or 256 (Reg (idx_reg (CHR ''r'') n)) (Reg (Data (Suc n))))]"
  by (simp add: or_code_def)

lemma run_ors:
  assumes "\<forall>j < 32. env (Data j) = I (piece x j)" "1 \<le> n" "n < 32"
  shows "\<exists>env'. run_body calls (or_code n) env = Inr env' \<and> env' (idx_reg (CHR ''r'') n) = I (ors x n)
    \<and> (\<forall>j < 32. env' (Data j) = I (piece x j))"
  using assms(2,3)
proof (induction n rule: nat_induct_at_least)
  case base
  then show ?case using assms(1) by (auto simp: or_code_def bin_value_def bin_defined_def)
next
  case (Suc n)
  then obtain env1 where "run_body calls (or_code n) env = Inr env1" "env1 (idx_reg (CHR ''r'') n) = I (ors x n)"
    "\<forall>j < 32. env1 (Data j) = I (piece x j)" by auto
  then show ?case using Suc.prems Suc.hyps
    by (auto simp: or_code_Suc run_body_append bin_value_def bin_defined_def)
qed

lemma ors_swap:
  assumes "0 \<le> x" "x < 2 ^ 256"
  shows "ors x 31 = byte_swap 32 x"
proof (rule bit_eqI)
  fix j
  have "(\<exists>i \<le> 31. bit (piece x i) j) \<longleftrightarrow> (\<exists>i \<le> 31. j div 8 = 31 - i \<and> bit x (8 * i + j mod 8))"
    using bit_piece [OF assms, of _ j] by (intro ex_cong1 conj_cong refl) simp
  also have "\<dots> \<longleftrightarrow> j div 8 \<le> 31 \<and> bit x (8 * (31 - j div 8) + j mod 8)"
  proof (intro iffI)
    assume "\<exists>i \<le> 31. j div 8 = 31 - i \<and> bit x (8 * i + j mod 8)"
    then obtain i where "i \<le> 31" "j div 8 = 31 - i" "bit x (8 * i + j mod 8)" by blast
    moreover then have "31 - j div 8 = i" by simp
    ultimately show "j div 8 \<le> 31 \<and> bit x (8 * (31 - j div 8) + j mod 8)" by simp
  next
    assume "j div 8 \<le> 31 \<and> bit x (8 * (31 - j div 8) + j mod 8)"
    then show "\<exists>i \<le> 31. j div 8 = 31 - i \<and> bit x (8 * i + j mod 8)" by (intro exI [of _ "31 - j div 8"]) simp
  qed
  also have "j div 8 \<le> 31 \<longleftrightarrow> j < 256" by auto
  finally show "bit (ors x 31) j = bit (byte_swap 32 x) j" by (simp add: bit_ors bit_byte_swap)
qed

lemma bswap_run:
  assumes "0 \<le> x" "x < 2 ^ 256"
  shows "run_func calls initBswapI256 [I x] = Some (Returns (I (byte_swap 32 x)))"
proof -
  let ?env = "(\<lambda>r. case map_of (zip (fn_params initBswapI256) [I x]) r of Some v \<Rightarrow> v | None \<Rightarrow> Poison)"
  have "?env ''data'' = I x" by (simp add: initBswapI256_def)
  from run_data [of 32 ?env x calls] this obtain env1 where
    e1: "run_body calls (concat (map bswap_data [0..<32])) ?env = Inr env1" "\<forall>j < 32. env1 (Data j) = I (piece x j)"
    by auto
  have "bswap_ors = or_code 31" by (simp add: bswap_ors_def or_code_def)
  with run_ors [OF e1(2), of 31 calls] obtain env2 where
    "run_body calls bswap_ors env1 = Inr env2" "env2 (idx_reg (CHR ''r'') 31) = I (ors x 31)" by auto
  then show ?thesis using e1(1) ors_swap [OF assms]
    by (simp add: run_func_def initBswapI256_def run_from.simps run_body_append)
qed

text \<open>
  the emitted function solidity.bswapi256 returns, for every 256-bit argument, the number
  whose 32 bytes are those of the argument in reverse order, and is its own inverse.
\<close>

theorem bswap256_correct:
  assumes "0 \<le> x" "x < 2 ^ 256"
  shows "\<exists>y. run_func calls initBswapI256 [I x] = Some (Returns (I y))
    \<and> le_bytes 32 y = rev (le_bytes 32 x) \<and> run_func calls initBswapI256 [I y] = Some (Returns (I x))"
proof -
  have "run_func calls initBswapI256 [I (byte_swap 32 x)] = Some (Returns (I x))"
    using bswap_run [of "byte_swap 32 x" calls] byte_swap_bounds [of 32 x] byte_swap_twice [of x 32] assms by simp
  then show ?thesis using bswap_run [OF assms, of calls] le_bytes_swap [of 32 x] by blast
qed

theorem bswap256_correct_witness:
  "\<exists>y. run_func (\<lambda>_ _. None) initBswapI256 [I 0x1234] = Some (Returns (I y))
    \<and> le_bytes 32 y = rev (le_bytes 32 0x1234) \<and> run_func (\<lambda>_ _. None) initBswapI256 [I y] = Some (Returns (I 0x1234))"
  by (rule bswap256_correct) simp_all

end
