(* ===== verification/Evmc.thy ===== *)
theory Evmc
  imports Prelude
begin

text \<open>
  The EVMC interface between the virtual machine and its host (evmc.h, evmc.hpp) and the
  example host that ships with it (example_host.cpp). Fixed-size byte arrays are words whose
  bytes are read most significant first; the host's methods are the fields of a record of
  functions over the host's own state, so that every client of the interface is parametric
  in the host. HostContext caches the transaction context, which makes reading it a step.
\<close>

section \<open>Byte arrays of fixed size\<close>

type_synonym bytes32 = "256 word"
type_synonym uint256be = "256 word"
type_synonym address = "160 word"

definition bytes_be :: "nat \<Rightarrow> 'a::len word \<Rightarrow> byte list" where
  "bytes_be n w = map (\<lambda>i. ucast (drop_bit (8 * (n - 1 - i)) w)) [0..<n]"

definition word_be :: "byte list \<Rightarrow> 'a::len word" where
  "word_be bs = of_nat (be_nat bs)"

lemma length_bytes_be [simp]: "length (bytes_be n w) = n"
  by (simp add: bytes_be_def)

lemma bytes_be_0 [simp]: "bytes_be 0 w = []"
  by (simp add: bytes_be_def)

lemma bytes_be_Suc: "bytes_be (Suc n) w = bytes_be n (drop_bit 8 w) @ [ucast w]"
proof (rule nth_equalityI)
  fix i assume "i < length (bytes_be (Suc n) w)"
  then have i: "i < Suc n" by simp
  show "bytes_be (Suc n) w ! i = (bytes_be n (drop_bit 8 w) @ [ucast w]) ! i"
  proof (cases "i = n")
    case False
    with i have "i < n" by simp
    moreover then have "8 + 8 * (n - 1 - i) = 8 * (n - i)" by simp
    ultimately show ?thesis
      using i by (simp add: bytes_be_def nth_append drop_bit_drop_bit add.commute del: upt_Suc)
  qed (use i in \<open>simp add: bytes_be_def nth_append del: upt_Suc\<close>)
qed simp

lemma unat_low_byte: "unat (ucast (w :: 'a::len word) :: byte) = unat w mod 256"
  by (simp add: unsigned_ucast_eq take_bit_eq_mod)

lemma unat_drop_byte: "unat (drop_bit 8 (w :: 'a::len word)) = unat w div 256"
proof -
  have "unat (drop_bit 8 w) = drop_bit 8 (unat w)"
    by (simp only: unsigned_drop_bit_eq take_bit_nat_eq_self unsigned_less)
  then show ?thesis by (simp add: drop_bit_eq_div)
qed

lemma be_nat_bytes_be: "be_nat (bytes_be n w) = unat w mod 256 ^ n"
proof (induction n arbitrary: w)
  case (Suc n)
  have "be_nat (bytes_be (Suc n) w) = (unat w div 256 mod 256 ^ n) * 256 + unat w mod 256"
    by (simp add: bytes_be_Suc Suc.IH unat_drop_byte unat_low_byte)
  also have "\<dots> = unat w mod 256 ^ Suc n"
    by (simp add: mod_mult2_eq [of "unat w" 256 "256 ^ n"] mult.commute)
  finally show ?case .
qed simp

lemma be_nat_inj: "length xs = length ys \<Longrightarrow> be_nat xs = be_nat ys \<Longrightarrow> xs = ys"
proof (induction xs arbitrary: ys rule: rev_induct)
  case (snoc x xs)
  then obtain ys' y where ys: "ys = ys' @ [y]" by (cases ys rule: rev_cases) auto
  have lt: "unat x < 256" "unat y < 256"
    using unsigned_less [of x, where ?'a = nat] unsigned_less [of y, where ?'a = nat] by simp_all
  have eq: "be_nat xs * 256 + unat x = be_nat ys' * 256 + unat y"
    using snoc.prems ys by simp
  have "unat x = unat y"
    using arg_cong [OF eq, of "\<lambda>n. n mod 256"] lt by simp
  moreover then have "be_nat xs = be_nat ys'" using eq by simp
  ultimately show ?case using snoc.IH [of ys'] snoc.prems(1) ys by (simp add: unsigned_word_eqI)
qed simp

lemma bytes_be_word_be:
  "length bs = n \<Longrightarrow> 8 * n \<le> LENGTH('a) \<Longrightarrow> bytes_be n (word_be bs :: 'a::len word) = bs"
proof (rule be_nat_inj)
  assume l: "length bs = n" "8 * n \<le> LENGTH('a)"
  have "(256 :: nat) ^ n = 2 ^ (8 * n)" by (simp add: power_mult)
  also have "\<dots> \<le> 2 ^ LENGTH('a)" using l(2) by (simp add: power_increasing)
  finally have "be_nat bs < 2 ^ LENGTH('a)" using be_nat_bound [of bs] l(1) by simp
  then show "be_nat (bytes_be n (word_be bs :: 'a word)) = be_nat bs"
    using be_nat_bound [of bs] l(1)
    by (simp add: be_nat_bytes_be word_be_def unat_of_nat take_bit_eq_mod)
qed simp

lemma word_be_bytes_be:
  "LENGTH('a) \<le> 8 * n \<Longrightarrow> word_be (bytes_be n (w :: 'a::len word)) = w"
proof -
  assume n: "LENGTH('a) \<le> 8 * n"
  have "unat w < 2 ^ LENGTH('a)" by (rule unsigned_less)
  also have "\<dots> \<le> 2 ^ (8 * n)" using n by (simp add: power_increasing)
  finally have "unat w mod 256 ^ n = unat w" by (simp add: power_mult)
  then show ?thesis by (simp add: word_be_def be_nat_bytes_be)
qed

section \<open>Messages and results (evmc.h)\<close>

datatype evmc_call_kind = EVMC_CALL | EVMC_DELEGATECALL | EVMC_CALLCODE | EVMC_CREATE | EVMC_CREATE2

definition EVMC_STATIC :: u32 where
  "EVMC_STATIC = 1"

text \<open>
  The input pointer and its size are one list; a null pointer is the empty list. The salt
  of a CREATE2 message is left out: no operation of the interface sets or reads it.
\<close>

record evmc_message =
  msg_kind :: evmc_call_kind
  msg_flags :: u32
  msg_depth :: int
  msg_gas :: int
  msg_destination :: address
  msg_sender :: address
  msg_input :: "byte list"
  msg_value :: uint256be

record evmc_tx_context =
  tx_gas_price :: uint256be
  tx_origin :: address
  block_coinbase :: address
  block_number :: int
  block_timestamp :: int
  block_gas_limit :: int
  block_difficulty :: uint256be

datatype evmc_status_code =
    EVMC_SUCCESS | EVMC_FAILURE | EVMC_REVERT | EVMC_OUT_OF_GAS | EVMC_INVALID_INSTRUCTION
  | EVMC_UNDEFINED_INSTRUCTION | EVMC_STACK_OVERFLOW | EVMC_STACK_UNDERFLOW
  | EVMC_BAD_JUMP_DESTINATION | EVMC_INVALID_MEMORY_ACCESS | EVMC_CALL_DEPTH_EXCEEDED
  | EVMC_STATIC_MODE_VIOLATION | EVMC_PRECOMPILE_FAILURE | EVMC_CONTRACT_VALIDATION_FAILURE
  | EVMC_ARGUMENT_OUT_OF_RANGE | EVMC_WASM_UNREACHABLE_INSTRUCTION | EVMC_WASM_TRAP
  | EVMC_INTERNAL_ERROR | EVMC_REJECTED | EVMC_OUT_OF_MEMORY

text \<open>A null output pointer is \<open>None\<close>.\<close>

record evmc_result =
  status_code :: evmc_status_code
  gas_left :: int
  output_data :: "byte list option"
  create_address :: address

definition is_static :: "u32 \<Rightarrow> bool" where
  "is_static fl \<longleftrightarrow> fl AND EVMC_STATIC \<noteq> 0"

definition is_zero :: "bytes32 \<Rightarrow> bool" where
  "is_zero a \<longleftrightarrow> a = 0"

section \<open>Revisions, options and capabilities (evmc.h)\<close>

datatype evmc_revision =
    EVMC_FRONTIER | EVMC_HOMESTEAD | EVMC_TANGERINE_WHISTLE | EVMC_SPURIOUS_DRAGON | EVMC_BYZANTIUM
  | EVMC_CONSTANTINOPLE | EVMC_PETERSBURG | EVMC_ISTANBUL

datatype evmc_set_option_result =
  EVMC_SET_OPTION_SUCCESS | EVMC_SET_OPTION_INVALID_NAME | EVMC_SET_OPTION_INVALID_VALUE

definition EVMC_CAPABILITY_EVM1 :: u32 where "EVMC_CAPABILITY_EVM1 = 1"
definition EVMC_CAPABILITY_EWASM :: u32 where "EVMC_CAPABILITY_EWASM = 2"

section \<open>The host\<close>

text \<open>
  The methods of HostInterface. Methods that only read return the value they read;
  copy\_code returns the bytes it put into the buffer, whose number is the size it reports, and
  set\_storage the host; the status it also reports is read by no caller.
\<close>

record 'h HostInterface =
  account_exists :: "'h \<Rightarrow> address \<Rightarrow> bool"
  get_storage :: "'h \<Rightarrow> address \<Rightarrow> bytes32 \<Rightarrow> bytes32"
  set_storage :: "'h \<Rightarrow> address \<Rightarrow> bytes32 \<Rightarrow> bytes32 \<Rightarrow> 'h"
  get_balance :: "'h \<Rightarrow> address \<Rightarrow> uint256be"
  get_code_size :: "'h \<Rightarrow> address \<Rightarrow> nat"
  get_code_hash :: "'h \<Rightarrow> address \<Rightarrow> bytes32"
  copy_code :: "'h \<Rightarrow> address \<Rightarrow> nat \<Rightarrow> nat \<Rightarrow> byte list"
  selfdestruct :: "'h \<Rightarrow> address \<Rightarrow> address \<Rightarrow> 'h"
  host_call :: "'h \<Rightarrow> evmc_message \<Rightarrow> evmc_result \<times> 'h"
  host_tx_context :: "'h \<Rightarrow> evmc_tx_context"
  get_block_hash :: "'h \<Rightarrow> int \<Rightarrow> bytes32"
  emit_log :: "'h \<Rightarrow> address \<Rightarrow> byte list \<Rightarrow> bytes32 list \<Rightarrow> 'h"

record 'h HostContext =
  host_state :: 'h
  tx_context_cache :: evmc_tx_context

definition zero_tx_context :: evmc_tx_context where
  "zero_tx_context =
     \<lparr>tx_gas_price = 0, tx_origin = 0, block_coinbase = 0, block_number = 0,
      block_timestamp = 0, block_gas_limit = 0, block_difficulty = 0\<rparr>"

definition mkHostContext :: "'h \<Rightarrow> 'h HostContext" where
  "mkHostContext h = \<lparr>host_state = h, tx_context_cache = zero_tx_context\<rparr>"

definition get_tx_context :: "'h HostInterface \<Rightarrow> 'h HostContext \<Rightarrow> evmc_tx_context \<times> 'h HostContext" where
  "get_tx_context H c =
     (if block_timestamp (tx_context_cache c) = 0
      then (let t = host_tx_context H (host_state c) in (t, c\<lparr>tx_context_cache := t\<rparr>))
      else (tx_context_cache c, c))"

text \<open>
  What EVMC asks of a host: a call returns at most the gas it was given and never a negative
  amount, a call in static mode leaves the part of the state that \<open>world\<close> observes alone,
  and storage behaves like storage.
\<close>

locale evmc_host =
  fixes H :: "'h HostInterface" and world :: "'h \<Rightarrow> 'w"
  assumes call_gas:
      "0 \<le> msg_gas m \<Longrightarrow> 0 \<le> gas_left (fst (host_call H h m)) \<and> gas_left (fst (host_call H h m)) \<le> msg_gas m"
    and call_static:
      "is_static (msg_flags m) \<Longrightarrow> world (snd (host_call H h m)) = world h"
    and storage_same: "get_storage H (set_storage H h a k v) a k = v"
    and storage_other:
      "(a', k') \<noteq> (a, k) \<Longrightarrow> get_storage H (set_storage H h a k v) a' k' = get_storage H h a' k'"
begin

lemma storage_update:
  "get_storage H (set_storage H h a k v) =
     (get_storage H h)(a := (get_storage H h a)(k := v))"
  by (rule ext, rule ext) (auto simp: storage_same storage_other)

lemma storage_last_write:
  "get_storage H (set_storage H (set_storage H h a k v) a k w) = get_storage H (set_storage H h a k w)"
  by (simp add: storage_update)

end

section \<open>The example host (example\_host.cpp)\<close>

text \<open>
  A std::map read with the index operator inserts the zero value; storage is therefore a
  total function, for which the insertion changes nothing that can be observed.
\<close>

record account =
  balance :: uint256be
  code_size :: nat
  code_hash :: bytes32
  storage :: "bytes32 \<Rightarrow> bytes32"

record ExampleHost =
  accounts :: "address \<rightharpoonup> account"
  eh_tx_context :: evmc_tx_context

definition new_account :: account where
  "new_account = \<lparr>balance = 0, code_size = 0, code_hash = 0, storage = (\<lambda>_. 0)\<rparr>"

definition eh_account_exists :: "ExampleHost \<Rightarrow> address \<Rightarrow> bool" where
  "eh_account_exists h a \<longleftrightarrow> accounts h a \<noteq> None"

definition eh_get_storage :: "ExampleHost \<Rightarrow> address \<Rightarrow> bytes32 \<Rightarrow> bytes32" where
  "eh_get_storage h a k = (case accounts h a of Some acc \<Rightarrow> storage acc k | None \<Rightarrow> 0)"

definition eh_set_storage :: "ExampleHost \<Rightarrow> address \<Rightarrow> bytes32 \<Rightarrow> bytes32 \<Rightarrow> ExampleHost" where
  "eh_set_storage h a k v =
     (let acc = (case accounts h a of Some acc \<Rightarrow> acc | None \<Rightarrow> new_account)
      in h\<lparr>accounts := (accounts h)(a \<mapsto> acc\<lparr>storage := (storage acc)(k := v)\<rparr>)\<rparr>)"

definition eh_get_balance :: "ExampleHost \<Rightarrow> address \<Rightarrow> uint256be" where
  "eh_get_balance h a = (case accounts h a of Some acc \<Rightarrow> balance acc | None \<Rightarrow> 0)"

definition eh_get_code_size :: "ExampleHost \<Rightarrow> address \<Rightarrow> nat" where
  "eh_get_code_size h a = (case accounts h a of Some acc \<Rightarrow> code_size acc | None \<Rightarrow> 0)"

definition eh_get_code_hash :: "ExampleHost \<Rightarrow> address \<Rightarrow> bytes32" where
  "eh_get_code_hash h a = (case accounts h a of Some acc \<Rightarrow> code_hash acc | None \<Rightarrow> 0)"

definition eh_copy_code :: "ExampleHost \<Rightarrow> address \<Rightarrow> nat \<Rightarrow> nat \<Rightarrow> byte list" where
  "eh_copy_code h a off n = []"

definition eh_selfdestruct :: "ExampleHost \<Rightarrow> address \<Rightarrow> address \<Rightarrow> ExampleHost" where
  "eh_selfdestruct h a b = h"

text \<open>The result carries the caller's input pointer, which is null for an empty input.\<close>

definition eh_call :: "ExampleHost \<Rightarrow> evmc_message \<Rightarrow> evmc_result \<times> ExampleHost" where
  "eh_call h m =
     (\<lparr>status_code = EVMC_REVERT, gas_left = msg_gas m,
       output_data = (if msg_input m = [] then None else Some (msg_input m)), create_address = 0\<rparr>, h)"

definition eh_get_block_hash :: "ExampleHost \<Rightarrow> int \<Rightarrow> bytes32" where
  "eh_get_block_hash h number =
     (let cur = block_number (eh_tx_context h)
      in if number < cur \<and> cur - 256 \<le> number
         then 0xb10c8a5fb10c8a5fb10c8a5fb10c8a5fb10c8a5fb10c8a5fb10c8a5fb10c8a5f else 0)"

definition eh_emit_log :: "ExampleHost \<Rightarrow> address \<Rightarrow> byte list \<Rightarrow> bytes32 list \<Rightarrow> ExampleHost" where
  "eh_emit_log h a d ts = h"

definition example_host :: "ExampleHost HostInterface" where
  "example_host =
     \<lparr>account_exists = eh_account_exists, get_storage = eh_get_storage,
      set_storage = eh_set_storage, get_balance = eh_get_balance,
      get_code_size = eh_get_code_size, get_code_hash = eh_get_code_hash, copy_code = eh_copy_code,
      selfdestruct = eh_selfdestruct, host_call = eh_call, host_tx_context = eh_tx_context,
      get_block_hash = eh_get_block_hash, emit_log = eh_emit_log\<rparr>"

lemmas example_host_defs =
  example_host_def eh_account_exists_def eh_get_storage_def eh_set_storage_def
  eh_get_balance_def eh_get_code_size_def eh_get_code_hash_def eh_copy_code_def eh_selfdestruct_def eh_call_def
  eh_get_block_hash_def eh_emit_log_def

interpretation example: evmc_host example_host "\<lambda>h. h"
  by unfold_locales (auto simp: example_host_defs new_account_def Let_def split: option.splits)

text \<open>The cache of HostContext is transparent: once filled it returns what the host returns.\<close>

definition cache_ok :: "'h HostInterface \<Rightarrow> 'h HostContext \<Rightarrow> bool" where
  "cache_ok H c \<longleftrightarrow>
     block_timestamp (tx_context_cache c) \<noteq> 0 \<longrightarrow> tx_context_cache c = host_tx_context H (host_state c)"

lemma get_tx_context_cached:
  assumes "cache_ok H c"
  shows "fst (get_tx_context H c) = host_tx_context H (host_state c)"
    and "cache_ok H (snd (get_tx_context H c))"
    and "host_state (snd (get_tx_context H c)) = host_state c"
  using assms by (auto simp: get_tx_context_def cache_ok_def Let_def)

lemma cache_ok_new [simp]: "cache_ok H (mkHostContext h)"
  by (simp add: cache_ok_def mkHostContext_def zero_tx_context_def)

end
