(* ===== verification/Eei.thy ===== *)
theory Eei
  imports Evmc "HOL-Library.Signed_Division"
begin

text \<open>
  The Ethereum environment interface of Hera (eei.h, eei.cpp): the state of
  EthereumInterface, its gas accounting, its checked memory accesses and one operation per
  host function that contract code can import. An operation is a state-and-exception
  computation (theory Prelude); a throw keeps what was done before it. The memory is the
  vector of the wasm engine, whose accessors do not check (wabt.cpp), and gas is an int64\_t:
  an access outside the vector and a signed overflow are the exception UndefinedBehaviour,
  which no C++ code throws and which the theorems of theory Eei\_Safety exclude.
  Messages written to the error stream are left out.
\<close>

section \<open>Exceptions and state\<close>

datatype hera_exception =
    InternalErrorException | VMTrap | ArgumentOutOfRange | OutOfGas | ContractValidationFailure
  | InvalidMemoryAccess | EndExecution | StaticModeViolation
  | UndefinedBehaviour

record ExecutionResult =
  gasLeft :: int
  returnValue :: "byte list"
  isRevert :: bool

record 'h EthereumInterface =
  m_host :: "'h HostContext"
  m_code :: "byte list"
  m_msg :: evmc_message
  m_lastReturnData :: "byte list"
  m_result :: ExecutionResult
  m_meterGas :: bool
  wasm_memory :: "byte list"

type_synonym ('h, 'a) eei = "('h EthereumInterface, hera_exception, 'a) eff"

definition mkEthereumInterface ::
  "'h HostContext \<Rightarrow> byte list \<Rightarrow> evmc_message \<Rightarrow> bool \<Rightarrow> byte list \<Rightarrow> hera_exception + 'h EthereumInterface" where
  "mkEthereumInterface host code msg meter mem =
     (if msg_flags msg AND NOT EVMC_STATIC \<noteq> 0 then Inl InternalErrorException
      else Inr \<lparr>m_host = host, m_code = code, m_msg = msg, m_lastReturnData = [],
                m_result = \<lparr>gasLeft = msg_gas msg, returnValue = [], isRevert = False\<rparr>,
                m_meterGas = meter, wasm_memory = mem\<rparr>)"

datatype EEICallKind = Call | CallCode | CallDelegate | CallStatic

section \<open>Gas schedule\<close>

text \<open>The constants of GasSchedule.\<close>

definition gs_storageLoad :: int where "gs_storageLoad = 200"
definition gs_storageStoreCreate :: int where "gs_storageStoreCreate = 20000"
definition gs_storageStoreChange :: int where "gs_storageStoreChange = 5000"
definition gs_log :: u32 where "gs_log = 375"
definition gs_logData :: int where "gs_logData = 8"
definition gs_logTopic :: u32 where "gs_logTopic = 375"
definition gs_create :: int where "gs_create = 32000"
definition gs_call :: int where "gs_call = 700"
definition gs_copy :: int where "gs_copy = 3"
definition gs_blockhash :: int where "gs_blockhash = 800"
definition gs_balance :: int where "gs_balance = 400"
definition gs_base :: int where "gs_base = 2"
definition gs_verylow :: int where "gs_verylow = 3"
definition gs_extcode :: int where "gs_extcode = 700"
definition gs_selfdestruct :: int where "gs_selfdestruct = 5000"
definition gs_valuetransfer :: int where "gs_valuetransfer = 9000"
definition gs_valueStipend :: int where "gs_valueStipend = 2300"
definition gs_callNewAccount :: int where "gs_callNewAccount = 25000"

lemmas gas_schedule =
  gs_storageLoad_def gs_storageStoreCreate_def gs_storageStoreChange_def gs_log_def
  gs_logData_def gs_logTopic_def gs_create_def gs_call_def gs_copy_def gs_blockhash_def
  gs_balance_def gs_base_def gs_verylow_def gs_extcode_def gs_selfdestruct_def
  gs_valuetransfer_def gs_valueStipend_def gs_callNewAccount_def

section \<open>Gas\<close>

definition int64_max :: int where
  "int64_max = 2 ^ 63 - 1"

text \<open>The result of signed 64-bit arithmetic, which is undefined when it does not fit.\<close>

definition checked64 :: "int \<Rightarrow> ('h, int) eei" where
  "checked64 x = (if - int64_max - 1 \<le> x \<and> x \<le> int64_max then returnE x else throwE UndefinedBehaviour)"

definition readGas :: "('h, int) eei" where
  "readGas = getE (\<lambda>s. gasLeft (m_result s))"

definition writeGas :: "int \<Rightarrow> ('h, unit) eei" where
  "writeGas g = modifyE (\<lambda>s. s\<lparr>m_result := (m_result s)\<lparr>gasLeft := g\<rparr>\<rparr>)"

definition takeGas :: "int \<Rightarrow> ('h, unit) eei" where
  "takeGas gas =
     bindE readGas (\<lambda>left.
     seqE (ensureE (gas \<le> left) OutOfGas)
     (bindE (checked64 (left - gas)) writeGas))"

definition takeInterfaceGas :: "int \<Rightarrow> ('h, unit) eei" where
  "takeInterfaceGas gas =
     bindE (getE m_meterGas) (\<lambda>meter.
     if \<not> meter then returnE ()
     else seqE (ensureE (0 \<le> gas) InternalErrorException) (takeGas gas))"

definition returnGas :: "int \<Rightarrow> ('h, unit) eei" where
  "returnGas left =
     seqE (ensureE (0 \<le> left) InternalErrorException)
     (bindE readGas (\<lambda>g. bindE (checked64 (g + left)) writeGas))"

definition maxCallGas :: "int \<Rightarrow> int" where
  "maxCallGas gas = gas - (gas sdiv 64)"

definition safeChargeDataCopy :: "u32 \<Rightarrow> int \<Rightarrow> ('h, unit) eei" where
  "safeChargeDataCopy len baseCost =
     seqE (takeInterfaceGas baseCost)
          (takeInterfaceGas (gs_copy * ((int (unat len) + 31) sdiv 32)))"

section \<open>Memory\<close>

definition memorySize :: "('h, nat) eei" where
  "memorySize = getE (\<lambda>s. length (wasm_memory s))"

definition memoryGet :: "nat \<Rightarrow> ('h, byte) eei" where
  "memoryGet off s =
     (if off < length (wasm_memory s) then (Inr (wasm_memory s ! off), s)
      else (Inl UndefinedBehaviour, s))"

definition memorySet :: "nat \<Rightarrow> byte \<Rightarrow> ('h, unit) eei" where
  "memorySet off v s =
     (if off < length (wasm_memory s) then (Inr (), s\<lparr>wasm_memory := (wasm_memory s)[off := v]\<rparr>)
      else (Inl UndefinedBehaviour, s))"

fun readAll :: "('h, byte) eei list \<Rightarrow> ('h, byte list) eei" where
  "readAll [] = returnE []"
| "readAll (m # ms) = bindE m (\<lambda>b. bindE (readAll ms) (\<lambda>bs. returnE (b # bs)))"

fun writeAll :: "('h, unit) eei list \<Rightarrow> ('h, unit) eei" where
  "writeAll [] = returnE ()"
| "writeAll (m # ms) = seqE m (writeAll ms)"

text \<open>Offsets and lengths are uint32\_t and their sum wraps.\<close>

definition ensureSourceMemoryBounds :: "u32 \<Rightarrow> u32 \<Rightarrow> ('h, unit) eei" where
  "ensureSourceMemoryBounds offset len =
     seqE (ensureE (offset \<le> offset + len) InvalidMemoryAccess)
     (bindE memorySize (\<lambda>size. ensureE (unat (offset + len) \<le> size) InvalidMemoryAccess))"

text \<open>Here the length is a size\_t, so the sum is taken in 64 bits.\<close>

definition loadBounds :: "u32 \<Rightarrow> nat \<Rightarrow> ('h, unit) eei" where
  "loadBounds srcOffset len =
     seqE (ensureE ((ucast srcOffset :: u64) \<le> ucast srcOffset + of_nat len) InvalidMemoryAccess)
     (bindE memorySize (\<lambda>size.
        ensureE (unat ((ucast srcOffset :: u64) + of_nat len) \<le> size) InvalidMemoryAccess))"

definition loadMemoryReverse :: "u32 \<Rightarrow> nat \<Rightarrow> ('h, byte list) eei" where
  "loadMemoryReverse srcOffset len =
     seqE (loadBounds srcOffset len)
     (bindE (readAll (map (\<lambda>i. memoryGet (unat (srcOffset + of_nat i))) [0..<len]))
            (\<lambda>bs. returnE (rev bs)))"

definition loadMemory :: "u32 \<Rightarrow> nat \<Rightarrow> ('h, byte list) eei" where
  "loadMemory srcOffset len =
     seqE (loadBounds srcOffset len)
          (readAll (map (\<lambda>i. memoryGet (unat (srcOffset + of_nat i))) [0..<len]))"

text \<open>The overload that fills a byte vector also checks the size of the vector.\<close>

definition loadMemoryInto :: "u32 \<Rightarrow> byte list \<Rightarrow> nat \<Rightarrow> ('h, byte list) eei" where
  "loadMemoryInto srcOffset dst len =
     seqE (loadBounds srcOffset len)
     (seqE (ensureE (len \<le> length dst) InvalidMemoryAccess)
     (bindE (readAll (map (\<lambda>i. memoryGet (unat (srcOffset + of_nat i))) [0..<len]))
            (\<lambda>bs. returnE (bs @ drop len dst))))"

definition storeBounds :: "u32 \<Rightarrow> u32 \<Rightarrow> ('h, unit) eei" where
  "storeBounds dstOffset len =
     seqE (ensureE (dstOffset \<le> dstOffset + len) InvalidMemoryAccess)
     (bindE memorySize (\<lambda>size. ensureE (unat (dstOffset + len) \<le> size) InvalidMemoryAccess))"

definition storeMemoryReverse :: "byte list \<Rightarrow> u32 \<Rightarrow> u32 \<Rightarrow> ('h, unit) eei" where
  "storeMemoryReverse src dstOffset len =
     seqE (storeBounds dstOffset len)
     (writeAll (map (\<lambda>i. memorySet (unat (dstOffset + len - (of_nat i + 1))) (src ! i)) [0..<unat len]))"

definition storeMemory :: "byte list \<Rightarrow> u32 \<Rightarrow> u32 \<Rightarrow> ('h, unit) eei" where
  "storeMemory src dstOffset len =
     seqE (storeBounds dstOffset len)
     (writeAll (map (\<lambda>i. memorySet (unat (dstOffset + of_nat i)) (src ! i)) [0..<unat len]))"

text \<open>The overload that copies a part of a byte view; indexing the view does not check.\<close>

definition viewGet :: "byte list \<Rightarrow> nat \<Rightarrow> ('h, byte) eei" where
  "viewGet src i = (if i < length src then returnE (src ! i) else throwE UndefinedBehaviour)"

definition storeMemoryView :: "byte list \<Rightarrow> u32 \<Rightarrow> u32 \<Rightarrow> u32 \<Rightarrow> ('h, unit) eei" where
  "storeMemoryView src srcOffset dstOffset len =
     seqE (ensureE (srcOffset \<le> srcOffset + len) InvalidMemoryAccess)
     (seqE (ensureE (unat (srcOffset + len) \<le> length src) InvalidMemoryAccess)
     (seqE (storeBounds dstOffset len)
     (writeAll (map (\<lambda>i. bindE (viewGet src (unat (srcOffset + of_nat i)))
                              (memorySet (unat (dstOffset + of_nat i)))) [0..<unat len]))))"

section \<open>Typed memory access\<close>

definition loadBytes32 :: "u32 \<Rightarrow> ('h, bytes32) eei" where
  "loadBytes32 srcOffset = bindE (loadMemory srcOffset 32) (\<lambda>bs. returnE (word_be bs))"

definition storeBytes32 :: "bytes32 \<Rightarrow> u32 \<Rightarrow> ('h, unit) eei" where
  "storeBytes32 src dstOffset = storeMemory (bytes_be 32 src) dstOffset 32"

definition loadUint256 :: "u32 \<Rightarrow> ('h, uint256be) eei" where
  "loadUint256 srcOffset = bindE (loadMemoryReverse srcOffset 32) (\<lambda>bs. returnE (word_be bs))"

definition storeUint256 :: "uint256be \<Rightarrow> u32 \<Rightarrow> ('h, unit) eei" where
  "storeUint256 src dstOffset = storeMemoryReverse (bytes_be 32 src) dstOffset 32"

definition loadAddress :: "u32 \<Rightarrow> ('h, address) eei" where
  "loadAddress srcOffset = bindE (loadMemory srcOffset 20) (\<lambda>bs. returnE (word_be bs))"

definition storeAddress :: "address \<Rightarrow> u32 \<Rightarrow> ('h, unit) eei" where
  "storeAddress src dstOffset = storeMemory (bytes_be 20 src) dstOffset 20"

text \<open>The upper sixteen bytes of the result keep their initial zero.\<close>

definition loadUint128 :: "u32 \<Rightarrow> ('h, uint256be) eei" where
  "loadUint128 srcOffset =
     bindE (loadMemoryReverse srcOffset 16) (\<lambda>bs. returnE (word_be (replicate 16 0 @ bs)))"

definition exceedsUint128 :: "uint256be \<Rightarrow> bool" where
  "exceedsUint128 value \<longleftrightarrow> list_ex (\<lambda>i. bytes_be 32 value ! i \<noteq> 0) [0..<16]"

definition storeUint128 :: "uint256be \<Rightarrow> u32 \<Rightarrow> ('h, unit) eei" where
  "storeUint128 src dstOffset =
     seqE (ensureE (\<not> exceedsUint128 src) ArgumentOutOfRange)
          (storeMemoryReverse (drop 16 (bytes_be 32 src)) dstOffset 16)"

definition safeLoadUint128 :: "uint256be \<Rightarrow> ('h, 128 word) eei" where
  "safeLoadUint128 value =
     seqE (ensureE (\<not> exceedsUint128 value) ArgumentOutOfRange)
          (returnE (foldl (\<lambda>ret i. push_bit 8 ret OR ucast (bytes_be 32 value ! i)) 0 [16..<32]))"

section \<open>Access to the host and the message\<close>

definition hostRead :: "('h \<Rightarrow> 'a) \<Rightarrow> ('h, 'a) eei" where
  "hostRead f = getE (\<lambda>s. f (host_state (m_host s)))"

definition hostWrite :: "('h \<Rightarrow> 'h) \<Rightarrow> ('h, unit) eei" where
  "hostWrite f = modifyE (\<lambda>s. s\<lparr>m_host := (m_host s)\<lparr>host_state := f (host_state (m_host s))\<rparr>\<rparr>)"

definition hostCall :: "'h HostInterface \<Rightarrow> evmc_message \<Rightarrow> ('h, evmc_result) eei" where
  "hostCall H m s =
     (let (r, h) = host_call H (host_state (m_host s)) m
      in (Inr r, s\<lparr>m_host := (m_host s)\<lparr>host_state := h\<rparr>\<rparr>))"

definition hostTxContext :: "'h HostInterface \<Rightarrow> ('h, evmc_tx_context) eei" where
  "hostTxContext H s = (let (t, c) = get_tx_context H (m_host s) in (Inr t, s\<lparr>m_host := c\<rparr>))"

definition readMsg :: "(evmc_message \<Rightarrow> 'a) \<Rightarrow> ('h, 'a) eei" where
  "readMsg f = getE (\<lambda>s. f (m_msg s))"

definition setLastReturnData :: "byte list \<Rightarrow> ('h, unit) eei" where
  "setLastReturnData d = modifyE (\<lambda>s. s\<lparr>m_lastReturnData := d\<rparr>)"

definition ensureNotStatic :: "('h, unit) eei" where
  "ensureNotStatic = bindE (readMsg msg_flags) (\<lambda>fl. ensureE (\<not> is_static fl) StaticModeViolation)"

definition enoughSenderBalanceFor :: "'h HostInterface \<Rightarrow> uint256be \<Rightarrow> ('h, bool) eei" where
  "enoughSenderBalanceFor H value =
     bindE (readMsg msg_destination) (\<lambda>dest.
     bindE (hostRead (\<lambda>h. get_balance H h dest)) (\<lambda>bal.
     bindE (safeLoadUint128 bal) (\<lambda>b.
     bindE (safeLoadUint128 value) (\<lambda>v. returnE (v \<le> b)))))"

section \<open>The operations\<close>

definition debugPrintMem :: "u32 \<Rightarrow> u32 \<Rightarrow> ('h, byte list) eei" where
  "debugPrintMem offset len =
     seqE (ensureE (offset < offset + len) InternalErrorException)
     (bindE memorySize (\<lambda>size.
      seqE (ensureE (unat (offset + len) \<le> size) InternalErrorException)
           (readAll (map memoryGet [unat offset..<unat (offset + len)]))))"

definition debugPrintStorage :: "'h HostInterface \<Rightarrow> u32 \<Rightarrow> ('h, bytes32 \<times> bytes32) eei" where
  "debugPrintStorage H pathOffset =
     bindE (loadBytes32 pathOffset) (\<lambda>path.
     bindE (readMsg msg_destination) (\<lambda>dest.
     bindE (hostRead (\<lambda>h. get_storage H h dest path)) (\<lambda>res. returnE (path, res))))"

fun traceStack :: "u32 list \<Rightarrow> ('h, uint256be list) eei" where
  "traceStack [] = returnE []"
| "traceStack (i # is) =
     bindE (loadUint256 i) (\<lambda>x. bindE (traceStack is) (\<lambda>xs. returnE (x # xs)))"

definition debugEvmTrace :: "u32 \<Rightarrow> int \<Rightarrow> u32 \<Rightarrow> int \<Rightarrow> ('h, uint256be list) eei" where
  "debugEvmTrace pc opcode cost sp =
     seqE (ensureE (sp \<le> 1024 * 32) InternalErrorException)
     (seqE (ensureE (0 \<le> opcode \<and> opcode \<le> 0xff) InternalErrorException)
           (traceStack (map (\<lambda>k. of_nat (32 * k)) [0..<nat (sp div 32 + 1)])))"

definition eeiUseGas :: "int \<Rightarrow> ('h, unit) eei" where
  "eeiUseGas gas = seqE (ensureE (0 \<le> gas) ArgumentOutOfRange) (takeGas gas)"

definition eeiGetGasLeft :: "('h, int) eei" where
  "eeiGetGasLeft = seqE (takeInterfaceGas gs_base) readGas"

definition eeiGetAddress :: "u32 \<Rightarrow> ('h, unit) eei" where
  "eeiGetAddress resultOffset =
     seqE (takeInterfaceGas gs_base)
     (bindE (readMsg msg_destination) (\<lambda>a. storeAddress a resultOffset))"

definition eeiGetExternalBalance :: "'h HostInterface \<Rightarrow> u32 \<Rightarrow> u32 \<Rightarrow> ('h, unit) eei" where
  "eeiGetExternalBalance H addressOffset resultOffset =
     seqE (takeInterfaceGas gs_balance)
     (bindE (loadAddress addressOffset) (\<lambda>a.
      bindE (hostRead (\<lambda>h. get_balance H h a)) (\<lambda>bal. storeUint128 bal resultOffset)))"

definition eeiGetBlockHash :: "'h HostInterface \<Rightarrow> u64 \<Rightarrow> u32 \<Rightarrow> ('h, u32) eei" where
  "eeiGetBlockHash H number resultOffset =
     seqE (takeInterfaceGas gs_blockhash)
     (bindE (hostRead (\<lambda>h. get_block_hash H h (sint number))) (\<lambda>blockhash.
      if is_zero blockhash then returnE 1
      else seqE (storeBytes32 blockhash resultOffset) (returnE 0)))"

definition eeiGetCallDataSize :: "('h, u32) eei" where
  "eeiGetCallDataSize =
     seqE (takeInterfaceGas gs_base) (readMsg (\<lambda>m. of_nat (length (msg_input m))))"

definition eeiCallDataCopy :: "u32 \<Rightarrow> u32 \<Rightarrow> u32 \<Rightarrow> ('h, unit) eei" where
  "eeiCallDataCopy resultOffset dataOffset len =
     seqE (safeChargeDataCopy len gs_verylow)
     (bindE (readMsg msg_input) (\<lambda>input.
      if unat (dataOffset + len) \<le> length input
      then storeMemoryView input dataOffset resultOffset len
      else storeMemoryView input dataOffset resultOffset
             (ucast ((of_nat (length input) :: u64) - ucast dataOffset))))"

definition eeiGetCaller :: "u32 \<Rightarrow> ('h, unit) eei" where
  "eeiGetCaller resultOffset =
     seqE (takeInterfaceGas gs_base)
     (bindE (readMsg msg_sender) (\<lambda>a. storeAddress a resultOffset))"

definition eeiGetCallValue :: "u32 \<Rightarrow> ('h, unit) eei" where
  "eeiGetCallValue resultOffset =
     seqE (takeInterfaceGas gs_base)
     (bindE (readMsg msg_value) (\<lambda>v. storeUint128 v resultOffset))"

definition eeiCodeCopy :: "u32 \<Rightarrow> u32 \<Rightarrow> u32 \<Rightarrow> ('h, unit) eei" where
  "eeiCodeCopy resultOffset codeOffset len =
     seqE (safeChargeDataCopy len gs_verylow)
     (bindE (getE m_code) (\<lambda>code. storeMemoryView code codeOffset resultOffset len))"

definition eeiGetCodeSize :: "('h, u32) eei" where
  "eeiGetCodeSize = seqE (takeInterfaceGas gs_base) (getE (\<lambda>s. of_nat (length (m_code s))))"

text \<open>
  The host writes the copied bytes to the front of a zeroed buffer; only a full copy is kept.
\<close>

definition eeiExternalCodeCopy :: "'h HostInterface \<Rightarrow> u32 \<Rightarrow> u32 \<Rightarrow> u32 \<Rightarrow> u32 \<Rightarrow> ('h, unit) eei" where
  "eeiExternalCodeCopy H addressOffset resultOffset codeOffset len =
     seqE (safeChargeDataCopy len gs_extcode)
     (bindE (loadAddress addressOffset) (\<lambda>a.
      bindE (hostRead (\<lambda>h. copy_code H h a (unat codeOffset) (unat len))) (\<lambda>copied.
      seqE (ensureE (length copied = unat len) InvalidMemoryAccess)
           (storeMemoryView copied 0 resultOffset len))))"

definition eeiGetExternalCodeSize :: "'h HostInterface \<Rightarrow> u32 \<Rightarrow> ('h, u32) eei" where
  "eeiGetExternalCodeSize H addressOffset =
     seqE (takeInterfaceGas gs_extcode)
     (bindE (loadAddress addressOffset) (\<lambda>a. hostRead (\<lambda>h. of_nat (get_code_size H h a))))"

definition eeiGetBlockCoinbase :: "'h HostInterface \<Rightarrow> u32 \<Rightarrow> ('h, unit) eei" where
  "eeiGetBlockCoinbase H resultOffset =
     seqE (takeInterfaceGas gs_base)
     (bindE (hostTxContext H) (\<lambda>t. storeAddress (block_coinbase t) resultOffset))"

definition eeiGetBlockDifficulty :: "'h HostInterface \<Rightarrow> u32 \<Rightarrow> ('h, unit) eei" where
  "eeiGetBlockDifficulty H offset =
     seqE (takeInterfaceGas gs_base)
     (bindE (hostTxContext H) (\<lambda>t. storeUint256 (block_difficulty t) offset))"

definition eeiGetBlockGasLimit :: "'h HostInterface \<Rightarrow> ('h, int) eei" where
  "eeiGetBlockGasLimit H =
     seqE (takeInterfaceGas gs_base) (bindE (hostTxContext H) (\<lambda>t. returnE (block_gas_limit t)))"

definition eeiGetTxGasPrice :: "'h HostInterface \<Rightarrow> u32 \<Rightarrow> ('h, unit) eei" where
  "eeiGetTxGasPrice H valueOffset =
     seqE (takeInterfaceGas gs_base)
     (bindE (hostTxContext H) (\<lambda>t. storeUint128 (tx_gas_price t) valueOffset))"

text \<open>The cost of the topics is computed in 32-bit unsigned arithmetic.\<close>

definition logCost :: "u32 \<Rightarrow> u32 \<Rightarrow> int" where
  "logCost len numberOfTopics =
     int (unat (gs_log + gs_logTopic * numberOfTopics)) + gs_logData * int (unat len)"

definition loadTopic :: "bool \<Rightarrow> u32 \<Rightarrow> ('h, bytes32) eei" where
  "loadTopic c topic = (if c then loadBytes32 topic else returnE 0)"

definition eeiLog ::
  "'h HostInterface \<Rightarrow> u32 \<Rightarrow> u32 \<Rightarrow> u32 \<Rightarrow> u32 \<Rightarrow> u32 \<Rightarrow> u32 \<Rightarrow> u32 \<Rightarrow> ('h, unit) eei" where
  "eeiLog H dataOffset len numberOfTopics topic1 topic2 topic3 topic4 =
     seqE (takeInterfaceGas (logCost len numberOfTopics))
     (seqE ensureNotStatic
     (seqE (ensureE (numberOfTopics \<le> 4) ContractValidationFailure)
     (bindE (loadTopic (1 \<le> numberOfTopics) topic1) (\<lambda>t1.
      bindE (loadTopic (2 \<le> numberOfTopics) topic2) (\<lambda>t2.
      bindE (loadTopic (3 \<le> numberOfTopics) topic3) (\<lambda>t3.
      bindE (loadTopic (numberOfTopics = 4) topic4) (\<lambda>t4.
      seqE (ensureSourceMemoryBounds dataOffset len)
      (bindE (loadMemoryInto dataOffset (replicate (unat len) 0) (unat len)) (\<lambda>d.
       bindE (readMsg msg_destination) (\<lambda>dest.
       hostWrite (\<lambda>h. emit_log H h dest d (take (unat numberOfTopics) [t1, t2, t3, t4]))))))))))))"

definition eeiGetBlockNumber :: "'h HostInterface \<Rightarrow> ('h, int) eei" where
  "eeiGetBlockNumber H =
     seqE (takeInterfaceGas gs_base) (bindE (hostTxContext H) (\<lambda>t. returnE (block_number t)))"

definition eeiGetBlockTimestamp :: "'h HostInterface \<Rightarrow> ('h, int) eei" where
  "eeiGetBlockTimestamp H =
     seqE (takeInterfaceGas gs_base) (bindE (hostTxContext H) (\<lambda>t. returnE (block_timestamp t)))"

definition eeiGetTxOrigin :: "'h HostInterface \<Rightarrow> u32 \<Rightarrow> ('h, unit) eei" where
  "eeiGetTxOrigin H resultOffset =
     seqE (takeInterfaceGas gs_base)
     (bindE (hostTxContext H) (\<lambda>t. storeAddress (tx_origin t) resultOffset))"

definition eeiStorageStore :: "'h HostInterface \<Rightarrow> u32 \<Rightarrow> u32 \<Rightarrow> ('h, unit) eei" where
  "eeiStorageStore H pathOffset valueOffset =
     seqE (takeInterfaceGas gs_storageStoreChange)
     (seqE ensureNotStatic
     (bindE (loadBytes32 pathOffset) (\<lambda>path.
      bindE (loadBytes32 valueOffset) (\<lambda>value.
      bindE (readMsg msg_destination) (\<lambda>dest.
      bindE (hostRead (\<lambda>h. get_storage H h dest path)) (\<lambda>current.
      seqE (whenE (is_zero current \<and> \<not> is_zero value)
              (takeInterfaceGas (gs_storageStoreCreate - gs_storageStoreChange)))
           (hostWrite (\<lambda>h. set_storage H h dest path value))))))))"

definition eeiStorageLoad :: "'h HostInterface \<Rightarrow> u32 \<Rightarrow> u32 \<Rightarrow> ('h, unit) eei" where
  "eeiStorageLoad H pathOffset resultOffset =
     seqE (takeInterfaceGas gs_storageLoad)
     (bindE (loadBytes32 pathOffset) (\<lambda>path.
      bindE (readMsg msg_destination) (\<lambda>dest.
      bindE (hostRead (\<lambda>h. get_storage H h dest path)) (\<lambda>res. storeBytes32 res resultOffset))))"

definition setReturnValue :: "byte list \<Rightarrow> ('h, unit) eei" where
  "setReturnValue d = modifyE (\<lambda>s. s\<lparr>m_result := (m_result s)\<lparr>returnValue := d\<rparr>\<rparr>)"

definition setIsRevert :: "bool \<Rightarrow> ('h, unit) eei" where
  "setIsRevert r = modifyE (\<lambda>s. s\<lparr>m_result := (m_result s)\<lparr>isRevert := r\<rparr>\<rparr>)"

definition eeiRevertOrFinish :: "bool \<Rightarrow> u32 \<Rightarrow> u32 \<Rightarrow> ('h, unit) eei" where
  "eeiRevertOrFinish revert offset sz =
     seqE (ensureSourceMemoryBounds offset sz)
     (seqE (setReturnValue (replicate (unat sz) 0))
     (bindE (loadMemoryInto offset (replicate (unat sz) 0) (unat sz)) (\<lambda>d.
      seqE (setReturnValue d)
      (seqE (setIsRevert revert) (throwE EndExecution)))))"

definition eeiFinish :: "u32 \<Rightarrow> u32 \<Rightarrow> ('h, unit) eei" where
  "eeiFinish offset sz = eeiRevertOrFinish False offset sz"

definition eeiRevert :: "u32 \<Rightarrow> u32 \<Rightarrow> ('h, unit) eei" where
  "eeiRevert offset sz = eeiRevertOrFinish True offset sz"

definition eeiGetReturnDataSize :: "('h, u32) eei" where
  "eeiGetReturnDataSize =
     seqE (takeInterfaceGas gs_base) (getE (\<lambda>s. of_nat (length (m_lastReturnData s))))"

definition eeiReturnDataCopy :: "u32 \<Rightarrow> u32 \<Rightarrow> u32 \<Rightarrow> ('h, unit) eei" where
  "eeiReturnDataCopy dataOffset offset sz =
     seqE (safeChargeDataCopy sz gs_verylow)
     (bindE (getE m_lastReturnData) (\<lambda>d. storeMemoryView d offset dataOffset sz))"

section \<open>Calls and creation\<close>

text \<open>The part of eeiCall that fills in kind, flags, sender and value of the message.\<close>

definition callParties :: "EEICallKind \<Rightarrow> u32 \<Rightarrow> ('h, evmc_call_kind \<times> u32 \<times> address \<times> uint256be) eei" where
  "callParties kind valueOffset =
     bindE (readMsg (\<lambda>m. m)) (\<lambda>m.
     let fl = msg_flags m AND EVMC_STATIC in
     case kind of
       CallDelegate \<Rightarrow> returnE (EVMC_DELEGATECALL, fl, msg_sender m, msg_value m)
     | CallStatic \<Rightarrow> returnE (EVMC_CALL, fl OR EVMC_STATIC, msg_destination m, 0)
     | _ \<Rightarrow>
         bindE (loadUint128 valueOffset) (\<lambda>value.
         seqE (whenE (kind = Call \<and> \<not> is_zero value) ensureNotStatic)
              (returnE (if kind = CallCode then EVMC_CALLCODE else EVMC_CALL, fl, msg_destination m, value))))"

definition loadInput :: "u32 \<Rightarrow> u32 \<Rightarrow> ('h, byte list) eei" where
  "loadInput dataOffset dataLength =
     (if dataLength \<noteq> 0
      then seqE (ensureSourceMemoryBounds dataOffset dataLength)
                (loadMemoryInto dataOffset (replicate (unat dataLength) 0) (unat dataLength))
      else returnE [])"

definition callStatus :: "evmc_status_code \<Rightarrow> u32" where
  "callStatus st = (case st of EVMC_SUCCESS \<Rightarrow> 0 | EVMC_REVERT \<Rightarrow> 2 | _ \<Rightarrow> 1)"

text \<open>
  The charge for a value transfer, which fails the call when the balance is too small: the
  value is \<open>False\<close> when eeiCall is to return 1.
\<close>

definition chargeTransfer :: "'h HostInterface \<Rightarrow> EEICallKind \<Rightarrow> address \<Rightarrow> uint256be \<Rightarrow> ('h, bool) eei" where
  "chargeTransfer H kind dest value =
     (if (kind = Call \<or> kind = CallCode) \<and> \<not> is_zero value
      then seqE (takeInterfaceGas gs_valuetransfer)
           (bindE (enoughSenderBalanceFor H value) (\<lambda>enough.
            if \<not> enough then returnE False
            else bindE (hostRead (\<lambda>h. account_exists H h dest)) (\<lambda>ex.
                 seqE (whenE (kind = Call \<and> \<not> ex) (takeInterfaceGas gs_callNewAccount))
                      (returnE True))))
      else returnE True)"

text \<open>The forwarded gas, its stipend, the call itself and what is kept of its result.\<close>

definition forwardCall ::
  "'h HostInterface \<Rightarrow> int \<Rightarrow> uint256be \<Rightarrow> (int \<Rightarrow> evmc_message) \<Rightarrow> ('h, u32) eei" where
  "forwardCall H gas value mkMessage =
     bindE readGas (\<lambda>left.
     let fwd = min gas (maxCallGas left) in
     seqE (takeInterfaceGas fwd)
     (bindE (if is_zero value then returnE fwd else checked64 (fwd + gs_valueStipend)) (\<lambda>gas'.
      bindE (hostCall H (mkMessage gas')) (\<lambda>r.
      seqE (setLastReturnData (case output_data r of Some d \<Rightarrow> d | None \<Rightarrow> []))
      (seqE (returnGas (gas_left r)) (returnE (callStatus (status_code r))))))))"

definition eeiCall ::
  "'h HostInterface \<Rightarrow> EEICallKind \<Rightarrow> int \<Rightarrow> u32 \<Rightarrow> u32 \<Rightarrow> u32 \<Rightarrow> u32 \<Rightarrow> ('h, u32) eei" where
  "eeiCall H kind gas addressOffset valueOffset dataOffset dataLength =
     seqE (ensureE (0 \<le> gas) ArgumentOutOfRange)
     (bindE (loadAddress addressOffset) (\<lambda>dest.
      bindE (readMsg msg_depth) (\<lambda>depth.
      bindE (callParties kind valueOffset) (\<lambda>(ckind, fl, sender, value).
      bindE (loadInput dataOffset dataLength) (\<lambda>input.
      seqE (takeInterfaceGas gs_call)
      (if 1024 \<le> depth then returnE 1
       else bindE (chargeTransfer H kind dest value) (\<lambda>go.
            if \<not> go then returnE 1
            else forwardCall H gas value (\<lambda>g.
              \<lparr>msg_kind = ckind, msg_flags = fl, msg_depth = depth + 1, msg_gas = g,
               msg_destination = dest, msg_sender = sender, msg_input = input, msg_value = value\<rparr>))))))))"

text \<open>What eeiCreate does with the result of the message it sent.\<close>

definition finishCreate :: "evmc_result \<Rightarrow> u32 \<Rightarrow> ('h, u32) eei" where
  "finishCreate r resultOffset =
     seqE (returnGas (gas_left r))
     (seqE (if status_code r = EVMC_SUCCESS
            then seqE (storeAddress (create_address r) resultOffset) (setLastReturnData [])
            else setLastReturnData (case output_data r of Some d \<Rightarrow> d | None \<Rightarrow> []))
           (returnE (callStatus (status_code r))))"

definition forwardCreate :: "'h HostInterface \<Rightarrow> (int \<Rightarrow> evmc_message) \<Rightarrow> u32 \<Rightarrow> ('h, u32) eei" where
  "forwardCreate H mkMessage resultOffset =
     bindE readGas (\<lambda>left.
     let gas = maxCallGas left in
     seqE (takeInterfaceGas gas)
     (bindE (hostCall H (mkMessage gas)) (\<lambda>r. finishCreate r resultOffset)))"

definition eeiCreate :: "'h HostInterface \<Rightarrow> u32 \<Rightarrow> u32 \<Rightarrow> u32 \<Rightarrow> u32 \<Rightarrow> ('h, u32) eei" where
  "eeiCreate H valueOffset dataOffset len resultOffset =
     seqE (takeInterfaceGas gs_create)
     (seqE ensureNotStatic
     (bindE (readMsg (\<lambda>m. m)) (\<lambda>m.
      bindE (loadUint128 valueOffset) (\<lambda>value.
      if 1024 \<le> msg_depth m then returnE 1
      else bindE (enoughSenderBalanceFor H value) (\<lambda>enough.
           if \<not> enough then returnE 1
           else bindE (loadInput dataOffset len) (\<lambda>input.
                forwardCreate H (\<lambda>gas.
                  \<lparr>msg_kind = EVMC_CREATE, msg_flags = 0, msg_depth = msg_depth m + 1, msg_gas = gas,
                   msg_destination = 0, msg_sender = msg_destination m, msg_input = input,
                   msg_value = value\<rparr>) resultOffset))))))"

definition eeiSelfDestruct :: "'h HostInterface \<Rightarrow> u32 \<Rightarrow> ('h, unit) eei" where
  "eeiSelfDestruct H addressOffset =
     seqE (takeInterfaceGas gs_selfdestruct)
     (seqE ensureNotStatic
     (bindE (loadAddress addressOffset) (\<lambda>a.
      bindE (readMsg msg_destination) (\<lambda>dest.
      bindE (hostRead (\<lambda>h. account_exists H h a)) (\<lambda>ex.
      seqE (whenE (\<not> ex) (takeInterfaceGas gs_callNewAccount))
      (seqE (hostWrite (\<lambda>h. selfdestruct H h dest a)) (throwE EndExecution)))))))"

end
