(* ===== verification/Eei_Memory.thy ===== *)
theory Eei_Memory
  imports Eei
begin

text \<open>
  What the memory accesses of the interface do: each is equal to an all-or-nothing copy
  between a segment of the memory and a byte string, failing with InvalidMemoryAccess
  exactly when the segment does not lie inside the memory. A wasm memory has at most 65536
  pages of 64 KiB, which is what \<open>mem_bound\<close> says.
\<close>

definition mem_bound :: "'h EthereumInterface \<Rightarrow> bool" where
  "mem_bound s \<longleftrightarrow> length (wasm_memory s) \<le> 2 ^ 32"

definition segment :: "nat \<Rightarrow> nat \<Rightarrow> byte list \<Rightarrow> byte list" where
  "segment off len mem = take len (drop off mem)"

definition put_segment :: "nat \<Rightarrow> byte list \<Rightarrow> byte list \<Rightarrow> byte list" where
  "put_segment off bs mem = take off mem @ bs @ drop (off + length bs) mem"

section \<open>Segments\<close>

lemma length_put_segment [simp]:
  "off + length bs \<le> length mem \<Longrightarrow> length (put_segment off bs mem) = length mem"
  by (simp add: put_segment_def)

lemma segment_put_same [simp]:
  "off + length bs \<le> length mem \<Longrightarrow> length bs = n \<Longrightarrow> segment off n (put_segment off bs mem) = bs"
  by (simp add: segment_def put_segment_def)

lemma nth_put_segment:
  "off + length bs \<le> length mem \<Longrightarrow> i < length mem \<Longrightarrow>
   put_segment off bs mem ! i = (if off \<le> i \<and> i < off + length bs then bs ! (i - off) else mem ! i)"
  by (auto simp: put_segment_def nth_append)

lemma length_segment [simp]: "off + n \<le> length mem \<Longrightarrow> length (segment off n mem) = n"
  by (simp add: segment_def)

section \<open>Sums of offsets\<close>

lemma unat_sum_u32:
  "unat (a + b :: u32) = (if unat a + unat b < 2 ^ 32 then unat a + unat b else unat a + unat b - 2 ^ 32)"
  using unsigned_less [of a, where ?'a = nat] unsigned_less [of b, where ?'a = nat]
  by (simp add: unat_word_ariths mod_if)

lemma sum_no_wrap: "(a :: u32) \<le> a + b \<longleftrightarrow> unat a + unat b < 2 ^ 32"
  using unsigned_less [of a, where ?'a = nat] unsigned_less [of b, where ?'a = nat]
  by (auto simp: word_le_nat_alt unat_sum_u32)

lemma unat_add_index: "unat (a :: u32) + i < 2 ^ 32 \<Longrightarrow> unat (a + of_nat i) = unat a + i"
  by (simp add: unat_sum_u32 unat_of_nat take_bit_nat_eq_self_iff take_bit_eq_mod)

lemma loadBounds_eq:
  assumes "len \<le> 2 ^ 32"
  shows "loadBounds off len s =
    (if unat off + len \<le> length (wasm_memory s) then (Inr (), s) else (Inl InvalidMemoryAccess, s))"
proof -
  have o: "unat off < 2 ^ 32" using unsigned_less [of off, where ?'a = nat] by simp
  have u: "unat (ucast off + of_nat len :: u64) = unat off + len"
    using o assms by (simp add: unat_word_ariths unsigned_ucast_eq unat_of_nat take_bit_eq_mod)
  have "(ucast off :: u64) \<le> ucast off + of_nat len"
    by (simp add: word_le_nat_alt u unsigned_ucast_eq take_bit_eq_mod)
  then show ?thesis
    by (simp add: loadBounds_def eff_simps memorySize_def u)
qed

lemma storeBounds_eq:
  "storeBounds off len s =
    (if unat off + unat len \<le> length (wasm_memory s) \<and> unat off + unat len < 2 ^ 32
     then (Inr (), s) else (Inl InvalidMemoryAccess, s))"
  by (auto simp: storeBounds_def eff_simps memorySize_def sum_no_wrap unat_sum_u32)

lemma ensureSourceMemoryBounds_eq:
  "ensureSourceMemoryBounds off len s =
    (if unat off + unat len \<le> length (wasm_memory s) \<and> unat off + unat len < 2 ^ 32
     then (Inr (), s) else (Inl InvalidMemoryAccess, s))"
  by (auto simp: ensureSourceMemoryBounds_def eff_simps memorySize_def sum_no_wrap unat_sum_u32)

section \<open>Reading a segment\<close>

lemma readAll_get:
  "\<forall>i \<in> set is. f i < length (wasm_memory s) \<Longrightarrow>
   readAll (map (\<lambda>i. memoryGet (f i)) is) s = (Inr (map (\<lambda>i. wasm_memory s ! f i) is), s)"
  by (induction "is") (simp_all add: eff_simps memoryGet_def)

lemma segment_map:
  "off + len \<le> length mem \<Longrightarrow> map (\<lambda>i. mem ! (off + i)) [0..<len] = segment off len mem"
  by (rule nth_equalityI) (simp_all add: segment_def)

lemma read_segment:
  assumes "unat (off :: u32) + len \<le> length (wasm_memory s)" and "mem_bound s"
  shows "readAll (map (\<lambda>i. memoryGet (unat (off + of_nat i))) [0..<len]) s =
    (Inr (segment (unat off) len (wasm_memory s)), s)"
proof -
  have idx: "unat (off + of_nat i) = unat off + i" if "i < len" for i
    using that assms unsigned_less [of off, where ?'a = nat]
    by (intro unat_add_index) (simp add: mem_bound_def)
  have "map (\<lambda>i. wasm_memory s ! unat (off + of_nat i)) [0..<len] =
        map (\<lambda>i. wasm_memory s ! (unat off + i)) [0..<len]"
    by (rule map_cong) (simp_all add: idx)
  then show ?thesis
    using assms by (subst readAll_get) (auto simp: idx segment_map)
qed

lemma loadMemory_eq:
  assumes "mem_bound s" and "len \<le> 2 ^ 32"
  shows "loadMemory off len s =
    (if unat off + len \<le> length (wasm_memory s)
     then (Inr (segment (unat off) len (wasm_memory s)), s) else (Inl InvalidMemoryAccess, s))"
  using assms by (simp add: loadMemory_def seqE_def bindE_def loadBounds_eq read_segment)

lemma loadMemoryReverse_eq:
  assumes "mem_bound s" and "len \<le> 2 ^ 32"
  shows "loadMemoryReverse off len s =
    (if unat off + len \<le> length (wasm_memory s)
     then (Inr (rev (segment (unat off) len (wasm_memory s))), s) else (Inl InvalidMemoryAccess, s))"
  using assms
  by (simp add: loadMemoryReverse_def seqE_def bindE_def returnE_def loadBounds_eq read_segment)

lemma loadMemoryInto_eq:
  assumes "mem_bound s" and "len \<le> 2 ^ 32" and "length dst = len"
  shows "loadMemoryInto off dst len s =
    (if unat off + len \<le> length (wasm_memory s)
     then (Inr (segment (unat off) len (wasm_memory s)), s) else (Inl InvalidMemoryAccess, s))"
  using assms
  by (simp add: loadMemoryInto_def seqE_def bindE_def returnE_def ensureE_def loadBounds_eq read_segment)

section \<open>Writing a segment\<close>

definition updates :: "(nat \<Rightarrow> nat) \<Rightarrow> (nat \<Rightarrow> byte) \<Rightarrow> nat list \<Rightarrow> byte list \<Rightarrow> byte list" where
  "updates g v is mem = fold (\<lambda>i m. m[g i := v i]) is mem"

lemma length_updates [simp]: "length (updates g v is mem) = length mem"
  unfolding updates_def by (induction "is" arbitrary: mem) simp_all

lemma updates_other: "j \<notin> g ` set is \<Longrightarrow> updates g v is mem ! j = mem ! j"
  unfolding updates_def by (induction "is" arbitrary: mem) auto

lemma updates_at:
  "inj_on g (set is) \<Longrightarrow> distinct is \<Longrightarrow> i \<in> set is \<Longrightarrow> g i < length mem \<Longrightarrow>
   updates g v is mem ! g i = v i"
proof (induction "is" arbitrary: mem)
  case (Cons a as)
  have step: "updates g v (a # as) mem = updates g v as (mem[g a := v a])" by (simp add: updates_def)
  show ?case
  proof (cases "i = a")
    case True
    moreover have "g a \<notin> g ` set as" using Cons.prems(1,2) by (auto simp: inj_on_def)
    ultimately show ?thesis using Cons.prems(4) by (simp add: step updates_other)
  next
    case False
    then show ?thesis using Cons by (simp add: step)
  qed
qed simp

lemma writeAll_set:
  "\<forall>i \<in> set is. g i < length (wasm_memory s) \<Longrightarrow>
   writeAll (map (\<lambda>i. memorySet (g i) (v i)) is) s =
     (Inr (), s\<lparr>wasm_memory := updates g v is (wasm_memory s)\<rparr>)"
  by (induction "is" arbitrary: s) (simp_all add: eff_simps memorySet_def updates_def)

lemma updates_segment:
  assumes "length bs = n" and "off + n \<le> length mem"
    and "\<And>k. k < n \<Longrightarrow> \<exists>i < n. g i = off + k \<and> v i = bs ! k"
    and "\<And>i. i < n \<Longrightarrow> off \<le> g i \<and> g i < off + n" and "inj_on g {..<n}"
  shows "updates g v [0..<n] mem = put_segment off bs mem"
proof (rule nth_equalityI)
  fix j assume "j < length (updates g v [0..<n] mem)"
  then have j: "j < length mem" by simp
  show "updates g v [0..<n] mem ! j = put_segment off bs mem ! j"
  proof (cases "off \<le> j \<and> j < off + n")
    case True
    then have "j - off < n" by auto
    from assms(3) [OF this] obtain i where i: "i < n" "g i = j" "v i = bs ! (j - off)"
      using True by auto
    have "updates g v [0..<n] mem ! g i = v i"
      using assms(5) i j by (intro updates_at) (simp_all add: lessThan_atLeast0)
    then show ?thesis using True i j assms(1,2) by (simp add: nth_put_segment)
  next
    case False
    then have "j \<notin> g ` set [0..<n]" using assms(4) by fastforce
    then show ?thesis using False j assms(1,2) by (auto simp: updates_other nth_put_segment)
  qed
qed (use assms in simp)

lemma storeMemory_eq:
  assumes "length src = unat len"
  shows "storeMemory src off len s =
    (if unat off + unat len \<le> length (wasm_memory s) \<and> unat off + unat len < 2 ^ 32
     then (Inr (), s\<lparr>wasm_memory := put_segment (unat off) src (wasm_memory s)\<rparr>)
     else (Inl InvalidMemoryAccess, s))"
proof (cases "unat off + unat len \<le> length (wasm_memory s) \<and> unat off + unat len < 2 ^ 32")
  case True
  have idx: "unat (off + of_nat i) = unat off + i" if "i < unat len" for i
    using that True by (intro unat_add_index) simp
  have "updates (\<lambda>i. unat (off + of_nat i)) ((!) src) [0..<unat len] (wasm_memory s) =
        put_segment (unat off) src (wasm_memory s)"
    using True assms by (intro updates_segment) (auto simp: idx inj_on_def)
  then show ?thesis
    using True idx by (simp add: storeMemory_def seqE_def bindE_def storeBounds_eq writeAll_set)
qed (auto simp: storeMemory_def seqE_def bindE_def storeBounds_eq)

lemma unat_sub_index:
  assumes "i < unat (len :: u32)" and "unat off + unat len < 2 ^ 32"
  shows "unat (off + len - (of_nat i + 1)) = unat off + (unat len - (i + 1))"
proof -
  have "off + len - (of_nat i + 1) = (of_nat (unat off + unat len) - of_nat (i + 1) :: u32)"
    by simp
  also have "\<dots> = of_nat (unat off + unat len - (i + 1))"
    using assms(1) by (intro of_nat_diff [symmetric]) simp
  finally have e: "off + len - (of_nat i + 1) = of_nat (unat off + unat len - (i + 1))" .
  have "unat (of_nat (unat off + unat len - (i + 1)) :: u32) = unat off + unat len - (i + 1)"
    using assms(2) by (simp only: unat_of_nat take_bit_eq_mod) simp
  then show ?thesis using assms(1) by (simp only: e)
qed

lemma storeMemoryReverse_eq:
  assumes "length src = unat len"
  shows "storeMemoryReverse src off len s =
    (if unat off + unat len \<le> length (wasm_memory s) \<and> unat off + unat len < 2 ^ 32
     then (Inr (), s\<lparr>wasm_memory := put_segment (unat off) (rev src) (wasm_memory s)\<rparr>)
     else (Inl InvalidMemoryAccess, s))"
proof (cases "unat off + unat len \<le> length (wasm_memory s) \<and> unat off + unat len < 2 ^ 32")
  case True
  have idx: "unat (off + len - (of_nat i + 1)) = unat off + (unat len - (i + 1))" if "i < unat len" for i
    using that True by (intro unat_sub_index) simp_all
  have "updates (\<lambda>i. unat (off + len - (of_nat i + 1))) ((!) src) [0..<unat len] (wasm_memory s) =
        put_segment (unat off) (rev src) (wasm_memory s)"
  proof (rule updates_segment)
    fix k assume k: "k < unat len"
    then show "\<exists>i<unat len. unat (off + len - (of_nat i + 1)) = unat off + k \<and> src ! i = rev src ! k"
      using assms True idx [of "unat len - (k + 1)"]
      by (intro exI [of _ "unat len - (k + 1)"]) (simp add: rev_nth unat_add_index)
  next
    show "inj_on (\<lambda>i. unat (off + len - (of_nat i + 1))) {..<unat len}"
      by (rule inj_onI) (simp add: idx)
  qed (use True assms in \<open>simp_all add: idx\<close>)
  moreover have "\<forall>i \<in> set [0..<unat len]. unat (off + len - (of_nat i + 1)) < length (wasm_memory s)"
    using True by (auto simp: idx)
  note writeAll_set [OF this, of "(!) src"]
  ultimately show ?thesis
    using True by (simp add: storeMemoryReverse_def seqE_def bindE_def storeBounds_eq)
qed (auto simp: storeMemoryReverse_def seqE_def bindE_def storeBounds_eq)

lemma viewGet_bind: "i < length src \<Longrightarrow> bindE (viewGet src i) f = f (src ! i)"
  by (rule ext) (simp add: viewGet_def bindE_def returnE_def)

lemma segment_nth: "off + n \<le> length src \<Longrightarrow> k < n \<Longrightarrow> segment off n src ! k = src ! (off + k)"
  by (simp add: segment_def)

lemma storeMemoryView_eq:
  "storeMemoryView src so off len s =
    (if unat so + unat len \<le> length src \<and> unat so + unat len < 2 ^ 32
      \<and> unat off + unat len \<le> length (wasm_memory s) \<and> unat off + unat len < 2 ^ 32
     then (Inr (), s\<lparr>wasm_memory :=
        put_segment (unat off) (segment (unat so) (unat len) src) (wasm_memory s)\<rparr>)
     else (Inl InvalidMemoryAccess, s))"
  (is "_ = (if ?ok then _ else _)")
proof (cases ?ok)
  case True
  have idx: "unat (off + of_nat i) = unat off + i" "unat (so + of_nat i) = unat so + i"
    if "i < unat len" for i using that True by (auto intro!: unat_add_index)
  have m: "map (\<lambda>i. bindE (viewGet src (unat (so + of_nat i))) (memorySet (unat (off + of_nat i)))) [0..<unat len]
      = map (\<lambda>i. memorySet (unat (off + of_nat i)) (segment (unat so) (unat len) src ! i)) [0..<unat len]"
    using True by (intro map_cong) (simp_all add: idx viewGet_bind segment_nth)
  have "so \<le> so + len" and "unat (so + len) \<le> length src"
    using True by (simp_all add: sum_no_wrap unat_sum_u32)
  then have "storeMemoryView src so off len s = storeMemory (segment (unat so) (unat len) src) off len s"
    unfolding storeMemoryView_def storeMemory_def m by (simp add: seqE_def bindE_def ensureE_def returnE_def)
  then show ?thesis using True by (subst (asm) storeMemory_eq) simp_all
next
  case False
  then show ?thesis
    by (auto simp: storeMemoryView_def seqE_def bindE_def ensureE_def returnE_def throwE_def
        sum_no_wrap unat_sum_u32 storeBounds_eq)
qed

section \<open>Typed accesses\<close>

definition in_memory :: "u32 \<Rightarrow> nat \<Rightarrow> 'h EthereumInterface \<Rightarrow> bool" where
  "in_memory off n s \<longleftrightarrow> unat off + n \<le> length (wasm_memory s)"

lemma loadBytes32_eq:
  "mem_bound s \<Longrightarrow> loadBytes32 off s =
    (if in_memory off 32 s then (Inr (word_be (segment (unat off) 32 (wasm_memory s))), s)
     else (Inl InvalidMemoryAccess, s))"
  by (simp add: loadBytes32_def bindE_def returnE_def loadMemory_eq in_memory_def)

lemma loadAddress_eq:
  "mem_bound s \<Longrightarrow> loadAddress off s =
    (if in_memory off 20 s then (Inr (word_be (segment (unat off) 20 (wasm_memory s))), s)
     else (Inl InvalidMemoryAccess, s))"
  by (simp add: loadAddress_def bindE_def returnE_def loadMemory_eq in_memory_def)

lemma loadUint256_eq:
  "mem_bound s \<Longrightarrow> loadUint256 off s =
    (if in_memory off 32 s then (Inr (word_be (rev (segment (unat off) 32 (wasm_memory s)))), s)
     else (Inl InvalidMemoryAccess, s))"
  by (simp add: loadUint256_def bindE_def returnE_def loadMemoryReverse_eq in_memory_def)

lemma loadUint128_eq:
  "mem_bound s \<Longrightarrow> loadUint128 off s =
    (if in_memory off 16 s
     then (Inr (word_be (replicate 16 0 @ rev (segment (unat off) 16 (wasm_memory s)))), s)
     else (Inl InvalidMemoryAccess, s))"
  by (simp add: loadUint128_def bindE_def returnE_def loadMemoryReverse_eq in_memory_def)

text \<open>A store also refuses a segment that ends exactly at the end of the address space.\<close>

definition store_ok :: "u32 \<Rightarrow> nat \<Rightarrow> 'h EthereumInterface \<Rightarrow> bool" where
  "store_ok off n s \<longleftrightarrow> in_memory off n s \<and> unat off + n < 2 ^ 32"

definition put :: "u32 \<Rightarrow> byte list \<Rightarrow> 'h EthereumInterface \<Rightarrow> 'h EthereumInterface" where
  "put off bs s = s\<lparr>wasm_memory := put_segment (unat off) bs (wasm_memory s)\<rparr>"

lemma storeBytes32_eq:
  "storeBytes32 v off s =
    (if store_ok off 32 s then (Inr (), put off (bytes_be 32 v) s) else (Inl InvalidMemoryAccess, s))"
  by (simp add: storeBytes32_def storeMemory_eq store_ok_def in_memory_def put_def)

lemma storeAddress_eq:
  "storeAddress v off s =
    (if store_ok off 20 s then (Inr (), put off (bytes_be 20 v) s) else (Inl InvalidMemoryAccess, s))"
  by (simp add: storeAddress_def storeMemory_eq store_ok_def in_memory_def put_def)

lemma storeUint256_eq:
  "storeUint256 v off s =
    (if store_ok off 32 s then (Inr (), put off (rev (bytes_be 32 v)) s) else (Inl InvalidMemoryAccess, s))"
  by (simp add: storeUint256_def storeMemoryReverse_eq store_ok_def in_memory_def put_def)

lemma bytes_be_hi_lo:
  "be_nat (take 16 (bytes_be 32 v)) = unat v div 2 ^ 128 \<and> be_nat (drop 16 (bytes_be 32 v)) = unat v mod 2 ^ 128"
  for v :: uint256be
proof -
  let ?h = "be_nat (take 16 (bytes_be 32 v))" and ?l = "be_nat (drop 16 (bytes_be 32 v))"
  have "unat v < 2 ^ 256" using unsigned_less [of v, where ?'a = nat] by simp
  then have "be_nat (bytes_be 32 v) = unat v" by (simp add: be_nat_bytes_be)
  then have e: "?h * 2 ^ 128 + ?l = unat v"
    using be_nat_append [of "take 16 (bytes_be 32 v)" "drop 16 (bytes_be 32 v)"] by simp
  have l: "?l < 2 ^ 128" using be_nat_bound [of "drop 16 (bytes_be 32 v)"] by simp
  from e have "unat v div 2 ^ 128 = (?h * 2 ^ 128 + ?l) div 2 ^ 128"
    and "unat v mod 2 ^ 128 = (?h * 2 ^ 128 + ?l) mod 2 ^ 128" by simp_all
  with l show ?thesis by (simp only: div_mult_self3 mod_mult_self3 div_less mod_less) simp
qed

lemma be_nat_eq_0: "be_nat bs = 0 \<longleftrightarrow> (\<forall>b \<in> set bs. b = 0)"
  by (induction bs rule: rev_induct) (auto simp: unat_eq_0)

lemma exceedsUint128_iff: "exceedsUint128 v \<longleftrightarrow> 2 ^ 128 \<le> unat v"
proof -
  have "exceedsUint128 v \<longleftrightarrow> (\<exists>b \<in> set (take 16 (bytes_be 32 v)). b \<noteq> 0)"
    by (simp add: exceedsUint128_def list_ex_iff nth_image [symmetric])
  also have "\<dots> \<longleftrightarrow> be_nat (take 16 (bytes_be 32 v)) \<noteq> 0" by (simp add: be_nat_eq_0)
  also have "\<dots> \<longleftrightarrow> 2 ^ 128 \<le> unat v"
    by (simp only: bytes_be_hi_lo div_eq_0_iff) (auto simp: not_less)
  finally show ?thesis .
qed

lemma storeUint128_eq:
  "storeUint128 v off s =
    (if 2 ^ 128 \<le> unat v then (Inl ArgumentOutOfRange, s)
     else if store_ok off 16 s then (Inr (), put off (rev (drop 16 (bytes_be 32 v))) s)
     else (Inl InvalidMemoryAccess, s))"
  by (simp add: storeUint128_def seqE_def bindE_def ensureE_def returnE_def throwE_def
      exceedsUint128_iff storeMemoryReverse_eq store_ok_def in_memory_def put_def)

end
