(* ===== verification/Wabt.thy ===== *)
theory Wabt
  imports Eei_Memory
begin

text \<open>
  The wabt engine (wabt.cpp): the host functions it offers to a contract, the conditions
  under which it accepts a module, and how it runs one. The interpreter itself is a
  parameter: \<open>load\<close> stands for ReadBinaryInterp and \<open>run\<close> for the executor. The engine also
  registers create2, whose operation eeiCreate2 is declared but has no body in the sources;
  it appears in the table of signatures and not in the list of host functions.
\<close>

section \<open>Host functions\<close>

datatype wasm_type = T_I32 | T_I64

text \<open>An argument is a union of 64 bits; a 32-bit read takes the low half.\<close>

type_synonym wasm_value = u64
type_synonym import_sig = "string \<times> wasm_type list \<times> wasm_type list"

record 'h host_func =
  hf_name :: string
  hf_params :: "wasm_type list"
  hf_results :: "wasm_type list"
  hf_fn :: "wasm_value list \<Rightarrow> ('h, wasm_value list) eei"

definition arg32 :: "wasm_value list \<Rightarrow> nat \<Rightarrow> u32" where
  "arg32 args i = ucast (args ! i)"

definition arg64s :: "wasm_value list \<Rightarrow> nat \<Rightarrow> int" where
  "arg64s args i = sint (args ! i)"

definition retNone :: "('h, 'a) eei \<Rightarrow> ('h, wasm_value list) eei" where
  "retNone m = bindE m (\<lambda>_. returnE [])"

definition retI32 :: "('h, u32) eei \<Rightarrow> ('h, wasm_value list) eei" where
  "retI32 m = bindE m (\<lambda>r. returnE [ucast r])"

definition retI64 :: "('h, int) eei \<Rightarrow> ('h, wasm_value list) eei" where
  "retI64 m = bindE m (\<lambda>r. returnE [word_of_int r])"

definition wabt_useGas :: "'h HostInterface \<Rightarrow> 'h host_func" where
  "wabt_useGas H = \<lparr>hf_name = ''useGas'', hf_params = [T_I64], hf_results = [],
     hf_fn = (\<lambda>args. retNone (eeiUseGas (arg64s args 0)))\<rparr>"

definition wabt_getAddress :: "'h HostInterface \<Rightarrow> 'h host_func" where
  "wabt_getAddress H = \<lparr>hf_name = ''getAddress'', hf_params = [T_I32], hf_results = [],
     hf_fn = (\<lambda>args. retNone (eeiGetAddress (arg32 args 0)))\<rparr>"

definition wabt_getExternalBalance :: "'h HostInterface \<Rightarrow> 'h host_func" where
  "wabt_getExternalBalance H = \<lparr>hf_name = ''getExternalBalance'', hf_params = [T_I32, T_I32], hf_results = [],
     hf_fn = (\<lambda>args. retNone (eeiGetExternalBalance H (arg32 args 0) (arg32 args 1)))\<rparr>"

definition wabt_getBlockHash :: "'h HostInterface \<Rightarrow> 'h host_func" where
  "wabt_getBlockHash H = \<lparr>hf_name = ''getBlockHash'', hf_params = [T_I64, T_I32], hf_results = [T_I32],
     hf_fn = (\<lambda>args. retI32 (eeiGetBlockHash H (args ! 0) (arg32 args 1)))\<rparr>"

definition wabt_call :: "'h HostInterface \<Rightarrow> 'h host_func" where
  "wabt_call H = \<lparr>hf_name = ''call'', hf_params = [T_I64, T_I32, T_I32, T_I32, T_I32], hf_results = [T_I32],
     hf_fn = (\<lambda>args. retI32 (eeiCall H Call (arg64s args 0) (arg32 args 1) (arg32 args 2) (arg32 args 3) (arg32 args 4)))\<rparr>"

definition wabt_callDataCopy :: "'h HostInterface \<Rightarrow> 'h host_func" where
  "wabt_callDataCopy H = \<lparr>hf_name = ''callDataCopy'', hf_params = [T_I32, T_I32, T_I32], hf_results = [],
     hf_fn = (\<lambda>args. retNone (eeiCallDataCopy (arg32 args 0) (arg32 args 1) (arg32 args 2)))\<rparr>"

definition wabt_getCallDataSize :: "'h HostInterface \<Rightarrow> 'h host_func" where
  "wabt_getCallDataSize H = \<lparr>hf_name = ''getCallDataSize'', hf_params = [], hf_results = [T_I32],
     hf_fn = (\<lambda>args. retI32 eeiGetCallDataSize)\<rparr>"

definition wabt_callCode :: "'h HostInterface \<Rightarrow> 'h host_func" where
  "wabt_callCode H = \<lparr>hf_name = ''callCode'', hf_params = [T_I64, T_I32, T_I32, T_I32, T_I32], hf_results = [T_I32],
     hf_fn = (\<lambda>args. retI32 (eeiCall H CallCode (arg64s args 0) (arg32 args 1) (arg32 args 2) (arg32 args 3) (arg32 args 4)))\<rparr>"

definition wabt_callDelegate :: "'h HostInterface \<Rightarrow> 'h host_func" where
  "wabt_callDelegate H = \<lparr>hf_name = ''callDelegate'', hf_params = [T_I64, T_I32, T_I32, T_I32], hf_results = [T_I32],
     hf_fn = (\<lambda>args. retI32 (eeiCall H CallDelegate (arg64s args 0) (arg32 args 1) 0 (arg32 args 2) (arg32 args 3)))\<rparr>"

definition wabt_callStatic :: "'h HostInterface \<Rightarrow> 'h host_func" where
  "wabt_callStatic H = \<lparr>hf_name = ''callStatic'', hf_params = [T_I64, T_I32, T_I32, T_I32], hf_results = [T_I32],
     hf_fn = (\<lambda>args. retI32 (eeiCall H CallStatic (arg64s args 0) (arg32 args 1) 0 (arg32 args 2) (arg32 args 3)))\<rparr>"

definition wabt_storageStore :: "'h HostInterface \<Rightarrow> 'h host_func" where
  "wabt_storageStore H = \<lparr>hf_name = ''storageStore'', hf_params = [T_I32, T_I32], hf_results = [],
     hf_fn = (\<lambda>args. retNone (eeiStorageStore H (arg32 args 0) (arg32 args 1)))\<rparr>"

definition wabt_storageLoad :: "'h HostInterface \<Rightarrow> 'h host_func" where
  "wabt_storageLoad H = \<lparr>hf_name = ''storageLoad'', hf_params = [T_I32, T_I32], hf_results = [],
     hf_fn = (\<lambda>args. retNone (eeiStorageLoad H (arg32 args 0) (arg32 args 1)))\<rparr>"

definition wabt_getCaller :: "'h HostInterface \<Rightarrow> 'h host_func" where
  "wabt_getCaller H = \<lparr>hf_name = ''getCaller'', hf_params = [T_I32], hf_results = [],
     hf_fn = (\<lambda>args. retNone (eeiGetCaller (arg32 args 0)))\<rparr>"

definition wabt_getCallValue :: "'h HostInterface \<Rightarrow> 'h host_func" where
  "wabt_getCallValue H = \<lparr>hf_name = ''getCallValue'', hf_params = [T_I32], hf_results = [],
     hf_fn = (\<lambda>args. retNone (eeiGetCallValue (arg32 args 0)))\<rparr>"

definition wabt_codeCopy :: "'h HostInterface \<Rightarrow> 'h host_func" where
  "wabt_codeCopy H = \<lparr>hf_name = ''codeCopy'', hf_params = [T_I32, T_I32, T_I32], hf_results = [],
     hf_fn = (\<lambda>args. retNone (eeiCodeCopy (arg32 args 0) (arg32 args 1) (arg32 args 2)))\<rparr>"

definition wabt_getCodeSize :: "'h HostInterface \<Rightarrow> 'h host_func" where
  "wabt_getCodeSize H = \<lparr>hf_name = ''getCodeSize'', hf_params = [], hf_results = [T_I32],
     hf_fn = (\<lambda>args. retI32 eeiGetCodeSize)\<rparr>"

definition wabt_getBlockCoinbase :: "'h HostInterface \<Rightarrow> 'h host_func" where
  "wabt_getBlockCoinbase H = \<lparr>hf_name = ''getBlockCoinbase'', hf_params = [T_I32], hf_results = [],
     hf_fn = (\<lambda>args. retNone (eeiGetBlockCoinbase H (arg32 args 0)))\<rparr>"

definition wabt_create :: "'h HostInterface \<Rightarrow> 'h host_func" where
  "wabt_create H = \<lparr>hf_name = ''create'', hf_params = [T_I32, T_I32, T_I32, T_I32], hf_results = [T_I32],
     hf_fn = (\<lambda>args. retI32 (eeiCreate H (arg32 args 0) (arg32 args 1) (arg32 args 2) (arg32 args 3)))\<rparr>"

definition wabt_getBlockDifficulty :: "'h HostInterface \<Rightarrow> 'h host_func" where
  "wabt_getBlockDifficulty H = \<lparr>hf_name = ''getBlockDifficulty'', hf_params = [T_I32], hf_results = [],
     hf_fn = (\<lambda>args. retNone (eeiGetBlockDifficulty H (arg32 args 0)))\<rparr>"

definition wabt_externalCodeCopy :: "'h HostInterface \<Rightarrow> 'h host_func" where
  "wabt_externalCodeCopy H = \<lparr>hf_name = ''externalCodeCopy'', hf_params = [T_I32, T_I32, T_I32, T_I32], hf_results = [],
     hf_fn = (\<lambda>args. retNone (eeiExternalCodeCopy H (arg32 args 0) (arg32 args 1) (arg32 args 2) (arg32 args 3)))\<rparr>"

definition wabt_getExternalCodeSize :: "'h HostInterface \<Rightarrow> 'h host_func" where
  "wabt_getExternalCodeSize H = \<lparr>hf_name = ''getExternalCodeSize'', hf_params = [T_I32], hf_results = [T_I32],
     hf_fn = (\<lambda>args. retI32 (eeiGetExternalCodeSize H (arg32 args 0)))\<rparr>"

definition wabt_getGasLeft :: "'h HostInterface \<Rightarrow> 'h host_func" where
  "wabt_getGasLeft H = \<lparr>hf_name = ''getGasLeft'', hf_params = [], hf_results = [T_I64],
     hf_fn = (\<lambda>args. retI64 eeiGetGasLeft)\<rparr>"

definition wabt_getBlockGasLimit :: "'h HostInterface \<Rightarrow> 'h host_func" where
  "wabt_getBlockGasLimit H = \<lparr>hf_name = ''getBlockGasLimit'', hf_params = [], hf_results = [T_I64],
     hf_fn = (\<lambda>args. retI64 (eeiGetBlockGasLimit H))\<rparr>"

definition wabt_getTxGasPrice :: "'h HostInterface \<Rightarrow> 'h host_func" where
  "wabt_getTxGasPrice H = \<lparr>hf_name = ''getTxGasPrice'', hf_params = [T_I32], hf_results = [],
     hf_fn = (\<lambda>args. retNone (eeiGetTxGasPrice H (arg32 args 0)))\<rparr>"

definition wabt_log :: "'h HostInterface \<Rightarrow> 'h host_func" where
  "wabt_log H = \<lparr>hf_name = ''log'', hf_params = [T_I32, T_I32, T_I32, T_I32, T_I32, T_I32, T_I32], hf_results = [],
     hf_fn = (\<lambda>args. retNone (eeiLog H (arg32 args 0) (arg32 args 1) (arg32 args 2) (arg32 args 3)
       (arg32 args 4) (arg32 args 5) (arg32 args 6)))\<rparr>"

definition wabt_getBlockNumber :: "'h HostInterface \<Rightarrow> 'h host_func" where
  "wabt_getBlockNumber H = \<lparr>hf_name = ''getBlockNumber'', hf_params = [], hf_results = [T_I64],
     hf_fn = (\<lambda>args. retI64 (eeiGetBlockNumber H))\<rparr>"

definition wabt_getTxOrigin :: "'h HostInterface \<Rightarrow> 'h host_func" where
  "wabt_getTxOrigin H = \<lparr>hf_name = ''getTxOrigin'', hf_params = [T_I32], hf_results = [],
     hf_fn = (\<lambda>args. retNone (eeiGetTxOrigin H (arg32 args 0)))\<rparr>"

definition wabt_finish :: "'h HostInterface \<Rightarrow> 'h host_func" where
  "wabt_finish H = \<lparr>hf_name = ''finish'', hf_params = [T_I32, T_I32], hf_results = [],
     hf_fn = (\<lambda>args. retNone (eeiFinish (arg32 args 0) (arg32 args 1)))\<rparr>"

definition wabt_revert :: "'h HostInterface \<Rightarrow> 'h host_func" where
  "wabt_revert H = \<lparr>hf_name = ''revert'', hf_params = [T_I32, T_I32], hf_results = [],
     hf_fn = (\<lambda>args. retNone (eeiRevert (arg32 args 0) (arg32 args 1)))\<rparr>"

definition wabt_getReturnDataSize :: "'h HostInterface \<Rightarrow> 'h host_func" where
  "wabt_getReturnDataSize H = \<lparr>hf_name = ''getReturnDataSize'', hf_params = [], hf_results = [T_I32],
     hf_fn = (\<lambda>args. retI32 eeiGetReturnDataSize)\<rparr>"

definition wabt_returnDataCopy :: "'h HostInterface \<Rightarrow> 'h host_func" where
  "wabt_returnDataCopy H = \<lparr>hf_name = ''returnDataCopy'', hf_params = [T_I32, T_I32, T_I32], hf_results = [],
     hf_fn = (\<lambda>args. retNone (eeiReturnDataCopy (arg32 args 0) (arg32 args 1) (arg32 args 2)))\<rparr>"

definition wabt_selfDestruct :: "'h HostInterface \<Rightarrow> 'h host_func" where
  "wabt_selfDestruct H = \<lparr>hf_name = ''selfDestruct'', hf_params = [T_I32], hf_results = [],
     hf_fn = (\<lambda>args. retNone (eeiSelfDestruct H (arg32 args 0)))\<rparr>"

definition wabt_getBlockTimestamp :: "'h HostInterface \<Rightarrow> 'h host_func" where
  "wabt_getBlockTimestamp H = \<lparr>hf_name = ''getBlockTimestamp'', hf_params = [], hf_results = [T_I64],
     hf_fn = (\<lambda>args. retI64 (eeiGetBlockTimestamp H))\<rparr>"

definition wabt_module :: "'h HostInterface \<Rightarrow> 'h host_func list" where
  "wabt_module H =
    [wabt_useGas H, wabt_getAddress H, wabt_getExternalBalance H, wabt_getBlockHash H,
     wabt_call H, wabt_callDataCopy H, wabt_getCallDataSize H, wabt_callCode H,
     wabt_callDelegate H, wabt_callStatic H, wabt_storageStore H, wabt_storageLoad H,
     wabt_getCaller H, wabt_getCallValue H, wabt_codeCopy H, wabt_getCodeSize H,
     wabt_getBlockCoinbase H, wabt_create H, wabt_getBlockDifficulty H,
     wabt_externalCodeCopy H, wabt_getExternalCodeSize H, wabt_getGasLeft H,
     wabt_getBlockGasLimit H, wabt_getTxGasPrice H, wabt_log H, wabt_getBlockNumber H,
     wabt_getTxOrigin H, wabt_finish H, wabt_revert H, wabt_getReturnDataSize H,
     wabt_returnDataCopy H, wabt_selfDestruct H, wabt_getBlockTimestamp H]"

definition wabt_print32 :: "'h host_func" where
  "wabt_print32 = \<lparr>hf_name = ''print32'', hf_params = [T_I32], hf_results = [],
     hf_fn = (\<lambda>args. returnE [])\<rparr>"

definition wabt_print64 :: "'h host_func" where
  "wabt_print64 = \<lparr>hf_name = ''print64'', hf_params = [T_I64], hf_results = [],
     hf_fn = (\<lambda>args. returnE [])\<rparr>"

definition wabt_printMem :: "string \<Rightarrow> 'h host_func" where
  "wabt_printMem name = \<lparr>hf_name = name, hf_params = [T_I32, T_I32], hf_results = [],
     hf_fn = (\<lambda>args. retNone (debugPrintMem (arg32 args 0) (arg32 args 1)))\<rparr>"

definition wabt_printStorage :: "'h HostInterface \<Rightarrow> string \<Rightarrow> 'h host_func" where
  "wabt_printStorage H name = \<lparr>hf_name = name, hf_params = [T_I32], hf_results = [],
     hf_fn = (\<lambda>args. retNone (debugPrintStorage H (arg32 args 0)))\<rparr>"

definition wabt_debug_module :: "'h HostInterface \<Rightarrow> 'h host_func list" where
  "wabt_debug_module H =
    [wabt_print32, wabt_print64, wabt_printMem ''printMem'', wabt_printMem ''printMemHex'',
     wabt_printStorage H ''printStorage'', wabt_printStorage H ''printStorageHex'']"

definition host_sig :: "'h host_func \<Rightarrow> import_sig" where
  "host_sig f = (hf_name f, hf_params f, hf_results f)"

section \<open>Signatures\<close>

text \<open>What execute registers in the module ethereum, in the order of the source.\<close>

definition wabt_exports1 :: "import_sig list" where
  "wabt_exports1 =
    [(''useGas'', [T_I64], []),
     (''getAddress'', [T_I32], []),
     (''getExternalBalance'', [T_I32, T_I32], []),
     (''getBlockHash'', [T_I64, T_I32], [T_I32]),
     (''call'', [T_I64, T_I32, T_I32, T_I32, T_I32], [T_I32]),
     (''callDataCopy'', [T_I32, T_I32, T_I32], []),
     (''getCallDataSize'', [], [T_I32]),
     (''callCode'', [T_I64, T_I32, T_I32, T_I32, T_I32], [T_I32]),
     (''callDelegate'', [T_I64, T_I32, T_I32, T_I32], [T_I32]),
     (''callStatic'', [T_I64, T_I32, T_I32, T_I32], [T_I32]),
     (''storageStore'', [T_I32, T_I32], [])]"

definition wabt_exports2 :: "import_sig list" where
  "wabt_exports2 =
    [(''storageLoad'', [T_I32, T_I32], []),
     (''getCaller'', [T_I32], []),
     (''getCallValue'', [T_I32], []),
     (''codeCopy'', [T_I32, T_I32, T_I32], []),
     (''getCodeSize'', [], [T_I32]),
     (''getBlockCoinbase'', [T_I32], []),
     (''create'', [T_I32, T_I32, T_I32, T_I32], [T_I32]),
     (''create2'', [T_I32, T_I32, T_I32, T_I32, T_I32], [T_I32]),
     (''getBlockDifficulty'', [T_I32], []),
     (''externalCodeCopy'', [T_I32, T_I32, T_I32, T_I32], []),
     (''getExternalCodeSize'', [T_I32], [T_I32])]"

definition wabt_exports3 :: "import_sig list" where
  "wabt_exports3 =
    [(''getGasLeft'', [], [T_I64]),
     (''getBlockGasLimit'', [], [T_I64]),
     (''getTxGasPrice'', [T_I32], []),
     (''log'', [T_I32, T_I32, T_I32, T_I32, T_I32, T_I32, T_I32], []),
     (''getBlockNumber'', [], [T_I64]),
     (''getTxOrigin'', [T_I32], []),
     (''finish'', [T_I32, T_I32], []),
     (''revert'', [T_I32, T_I32], []),
     (''getReturnDataSize'', [], [T_I32]),
     (''returnDataCopy'', [T_I32, T_I32, T_I32], []),
     (''selfDestruct'', [T_I32], []),
     (''getBlockTimestamp'', [], [T_I64])]"

definition wabt_exports :: "import_sig list" where
  "wabt_exports = wabt_exports1 @ wabt_exports2 @ wabt_exports3"

text \<open>What verifyContract registers.\<close>

definition verify_exports1 :: "import_sig list" where
  "verify_exports1 =
    [(''useGas'', [T_I64], []),
     (''getAddress'', [T_I32], []),
     (''getExternalBalance'', [T_I32, T_I32], []),
     (''getBlockHash'', [T_I64, T_I32], [T_I32]),
     (''call'', [T_I64, T_I32, T_I32, T_I32, T_I32], [T_I32]),
     (''callDataCopy'', [T_I32, T_I32, T_I32], []),
     (''getCallDataSize'', [], [T_I32]),
     (''callCode'', [T_I64, T_I32, T_I32, T_I32, T_I32], [T_I32]),
     (''callDelegate'', [T_I64, T_I32, T_I32, T_I32], [T_I32]),
     (''callStatic'', [T_I64, T_I32, T_I32, T_I32], [T_I32]),
     (''storageStore'', [T_I32, T_I32], [])]"

definition verify_exports2 :: "import_sig list" where
  "verify_exports2 =
    [(''storageLoad'', [T_I32, T_I32], []),
     (''getCaller'', [T_I32], []),
     (''getCallValue'', [T_I32], []),
     (''codeCopy'', [T_I32, T_I32, T_I32], []),
     (''getCodeSize'', [], [T_I32]),
     (''getBlockCoinbase'', [T_I32], []),
     (''create'', [T_I32, T_I32, T_I32, T_I32], [T_I32]),
     (''getBlockDifficulty'', [T_I32], []),
     (''externalCodeCopy'', [T_I32, T_I32, T_I32, T_I32], []),
     (''getExternalCodeSize'', [T_I32], [T_I32]),
     (''getGasLeft'', [], [T_I64])]"

definition verify_exports3 :: "import_sig list" where
  "verify_exports3 =
    [(''getBlockGasLimit'', [], [T_I64]),
     (''getTxGasPrice'', [T_I32], []),
     (''log'', [T_I32, T_I32, T_I32, T_I32, T_I32, T_I32, T_I32], []),
     (''getBlockNumber'', [], [T_I64]),
     (''getTxOrigin'', [T_I32], []),
     (''finish'', [T_I32, T_I32], []),
     (''revert'', [T_I32, T_I32], []),
     (''getReturnDataSize'', [], [T_I32]),
     (''returnDataCopy'', [T_I32, T_I32, T_I32], []),
     (''selfDestruct'', [T_I32], []),
     (''getBlockTimestamp'', [], [T_I64])]"

definition verify_exports :: "import_sig list" where
  "verify_exports = verify_exports1 @ verify_exports2 @ verify_exports3"

section \<open>Loading and running\<close>

text \<open>What the engine asks about a loaded module; \<open>main_export\<close> is the kind of the export main.\<close>

datatype export_kind = FuncExport | OtherExport

record wasm_module =
  memory_count :: nat
  memory_export :: bool
  start_func :: "nat option"
  main_export :: "export_kind option"
  initial_memory :: "byte list"

definition validateModule :: "wasm_module option \<Rightarrow> hera_exception + wasm_module" where
  "validateModule loaded =
     (case loaded of
        None \<Rightarrow> Inl ContractValidationFailure
      | Some m \<Rightarrow>
          if memory_count m \<noteq> 1 then Inl ContractValidationFailure
          else if \<not> memory_export m then Inl ContractValidationFailure
          else if start_func m \<noteq> None then Inl ContractValidationFailure
          else (case main_export m of
                  None \<Rightarrow> Inl ContractValidationFailure
                | Some OtherExport \<Rightarrow> Inl ContractValidationFailure
                | Some FuncExport \<Rightarrow> Inr m))"

text \<open>
  RunExport either comes back, with or without a trap, or a host function throws. EndExecution
  is how a contract ends and counts as success; the other exceptions leave the engine.
\<close>

definition WabtEngine_execute ::
  "(import_sig list \<Rightarrow> byte list \<Rightarrow> wasm_module option)
   \<Rightarrow> (wasm_module \<Rightarrow> ('h, bool) eei)
   \<Rightarrow> 'h HostContext \<Rightarrow> byte list \<Rightarrow> byte list \<Rightarrow> evmc_message \<Rightarrow> bool
   \<Rightarrow> (hera_exception + ExecutionResult) \<times> 'h HostContext" where
  "WabtEngine_execute load run ctx code state_code msg meter =
     (case mkEthereumInterface ctx state_code msg meter [] of
        Inl e \<Rightarrow> (Inl e, ctx)
      | Inr i \<Rightarrow>
          (case validateModule (load wabt_exports code) of
             Inl e \<Rightarrow> (Inl e, ctx)
           | Inr m \<Rightarrow>
               (case run m (i\<lparr>wasm_memory := initial_memory m\<rparr>) of
                  (Inr ok, t) \<Rightarrow> (if ok then Inr (m_result t) else Inl VMTrap, m_host t)
                | (Inl EndExecution, t) \<Rightarrow> (Inr (m_result t), m_host t)
                | (Inl e, t) \<Rightarrow> (Inl e, m_host t))))"

definition WabtEngine_verifyContract ::
  "(import_sig list \<Rightarrow> byte list \<Rightarrow> wasm_module option) \<Rightarrow> byte list \<Rightarrow> hera_exception + unit" where
  "WabtEngine_verifyContract load code =
     (case validateModule (load verify_exports code) of Inl e \<Rightarrow> Inl e | Inr m \<Rightarrow> Inr ())"

end
