(* ===== verification/Eei_Safety.thy ===== *)
theory Eei_Safety
  imports Wabt
begin

text \<open>
  What every host function keeps, whatever arguments a contract passes: the message and the
  code stay, the memory keeps its size, metered gas stays between zero and what it was, the
  world is left alone in static mode, and no access outside the memory and no signed
  overflow happens. The invariant is shown for each primitive and composed by the rules of
  theory Prelude; the operations that call back into the host rest on the laws of the locale
  evmc\_host. The steps of a contract are then a transition relation whose reachable states
  satisfy the invariant.
\<close>

section \<open>The invariant\<close>

definition iface_inv ::
  "('h \<Rightarrow> 'w) \<Rightarrow> evmc_message \<Rightarrow> byte list \<Rightarrow> nat \<Rightarrow> 'w \<Rightarrow> int \<Rightarrow> 'h EthereumInterface \<Rightarrow> bool" where
  "iface_inv world m c n w g s \<longleftrightarrow>
     m_msg s = m \<and> m_code s = c \<and> m_meterGas s
   \<and> length (wasm_memory s) = n \<and> n \<le> 2 ^ 32
   \<and> 0 \<le> gasLeft (m_result s) \<and> gasLeft (m_result s) \<le> g
   \<and> (is_static (msg_flags m) \<longrightarrow> world (host_state (m_host s)) = w)"

abbreviation no_ub :: "('s, hera_exception, 'a) eff \<Rightarrow> ('s \<Rightarrow> bool) \<Rightarrow> bool" where
  "no_ub m I \<equiv> inv_ok I {UndefinedBehaviour} m"

lemma iface_inv_bound: "iface_inv world m c n w g s \<Longrightarrow> mem_bound s"
  by (simp add: iface_inv_def mem_bound_def)

lemma iface_inv_mono: "iface_inv world m c n w g s \<Longrightarrow> g \<le> g' \<Longrightarrow> iface_inv world m c n w g' s"
  by (simp add: iface_inv_def)

section \<open>Gas\<close>

lemma takeInterfaceGas_eq:
  assumes "m_meterGas s" and "0 \<le> gasLeft (m_result s)" and "gasLeft (m_result s) \<le> int64_max" and "0 \<le> x"
  shows "takeInterfaceGas x s =
    (if x \<le> gasLeft (m_result s)
     then (Inr (), s\<lparr>m_result := (m_result s)\<lparr>gasLeft := gasLeft (m_result s) - x\<rparr>\<rparr>)
     else (Inl OutOfGas, s))"
  using assms
  by (simp add: takeInterfaceGas_def takeGas_def readGas_def writeGas_def checked64_def int64_max_def eff_simps)

lemma takeInterfaceGas_hoare:
  assumes "0 \<le> x" and "g \<le> int64_max"
  shows "hoare (iface_inv world m c n w g) (takeInterfaceGas x)
    (\<lambda>_. iface_inv world m c n w (g - x)) (\<lambda>e t. iface_inv world m c n w g t \<and> e \<notin> {UndefinedBehaviour})"
  unfolding hoare_def
proof (intro allI impI)
  fix s assume i: "iface_inv world m c n w g s"
  then show "case takeInterfaceGas x s of
      (Inl e, t) \<Rightarrow> iface_inv world m c n w g t \<and> e \<notin> {UndefinedBehaviour}
    | (Inr _, t) \<Rightarrow> iface_inv world m c n w (g - x) t"
    using assms takeInterfaceGas_eq [of s x] by (auto simp: iface_inv_def)
qed

lemma inv_takeInterfaceGas [hoare_intros]:
  "0 \<le> x \<Longrightarrow> g \<le> int64_max \<Longrightarrow> no_ub (takeInterfaceGas x) (iface_inv world m c n w g)"
  unfolding inv_ok_def
  by (rule hoare_conseq [OF takeInterfaceGas_hoare [of x g]]) (auto intro: iface_inv_mono)

lemma inv_takeGas [hoare_intros]:
  "0 \<le> x \<Longrightarrow> g \<le> int64_max \<Longrightarrow> no_ub (takeGas x) (iface_inv world m c n w g)"
  by (rule inv_okI)
     (auto simp: takeGas_def readGas_def writeGas_def checked64_def int64_max_def eff_simps iface_inv_def
        split: if_splits)

lemma inv_readGas [hoare_intros]: "inv_ok I bad readGas"
  by (simp add: readGas_def inv_ok_get)

lemma gas_costs_nonneg [simp]:
  "0 \<le> gs_storageLoad" "0 \<le> gs_storageStoreChange" "gs_storageStoreChange \<le> gs_storageStoreCreate"
  "0 \<le> gs_create" "0 \<le> gs_call" "0 \<le> gs_blockhash" "0 \<le> gs_balance" "0 \<le> gs_base" "0 \<le> gs_verylow"
  "0 \<le> gs_extcode" "0 \<le> gs_selfdestruct" "0 \<le> gs_valuetransfer" "0 \<le> gs_callNewAccount"
  "0 \<le> logCost len k"
  by (simp_all add: gas_schedule logCost_def)

lemma sdiv_nonneg: "0 \<le> (a :: int) \<Longrightarrow> 0 < b \<Longrightarrow> a sdiv b = a div b"
  by (cases "a = 0") (simp_all add: signed_divide_int_def)

lemma inv_safeChargeDataCopy [hoare_intros]:
  "0 \<le> b \<Longrightarrow> g \<le> int64_max \<Longrightarrow> no_ub (safeChargeDataCopy len b) (iface_inv world m c n w g)"
  unfolding safeChargeDataCopy_def
  by (intro hoare_intros) (simp_all add: gs_copy_def sdiv_nonneg pos_imp_zdiv_nonneg_iff)

section \<open>Memory\<close>

lemma inv_put:
  "store_ok off (length bs) s \<Longrightarrow> iface_inv world m c n w g s \<Longrightarrow> iface_inv world m c n w g (put off bs s)"
  by (simp add: iface_inv_def put_def store_ok_def in_memory_def)

lemma inv_loads [hoare_intros]:
  "no_ub (loadBytes32 off) (iface_inv world m c n w g)"
  "no_ub (loadAddress off) (iface_inv world m c n w g)"
  "no_ub (loadUint256 off) (iface_inv world m c n w g)"
  "no_ub (loadUint128 off) (iface_inv world m c n w g)"
  by (rule inv_okI; simp add: iface_inv_bound loadBytes32_eq loadAddress_eq loadUint256_eq
      loadUint128_eq split: if_splits)+

lemma inv_stores [hoare_intros]:
  "no_ub (storeBytes32 v off) (iface_inv world m c n w g)"
  "no_ub (storeAddress a off) (iface_inv world m c n w g)"
  "no_ub (storeUint256 v off) (iface_inv world m c n w g)"
  "no_ub (storeUint128 v off) (iface_inv world m c n w g)"
  by (rule inv_okI; auto simp: storeBytes32_eq storeAddress_eq storeUint256_eq storeUint128_eq
      split: if_splits intro!: inv_put)+

lemma inv_storeMemoryView [hoare_intros]:
  "no_ub (storeMemoryView src so off len) (iface_inv world m c n w g)"
  by (rule inv_okI) (auto simp: storeMemoryView_eq iface_inv_def split: if_splits)

lemma inv_loadTopic [hoare_intros]: "no_ub (loadTopic b off) (iface_inv world m c n w g)"
  unfolding loadTopic_def by (intro hoare_intros)

lemma inv_ensureSource [hoare_intros]: "no_ub (ensureSourceMemoryBounds off len) (iface_inv world m c n w g)"
  by (rule inv_okI) (auto simp: ensureSourceMemoryBounds_eq split: if_splits)

lemma unat_u32_le: "unat (x :: u32) \<le> 2 ^ 32"
  using unsigned_less [of x, where ?'a = nat] by simp

lemma inv_loadMemoryInto [hoare_intros]:
  "no_ub (loadMemoryInto off (replicate (unat len) 0) (unat (len :: u32))) (iface_inv world m c n w g)"
  by (rule inv_okI)
     (use unat_u32_le [of len] in \<open>auto simp: iface_inv_bound loadMemoryInto_eq split: if_splits\<close>)

lemma inv_loadInput [hoare_intros]: "no_ub (loadInput off len) (iface_inv world m c n w g)"
  unfolding loadInput_def by (intro hoare_intros)

section \<open>The host\<close>

lemma inv_reads [hoare_intros]:
  "inv_ok I bad (hostRead f)" "inv_ok I bad (readMsg h)"
  by (simp_all add: hostRead_def readMsg_def inv_ok_get)

lemma inv_hostTxContext [hoare_intros]: "no_ub (hostTxContext H) (iface_inv world m c n w g)"
  by (rule inv_okI)
     (auto simp: hostTxContext_def get_tx_context_def iface_inv_def Let_def split: prod.splits if_splits)

lemma inv_setters [hoare_intros]:
  "no_ub (setLastReturnData d) (iface_inv world m c n w g)"
  "no_ub (setReturnValue d) (iface_inv world m c n w g)"
  "no_ub (setIsRevert b) (iface_inv world m c n w g)"
  unfolding setLastReturnData_def setReturnValue_def setIsRevert_def
  by (rule inv_ok_modify; simp add: iface_inv_def)+

text \<open>A write to the host comes after the check for static mode.\<close>

lemma inv_hostWrite: "\<not> is_static (msg_flags m) \<Longrightarrow> no_ub (hostWrite f) (iface_inv world m c n w g)"
  unfolding hostWrite_def by (rule inv_ok_modify) (simp add: iface_inv_def)

lemma inv_notStatic:
  assumes "\<not> is_static (msg_flags m) \<Longrightarrow> no_ub k (iface_inv world m c n w g)"
  shows "no_ub (seqE ensureNotStatic k) (iface_inv world m c n w g)"
proof (cases "is_static (msg_flags m)")
  case True
  then show ?thesis
    by (intro inv_okI) (auto simp: ensureNotStatic_def readMsg_def eff_simps iface_inv_def)
next
  case False
  then show ?thesis
    unfolding ensureNotStatic_def by (intro hoare_intros assms) simp
qed

lemma inv_paid_notStatic:
  "0 \<le> x \<Longrightarrow> g \<le> int64_max \<Longrightarrow> (\<not> is_static (msg_flags m) \<Longrightarrow> no_ub k (iface_inv world m c n w g)) \<Longrightarrow>
   no_ub (seqE (takeInterfaceGas x) (seqE ensureNotStatic k)) (iface_inv world m c n w g)"
  by (intro inv_ok_seq inv_takeInterfaceGas inv_notStatic)

lemma inv_ensureNotStatic: "no_ub ensureNotStatic I"
  unfolding ensureNotStatic_def by (intro hoare_intros) simp

lemma inv_enoughSenderBalanceFor [hoare_intros]:
  "no_ub (enoughSenderBalanceFor H value) (iface_inv world m c n w g)"
  unfolding enoughSenderBalanceFor_def safeLoadUint128_def by (intro hoare_intros) simp_all

section \<open>Operations without a call\<close>

lemmas eei_simple_defs =
  eeiGetGasLeft_def eeiGetAddress_def eeiGetExternalBalance_def eeiGetBlockHash_def
  eeiGetCallDataSize_def eeiCallDataCopy_def eeiGetCaller_def eeiGetCallValue_def
  eeiCodeCopy_def eeiGetCodeSize_def eeiExternalCodeCopy_def eeiGetExternalCodeSize_def
  eeiGetBlockCoinbase_def eeiGetBlockDifficulty_def eeiGetBlockGasLimit_def
  eeiGetTxGasPrice_def eeiGetBlockNumber_def eeiGetBlockTimestamp_def eeiGetTxOrigin_def
  eeiStorageLoad_def eeiRevertOrFinish_def eeiFinish_def eeiRevert_def
  eeiGetReturnDataSize_def eeiReturnDataCopy_def

lemma inv_simple [hoare_intros]:
  assumes [simp]: "g \<le> int64_max"
  shows
  "no_ub eeiGetGasLeft (iface_inv world m c n w g)"
  "no_ub (eeiGetAddress a1) (iface_inv world m c n w g)"
  "no_ub (eeiGetExternalBalance H a1 a2) (iface_inv world m c n w g)"
  "no_ub (eeiGetBlockHash H num a2) (iface_inv world m c n w g)"
  "no_ub eeiGetCallDataSize (iface_inv world m c n w g)"
  "no_ub (eeiCallDataCopy a1 a2 a3) (iface_inv world m c n w g)"
  "no_ub (eeiGetCaller a1) (iface_inv world m c n w g)"
  "no_ub (eeiGetCallValue a1) (iface_inv world m c n w g)"
  "no_ub (eeiCodeCopy a1 a2 a3) (iface_inv world m c n w g)"
  "no_ub eeiGetCodeSize (iface_inv world m c n w g)"
  "no_ub (eeiExternalCodeCopy H a1 a2 a3 a4) (iface_inv world m c n w g)"
  "no_ub (eeiGetExternalCodeSize H a1) (iface_inv world m c n w g)"
  "no_ub (eeiGetBlockCoinbase H a1) (iface_inv world m c n w g)"
  "no_ub (eeiGetBlockDifficulty H a1) (iface_inv world m c n w g)"
  "no_ub (eeiGetBlockGasLimit H) (iface_inv world m c n w g)"
  "no_ub (eeiGetTxGasPrice H a1) (iface_inv world m c n w g)"
  "no_ub (eeiGetBlockNumber H) (iface_inv world m c n w g)"
  "no_ub (eeiGetBlockTimestamp H) (iface_inv world m c n w g)"
  "no_ub (eeiGetTxOrigin H a1) (iface_inv world m c n w g)"
  "no_ub (eeiStorageLoad H a1 a2) (iface_inv world m c n w g)"
  "no_ub (eeiFinish a1 a2) (iface_inv world m c n w g)"
  "no_ub (eeiRevert a1 a2) (iface_inv world m c n w g)"
  "no_ub eeiGetReturnDataSize (iface_inv world m c n w g)"
  "no_ub (eeiReturnDataCopy a1 a2 a3) (iface_inv world m c n w g)"
  unfolding eei_simple_defs by (intro hoare_intros; simp)+

lemma inv_eeiUseGas [hoare_intros]:
  assumes "g \<le> int64_max"
  shows "no_ub (eeiUseGas x) (iface_inv world m c n w g)"
proof (cases "0 \<le> x")
  case True
  with assms show ?thesis unfolding eeiUseGas_def by (intro hoare_intros) simp_all
next
  case False
  then show ?thesis by (intro inv_okI) (auto simp: eeiUseGas_def eff_simps)
qed

lemma inv_writers [hoare_intros]:
  assumes [simp]: "g \<le> int64_max"
  shows "no_ub (eeiLog H o1 len k t1 t2 t3 t4) (iface_inv world m c n w g)"
    and "no_ub (eeiStorageStore H a1 a2) (iface_inv world m c n w g)"
    and "no_ub (eeiSelfDestruct H a1) (iface_inv world m c n w g)"
  unfolding eeiLog_def eeiStorageStore_def eeiSelfDestruct_def
  by (rule inv_paid_notStatic, simp, simp, intro hoare_intros inv_hostWrite; simp)+

lemma debug_reads:
  "no_ub (debugPrintMem a1 a2) (iface_inv world m c n w g)"
  "no_ub (debugPrintStorage H a1) (iface_inv world m c n w g)"
  subgoal
    by (rule inv_okI)
       (auto simp: debugPrintMem_def eff_simps memorySize_def readAll_get [where f = "\<lambda>i. i"] split: if_splits)
  subgoal unfolding debugPrintStorage_def by (intro hoare_intros)
  done

section \<open>Calls\<close>

definition stipend :: "uint256be \<Rightarrow> int" where
  "stipend value = (if is_zero value then 0 else gs_valueStipend)"

lemma maxCallGas_bounds:
  assumes "0 \<le> g"
  shows "0 \<le> maxCallGas g \<and> maxCallGas g \<le> g"
proof -
  have "maxCallGas g = g - g div 64" using assms by (simp add: maxCallGas_def sdiv_nonneg)
  then show ?thesis using assms by presburger
qed

lemma returnGas_eq:
  assumes "0 \<le> gasLeft (m_result s)" and "0 \<le> x" and "gasLeft (m_result s) + x \<le> int64_max"
  shows "returnGas x s = (Inr (), s\<lparr>m_result := (m_result s)\<lparr>gasLeft := gasLeft (m_result s) + x\<rparr>\<rparr>)"
  using assms by (simp add: returnGas_def readGas_def writeGas_def checked64_def int64_max_def eff_simps)

lemma hostCall_returns: "\<exists>r t. hostCall H msg s = (Inr r, t)"
  by (cases "host_call H (host_state (m_host s)) msg") (simp add: hostCall_def)

text \<open>The flags and the value of the message a call sends.\<close>

definition call_ok :: "evmc_message \<Rightarrow> EEICallKind \<Rightarrow> u32 \<Rightarrow> uint256be \<Rightarrow> bool" where
  "call_ok m kind fl value \<longleftrightarrow>
     (is_static (msg_flags m) \<longrightarrow> is_static fl)
   \<and> (kind = CallDelegate \<longrightarrow> value = msg_value m) \<and> (kind = CallStatic \<longrightarrow> value = 0 \<and> is_static fl)"

lemma is_static_simps [simp]:
  "is_static (fl AND EVMC_STATIC) = is_static fl" "is_static (fl OR EVMC_STATIC)" "\<not> is_static 0"
  "is_static EVMC_STATIC"
  by (simp_all add: is_static_def EVMC_STATIC_def and.assoc bit.conj_disj_distrib2)

lemma callParties_hoare:
  "hoare (iface_inv world m c n w g) (callParties kind off)
     (\<lambda>p s. iface_inv world m c n w g s \<and> call_ok m kind (fst (snd p)) (snd (snd (snd p))))
     (\<lambda>e t. iface_inv world m c n w g t \<and> e \<notin> {UndefinedBehaviour})"
proof (rule hoareI)
  fix s e t
  assume i: "iface_inv world m c n w g s" and e: "callParties kind off s = (Inl e, t)"
  show "iface_inv world m c n w g t \<and> e \<notin> {UndefinedBehaviour}"
    using i e iface_inv_bound [OF i]
    by (cases kind)
       (auto simp: callParties_def readMsg_def eff_simps ensureNotStatic_def loadUint128_eq split: if_splits)
next
  fix s p t
  assume i: "iface_inv world m c n w g s" and e: "callParties kind off s = (Inr p, t)"
  show "iface_inv world m c n w g t \<and> call_ok m kind (fst (snd p)) (snd (snd (snd p)))"
    using i e iface_inv_bound [OF i]
    by (cases kind)
       (auto simp: callParties_def readMsg_def eff_simps ensureNotStatic_def loadUint128_eq call_ok_def
          iface_inv_def split: if_splits)
qed

text \<open>What the gas bound loses by the charges for a transfer.\<close>

definition transfer_charge :: "EEICallKind \<Rightarrow> uint256be \<Rightarrow> int" where
  "transfer_charge kind value =
     (if (kind = Call \<or> kind = CallCode) \<and> \<not> is_zero value then gs_valuetransfer else 0)"

lemma chargeTransfer_hoare:
  assumes "g \<le> int64_max"
  shows "hoare (iface_inv world m c n w g) (chargeTransfer H kind dest value)
     (\<lambda>go s. iface_inv world m c n w (g - transfer_charge kind value) s)
     (\<lambda>e t. iface_inv world m c n w g t \<and> e \<notin> {UndefinedBehaviour})"
proof (cases "(kind = Call \<or> kind = CallCode) \<and> \<not> is_zero value")
  case True
  let ?g = "g - gs_valuetransfer"
  have "no_ub (bindE (enoughSenderBalanceFor H value) (\<lambda>enough.
            if \<not> enough then returnE False
            else bindE (hostRead (\<lambda>h. account_exists H h dest)) (\<lambda>ex.
                 seqE (whenE (kind = Call \<and> \<not> ex) (takeInterfaceGas gs_callNewAccount))
                      (returnE True)))) (iface_inv world m c n w ?g)"
    using assms by (intro hoare_intros) (simp_all add: gas_schedule)
  then have "hoare (iface_inv world m c n w g) (chargeTransfer H kind dest value)
     (\<lambda>_. iface_inv world m c n w ?g) (\<lambda>e t. iface_inv world m c n w g t \<and> e \<notin> {UndefinedBehaviour})"
    unfolding inv_ok_def chargeTransfer_def if_P [OF True]
    by (intro hoare_seq [OF takeInterfaceGas_hoare])
       (use assms in \<open>auto simp: gas_schedule elim!: hoare_conseq intro: iface_inv_mono\<close>)
  then show ?thesis using True by (simp add: transfer_charge_def)
next
  case False
  then show ?thesis
    unfolding chargeTransfer_def if_not_P [OF False] transfer_charge_def
    by (intro hoare_return) simp
qed

section \<open>Host functions\<close>

lemma inv_rets:
  "inv_ok I bad p \<Longrightarrow> inv_ok I bad (retNone p)"
  "inv_ok I bad q \<Longrightarrow> inv_ok I bad (retI32 q)"
  "inv_ok I bad r \<Longrightarrow> inv_ok I bad (retI64 r)"
  unfolding retNone_def retI32_def retI64_def by (intro hoare_intros; assumption)+

lemmas wabt_func_defs =
  wabt_useGas_def wabt_getAddress_def wabt_getExternalBalance_def wabt_getBlockHash_def
  wabt_call_def wabt_callDataCopy_def wabt_getCallDataSize_def wabt_callCode_def
  wabt_callDelegate_def wabt_callStatic_def wabt_storageStore_def wabt_storageLoad_def
  wabt_getCaller_def wabt_getCallValue_def wabt_codeCopy_def wabt_getCodeSize_def
  wabt_getBlockCoinbase_def wabt_create_def wabt_getBlockDifficulty_def
  wabt_externalCodeCopy_def wabt_getExternalCodeSize_def wabt_getGasLeft_def
  wabt_getBlockGasLimit_def wabt_getTxGasPrice_def wabt_log_def wabt_getBlockNumber_def
  wabt_getTxOrigin_def wabt_finish_def wabt_revert_def wabt_getReturnDataSize_def
  wabt_returnDataCopy_def wabt_selfDestruct_def wabt_getBlockTimestamp_def
  wabt_print32_def wabt_print64_def wabt_printMem_def wabt_printStorage_def

text \<open>How far a call can push the gas above what it was.\<close>

definition call_gain :: "evmc_message \<Rightarrow> EEICallKind \<Rightarrow> int" where
  "call_gain m kind = (if kind = CallDelegate \<and> \<not> is_zero (msg_value m) then gs_valueStipend - gs_call else 0)"

lemma call_gain_nonneg [simp]: "0 \<le> call_gain m kind"
  by (simp add: call_gain_def gas_schedule)

lemma call_gain_covers:
  "call_ok m kind fl value \<Longrightarrow> stipend value - gs_call - transfer_charge kind value \<le> call_gain m kind"
  by (cases kind)
     (auto simp: call_ok_def call_gain_def stipend_def transfer_charge_def is_zero_def gas_schedule)

definition op_gain :: "evmc_message \<Rightarrow> string \<Rightarrow> int" where
  "op_gain m name = (if name = ''callDelegate'' then call_gain m CallDelegate else 0)"

lemma op_gain_nonneg [simp]: "0 \<le> op_gain m name"
  by (simp add: op_gain_def)

lemma no_ub_hoare:
  "no_ub p (iface_inv world m c n w g) \<Longrightarrow> g \<le> g' \<Longrightarrow>
   hoare (iface_inv world m c n w g) p (\<lambda>_. iface_inv world m c n w g)
     (\<lambda>e t. iface_inv world m c n w g' t \<and> e \<notin> {UndefinedBehaviour})"
  unfolding inv_ok_def by (erule hoare_conseq) (auto intro: iface_inv_mono)

lemma hoare_pure: "(C \<Longrightarrow> hoare P k Q E) \<Longrightarrow> hoare (\<lambda>s. P s \<and> C) k Q E"
  by (auto simp: hoare_def)

lemma hoare_parties:
  "(\<And>k fl a v. call_ok m kind fl v \<Longrightarrow> hoare P (f k fl a v) Q E) \<Longrightarrow>
   hoare (\<lambda>s. P s \<and> call_ok m kind (fst (snd p)) (snd (snd (snd p))))
     (case p of (k, fl, a, v) \<Rightarrow> f k fl a v) Q E"
  by (cases p) (simp add: hoare_pure)

context evmc_host
begin

text \<open>
  Forwarding \<open>fwd\<close> units of gas and taking back what the host returns leaves at most the gas
  there was before plus the stipend of the message.
\<close>

lemma forward_step:
  assumes i: "iface_inv world m c n w b s"
    and st: "is_static (msg_flags m) \<longrightarrow> is_static (msg_flags msg)"
    and g: "0 \<le> fwd" "fwd \<le> gasLeft (m_result s)" "msg_gas msg = fwd + x" "0 \<le> x" "b + x \<le> int64_max"
    and r: "hostCall H msg (s\<lparr>m_result := (m_result s)\<lparr>gasLeft := gasLeft (m_result s) - fwd\<rparr>\<rparr>) = (Inr r, t)"
  shows "0 \<le> gas_left r" and "0 \<le> gasLeft (m_result t)" and "gasLeft (m_result t) + gas_left r \<le> int64_max"
    and "iface_inv world m c n w (b + x)
           (t\<lparr>m_result := (m_result t)\<lparr>gasLeft := gasLeft (m_result t) + gas_left r\<rparr>\<rparr>)"
    and "iface_inv world m c n w b t"
proof -
  let ?h = "host_state (m_host s)"
  have gas: "0 \<le> gas_left (fst (host_call H ?h msg))" "gas_left (fst (host_call H ?h msg)) \<le> fwd + x"
    using call_gas [of msg ?h] g by auto
  have stat: "is_static (msg_flags m) \<Longrightarrow> world (snd (host_call H ?h msg)) = world ?h"
    using st call_static [of msg ?h] by blast
  have rt: "r = fst (host_call H ?h msg)"
    "t = s\<lparr>m_result := (m_result s)\<lparr>gasLeft := gasLeft (m_result s) - fwd\<rparr>,
           m_host := (m_host s)\<lparr>host_state := snd (host_call H ?h msg)\<rparr>\<rparr>"
    using r by (auto simp: hostCall_def Let_def split: prod.splits)
  show "0 \<le> gas_left r" and "0 \<le> gasLeft (m_result t)" and "gasLeft (m_result t) + gas_left r \<le> int64_max"
    and "iface_inv world m c n w (b + x)
           (t\<lparr>m_result := (m_result t)\<lparr>gasLeft := gasLeft (m_result t) + gas_left r\<rparr>\<rparr>)"
    and "iface_inv world m c n w b t"
    using i gas stat g by (auto simp: rt iface_inv_def)
qed

lemma forwardCall_hoare:
  assumes st: "\<And>g. is_static (msg_flags m) \<longrightarrow> is_static (msg_flags (mk g))"
    and mk: "\<And>g. msg_gas (mk g) = g" and gas: "0 \<le> gas" and b: "b + stipend value \<le> int64_max"
  shows "hoare (iface_inv world m c n w b) (forwardCall H gas value mk)
     (\<lambda>_. iface_inv world m c n w (b + stipend value))
     (\<lambda>e t. iface_inv world m c n w (b + stipend value) t \<and> e \<notin> {UndefinedBehaviour})"
  unfolding hoare_def
proof (intro allI impI)
  fix s assume i: "iface_inv world m c n w b s"
  let ?left = "gasLeft (m_result s)"
  let ?fwd = "min gas (maxCallGas ?left)"
  let ?s1 = "s\<lparr>m_result := (m_result s)\<lparr>gasLeft := ?left - ?fwd\<rparr>\<rparr>"
  let ?msg = "mk (?fwd + stipend value)"
  have stip: "0 \<le> stipend value" by (simp add: stipend_def gas_schedule)
  have left: "0 \<le> ?left" "?left \<le> b" "b \<le> int64_max" "m_meterGas s"
    using i b stip by (simp_all add: iface_inv_def)
  have fwd: "0 \<le> ?fwd" "?fwd \<le> ?left" using maxCallGas_bounds [OF left(1)] gas by auto
  have take: "takeInterfaceGas ?fwd s = (Inr (), ?s1)"
    using left fwd takeInterfaceGas_eq [OF left(4,1) _ fwd(1)] by simp
  have stipok: "(if is_zero value then returnE ?fwd else checked64 (?fwd + gs_valueStipend)) ?s1
      = (Inr (?fwd + stipend value), ?s1)"
    using fwd left b stip
    by (auto simp: stipend_def checked64_def returnE_def int64_max_def gas_schedule split: if_splits)
  obtain r t where r: "hostCall H ?msg ?s1 = (Inr r, t)" using hostCall_returns by blast
  note step = forward_step [OF i st fwd mk stip b r]
  let ?d = "case output_data r of Some d \<Rightarrow> d | None \<Rightarrow> []"
  have "forwardCall H gas value mk s =
      (Inr (callStatus (status_code r)),
       t\<lparr>m_result := (m_result t)\<lparr>gasLeft := gasLeft (m_result t) + gas_left r\<rparr>, m_lastReturnData := ?d\<rparr>)"
    using step(1-3) take stipok r
    by (simp add: forwardCall_def seqE_def bindE_def readGas_def getE_def Let_def setLastReturnData_def
        modifyE_def returnGas_eq returnE_def)
  then show "case forwardCall H gas value mk s of
      (Inl e, t) \<Rightarrow> iface_inv world m c n w (b + stipend value) t \<and> e \<notin> {UndefinedBehaviour}
    | (Inr x, t) \<Rightarrow> iface_inv world m c n w (b + stipend value) t"
    using step(4) by (simp add: iface_inv_def)
qed

lemma call_tail:
  assumes ok: "call_ok m kind fl value" and gas: "0 \<le> gas" and g': "g + call_gain m kind \<le> int64_max"
    and mk: "\<And>input g. msg_gas (mk input g) = g" "\<And>input g. msg_flags (mk input g) = fl"
  shows "hoare (iface_inv world m c n w g)
     (bindE (loadInput off len) (\<lambda>input.
      seqE (takeInterfaceGas gs_call)
      (if 1024 \<le> depth then returnE 1
       else bindE (chargeTransfer H kind dest value) (\<lambda>go.
            if \<not> go then returnE 1 else forwardCall H gas value (mk input)))))
     (\<lambda>_. iface_inv world m c n w (g + call_gain m kind))
     (\<lambda>e t. iface_inv world m c n w (g + call_gain m kind) t \<and> e \<notin> {UndefinedBehaviour})"
    (is "hoare _ _ ?Q ?E")
proof -
  let ?b = "g - gs_call - transfer_charge kind value"
  have cov: "?b + stipend value \<le> g + call_gain m kind" using call_gain_covers [OF ok] by simp
  have pos: "0 \<le> stipend value" "0 \<le> transfer_charge kind value" "0 \<le> gs_call"
    by (simp_all add: stipend_def transfer_charge_def gas_schedule)
  have bound: "g \<le> int64_max" "?b + stipend value \<le> int64_max" "g - gs_call \<le> int64_max"
    using g' cov pos call_gain_nonneg [of m kind] by linarith+
  have up: "g - gs_call \<le> g + call_gain m kind" "g \<le> g + call_gain m kind"
    "?b \<le> g + call_gain m kind"
    using pos call_gain_nonneg [of m kind] by linarith+
  have fwd: "hoare (iface_inv world m c n w ?b) (forwardCall H gas value (mk inp)) ?Q ?E" for inp
    by (rule hoare_conseq [OF forwardCall_hoare [of m "mk inp" gas "?b" "value"]])
       (use ok mk gas bound cov in \<open>auto simp: call_ok_def intro: iface_inv_mono [OF _ cov]\<close>)
  have charge: "hoare (iface_inv world m c n w (g - gs_call)) (chargeTransfer H kind dest value)
     (\<lambda>_. iface_inv world m c n w ?b) ?E"
    by (rule hoare_conseq [OF chargeTransfer_hoare [OF bound(3)]])
       (blast intro: iface_inv_mono [OF _ up(1)])+
  have take: "hoare (iface_inv world m c n w g) (takeInterfaceGas gs_call)
     (\<lambda>_. iface_inv world m c n w (g - gs_call)) ?E"
    by (rule hoare_conseq [OF takeInterfaceGas_hoare [OF pos(3) bound(1)]])
       (blast intro: iface_inv_mono [OF _ up(2)])+
  show ?thesis
    by (intro hoare_bind [OF no_ub_hoare [OF inv_loadInput]] hoare_seq [OF take] hoare_if
          hoare_bind [OF charge] fwd hoare_return)
       (blast intro: up iface_inv_mono [OF _ up(1)] iface_inv_mono [OF _ up(3)])+
qed

lemma eeiCall_hoare:
  assumes "g + call_gain m kind \<le> int64_max"
  shows "hoare (iface_inv world m c n w g) (eeiCall H kind gas aoff voff doff dlen)
     (\<lambda>_. iface_inv world m c n w (g + call_gain m kind))
     (\<lambda>e t. iface_inv world m c n w (g + call_gain m kind) t \<and> e \<notin> {UndefinedBehaviour})"
    (is "hoare _ _ ?Q ?E")
proof (cases "0 \<le> gas")
  case True
  have parties: "hoare (iface_inv world m c n w g) (callParties kind voff)
     (\<lambda>p s. iface_inv world m c n w g s \<and> call_ok m kind (fst (snd p)) (snd (snd (snd p)))) ?E"
    by (rule hoare_conseq [OF callParties_hoare [of world m c n w g]]) (auto elim!: iface_inv_mono)
  show ?thesis
    unfolding eeiCall_def
    by (intro hoare_seq [OF no_ub_hoare [OF inv_ok_ensure]] hoare_bind [OF no_ub_hoare [OF inv_loads(2)]]
          hoare_bind [OF no_ub_hoare [OF inv_reads(2)]] hoare_bind [OF parties] hoare_parties
          call_tail [OF _ True assms]) (assumption | simp)+
next
  case False
  then show ?thesis
    by (intro hoareI) (auto simp: eeiCall_def eff_simps elim!: iface_inv_mono)
qed

lemma finishCreate_inv:
  assumes "0 \<le> gas_left r" "0 \<le> gasLeft (m_result t)" "gasLeft (m_result t) + gas_left r \<le> int64_max"
    and "iface_inv world m c n w g (t\<lparr>m_result := (m_result t)\<lparr>gasLeft := gasLeft (m_result t) + gas_left r\<rparr>\<rparr>)"
  shows "iface_inv world m c n w g (snd (finishCreate r roff t))"
    and "fst (finishCreate r roff t) \<noteq> Inl UndefinedBehaviour"
proof -
  let ?k = "seqE (if status_code r = EVMC_SUCCESS
            then seqE (storeAddress (create_address r) roff) (setLastReturnData [])
            else setLastReturnData (case output_data r of Some d \<Rightarrow> d | None \<Rightarrow> []))
           (returnE (callStatus (status_code r)))"
  let ?t = "t\<lparr>m_result := (m_result t)\<lparr>gasLeft := gasLeft (m_result t) + gas_left r\<rparr>\<rparr>"
  have "finishCreate r roff t = ?k ?t"
    using returnGas_eq [OF assms(2,1,3)] by (simp add: finishCreate_def seqE_def bindE_def)
  moreover have "no_ub ?k (iface_inv world m c n w g)" by (intro hoare_intros)
  ultimately show "iface_inv world m c n w g (snd (finishCreate r roff t))"
    and "fst (finishCreate r roff t) \<noteq> Inl UndefinedBehaviour"
    using assms(4) inv_okD [of "iface_inv world m c n w g" "{UndefinedBehaviour}" ?k ?t] by auto
qed

lemma create_tail:
  assumes "g \<le> int64_max" and "\<not> is_static (msg_flags m)" and mk: "\<And>x. msg_gas (mk x) = x"
  shows "no_ub (forwardCreate H mk roff) (iface_inv world m c n w g)" (is "no_ub ?p _")
proof -
  have "iface_inv world m c n w g (snd (?p s)) \<and> fst (?p s) \<noteq> Inl UndefinedBehaviour"
    if i: "iface_inv world m c n w g s" for s
  proof -
    let ?left = "gasLeft (m_result s)"
    let ?s1 = "s\<lparr>m_result := (m_result s)\<lparr>gasLeft := ?left - maxCallGas ?left\<rparr>\<rparr>"
    have left: "0 \<le> ?left" "?left \<le> int64_max" "m_meterGas s" using i assms(1) by (simp_all add: iface_inv_def)
    note mx = maxCallGas_bounds [OF left(1)]
    have take: "takeInterfaceGas (maxCallGas ?left) s = (Inr (), ?s1)"
      using takeInterfaceGas_eq [OF left(3,1,2)] mx by simp
    obtain r t where r: "hostCall H (mk (maxCallGas ?left)) ?s1 = (Inr r, t)" using hostCall_returns by blast
    have step: "0 \<le> gas_left r" "0 \<le> gasLeft (m_result t)" "gasLeft (m_result t) + gas_left r \<le> int64_max"
      "iface_inv world m c n w g (t\<lparr>m_result := (m_result t)\<lparr>gasLeft := gasLeft (m_result t) + gas_left r\<rparr>\<rparr>)"
      using forward_step [OF i _ _ _ _ _ _ r, of 0] mk mx assms(1,2) by auto
    have "?p s = finishCreate r roff t"
      using take r by (simp add: forwardCreate_def bindE_def seqE_def readGas_def getE_def Let_def)
    then show ?thesis using finishCreate_inv [OF step] by simp
  qed
  then show ?thesis by (intro inv_okI) auto
qed

lemma eeiCreate_inv:
  assumes "g \<le> int64_max"
  shows "no_ub (eeiCreate H voff doff len roff) (iface_inv world m c n w g)"
  unfolding eeiCreate_def
  by (rule inv_paid_notStatic)
     (use assms in \<open>auto intro!: hoare_intros create_tail\<close>)

text \<open>All host functions of the engine, the debugging ones included.\<close>

lemma simple_funcs_inv:
  assumes "g \<le> int64_max"
  shows "\<forall>f \<in> set (filter (\<lambda>f. hf_name f \<notin> {''call'', ''callCode'', ''callDelegate'', ''callStatic''})
           (wabt_module H @ wabt_debug_module H)).
         no_ub (hf_fn f args) (iface_inv world m c n w g)"
  using assms
  by (simp add: wabt_module_def wabt_debug_module_def wabt_func_defs
      inv_rets inv_simple inv_eeiUseGas inv_writers eeiCreate_inv debug_reads inv_ok_return)

lemma call_funcs:
  "filter (\<lambda>f. hf_name f \<in> {''call'', ''callCode'', ''callDelegate'', ''callStatic''})
     (wabt_module H @ wabt_debug_module H) = [wabt_call H, wabt_callCode H, wabt_callDelegate H, wabt_callStatic H]"
  by (simp add: wabt_module_def wabt_debug_module_def wabt_func_defs)

lemma call_funcs_hoare:
  assumes "g + call_gain m kind \<le> int64_max"
  shows "hoare (iface_inv world m c n w g) (retI32 (eeiCall H kind gas aoff voff doff dlen))
     (\<lambda>_. iface_inv world m c n w (g + call_gain m kind))
     (\<lambda>e t. iface_inv world m c n w (g + call_gain m kind) t \<and> e \<notin> {UndefinedBehaviour})"
  unfolding retI32_def by (intro hoare_bind [OF eeiCall_hoare [OF assms]] hoare_return)

lemma host_func_hoare:
  assumes f: "f \<in> set (wabt_module H @ wabt_debug_module H)"
    and g: "g + op_gain m (hf_name f) \<le> int64_max"
  shows "hoare (iface_inv world m c n w g) (hf_fn f args)
     (\<lambda>_. iface_inv world m c n w (g + op_gain m (hf_name f)))
     (\<lambda>e t. iface_inv world m c n w (g + op_gain m (hf_name f)) t \<and> e \<notin> {UndefinedBehaviour})"
proof (cases "hf_name f \<in> {''call'', ''callCode'', ''callDelegate'', ''callStatic''}")
  case True
  then have "f \<in> set [wabt_call H, wabt_callCode H, wabt_callDelegate H, wabt_callStatic H]"
    using f unfolding call_funcs [symmetric] by simp
  then consider "f = wabt_call H" | "f = wabt_callCode H" | "f = wabt_callDelegate H" | "f = wabt_callStatic H"
    by auto
  then show ?thesis
  proof cases
    case 1
    then show ?thesis using g call_funcs_hoare [of g m Call c n w]
      by (simp add: wabt_call_def op_gain_def call_gain_def del: insert_iff)
  next
    case 2
    then show ?thesis using g call_funcs_hoare [of g m CallCode c n w]
      by (simp add: wabt_callCode_def op_gain_def call_gain_def del: insert_iff)
  next
    case 3
    then show ?thesis using g call_funcs_hoare [of g m CallDelegate c n w]
      by (simp add: wabt_callDelegate_def op_gain_def call_gain_def del: insert_iff)
  next
    case 4
    then show ?thesis using g call_funcs_hoare [of g m CallStatic c n w]
      by (simp add: wabt_callStatic_def op_gain_def call_gain_def del: insert_iff)
  qed
next
  case False
  then have "op_gain m (hf_name f) = 0" by (simp add: op_gain_def)
  moreover have "no_ub (hf_fn f args) (iface_inv world m c n w g)"
    using False f g calculation simple_funcs_inv [where args = args and g = g and m = m and c = c and n = n and w = w] by auto
  ultimately show ?thesis by (simp add: inv_ok_def)
qed

end

section \<open>Runs of a contract\<close>

text \<open>
  What contract code can do between its start and its end: change or grow its own memory
  with wasm instructions, and call a host function that returns. The trace records the
  host functions called.
\<close>

inductive contract_run ::
  "'h HostInterface \<Rightarrow> 'h EthereumInterface \<Rightarrow> string list \<Rightarrow> 'h EthereumInterface \<Rightarrow> bool"
  for H s0 where
  start: "contract_run H s0 [] s0"
| wasm: "contract_run H s0 tr s \<Longrightarrow> length (wasm_memory s) \<le> length mem \<Longrightarrow> length mem \<le> 2 ^ 32 \<Longrightarrow>
         contract_run H s0 tr (s\<lparr>wasm_memory := mem\<rparr>)"
| host: "contract_run H s0 tr s \<Longrightarrow> f \<in> set (wabt_module H @ wabt_debug_module H) \<Longrightarrow>
         hf_fn f args s = (Inr vs, t) \<Longrightarrow> contract_run H s0 (hf_name f # tr) t"

definition trace_gain :: "evmc_message \<Rightarrow> string list \<Rightarrow> int" where
  "trace_gain m tr = sum_list (map (op_gain m) tr)"

lemma trace_gain_nonneg [simp]: "0 \<le> trace_gain m tr"
  by (induction tr) (simp_all add: trace_gain_def)

lemma start_inv:
  assumes "mkEthereumInterface ctx code msg True mem = Inr s0"
    and "length mem \<le> 2 ^ 32" and "0 \<le> msg_gas msg"
  shows "iface_inv world msg code (length mem) (world (host_state ctx)) (msg_gas msg) s0"
  using assms by (auto simp: mkEthereumInterface_def iface_inv_def split: if_splits)

context evmc_host
begin

lemma run_inv:
  assumes "contract_run H s0 tr s" and "iface_inv world m c n0 w g s0" and "g + trace_gain m tr \<le> int64_max"
  shows "\<exists>n. iface_inv world m c n w (g + trace_gain m tr) s"
  using assms
proof (induction rule: contract_run.induct)
  case start
  then show ?case by (auto simp: trace_gain_def)
next
  case (wasm tr s mem)
  then show ?case by (auto simp: iface_inv_def)
next
  case (host tr s f args vs t)
  have sum: "g + trace_gain m (hf_name f # tr) = g + trace_gain m tr + op_gain m (hf_name f)"
    by (simp add: trace_gain_def)
  with host.prems have "g + trace_gain m tr \<le> int64_max" using op_gain_nonneg [of m "hf_name f"] by linarith
  then obtain n where "iface_inv world m c n w (g + trace_gain m tr) s" using host.IH host.prems(1) by blast
  then have "iface_inv world m c n w (g + trace_gain m tr + op_gain m (hf_name f)) t"
    using hoareD_return [OF host_func_hoare [OF host.hyps(2)]] host.hyps(3) host.prems(2) sum by simp
  then show ?case using sum by (auto simp: add.assoc)
qed

lemma run_then_no_ub:
  assumes "contract_run H s0 tr s" and "iface_inv world m c n0 w g s0"
    and "g + trace_gain m (hf_name f # tr) \<le> int64_max" and "f \<in> set (wabt_module H @ wabt_debug_module H)"
  shows "fst (hf_fn f args s) \<noteq> Inl UndefinedBehaviour"
proof -
  have sum: "g + trace_gain m (hf_name f # tr) = g + trace_gain m tr + op_gain m (hf_name f)"
    by (simp add: trace_gain_def)
  with assms(3) have "g + trace_gain m tr \<le> int64_max" using op_gain_nonneg [of m "hf_name f"] by linarith
  with run_inv [OF assms(1,2)] obtain n where i: "iface_inv world m c n w (g + trace_gain m tr) s" by blast
  have h: "hoare (iface_inv world m c n w (g + trace_gain m tr)) (hf_fn f args)
     (\<lambda>_. iface_inv world m c n w (g + trace_gain m tr + op_gain m (hf_name f)))
     (\<lambda>e t. iface_inv world m c n w (g + trace_gain m tr + op_gain m (hf_name f)) t \<and> e \<notin> {UndefinedBehaviour})"
    using assms(3,4) sum by (intro host_func_hoare) simp_all
  show ?thesis
  proof
    assume "fst (hf_fn f args s) = Inl UndefinedBehaviour"
    then have "hf_fn f args s = (Inl UndefinedBehaviour, snd (hf_fn f args s))"
      by (cases "hf_fn f args s") simp
    from hoareD_throw [OF h i this] show False by simp
  qed
qed

end

section \<open>Properties\<close>

text \<open>A sample message and the interface a contract with 64 bytes of memory starts with.\<close>

definition sample_msg :: "u32 \<Rightarrow> uint256be \<Rightarrow> evmc_message" where
  "sample_msg fl v =
     \<lparr>msg_kind = EVMC_CALL, msg_flags = fl, msg_depth = 0, msg_gas = 100000, msg_destination = 1,
      msg_sender = 2, msg_input = [], msg_value = v\<rparr>"

definition sample_host :: "ExampleHost HostContext" where
  "sample_host = mkHostContext \<lparr>accounts = Map.empty, eh_tx_context = zero_tx_context\<rparr>"

definition sample_iface :: "u32 \<Rightarrow> uint256be \<Rightarrow> ExampleHost EthereumInterface" where
  "sample_iface fl v =
     \<lparr>m_host = sample_host, m_code = [], m_msg = sample_msg fl v, m_lastReturnData = [],
      m_result = \<lparr>gasLeft = 100000, returnValue = [], isRevert = False\<rparr>,
      m_meterGas = True, wasm_memory = replicate 64 0\<rparr>"

lemma sample_start:
  "mkEthereumInterface sample_host [] (sample_msg 0 v) True (replicate 64 0) = Inr (sample_iface 0 v)"
  "mkEthereumInterface sample_host [] (sample_msg 1 v) True (replicate 64 0) = Inr (sample_iface 1 v)"
  by (simp_all add: mkEthereumInterface_def sample_msg_def sample_iface_def EVMC_STATIC_def)

lemma sample_gas_step:
  "hf_fn (wabt_getGasLeft example_host) [] (sample_iface fl v) =
     (Inr [99998], (sample_iface fl v)\<lparr>m_result := \<lparr>gasLeft = 99998, returnValue = [], isRevert = False\<rparr>\<rparr>)"
  by (simp add: wabt_getGasLeft_def retI64_def eeiGetGasLeft_def seqE_def bindE_def takeInterfaceGas_eq
      sample_iface_def int64_max_def gs_base_def readGas_def getE_def returnE_def)

lemma sample_run:
  "contract_run example_host (sample_iface fl v) [''getGasLeft'']
     ((sample_iface fl v)\<lparr>m_result := \<lparr>gasLeft = 99998, returnValue = [], isRevert = False\<rparr>\<rparr>)"
  using contract_run.host [OF contract_run.start, of "wabt_getGasLeft example_host" example_host "[]"]
    sample_gas_step [of fl v]
  by (simp add: wabt_module_def) (simp add: wabt_getGasLeft_def)

text \<open>
  C17: however a contract uses the interface, with the interface metered and a host that
  returns at most the gas it gets: the message, the code and the metering stay, the memory
  stays within the 32-bit address space, and gas stays between zero and the gas of the
  message plus what DELEGATECALLs with a non-zero value add (1600 each).
\<close>

theorem contract_run_bounds:
  assumes "evmc_host H world"
    and "mkEthereumInterface ctx code msg True mem = Inr s0" and "length mem \<le> 2 ^ 32" and "0 \<le> msg_gas msg"
    and "contract_run H s0 tr s" and "msg_gas msg + trace_gain msg tr \<le> int64_max"
  shows "m_msg s = msg \<and> m_code s = code \<and> m_meterGas s \<and> length (wasm_memory s) \<le> 2 ^ 32
    \<and> 0 \<le> gasLeft (m_result s) \<and> gasLeft (m_result s) \<le> msg_gas msg + trace_gain msg tr"
  using evmc_host.run_inv [OF assms(1,5) start_inv [OF assms(2,3,4)] assms(6)]
  by (auto simp: iface_inv_def)

theorem contract_run_bounds_witness:
  "99998 \<le> msg_gas (sample_msg 0 7) + trace_gain (sample_msg 0 7) [''getGasLeft'']"
proof -
  have "msg_gas (sample_msg 0 7) + trace_gain (sample_msg 0 7) [''getGasLeft''] \<le> int64_max"
    by (simp add: sample_msg_def trace_gain_def op_gain_def int64_max_def)
  from contract_run_bounds [OF example.evmc_host_axioms sample_start(1) _ _ sample_run this]
  show ?thesis by (simp add: sample_msg_def)
qed






end
