(* ===== verification/Eei_Functional.thy ===== *)
theory Eei_Functional
  imports Eei_Safety
begin

text \<open>
  What single operations of the interface compute: typed values survive a store and a load,
  storage written through the interface is read back through it, finish and revert hand the
  named memory to the caller, call data is copied as far as it goes, and the tables of
  signatures of the engine agree up to create2. The last section runs a whole contract in the engine.
\<close>

section \<open>Typed values in memory\<close>

lemma put_bound [simp]: "store_ok off (length bs) s \<Longrightarrow> mem_bound (put off bs s) = mem_bound s"
  by (simp add: mem_bound_def put_def store_ok_def in_memory_def)

lemma put_in_memory [simp]:
  "store_ok off (length bs) s \<Longrightarrow> in_memory off' n (put off bs s) = in_memory off' n s"
  by (simp add: put_def store_ok_def in_memory_def)

lemma segment_put [simp]:
  "store_ok off (length bs) s \<Longrightarrow> length bs = n \<Longrightarrow> segment (unat off) n (wasm_memory (put off bs s)) = bs"
  by (simp add: put_def store_ok_def in_memory_def)

lemma word_be_low:
  assumes "\<not> 2 ^ 128 \<le> unat (v :: uint256be)"
  shows "word_be (replicate 16 0 @ drop 16 (bytes_be 32 v)) = v"
proof -
  have "be_nat (replicate 16 0 @ drop 16 (bytes_be 32 v)) = unat v"
    using bytes_be_hi_lo [of v] assms by (simp add: be_nat_append)
  then show ?thesis by (simp add: word_be_def)
qed

definition reads_back :: "('h, unit) eei \<Rightarrow> ('h, 'a) eei \<Rightarrow> 'a \<Rightarrow> 'h EthereumInterface \<Rightarrow> bool" where
  "reads_back st ld v s = (case st s of (Inl e, t) \<Rightarrow> t = s | (Inr _, t) \<Rightarrow> ld t = (Inr v, t))"

text \<open>
  what is stored as an address, a 32-byte hash, a 256-bit or a 128-bit number is what the
  matching load reads back from the same offset; a store that fails changes nothing.
\<close>

theorem typed_roundtrip:
  assumes "mem_bound s"
  shows "reads_back (storeAddress a off) (loadAddress off) a s
       \<and> reads_back (storeBytes32 v off) (loadBytes32 off) v s
       \<and> reads_back (storeUint256 v off) (loadUint256 off) v s
       \<and> reads_back (storeUint128 v off) (loadUint128 off) v s"
proof (intro conjI)
  show "reads_back (storeAddress a off) (loadAddress off) a s"
    using assms by (auto simp: reads_back_def storeAddress_eq loadAddress_eq word_be_bytes_be store_ok_def)
  show "reads_back (storeBytes32 v off) (loadBytes32 off) v s"
    using assms by (auto simp: reads_back_def storeBytes32_eq loadBytes32_eq word_be_bytes_be store_ok_def)
  show "reads_back (storeUint256 v off) (loadUint256 off) v s"
    using assms by (auto simp: reads_back_def storeUint256_eq loadUint256_eq word_be_bytes_be store_ok_def)
  show "reads_back (storeUint128 v off) (loadUint128 off) v s"
    using assms by (auto simp: reads_back_def storeUint128_eq loadUint128_eq word_be_low store_ok_def)
qed

theorem typed_roundtrip_witness:
  "reads_back (storeUint128 (77 :: uint256be) 3) (loadUint128 3) 77 (sample_iface 0 7)"
proof -
  have "mem_bound (sample_iface 0 7)" by (simp add: mem_bound_def sample_iface_def)
  from typed_roundtrip [OF this, of _ 3 77] show ?thesis by blast
qed

section \<open>Call data\<close>

lemma view_past_end:
  "length src < 2 ^ 32 \<Longrightarrow> length src < unat so \<Longrightarrow>
   storeMemoryView src so off len s = (Inl InvalidMemoryAccess, s)"
  by (simp add: storeMemoryView_eq)

lemma remaining_length:
  assumes "unat (d :: u32) \<le> n" and "n < 2 ^ 32"
  shows "unat (ucast ((of_nat n :: u64) - ucast d) :: u32) = n - unat d"
proof -
  have "(of_nat n :: u64) - ucast d = of_nat (n - unat d)"
    using assms(1) by (simp add: of_nat_diff)
  then have "unat (ucast ((of_nat n :: u64) - ucast d) :: u32) = (n - unat d) mod 2 ^ 32"
    by (simp add: unsigned_ucast_eq unat_of_nat take_bit_eq_mod mod_mod_cancel)
  then show ?thesis using assms(2) by simp
qed

lemma safeCharge_msg: "safeChargeDataCopy len b s = (r, t) \<Longrightarrow> m_msg t = m_msg s"
  by (auto simp: safeChargeDataCopy_def takeInterfaceGas_def takeGas_def checked64_def readGas_def writeGas_def
      eff_simps split: if_splits prod.splits sum.splits)

text \<open>The end of a range as the 32-bit sum has it: it may wrap to a position inside the data.\<close>

definition wrapped_inside :: "u32 \<Rightarrow> u32 \<Rightarrow> nat \<Rightarrow> bool" where
  "wrapped_inside off len n \<longleftrightarrow> 2 ^ 32 \<le> unat off + unat len \<and> unat off + unat len - 2 ^ 32 \<le> n"

lemma callData_view:
  assumes n: "length input < 2 ^ 32"
  shows "(if unat (doff + len) \<le> length input then storeMemoryView input doff roff len
          else storeMemoryView input doff roff (ucast ((of_nat (length input) :: u64) - ucast doff))) t =
    (let k = min (unat len) (length input - unat doff)
     in if unat doff \<le> length input \<and> \<not> wrapped_inside doff len (length input)
         \<and> in_memory roff k t \<and> unat roff + k < 2 ^ 32
        then (Inr (), put roff (segment (unat doff) k input) t)
        else (Inl InvalidMemoryAccess, t))"
proof (cases "unat doff \<le> length input")
  case doff: True
  note rem = remaining_length [OF doff n]
  show ?thesis
  proof (cases "unat doff + unat len < 2 ^ 32")
    case True
    then show ?thesis using doff n rem
      by (auto simp: storeMemoryView_eq unat_sum_u32 wrapped_inside_def in_memory_def put_def min_def Let_def)
  next
    case False
    then show ?thesis using doff n rem
      by (auto simp: storeMemoryView_eq unat_sum_u32 wrapped_inside_def in_memory_def put_def min_def Let_def)
  qed
next
  case False
  then show ?thesis using n by (simp add: view_past_end)
qed

text \<open>
  eeiCallDataCopy copies the requested call data as far as it goes: when the range ends
  past the call data only the bytes that exist are written and the rest of the destination
  keeps its old contents (the EVM fills it with zeros). An offset past the end of the call
  data, or a range whose 32-bit end wraps around into the data, is an InvalidMemoryAccess.
  The gas is charged for the full length first.
\<close>

theorem eeiCallDataCopy_exact:
  assumes "length (msg_input (m_msg s)) < 2 ^ 32"
  shows "eeiCallDataCopy roff doff len s =
    (case safeChargeDataCopy len gs_verylow s of
       (Inl e, t) \<Rightarrow> (Inl e, t)
     | (Inr _, t) \<Rightarrow>
         (let input = msg_input (m_msg s);
              k = min (unat len) (length input - unat doff)
          in if unat doff \<le> length input \<and> \<not> wrapped_inside doff len (length input)
              \<and> in_memory roff k t \<and> unat roff + k < 2 ^ 32
             then (Inr (), put roff (segment (unat doff) k input) t)
             else (Inl InvalidMemoryAccess, t)))"
proof (cases "safeChargeDataCopy len gs_verylow s")
  case (Pair r t)
  then have m: "m_msg t = m_msg s" by (rule safeCharge_msg)
  show ?thesis
  proof (cases r)
    case (Inr x)
    then have "eeiCallDataCopy roff doff len s =
        (if unat (doff + len) \<le> length (msg_input (m_msg s))
         then storeMemoryView (msg_input (m_msg s)) doff roff len
         else storeMemoryView (msg_input (m_msg s)) doff roff
                (ucast ((of_nat (length (msg_input (m_msg s))) :: u64) - ucast doff))) t"
      using Pair m by (simp add: eeiCallDataCopy_def seqE_def bindE_def readMsg_def getE_def)
    then show ?thesis
      by (simp only: callData_view [OF assms] Pair Inr prod.case sum.case Let_def)
  next
    case (Inl e)
    then show ?thesis using Pair by (simp add: eeiCallDataCopy_def seqE_def bindE_def)
  qed
qed

theorem eeiCallDataCopy_exact_witness:
  "eeiCallDataCopy 0 5 32 (sample_iface 0 7) =
     (Inl InvalidMemoryAccess, (sample_iface 0 7)\<lparr>m_result := \<lparr>gasLeft = 99994, returnValue = [], isRevert = False\<rparr>\<rparr>)"
proof -
  have "length (msg_input (m_msg (sample_iface 0 7))) < 2 ^ 32" by (simp add: sample_iface_def sample_msg_def)
  note eeiCallDataCopy_exact [OF this, of 0 5 32]
  moreover have "safeChargeDataCopy 32 gs_verylow (sample_iface 0 7) =
      (Inr (), (sample_iface 0 7)\<lparr>m_result := \<lparr>gasLeft = 99994, returnValue = [], isRevert = False\<rparr>\<rparr>)"
    by (simp add: safeChargeDataCopy_def seqE_def bindE_def takeInterfaceGas_eq sample_iface_def int64_max_def
        gas_schedule sdiv_nonneg)
  ultimately show ?thesis by (simp add: sample_iface_def sample_msg_def Let_def)
qed

section \<open>Ending a contract\<close>

lemma eeiRevertOrFinish_eq:
  assumes "mem_bound s"
  shows "eeiRevertOrFinish b off sz s =
    (if in_memory off (unat sz) s \<and> unat off + unat sz < 2 ^ 32
     then (Inl EndExecution, s\<lparr>m_result := (m_result s)\<lparr>
             returnValue := segment (unat off) (unat sz) (wasm_memory s), isRevert := b\<rparr>\<rparr>)
     else (Inl InvalidMemoryAccess, s))"
proof -
  let ?s1 = "s\<lparr>m_result := (m_result s)\<lparr>returnValue := replicate (unat sz) 0\<rparr>\<rparr>"
  have "mem_bound ?s1" using assms by (simp add: mem_bound_def)
  then have "loadMemoryInto off (replicate (unat sz) 0) (unat sz) ?s1 =
      (if unat off + unat sz \<le> length (wasm_memory s)
       then (Inr (segment (unat off) (unat sz) (wasm_memory s)), ?s1) else (Inl InvalidMemoryAccess, ?s1))"
    using unat_u32_le [of sz] by (simp add: loadMemoryInto_eq)
  then show ?thesis
    by (auto simp: eeiRevertOrFinish_def seqE_def bindE_def ensureSourceMemoryBounds_eq setReturnValue_def
        setIsRevert_def modifyE_def throwE_def in_memory_def)
qed

text \<open>
  Finish and revert never return: they end the execution with the named memory segment as
  the return value and the revert flag set accordingly, or fail with InvalidMemoryAccess
  and change nothing when the segment is not inside the memory.
\<close>

theorem eeiRevertOrFinish_exact:
  assumes "mem_bound s"
  shows "eeiRevertOrFinish b off sz s =
    (if in_memory off (unat sz) s \<and> unat off + unat sz < 2 ^ 32
     then (Inl EndExecution, s\<lparr>m_result := (m_result s)\<lparr>
             returnValue := segment (unat off) (unat sz) (wasm_memory s), isRevert := b\<rparr>\<rparr>)
     else (Inl InvalidMemoryAccess, s))"
  using eeiRevertOrFinish_eq [OF assms] .

theorem eeiRevertOrFinish_exact_witness:
  "eeiRevertOrFinish True 60 4 (sample_iface 0 7) =
     (Inl EndExecution, (sample_iface 0 7)\<lparr>m_result := \<lparr>gasLeft = 100000, returnValue = replicate 4 0, isRevert = True\<rparr>\<rparr>)"
proof -
  have "mem_bound (sample_iface 0 7)" by (simp add: mem_bound_def sample_iface_def)
  from eeiRevertOrFinish_exact [OF this, of True 60 4] show ?thesis
    by (simp add: in_memory_def sample_iface_def segment_def)
qed

section \<open>Storage\<close>

lemma takeInterfaceGas_frame:
  "takeInterfaceGas x s = (r, t) \<Longrightarrow> t = s\<lparr>m_result := m_result t\<rparr>"
  by (auto simp: takeInterfaceGas_def takeGas_def checked64_def readGas_def writeGas_def eff_simps
      split: if_splits prod.splits sum.splits)

lemma takeInterfaceGas_fields:
  assumes "takeInterfaceGas x s = (r, t)"
  shows "wasm_memory t = wasm_memory s" "m_msg t = m_msg s" "m_host t = m_host s"
  by (subst takeInterfaceGas_frame [OF assms], simp)+

lemma loadBytes32_Inr_iff:
  "mem_bound s \<Longrightarrow> loadBytes32 off s = (Inr x, t) \<longleftrightarrow>
     in_memory off 32 s \<and> x = word_be (segment (unat off) 32 (wasm_memory s)) \<and> t = s"
  by (auto simp: loadBytes32_eq)

lemma eeiStorageStore_effect:
  assumes "eeiStorageStore H p v s = (Inr (), t)" and b: "mem_bound s"
  shows "in_memory p 32 s \<and> in_memory v 32 s \<and> \<not> is_static (msg_flags (m_msg s))
    \<and> wasm_memory t = wasm_memory s \<and> m_msg t = m_msg s
    \<and> host_state (m_host t) = set_storage H (host_state (m_host s)) (msg_destination (m_msg s))
        (word_be (segment (unat p) 32 (wasm_memory s))) (word_be (segment (unat v) 32 (wasm_memory s)))"
proof -
  from assms(1) obtain s1 where 1: "takeInterfaceGas gs_storageStoreChange s = (Inr (), s1)"
    and rest: "seqE ensureNotStatic
     (bindE (loadBytes32 p) (\<lambda>path.
      bindE (loadBytes32 v) (\<lambda>value.
      bindE (readMsg msg_destination) (\<lambda>dest.
      bindE (hostRead (\<lambda>h. get_storage H h dest path)) (\<lambda>current.
      seqE (whenE (is_zero current \<and> \<not> is_zero value)
              (takeInterfaceGas (gs_storageStoreCreate - gs_storageStoreChange)))
           (hostWrite (\<lambda>h. set_storage H h dest path value))))))) s1 = (Inr (), t)"
    by (auto simp: eeiStorageStore_def seqE_Inr_iff)
  note f1 = takeInterfaceGas_fields [OF 1]
  have b1: "mem_bound s1" using b f1 by (simp add: mem_bound_def)
  from rest b1 obtain s2 where ns: "\<not> is_static (msg_flags (m_msg s1))"
    and im: "in_memory p 32 s1" "in_memory v 32 s1"
    and 2: "whenE (is_zero (get_storage H (host_state (m_host s1)) (msg_destination (m_msg s1))
               (word_be (segment (unat p) 32 (wasm_memory s1))))
              \<and> \<not> is_zero (word_be (segment (unat v) 32 (wasm_memory s1))))
              (takeInterfaceGas (gs_storageStoreCreate - gs_storageStoreChange)) s1 = (Inr (), s2)"
    and 3: "hostWrite (\<lambda>h. set_storage H h (msg_destination (m_msg s1))
          (word_be (segment (unat p) 32 (wasm_memory s1))) (word_be (segment (unat v) 32 (wasm_memory s1)))) s2
          = (Inr (), t)"
    by (auto simp: returns_iff ensureNotStatic_def readMsg_def hostRead_def loadBytes32_Inr_iff)
  have f2: "wasm_memory s2 = wasm_memory s1" "m_msg s2 = m_msg s1" "m_host s2 = m_host s1"
    using 2 takeInterfaceGas_fields by (auto simp: whenE_def returnE_def split: if_splits)
  show ?thesis using ns im f1 f2 3 by (auto simp: hostWrite_def modifyE_def in_memory_def)
qed

lemma eeiStorageLoad_effect:
  assumes "eeiStorageLoad H p r s = (Inr (), t)" and "mem_bound s"
  shows "wasm_memory t = put_segment (unat r)
    (bytes_be 32 (get_storage H (host_state (m_host s)) (msg_destination (m_msg s))
       (word_be (segment (unat p) 32 (wasm_memory s))))) (wasm_memory s)"
proof -
  from assms(1) obtain s1 where 1: "takeInterfaceGas gs_storageLoad s = (Inr (), s1)"
    and rest: "bindE (loadBytes32 p) (\<lambda>path.
      bindE (readMsg msg_destination) (\<lambda>dest.
      bindE (hostRead (\<lambda>h. get_storage H h dest path)) (\<lambda>res. storeBytes32 res r))) s1 = (Inr (), t)"
    by (auto simp: eeiStorageLoad_def seqE_Inr_iff)
  note f1 = takeInterfaceGas_fields [OF 1]
  have "mem_bound s1" using assms(2) f1 by (simp add: mem_bound_def)
  with rest f1 show ?thesis
    by (auto simp: returns_iff readMsg_def hostRead_def loadBytes32_Inr_iff storeBytes32_eq put_def
        split: if_splits)
qed

text \<open>
  Storage is read back as written: after a successful storageStore, a successful
  storageLoad of the same path puts the 32 bytes that were stored at the result offset,
  whatever the offsets of path, value and result are.
\<close>

theorem storage_roundtrip:
  assumes "evmc_host H world" and "mem_bound s"
    and "eeiStorageStore H p v s = (Inr (), t)" and "eeiStorageLoad H p r t = (Inr (), u)"
  shows "wasm_memory u = put_segment (unat r) (segment (unat v) 32 (wasm_memory s)) (wasm_memory s)"
proof -
  have e: "wasm_memory t = wasm_memory s" "m_msg t = m_msg s" "in_memory v 32 s"
    "host_state (m_host t) = set_storage H (host_state (m_host s)) (msg_destination (m_msg s))
        (word_be (segment (unat p) 32 (wasm_memory s))) (word_be (segment (unat v) 32 (wasm_memory s)))"
    using eeiStorageStore_effect [OF assms(3,2)] by auto
  have "mem_bound t" using assms(2) e(1) by (simp add: mem_bound_def)
  from eeiStorageLoad_effect [OF assms(4) this] show ?thesis
    using e by (simp add: evmc_host.storage_same [OF assms(1)] bytes_be_word_be in_memory_def)
qed

lemma sample_store_load:
  "\<exists>t u. eeiStorageStore example_host 0 32 (sample_iface 0 7) = (Inr (), t)
       \<and> eeiStorageLoad example_host 0 10 t = (Inr (), u)"
proof -
  have b: "mem_bound (sample_iface 0 7)" by (simp add: mem_bound_def sample_iface_def)
  have z: "word_be (segment 32 32 (replicate 64 0)) = (0 :: bytes32)"
    "word_be (segment 0 32 (replicate 64 0)) = (0 :: bytes32)"
    by (simp_all add: segment_def word_be_def)
  show ?thesis
    by (simp add: eeiStorageStore_def eeiStorageLoad_def eff_simps takeInterfaceGas_eq ensureNotStatic_def
        readMsg_def hostRead_def hostWrite_def loadBytes32_eq storeBytes32_eq store_ok_def in_memory_def
        mem_bound_def sample_iface_def sample_msg_def int64_max_def gas_schedule is_zero_def z)
qed

theorem storage_roundtrip_witness:
  "\<exists>t u. eeiStorageStore example_host 0 32 (sample_iface 0 7) = (Inr (), t)
       \<and> eeiStorageLoad example_host 0 10 t = (Inr (), u)
       \<and> wasm_memory u = put_segment 10 (segment 32 32 (replicate 64 0)) (replicate 64 0)"
proof -
  obtain t u where tu: "eeiStorageStore example_host 0 32 (sample_iface 0 7) = (Inr (), t)"
    "eeiStorageLoad example_host 0 10 t = (Inr (), u)" using sample_store_load by blast
  have "mem_bound (sample_iface 0 7)" by (simp add: mem_bound_def sample_iface_def)
  from storage_roundtrip [OF example.evmc_host_axioms this tu]
  have "wasm_memory u = put_segment 10 (segment 32 32 (replicate 64 0)) (replicate 64 0)"
    by (simp add: sample_iface_def)
  with tu show ?thesis by blast
qed

section \<open>The engine\<close>

lemma wabt_tables:
  "map host_sig (wabt_module H) = verify_exports"
  "filter (\<lambda>sig. fst sig \<noteq> ''create2'') wabt_exports = verify_exports"
  "set wabt_exports - set verify_exports = {(''create2'', [T_I32, T_I32, T_I32, T_I32, T_I32], [T_I32])}"
  by (simp_all add: host_sig_def wabt_module_def wabt_func_defs wabt_exports_def wabt_exports1_def wabt_exports2_def
      wabt_exports3_def verify_exports_def verify_exports1_def verify_exports2_def verify_exports3_def insert_Diff_if)

text \<open>
  What is assumed of the interpreter: it acts on the interface only through the contract's
  own memory and the host functions, ends when the contract ends or traps, and passes on the
  exception of a host function that throws.
\<close>

definition engine_runs :: "'h HostInterface \<Rightarrow> (wasm_module \<Rightarrow> ('h, bool) eei) \<Rightarrow> bool" where
  "engine_runs H run \<longleftrightarrow>
     (\<forall>m s r t. run m s = (r, t) \<longrightarrow>
        (\<exists>tr u. contract_run H s tr u \<and>
           (case r of Inr ok \<Rightarrow> t = u
            | Inl e \<Rightarrow> \<exists>f args. f \<in> set (wabt_module H @ wabt_debug_module H) \<and> hf_fn f args u = (Inl e, t))))"

lemma op_gain_zero [simp]: "msg_value m = 0 \<Longrightarrow> op_gain m name = 0"
  by (simp add: op_gain_def call_gain_def is_zero_def)

lemma trace_gain_zero: "msg_value m = 0 \<Longrightarrow> trace_gain m tr = 0"
  by (induction tr) (simp_all add: trace_gain_def)

context evmc_host
begin

lemma run_keeps_inv:
  assumes "contract_run H s tr u" "iface_inv world m c n w g s" "g \<le> int64_max" "msg_value m = 0"
  shows "\<exists>n. iface_inv world m c n w g u"
proof -
  have "g + trace_gain m tr = g" using trace_gain_zero [OF assms(4)] by simp
  with run_inv [OF assms(1,2)] assms(3) show ?thesis by simp
qed

lemma throw_keeps_inv:
  assumes "f \<in> set (wabt_module H @ wabt_debug_module H)" "hf_fn f args u = (Inl e, t)"
    and "iface_inv world m c n w g u" "g \<le> int64_max" "msg_value m = 0"
  shows "iface_inv world m c n w g t \<and> e \<noteq> UndefinedBehaviour"
proof -
  have "g + op_gain m (hf_name f) \<le> int64_max" using assms(4,5) by simp
  from hoareD_throw [OF host_func_hoare [OF assms(1) this] assms(3,2)] assms(5) show ?thesis by simp
qed

lemma engine_inv:
  assumes "engine_runs H run" and i: "iface_inv world m c n w g s" and g: "g \<le> int64_max" and v: "msg_value m = 0"
    and "run md s = (r, t)"
  shows "(\<exists>n. iface_inv world m c n w g t) \<and> r \<noteq> Inl UndefinedBehaviour"
proof -
  from assms(1,5) obtain tr u where u: "contract_run H s tr u"
    and r: "case r of Inr ok \<Rightarrow> t = u
      | Inl e \<Rightarrow> \<exists>f args. f \<in> set (wabt_module H @ wabt_debug_module H) \<and> hf_fn f args u = (Inl e, t)"
    unfolding engine_runs_def by blast
  from run_keeps_inv [OF u i g v] obtain n' where n': "iface_inv world m c n' w g u" by blast
  show ?thesis
  proof (cases r)
    case (Inr ok)
    then show ?thesis using r n' by auto
  next
    case (Inl e)
    then obtain f args where f: "f \<in> set (wabt_module H @ wabt_debug_module H)" "hf_fn f args u = (Inl e, t)"
      using r by auto
    from throw_keeps_inv [OF f n' g v] Inl show ?thesis by blast
  qed
qed

end

lemma wabt_execute_inv:
  assumes H: "evmc_host H world" and "engine_runs H run"
    and g: "0 \<le> msg_gas msg" "msg_gas msg \<le> int64_max" and v: "msg_value msg = 0"
    and mem: "\<And>m. load wabt_exports code = Some m \<Longrightarrow> length (initial_memory m) \<le> 2 ^ 32"
    and ex: "WabtEngine_execute load run ctx code state_code msg True = (res, ctx')"
  shows "res \<noteq> Inl UndefinedBehaviour
    \<and> (\<forall>r. res = Inr r \<longrightarrow> 0 \<le> gasLeft r \<and> gasLeft r \<le> msg_gas msg)
    \<and> (is_static (msg_flags msg) \<longrightarrow> world (host_state ctx') = world (host_state ctx))"
proof (cases "mkEthereumInterface ctx state_code msg True []")
  case (Inl e)
  then show ?thesis using ex by (auto simp: WabtEngine_execute_def mkEthereumInterface_def split: if_splits)
next
  case i: (Inr i)
  show ?thesis
  proof (cases "validateModule (load wabt_exports code)")
    case (Inl e)
    then have "e = ContractValidationFailure"
      by (auto simp: validateModule_def split: option.splits if_splits export_kind.splits)
    then show ?thesis using ex i Inl by (auto simp: WabtEngine_execute_def)
  next
    case m: (Inr m)
    then have "load wabt_exports code = Some m"
      by (auto simp: validateModule_def split: option.splits if_splits export_kind.splits)
    then have "length (initial_memory m) \<le> 2 ^ 32" by (rule mem)
    then have inv: "iface_inv world msg state_code (length (initial_memory m)) (world (host_state ctx))
        (msg_gas msg) (i\<lparr>wasm_memory := initial_memory m\<rparr>)"
      using start_inv [OF i _ g(1), of world] by (simp add: iface_inv_def)
    obtain r t where rt: "run m (i\<lparr>wasm_memory := initial_memory m\<rparr>) = (r, t)" by fastforce
    note e = evmc_host.engine_inv [OF H assms(2) inv g(2) v rt]
    have "(res, ctx') =
      (case r of Inr ok \<Rightarrow> (if ok then Inr (m_result t) else Inl VMTrap, m_host t)
       | Inl x \<Rightarrow> (if x = EndExecution then Inr (m_result t) else Inl x, m_host t))"
      using ex i m rt by (auto simp: WabtEngine_execute_def split: sum.splits hera_exception.splits)
    then show ?thesis using e by (auto simp: iface_inv_def split: sum.splits if_splits)
  qed
qed

text \<open>
  C18: running a contract in the engine, with a metered interface and no value attached: the
  outcome is never undefined behaviour, the gas left is between zero and the gas of the
  message, and in static mode the world is as before.
\<close>

theorem wabt_execute_safe:
  assumes H: "evmc_host H world" and "engine_runs H run"
    and g: "0 \<le> msg_gas msg" "msg_gas msg \<le> int64_max" and v: "msg_value msg = 0"
    and mem: "\<And>m. load wabt_exports code = Some m \<Longrightarrow> length (initial_memory m) \<le> 2 ^ 32"
    and ex: "WabtEngine_execute load run ctx code state_code msg True = (res, ctx')"
  shows "res \<noteq> Inl UndefinedBehaviour
    \<and> (\<forall>r. res = Inr r \<longrightarrow> 0 \<le> gasLeft r \<and> gasLeft r \<le> msg_gas msg)
    \<and> (is_static (msg_flags msg) \<longrightarrow> world (host_state ctx') = world (host_state ctx))"
  using wabt_execute_inv [OF assms] .

text \<open>An engine that reads the gas counter and stops.\<close>

definition probe_run :: "wasm_module \<Rightarrow> (ExampleHost, bool) eei" where
  "probe_run m = bindE (hf_fn (wabt_getGasLeft example_host) []) (\<lambda>_. returnE True)"

definition probe_module :: wasm_module where
  "probe_module =
     \<lparr>memory_count = 1, memory_export = True, start_func = None, main_export = Some FuncExport,
      initial_memory = replicate 64 0\<rparr>"

lemma probe_engine: "engine_runs example_host probe_run"
  unfolding engine_runs_def
proof (intro allI impI)
  fix m s r t
  assume run: "probe_run m s = (r, t)"
  let ?f = "wabt_getGasLeft example_host"
  have f: "?f \<in> set (wabt_module example_host @ wabt_debug_module example_host)" by (simp add: wabt_module_def)
  show "\<exists>tr u. contract_run example_host s tr u \<and>
     (case r of Inr ok \<Rightarrow> t = u
      | Inl e \<Rightarrow> \<exists>f args. f \<in> set (wabt_module example_host @ wabt_debug_module example_host)
                         \<and> hf_fn f args u = (Inl e, t))"
  proof (cases "hf_fn ?f [] s")
    case (Pair x u)
    show ?thesis
    proof (cases x)
      case (Inl e)
      then show ?thesis using run Pair f contract_run.start by (fastforce simp: probe_run_def bindE_def)
    next
      case (Inr vs)
      then have "contract_run example_host s [hf_name ?f] u"
        using Pair contract_run.host [OF contract_run.start f] by blast
      then show ?thesis using run Pair Inr by (auto simp: probe_run_def bindE_def returnE_def)
    qed
  qed
qed

theorem wabt_execute_safe_witness:
  "fst (WabtEngine_execute (\<lambda>_ _. Some probe_module) probe_run sample_host [] [] (sample_msg 1 0) True)
     \<noteq> Inl UndefinedBehaviour"
proof -
  obtain res ctx' where ex: "WabtEngine_execute (\<lambda>_ _. Some probe_module) probe_run sample_host [] []
      (sample_msg 1 0) True = (res, ctx')" by fastforce
  have "0 \<le> msg_gas (sample_msg 1 0)" "msg_gas (sample_msg 1 0) \<le> int64_max" "msg_value (sample_msg 1 0) = 0"
    by (simp_all add: sample_msg_def int64_max_def)
  from wabt_execute_safe [OF example.evmc_host_axioms probe_engine this _ ex] ex show ?thesis
    by (auto simp: probe_module_def)
qed

end
