(* ===== verification/Eei_Module.thy ===== *)
theory Eei_Module
  imports Endian Eei_Functional
begin

text \<open>
  The environment the translator declares to LLVM (EEIModule.cpp): the imported functions with
  their types and attributes, in the order of the source, and the emitted copy loop. The
  targets of the declarations are the host functions of Hera; pointers are 32-bit integers in
  WebAssembly. An attribute that is set twice is listed once. The attributes meant for create2
  are set on create a second time, so that create2 has none.
\<close>

section \<open>Declarations (initEEIDeclaration)\<close>

datatype llvm_type = VoidTy | Int8PtrTy | Int32PtrTy | Int128PtrTy | AddressPtrTy | Int32Ty | Int64Ty

datatype llvm_attr = ReadOnly | WriteOnly | ArgMemOnly | NoUnwind

record eei_decl =
  d_name :: string
  d_module :: string
  d_import :: string
  d_result :: llvm_type
  d_params :: "llvm_type list"
  d_attrs :: "llvm_attr list"
  d_param_attrs :: "(nat \<times> llvm_attr) list"

definition Func_callDataCopy :: eei_decl where
  "Func_callDataCopy =
     \<lparr>d_name = ''ethereum.callDataCopy'', d_module = ''ethereum'', d_import = ''callDataCopy'',
      d_result = VoidTy, d_params = [Int8PtrTy, Int32Ty, Int32Ty],
      d_attrs = [WriteOnly, NoUnwind], d_param_attrs = [(0, WriteOnly)]\<rparr>"

definition Func_call :: eei_decl where
  "Func_call =
     \<lparr>d_name = ''ethereum.call'', d_module = ''ethereum'', d_import = ''call'',
      d_result = Int32Ty, d_params = [Int64Ty, AddressPtrTy, Int32PtrTy, Int8PtrTy, Int32Ty],
      d_attrs = [NoUnwind], d_param_attrs = [(1, ReadOnly), (2, ReadOnly), (3, ReadOnly)]\<rparr>"

definition Func_callCode :: eei_decl where
  "Func_callCode =
     \<lparr>d_name = ''ethereum.callCode'', d_module = ''ethereum'', d_import = ''callCode'',
      d_result = Int32Ty, d_params = [Int64Ty, AddressPtrTy, Int32PtrTy, Int8PtrTy, Int32Ty],
      d_attrs = [NoUnwind], d_param_attrs = [(1, ReadOnly), (2, ReadOnly), (3, ReadOnly)]\<rparr>"

definition Func_callStatic :: eei_decl where
  "Func_callStatic =
     \<lparr>d_name = ''ethereum.callStatic'', d_module = ''ethereum'', d_import = ''callStatic'',
      d_result = Int32Ty, d_params = [Int64Ty, AddressPtrTy, Int8PtrTy, Int32Ty],
      d_attrs = [NoUnwind], d_param_attrs = [(1, ReadOnly), (2, ReadOnly)]\<rparr>"

definition Func_callDelegate :: eei_decl where
  "Func_callDelegate =
     \<lparr>d_name = ''ethereum.callDelegate'', d_module = ''ethereum'', d_import = ''callDelegate'',
      d_result = Int32Ty, d_params = [Int64Ty, AddressPtrTy, Int8PtrTy, Int32Ty],
      d_attrs = [NoUnwind], d_param_attrs = [(1, ReadOnly), (2, ReadOnly)]\<rparr>"

definition Func_create :: eei_decl where
  "Func_create =
     \<lparr>d_name = ''ethereum.create'', d_module = ''ethereum'', d_import = ''create'',
      d_result = Int32Ty, d_params = [Int32PtrTy, Int32PtrTy, Int32Ty, Int32PtrTy],
      d_attrs = [NoUnwind], d_param_attrs = [(0, ReadOnly), (1, ReadOnly)]\<rparr>"

definition Func_create2 :: eei_decl where
  "Func_create2 =
     \<lparr>d_name = ''ethereum.create2'', d_module = ''ethereum'', d_import = ''create2'',
      d_result = Int32Ty, d_params = [Int32PtrTy, Int32PtrTy, Int32Ty, Int32PtrTy, Int32PtrTy],
      d_attrs = [], d_param_attrs = []\<rparr>"

definition Func_finish :: eei_decl where
  "Func_finish =
     \<lparr>d_name = ''ethereum.finish'', d_module = ''ethereum'', d_import = ''finish'',
      d_result = VoidTy, d_params = [Int8PtrTy, Int32Ty],
      d_attrs = [WriteOnly, NoUnwind], d_param_attrs = [(0, ReadOnly)]\<rparr>"

definition Func_getCallDataSize :: eei_decl where
  "Func_getCallDataSize =
     \<lparr>d_name = ''ethereum.getCallDataSize'', d_module = ''ethereum'', d_import = ''getCallDataSize'',
      d_result = Int32Ty, d_params = [],
      d_attrs = [ReadOnly, NoUnwind], d_param_attrs = []\<rparr>"

definition Func_getCallValue :: eei_decl where
  "Func_getCallValue =
     \<lparr>d_name = ''ethereum.getCallValue'', d_module = ''ethereum'', d_import = ''getCallValue'',
      d_result = VoidTy, d_params = [Int128PtrTy],
      d_attrs = [], d_param_attrs = []\<rparr>"

definition Func_getCaller :: eei_decl where
  "Func_getCaller =
     \<lparr>d_name = ''ethereum.getCaller'', d_module = ''ethereum'', d_import = ''getCaller'',
      d_result = VoidTy, d_params = [Int32PtrTy],
      d_attrs = [ArgMemOnly, NoUnwind], d_param_attrs = [(0, WriteOnly)]\<rparr>"

definition Func_codeCopy :: eei_decl where
  "Func_codeCopy =
     \<lparr>d_name = ''ethereum.codeCopy'', d_module = ''ethereum'', d_import = ''codeCopy'',
      d_result = VoidTy, d_params = [Int8PtrTy, Int32Ty, Int32Ty],
      d_attrs = [ArgMemOnly, NoUnwind], d_param_attrs = [(0, WriteOnly)]\<rparr>"

definition Func_externalCodeCopy :: eei_decl where
  "Func_externalCodeCopy =
     \<lparr>d_name = ''ethereum.externalCodeCopy'', d_module = ''ethereum'', d_import = ''externalCodeCopy'',
      d_result = VoidTy, d_params = [Int32PtrTy, Int32PtrTy, Int32Ty, Int32Ty],
      d_attrs = [ArgMemOnly, NoUnwind], d_param_attrs = []\<rparr>"

definition Func_getGasLeft :: eei_decl where
  "Func_getGasLeft =
     \<lparr>d_name = ''ethereum.getGasLeft'', d_module = ''ethereum'', d_import = ''getGasLeft'',
      d_result = Int64Ty, d_params = [],
      d_attrs = [NoUnwind], d_param_attrs = []\<rparr>"

definition Func_log :: eei_decl where
  "Func_log =
     \<lparr>d_name = ''ethereum.log'', d_module = ''ethereum'', d_import = ''log'',
      d_result = VoidTy, d_params = [Int32PtrTy, Int32Ty, Int32Ty, Int32PtrTy, Int32PtrTy, Int32PtrTy, Int32PtrTy],
      d_attrs = [NoUnwind], d_param_attrs = [(0, ReadOnly), (3, ReadOnly), (4, ReadOnly), (5, ReadOnly), (6, ReadOnly)]\<rparr>"

definition Func_returnDataSize :: eei_decl where
  "Func_returnDataSize =
     \<lparr>d_name = ''ethereum.returnDataSize'', d_module = ''ethereum'', d_import = ''returnDataSize'',
      d_result = Int32Ty, d_params = [],
      d_attrs = [], d_param_attrs = []\<rparr>"

definition Func_returnDataCopy :: eei_decl where
  "Func_returnDataCopy =
     \<lparr>d_name = ''ethereum.returnDataCopy'', d_module = ''ethereum'', d_import = ''returnDataCopy'',
      d_result = VoidTy, d_params = [Int8PtrTy, Int32Ty, Int32Ty],
      d_attrs = [NoUnwind], d_param_attrs = [(0, WriteOnly)]\<rparr>"

definition Func_revert :: eei_decl where
  "Func_revert =
     \<lparr>d_name = ''ethereum.revert'', d_module = ''ethereum'', d_import = ''revert'',
      d_result = VoidTy, d_params = [Int8PtrTy, Int32Ty],
      d_attrs = [WriteOnly, NoUnwind], d_param_attrs = [(0, ReadOnly)]\<rparr>"

definition Func_selfDestruct :: eei_decl where
  "Func_selfDestruct =
     \<lparr>d_name = ''ethereum.selfDestruct'', d_module = ''ethereum'', d_import = ''selfDestruct'',
      d_result = VoidTy, d_params = [Int32PtrTy],
      d_attrs = [NoUnwind], d_param_attrs = [(0, ReadOnly)]\<rparr>"

definition Func_storageLoad :: eei_decl where
  "Func_storageLoad =
     \<lparr>d_name = ''ethereum.storageLoad'', d_module = ''ethereum'', d_import = ''storageLoad'',
      d_result = VoidTy, d_params = [Int32PtrTy, Int32PtrTy],
      d_attrs = [NoUnwind], d_param_attrs = [(0, ReadOnly), (1, WriteOnly)]\<rparr>"

definition Func_storageStore :: eei_decl where
  "Func_storageStore =
     \<lparr>d_name = ''ethereum.storageStore'', d_module = ''ethereum'', d_import = ''storageStore'',
      d_result = VoidTy, d_params = [Int32PtrTy, Int32PtrTy],
      d_attrs = [NoUnwind], d_param_attrs = [(0, ReadOnly), (1, ReadOnly)]\<rparr>"

definition Func_getTxGasPrice :: eei_decl where
  "Func_getTxGasPrice =
     \<lparr>d_name = ''ethereum.getTxGasPrice'', d_module = ''ethereum'', d_import = ''getTxGasPrice'',
      d_result = VoidTy, d_params = [Int32PtrTy],
      d_attrs = [], d_param_attrs = []\<rparr>"

definition Func_getTxOrigin :: eei_decl where
  "Func_getTxOrigin =
     \<lparr>d_name = ''ethereum.getTxOrigin'', d_module = ''ethereum'', d_import = ''getTxOrigin'',
      d_result = VoidTy, d_params = [Int32PtrTy],
      d_attrs = [], d_param_attrs = []\<rparr>"

definition Func_getBlockCoinbase :: eei_decl where
  "Func_getBlockCoinbase =
     \<lparr>d_name = ''ethereum.getBlockCoinbase'', d_module = ''ethereum'', d_import = ''getBlockCoinbase'',
      d_result = VoidTy, d_params = [Int32PtrTy],
      d_attrs = [], d_param_attrs = []\<rparr>"

definition Func_getBlockDifficulty :: eei_decl where
  "Func_getBlockDifficulty =
     \<lparr>d_name = ''ethereum.getBlockDifficulty'', d_module = ''ethereum'', d_import = ''getBlockDifficulty'',
      d_result = VoidTy, d_params = [Int32PtrTy],
      d_attrs = [], d_param_attrs = []\<rparr>"

definition Func_getBlockGasLimit :: eei_decl where
  "Func_getBlockGasLimit =
     \<lparr>d_name = ''ethereum.getBlockGasLimit'', d_module = ''ethereum'', d_import = ''getBlockGasLimit'',
      d_result = Int64Ty, d_params = [],
      d_attrs = [], d_param_attrs = []\<rparr>"

definition Func_getBlockNumber :: eei_decl where
  "Func_getBlockNumber =
     \<lparr>d_name = ''ethereum.getBlockNumber'', d_module = ''ethereum'', d_import = ''getBlockNumber'',
      d_result = Int64Ty, d_params = [],
      d_attrs = [], d_param_attrs = []\<rparr>"

definition Func_getBlockTimestamp :: eei_decl where
  "Func_getBlockTimestamp =
     \<lparr>d_name = ''ethereum.getBlockTimestamp'', d_module = ''ethereum'', d_import = ''getBlockTimestamp'',
      d_result = Int64Ty, d_params = [],
      d_attrs = [], d_param_attrs = []\<rparr>"

definition Func_getBlockHash :: eei_decl where
  "Func_getBlockHash =
     \<lparr>d_name = ''ethereum.getBlockHash'', d_module = ''ethereum'', d_import = ''getBlockHash'',
      d_result = Int32Ty, d_params = [Int64Ty, Int32PtrTy],
      d_attrs = [], d_param_attrs = []\<rparr>"

definition Func_getExternalBalance :: eei_decl where
  "Func_getExternalBalance =
     \<lparr>d_name = ''ethereum.getExternalBalance'', d_module = ''ethereum'', d_import = ''getExternalBalance'',
      d_result = VoidTy, d_params = [Int32PtrTy, Int32PtrTy],
      d_attrs = [], d_param_attrs = []\<rparr>"

definition Func_getAddress :: eei_decl where
  "Func_getAddress =
     \<lparr>d_name = ''ethereum.getAddress'', d_module = ''ethereum'', d_import = ''getAddress'',
      d_result = VoidTy, d_params = [Int32PtrTy],
      d_attrs = [], d_param_attrs = []\<rparr>"

definition Func_getCodeSize :: eei_decl where
  "Func_getCodeSize =
     \<lparr>d_name = ''ethereum.getCodeSize'', d_module = ''ethereum'', d_import = ''getCodeSize'',
      d_result = Int32Ty, d_params = [],
      d_attrs = [], d_param_attrs = []\<rparr>"

definition Func_getExternalCodeSize :: eei_decl where
  "Func_getExternalCodeSize =
     \<lparr>d_name = ''ethereum.getExternalCodeSize'', d_module = ''ethereum'', d_import = ''getExternalCodeSize'',
      d_result = Int32Ty, d_params = [Int32PtrTy],
      d_attrs = [], d_param_attrs = []\<rparr>"

definition Func_getReturnDataSize :: eei_decl where
  "Func_getReturnDataSize =
     \<lparr>d_name = ''ethereum.getReturnDataSize'', d_module = ''ethereum'', d_import = ''getReturnDataSize'',
      d_result = Int32Ty, d_params = [],
      d_attrs = [], d_param_attrs = []\<rparr>"

definition Func_getBasefee :: eei_decl where
  "Func_getBasefee =
     \<lparr>d_name = ''ethereum.getBasefee'', d_module = ''ethereum'', d_import = ''getBasefee'',
      d_result = Int64Ty, d_params = [],
      d_attrs = [], d_param_attrs = []\<rparr>"

definition Func_getChainID :: eei_decl where
  "Func_getChainID =
     \<lparr>d_name = ''ethereum.getChainID'', d_module = ''ethereum'', d_import = ''getChainID'',
      d_result = Int64Ty, d_params = [],
      d_attrs = [], d_param_attrs = []\<rparr>"

definition Func_getSelfBalance :: eei_decl where
  "Func_getSelfBalance =
     \<lparr>d_name = ''ethereum.getSelfBalance'', d_module = ''ethereum'', d_import = ''getSelfBalance'',
      d_result = VoidTy, d_params = [Int32PtrTy],
      d_attrs = [], d_param_attrs = []\<rparr>"

definition Func_getExternalCodeHash :: eei_decl where
  "Func_getExternalCodeHash =
     \<lparr>d_name = ''ethereum.getExternalCodeHash'', d_module = ''ethereum'', d_import = ''getExternalCodeHash'',
      d_result = VoidTy, d_params = [Int32PtrTy, Int32PtrTy],
      d_attrs = [], d_param_attrs = []\<rparr>"

definition initEEIDeclaration :: "eei_decl list" where
  "initEEIDeclaration =
    [Func_callDataCopy, Func_call, Func_callCode, Func_callStatic,
     Func_callDelegate, Func_create, Func_create2, Func_finish,
     Func_getCallDataSize, Func_getCallValue, Func_getCaller, Func_codeCopy,
     Func_externalCodeCopy, Func_getGasLeft, Func_log, Func_returnDataSize,
     Func_returnDataCopy, Func_revert, Func_selfDestruct, Func_storageLoad,
     Func_storageStore, Func_getTxGasPrice, Func_getTxOrigin, Func_getBlockCoinbase,
     Func_getBlockDifficulty, Func_getBlockGasLimit, Func_getBlockNumber, Func_getBlockTimestamp,
     Func_getBlockHash, Func_getExternalBalance, Func_getAddress, Func_getCodeSize,
     Func_getExternalCodeSize, Func_getReturnDataSize, Func_getBasefee, Func_getChainID,
     Func_getSelfBalance, Func_getExternalCodeHash]"

lemmas decl_defs =
  Func_callDataCopy_def Func_call_def Func_callCode_def Func_callStatic_def Func_callDelegate_def
  Func_create_def Func_create2_def Func_finish_def Func_getCallDataSize_def Func_getCallValue_def
  Func_getCaller_def Func_codeCopy_def Func_externalCodeCopy_def Func_getGasLeft_def Func_log_def
  Func_returnDataSize_def Func_returnDataCopy_def Func_revert_def Func_selfDestruct_def Func_storageLoad_def
  Func_storageStore_def Func_getTxGasPrice_def Func_getTxOrigin_def Func_getBlockCoinbase_def
  Func_getBlockDifficulty_def Func_getBlockGasLimit_def Func_getBlockNumber_def Func_getBlockTimestamp_def
  Func_getBlockHash_def Func_getExternalBalance_def Func_getAddress_def Func_getCodeSize_def
  Func_getExternalCodeSize_def Func_getReturnDataSize_def Func_getBasefee_def Func_getChainID_def
  Func_getSelfBalance_def Func_getExternalCodeHash_def

section \<open>Copying memory (initMemcpy)\<close>

text \<open>
  The emitted function solidity.memcpy, one round of its block loop per call: load, store, step
  both pointers and count down. Length zero skips the loop; the loop tests after the step.
\<close>

partial_function (option) memcpy_loop :: "u32 \<Rightarrow> u32 \<Rightarrow> u32 \<Rightarrow> byte list \<Rightarrow> byte list option option" where
  "memcpy_loop dst src len mem =
     (if length mem \<le> unat src \<or> length mem \<le> unat dst then Some None
      else
        (let mem = mem[unat dst := mem ! unat src]; len2 = len - 1
         in if len2 \<noteq> 0 then memcpy_loop (dst + 1) (src + 1) len2 mem else Some (Some mem)))"

definition solidity_memcpy :: "u32 \<Rightarrow> u32 \<Rightarrow> u32 \<Rightarrow> byte list \<Rightarrow> byte list option option" where
  "solidity_memcpy dst src len mem = (if len \<noteq> 0 then memcpy_loop dst src len mem else Some (Some mem))"

section \<open>Types\<close>

fun lower_type :: "llvm_type \<Rightarrow> wasm_type list" where
  "lower_type VoidTy = []"
| "lower_type Int64Ty = [T_I64]"
| "lower_type t = [T_I32]"

definition decl_sig :: "eei_decl \<Rightarrow> import_sig" where
  "decl_sig d = (d_import d, concat (map lower_type (d_params d)), lower_type (d_result d))"

lemma declared_sigs: "set (map decl_sig initEEIDeclaration) - set wabt_exports =
    {(''returnDataSize'', [], [T_I32]), (''getBasefee'', [], [T_I64]), (''getChainID'', [], [T_I64]),
     (''getSelfBalance'', [T_I32], []), (''getExternalCodeHash'', [T_I32, T_I32], [])}"
  by (simp add: initEEIDeclaration_def decl_defs decl_sig_def wabt_exports_def wabt_exports1_def wabt_exports2_def
      wabt_exports3_def insert_Diff_if insert_commute)

lemma undeclared_sigs: "set wabt_exports - set (map decl_sig initEEIDeclaration) = {(''useGas'', [T_I64], [])}"
  by (simp add: initEEIDeclaration_def decl_defs decl_sig_def wabt_exports_def wabt_exports1_def wabt_exports2_def
      wabt_exports3_def insert_Diff_if)

section \<open>The copy loop\<close>

lemma unat_pred: "(w :: u32) \<noteq> 0 \<Longrightarrow> unat (w - 1) = unat w - 1"
  by (rule unat_minus_one)

lemma memcpy_loop_returns: "len \<noteq> 0 \<Longrightarrow> \<exists>r. memcpy_loop dst src len mem = Some r"
proof (induction "unat len" arbitrary: dst src len mem rule: less_induct)
  case less
  show ?case
  proof (cases "len - 1 = 0")
    case False
    have "unat (len - 1) < unat len" using unat_pred [OF less.prems] less.prems by (simp add: unat_gt_0)
    from less.hyps [OF this False] show ?thesis by (subst memcpy_loop.simps) (auto simp: Let_def)
  qed (subst memcpy_loop.simps, auto simp: Let_def)
qed

lemma unat_next: "Suc (unat (w :: u32)) < 2 ^ 32 \<Longrightarrow> unat (w + 1) = Suc (unat w)"
  by (simp add: unat_plus_if')

lemma memcpy_loop_nth:
  assumes "unat len = Suc n" "unat dst + Suc n \<le> length mem" "unat src + Suc n \<le> length mem"
    and "length mem \<le> 2 ^ 32" "dst \<le> src \<or> unat src + Suc n \<le> unat dst"
  shows "\<exists>mem'. memcpy_loop dst src len mem = Some (Some mem') \<and> length mem' = length mem
    \<and> (\<forall>i < length mem. mem' ! i =
         (if unat dst \<le> i \<and> i < unat dst + Suc n then mem ! (unat src + (i - unat dst)) else mem ! i))"
  using assms
proof (induction n arbitrary: dst src len mem)
  case 0
  then have "len - 1 = 0" by (metis One_nat_def diff_Suc_1 unat_eq_zero unat_pred zero_neq_one unat_0)
  with 0 show ?case by (subst memcpy_loop.simps) (auto simp: Let_def nth_list_update)
next
  case (Suc n)
  have "len \<noteq> 0" using Suc.prems(1) by auto
  then have l: "unat (len - 1) = Suc n" using unat_pred [of len] Suc.prems(1) by simp
  then have "len - 1 \<noteq> 0" by auto
  have d: "unat (dst + 1) = Suc (unat dst)" and s: "unat (src + 1) = Suc (unat src)"
    using Suc.prems by (auto intro!: unat_next)
  let ?mem = "mem[unat dst := mem ! unat src]"
  have o: "dst + 1 \<le> src + 1 \<or> unat (src + 1) + Suc n \<le> unat (dst + 1)"
    using Suc.prems(5) d s by (auto simp: word_le_nat_alt)
  from Suc.IH [of "len - 1" "dst + 1" ?mem "src + 1"] l d s o Suc.prems obtain mem' where
    m: "memcpy_loop (dst + 1) (src + 1) (len - 1) ?mem = Some (Some mem')" "length mem' = length mem"
    "\<forall>i < length mem. mem' ! i = (if Suc (unat dst) \<le> i \<and> i < Suc (unat dst) + Suc n
       then ?mem ! (Suc (unat src) + (i - Suc (unat dst))) else ?mem ! i)"
    by auto
  have "memcpy_loop dst src len mem = Some (Some mem')"
    using m(1) \<open>len - 1 \<noteq> 0\<close> Suc.prems by (subst memcpy_loop.simps) (auto simp: Let_def)
  moreover have "mem' ! i = (if unat dst \<le> i \<and> i < unat dst + Suc (Suc n) then mem ! (unat src + (i - unat dst)) else mem ! i)"
    if i: "i < length mem" for i
  proof (cases "Suc (unat dst) \<le> i \<and> i < Suc (unat dst) + Suc n")
    case True
    then have "Suc (unat src) + (i - Suc (unat dst)) = unat src + (i - unat dst)" by linarith
    moreover have "unat src + (i - unat dst) \<noteq> unat dst"
      using True Suc.prems(5) by (auto simp: word_le_nat_alt)
    ultimately show ?thesis using True m(3) i by auto
  next
    case False
    then show ?thesis using m(3) i Suc.prems by (auto simp: nth_list_update)
  qed
  ultimately show ?case using m(2) by blast
qed


text \<open>
  C35: the emitted copy loop ends for all arguments, and copies the source bytes to the
  destination when both ranges lie in the memory and the destination does not start inside the source.
\<close>

theorem memcpy_correct:
  assumes "length mem \<le> 2 ^ 32"
  shows "(\<exists>r. solidity_memcpy dst src len mem = Some r)
    \<and> (unat dst + unat len \<le> length mem \<and> unat src + unat len \<le> length mem
        \<and> (dst \<le> src \<or> unat src + unat len \<le> unat dst) \<longrightarrow>
       solidity_memcpy dst src len mem =
         Some (Some (put_segment (unat dst) (segment (unat src) (unat len) mem) mem)))"
proof (cases "unat len")
  case 0
  then have "len = 0" by (simp add: unat_eq_0)
  then show ?thesis by (simp add: solidity_memcpy_def put_segment_def segment_def)
next
  case (Suc n)
  then have l: "len \<noteq> 0" by auto
  have "solidity_memcpy dst src len mem = Some (Some (put_segment (unat dst) (segment (unat src) (unat len) mem) mem))"
    if b: "unat dst + unat len \<le> length mem" "unat src + unat len \<le> length mem"
      and o: "dst \<le> src \<or> unat src + unat len \<le> unat dst"
  proof -
    from memcpy_loop_nth [OF Suc _ _ assms, of dst src] b o Suc obtain mem' where
      m: "memcpy_loop dst src len mem = Some (Some mem')" "length mem' = length mem"
      "\<forall>i < length mem. mem' ! i = (if unat dst \<le> i \<and> i < unat dst + Suc n then mem ! (unat src + (i - unat dst)) else mem ! i)"
      by auto
    have "mem' = put_segment (unat dst) (segment (unat src) (unat len) mem) mem"
      using m(2,3) b Suc by (intro nth_equalityI) (auto simp: nth_put_segment segment_nth)
    then show ?thesis using m(1) l by (simp add: solidity_memcpy_def)
  qed
  then show ?thesis using memcpy_loop_returns [OF l, of dst src mem] l by (auto simp: solidity_memcpy_def)
qed

theorem memcpy_correct_witness: "solidity_memcpy 0 2 2 [1, 2, 3, 4] = Some (Some [3, 4, 3, 4])"
proof -
  have "length [1, 2, 3, 4 :: byte] \<le> 2 ^ 32" by simp
  from memcpy_correct [OF this, of 0 2 2] show ?thesis by (simp add: put_segment_def segment_def)
qed

end
