(* ===== verification/Codegen.thy ===== *)
theory Codegen
  imports Blocks Llvm
begin

text \<open>
  The code generator for one basic block (WASMCompiler::compileBasicBlock) and its symbolic
  stack (GlobalStack, with enableRegs set: the stack is the vector m\_local of LLVM values,
  its last element the top). Each case of the switch over opcodes that emits plain integer
  instructions, or only moves values on the stack, is a definition of its own, in the order
  of the source. The state carries, beside the stack, the program counters attached to
  instructions as metadata and the cases added to the jump table. The cases that emit memory
  accesses, host calls and branches are not part of this fragment: they give the error
  \<open>NotModelled\<close>, and no theorem speaks about a block that reaches them.
\<close>

section \<open>The stack\<close>

record 'v Gen =
  m_local :: "'v list"
  bytecodePC :: "('v \<times> nat) list"
  jumpTable :: "nat list"

datatype cg_error = CastToInstruction | JumpdestNotFirst | ReadPushOfNonPush | NotModelled Instruction

type_synonym 'v cg_result = "cg_error + 'v Gen"

abbreviation Word :: nat where "Word \<equiv> 256"
abbreviation Size :: nat where "Size \<equiv> 64"

definition stack_push :: "'v \<Rightarrow> 'v Gen \<Rightarrow> 'v Gen" where
  "stack_push v g = g\<lparr>m_local := m_local g @ [v]\<rparr>"

definition stack_pop :: "'v IRBuilder \<Rightarrow> 'v Gen \<Rightarrow> 'v \<times> 'v Gen" where
  "stack_pop B g =
     (if m_local g = [] then (constInt B Word 0, g)
      else (last (m_local g), g\<lparr>m_local := butlast (m_local g)\<rparr>))"

definition stack_dup :: "'v IRBuilder \<Rightarrow> nat \<Rightarrow> 'v Gen \<Rightarrow> 'v Gen" where
  "stack_dup B index g =
     (let n = length (m_local g) in
      if n \<le> index then stack_push (constInt B Word 0) g
      else stack_push (m_local g ! (n - 1 - index)) g)"

definition stack_swap :: "'v IRBuilder \<Rightarrow> nat \<Rightarrow> 'v Gen \<Rightarrow> 'v Gen" where
  "stack_swap B index g =
     (let l = m_local g; n = length l in
      if n \<le> index + 1 then g\<lparr>m_local := l @ replicate (index + 2 - n) (constInt B Word 0)\<rparr>
      else (let srcVal = l ! (n - 1 - (index + 1)); dstVal = l ! (n - 1); lastIdx = n - 1
            in g\<lparr>m_local := l[lastIdx - (index + 1) := dstVal, lastIdx := srcVal]\<rparr>))"

section \<open>Shared steps of the cases\<close>

text \<open>Operands of different types are widened to the type Word.\<close>

definition widen :: "'v IRBuilder \<Rightarrow> 'v \<Rightarrow> 'v \<Rightarrow> 'v \<times> 'v" where
  "widen B lhs rhs =
     (if typeOf B lhs \<noteq> typeOf B rhs then (createZExt B lhs Word, createZExt B rhs Word) else (lhs, rhs))"

text \<open>The cast of the result to an instruction and the metadata set on it.\<close>

definition attachPC :: "'v IRBuilder \<Rightarrow> nat \<Rightarrow> 'v \<Rightarrow> 'v Gen \<Rightarrow> 'v cg_result" where
  "attachPC B pc v g =
     (if isInst B v then Inr (g\<lparr>bytecodePC := bytecodePC g @ [(v, pc)]\<rparr>) else Inl CastToInstruction)"

definition push_attach :: "'v IRBuilder \<Rightarrow> nat \<Rightarrow> 'v \<Rightarrow> 'v Gen \<Rightarrow> 'v cg_result" where
  "push_attach B pc v g = attachPC B pc v (stack_push v g)"

section \<open>The cases of the switch\<close>

definition case_ADD :: "'v IRBuilder \<Rightarrow> nat \<Rightarrow> 'v Gen \<Rightarrow> 'v cg_result" where
  "case_ADD B pc g =
     (let (lhs, g) = stack_pop B g; (rhs, g) = stack_pop B g;
          (lhs, rhs) = widen B lhs rhs
      in push_attach B pc (createBin B Add lhs rhs) g)"

definition case_SUB :: "'v IRBuilder \<Rightarrow> nat \<Rightarrow> 'v Gen \<Rightarrow> 'v cg_result" where
  "case_SUB B pc g =
     (let (lhs, g) = stack_pop B g; (rhs, g) = stack_pop B g;
          (lhs, rhs) = widen B lhs rhs
      in push_attach B pc (createBin B Sub lhs rhs) g)"

text \<open>In the case of different types the second operand is overwritten with the first.\<close>

definition case_MUL :: "'v IRBuilder \<Rightarrow> nat \<Rightarrow> 'v Gen \<Rightarrow> 'v cg_result" where
  "case_MUL B pc g =
     (let (lhs, g) = stack_pop B g; (rhs, g) = stack_pop B g;
          (lhs, rhs) = (if typeOf B lhs \<noteq> typeOf B rhs
                        then (let lhs = createZExt B lhs Word; rhs = createZExt B lhs Word in (lhs, rhs))
                        else (lhs, rhs))
      in push_attach B pc (createBin B Mul lhs rhs) g)"

definition case_DIV :: "'v IRBuilder \<Rightarrow> nat \<Rightarrow> 'v Gen \<Rightarrow> 'v cg_result" where
  "case_DIV B pc g =
     (let (d, g) = stack_pop B g; (n, g) = stack_pop B g; (d, n) = widen B d n
      in push_attach B pc (createBin B UDiv d n) g)"

definition case_SDIV :: "'v IRBuilder \<Rightarrow> nat \<Rightarrow> 'v Gen \<Rightarrow> 'v cg_result" where
  "case_SDIV B pc g =
     (let (d, g) = stack_pop B g; (n, g) = stack_pop B g; (d, n) = widen B d n
      in push_attach B pc (createBin B SDiv d n) g)"

definition case_MOD :: "'v IRBuilder \<Rightarrow> nat \<Rightarrow> 'v Gen \<Rightarrow> 'v cg_result" where
  "case_MOD B pc g =
     (let (d, g) = stack_pop B g; (n, g) = stack_pop B g; (d, n) = widen B d n
      in push_attach B pc (createBin B URem d n) g)"

definition case_SMOD :: "'v IRBuilder \<Rightarrow> nat \<Rightarrow> 'v Gen \<Rightarrow> 'v cg_result" where
  "case_SMOD B pc g =
     (let (d, g) = stack_pop B g; (n, g) = stack_pop B g; (d, n) = widen B d n
      in push_attach B pc (createBin B SRem d n) g)"

definition case_ADDMOD :: "'v IRBuilder \<Rightarrow> nat \<Rightarrow> 'v Gen \<Rightarrow> 'v cg_result" where
  "case_ADDMOD B pc g =
     (let (a, g) = stack_pop B g; (b, g) = stack_pop B g; (m, g) = stack_pop B g;
          divByZero = createICmp B ICmpEQ m (constInt B Word 0);
          a = createZExt B a 512; b = createZExt B b 512; m = createZExt B m 512;
          p = createBin B NUWAdd a b; p = createBin B URem p m; p = createTrunc B p Word
      in push_attach B pc (createSelect B divByZero (constInt B Word 0) p) g)"

definition case_MULMOD :: "'v IRBuilder \<Rightarrow> nat \<Rightarrow> 'v Gen \<Rightarrow> 'v cg_result" where
  "case_MULMOD B pc g =
     (let (a, g) = stack_pop B g; (b, g) = stack_pop B g; (m, g) = stack_pop B g;
          divByZero = createICmp B ICmpEQ m (constInt B Word 0);
          a = createZExt B a 512; b = createZExt B b 512; m = createZExt B m 512;
          p = createBin B NUWMul a b; p = createBin B URem p m; p = createTrunc B p Word
      in push_attach B pc (createSelect B divByZero (constInt B Word 0) p) g)"

definition case_NOT :: "'v IRBuilder \<Rightarrow> nat \<Rightarrow> 'v Gen \<Rightarrow> 'v cg_result" where
  "case_NOT B pc g =
     (let (v, g) = stack_pop B g in push_attach B pc (createNot B v) g)"

definition case_LT :: "'v IRBuilder \<Rightarrow> nat \<Rightarrow> 'v Gen \<Rightarrow> 'v cg_result" where
  "case_LT B pc g =
     (let (lhs, g) = stack_pop B g; (rhs, g) = stack_pop B g;
          (lhs, rhs) = widen B lhs rhs
      in push_attach B pc (createZExt B (createICmp B ICmpULT lhs rhs) Word) g)"

definition case_GT :: "'v IRBuilder \<Rightarrow> nat \<Rightarrow> 'v Gen \<Rightarrow> 'v cg_result" where
  "case_GT B pc g =
     (let (lhs, g) = stack_pop B g; (rhs, g) = stack_pop B g;
          (lhs, rhs) = widen B lhs rhs
      in push_attach B pc (createZExt B (createICmp B ICmpUGT lhs rhs) Word) g)"

definition case_SLT :: "'v IRBuilder \<Rightarrow> nat \<Rightarrow> 'v Gen \<Rightarrow> 'v cg_result" where
  "case_SLT B pc g =
     (let (lhs, g) = stack_pop B g; (rhs, g) = stack_pop B g;
          (lhs, rhs) = widen B lhs rhs
      in push_attach B pc (createZExt B (createICmp B ICmpSLT lhs rhs) Word) g)"

definition case_SGT :: "'v IRBuilder \<Rightarrow> nat \<Rightarrow> 'v Gen \<Rightarrow> 'v cg_result" where
  "case_SGT B pc g =
     (let (lhs, g) = stack_pop B g; (rhs, g) = stack_pop B g;
          (lhs, rhs) = widen B lhs rhs
      in push_attach B pc (createZExt B (createICmp B ICmpSGT lhs rhs) Word) g)"

definition case_EQ :: "'v IRBuilder \<Rightarrow> nat \<Rightarrow> 'v Gen \<Rightarrow> 'v cg_result" where
  "case_EQ B pc g =
     (let (lhs, g) = stack_pop B g; (rhs, g) = stack_pop B g;
          (lhs, rhs) = widen B lhs rhs
      in push_attach B pc (createZExt B (createICmp B ICmpEQ lhs rhs) Word) g)"

definition case_ISZERO :: "'v IRBuilder \<Rightarrow> nat \<Rightarrow> 'v Gen \<Rightarrow> 'v cg_result" where
  "case_ISZERO B pc g =
     (let (top, g) = stack_pop B g; iszero = createICmp B ICmpEQ top (constInt B (typeOf B top) 0)
      in push_attach B pc (createZExt B iszero Word) g)"

definition case_AND :: "'v IRBuilder \<Rightarrow> nat \<Rightarrow> 'v Gen \<Rightarrow> 'v cg_result" where
  "case_AND B pc g =
     (let (lhs, g) = stack_pop B g; (rhs, g) = stack_pop B g;
          (lhs, rhs) = widen B lhs rhs
      in push_attach B pc (createBin B And lhs rhs) g)"

definition case_OR :: "'v IRBuilder \<Rightarrow> nat \<Rightarrow> 'v Gen \<Rightarrow> 'v cg_result" where
  "case_OR B pc g =
     (let (lhs, g) = stack_pop B g; (rhs, g) = stack_pop B g;
          (lhs, rhs) = widen B lhs rhs
      in push_attach B pc (createBin B Or lhs rhs) g)"

definition case_XOR :: "'v IRBuilder \<Rightarrow> nat \<Rightarrow> 'v Gen \<Rightarrow> 'v cg_result" where
  "case_XOR B pc g =
     (let (lhs, g) = stack_pop B g; (rhs, g) = stack_pop B g;
          (lhs, rhs) = widen B lhs rhs
      in push_attach B pc (createBin B Xor lhs rhs) g)"

definition case_SIGNEXTEND :: "'v IRBuilder \<Rightarrow> nat \<Rightarrow> 'v Gen \<Rightarrow> 'v cg_result" where
  "case_SIGNEXTEND B pc g =
     (let (idx, g) = stack_pop B g; (word, g) = stack_pop B g;
          k5 = createTrunc B idx 5; k32 = createZExt B k5 Size;
          k32x8 = createBin B Mul k32 (constInt B Size 8);
          bitpos = createBin B Add k32x8 (constInt B Size 7);
          bitposEx = createZExt B bitpos Word;
          bitval = createBin B LShr word bitposEx;
          bittest = createTrunc B bitval 1;
          maskBit = createBin B Shl (constInt B Word 1) bitposEx;
          mask = createBin B Sub maskBit (constInt B Word 1);
          negmask = createBin B Xor mask (constInt B Word (- 1));
          val1 = createBin B Or word negmask;
          val0 = createBin B And word mask;
          kInRange = createICmp B ICmpULE idx (constInt B Word 30)
      in push_attach B pc (createSelect B kInRange (createSelect B bittest val1 val0) word) g)"

definition case_SHL :: "'v IRBuilder \<Rightarrow> nat \<Rightarrow> 'v Gen \<Rightarrow> 'v cg_result" where
  "case_SHL B pc g =
     (let (shift, g) = stack_pop B g; (v, g) = stack_pop B g
      in push_attach B pc (createBin B Shl v shift) g)"

definition case_SHR :: "'v IRBuilder \<Rightarrow> nat \<Rightarrow> 'v Gen \<Rightarrow> 'v cg_result" where
  "case_SHR B pc g =
     (let (shift, g) = stack_pop B g; (v, g) = stack_pop B g
      in push_attach B pc (createBin B LShr v shift) g)"

definition case_SAR :: "'v IRBuilder \<Rightarrow> nat \<Rightarrow> 'v Gen \<Rightarrow> 'v cg_result" where
  "case_SAR B pc g =
     (let (shift, g) = stack_pop B g; (v, g) = stack_pop B g
      in push_attach B pc (createBin B AShr v shift) g)"

definition case_POP :: "'v IRBuilder \<Rightarrow> 'v Gen \<Rightarrow> 'v cg_result" where
  "case_POP B g = Inr (snd (stack_pop B g))"

definition case_DUP :: "'v IRBuilder \<Rightarrow> Instruction \<Rightarrow> 'v Gen \<Rightarrow> 'v cg_result" where
  "case_DUP B inst g = Inr (stack_dup B (unat inst - unat I_DUP1) g)"

definition case_SWAP :: "'v IRBuilder \<Rightarrow> Instruction \<Rightarrow> 'v Gen \<Rightarrow> 'v cg_result" where
  "case_SWAP B inst g = Inr (stack_swap B (unat inst - unat I_SWAP1) g)"

definition case_JUMPDEST :: "BasicBlock \<Rightarrow> nat \<Rightarrow> 'v Gen \<Rightarrow> 'v cg_result" where
  "case_JUMPDEST b it g =
     (if it = bb_begin b then Inr (g\<lparr>jumpTable := jumpTable g @ [firstInstrIdx b]\<rparr>)
      else Inl JumpdestNotFirst)"

definition case_PC :: "'v IRBuilder \<Rightarrow> BasicBlock \<Rightarrow> nat \<Rightarrow> nat \<Rightarrow> 'v Gen \<Rightarrow> 'v cg_result" where
  "case_PC B b it pc g =
     push_attach B pc (constInt B Word (int (it - bb_begin b + firstInstrIdx b))) g"

section \<open>The loop over the block\<close>

text \<open>One iteration, for an instruction other than a PUSH.\<close>

definition compile_op :: "'v IRBuilder \<Rightarrow> BasicBlock \<Rightarrow> nat \<Rightarrow> Instruction \<Rightarrow> 'v Gen \<Rightarrow> 'v cg_result" where
  "compile_op B b it inst g =
     (let pc = firstInstrIdx b + it - bb_begin b in
      if inst = I_ADD then case_ADD B pc g
      else if inst = I_SUB then case_SUB B pc g
      else if inst = I_MUL then case_MUL B pc g
      else if inst = I_DIV then case_DIV B pc g
      else if inst = I_SDIV then case_SDIV B pc g
      else if inst = I_MOD then case_MOD B pc g
      else if inst = I_SMOD then case_SMOD B pc g
      else if inst = I_ADDMOD then case_ADDMOD B pc g
      else if inst = I_MULMOD then case_MULMOD B pc g
      else if inst = I_NOT then case_NOT B pc g
      else if inst = I_LT then case_LT B pc g
      else if inst = I_GT then case_GT B pc g
      else if inst = I_SLT then case_SLT B pc g
      else if inst = I_SGT then case_SGT B pc g
      else if inst = I_EQ then case_EQ B pc g
      else if inst = I_ISZERO then case_ISZERO B pc g
      else if inst = I_AND then case_AND B pc g
      else if inst = I_OR then case_OR B pc g
      else if inst = I_XOR then case_XOR B pc g
      else if inst = I_SIGNEXTEND then case_SIGNEXTEND B pc g
      else if inst = I_SHL then case_SHL B pc g
      else if inst = I_SHR then case_SHR B pc g
      else if inst = I_SAR then case_SAR B pc g
      else if inst = I_POP then case_POP B g
      else if I_DUP1 \<le> inst \<and> inst \<le> I_DUP16 then case_DUP B inst g
      else if I_SWAP1 \<le> inst \<and> inst \<le> I_SWAP16 then case_SWAP B inst g
      else if inst = I_JUMPDEST then case_JUMPDEST b it g
      else if inst = I_PC then case_PC B b it pc g
      else Inl (NotModelled inst))"

function compileLoop ::
    "'v IRBuilder \<Rightarrow> byte list \<Rightarrow> BasicBlock \<Rightarrow> nat \<Rightarrow> 'v Gen \<Rightarrow> 'v cg_result" where
  "compileLoop B code b it g =
     (if bb_end b \<le> it then Inr g
      else if isPush (code ! it) then
        (case readPushData code it (bb_end b) of
           None \<Rightarrow> Inl ReadPushOfNonPush
         | Some (v, it') \<Rightarrow> compileLoop B code b (Suc it') (stack_push (constInt B Word (uint v)) g))
      else (case compile_op B b it (code ! it) g of
              Inl err \<Rightarrow> Inl err
            | Inr g' \<Rightarrow> compileLoop B code b (Suc it) g'))"
  by pat_completeness auto
termination
  by (relation "measure (\<lambda>(B, code, b, it, g). bb_end b - it)") (auto dest!: readPushData_ge)

declare compileLoop.simps [simp del]

definition compileBasicBlock :: "'v IRBuilder \<Rightarrow> byte list \<Rightarrow> BasicBlock \<Rightarrow> 'v Gen \<Rightarrow> 'v cg_result" where
  "compileBasicBlock B code b g = compileLoop B code b (bb_begin b) g"

end
