(* ===== verification/Host_Codegen.thy ===== *)
theory Host_Codegen
  imports Eei_Module Codegen
begin

text \<open>
  The cases of WASMCompiler::compileBasicBlock that access memory, call the environment or end
  a block, with emitEndianConvert of EEIModule.cpp. Here the emitted code itself is the state:
  a list of instructions in order, the result of an instruction being the register with its
  position. The builder's own checks and foldings are part of the model: a cast to the type a
  value already has gives the value, casts of constants fold, a store or a call whose types do
  not fit and a truncation to a wider type fail an assertion of LLVM, and so does the byte swap
  of a constant whose width is not a multiple of 16. Names of values are left out.
\<close>

section \<open>Emitted code\<close>

text \<open>An integer of the given width, or a pointer to one; a call without a result has width 0.\<close>

datatype lty = TInt nat | TPtr nat

datatype val = VReg nat | VConst nat int | VConstPtr nat int | VGlobal string nat

datatype inst =
    IParam nat
  | IBin binop nat val val
  | IICmp icmp_pred nat val val
  | ISelect val val val
  | IZExt nat val
  | ITrunc nat val
  | IIntToPtr nat val
  | IBitCast nat val
  | IExtractByte val val
  | IGep val val
  | IGepWord val val
  | IAlloca nat
  | ILoad nat val
  | IStore nat val val
  | ICall string "val list"

datatype hterm = TBr string | TCondBr val string string | TUnreachable

record hgen =
  h_code :: "(inst \<times> lty) list"
  h_stack :: "val list"
  h_pcs :: "(nat \<times> nat) list"
  h_term :: "hterm option"
  h_dest :: "val option"

datatype hcg_error = NotAnInstruction | BadTypes | BadTrunc | BadByteSwap

type_synonym 'a cg = "(hgen, hcg_error, 'a) eff"

definition val_type :: "hgen \<Rightarrow> val \<Rightarrow> lty" where
  "val_type g v =
     (case v of
        VReg i \<Rightarrow> (if i < length (h_code g) then snd (h_code g ! i) else TInt 0)
      | VConst w _ \<Rightarrow> TInt w
      | VConstPtr w _ \<Rightarrow> TPtr w
      | VGlobal _ w \<Rightarrow> TPtr w)"

definition typeOfV :: "val \<Rightarrow> lty cg" where
  "typeOfV v = getE (\<lambda>g. val_type g v)"

definition emit :: "inst \<Rightarrow> lty \<Rightarrow> val cg" where
  "emit i ty g = (Inr (VReg (length (h_code g))), g\<lparr>h_code := h_code g @ [(i, ty)]\<rparr>)"

section \<open>The builder\<close>

fun cast_const :: "lty \<Rightarrow> val \<Rightarrow> val option" where
  "cast_const (TInt w) (VConst _ n) = Some (VConst w (take_bit w n))"
| "cast_const (TPtr w) (VConst _ n) = Some (VConstPtr w (take_bit 32 n))"
| "cast_const (TPtr w) (VConstPtr _ n) = Some (VConstPtr w n)"
| "cast_const t v = None"

text \<open>Casts: nothing to do, folded, or emitted.\<close>

definition createCast :: "(val \<Rightarrow> inst) \<Rightarrow> lty \<Rightarrow> val \<Rightarrow> val cg" where
  "createCast mk ty v =
     bindE (typeOfV v) (\<lambda>t.
     if t = ty then returnE v
     else (case cast_const ty v of Some c \<Rightarrow> returnE c | None \<Rightarrow> emit (mk v) ty))"

definition createZExt :: "nat \<Rightarrow> val \<Rightarrow> val cg" where
  "createZExt w v =
     bindE (typeOfV v) (\<lambda>t. case t of
       TInt w' \<Rightarrow> if w' \<le> w then createCast (IZExt w) (TInt w) v else throwE BadTypes
     | TPtr _ \<Rightarrow> throwE BadTypes)"

definition createTrunc :: "nat \<Rightarrow> val \<Rightarrow> val cg" where
  "createTrunc w v =
     bindE (typeOfV v) (\<lambda>t. case t of
       TInt w' \<Rightarrow> if w \<le> w' then createCast (ITrunc w) (TInt w) v else throwE BadTrunc
     | TPtr _ \<Rightarrow> throwE BadTypes)"

definition createZExtOrTrunc :: "nat \<Rightarrow> val \<Rightarrow> val cg" where
  "createZExtOrTrunc w v =
     bindE (typeOfV v) (\<lambda>t. case t of
       TInt w' \<Rightarrow> if w' < w then createZExt w v else createTrunc w v
     | TPtr _ \<Rightarrow> throwE BadTypes)"

definition createIntToPtr :: "nat \<Rightarrow> val \<Rightarrow> val cg" where
  "createIntToPtr w v = createCast (IIntToPtr w) (TPtr w) v"

definition createBitCastPtr :: "nat \<Rightarrow> val \<Rightarrow> val cg" where
  "createBitCastPtr w v = createCast (IBitCast w) (TPtr w) v"

definition createAlloca :: "nat \<Rightarrow> val cg" where
  "createAlloca w = emit (IAlloca w) (TPtr w)"

definition createLoad :: "val \<Rightarrow> val cg" where
  "createLoad p =
     bindE (typeOfV p) (\<lambda>t. case t of TPtr w \<Rightarrow> emit (ILoad w p) (TInt w) | TInt _ \<Rightarrow> throwE BadTypes)"

definition createStore :: "val \<Rightarrow> val \<Rightarrow> unit cg" where
  "createStore v p =
     bindE (typeOfV v) (\<lambda>tv. bindE (typeOfV p) (\<lambda>tp.
     case (tv, tp) of
       (TInt w, TPtr w') \<Rightarrow> if w = w' then seqE (emit (IStore w v p) (TInt 0)) (returnE ()) else throwE BadTypes
     | _ \<Rightarrow> throwE BadTypes))"

definition createBin2 :: "binop \<Rightarrow> val \<Rightarrow> val \<Rightarrow> val cg" where
  "createBin2 op a b =
     bindE (typeOfV a) (\<lambda>ta. bindE (typeOfV b) (\<lambda>tb.
     case ta of
       TPtr _ \<Rightarrow> throwE BadTypes
     | TInt w \<Rightarrow>
         if tb \<noteq> ta then throwE BadTypes
         else
           (case (a, b) of
              (VConst _ x, VConst _ y) \<Rightarrow>
                if bin_defined op w x y then returnE (VConst w (bin_value op w x y)) else emit (IBin op w a b) (TInt w)
            | _ \<Rightarrow> emit (IBin op w a b) (TInt w))))"

definition createICmp2 :: "icmp_pred \<Rightarrow> val \<Rightarrow> val \<Rightarrow> val cg" where
  "createICmp2 p a b =
     bindE (typeOfV a) (\<lambda>ta. bindE (typeOfV b) (\<lambda>tb.
     case ta of
       TPtr _ \<Rightarrow> throwE BadTypes
     | TInt w \<Rightarrow>
         if tb \<noteq> ta then throwE BadTypes
         else
           (case (a, b) of
              (VConst _ x, VConst _ y) \<Rightarrow> returnE (VConst 1 (if icmp_value p w x y then 1 else 0))
            | _ \<Rightarrow> emit (IICmp p w a b) (TInt 1))))"

definition createSelect2 :: "val \<Rightarrow> val \<Rightarrow> val \<Rightarrow> val cg" where
  "createSelect2 c a b =
     bindE (typeOfV a) (\<lambda>ta. bindE (typeOfV b) (\<lambda>tb.
     if ta \<noteq> tb then throwE BadTypes
     else
       (case (c, a, b) of
          (VConst _ k, VConst _ _, VConst _ _) \<Rightarrow> returnE (if k = 1 then a else b)
        | _ \<Rightarrow> emit (ISelect c a b) ta)))"

fun lty_of :: "llvm_type \<Rightarrow> lty" where
  "lty_of VoidTy = TInt 0"
| "lty_of Int8PtrTy = TPtr 8"
| "lty_of Int32PtrTy = TPtr 32"
| "lty_of Int128PtrTy = TPtr 128"
| "lty_of AddressPtrTy = TPtr 160"
| "lty_of Int32Ty = TInt 32"
| "lty_of Int64Ty = TInt 64"

definition createCallTyped :: "string \<Rightarrow> lty list \<Rightarrow> lty \<Rightarrow> val list \<Rightarrow> val cg" where
  "createCallTyped name params res args =
     bindE (getE (\<lambda>g. map (val_type g) args)) (\<lambda>ts.
     if ts = params then emit (ICall name args) res else throwE BadTypes)"

definition createCall :: "eei_decl \<Rightarrow> val list \<Rightarrow> val cg" where
  "createCall d args = createCallTyped (d_name d) (map lty_of (d_params d)) (lty_of (d_result d)) args"

text \<open>Calls of the emitted functions bswapi256, keccak256 and memcpy.\<close>

definition call_bswap :: "val \<Rightarrow> val cg" where
  "call_bswap v = createCallTyped ''solidity.bswapi256'' [TInt 256] (TInt 256) [v]"

definition call_keccak256 :: "val \<Rightarrow> val \<Rightarrow> val cg" where
  "call_keccak256 p n = createCallTyped ''solidity.keccak256'' [TPtr 8, TInt 32] (TInt 256) [p, n]"

definition call_memcpy :: "val \<Rightarrow> val \<Rightarrow> val \<Rightarrow> val cg" where
  "call_memcpy d s n = createCallTyped ''solidity.memcpy'' [TPtr 8, TPtr 8, TInt 32] (TInt 0) [d, s, n]"

definition emitEndianConvert :: "val \<Rightarrow> val cg" where
  "emitEndianConvert v =
     (case v of
        VConst w n \<Rightarrow> (if w mod 16 = 0 \<and> 0 < w then returnE (VConst w (byte_swap (w div 8) n)) else throwE BadByteSwap)
      | _ \<Rightarrow>
          bindE (typeOfV v) (\<lambda>t. case t of
            TPtr _ \<Rightarrow> throwE BadTypes
          | TInt w \<Rightarrow>
              bindE (createZExtOrTrunc 256 v) (\<lambda>ext.
              bindE (if w \<noteq> 256 then createBin2 Shl ext (VConst 256 (256 - int w)) else returnE ext) (\<lambda>ext.
              bindE (call_bswap ext) (\<lambda>reversed.
              createTrunc w reversed)))))"

text \<open>
  The emitted function solidity.keccak256 (initPrebuiltContract): a static call of the contract
  at address 9, whose first 32 bytes of output are the result. Its parameters are the first two
  registers, the value of its return statement is the value of the generator.
\<close>

definition initPrebuiltContract :: "val cg" where
  "initPrebuiltContract =
     bindE (emit (IParam 0) (TPtr 8)) (\<lambda>Ptr.
     bindE (emit (IParam 1) (TInt 32)) (\<lambda>Length.
     bindE (createAlloca 160) (\<lambda>AddressPtr.
     seqE (createStore (VConst 160 (byte_swap 20 9)) AddressPtr)
     (bindE (createCall Func_getGasLeft []) (\<lambda>Fee.
      seqE (createCall Func_callStatic [Fee, AddressPtr, Ptr, Length])
      (bindE (createAlloca 256) (\<lambda>ResultPtr.
       bindE (createBitCastPtr 8 ResultPtr) (\<lambda>ResultVPtr.
       seqE (createCall Func_returnDataCopy [ResultVPtr, VConst 32 0, VConst 32 32])
            (createLoad ResultPtr)))))))))"

section \<open>The symbolic stack and the metadata\<close>

definition pop :: "val cg" where
  "pop g =
     (if h_stack g = [] then (Inr (VConst 256 0), g)
      else (Inr (last (h_stack g)), g\<lparr>h_stack := butlast (h_stack g)\<rparr>))"

definition push :: "val \<Rightarrow> unit cg" where
  "push v = modifyE (\<lambda>g. g\<lparr>h_stack := h_stack g @ [v]\<rparr>)"

definition setPC :: "nat \<Rightarrow> val \<Rightarrow> unit cg" where
  "setPC pc v =
     (case v of
        VReg i \<Rightarrow> modifyE (\<lambda>g. g\<lparr>h_pcs := h_pcs g @ [(i, pc)]\<rparr>)
      | _ \<Rightarrow> throwE NotAnInstruction)"

definition push_set :: "nat \<Rightarrow> val \<Rightarrow> unit cg" where
  "push_set pc v = seqE (push v) (setPC pc v)"

definition setTerm :: "hterm \<Rightarrow> unit cg" where
  "setTerm t = modifyE (\<lambda>g. g\<lparr>h_term := Some t\<rparr>)"

section \<open>Memory and storage\<close>

definition unlessType :: "lty \<Rightarrow> (val \<Rightarrow> val cg) \<Rightarrow> val \<Rightarrow> val cg" where
  "unlessType ty f v = bindE (typeOfV v) (\<lambda>t. if t \<noteq> ty then f v else returnE v)"

definition hc_BYTE :: "nat \<Rightarrow> unit cg" where
  "hc_BYTE pc =
     bindE pop (\<lambda>idx.
     bindE pop (\<lambda>w.
     bindE (emitEndianConvert w) (\<lambda>value.
     bindE (createICmp2 ICmpULT idx (VConst 256 32)) (\<lambda>idxValid.
     bindE (typeOfV value) (\<lambda>tv.
     seqE (ensureE (tv = TInt 256) BadTypes)
     (bindE (createTrunc 5 idx) (\<lambda>safeIdx.
      bindE (createZExt 64 safeIdx) (\<lambda>safeIdx.
      bindE (emit (IExtractByte value safeIdx) (TInt 8)) (\<lambda>byte.
      bindE (createZExt 256 byte) (\<lambda>value.
      bindE (createSelect2 idxValid value (VConst 256 0)) (\<lambda>value.
      push_set pc value)))))))))))"

definition hc_SHA3 :: "nat \<Rightarrow> unit cg" where
  "hc_SHA3 pc =
     bindE pop (\<lambda>inOff.
     bindE pop (\<lambda>inSize.
     bindE (unlessType (TPtr 8) (createIntToPtr 8) inOff) (\<lambda>inOff.
     bindE (unlessType (TInt 32) (createTrunc 32) inSize) (\<lambda>inSize.
     bindE (call_keccak256 inOff inSize) (\<lambda>hash.
     bindE (emitEndianConvert hash) (\<lambda>result.
     push_set pc result))))))"

definition hc_MLOAD :: "unit cg" where
  "hc_MLOAD =
     bindE pop (\<lambda>addr.
     bindE (unlessType (TPtr 256) (createIntToPtr 256) addr) (\<lambda>addr.
     bindE (createLoad addr) (\<lambda>word.
     bindE (emitEndianConvert word) (\<lambda>result.
     push result))))"

text \<open>The second test compares the type of the address, a pointer by then, so it always holds.\<close>

definition hc_MSTORE :: "unit cg" where
  "hc_MSTORE =
     bindE pop (\<lambda>addr.
     bindE pop (\<lambda>word.
     bindE (unlessType (TPtr 256) (createIntToPtr 256) addr) (\<lambda>addr.
     bindE (typeOfV addr) (\<lambda>ta.
     bindE (if ta \<noteq> TInt 256 then createZExt 256 word else returnE word) (\<lambda>word.
     bindE (emitEndianConvert word) (\<lambda>word.
     createStore word addr))))))"

definition hc_MSTORE8 :: "unit cg" where
  "hc_MSTORE8 =
     bindE pop (\<lambda>addr.
     bindE pop (\<lambda>word.
     bindE (unlessType (TPtr 8) (createIntToPtr 8) addr) (\<lambda>addr.
     bindE (unlessType (TInt 8) (createTrunc 8) word) (\<lambda>word.
     bindE (emitEndianConvert word) (\<lambda>word.
     createStore word addr)))))"

definition hc_MSIZE :: "unit cg" where
  "hc_MSIZE = bindE (createLoad (VGlobal ''memory.size'' 256)) push"

definition hc_SLOAD :: "nat \<Rightarrow> unit cg" where
  "hc_SLOAD pc =
     bindE pop (\<lambda>index.
     bindE (createAlloca 256) (\<lambda>AddressPtr.
     bindE (createAlloca 256) (\<lambda>ValPtr.
     bindE (emitEndianConvert index) (\<lambda>index.
     seqE (createStore index AddressPtr)
     (bindE (createBitCastPtr 32 AddressPtr) (\<lambda>ap.
      bindE (createBitCastPtr 32 ValPtr) (\<lambda>vp.
      seqE (createCall Func_storageLoad [ap, vp])
      (bindE (createLoad ValPtr) (\<lambda>value.
       bindE (emitEndianConvert value) (\<lambda>result.
       push_set pc result))))))))))"

definition hc_SSTORE :: "nat \<Rightarrow> unit cg" where
  "hc_SSTORE pc =
     bindE pop (\<lambda>index.
     bindE pop (\<lambda>value.
     bindE (unlessType (TInt 256) (createZExt 256) index) (\<lambda>index.
     bindE (unlessType (TInt 256) (createZExt 256) value) (\<lambda>value.
     bindE (createAlloca 256) (\<lambda>AddressPtr.
     bindE (createAlloca 256) (\<lambda>ValPtr.
     bindE (emitEndianConvert index) (\<lambda>index.
     seqE (createStore index AddressPtr)
     (bindE (emitEndianConvert value) (\<lambda>value.
      seqE (createStore value ValPtr)
      (bindE (createBitCastPtr 32 AddressPtr) (\<lambda>ap.
       bindE (createBitCastPtr 32 ValPtr) (\<lambda>vp.
       bindE (createCall Func_storageStore [ap, vp]) (\<lambda>callInst.
       setPC pc callInst)))))))))))))"

section \<open>Jumps\<close>

definition hc_JUMP :: "unit cg" where
  "hc_JUMP =
     bindE pop (\<lambda>idx.
     seqE (createStore idx (VGlobal ''target'' 256))
     (seqE (setTerm (TBr ''jumpTable'')) (modifyE (\<lambda>g. g\<lparr>h_dest := Some idx\<rparr>))))"

definition hc_JUMPI :: "unit cg" where
  "hc_JUMPI =
     bindE pop (\<lambda>idx.
     bindE pop (\<lambda>rawCond.
     bindE (typeOfV rawCond) (\<lambda>t. case t of
       TPtr _ \<Rightarrow> throwE BadTypes
     | TInt w \<Rightarrow>
         bindE (createICmp2 ICmpNE rawCond (VConst w 0)) (\<lambda>cond.
         seqE (createStore idx (VGlobal ''target'' 256))
         (seqE (setTerm (TCondBr cond ''jumpTable'' ''next''))
               (modifyE (\<lambda>g. g\<lparr>h_dest := Some idx\<rparr>)))))))"

section \<open>The environment\<close>

text \<open>A call without arguments whose 64-bit result is widened.\<close>

definition hc_query64 :: "eei_decl \<Rightarrow> nat \<Rightarrow> unit cg" where
  "hc_query64 d pc =
     bindE (createCall d []) (\<lambda>value.
     bindE (createZExt 256 value) (\<lambda>result.
     push_set pc result))"

definition hc_GAS :: "nat \<Rightarrow> unit cg" where "hc_GAS = hc_query64 Func_getGasLeft"
definition hc_GASLIMIT :: "nat \<Rightarrow> unit cg" where "hc_GASLIMIT = hc_query64 Func_getBlockGasLimit"
definition hc_CHAINID :: "nat \<Rightarrow> unit cg" where "hc_CHAINID = hc_query64 Func_getChainID"
definition hc_BASEFEE :: "nat \<Rightarrow> unit cg" where "hc_BASEFEE = hc_query64 Func_getBasefee"
definition hc_NUMBER :: "nat \<Rightarrow> unit cg" where "hc_NUMBER = hc_query64 Func_getBlockNumber"
definition hc_TIMESTAMP :: "nat \<Rightarrow> unit cg" where "hc_TIMESTAMP = hc_query64 Func_getBlockTimestamp"

text \<open>A call that writes its result to a fresh slot, which is then loaded.\<close>

definition slot_call :: "nat \<Rightarrow> eei_decl \<Rightarrow> (val \<times> val) cg" where
  "slot_call w d =
     bindE (createAlloca w) (\<lambda>ValPtr.
     bindE (createBitCastPtr 32 ValPtr) (\<lambda>destMemIdx.
     bindE (createCall d [destMemIdx]) (\<lambda>callInst.
     bindE (createLoad ValPtr) (\<lambda>value. returnE (callInst, value)))))"

definition hc_ADDRESS :: "nat \<Rightarrow> unit cg" where
  "hc_ADDRESS pc =
     bindE (slot_call 160 Func_getAddress) (\<lambda>(_, value).
     bindE (createZExt 256 value) (\<lambda>result. push_set pc result))"

definition hc_CALLER :: "nat \<Rightarrow> unit cg" where
  "hc_CALLER pc =
     bindE (slot_call 160 Func_getCaller) (\<lambda>(_, m_value).
     bindE (emitEndianConvert m_value) (\<lambda>value.
     bindE (createZExt 256 value) (\<lambda>result. push_set pc result)))"

definition hc_ORIGIN :: "nat \<Rightarrow> unit cg" where
  "hc_ORIGIN pc =
     bindE (slot_call 160 Func_getTxOrigin) (\<lambda>(callInst, m_value).
     bindE (emitEndianConvert m_value) (\<lambda>value.
     bindE (createZExt 256 value) (\<lambda>result. seqE (push result) (setPC pc callInst))))"

definition hc_COINBASE :: "nat \<Rightarrow> unit cg" where
  "hc_COINBASE pc =
     bindE (slot_call 160 Func_getBlockCoinbase) (\<lambda>(_, value).
     bindE (createZExt 256 value) (\<lambda>result. push_set pc result))"

definition hc_GASPRICE :: "nat \<Rightarrow> unit cg" where
  "hc_GASPRICE pc =
     bindE (slot_call 128 Func_getTxGasPrice) (\<lambda>(_, value).
     bindE (createZExt 256 value) (\<lambda>result. push_set pc result))"

definition hc_DIFFICULTY :: "nat \<Rightarrow> unit cg" where
  "hc_DIFFICULTY pc = bindE (slot_call 256 Func_getBlockDifficulty) (\<lambda>(_, value). push_set pc value)"

definition hc_SELFBALANCE :: "unit cg" where
  "hc_SELFBALANCE = bindE (slot_call 128 Func_getSelfBalance) (\<lambda>(_, value). push value)"

definition hc_CALLVALUE :: "nat \<Rightarrow> unit cg" where
  "hc_CALLVALUE pc =
     bindE (createAlloca 128) (\<lambda>ValPtr.
     seqE (createCall Func_getCallValue [ValPtr])
     (bindE (createLoad ValPtr) (\<lambda>value. push_set pc value)))"

definition hc_CODESIZE :: "byte list \<Rightarrow> unit cg" where
  "hc_CODESIZE bytecode = push (VConst 32 (take_bit 32 (int (length bytecode))))"

definition hc_CALLDATASIZE :: "unit cg" where
  "hc_CALLDATASIZE = bindE (createCall Func_getCallDataSize []) push"

definition hc_RETURNDATASIZE :: "unit cg" where
  "hc_RETURNDATASIZE = bindE (createCall Func_getReturnDataSize []) push"

definition hc_BLOCKHASH :: "nat \<Rightarrow> unit cg" where
  "hc_BLOCKHASH pc =
     bindE pop (\<lambda>number.
     bindE (createZExt 256 (VConst 64 int64_max)) (\<lambda>limit.
     bindE (createICmp2 ICmpUGT number limit) (\<lambda>isBigNumber.
     bindE (unlessType (TInt 64) (createTrunc 64) number) (\<lambda>number.
     bindE (createAlloca 256) (\<lambda>ValPtr.
     bindE (createBitCastPtr 32 ValPtr) (\<lambda>destMemIdx.
     seqE (createCall Func_getBlockHash [number, destMemIdx])
     (bindE (createLoad ValPtr) (\<lambda>loaded.
      bindE (createSelect2 isBigNumber (VConst 256 0) loaded) (\<lambda>hash.
      bindE (emitEndianConvert hash) (\<lambda>hash.
      push_set pc hash))))))))))"

definition to_address :: "val \<Rightarrow> val cg" where
  "to_address = unlessType (TInt 160) (createTrunc 160)"

definition to_int32 :: "val \<Rightarrow> val cg" where
  "to_int32 = unlessType (TInt 32) (createTrunc 32)"

definition to_int8ptr :: "val \<Rightarrow> val cg" where
  "to_int8ptr = unlessType (TPtr 8) (createIntToPtr 8)"

definition to_int32ptr :: "val \<Rightarrow> val cg" where
  "to_int32ptr = unlessType (TPtr 32) (createIntToPtr 32)"

definition hc_BALANCE :: "nat \<Rightarrow> unit cg" where
  "hc_BALANCE pc =
     bindE pop (\<lambda>address.
     bindE (to_address address) (\<lambda>address.
     bindE (createAlloca 160) (\<lambda>AddressPtr.
     bindE (createAlloca 128) (\<lambda>ValPtr.
     seqE (createStore address AddressPtr)
     (bindE (createBitCastPtr 32 AddressPtr) (\<lambda>ap.
      bindE (createBitCastPtr 32 ValPtr) (\<lambda>vp.
      seqE (createCall Func_getExternalBalance [ap, vp])
      (bindE (createLoad ValPtr) (\<lambda>value. push_set pc value)))))))))"

definition hc_EXTCODESIZE :: "unit cg" where
  "hc_EXTCODESIZE =
     bindE pop (\<lambda>address.
     bindE (to_address address) (\<lambda>address.
     bindE (createAlloca 160) (\<lambda>AddressPtr.
     bindE (to_address address) (\<lambda>address.
     bindE (emitEndianConvert address) (\<lambda>address.
     seqE (createStore address AddressPtr)
     (bindE (createBitCastPtr 32 AddressPtr) (\<lambda>ap.
      bindE (createCall Func_getExternalCodeSize [ap]) push)))))))"

text \<open>The slot for the 32 bytes of the hash is an Int32Ty.\<close>

definition hc_EXTCODEHASH :: "unit cg" where
  "hc_EXTCODEHASH =
     bindE pop (\<lambda>address.
     bindE (to_address address) (\<lambda>address.
     bindE (createAlloca 160) (\<lambda>AddressPtr.
     seqE (createStore address AddressPtr)
     (bindE (createAlloca 32) (\<lambda>resultPtr.
      bindE (createBitCastPtr 32 AddressPtr) (\<lambda>ap.
      seqE (createCall Func_getExternalCodeHash [ap, resultPtr])
      (bindE (createLoad resultPtr) push)))))))"

definition hc_CALLDATACOPY :: "nat \<Rightarrow> unit cg" where
  "hc_CALLDATACOPY pc =
     bindE pop (\<lambda>destMemIdx.
     bindE pop (\<lambda>srcIdx.
     bindE pop (\<lambda>reqBytes.
     bindE (to_int8ptr destMemIdx) (\<lambda>destMemIdx.
     bindE (to_int32 srcIdx) (\<lambda>srcIdx.
     bindE (to_int32 reqBytes) (\<lambda>reqBytes.
     bindE (createCall Func_callDataCopy [destMemIdx, srcIdx, reqBytes]) (\<lambda>callInst.
     setPC pc callInst)))))))"

definition hc_RETURNDATACOPY :: "unit cg" where
  "hc_RETURNDATACOPY =
     bindE pop (\<lambda>destMemIdx.
     bindE pop (\<lambda>srcIdx.
     bindE pop (\<lambda>reqBytes.
     bindE (to_int8ptr destMemIdx) (\<lambda>destMemIdx.
     bindE (to_int32 srcIdx) (\<lambda>srcIdx.
     bindE (to_int32 reqBytes) (\<lambda>reqBytes.
     seqE (createCall Func_returnDataCopy [destMemIdx, srcIdx, reqBytes]) (returnE ())))))))"

text \<open>The code of the contract is a constant string of the module, copied by solidity.memcpy.\<close>

definition hc_CODECOPY :: "unit cg" where
  "hc_CODECOPY =
     bindE pop (\<lambda>destMemIdx.
     bindE pop (\<lambda>srcIdx.
     bindE pop (\<lambda>reqBytes.
     bindE (to_int8ptr destMemIdx) (\<lambda>destMemIdx.
     bindE (to_int32 srcIdx) (\<lambda>srcIdx.
     bindE (to_int32 reqBytes) (\<lambda>reqBytes.
     bindE (emit (IGep (VGlobal ''evmCode'' 8) srcIdx) (TPtr 8)) (\<lambda>pStr.
     seqE (call_memcpy destMemIdx pStr reqBytes) (returnE ()))))))))"

definition hc_EXTCODECOPY :: "unit cg" where
  "hc_EXTCODECOPY =
     bindE pop (\<lambda>addr.
     bindE pop (\<lambda>destMemIdx.
     bindE pop (\<lambda>srcIdx.
     bindE pop (\<lambda>reqBytes.
     bindE (to_address addr) (\<lambda>addr.
     bindE (createAlloca 160) (\<lambda>AddressPtr.
     seqE (createStore addr AddressPtr)
     (bindE (createBitCastPtr 32 AddressPtr) (\<lambda>AddressPtr32.
      bindE (to_int32ptr destMemIdx) (\<lambda>destMemIdx.
      bindE (to_int32 srcIdx) (\<lambda>srcIdx.
      bindE (to_int32 reqBytes) (\<lambda>reqBytes.
      seqE (createCall Func_externalCodeCopy [AddressPtr32, destMemIdx, srcIdx, reqBytes]) (returnE ()))))))))))))"

text \<open>The translation for eWASM; for NEAR nothing is emitted.\<close>

definition hc_CALLDATALOAD :: "bool \<Rightarrow> unit cg" where
  "hc_CALLDATALOAD ewasm =
     bindE pop (\<lambda>idx.
     if ewasm then
       bindE (to_int32 idx) (\<lambda>idx.
       bindE (createAlloca 256) (\<lambda>dest.
       bindE (createBitCastPtr 8 dest) (\<lambda>destMemIdx.
       seqE (createCall Func_callDataCopy [destMemIdx, idx, VConst 32 32])
       (bindE (createLoad dest) (\<lambda>value.
        bindE (emitEndianConvert value) push)))))
     else returnE ())"

section \<open>Creating and calling contracts\<close>

definition hc_CREATE :: "unit cg" where
  "hc_CREATE =
     bindE pop (\<lambda>endowment.
     bindE pop (\<lambda>initOff.
     bindE pop (\<lambda>initSize.
     bindE (createAlloca 128) (\<lambda>ValPtr.
     bindE (createTrunc 128 endowment) (\<lambda>endowment.
     seqE (createStore endowment ValPtr)
     (bindE (createBitCastPtr 32 ValPtr) (\<lambda>ValPtr32.
      bindE (to_int32ptr initOff) (\<lambda>initOff.
      bindE (to_int32 initSize) (\<lambda>initSize.
      bindE (createAlloca 160) (\<lambda>AddressPtr.
      bindE (createBitCastPtr 32 AddressPtr) (\<lambda>addr.
      seqE (createCall Func_create [ValPtr32, initOff, initSize, addr])
      (bindE (createLoad AddressPtr) (\<lambda>result.
       bindE (createZExt 256 result) push)))))))))))))"

definition hc_CREATE2 :: "unit cg" where
  "hc_CREATE2 =
     bindE pop (\<lambda>endowment.
     bindE pop (\<lambda>initOff.
     bindE pop (\<lambda>initSize.
     bindE pop (\<lambda>salt.
     bindE (createAlloca 128) (\<lambda>ValPtr.
     bindE (createTrunc 128 endowment) (\<lambda>endowment.
     seqE (createStore endowment ValPtr)
     (bindE (createBitCastPtr 32 ValPtr) (\<lambda>ValPtr32.
      bindE (to_int32ptr initOff) (\<lambda>initOff.
      bindE (to_int32 initSize) (\<lambda>initSize.
      bindE (createAlloca 160) (\<lambda>AddressPtr.
      bindE (createBitCastPtr 32 AddressPtr) (\<lambda>addr.
      bindE (createAlloca 128) (\<lambda>saltPtr.
      bindE (createTrunc 128 salt) (\<lambda>salt.
      seqE (createStore salt saltPtr)
      (bindE (createBitCastPtr 32 saltPtr) (\<lambda>saltPtr32.
       seqE (createCall Func_create2 [ValPtr32, initOff, initSize, saltPtr32, addr])
       (bindE (createLoad AddressPtr) (\<lambda>result.
        bindE (createZExt 256 result) push))))))))))))))))))"

text \<open>What the calls do after the call of the environment: push success, copy the output.\<close>

definition finish_call :: "nat \<Rightarrow> val \<Rightarrow> val \<Rightarrow> val \<Rightarrow> unit cg" where
  "finish_call pc r outOff outSize =
     bindE (typeOfV r) (\<lambda>t. case t of
       TPtr _ \<Rightarrow> throwE BadTypes
     | TInt w \<Rightarrow>
         bindE (createICmp2 ICmpEQ r (VConst w 0)) (\<lambda>valided.
         bindE (createSelect2 valided (VConst 256 1) (VConst 256 0)) (\<lambda>success.
         seqE (push success)
         (bindE (to_int8ptr outOff) (\<lambda>outOff.
          bindE (to_int32 outSize) (\<lambda>outSize.
          seqE (createCall Func_returnDataCopy [outOff, VConst 32 0, outSize])
               (setPC pc r)))))))"

definition hc_CALL :: "bool \<Rightarrow> nat \<Rightarrow> unit cg" where
  "hc_CALL isCall pc =
     bindE pop (\<lambda>callGas.
     bindE pop (\<lambda>address.
     bindE pop (\<lambda>value.
     bindE pop (\<lambda>inOff.
     bindE pop (\<lambda>inSize.
     bindE pop (\<lambda>outOff.
     bindE pop (\<lambda>outSize.
     bindE (unlessType (TInt 64) (createTrunc 64) callGas) (\<lambda>callGas.
     bindE (createAlloca 160) (\<lambda>AddressPtr.
     bindE (to_address address) (\<lambda>address.
     bindE (emitEndianConvert address) (\<lambda>address.
     seqE (createStore address AddressPtr)
     (bindE (createAlloca 128) (\<lambda>ValuePtr.
      bindE (unlessType (TInt 128) (createTrunc 128) value) (\<lambda>value.
      seqE (createStore value ValuePtr)
      (bindE (unlessType (TPtr 32) (createBitCastPtr 32) ValuePtr) (\<lambda>ValuePtr.
       bindE (to_int8ptr inOff) (\<lambda>inOff.
       bindE (to_int32 inSize) (\<lambda>inSize.
       bindE (createCall (if isCall then Func_call else Func_callCode) [callGas, AddressPtr, ValuePtr, inOff, inSize]) (\<lambda>r.
       finish_call pc r outOff outSize)))))))))))))))))))"

definition hc_DELEGATECALL :: "bool \<Rightarrow> nat \<Rightarrow> unit cg" where
  "hc_DELEGATECALL isDelegate pc =
     bindE pop (\<lambda>callGas.
     bindE pop (\<lambda>address.
     bindE pop (\<lambda>inOff.
     bindE pop (\<lambda>inSize.
     bindE pop (\<lambda>outOff.
     bindE pop (\<lambda>outSize.
     bindE (unlessType (TInt 64) (createTrunc 64) callGas) (\<lambda>callGas.
     bindE (to_address address) (\<lambda>address.
     bindE (createAlloca 160) (\<lambda>AddressPtr.
     bindE (emitEndianConvert address) (\<lambda>address.
     seqE (createStore address AddressPtr)
     (bindE (to_int8ptr inOff) (\<lambda>inOff.
      bindE (to_int32 inSize) (\<lambda>inSize.
      bindE (createCall (if isDelegate then Func_callDelegate else Func_callStatic) [callGas, AddressPtr, inOff, inSize]) (\<lambda>r.
      finish_call pc r outOff outSize))))))))))))))"

section \<open>Ending a contract\<close>

text \<open>
  For eWASM; the return of the deployment code is replaced by the translated run-time code when
  its position is known (the argument \<open>deployed\<close> is the length of that code).
\<close>

definition hc_RETURN :: "bool \<Rightarrow> nat option \<Rightarrow> unit cg" where
  "hc_RETURN ewasm deployed =
     bindE pop (\<lambda>index.
     bindE pop (\<lambda>sz.
     if ewasm then
       bindE (createIntToPtr 8 index) (\<lambda>index.
       bindE (createTrunc 32 sz) (\<lambda>sz.
       seqE (case deployed of
               Some n \<Rightarrow>
                 bindE (emit (IGep (VGlobal ''runtimeCode'' 8) (VConst 32 0)) (TPtr 8)) (\<lambda>pStr.
                 createCall Func_finish [pStr, VConst 32 (take_bit 32 (int n))])
             | None \<Rightarrow> createCall Func_finish [index, sz])
            (setTerm (TBr ''exit''))))
     else
       bindE (createIntToPtr 64 index) (\<lambda>index.
       bindE (createTrunc 64 sz) (\<lambda>sz. setTerm (TBr ''exit'')))))"

definition hc_REVERT :: "unit cg" where
  "hc_REVERT =
     bindE pop (\<lambda>index.
     bindE pop (\<lambda>sz.
     bindE (createIntToPtr 8 index) (\<lambda>index.
     bindE (createTrunc 32 sz) (\<lambda>sz.
     seqE (createCall Func_revert [index, sz]) (setTerm (TBr ''exit''))))))"

definition hc_SUICIDE :: "nat \<Rightarrow> unit cg" where
  "hc_SUICIDE pc =
     bindE pop (\<lambda>dest.
     bindE (createIntToPtr 32 dest) (\<lambda>dest.
     bindE (createCall Func_selfDestruct [dest]) (\<lambda>callInst.
     seqE (setTerm (TBr ''exit'')) (setPC pc callInst))))"

definition hc_STOP :: "unit cg" where
  "hc_STOP = setTerm (TBr ''exit'')"

fun log_topics :: "nat \<Rightarrow> val list cg" where
  "log_topics 0 = returnE []"
| "log_topics (Suc n) =
     bindE pop (\<lambda>topic.
     bindE (typeOfV topic) (\<lambda>t. case t of
       TPtr _ \<Rightarrow> throwE BadTypes
     | TInt w \<Rightarrow>
         bindE (createAlloca w) (\<lambda>adr.
         seqE (createStore topic adr)
         (bindE (createBitCastPtr 32 adr) (\<lambda>p.
          bindE (log_topics n) (\<lambda>ps. returnE (p # ps)))))))"

definition hc_LOG :: "nat \<Rightarrow> unit cg" where
  "hc_LOG numTopics =
     bindE pop (\<lambda>beginIdx.
     bindE pop (\<lambda>numBytes.
     bindE (createIntToPtr 32 beginIdx) (\<lambda>beginPtr.
     bindE (to_int32 numBytes) (\<lambda>numBytes.
     bindE (log_topics numTopics) (\<lambda>topics.
     seqE (createCall Func_log ([beginPtr, numBytes, VConst 32 (int numTopics)] @ topics
             @ replicate (4 - numTopics) (VConstPtr 32 0))) (returnE ()))))))"

definition hc_invalid :: "unit cg" where
  "hc_invalid = setTerm TUnreachable"

end
