(* ===== verification/Host_Run.thy ===== *)
theory Host_Run
  imports Host_Codegen
begin

text \<open>
  What the emitted code of theory Host\_Codegen does when the contract runs: instructions read
  and write the memory of the module and call the host functions of Hera. Integers and pointers
  are numbers; a pointer is a 32-bit address. Integers are stored least significant byte
  first, in whole bytes, and an access outside the memory traps. An alloca outside the entry
  block takes its bytes, rounded up to the 16 bytes of the stack alignment, from the top of the
  stack, which grows downwards; a function gives them back when it returns. The addresses of
  the globals, which the linker assigns, are a parameter. An operation whose result LLVM leaves
  undefined is the exception UndefinedBehaviour.
\<close>

section \<open>State\<close>

record 'h rt =
  rt_iface :: "'h EthereumInterface"
  rt_sp :: u32

type_synonym ('h, 'a) rte = "('h rt, hera_exception, 'a) eff"
type_synonym globals = "string \<Rightarrow> u32"

definition on_iface :: "('h, 'a) eei \<Rightarrow> ('h, 'a) rte" where
  "on_iface m r = (case m (rt_iface r) of (x, s) \<Rightarrow> (x, r\<lparr>rt_iface := s\<rparr>))"

definition mem_of :: "'h rt \<Rightarrow> byte list" where
  "mem_of r = wasm_memory (rt_iface r)"

definition set_mem :: "byte list \<Rightarrow> 'h rt \<Rightarrow> 'h rt" where
  "set_mem m r = r\<lparr>rt_iface := (rt_iface r)\<lparr>wasm_memory := m\<rparr>\<rparr>"

definition addr_of :: "int \<Rightarrow> nat" where
  "addr_of p = unat (word_of_int p :: u32)"

definition type_bytes :: "nat \<Rightarrow> nat" where
  "type_bytes w = (w + 7) div 8"

definition mem_load :: "nat \<Rightarrow> int \<Rightarrow> ('h, int) rte" where
  "mem_load w p r =
     (if addr_of p + type_bytes w \<le> length (mem_of r)
      then (Inr (take_bit w (le_int (segment (addr_of p) (type_bytes w) (mem_of r)))), r)
      else (Inl VMTrap, r))"

definition mem_store :: "nat \<Rightarrow> int \<Rightarrow> int \<Rightarrow> ('h, unit) rte" where
  "mem_store w x p r =
     (if addr_of p + type_bytes w \<le> length (mem_of r)
      then (Inr (), set_mem (put_segment (addr_of p) (le_bytes (type_bytes w) x) (mem_of r)) r)
      else (Inl VMTrap, r))"

definition stack_slot :: "nat \<Rightarrow> u32 \<Rightarrow> u32" where
  "stack_slot w sp = sp - of_nat ((type_bytes w + 15) div 16 * 16)"

section \<open>Instructions\<close>

definition vval :: "globals \<Rightarrow> int list \<Rightarrow> val \<Rightarrow> int" where
  "vval G env v =
     (case v of
        VReg i \<Rightarrow> env ! i
      | VConst _ n \<Rightarrow> n
      | VConstPtr _ n \<Rightarrow> n
      | VGlobal name _ \<Rightarrow> uint (G name))"

type_synonym 'h hcalls = "string \<Rightarrow> int list \<Rightarrow> ('h, int) rte"

definition run_inst :: "'h hcalls \<Rightarrow> globals \<Rightarrow> int list \<Rightarrow> int list \<Rightarrow> inst \<Rightarrow> ('h, int) rte" where
  "run_inst calls G args env i =
     (case i of
        IParam k \<Rightarrow> returnE (args ! k)
      | IBin op w a b \<Rightarrow>
          (let x = vval G env a; y = vval G env b
           in if bin_defined op w x y then returnE (bin_value op w x y) else throwE UndefinedBehaviour)
      | IICmp p w a b \<Rightarrow> returnE (if icmp_value p w (vval G env a) (vval G env b) then 1 else 0)
      | ISelect c a b \<Rightarrow> returnE (if vval G env c = 1 then vval G env a else vval G env b)
      | IZExt w a \<Rightarrow> returnE (vval G env a)
      | ITrunc w a \<Rightarrow> returnE (take_bit w (vval G env a))
      | IIntToPtr w a \<Rightarrow> returnE (take_bit 32 (vval G env a))
      | IBitCast w a \<Rightarrow> returnE (vval G env a)
      | IExtractByte a k \<Rightarrow>
          (if vval G env k < 32 then returnE (take_bit 8 (drop_bit (8 * nat (vval G env k)) (vval G env a)))
           else throwE UndefinedBehaviour)
      | IGep p k \<Rightarrow> returnE (take_bit 32 (vval G env p + vval G env k))
      | IGepWord p k \<Rightarrow> returnE (take_bit 32 (vval G env p + 32 * vval G env k))
      | IAlloca w \<Rightarrow>
          bindE (modifyE (\<lambda>r. r\<lparr>rt_sp := stack_slot w (rt_sp r)\<rparr>)) (\<lambda>_. getE (\<lambda>r. uint (rt_sp r)))
      | ILoad w p \<Rightarrow> mem_load w (vval G env p)
      | IStore w v p \<Rightarrow> bindE (mem_store w (vval G env v) (vval G env p)) (\<lambda>_. returnE 0)
      | ICall f as \<Rightarrow> calls f (map (vval G env) as))"

fun run_code ::
  "'h hcalls \<Rightarrow> globals \<Rightarrow> int list \<Rightarrow> (inst \<times> lty) list \<Rightarrow> int list \<Rightarrow> ('h, int list) rte" where
  "run_code calls G args [] env = returnE env"
| "run_code calls G args ((i, _) # c) env =
     bindE (run_inst calls G args env i) (\<lambda>x. run_code calls G args c (env @ [x]))"

section \<open>Calls\<close>

text \<open>An imported function by its name in the module; the engine refuses a module with an import it lacks.\<close>

definition call_host :: "'h HostInterface \<Rightarrow> 'h hcalls" where
  "call_host H name args =
     (case find (\<lambda>f. ''ethereum.'' @ hf_name f = name) (wabt_module H) of
        None \<Rightarrow> throwE ContractValidationFailure
      | Some f \<Rightarrow>
          bindE (on_iface (hf_fn f (map word_of_int args)))
                (\<lambda>res. returnE (case res of [] \<Rightarrow> 0 | x # _ \<Rightarrow> uint x)))"

definition run_bswap :: "int list \<Rightarrow> ('h, int) rte" where
  "run_bswap args =
     (case run_func (\<lambda>_ _. None) initBswapI256 (map I args) of
        Some (Returns (I y)) \<Rightarrow> returnE y
      | _ \<Rightarrow> throwE UndefinedBehaviour)"

definition run_memcpy :: "int list \<Rightarrow> ('h, int) rte" where
  "run_memcpy args r =
     (case solidity_memcpy (word_of_int (args ! 0)) (word_of_int (args ! 1)) (word_of_int (args ! 2)) (mem_of r) of
        Some (Some m) \<Rightarrow> (Inr 0, set_mem m r)
      | _ \<Rightarrow> (Inl VMTrap, r))"

text \<open>The code of solidity.keccak256, generated from an empty function.\<close>

definition keccak256_code :: "(inst \<times> lty) list \<times> val" where
  "keccak256_code =
     (case initPrebuiltContract \<lparr>h_code = [], h_stack = [], h_pcs = [], h_term = None, h_dest = None\<rparr> of
        (Inr v, g) \<Rightarrow> (h_code g, v)
      | (Inl _, g) \<Rightarrow> ([], VConst 256 0))"

definition run_keccak256 :: "'h HostInterface \<Rightarrow> globals \<Rightarrow> int list \<Rightarrow> ('h, int) rte" where
  "run_keccak256 H G args =
     bindE (getE rt_sp) (\<lambda>sp.
     bindE (run_code (call_host H) G args (fst keccak256_code) []) (\<lambda>env.
     bindE (modifyE (\<lambda>r. r\<lparr>rt_sp := sp\<rparr>)) (\<lambda>_.
     returnE (vval G env (snd keccak256_code)))))"

definition module_calls :: "'h HostInterface \<Rightarrow> globals \<Rightarrow> 'h hcalls" where
  "module_calls H G name args =
     (if name = ''solidity.bswapi256'' then run_bswap args
      else if name = ''solidity.memcpy'' then run_memcpy args
      else if name = ''solidity.keccak256'' then run_keccak256 H G args
      else call_host H name args)"

section \<open>Generating and running\<close>

text \<open>
  A generator and the code it emits, run one after the other: the generator turns \<open>g\<close> into
  \<open>g'\<close>, and the instructions it appended turn the registers \<open>env\<close> and the state \<open>r\<close> into
  \<open>env'\<close> and \<open>r'\<close>.
\<close>

definition emitted :: "hgen \<Rightarrow> hgen \<Rightarrow> (inst \<times> lty) list" where
  "emitted g g' = drop (length (h_code g)) (h_code g')"

definition gen_run ::
  "'h HostInterface \<Rightarrow> globals \<Rightarrow> 'a cg \<Rightarrow> hgen \<Rightarrow> int list \<Rightarrow> 'h rt \<Rightarrow>
   'a \<Rightarrow> hgen \<Rightarrow> int list \<Rightarrow> 'h rt \<Rightarrow> bool" where
  "gen_run H G m g env r a g' env' r' \<longleftrightarrow>
     m g = (Inr a, g') \<and> take (length (h_code g)) (h_code g') = h_code g
     \<and> run_code (module_calls H G) G [] (emitted g g') env r = (Inr env', r')"

definition gen_throws ::
  "'h HostInterface \<Rightarrow> globals \<Rightarrow> 'a cg \<Rightarrow> hgen \<Rightarrow> int list \<Rightarrow> 'h rt \<Rightarrow> hera_exception \<Rightarrow> 'h rt \<Rightarrow> bool" where
  "gen_throws H G m g env r e r' \<longleftrightarrow>
     (\<exists>a g'. m g = (Inr a, g') \<and> take (length (h_code g)) (h_code g') = h_code g
       \<and> run_code (module_calls H G) G [] (emitted g g') env r = (Inl e, r'))"

end
