(* ===== verification/Host_Logic.thy ===== *)
theory Host_Logic
  imports Host_Run
begin

text \<open>
  A program logic for generated code. An assertion about a point of the translation lists the
  values the generator knows at it, each with its type and the number it stands for when the
  code runs, the symbolic stack, and the state of the run. A rule per builder call says how
  the assertion changes; a case of the translator is verified by applying the rules in the
  order of its calls.
\<close>

named_theorems gwp_intros \<open>rules of the program logic for generated code\<close>

section \<open>Denotations\<close>

fun in_range :: "lty \<Rightarrow> int \<Rightarrow> bool" where
  "in_range (TInt w) x = (0 \<le> x \<and> x < 2 ^ w)"
| "in_range (TPtr _) x = (0 \<le> x \<and> x < 2 ^ 32)"

definition den :: "globals \<Rightarrow> hgen \<Rightarrow> int list \<Rightarrow> val \<Rightarrow> lty \<Rightarrow> int \<Rightarrow> bool" where
  "den G g env v ty x \<longleftrightarrow>
     val_type g v = ty \<and> vval G env v = x \<and> in_range ty x
     \<and> (case v of VReg i \<Rightarrow> i < length (h_code g) | _ \<Rightarrow> True)"

definition knows :: "globals \<Rightarrow> (val \<times> lty \<times> int) set \<Rightarrow> val list \<Rightarrow> hgen \<Rightarrow> int list \<Rightarrow> bool" where
  "knows G F st g env \<longleftrightarrow>
     length env = length (h_code g) \<and> h_stack g = st \<and> (\<forall>(v, ty, x) \<in> F. den G g env v ty x)"

lemma knowsD: "knows G F st g env \<Longrightarrow> (v, ty, x) \<in> F \<Longrightarrow> den G g env v ty x"
  by (auto simp: knows_def)

lemma den_type: "den G g env v ty x \<Longrightarrow> val_type g v = ty"
  and den_val: "den G g env v ty x \<Longrightarrow> vval G env v = x"
  and den_range: "den G g env v ty x \<Longrightarrow> in_range ty x"
  by (simp_all add: den_def)

lemmas knows_type = den_type [OF knowsD] and knows_val = den_val [OF knowsD] and knows_range = den_range [OF knowsD]

definition gwp ::
  "'h HostInterface \<Rightarrow> globals \<Rightarrow> (val \<times> lty \<times> int) set \<Rightarrow> val list \<Rightarrow> 'h rt \<Rightarrow> 'a cg \<Rightarrow>
   ('a \<Rightarrow> (val \<times> lty \<times> int) set \<Rightarrow> val list \<Rightarrow> 'h rt \<Rightarrow> bool) \<Rightarrow> bool" where
  "gwp H G F st r m Q \<longleftrightarrow>
     (\<forall>g env. knows G F st g env \<longrightarrow>
        (\<exists>a g' env' r' F' st'. gen_run H G m g env r a g' env' r' \<and> F \<subseteq> F' \<and> knows G F' st' g' env' \<and> Q a F' st' r'))"

section \<open>Structural rules\<close>

lemma run_code_append:
  "run_code calls G as (c @ d) env = bindE (run_code calls G as c env) (run_code calls G as d)"
proof (induction c arbitrary: env)
  case Nil
  show ?case by (rule ext) (simp add: bindE_def returnE_def)
next
  case (Cons i c)
  show ?case
    by (cases i; rule ext) (simp add: Cons.IH bindE_def split: prod.splits sum.splits)
qed

lemma emitted_split:
  assumes "take (length (h_code g)) (h_code g1) = h_code g" "take (length (h_code g1)) (h_code g2) = h_code g1"
  shows "emitted g g2 = emitted g g1 @ emitted g1 g2 \<and> take (length (h_code g)) (h_code g2) = h_code g"
proof -
  obtain c d where c: "h_code g1 = h_code g @ c" and d: "h_code g2 = h_code g1 @ d"
    using assms by (metis append_take_drop_id)
  show ?thesis unfolding emitted_def d c by simp
qed

lemma gen_run_bind:
  assumes "gen_run H G m g env r a g1 env1 r1" "gen_run H G (f a) g1 env1 r1 b g2 env2 r2"
  shows "gen_run H G (bindE m f) g env r b g2 env2 r2"
proof -
  have s: "emitted g g2 = emitted g g1 @ emitted g1 g2 \<and> take (length (h_code g)) (h_code g2) = h_code g"
    using assms by (intro emitted_split) (simp_all add: gen_run_def)
  then show ?thesis using assms by (simp add: gen_run_def run_code_append bindE_def)
qed

lemma gwpD:
  assumes "gwp H G F st r m Q" "knows G F st g env"
  obtains a g' env' r' F' st' where "gen_run H G m g env r a g' env' r'" "F \<subseteq> F'"
    "knows G F' st' g' env'" "Q a F' st' r'"
  using assms unfolding gwp_def by metis

lemma gwpI:
  assumes "\<And>g env. knows G F st g env \<Longrightarrow>
    \<exists>a g' env' r' F' st'. gen_run H G m g env r a g' env' r' \<and> F \<subseteq> F' \<and> knows G F' st' g' env' \<and> Q a F' st' r'"
  shows "gwp H G F st r m Q"
  using assms by (simp add: gwp_def)

lemma gwp_bind [gwp_intros]:
  assumes "gwp H G F st r m (\<lambda>a F' st' r'. gwp H G F' st' r' (f a) Q)"
  shows "gwp H G F st r (bindE m f) Q"
proof (rule gwpI)
  fix g env assume "knows G F st g env"
  with assms obtain a g1 env1 r1 F1 st1 where 1: "gen_run H G m g env r a g1 env1 r1" "F \<subseteq> F1"
    "knows G F1 st1 g1 env1" "gwp H G F1 st1 r1 (f a) Q" by (rule gwpD)
  from 1(4,3) obtain b g2 env2 r2 F2 st2 where 2: "gen_run H G (f a) g1 env1 r1 b g2 env2 r2" "F1 \<subseteq> F2"
    "knows G F2 st2 g2 env2" "Q b F2 st2 r2" by (rule gwpD)
  from gen_run_bind [where f = f, OF 1(1) 2(1)] order_trans [OF 1(2) 2(2)] 2(3,4)
  show "\<exists>a g' env' r' F' st'. gen_run H G (bindE m f) g env r a g' env' r' \<and> F \<subseteq> F'
      \<and> knows G F' st' g' env' \<and> Q a F' st' r'"
    by metis
qed

lemma gwp_seq [gwp_intros]:
  "gwp H G F st r m (\<lambda>_ F' st' r'. gwp H G F' st' r' k Q) \<Longrightarrow> gwp H G F st r (seqE m k) Q"
  unfolding seqE_def by (rule gwp_bind)

text \<open>A generator that emits nothing.\<close>

lemma gwp_silent:
  assumes "\<And>g env. knows G F st g env \<Longrightarrow> \<exists>a g'. m g = (Inr a, g') \<and> h_code g' = h_code g \<and> knows G F st' g' env \<and> Q a F st' r"
  shows "gwp H G F st r m Q"
proof (rule gwpI)
  fix g env assume k: "knows G F st g env"
  from assms [OF k] obtain a g' where "m g = (Inr a, g')" "h_code g' = h_code g" "knows G F st' g' env" "Q a F st' r"
    by blast
  then show "\<exists>a g' env' r' F' st'. gen_run H G m g env r a g' env' r' \<and> F \<subseteq> F' \<and> knows G F' st' g' env' \<and> Q a F' st' r'"
    by (auto simp: gen_run_def emitted_def returnE_def)
qed

lemma gwp_return [gwp_intros]: "Q a F st r \<Longrightarrow> gwp H G F st r (returnE a) Q"
  by (rule gwp_silent) (auto simp: returnE_def)

lemma gwp_ensure [gwp_intros]: "c \<Longrightarrow> Q () F st r \<Longrightarrow> gwp H G F st r (ensureE c e) Q"
  by (simp add: ensureE_def gwp_return)

lemma den_same_code: "h_code g' = h_code g \<Longrightarrow> den G g' env v ty x = den G g env v ty x"
  by (cases v) (simp_all add: den_def val_type_def)

lemma knows_same_code:
  assumes "knows G F st g env" "h_code g' = h_code g" "h_stack g' = st'"
  shows "knows G F st' g' env"
  using assms(1) den_same_code [OF assms(2)] assms(2,3) by (simp add: knows_def)

lemma gwp_silent_update:
  assumes "\<And>g. h_stack g = st \<Longrightarrow> \<exists>g'. m g = (Inr a, g') \<and> h_code g' = h_code g \<and> h_stack g' = st'" "Q a F st' r"
  shows "gwp H G F st r m Q"
proof (rule gwp_silent)
  fix g env assume k: "knows G F st g env"
  then obtain g' where "m g = (Inr a, g')" "h_code g' = h_code g" "h_stack g' = st'"
    using assms(1) [of g] by (auto simp: knows_def)
  then show "\<exists>a g'. m g = (Inr a, g') \<and> h_code g' = h_code g \<and> knows G F st' g' env \<and> Q a F st' r"
    using knows_same_code [OF k] assms(2) by blast
qed

lemma gwp_pop [gwp_intros]: "Q v F st r \<Longrightarrow> gwp H G F (st @ [v]) r pop Q"
  by (rule gwp_silent_update) (auto simp: pop_def)

lemma gwp_push [gwp_intros]: "Q () F (st @ [v]) r \<Longrightarrow> gwp H G F st r (push v) Q"
  by (rule gwp_silent_update) (auto simp: push_def modifyE_def)

lemma gwp_setPC [gwp_intros]: "Q () F st r \<Longrightarrow> gwp H G F st r (setPC pc (VReg i)) Q"
  by (rule gwp_silent_update) (auto simp: setPC_def modifyE_def)

lemma gwp_setTerm [gwp_intros]: "Q () F st r \<Longrightarrow> gwp H G F st r (setTerm t) Q"
  by (rule gwp_silent_update) (auto simp: setTerm_def modifyE_def)

lemma gwp_type [gwp_intros]: "(v, ty, x) \<in> F \<Longrightarrow> Q ty F st r \<Longrightarrow> gwp H G F st r (typeOfV v) Q"
proof (rule gwp_silent)
  fix g env assume "(v, ty, x) \<in> F" "Q ty F st r" and k: "knows G F st g env"
  then show "\<exists>a g'. typeOfV v g = (Inr a, g') \<and> h_code g' = h_code g \<and> knows G F st g' env \<and> Q a F st r"
    using knows_type [OF k] by (simp add: typeOfV_def getE_def)
qed

lemma gwp_conseq:
  assumes "gwp H G F st r m Q'"
    and "\<And>a F' st' r'. Q' a F' st' r' \<Longrightarrow> F \<subseteq> F' \<Longrightarrow> \<exists>F''. F \<subseteq> F'' \<and> F'' \<subseteq> F' \<and> Q a F'' st' r'"
  shows "gwp H G F st r m Q"
proof (rule gwpI)
  fix g env assume "knows G F st g env"
  with assms(1) obtain a g' env' r' F' st' where 1: "gen_run H G m g env r a g' env' r'" "F \<subseteq> F'"
    "knows G F' st' g' env'" "Q' a F' st' r'" by (rule gwpD)
  from assms(2) [OF 1(4,2)] obtain F'' where "F \<subseteq> F''" "F'' \<subseteq> F'" "Q a F'' st' r'" by blast
  moreover from this 1(3) have "knows G F'' st' g' env'" by (auto simp: knows_def)
  ultimately show "\<exists>a g' env' r' F' st'. gen_run H G m g env r a g' env' r' \<and> F \<subseteq> F' \<and> knows G F' st' g' env' \<and> Q a F' st' r'"
    using 1(1) by metis
qed

text \<open>A rule may name only the value of interest: facts about intermediate registers are dropped.\<close>

lemma gwp_result:
  assumes "gwp H G F st r m (\<lambda>a F' st' r'. P a \<and> (a, ty, x) \<in> F' \<and> st' = st \<and> r' = r)"
    and "\<And>v. P v \<Longrightarrow> Q v (insert (v, ty, x) F) st r"
  shows "gwp H G F st r m Q"
  by (rule gwp_conseq [OF assms(1)]) (use assms(2) in blast)

lemma gwp_range:
  assumes "(v, ty, x) \<in> F" "in_range ty x \<Longrightarrow> gwp H G F st r m Q"
  shows "gwp H G F st r m Q"
proof (rule gwpI)
  fix g env assume k: "knows G F st g env"
  with assms(2) [OF knows_range [OF k assms(1)]]
  show "\<exists>a g' env' r' F' st'. gen_run H G m g env r a g' env' r' \<and> F \<subseteq> F' \<and> knows G F' st' g' env' \<and> Q a F' st' r'"
    by (simp add: gwp_def)
qed

text \<open>What a constant stands for may be added at any point.\<close>

lemma gwp_more:
  assumes "\<And>g env. knows G F st g env \<Longrightarrow> den G g env v ty x" "gwp H G (insert (v, ty, x) F) st r m Q"
  shows "gwp H G F st r m Q"
proof (rule gwpI)
  fix g env assume k: "knows G F st g env"
  then have "knows G (insert (v, ty, x) F) st g env" using assms(1) [OF k] by (simp add: knows_def)
  with assms(2) obtain a g' env' r' F' st' where "gen_run H G m g env r a g' env' r'" "insert (v, ty, x) F \<subseteq> F'"
    "knows G F' st' g' env'" "Q a F' st' r'" by (rule gwpD)
  then show "\<exists>a g' env' r' F' st'. gen_run H G m g env r a g' env' r' \<and> F \<subseteq> F' \<and> knows G F' st' g' env' \<and> Q a F' st' r'"
    by (metis insert_subset)
qed

lemma gwp_const:
  "0 \<le> n \<Longrightarrow> n < 2 ^ w \<Longrightarrow> gwp H G (insert (VConst w n, TInt w, n) F) st r m Q \<Longrightarrow> gwp H G F st r m Q"
  by (rule gwp_more) (simp_all add: den_def val_type_def vval_def)

section \<open>Code that ends with an exception\<close>

definition gth ::
  "'h HostInterface \<Rightarrow> globals \<Rightarrow> (val \<times> lty \<times> int) set \<Rightarrow> val list \<Rightarrow> 'h rt \<Rightarrow> 'a cg \<Rightarrow> hera_exception \<Rightarrow> 'h rt \<Rightarrow> bool" where
  "gth H G F st r m e r' \<longleftrightarrow> (\<forall>g env. knows G F st g env \<longrightarrow> gen_throws H G m g env r e r')"

lemma gth_bind:
  assumes "gwp H G F st r m (\<lambda>a F' st' r1. gth H G F' st' r1 (f a) e r')"
  shows "gth H G F st r (bindE m f) e r'"
  unfolding gth_def
proof (intro allI impI)
  fix g env assume "knows G F st g env"
  with assms obtain a g1 env1 r1 F1 st1 where 1: "gen_run H G m g env r a g1 env1 r1"
    "knows G F1 st1 g1 env1" "gth H G F1 st1 r1 (f a) e r'" by (rule gwpD)
  then obtain b g2 where 2: "f a g1 = (Inr b, g2)" "take (length (h_code g1)) (h_code g2) = h_code g1"
    "run_code (module_calls H G) G [] (emitted g1 g2) env1 r1 = (Inl e, r')"
    unfolding gth_def gen_throws_def by metis
  have "emitted g g2 = emitted g g1 @ emitted g1 g2 \<and> take (length (h_code g)) (h_code g2) = h_code g"
    using 1(1) 2(2) by (intro emitted_split) (simp_all add: gen_run_def)
  then show "gen_throws H G (bindE m f) g env r e r'"
    using 1(1) 2 by (simp add: gen_throws_def gen_run_def run_code_append bindE_def)
qed

lemma gth_seq: "gwp H G F st r m (\<lambda>a F' st' r1. gth H G F' st' r1 k e r') \<Longrightarrow> gth H G F st r (seqE m k) e r'"
  unfolding seqE_def by (rule gth_bind)

section \<open>One instruction\<close>

lemma den_emit:
  assumes "den G g env v ty x" "length env = length (h_code g)" "h_code g' = h_code g @ c"
  shows "den G g' (env @ e) v ty x"
  using assms by (auto simp: den_def val_type_def vval_def nth_append split: val.splits)

lemma gwp_emit:
  assumes run: "\<And>g env. knows G F st g env \<Longrightarrow> run_inst (module_calls H G) G [] env i r = (Inr x, r')"
    and "in_range ty x" and Q: "\<And>k. Q (VReg k) (insert (VReg k, ty, x) F) st r'"
  shows "gwp H G F st r (emit i ty) Q"
proof (rule gwpI)
  fix g env assume k: "knows G F st g env"
  let ?g = "g\<lparr>h_code := h_code g @ [(i, ty)]\<rparr>" and ?n = "length (h_code g)"
  have "gen_run H G (emit i ty) g env r (VReg ?n) ?g (env @ [x]) r'"
    using run [OF k] by (simp add: gen_run_def emit_def emitted_def bindE_def returnE_def)
  moreover have "knows G (insert (VReg ?n, ty, x) F) st ?g (env @ [x])"
  proof -
    have l: "length env = ?n" and st: "h_stack g = st" using k by (simp_all add: knows_def)
    have "den G ?g (env @ [x]) (VReg ?n) ty x"
      using assms(2) l by (simp add: den_def val_type_def vval_def nth_append)
    moreover have "den G ?g (env @ [x]) v t y" if "(v, t, y) \<in> F" for v t y
      using den_emit [OF knowsD [OF k that] l, of ?g "[(i, ty)]" "[x]"] by simp
    ultimately show ?thesis using l st by (auto simp: knows_def)
  qed
  ultimately show "\<exists>a g' env' r' F' st'. gen_run H G (emit i ty) g env r a g' env' r' \<and> F \<subseteq> F'
      \<and> knows G F' st' g' env' \<and> Q a F' st' r'"
    using Q by blast
qed

section \<open>Memory\<close>

definition write_mem :: "int \<Rightarrow> byte list \<Rightarrow> 'h rt \<Rightarrow> 'h rt" where
  "write_mem a bs r = set_mem (put_segment (addr_of a) bs (mem_of r)) r"

lemma type_bytes_simps [simp]:
  "type_bytes 256 = 32" "type_bytes 160 = 20" "type_bytes 128 = 16" "type_bytes 8 = 1" "type_bytes 64 = 8" "type_bytes 32 = 4"
  by (simp_all add: type_bytes_def)

lemma word_of_uint_u32 [simp]: "word_of_int (uint (a :: u32)) = a"
  by simp

lemma ptr_range [simp]: "in_range (TPtr w) (uint (a :: u32))"
  using unsigned_less [of a, where ?'a = int] by simp

lemma gwp_alloca [gwp_intros]:
  assumes "\<And>k. Q (VReg k) (insert (VReg k, TPtr w, uint (stack_slot w (rt_sp r))) F) st (r\<lparr>rt_sp := stack_slot w (rt_sp r)\<rparr>)"
  shows "gwp H G F st r (createAlloca w) Q"
  unfolding createAlloca_def
  by (rule gwp_emit [where Q = Q, OF _ ptr_range assms]) (simp add: run_inst_def eff_simps)

lemma take_bit_range: "0 \<le> take_bit w (x :: int)" "take_bit w x < 2 ^ w"
  by simp_all

lemma gwp_load [gwp_intros]:
  assumes p: "(p, TPtr w, a) \<in> F" and a: "addr_of a + type_bytes w \<le> length (mem_of r)"
    and Q: "\<And>k. Q (VReg k) (insert (VReg k, TInt w, take_bit w (le_int (segment (addr_of a) (type_bytes w) (mem_of r)))) F) st r"
  shows "gwp H G F st r (createLoad p) Q"
  unfolding createLoad_def
proof (rule gwp_bind, rule gwp_type [OF p], simp only: lty.case, rule gwp_emit [where Q = Q, OF _ _ Q])
  fix g env assume "knows G F st g env"
  from knows_val [OF this p] a show "run_inst (module_calls H G) G [] env (ILoad w p) r =
      (Inr (take_bit w (le_int (segment (addr_of a) (type_bytes w) (mem_of r)))), r)"
    by (simp add: run_inst_def mem_load_def)
qed simp

lemma gwp_store [gwp_intros]:
  assumes v: "(v, TInt w, x) \<in> F" and p: "(p, TPtr w, a0) \<in> F"
    and a: "addr_of a0 + type_bytes w \<le> length (mem_of r)"
    and Q: "Q () F st (write_mem a0 (le_bytes (type_bytes w) x) r)"
  shows "gwp H G F st r (createStore v p) Q"
proof (rule gwp_conseq)
  let ?r = "write_mem a0 (le_bytes (type_bytes w) x) r"
  have run: "run_inst (module_calls H G) G [] env (IStore w v p) r =
      (Inr 0, ?r)"
    if "knows G F st g env" for g env
    using knows_val [OF that v] knows_val [OF that p] a
    by (simp add: run_inst_def bindE_def mem_store_def returnE_def write_mem_def)
  show "gwp H G F st r (createStore v p) (\<lambda>_ _ st' r'. st' = st \<and> r' = ?r)"
    unfolding createStore_def
    by (rule gwp_bind, rule gwp_type [OF v], rule gwp_bind, rule gwp_type [OF p])
       (simp, rule gwp_seq, rule gwp_emit [OF run], assumption, simp, rule gwp_return, simp)
next
  fix a :: unit and F' st' r'
  assume "st' = st \<and> r' = write_mem a0 (le_bytes (type_bytes w) x) r" "F \<subseteq> F'"
  then show "\<exists>F''. F \<subseteq> F'' \<and> F'' \<subseteq> F' \<and> Q a F'' st' r'" using Q by (intro exI [of _ F]) simp
qed

section \<open>Calls\<close>

lemma known_types:
  assumes "knows G F st g env" "list_all2 (\<lambda>v t. (v, t) \<in> F) args ts"
  shows "map (val_type g) args = map fst ts" "map (vval G env) args = map snd ts"
proof -
  have "val_type g v = fst t \<and> vval G env v = snd t" if "(v, t) \<in> F" for v t
    using that knows_type [OF assms(1), of v] knows_val [OF assms(1), of v] by (cases t) auto
  with assms(2) show "map (val_type g) args = map fst ts" "map (vval G env) args = map snd ts"
    by (induction rule: list_all2_induct) auto
qed

lemma gwp_callTyped:
  assumes as: "list_all2 (\<lambda>v t. (v, t) \<in> F) args ts" and "map fst ts = params"
    and run: "module_calls H G name (map snd ts) r = (Inr x, r')" and "in_range res x"
    and Q: "\<And>k. Q (VReg k) (insert (VReg k, res, x) F) st r'"
  shows "gwp H G F st r (createCallTyped name params res args) Q"
  unfolding createCallTyped_def
proof (rule gwp_bind, rule gwp_silent)
  fix g env assume k: "knows G F st g env"
  have e: "gwp H G F st r (emit (ICall name args) res) Q"
  proof (rule gwp_emit [where Q = Q, OF _ assms(4) Q])
    fix g env assume "knows G F st g env"
    from known_types(2) [OF this as] run
    show "run_inst (module_calls H G) G [] env (ICall name args) r = (Inr x, r')" by (simp add: run_inst_def)
  qed
  show "\<exists>a g'. getE (\<lambda>g. map (val_type g) args) g = (Inr a, g') \<and> h_code g' = h_code g \<and> knows G F st g' env \<and>
      gwp H G F st r (if a = params then emit (ICall name args) res else throwE BadTypes) Q"
    using k e known_types(1) [OF k as] assms(2) by (simp add: getE_def)
qed

lemma gwp_call:
  assumes "list_all2 (\<lambda>v t. (v, t) \<in> F) args ts" "map fst ts = map lty_of (d_params d)"
    and "module_calls H G (d_name d) (map snd ts) r = (Inr x, r')" "in_range (lty_of (d_result d)) x"
    and "\<And>k. Q (VReg k) (insert (VReg k, lty_of (d_result d), x) F) st r'"
  shows "gwp H G F st r (createCall d args) Q"
  unfolding createCall_def using assms by (rule gwp_callTyped)

text \<open>A call that throws, with nothing emitted after it.\<close>

lemma gth_call:
  assumes as: "list_all2 (\<lambda>v t. (v, t) \<in> F) args ts" and "map fst ts = map lty_of (d_params d)"
    and run: "module_calls H G (d_name d) (map snd ts) r = (Inl e, r')"
    and k: "\<And>i g. \<exists>a g'. k (VReg i) g = (Inr a, g') \<and> h_code g' = h_code g"
  shows "gth H G F st r (bindE (createCall d args) k) e r'"
  unfolding gth_def
proof (intro allI impI)
  fix g env assume kn: "knows G F st g env"
  let ?i = "(ICall (d_name d) args, lty_of (d_result d))"
  let ?g = "g\<lparr>h_code := h_code g @ [?i]\<rparr>"
  have c: "createCall d args g = (Inr (VReg (length (h_code g))), ?g)"
    using known_types(1) [OF kn as] assms(2) by (simp add: createCall_def createCallTyped_def bindE_def getE_def emit_def)
  from k obtain a g' where g': "k (VReg (length (h_code g))) ?g = (Inr a, g')" "h_code g' = h_code g @ [?i]" by fastforce
  have "run_code (module_calls H G) G [] [?i] env r = (Inl e, r')"
    using run known_types(2) [OF kn as] by (simp add: bindE_def run_inst_def)
  with c g' show "gen_throws H G (bindE (createCall d args) k) g env r e r'"
    by (simp add: gen_throws_def bindE_def emitted_def)
qed

section \<open>Casts\<close>

lemma gwp_cast_same: "(v, ty, x) \<in> F \<Longrightarrow> Q v F st r \<Longrightarrow> gwp H G F st r (createCast mk ty v) Q"
  unfolding createCast_def by (rule gwp_bind, rule gwp_type, assumption) (simp add: gwp_return)

lemma gwp_cast_reg:
  assumes v: "(VReg i, t, x) \<in> F" and "t \<noteq> ty" and y: "in_range ty y"
    and run: "\<And>env r. vval G env (VReg i) = x \<Longrightarrow> run_inst (module_calls H G) G [] env (mk (VReg i)) r = (Inr y, r)"
    and Q: "\<And>k. Q (VReg k) (insert (VReg k, ty, y) F) st r"
  shows "gwp H G F st r (createCast mk ty (VReg i)) Q"
proof -
  have n: "cast_const ty (VReg i) = None" by (cases ty) simp_all
  have "gwp H G F st r (emit (mk (VReg i)) ty) Q"
    by (rule gwp_emit [where Q = Q, OF _ y Q]) (rule run, rule knows_val [OF _ v])
  then show ?thesis
    unfolding createCast_def by (intro gwp_bind gwp_type [OF v]) (simp add: n assms(2))
qed

text \<open>For a constant the builder folds with the same result.\<close>

lemma gwp_bitcast_reg [gwp_intros]:
  assumes "(VReg i, TPtr w, x) \<in> F" "w \<noteq> w'"
    and Q: "\<And>k. Q (VReg k) (insert (VReg k, TPtr w', x) F) st r"
  shows "gwp H G F st r (createBitCastPtr w' (VReg i)) Q"
  unfolding createBitCastPtr_def
  by (rule gwp_range [OF assms(1)], rule gwp_cast_reg [OF assms(1)])
     (use assms(2) Q in \<open>auto simp: run_inst_def returnE_def\<close>)

lemma range_wider: "in_range (TInt w) x \<Longrightarrow> w \<le> w' \<Longrightarrow> in_range (TInt w') x"
  using order.strict_trans2 [of x "2 ^ w" "2 ^ w'"] by (simp add: power_increasing)

lemma gwp_zext_reg [gwp_intros]:
  assumes "(VReg i, TInt w, x) \<in> F" "w < w'" and Q: "\<And>k. Q (VReg k) (insert (VReg k, TInt w', x) F) st r"
  shows "gwp H G F st r (createZExt w' (VReg i)) Q"
proof (rule gwp_range [OF assms(1)])
  assume "in_range (TInt w) x"
  then have "in_range (TInt w') x" using range_wider assms(2) by auto
  then have "gwp H G F st r (createCast (IZExt w') (TInt w') (VReg i)) Q"
    by (rule gwp_cast_reg [where Q = Q, OF assms(1) _ _ _ Q, rotated]) (use assms(2) in \<open>simp_all add: run_inst_def returnE_def\<close>)
  then show "gwp H G F st r (createZExt w' (VReg i)) Q"
    unfolding createZExt_def using assms(2) by (intro gwp_bind gwp_type [OF assms(1)]) simp
qed

lemma gwp_trunc_reg [gwp_intros]:
  assumes "(VReg i, TInt w, x) \<in> F" "w' < w" and Q: "\<And>k. Q (VReg k) (insert (VReg k, TInt w', take_bit w' x) F) st r"
  shows "gwp H G F st r (createTrunc w' (VReg i)) Q"
proof -
  have "gwp H G F st r (createCast (ITrunc w') (TInt w') (VReg i)) Q"
    by (rule gwp_cast_reg [where Q = Q, OF assms(1) _ _ _ Q]) (use assms(2) in \<open>simp_all add: run_inst_def returnE_def\<close>)
  then show ?thesis
    unfolding createTrunc_def using assms(2) by (intro gwp_bind gwp_type [OF assms(1)]) simp
qed

lemma gwp_zext_same: "(v, TInt w, x) \<in> F \<Longrightarrow> Q v F st r \<Longrightarrow> gwp H G F st r (createZExt w v) Q"
  unfolding createZExt_def by (rule gwp_bind, rule gwp_type, assumption) (simp add: gwp_cast_same)

lemma gwp_trunc_same: "(v, TInt w, x) \<in> F \<Longrightarrow> Q v F st r \<Longrightarrow> gwp H G F st r (createTrunc w v) Q"
  unfolding createTrunc_def by (rule gwp_bind, rule gwp_type, assumption) (simp add: gwp_cast_same)

text \<open>Any integer value: a register, or a constant that the builder folds.\<close>

lemma typed_val_cases:
  assumes "knows G F st g env" "(v, TInt w, x) \<in> F"
  obtains i where "v = VReg i" | "v = VConst w x"
  using knowsD [OF assms] by (cases v) (auto simp: den_def val_type_def vval_def)

lemma gwp_int_cases:
  assumes v: "(v, TInt w, x) \<in> F" and "\<And>i. v = VReg i \<Longrightarrow> gwp H G F st r m Q"
    and "v = VConst w x \<Longrightarrow> gwp H G F st r m Q"
  shows "gwp H G F st r m Q"
proof (rule gwpI)
  fix g env assume k: "knows G F st g env"
  from k v have "gwp H G F st r m Q" by (rule typed_val_cases) (use assms(2,3) in auto)
  then show "\<exists>a g' env' r' F' st'. gen_run H G m g env r a g' env' r' \<and> F \<subseteq> F' \<and> knows G F' st' g' env' \<and> Q a F' st' r'"
    using k by (simp add: gwp_def)
qed

lemma gwp_trunc [gwp_intros]:
  assumes v: "(v, TInt w, x) \<in> F" and "w' < w" and Q: "\<And>v'. Q v' (insert (v', TInt w', take_bit w' x) F) st r"
  shows "gwp H G F st r (createTrunc w' v) Q"
proof (rule gwp_int_cases [OF v])
  fix i assume "v = VReg i"
  then show ?thesis using gwp_trunc_reg [of i w x F w' Q st r H G] assms by simp
next
  assume c: "v = VConst w x"
  have "gwp H G F st r (returnE (VConst w' (take_bit w' x))) Q"
    by (rule gwp_const [of "take_bit w' x" w']) (simp_all add: gwp_return Q)
  then have "gwp H G F st r (createCast (ITrunc w') (TInt w') v) Q"
    unfolding createCast_def using assms(2) c by (intro gwp_bind gwp_type [OF v]) simp
  then show ?thesis unfolding createTrunc_def using assms(2) by (intro gwp_bind gwp_type [OF v]) simp
qed

lemma ptr32_range: "in_range (TPtr w) (take_bit 32 x)"
  using take_bit_range [of 32 x] by simp

lemma gwp_inttoptr [gwp_intros]:
  assumes v: "(v, TInt w, x) \<in> F" and Q: "\<And>v'. Q v' (insert (v', TPtr w', take_bit 32 x) F) st r"
  shows "gwp H G F st r (createIntToPtr w' v) Q"
proof (rule gwp_int_cases [OF v])
  fix i assume i: "v = VReg i"
  show ?thesis unfolding createIntToPtr_def i
    by (rule gwp_cast_reg [where Q = Q, OF v [unfolded i] _ ptr32_range _ Q]) (simp_all add: run_inst_def returnE_def)
next
  assume c: "v = VConst w x"
  have "gwp H G F st r (returnE (VConstPtr w' (take_bit 32 x))) Q"
    by (rule gwp_more [of G F st "VConstPtr w' (take_bit 32 x)" "TPtr w'" "take_bit 32 x"])
       (simp_all add: gwp_return Q den_def val_type_def vval_def ptr32_range del: in_range.simps)
  then show ?thesis unfolding createIntToPtr_def createCast_def using c v
    by (intro gwp_bind gwp_type [OF v]) simp
qed

section \<open>Byte swaps\<close>

lemma bswap_call:
  "0 \<le> x \<Longrightarrow> x < 2 ^ 256 \<Longrightarrow> module_calls H G ''solidity.bswapi256'' [x] r = (Inr (byte_swap 32 x), r)"
  by (simp add: module_calls_def run_bswap_def bswap_run returnE_def)

lemma gwp_bswap:
  assumes v: "(v, TInt 256, x) \<in> F" and Q: "\<And>k. Q (VReg k) (insert (VReg k, TInt 256, byte_swap 32 x) F) st r"
  shows "gwp H G F st r (call_bswap v) Q"
proof (rule gwp_range [OF v])
  assume "in_range (TInt 256) x"
  then show ?thesis unfolding call_bswap_def
    using v byte_swap_bounds [of 32 x]
    by (intro gwp_callTyped [where ts = "[(TInt 256, x)]" and Q = Q, OF _ _ _ _ Q]) (simp_all add: bswap_call)
qed

text \<open>A narrower number is shifted to the top first, so that its bytes are the low ones after the swap.\<close>

lemma byte_swap_shifted:
  assumes "k \<le> 32"
  shows "take_bit (8 * k) (byte_swap 32 (push_bit (256 - 8 * k) x)) = byte_swap k x"
proof (rule bit_eqI)
  fix j
  show "bit (take_bit (8 * k) (byte_swap 32 (push_bit (256 - 8 * k) x))) j = bit (byte_swap k x) j"
  proof (cases "j < 8 * k")
    case True
    then have "j div 8 < k" by auto
    then have "8 * (31 - j div 8) + j mod 8 = (256 - 8 * k) + (8 * (k - Suc (j div 8)) + j mod 8)" using assms by simp
    then have "bit (push_bit (256 - 8 * k) x) (8 * (31 - j div 8) + j mod 8) = bit x (8 * (k - Suc (j div 8)) + j mod 8)"
      by (simp only: bit_push_bit_iff) simp
    then show ?thesis using True assms by (simp add: bit_take_bit_iff bit_byte_swap)
  qed (simp add: bit_take_bit_iff bit_byte_swap)
qed

lemma gwp_bin_reg:
  assumes v: "(VReg i, TInt w, x) \<in> F" and n: "0 \<le> n" "n < 2 ^ w" and d: "bin_defined op w x n" "in_range (TInt w) (bin_value op w x n)"
    and Q: "\<And>k. Q (VReg k) (insert (VReg k, TInt w, bin_value op w x n) F) st r"
  shows "gwp H G F st r (createBin2 op (VReg i) (VConst w n)) Q"
proof (rule gwp_result [where P = "\<lambda>a. \<exists>k. a = VReg k"])
  let ?F = "insert (VConst w n, TInt w, n) F" and ?y = "bin_value op w x n"
  have run: "run_inst (module_calls H G) G [] env (IBin op w (VReg i) (VConst w n)) r = (Inr ?y, r)"
    if "knows G ?F st g env" for g env
    using knows_val [OF that, of "VReg i" "TInt w" x] v d(1) by (simp add: run_inst_def returnE_def vval_def)
  show "gwp H G F st r (createBin2 op (VReg i) (VConst w n))
     (\<lambda>a F' st' r'. (\<exists>k. a = VReg k) \<and> (a, TInt w, ?y) \<in> F' \<and> st' = st \<and> r' = r)"
    unfolding createBin2_def
    by (rule gwp_const [OF n], rule gwp_bind, rule gwp_type, rule insertI2, rule v,
        rule gwp_bind, rule gwp_type, rule insertI1, simp, rule gwp_emit [OF run d(2)], assumption, blast)
qed (use Q in blast)

lemma gwp_shl_reg:
  assumes v: "(VReg i, TInt w, x) \<in> F" and n: "n < w" and Q: "\<And>k. Q (VReg k) (insert (VReg k, TInt w, take_bit w (push_bit n x)) F) st r"
  shows "gwp H G F st r (createBin2 Shl (VReg i) (VConst w (int n))) Q"
proof -
  have c: "int n < 2 ^ w" using n less_exp [of w] by (metis of_nat_less_numeral_power_cancel_iff order.strict_trans)
  have b: "bin_value Shl w x (int n) = take_bit w (push_bit n x)" by (simp add: bin_value_def)
  show ?thesis
    by (rule gwp_bin_reg [where Q = Q, OF v _ c]) (use n Q take_bit_range in \<open>simp_all add: b bin_defined_def\<close>)
qed

lemma gwp_endian_reg [gwp_intros]:
  assumes v: "(VReg i, TInt w, x) \<in> F" and w: "w mod 8 = 0" "0 < w" "w \<le> 256"
    and Q: "\<And>k. Q (VReg k) (insert (VReg k, TInt w, byte_swap (w div 8) x) F) st r"
  shows "gwp H G F st r (emitEndianConvert (VReg i)) Q"
proof (rule gwp_result [where P = "\<lambda>a. \<exists>k. a = VReg k"])
  let ?R = "\<lambda>a F' st' r'. (\<exists>k. a = VReg k) \<and> (a, TInt w, byte_swap (w div 8) x) \<in> F' \<and> st' = st \<and> r' = r"
  show "gwp H G F st r (emitEndianConvert (VReg i)) ?R"
  proof (cases "w = 256")
    case True
    have v: "(VReg i, TInt 256, x) \<in> F" using v True by simp
    have "gwp H G F st r (emitEndianConvert (VReg i))
        (\<lambda>a F' st' r'. (\<exists>k. a = VReg k) \<and> (a, TInt 256, byte_swap 32 x) \<in> F' \<and> st' = st \<and> r' = r)"
      unfolding emitEndianConvert_def createZExtOrTrunc_def val.case
      apply (rule gwp_bind, rule gwp_type, rule v)
      apply (unfold lty.case)
      apply (rule gwp_bind, rule gwp_bind, rule gwp_type, rule v)
      apply (simp only: lty.case less_irrefl if_False if_True simp_thms)
      apply (rule gwp_trunc_same, rule v)
      apply (rule gwp_bind, rule gwp_return, rule gwp_bind, rule gwp_bswap, rule v)
      apply (rule gwp_trunc_same, rule insertI1)
      by simp
    then show ?thesis by (simp add: True)
  next
    case False
    then have lt: "w < 256" using w by simp
    have n: "256 - int w = int (256 - w)" and w0: "8 * (w div 8) = w" using lt w by auto
    show ?thesis
    proof (rule gwp_range [OF v])
      assume r: "in_range (TInt w) x"
      have t: "take_bit w (byte_swap 32 (take_bit 256 (push_bit (256 - w) x))) = byte_swap (w div 8) x"
      proof -
        have "push_bit (256 - w) x < push_bit (256 - w) (2 ^ w)" using r lt by (simp add: push_bit_eq_mult)
        also have "push_bit (256 - w) (2 ^ w) = (2 :: int) ^ 256" using lt by (simp add: push_bit_eq_mult flip: power_add)
        finally have "take_bit 256 (push_bit (256 - w) x) = push_bit (256 - w) x"
          using r by (simp add: take_bit_int_eq_self)
        then show ?thesis using byte_swap_shifted [of "w div 8" x] w w0 lt by simp
      qed
      show ?thesis
        unfolding emitEndianConvert_def createZExtOrTrunc_def n
        apply (unfold val.case)
        apply (rule gwp_bind, rule gwp_type, rule v)
        apply (unfold lty.case)
        apply (rule gwp_bind, rule gwp_bind, rule gwp_type, rule v)
        apply (simp only: lty.case lt if_True)
        apply (rule gwp_zext_reg, rule v, rule lt)
        apply (simp only: False if_True simp_thms)
        apply (rule gwp_bind, unfold n, rule gwp_shl_reg, rule insertI1)
         apply (simp add: w(2))
        apply (rule gwp_bind, rule gwp_bswap, rule insertI1, rule gwp_trunc_reg, rule insertI1, rule lt)
        by (simp add: t)
    qed
  qed
qed (use Q in auto)

lemma gwp_endian [gwp_intros]:
  assumes v: "(v, TInt w, x) \<in> F" and w: "w mod 16 = 0" "0 < w" "w \<le> 256"
    and Q: "\<And>v'. Q v' (insert (v', TInt w, byte_swap (w div 8) x) F) st r"
  shows "gwp H G F st r (emitEndianConvert v) Q"
proof (rule gwp_int_cases [OF v])
  fix i assume i: "v = VReg i"
  have w8: "w mod 8 = 0" using w(1) by presburger
  show ?thesis unfolding i by (rule gwp_endian_reg [OF v [unfolded i] w8 w(2,3)]) (rule Q)
next
  assume c: "v = VConst w x"
  have b: "0 \<le> byte_swap (w div 8) x" "byte_swap (w div 8) x < 2 ^ w"
  proof -
    have "8 * (w div 8) = w" using w(1) by presburger
    then show "0 \<le> byte_swap (w div 8) x" "byte_swap (w div 8) x < 2 ^ w"
      using byte_swap_bounds [of "w div 8" x] by simp_all
  qed
  have "gwp H G F st r (returnE (VConst w (byte_swap (w div 8) x))) Q"
    by (rule gwp_const [OF b], rule gwp_return, rule Q)
  then show ?thesis using w c by (simp add: emitEndianConvert_def)
qed

end
