(* ===== verification/Host_Correct.thy ===== *)
theory Host_Correct
  imports Host_Logic
begin

text \<open>
  What the translated storage, memory and environment instructions do when the contract runs:
  the emitted code has the effect of the EVM instruction on the storage, the memory or the
  stack. The last section shows two instructions for which it has not.
\<close>

section \<open>Numbers and bytes\<close>

lemma bytes_be_le: "bytes_be n (w :: 'a::len word) = rev (le_bytes n (uint w))"
proof (rule nth_equalityI)
  fix i assume "i < length (bytes_be n w)"
  then have i: "i < n" by simp
  have "ucast (drop_bit m w) = (word_of_int (drop_bit m (uint w)) :: byte)" for m
    by (rule bit_word_eqI) (simp add: bit_simps)
  then show "bytes_be n w ! i = rev (le_bytes n (uint w)) ! i"
    using i by (simp add: bytes_be_def rev_nth nth_le_bytes)
qed simp

lemma uint_of_int_id: "0 \<le> x \<Longrightarrow> x < 2 ^ LENGTH('a) \<Longrightarrow> uint (word_of_int x :: 'a::len word) = x"
  by (simp add: uint_word_of_int_eq take_bit_int_eq_self)

lemma swapped_bytes:
  assumes "0 \<le> x" "x < 2 ^ LENGTH('a::len)"
  shows "le_bytes n (byte_swap n x) = bytes_be n (word_of_int x :: 'a word)"
  using assms by (simp only: bytes_be_le le_bytes_swap uint_of_int_id)

lemma swapped_load: "byte_swap n (le_int (bytes_be n (w :: 'a::len word))) = take_bit (8 * n) (uint w)"
proof -
  have "byte_swap n (le_int (bytes_be n w)) = le_int (le_bytes n (uint w))"
    using le_bytes_int [of "bytes_be n w"] by (simp add: byte_swap_def bytes_be_le)
  also have "\<dots> = take_bit (8 * n) (uint w)"
  proof -
    have "le_bytes n (uint w) = le_bytes n (take_bit (8 * n) (uint w))"
    proof (rule nth_equalityI)
      fix i assume "i < length (le_bytes n (uint w))"
      then have i: "i < n" by simp
      show "le_bytes n (uint w) ! i = le_bytes n (take_bit (8 * n) (uint w)) ! i"
      proof (rule bit_word_eqI)
        fix k assume "k < LENGTH(8)"
        then show "bit (le_bytes n (uint w) ! i) k = bit (le_bytes n (take_bit (8 * n) (uint w)) ! i) k"
          using i by (auto simp: nth_le_bytes bit_byte bit_take_bit_iff)
      qed
    qed simp
    then show ?thesis by (simp add: le_int_bytes)
  qed
  finally show ?thesis .
qed

lemma swapped_load_full:
  assumes "LENGTH('a::len) = 8 * n"
  shows "byte_swap n (le_int (bytes_be n (w :: 'a word))) = uint w"
proof -
  have "take_bit (8 * n) (uint w) = uint w"
    unfolding assms [symmetric] using unsigned_less [of w, where ?'a = int] by (simp add: take_bit_int_eq_self)
  then show ?thesis using swapped_load [of n w] by simp
qed

lemma le_int_take_bit: "length bs = n \<Longrightarrow> take_bit (8 * n) (le_int bs) = le_int bs"
  using le_int_bounds [of bs] by (simp add: take_bit_int_eq_self)

section \<open>Stack and gas\<close>

definition stack_room :: "nat \<Rightarrow> 'h rt \<Rightarrow> bool" where
  "stack_room n r \<longleftrightarrow> n \<le> unat (rt_sp r) \<and> unat (rt_sp r) \<le> length (mem_of r) \<and> length (mem_of r) \<le> 2 ^ 32"

lemma unat_of_small: "k < 2 ^ 32 \<Longrightarrow> unat (of_nat k :: u32) = k"
  by (simp add: unat_of_nat take_bit_nat_eq_self)

lemma slot_unat:
  assumes "(type_bytes w + 15) div 16 * 16 \<le> unat sp"
  shows "unat (stack_slot w sp) = unat sp - (type_bytes w + 15) div 16 * 16"
proof -
  let ?k = "(type_bytes w + 15) div 16 * 16"
  have k: "?k < 2 ^ 32" using assms unsigned_less [of sp, where ?'a = nat] by simp
  note u = unat_of_small [OF k]
  show ?thesis unfolding stack_slot_def using assms u by (subst unat_sub) (simp_all only: word_le_nat_alt u)
qed

definition has_gas :: "int \<Rightarrow> 'h rt \<Rightarrow> bool" where
  "has_gas x r \<longleftrightarrow> (let s = rt_iface r in
     m_meterGas s \<longrightarrow> x \<le> gasLeft (m_result s) \<and> gasLeft (m_result s) \<le> int64_max)"

definition pay :: "int \<Rightarrow> 'h EthereumInterface \<Rightarrow> 'h EthereumInterface" where
  "pay x s = (if m_meterGas s then s\<lparr>m_result := (m_result s)\<lparr>gasLeft := gasLeft (m_result s) - x\<rparr>\<rparr> else s)"

lemma takeInterfaceGas_pays:
  assumes "m_meterGas s \<longrightarrow> x \<le> gasLeft (m_result s) \<and> gasLeft (m_result s) \<le> int64_max" "0 \<le> x"
  shows "takeInterfaceGas x s = (Inr (), pay x s)"
proof (cases "m_meterGas s")
  case True
  then have "takeInterfaceGas x s = (Inr (), s\<lparr>m_result := (m_result s)\<lparr>gasLeft := gasLeft (m_result s) - x\<rparr>\<rparr>)"
    using takeInterfaceGas_eq [OF True _ _ assms(2)] assms by simp
  then show ?thesis using True by (simp add: pay_def)
qed (simp add: takeInterfaceGas_def bindE_def getE_def returnE_def pay_def)

lemma pay_fields [simp]:
  "wasm_memory (pay x s) = wasm_memory s" "m_host (pay x s) = m_host s" "m_msg (pay x s) = m_msg s"
  "m_meterGas (pay x s) = m_meterGas s" "mem_bound (pay x s) = mem_bound s" "in_memory a n (pay x s) = in_memory a n s"
  "store_ok a n (pay x s) = store_ok a n s"
  by (simp_all add: pay_def mem_bound_def in_memory_def store_ok_def)

lemma storageLoad_returns:
  assumes "m_meterGas s \<longrightarrow> gs_storageLoad \<le> gasLeft (m_result s) \<and> gasLeft (m_result s) \<le> int64_max"
    and "mem_bound s" "in_memory p 32 s" "store_ok q 32 s"
  shows "eeiStorageLoad H p q s = (Inr (), put q (bytes_be 32 (get_storage H (host_state (m_host s))
     (msg_destination (m_msg s)) (word_be (segment (unat p) 32 (wasm_memory s))))) (pay gs_storageLoad s))"
  using takeInterfaceGas_pays [OF assms(1)] assms(2-4)
  by (simp add: eeiStorageLoad_def seqE_def bindE_def readMsg_def hostRead_def getE_def loadBytes32_eq storeBytes32_eq
      gs_storageLoad_def)

lemma module_calls_host:
  "name \<noteq> ''solidity.bswapi256'' \<Longrightarrow> name \<noteq> ''solidity.memcpy'' \<Longrightarrow> name \<noteq> ''solidity.keccak256'' \<Longrightarrow>
   module_calls H G name = call_host H name"
  by (rule ext) (simp add: module_calls_def)

lemma ucast_of_int_u32: "(ucast (word_of_int x :: u64) :: u32) = word_of_int x"
  by (rule bit_word_eqI) (simp add: bit_simps)

lemma call_storageLoad:
  "eeiStorageLoad H (word_of_int a) (word_of_int b) (rt_iface r) = (Inr (), s) \<Longrightarrow>
   module_calls H G (d_name Func_storageLoad) [a, b] r = (Inr 0, r\<lparr>rt_iface := s\<rparr>)"
  by (simp add: module_calls_host Func_storageLoad_def call_host_def wabt_module_def wabt_func_defs on_iface_def bindE_def
      retNone_def returnE_def arg32_def ucast_of_int_u32)

text \<open>The slots of one and of two words below the stack pointer.\<close>

lemma word_slots:
  assumes "stack_room 64 r"
  shows "addr_of (uint (stack_slot 256 (rt_sp r))) = unat (rt_sp r) - 32"
    "addr_of (uint (stack_slot 256 (stack_slot 256 (rt_sp r)))) = unat (rt_sp r) - 64"
proof -
  have "unat (stack_slot 256 (rt_sp r)) = unat (rt_sp r) - 32"
    using assms slot_unat [of 256 "rt_sp r"] by (simp add: stack_room_def type_bytes_def)
  moreover have "32 \<le> unat (rt_sp r) - 32" using assms by (simp add: stack_room_def le_diff_conv2)
  ultimately have "unat (stack_slot 256 (stack_slot 256 (rt_sp r))) = unat (rt_sp r) - 64"
    "unat (stack_slot 256 (rt_sp r)) = unat (rt_sp r) - 32"
    using slot_unat [of 256 "stack_slot 256 (rt_sp r)"] by (simp_all add: type_bytes_def)
  then show "addr_of (uint (stack_slot 256 (rt_sp r))) = unat (rt_sp r) - 32"
    "addr_of (uint (stack_slot 256 (stack_slot 256 (rt_sp r)))) = unat (rt_sp r) - 64"
    by (simp_all add: addr_of_def)
qed

lemma mem_of_simps [simp]:
  "mem_of (r\<lparr>rt_sp := p\<rparr>) = mem_of r" "mem_of (r\<lparr>rt_iface := s\<rparr>) = wasm_memory s"
  "mem_of (write_mem a bs r) = put_segment (addr_of a) bs (mem_of r)"
  "rt_sp (write_mem a bs r) = rt_sp r"
  "rt_iface (write_mem a bs r) = (rt_iface r)\<lparr>wasm_memory := put_segment (addr_of a) bs (mem_of r)\<rparr>"
  by (simp_all add: mem_of_def set_mem_def write_mem_def)

lemma all2_Cons: "(v, t) \<in> F \<Longrightarrow> list_all2 (\<lambda>v t. (v, t) \<in> F) vs ts \<Longrightarrow> list_all2 (\<lambda>v t. (v, t) \<in> F) (v # vs) (t # ts)"
  by simp

lemmas known = insertI1 insertI2
lemmas known_args = all2_Cons list.rel_intros(1) insertI1 insertI2

section \<open>Storage\<close>

lemma sload_gwp:
  assumes x: "0 \<le> x" "x < 2 ^ 256" and room: "stack_room 64 r" and gas: "has_gas gs_storageLoad r"
  shows "gwp H G {(k, TInt 256, x)} (st @ [k]) r (hc_SLOAD pc)
    (\<lambda>_ F st' r'. \<exists>v. (v, TInt 256, uint (get_storage H (host_state (m_host (rt_iface r)))
        (msg_destination (m_msg (rt_iface r))) (word_of_int x))) \<in> F \<and> st' = st @ [v]
        \<and> m_host (rt_iface r') = m_host (rt_iface r))"
proof -
  note slots = word_slots [OF room]
  let ?p = "stack_slot 256 (rt_sp r)" and ?q = "stack_slot 256 (stack_slot 256 (rt_sp r))"
  let ?m = "put_segment (addr_of (uint ?p)) (bytes_be 32 (word_of_int x :: bytes32)) (mem_of r)"
  let ?s = "(rt_iface r)\<lparr>wasm_memory := ?m\<rparr>"
  let ?v = "get_storage H (host_state (m_host (rt_iface r))) (msg_destination (m_msg (rt_iface r))) (word_of_int x)"
  let ?t = "put ?q (bytes_be 32 ?v) (pay gs_storageLoad ?s)"
  have len: "length ?m = length (mem_of r)" using room by (simp add: slots stack_room_def)
  have b: "mem_bound ?s" "in_memory ?p 32 ?s" "store_ok ?q 32 ?s"
    using room slots unsigned_less [of "rt_sp r", where ?'a = nat] len
    by (auto simp: stack_room_def mem_bound_def in_memory_def store_ok_def addr_of_def)
  have "eeiStorageLoad H ?p ?q ?s = (Inr (), ?t)"
    using storageLoad_returns [OF _ b, of H] gas room slots
    by (simp add: has_gas_def Let_def addr_of_def stack_room_def word_be_bytes_be)
  then have call: "module_calls H G (d_name Func_storageLoad) [uint ?p, uint ?q]
      (write_mem (uint ?p) (le_bytes (type_bytes 256) (byte_swap (256 div 8) x)) (r\<lparr>rt_sp := ?q\<rparr>)) =
      (Inr 0, r\<lparr>rt_sp := ?q, rt_iface := ?t\<rparr>)"
    using call_storageLoad [of H "uint ?p" "uint ?q" "write_mem (uint ?p) (bytes_be 32 (word_of_int x :: bytes32)) (r\<lparr>rt_sp := ?q\<rparr>)"]
      swapped_bytes [where 'a = 256, of x 32] x
    by (simp add: write_mem_def set_mem_def)
  have load: "byte_swap 32 (le_int (segment (addr_of (uint ?q)) 32 (wasm_memory ?t))) = uint ?v"
    and bound: "addr_of (uint ?q) + 32 \<le> length (wasm_memory ?t)"
    using b(3) swapped_load_full [of 32 ?v] len
    by (simp_all add: put_def addr_of_def store_ok_def in_memory_def)
  show ?thesis
    unfolding hc_SLOAD_def push_set_def
    apply (rule gwp_bind, rule gwp_pop)
    apply (rule gwp_bind, rule gwp_alloca)
    apply (rule gwp_bind, rule gwp_alloca)
    apply (rule gwp_bind, rule gwp_endian, (rule known)+, simp, simp, simp)
    apply (rule gwp_seq, rule gwp_store, (rule known)+)
     apply (use room in \<open>simp add: slots stack_room_def\<close>)
    apply (rule gwp_bind, rule gwp_bitcast_reg, (rule known)+, simp)
    apply (rule gwp_bind, rule gwp_bitcast_reg, (rule known)+, simp)
    apply (rule gwp_seq, rule gwp_call, (rule known_args)+)
       apply (simp add: Func_storageLoad_def)
      apply (use call in simp)
     apply (simp add: Func_storageLoad_def)
    apply (rule gwp_bind, rule gwp_load, (rule known)+)
     apply (use bound in simp)
    apply (rule gwp_bind, rule gwp_endian_reg, (rule known)+, simp, simp, simp)
    apply (rule gwp_seq, rule gwp_push, rule gwp_setPC)
    using load le_int_take_bit [of "segment (addr_of (uint ?q)) 32 (wasm_memory ?t)" 32] bound
    by (intro exI conjI) (simp_all add: put_def)
qed

definition store_cost :: "bytes32 \<Rightarrow> bytes32 \<Rightarrow> int" where
  "store_cost old new = (if is_zero old \<and> \<not> is_zero new then gs_storageStoreCreate else gs_storageStoreChange)"

lemma pay_twice: "pay y (pay x s) = pay (x + y) s"
  by (simp add: pay_def)

lemma storageStore_returns:
  assumes gas: "m_meterGas s \<longrightarrow> gs_storageStoreCreate \<le> gasLeft (m_result s) \<and> gasLeft (m_result s) \<le> int64_max"
    and "mem_bound s" "in_memory p 32 s" "in_memory q 32 s" "\<not> is_static (msg_flags (m_msg s))"
  defines "key \<equiv> word_be (segment (unat p) 32 (wasm_memory s))" and "new \<equiv> word_be (segment (unat q) 32 (wasm_memory s))"
    and "h \<equiv> host_state (m_host s)" and "dest \<equiv> msg_destination (m_msg s)"
  shows "eeiStorageStore H p q s = (Inr (), (pay (store_cost (get_storage H h dest key) new) s)
    \<lparr>m_host := (m_host s)\<lparr>host_state := set_storage H h dest key new\<rparr>\<rparr>)"
proof -
  have 1: "takeInterfaceGas gs_storageStoreChange s = (Inr (), pay gs_storageStoreChange s)"
    using gas by (intro takeInterfaceGas_pays) (auto simp: gas_schedule)
  have 2: "takeInterfaceGas (gs_storageStoreCreate - gs_storageStoreChange) (pay gs_storageStoreChange s)
      = (Inr (), pay gs_storageStoreCreate s)"
  proof -
    have "m_meterGas (pay gs_storageStoreChange s) \<longrightarrow>
        gs_storageStoreCreate - gs_storageStoreChange \<le> gasLeft (m_result (pay gs_storageStoreChange s))
        \<and> gasLeft (m_result (pay gs_storageStoreChange s)) \<le> int64_max"
      using gas by (auto simp: pay_def gas_schedule)
    from takeInterfaceGas_pays [OF this] show ?thesis by (simp add: pay_twice gas_schedule)
  qed
  show ?thesis using 1 2 assms(2-5)
    by (simp add: eeiStorageStore_def seqE_def bindE_def ensureNotStatic_def readMsg_def getE_def ensureE_def returnE_def
        loadBytes32_eq hostRead_def whenE_def hostWrite_def modifyE_def store_cost_def key_def new_def h_def dest_def)
qed

lemma storageStore_static:
  assumes gas: "m_meterGas s \<longrightarrow> gs_storageStoreChange \<le> gasLeft (m_result s) \<and> gasLeft (m_result s) \<le> int64_max"
    and "is_static (msg_flags (m_msg s))"
  shows "eeiStorageStore H p q s = (Inl StaticModeViolation, pay gs_storageStoreChange s)"
proof -
  have "takeInterfaceGas gs_storageStoreChange s = (Inr (), pay gs_storageStoreChange s)"
    using gas by (intro takeInterfaceGas_pays) (simp_all add: gas_schedule)
  then show ?thesis using assms(2)
    by (simp add: eeiStorageStore_def seqE_def bindE_def ensureNotStatic_def readMsg_def getE_def ensureE_def throwE_def)
qed

lemma call_storageStore:
  "module_calls H G (d_name Func_storageStore) [a, b] r =
     (case eeiStorageStore H (word_of_int a) (word_of_int b) (rt_iface r) of
        (Inl e, s) \<Rightarrow> (Inl e, r\<lparr>rt_iface := s\<rparr>) | (Inr _, s) \<Rightarrow> (Inr 0, r\<lparr>rt_iface := s\<rparr>))"
  by (simp add: module_calls_host Func_storageStore_def call_host_def wabt_module_def wabt_func_defs on_iface_def bindE_def
      retNone_def returnE_def arg32_def ucast_of_int_u32 split: prod.splits sum.splits)

text \<open>The memory at the call of storageStore: the key in the first slot, the value in the second.\<close>

definition with_words :: "'h rt \<Rightarrow> int \<Rightarrow> int \<Rightarrow> 'h rt" where
  "with_words r x y =
     (let p = stack_slot 256 (rt_sp r); q = stack_slot 256 p
      in write_mem (uint q) (bytes_be 32 (word_of_int y :: bytes32))
           (write_mem (uint p) (bytes_be 32 (word_of_int x :: bytes32)) (r\<lparr>rt_sp := q\<rparr>)))"

lemma segment_put_other:
  assumes "off + n \<le> off' \<or> off' + length bs \<le> off" "off + n \<le> length mem" "off' + length bs \<le> length mem"
  shows "segment off n (put_segment off' bs mem) = segment off n mem"
  using assms by (intro nth_equalityI) (auto simp: segment_nth nth_put_segment)

lemma with_words:
  fixes r :: "'h rt" and x y :: int
  assumes room: "stack_room 64 r"
  defines "p \<equiv> stack_slot 256 (rt_sp r)" and "s \<equiv> rt_iface (with_words r x y)"
  defines "q \<equiv> stack_slot 256 p"
  shows "mem_bound s" "in_memory p 32 s" "in_memory q 32 s"
    "word_be (segment (unat p) 32 (wasm_memory s)) = (word_of_int x :: bytes32)"
    "word_be (segment (unat q) 32 (wasm_memory s)) = (word_of_int y :: bytes32)"
    "m_msg s = m_msg (rt_iface r)" "m_host s = m_host (rt_iface r)" "m_meterGas s = m_meterGas (rt_iface r)"
    "m_result s = m_result (rt_iface r)"
proof -
  note slots = word_slots [OF room, folded p_def, folded q_def]
  have u: "unat p = unat (rt_sp r) - 32" "unat q = unat (rt_sp r) - 64" using slots by (simp_all add: addr_of_def)
  show "mem_bound s" "in_memory p 32 s" "in_memory q 32 s"
    using room u by (auto simp: s_def with_words_def Let_def p_def [symmetric] q_def [symmetric] slots stack_room_def
        mem_bound_def in_memory_def)
  show "word_be (segment (unat p) 32 (wasm_memory s)) = (word_of_int x :: bytes32)"
    "word_be (segment (unat q) 32 (wasm_memory s)) = (word_of_int y :: bytes32)"
    using room u by (auto simp: s_def with_words_def Let_def p_def [symmetric] q_def [symmetric] slots stack_room_def
        segment_put_other word_be_bytes_be)
qed (simp_all add: s_def with_words_def Let_def)

lemma sstore_prepares:
  assumes x: "0 \<le> x" "x < 2 ^ 256" and y: "0 \<le> y" "y < 2 ^ 256" and room: "stack_room 64 r"
  defines "p \<equiv> stack_slot 256 (rt_sp r)"
  shows "write_mem (uint (stack_slot 256 p)) (le_bytes (type_bytes 256) (byte_swap (256 div 8) y))
     (write_mem (uint p) (le_bytes (type_bytes 256) (byte_swap (256 div 8) x)) (r\<lparr>rt_sp := stack_slot 256 p\<rparr>)) = with_words r x y"
    "addr_of (uint p) + type_bytes 256 \<le> length (mem_of (r\<lparr>rt_sp := stack_slot 256 p\<rparr>))"
    "addr_of (uint (stack_slot 256 p)) + type_bytes 256 \<le> length (mem_of (write_mem (uint p)
       (le_bytes (type_bytes 256) (byte_swap (256 div 8) x)) (r\<lparr>rt_sp := stack_slot 256 p\<rparr>)))"
  using swapped_bytes [where 'a = 256, of x 32] swapped_bytes [where 'a = 256, of y 32] x y
    word_slots [OF room] room
  by (auto simp: with_words_def Let_def p_def stack_room_def)

text \<open>What the call of storageStore does with this memory decides what the translated code does.\<close>

lemma sstore_run:
  assumes x: "0 \<le> x" "x < 2 ^ 256" and y: "0 \<le> y" "y < 2 ^ 256" and room: "stack_room 64 r"
  defines "p \<equiv> stack_slot 256 (rt_sp r)"
  shows "eeiStorageStore H p (stack_slot 256 p) (rt_iface (with_words r x y)) = (Inr (), s) \<Longrightarrow>
      gwp H G {(k, TInt 256, x), (v, TInt 256, y)} (st @ [v, k]) r (hc_SSTORE pc)
       (\<lambda>_ _ st' r'. st' = st \<and> r' = (with_words r x y)\<lparr>rt_iface := s\<rparr>)"
    "eeiStorageStore H p (stack_slot 256 p) (rt_iface (with_words r x y)) = (Inl e, s) \<Longrightarrow>
      gth H G {(k, TInt 256, x), (v, TInt 256, y)} (st @ [v, k]) r (hc_SSTORE pc) e ((with_words r x y)\<lparr>rt_iface := s\<rparr>)"
proof -
  note prep = sstore_prepares [OF x y room]
  have st: "st @ [v, k] = (st @ [v]) @ [k]" by simp
  show "gwp H G {(k, TInt 256, x), (v, TInt 256, y)} (st @ [v, k]) r (hc_SSTORE pc)
       (\<lambda>_ _ st' r'. st' = st \<and> r' = (with_words r x y)\<lparr>rt_iface := s\<rparr>)"
    if "eeiStorageStore H p (stack_slot 256 p) (rt_iface (with_words r x y)) = (Inr (), s)"
    unfolding hc_SSTORE_def unlessType_def st
    apply (rule gwp_bind, rule gwp_pop, rule gwp_bind, rule gwp_pop)
    apply (rule gwp_bind, rule gwp_bind, rule gwp_type, (rule known)+, simp, rule gwp_return)
    apply (rule gwp_bind, rule gwp_bind, rule gwp_type, (rule known)+, simp, rule gwp_return)
    apply (rule gwp_bind, rule gwp_alloca, rule gwp_bind, rule gwp_alloca)
    apply (rule gwp_bind, rule gwp_endian, (rule known)+, simp, simp, simp)
    apply (rule gwp_seq, rule gwp_store, (rule known)+, use prep in simp)
    apply (rule gwp_bind, rule gwp_endian, (rule known)+, simp, simp, simp)
    apply (rule gwp_seq, rule gwp_store, (rule known)+, use prep in simp)
    apply (rule gwp_bind, rule gwp_bitcast_reg, (rule known)+, simp)
    apply (rule gwp_bind, rule gwp_bitcast_reg, (rule known)+, simp)
    apply (rule gwp_bind, rule gwp_call, (rule known_args)+)
       apply (simp add: Func_storageStore_def)
      apply (use that prep in \<open>simp add: call_storageStore p_def\<close>)
     apply (simp add: Func_storageStore_def)
    apply (rule gwp_setPC)
    by simp
  show "gth H G {(k, TInt 256, x), (v, TInt 256, y)} (st @ [v, k]) r (hc_SSTORE pc) e ((with_words r x y)\<lparr>rt_iface := s\<rparr>)"
    if "eeiStorageStore H p (stack_slot 256 p) (rt_iface (with_words r x y)) = (Inl e, s)"
    unfolding hc_SSTORE_def unlessType_def st
    apply (rule gth_bind, rule gwp_pop, rule gth_bind, rule gwp_pop)
    apply (rule gth_bind, rule gwp_bind, rule gwp_type, (rule known)+, simp, rule gwp_return)
    apply (rule gth_bind, rule gwp_bind, rule gwp_type, (rule known)+, simp, rule gwp_return)
    apply (rule gth_bind, rule gwp_alloca, rule gth_bind, rule gwp_alloca)
    apply (rule gth_bind, rule gwp_endian, (rule known)+, simp, simp, simp)
    apply (rule gth_seq, rule gwp_store, (rule known)+, use prep in simp)
    apply (rule gth_bind, rule gwp_endian, (rule known)+, simp, simp, simp)
    apply (rule gth_seq, rule gwp_store, (rule known)+, use prep in simp)
    apply (rule gth_bind, rule gwp_bitcast_reg, (rule known)+, simp)
    apply (rule gth_bind, rule gwp_bitcast_reg, (rule known)+, simp)
    apply (rule gth_call, (rule known_args)+)
      apply (simp add: Func_storageStore_def)
     apply (use that prep in \<open>simp add: call_storageStore p_def\<close>)
    by (simp add: setPC_def modifyE_def)
qed

lemma gwp_apply:
  fixes m :: "unit cg"
  assumes "gwp H G F st r m Q" "length env = length (h_code g)" "h_stack g = st"
    and "\<forall>(v, ty, x) \<in> F. den G g env v ty x"
  shows "\<exists>g' env' r' F'. gen_run H G m g env r () g' env' r' \<and> knows G F' (h_stack g') g' env' \<and> Q () F' (h_stack g') r'"
proof -
  have "knows G F st g env" using assms(2-4) by (auto simp: knows_def)
  with assms(1) obtain a g' env' r' F' st' where "gen_run H G m g env r a g' env' r'" "knows G F' st' g' env'" "Q a F' st' r'"
    by (rule gwpD)
  moreover from this(2) have "st' = h_stack g'" by (simp add: knows_def)
  ultimately show ?thesis by fastforce
qed

text \<open>
  C13: SLOAD. When the translator's stack has a value for the key \<open>x\<close> on top, the emitted code,
  run with room for two words on the stack and the gas of storageLoad, pushes a value that
  stands for what the storage of the executing contract holds at the key; the host is not changed.
\<close>

theorem sload_correct:
  assumes "length env = length (h_code g)" "h_stack g = st @ [k]" and k: "den G g env k (TInt 256) x"
    and "stack_room 64 r" "has_gas gs_storageLoad r"
  shows "\<exists>g' env' r' v. gen_run H G (hc_SLOAD pc) g env r () g' env' r' \<and> h_stack g' = st @ [v]
    \<and> den G g' env' v (TInt 256) (uint (get_storage H (host_state (m_host (rt_iface r)))
        (msg_destination (m_msg (rt_iface r))) (word_of_int x)))
    \<and> m_host (rt_iface r') = m_host (rt_iface r)"
proof -
  have x: "0 \<le> x" "x < 2 ^ 256" using den_range [OF k] by simp_all
  from gwp_apply [OF sload_gwp [OF x assms(4,5), of H G k st pc] assms(1,2)] k
  obtain g' env' r' F' v where "gen_run H G (hc_SLOAD pc) g env r () g' env' r'" and kn: "knows G F' (h_stack g') g' env'"
    and "(v, TInt 256, uint (get_storage H (host_state (m_host (rt_iface r)))
        (msg_destination (m_msg (rt_iface r))) (word_of_int x))) \<in> F'" "h_stack g' = st @ [v]"
        "m_host (rt_iface r') = m_host (rt_iface r)" by auto
  then show ?thesis using knowsD [OF kn] by blast
qed

definition sample_gen :: "val list \<Rightarrow> hgen" where
  "sample_gen st = \<lparr>h_code = [], h_stack = st, h_pcs = [], h_term = None, h_dest = None\<rparr>"

definition sample_rt :: "u32 \<Rightarrow> ExampleHost rt" where
  "sample_rt fl = \<lparr>rt_iface = sample_iface fl 7, rt_sp = 64\<rparr>"

lemma sample_rt_ok: "stack_room 64 (sample_rt fl)" "x \<le> 100000 \<Longrightarrow> has_gas x (sample_rt fl)"
  by (simp_all add: stack_room_def has_gas_def sample_rt_def mem_of_def sample_iface_def int64_max_def)

lemma sample_den: "0 \<le> n \<Longrightarrow> n < 2 ^ w \<Longrightarrow> den G (sample_gen st) [] (VConst w n) (TInt w) n"
  by (simp add: den_def val_type_def vval_def)

theorem sload_correct_witness:
  "\<exists>g' env' r' v. gen_run example_host (\<lambda>_. 0) (hc_SLOAD 9) (sample_gen [VConst 256 5]) [] (sample_rt 0) () g' env' r'
    \<and> h_stack g' = [v] \<and> den (\<lambda>_. 0) g' env' v (TInt 256) 0"
proof -
  have 1: "length ([] :: int list) = length (h_code (sample_gen [VConst 256 5]))"
    "h_stack (sample_gen [VConst 256 5]) = [] @ [VConst 256 5]" by (simp_all add: sample_gen_def)
  have 2: "den (\<lambda>_. 0) (sample_gen [VConst 256 5]) [] (VConst 256 5) (TInt 256) 5" by (simp add: sample_den)
  have "gs_storageLoad \<le> 100000" by (simp add: gs_storageLoad_def)
  from sload_correct [OF 1 2 sample_rt_ok(1) sample_rt_ok(2) [OF this], where H = example_host and pc = 9]
  obtain g' env' r' v where r: "gen_run example_host (\<lambda>_. 0) (hc_SLOAD 9) (sample_gen [VConst 256 5]) [] (sample_rt 0) () g' env' r'"
    "h_stack g' = [] @ [v]"
    "den (\<lambda>_. 0) g' env' v (TInt 256) (uint (get_storage example_host (host_state (m_host (rt_iface (sample_rt 0))))
        (msg_destination (m_msg (rt_iface (sample_rt 0)))) (word_of_int 5)))" by blast
  have "get_storage example_host (host_state (m_host (rt_iface (sample_rt 0)))) a n = 0" for a n
    by (simp add: sample_rt_def sample_iface_def sample_host_def mkHostContext_def example_host_def eh_get_storage_def)
  with r show ?thesis by (intro exI conjI) simp_all
qed

text \<open>
  C12: SSTORE. With the key \<open>x\<close> and the value \<open>y\<close> on the translator's stack, the emitted code
  writes exactly that value at that key of the storage of the executing contract, given the gas
  for a new entry and room for two words; in a static call it ends with StaticModeViolation and
  the host is not changed.
\<close>

theorem sstore_correct:
  assumes "length env = length (h_code g)" "h_stack g = st @ [v, k]"
    and k: "den G g env k (TInt 256) x" and v: "den G g env v (TInt 256) y"
    and room: "stack_room 64 r" and gas: "has_gas gs_storageStoreCreate r"
  shows "if is_static (msg_flags (m_msg (rt_iface r)))
    then \<exists>r'. gen_throws H G (hc_SSTORE pc) g env r StaticModeViolation r' \<and> m_host (rt_iface r') = m_host (rt_iface r)
    else \<exists>g' env' r'. gen_run H G (hc_SSTORE pc) g env r () g' env' r' \<and> h_stack g' = st
      \<and> host_state (m_host (rt_iface r')) = set_storage H (host_state (m_host (rt_iface r)))
          (msg_destination (m_msg (rt_iface r))) (word_of_int x) (word_of_int y)"
proof -
  have x: "0 \<le> x" "x < 2 ^ 256" and y: "0 \<le> y" "y < 2 ^ 256" using den_range [OF k] den_range [OF v] by simp_all
  let ?s = "rt_iface (with_words r x y)" and ?p = "stack_slot 256 (rt_sp r)"
  note w = with_words [OF room, of x y]
  have gas': "m_meterGas ?s \<longrightarrow> gs_storageStoreCreate \<le> gasLeft (m_result ?s) \<and> gasLeft (m_result ?s) \<le> int64_max"
    using gas w by (simp add: has_gas_def Let_def)
  show ?thesis
  proof (cases "is_static (msg_flags (m_msg (rt_iface r)))")
    case True
    have "eeiStorageStore H ?p (stack_slot 256 ?p) ?s = (Inl StaticModeViolation, pay gs_storageStoreChange ?s)"
      using gas' True w by (intro storageStore_static) (auto simp: gas_schedule)
    from sstore_run(2) [OF x y room this, of G k v st pc] assms(1,2) k v
    have "gen_throws H G (hc_SSTORE pc) g env r StaticModeViolation ((with_words r x y)\<lparr>rt_iface := pay gs_storageStoreChange ?s\<rparr>)"
      by (auto simp: gth_def knows_def)
    then show ?thesis using True w by auto
  next
    case False
    from storageStore_returns [OF gas' w(1-3), of H] False w
    obtain s where s: "eeiStorageStore H ?p (stack_slot 256 ?p) ?s = (Inr (), s)"
      "host_state (m_host s) = set_storage H (host_state (m_host (rt_iface r)))
          (msg_destination (m_msg (rt_iface r))) (word_of_int x) (word_of_int y)" by auto
    from gwp_apply [OF sstore_run(1) [OF x y room s(1), of G k v st pc] assms(1,2)] k v
    obtain g' env' r' where "gen_run H G (hc_SSTORE pc) g env r () g' env' r'" "h_stack g' = st"
      "r' = (with_words r x y)\<lparr>rt_iface := s\<rparr>" by auto
    moreover from this(3) s(2) have "host_state (m_host (rt_iface r')) = set_storage H (host_state (m_host (rt_iface r)))
          (msg_destination (m_msg (rt_iface r))) (word_of_int x) (word_of_int y)" by simp
    ultimately have "\<exists>g' env' r'. gen_run H G (hc_SSTORE pc) g env r () g' env' r' \<and> h_stack g' = st
      \<and> host_state (m_host (rt_iface r')) = set_storage H (host_state (m_host (rt_iface r)))
          (msg_destination (m_msg (rt_iface r))) (word_of_int x) (word_of_int y)" by blast
    then show ?thesis using False by simp
  qed
qed

theorem sstore_correct_witness:
  "\<exists>g' env' r'. gen_run example_host (\<lambda>_. 0) (hc_SSTORE 9) (sample_gen [VConst 256 7, VConst 256 5]) [] (sample_rt 0) () g' env' r'
    \<and> host_state (m_host (rt_iface r')) = set_storage example_host (host_state sample_host) 1 5 7"
proof -
  let ?g = "sample_gen [VConst 256 7, VConst 256 5]"
  have 1: "length ([] :: int list) = length (h_code ?g)" "h_stack ?g = [] @ [VConst 256 7, VConst 256 5]"
    by (simp_all add: sample_gen_def)
  have 2: "den (\<lambda>_. 0) ?g [] (VConst 256 5) (TInt 256) 5" "den (\<lambda>_. 0) ?g [] (VConst 256 7) (TInt 256) 7"
    by (simp_all add: sample_den)
  have "gs_storageStoreCreate \<le> 100000" by (simp add: gas_schedule)
  from sstore_correct [OF 1 2 sample_rt_ok(1) sample_rt_ok(2) [OF this], where H = example_host and pc = 9]
  have "if is_static (msg_flags (m_msg (rt_iface (sample_rt 0))))
    then \<exists>r'. gen_throws example_host (\<lambda>_. 0) (hc_SSTORE 9) ?g [] (sample_rt 0) StaticModeViolation r'
        \<and> m_host (rt_iface r') = m_host (rt_iface (sample_rt 0))
    else \<exists>g' env' r'. gen_run example_host (\<lambda>_. 0) (hc_SSTORE 9) ?g [] (sample_rt 0) () g' env' r' \<and> h_stack g' = []
      \<and> host_state (m_host (rt_iface r')) = set_storage example_host (host_state (m_host (rt_iface (sample_rt 0))))
          (msg_destination (m_msg (rt_iface (sample_rt 0)))) (word_of_int 5) (word_of_int 7)" .
  moreover have "\<not> is_static (msg_flags (m_msg (rt_iface (sample_rt 0))))" "m_host (rt_iface (sample_rt 0)) = sample_host"
    "msg_destination (m_msg (rt_iface (sample_rt 0))) = 1"
    by (simp_all add: sample_rt_def sample_iface_def sample_msg_def)
  ultimately show ?thesis by auto
qed

end
