(* ===== verification/Host_Memory.thy ===== *)
theory Host_Memory
  imports Host_Correct
begin

text \<open>
  The translated memory accesses, address queries and the ends of a contract. EVM memory is the
  memory of the module itself: an EVM offset is used as an address, cut off to 32 bits.
\<close>

section \<open>Memory\<close>

lemma addr_take_bit: "addr_of (take_bit 32 x) = addr_of x"
proof -
  have "(word_of_int (take_bit 32 x) :: u32) = word_of_int x" by (rule bit_word_eqI) (simp add: bit_simps)
  then show ?thesis by (simp add: addr_of_def)
qed

lemma gth_store:
  assumes v: "(v, TInt w, x) \<in> F" and p: "(p, TPtr w, a) \<in> F"
    and "\<not> addr_of a + type_bytes w \<le> length (mem_of r)"
  shows "gth H G F st r (createStore v p) VMTrap r"
  unfolding gth_def
proof (intro allI impI)
  fix g env assume k: "knows G F st g env"
  let ?i = "(IStore w v p, TInt 0)"
  have "createStore v p g = (Inr (), g\<lparr>h_code := h_code g @ [?i]\<rparr>)"
    using knows_type [OF k v] knows_type [OF k p]
    by (simp add: createStore_def typeOfV_def bindE_def getE_def seqE_def emit_def returnE_def)
  moreover have "run_code (module_calls H G) G [] [?i] env r = (Inl VMTrap, r)"
    using knows_val [OF k v] knows_val [OF k p] assms(3) by (simp add: bindE_def run_inst_def mem_store_def)
  ultimately show "gen_throws H G (createStore v p) g env r VMTrap r"
    by (simp add: gen_throws_def emitted_def)
qed

lemma mstore_gwp:
  assumes y: "0 \<le> y" "y < 2 ^ 256" and a: "addr_of x + 32 \<le> length (mem_of r)"
    and F: "(k, TInt 256, x) \<in> F" "(v, TInt 256, y) \<in> F"
    and Q: "\<And>F'. F \<subseteq> F' \<Longrightarrow> Q () F' st (write_mem (take_bit 32 x) (bytes_be 32 (word_of_int y :: bytes32)) r)"
  shows "gwp H G F (st @ [v, k]) r hc_MSTORE Q"
proof -
  have st: "st @ [v, k] = (st @ [v]) @ [k]" by simp
  have "le_bytes 32 (byte_swap 32 y) = bytes_be 32 (word_of_int y :: bytes32)"
    using swapped_bytes [where 'a = 256, of y 32] y by simp
  then show ?thesis
    unfolding hc_MSTORE_def unlessType_def st
    apply -
    apply (rule gwp_bind, rule gwp_pop, rule gwp_bind, rule gwp_pop)
    apply (rule gwp_bind, rule gwp_bind, rule gwp_type, rule F(1), simp, rule gwp_inttoptr, rule F(1))
    apply (rule gwp_bind, rule gwp_type, (rule known)+, simp)
    apply (rule gwp_bind, rule gwp_zext_same, rule insertI2, rule F(2))
    apply (rule gwp_bind, rule gwp_endian, rule insertI2, rule F(2), simp, simp, simp)
    apply (rule gwp_store, (rule known)+, simp add: addr_take_bit a)
    apply simp
    apply (rule Q)
    by blast
qed

lemma mload_gwp:
  assumes a: "addr_of x + 32 \<le> length (mem_of r)" and F: "(k, TInt 256, x) \<in> F"
    and Q: "\<And>F' v. F \<subseteq> F' \<Longrightarrow> (v, TInt 256, uint (word_be (segment (addr_of x) 32 (mem_of r)) :: w256)) \<in> F' \<Longrightarrow> Q () F' (st @ [v]) r"
  shows "gwp H G F (st @ [k]) r hc_MLOAD Q"
proof -
  let ?b = "segment (addr_of x) 32 (mem_of r)"
  have l: "length ?b = 32" using a by simp
  have e: "byte_swap 32 (take_bit 256 (le_int ?b)) = uint (word_be ?b :: w256)"
    using swapped_load_full [of 32 "word_be ?b :: w256"] bytes_be_word_be [OF l, where 'a = 256] le_int_take_bit [OF l] by simp
  show ?thesis
    unfolding hc_MLOAD_def unlessType_def
    apply (rule gwp_bind, rule gwp_pop)
    apply (rule gwp_bind, rule gwp_bind, rule gwp_type, rule F(1), simp, rule gwp_inttoptr, rule F(1))
    apply (rule gwp_bind, rule gwp_load, (rule known)+, simp add: addr_take_bit a)
    apply (rule gwp_bind, rule gwp_endian_reg, (rule known)+, simp, simp, simp)
    apply (rule gwp_push, rule Q, blast)
    using e
    by (simp add: addr_take_bit)
qed



section \<open>Addresses\<close>

lemma address_slot:
  assumes "stack_room 32 r"
  shows "unat (stack_slot 160 (rt_sp r)) = unat (rt_sp r) - 32"
    "store_ok (stack_slot 160 (rt_sp r)) 20 (rt_iface r)"
proof -
  show u: "unat (stack_slot 160 (rt_sp r)) = unat (rt_sp r) - 32"
    using assms slot_unat [of 160 "rt_sp r"] by (simp add: stack_room_def)
  have "unat (rt_sp r) < 2 ^ 32" using unsigned_less [of "rt_sp r", where ?'a = nat] by simp
  moreover have "unat (rt_sp r) - 32 + 20 \<le> unat (rt_sp r)" using assms by (simp add: stack_room_def)
  ultimately show "store_ok (stack_slot 160 (rt_sp r)) 20 (rt_iface r)"
    unfolding store_ok_def in_memory_def u using assms by (auto simp: stack_room_def mem_of_def)
qed

text \<open>A query of Hera that charges the base cost and stores an address.\<close>

definition address_query :: "(evmc_message \<Rightarrow> address) \<Rightarrow> u32 \<Rightarrow> ('h, unit) eei" where
  "address_query f off = seqE (takeInterfaceGas gs_base) (bindE (readMsg f) (\<lambda>a. storeAddress a off))"

lemma address_query_returns:
  assumes "has_gas gs_base r" "stack_room 32 r"
  shows "address_query f (stack_slot 160 (rt_sp r)) (rt_iface r) =
    (Inr (), put (stack_slot 160 (rt_sp r)) (bytes_be 20 (f (m_msg (rt_iface r)))) (pay gs_base (rt_iface r)))"
proof -
  have "takeInterfaceGas gs_base (rt_iface r) = (Inr (), pay gs_base (rt_iface r))"
    using assms(1) by (intro takeInterfaceGas_pays) (simp_all add: has_gas_def Let_def gs_base_def)
  then show ?thesis using address_slot [OF assms(2)]
    by (simp add: address_query_def seqE_def bindE_def readMsg_def getE_def storeAddress_eq)
qed

lemma address_calls:
  "module_calls H G (d_name Func_getCaller) [a] r = (case address_query msg_sender (word_of_int a) (rt_iface r) of
      (Inl e, s) \<Rightarrow> (Inl e, r\<lparr>rt_iface := s\<rparr>) | (Inr _, s) \<Rightarrow> (Inr 0, r\<lparr>rt_iface := s\<rparr>))"
  "module_calls H G (d_name Func_getAddress) [a] r = (case address_query msg_destination (word_of_int a) (rt_iface r) of
      (Inl e, s) \<Rightarrow> (Inl e, r\<lparr>rt_iface := s\<rparr>) | (Inr _, s) \<Rightarrow> (Inr 0, r\<lparr>rt_iface := s\<rparr>))"
  by (simp_all add: module_calls_host Func_getCaller_def Func_getAddress_def call_host_def wabt_module_def wabt_func_defs
      on_iface_def bindE_def retNone_def returnE_def arg32_def ucast_of_int_u32 address_query_def
      eeiGetCaller_def eeiGetAddress_def split: prod.splits sum.splits)

lemma slot_call_gwp:
  assumes gas: "has_gas gs_base r" and room: "stack_room 32 r"
    and d: "d_params d = [Int32PtrTy]" "d_result d = VoidTy"
    and call: "\<And>a r. module_calls H G (d_name d) [a] r = (case address_query f (word_of_int a) (rt_iface r) of
      (Inl e, s) \<Rightarrow> (Inl e, r\<lparr>rt_iface := s\<rparr>) | (Inr _, s) \<Rightarrow> (Inr 0, r\<lparr>rt_iface := s\<rparr>))"
    and Q: "\<And>i j F' r'. F \<subseteq> F' \<Longrightarrow> (VReg j, TInt 160, byte_swap 20 (uint (f (m_msg (rt_iface r))))) \<in> F' \<Longrightarrow>
       m_host (rt_iface r') = m_host (rt_iface r) \<Longrightarrow> Q (VReg i, VReg j) F' st r'"
  shows "gwp H G F st r (slot_call 160 d) Q"
proof -
  let ?p = "stack_slot 160 (rt_sp r)" and ?bs = "bytes_be 20 (f (m_msg (rt_iface r)))"
  let ?s = "put ?p ?bs (pay gs_base (rt_iface r))"
  note ok = address_slot [OF room]
  have c: "module_calls H G (d_name d) [uint ?p] (r\<lparr>rt_sp := ?p\<rparr>) = (Inr 0, r\<lparr>rt_sp := ?p, rt_iface := ?s\<rparr>)"
    using address_query_returns [OF gas room, of f] by (simp add: call)
  have seg: "segment (addr_of (uint ?p)) 20 (wasm_memory ?s) = ?bs" and b: "addr_of (uint ?p) + 20 \<le> length (wasm_memory ?s)"
    using ok(2) by (simp_all add: addr_of_def put_def store_ok_def in_memory_def)
  have "take_bit 160 (le_int ?bs) = byte_swap 20 (uint (f (m_msg (rt_iface r))))"
    using le_int_take_bit [of ?bs 20] by (simp add: byte_swap_def bytes_be_le)
  with seg have v: "take_bit 160 (le_int (segment (addr_of (uint ?p)) 20 (wasm_memory ?s))) = byte_swap 20 (uint (f (m_msg (rt_iface r))))"
    by simp
  show ?thesis
    unfolding slot_call_def
    apply (rule gwp_bind, rule gwp_alloca)
    apply (rule gwp_bind, rule gwp_bitcast_reg, (rule known)+, simp)
    apply (rule gwp_bind, rule gwp_call, (rule known_args)+)
       apply (simp add: d)
      apply (use c in simp)
     apply (simp add: d)
    apply (rule gwp_bind, rule gwp_load, (rule known)+)
     apply (use b in simp)
    apply (rule gwp_return, rule Q)
      apply blast
     apply (use v in simp)
    by (simp add: put_def)
qed

text \<open>
  CALLER and ADDRESS. With the base cost as gas and room for one address, the emitted code
  of CALLER pushes the sender of the message, but that of ADDRESS, which does not convert the
  byte order, pushes the address of the executing contract with its twenty bytes reversed.
\<close>

theorem caller_address:
  assumes env: "length env = length (h_code g)" "h_stack g = st" and gas: "has_gas gs_base r" and room: "stack_room 32 r"
  shows "(\<exists>g' env' r' v. gen_run H G (hc_CALLER pc) g env r () g' env' r' \<and> h_stack g' = st @ [v]
      \<and> den G g' env' v (TInt 256) (uint (msg_sender (m_msg (rt_iface r)))))
    \<and> (\<exists>g' env' r' v. gen_run H G (hc_ADDRESS pc) g env r () g' env' r' \<and> h_stack g' = st @ [v]
      \<and> den G g' env' v (TInt 256) (byte_swap 20 (uint (msg_destination (m_msg (rt_iface r))))))"
proof
  let ?a = "msg_sender (m_msg (rt_iface r))"
  have u: "0 \<le> uint ?a" "uint ?a < 2 ^ 160" using unsigned_less [of ?a, where ?'a = int] by simp_all
  have "byte_swap 20 (byte_swap 20 (uint ?a)) = uint ?a" using byte_swap_twice [of "uint ?a" 20] u by simp
  then have "gwp H G {} st r (hc_CALLER pc) (\<lambda>_ F st' _. \<exists>v. (v, TInt 256, uint ?a) \<in> F \<and> st' = st @ [v])"
    unfolding hc_CALLER_def push_set_def
    apply -
    apply (rule gwp_bind, rule slot_call_gwp [OF gas room _ _ address_calls(1)])
      apply (simp_all only: prod.case)
      apply (simp add: Func_getCaller_def)
     apply (simp add: Func_getCaller_def)
    apply (rule gwp_bind, rule gwp_endian_reg, assumption, simp, simp, simp)
    apply (rule gwp_bind, rule gwp_zext_reg, (rule known)+, simp)
    apply (rule gwp_seq, rule gwp_push, rule gwp_setPC)
    by auto
  from gwp_apply [OF this env] obtain g' env' r' F' v where 1: "gen_run H G (hc_CALLER pc) g env r () g' env' r'"
    "knows G F' (h_stack g') g' env'" "(v, TInt 256, uint ?a) \<in> F'" "h_stack g' = st @ [v]" by auto
  from 1 knowsD [OF 1(2,3)] show "\<exists>g' env' r' v. gen_run H G (hc_CALLER pc) g env r () g' env' r' \<and> h_stack g' = st @ [v]
      \<and> den G g' env' v (TInt 256) (uint ?a)" by blast
next
  let ?a = "byte_swap 20 (uint (msg_destination (m_msg (rt_iface r))))"
  have "gwp H G {} st r (hc_ADDRESS pc) (\<lambda>_ F st' _. \<exists>v. (v, TInt 256, ?a) \<in> F \<and> st' = st @ [v])"
    unfolding hc_ADDRESS_def push_set_def
    apply (rule gwp_bind, rule slot_call_gwp [OF gas room _ _ address_calls(2)])
      apply (simp_all only: prod.case)
      apply (simp add: Func_getAddress_def)
     apply (simp add: Func_getAddress_def)
    apply (rule gwp_bind, rule gwp_zext_reg, assumption, simp)
    apply (rule gwp_seq, rule gwp_push, rule gwp_setPC)
    by auto
  from gwp_apply [OF this env] obtain g' env' r' F' v where 1: "gen_run H G (hc_ADDRESS pc) g env r () g' env' r'"
    "knows G F' (h_stack g') g' env'" "(v, TInt 256, ?a) \<in> F'" "h_stack g' = st @ [v]" by auto
  from 1 knowsD [OF 1(2,3)] show "\<exists>g' env' r' v. gen_run H G (hc_ADDRESS pc) g env r () g' env' r' \<and> h_stack g' = st @ [v]
      \<and> den G g' env' v (TInt 256) ?a" by blast
qed

theorem caller_address_witness:
  "\<exists>g' env' r' v. gen_run example_host (\<lambda>_. 0) (hc_ADDRESS 3) (sample_gen []) [] (sample_rt 0) () g' env' r'
    \<and> h_stack g' = [v] \<and> den (\<lambda>_. 0) g' env' v (TInt 256) (byte_swap 20 1)"
proof -
  have 1: "length ([] :: int list) = length (h_code (sample_gen []))" "h_stack (sample_gen []) = []"
    by (simp_all add: sample_gen_def)
  have "gs_base \<le> 100000" by (simp add: gs_base_def)
  note 2 = sample_rt_ok(2) [OF this, of 0]
  have 3: "stack_room 32 (sample_rt 0)" using sample_rt_ok(1) [of 0] by (simp add: stack_room_def)
  have "msg_destination (m_msg (rt_iface (sample_rt 0))) = 1"
    by (simp add: sample_rt_def sample_iface_def sample_msg_def)
  then show ?thesis using caller_address [OF 1 2 3, where H = example_host and pc = 3 and G = "\<lambda>_. 0"] by auto
qed

section \<open>The end of a contract\<close>

lemma end_calls:
  "module_calls H G (d_name Func_finish) [a, n] r = (case eeiRevertOrFinish False (word_of_int a) (word_of_int n) (rt_iface r) of
      (Inl e, s) \<Rightarrow> (Inl e, r\<lparr>rt_iface := s\<rparr>) | (Inr _, s) \<Rightarrow> (Inr 0, r\<lparr>rt_iface := s\<rparr>))"
  "module_calls H G (d_name Func_revert) [a, n] r = (case eeiRevertOrFinish True (word_of_int a) (word_of_int n) (rt_iface r) of
      (Inl e, s) \<Rightarrow> (Inl e, r\<lparr>rt_iface := s\<rparr>) | (Inr _, s) \<Rightarrow> (Inr 0, r\<lparr>rt_iface := s\<rparr>))"
  by (simp_all add: module_calls_host Func_finish_def Func_revert_def call_host_def wabt_module_def wabt_func_defs
      on_iface_def bindE_def retNone_def returnE_def arg32_def ucast_of_int_u32 eeiFinish_def eeiRevert_def
      split: prod.splits sum.splits)

lemma gth_end:
  assumes call: "module_calls H G (d_name d) [take_bit 32 x, take_bit 32 n] r = (Inl e, r')"
    and d: "d_params d = [Int8PtrTy, Int32Ty]" and F: "(k, TInt 256, x) \<in> F" "(l, TInt 256, n) \<in> F"
  shows "gth H G F st r (bindE (createIntToPtr 8 k) (\<lambda>index. bindE (createTrunc 32 l) (\<lambda>sz.
    seqE (createCall d [index, sz]) (setTerm t)))) e r'"
  unfolding seqE_def
  apply (rule gth_bind, rule gwp_inttoptr, rule F(1))
  apply (rule gth_bind, rule gwp_trunc, rule insertI2, rule F(2), simp)
  apply (rule gth_call, (rule known_args)+)
    apply (simp add: d)
   apply (use call in simp)
  by (simp add: setTerm_def modifyE_def)



end
