(* ===== verification/Global_Stack.thy ===== *)
theory Global_Stack
  imports Host_Memory
begin

text \<open>
  The class GlobalStack of BasicBlock.cpp. With enableRegs the operand stack is the vector
  m\_local of the translator; without it the operations emit code for a stack in the memory of
  the contract: the array mstk of 512 words and the word spPtr, the index of the topmost entry.
  Entry 0 of the array is never used. Both modes implement the same stack, which is the
  interface the driver uses to move operands between memory and registers at the borders of
  a block.
\<close>

section \<open>Operations\<close>

text \<open>The address of the entry \<open>idx\<close> below the top. The index of the array is a word of 256 bits, cut off to a pointer.\<close>

definition gs_getPtr :: "nat \<Rightarrow> val cg" where
  "gs_getPtr idx =
     bindE (createLoad (VGlobal ''spPtr'' 256)) (\<lambda>index.
     bindE (if 0 < idx then createBin2 Sub index (VConst 256 (int idx)) else returnE index) (\<lambda>index.
     emit (IGepWord (VGlobal ''mstk'' 256) index) (TPtr 256)))"

definition gs_push :: "bool \<Rightarrow> val \<Rightarrow> unit cg" where
  "gs_push enableRegs v =
     (if enableRegs then push v
      else
        bindE (createLoad (VGlobal ''spPtr'' 256)) (\<lambda>tsp.
        bindE (createBin2 Add tsp (VConst 256 1)) (\<lambda>tsp.
        seqE (createStore tsp (VGlobal ''spPtr'' 256))
        (bindE (typeOfV v) (\<lambda>t.
         bindE (if t \<noteq> TInt 256 then createZExt 256 v else returnE v) (\<lambda>v256.
         bindE (gs_getPtr 0) (\<lambda>p.
         createStore v256 p)))))))"

definition gs_pop :: "bool \<Rightarrow> val cg" where
  "gs_pop enableRegs =
     (if enableRegs then pop
      else
        bindE (gs_getPtr 0) (\<lambda>p.
        bindE (createLoad p) (\<lambda>item.
        bindE (createLoad (VGlobal ''spPtr'' 256)) (\<lambda>tsp.
        bindE (createBin2 Sub tsp (VConst 256 1)) (\<lambda>tsp.
        seqE (createStore tsp (VGlobal ''spPtr'' 256)) (returnE item))))))"

definition gs_dup :: "bool \<Rightarrow> nat \<Rightarrow> unit cg" where
  "gs_dup enableRegs idx =
     (if enableRegs then
        bindE (getE h_stack) (\<lambda>m_local.
        push (if length m_local \<le> idx then VConst 256 0 else rev m_local ! idx))
      else
        bindE (gs_getPtr idx) (\<lambda>p.
        bindE (createLoad p) (\<lambda>x.
        gs_push False x)))"

text \<open>With too few registers the vector is filled up with zeros and nothing is exchanged.\<close>

definition gs_swap :: "bool \<Rightarrow> nat \<Rightarrow> unit cg" where
  "gs_swap enableRegs idx =
     (if enableRegs then
        modifyE (\<lambda>g.
          let m_local = h_stack g; lastIdx = length m_local - 1 in
          if length m_local \<le> idx + 1 then
            g\<lparr>h_stack := m_local @ replicate (idx + 2 - length m_local) (VConst 256 0)\<rparr>
          else
            g\<lparr>h_stack := m_local[lastIdx - (idx + 1) := m_local ! lastIdx, lastIdx := m_local ! (lastIdx - (idx + 1))]\<rparr>)
      else
        bindE (gs_getPtr 0) (\<lambda>p.
        bindE (createLoad p) (\<lambda>srcVal.
        bindE (gs_getPtr (idx + 1)) (\<lambda>dstPtr.
        bindE (createLoad dstPtr) (\<lambda>dstVal.
        bindE (gs_getPtr 0) (\<lambda>p.
        seqE (createStore dstVal p) (createStore srcVal dstPtr)))))))"

definition clearLocals :: "unit cg" where
  "clearLocals = modifyE (\<lambda>g. g\<lparr>h_stack := []\<rparr>)"

section \<open>The stack in memory\<close>

definition mstk_entry :: "globals \<Rightarrow> nat \<Rightarrow> nat" where
  "mstk_entry G k = unat (G ''mstk'') + 32 * k"

definition mstk_words :: nat where "mstk_words = 512"

text \<open>The two globals lie inside the memory and apart.\<close>

definition stack_layout :: "globals \<Rightarrow> nat \<Rightarrow> bool" where
  "stack_layout G n \<longleftrightarrow>
     n \<le> 2 ^ 32 \<and> mstk_entry G mstk_words \<le> n \<and> unat (G ''spPtr'') + 32 \<le> n
     \<and> (unat (G ''spPtr'') + 32 \<le> mstk_entry G 0 \<or> mstk_entry G mstk_words \<le> unat (G ''spPtr''))"

definition word_in :: "nat \<Rightarrow> int \<Rightarrow> byte list \<Rightarrow> bool" where
  "word_in a x mem \<longleftrightarrow> segment a 32 mem = le_bytes 32 x"

definition is_word :: "int \<Rightarrow> bool" where
  "is_word x \<longleftrightarrow> 0 \<le> x \<and> x < 2 ^ 256"

text \<open>The memory holds the stack \<open>xs\<close>, the top last.\<close>

definition stack_at :: "globals \<Rightarrow> int list \<Rightarrow> byte list \<Rightarrow> bool" where
  "stack_at G xs mem \<longleftrightarrow>
     stack_layout G (length mem) \<and> length xs < mstk_words \<and> list_all is_word xs
     \<and> word_in (unat (G ''spPtr'')) (int (length xs)) mem
     \<and> (\<forall>i < length xs. word_in (mstk_entry G (Suc i)) (xs ! i) mem)"

text \<open>Nothing but the bytes of the two globals has changed.\<close>

definition stack_bytes :: "globals \<Rightarrow> nat set" where
  "stack_bytes G = {mstk_entry G 0 ..< mstk_entry G mstk_words} \<union> {unat (G ''spPtr'') ..< unat (G ''spPtr'') + 32}"

definition only_stack :: "globals \<Rightarrow> 'h rt \<Rightarrow> 'h rt \<Rightarrow> bool" where
  "only_stack G r r' \<longleftrightarrow>
     (\<exists>m. r' = set_mem m r \<and> length m = length (mem_of r)
        \<and> (\<forall>a < length m. a \<notin> stack_bytes G \<longrightarrow> m ! a = mem_of r ! a))"

section \<open>Words in memory\<close>

lemma word_in_put_same [simp]:
  "a + 32 \<le> length mem \<Longrightarrow> word_in a x (put_segment a (le_bytes 32 x) mem)"
  by (simp add: word_in_def)

lemma word_in_put_other:
  "a + 32 \<le> b \<or> b + 32 \<le> a \<Longrightarrow> a + 32 \<le> length mem \<Longrightarrow> b + 32 \<le> length mem \<Longrightarrow>
   word_in a x (put_segment b (le_bytes 32 y) mem) = word_in a x mem"
  by (simp add: word_in_def segment_put_other)

lemma word_in_load: "word_in a x mem \<Longrightarrow> is_word x \<Longrightarrow> take_bit 256 (le_int (segment a 32 mem)) = x"
  by (simp add: word_in_def is_word_def le_int_bytes take_bit_int_eq_self)

lemma is_word_nat [simp]: "n \<le> mstk_words \<Longrightarrow> is_word (int n)"
  by (simp add: is_word_def mstk_words_def)

lemma mstk_entry_mono: "i < j \<Longrightarrow> mstk_entry G i + 32 \<le> mstk_entry G j"
  by (simp add: mstk_entry_def)

lemma mstk_entry_cases: "i \<noteq> j \<Longrightarrow> mstk_entry G i + 32 \<le> mstk_entry G j \<or> mstk_entry G j + 32 \<le> mstk_entry G i"
  by (metis mstk_entry_mono nat_neq_iff)

lemma layout_entry:
  assumes "stack_layout G n" "k < mstk_words"
  shows "mstk_entry G k + 32 \<le> n"
    and "unat (G ''spPtr'') + 32 \<le> mstk_entry G k \<or> mstk_entry G k + 32 \<le> unat (G ''spPtr'')"
    and "unat (G ''spPtr'') + 32 \<le> n"
  using assms by (auto simp: stack_layout_def mstk_entry_def mstk_words_def)

lemma stack_at_layout: "stack_at G xs mem \<Longrightarrow> stack_layout G (length mem)"
  by (simp add: stack_at_def)

text \<open>The effect of the three kinds of writes on the stack the memory holds.\<close>

lemma stack_at_pop:
  assumes "stack_at G (xs @ ys) mem"
  shows "stack_at G xs (put_segment (unat (G ''spPtr'')) (le_bytes 32 (int (length xs))) mem)" (is "stack_at G xs ?m")
proof -
  have l: "stack_layout G (length mem)" and n: "length xs < mstk_words" using assms by (simp_all add: stack_at_def)
  note sp = layout_entry(3) [OF l n]
  have "word_in (mstk_entry G (Suc i)) (xs ! i) ?m" if i: "i < length xs" for i
  proof -
    have k: "Suc i < mstk_words" using i n by simp
    have "word_in (mstk_entry G (Suc i)) (xs ! i) mem"
      using assms i by (auto simp: stack_at_def nth_append dest: spec [of _ i])
    then show ?thesis using layout_entry(1,2) [OF l k] sp by (simp add: word_in_put_other disj_commute)
  qed
  then show ?thesis using assms sp by (simp add: stack_at_def)
qed

lemma stack_at_write:
  assumes "stack_at G xs mem" "i < length xs" "is_word y"
  shows "stack_at G (xs[i := y]) (put_segment (mstk_entry G (Suc i)) (le_bytes 32 y) mem)" (is "stack_at G _ ?m")
proof -
  have l: "stack_layout G (length mem)" and k: "Suc i < mstk_words" using assms by (simp_all add: stack_at_def)
  note e = layout_entry [OF l k]
  have "word_in (mstk_entry G (Suc j)) (xs[i := y] ! j) ?m" if j: "j < length xs" for j
  proof (cases "j = i")
    case True
    then show ?thesis using e(1) j by simp
  next
    case False
    have kj: "Suc j < mstk_words" using j assms(1) by (simp add: stack_at_def)
    from False have "mstk_entry G (Suc j) + 32 \<le> mstk_entry G (Suc i) \<or> mstk_entry G (Suc i) + 32 \<le> mstk_entry G (Suc j)"
      by (intro mstk_entry_cases) simp
    then show ?thesis using False j assms(1) e(1) layout_entry(1) [OF l kj]
      by (simp add: word_in_put_other stack_at_def)
  qed
  moreover have "word_in (unat (G ''spPtr'')) (int (length xs)) ?m"
    using assms(1) e by (simp add: word_in_put_other stack_at_def)
  moreover have "list_all is_word (xs[i := y])"
    using assms by (simp add: stack_at_def list_all_length nth_list_update)
  ultimately show ?thesis using assms(1) e(1) by (simp add: stack_at_def)
qed

lemma stack_at_push:
  assumes "stack_at G xs mem" "Suc (length xs) < mstk_words" "is_word x"
  shows "stack_at G (xs @ [x]) (put_segment (mstk_entry G (Suc (length xs))) (le_bytes 32 x)
     (put_segment (unat (G ''spPtr'')) (le_bytes 32 (int (Suc (length xs)))) mem))" (is "stack_at G _ (put_segment ?e _ ?m)")
proof -
  have l: "stack_layout G (length mem)" using assms by (simp add: stack_at_def)
  note e = layout_entry [OF l assms(2)]
  have m: "length ?m = length mem" using e(3) by simp
  have "word_in (mstk_entry G (Suc i)) ((xs @ [x]) ! i) (put_segment ?e (le_bytes 32 x) ?m)" if i: "i < Suc (length xs)" for i
  proof (cases "i = length xs")
    case True
    then show ?thesis using e(1) m by simp
  next
    case False
    with i have i: "i < length xs" by simp
    have k: "Suc i < mstk_words" using i assms(2) by simp
    have "mstk_entry G (Suc i) + 32 \<le> ?e" using i by (intro mstk_entry_mono) simp
    moreover have "word_in (mstk_entry G (Suc i)) (xs ! i) ?m"
      using layout_entry [OF l k] assms(1) i by (simp add: word_in_put_other stack_at_def disj_commute)
    ultimately show ?thesis using layout_entry(1) [OF l k] e(1) m i by (simp add: word_in_put_other nth_append)
  qed
  moreover have "word_in (unat (G ''spPtr'')) (int (Suc (length xs))) (put_segment ?e (le_bytes 32 x) ?m)"
    using e m by (simp add: word_in_put_other)
  ultimately show ?thesis using assms e(1) m by (simp add: stack_at_def)
qed

lemma only_stack_refl: "only_stack G r r"
  unfolding only_stack_def by (rule exI [of _ "mem_of r"]) (simp add: set_mem_def mem_of_def)

lemma only_stack_write:
  assumes "only_stack G r r'" "{addr_of p ..< addr_of p + length bs} \<subseteq> stack_bytes G" "addr_of p + length bs \<le> length (mem_of r')"
  shows "only_stack G r (write_mem p bs r')"
proof -
  obtain m where m: "r' = set_mem m r" "length m = length (mem_of r)" "\<forall>a < length m. a \<notin> stack_bytes G \<longrightarrow> m ! a = mem_of r ! a"
    using assms(1) unfolding only_stack_def by blast
  have mm: "mem_of r' = m" using m(1) by (simp add: set_mem_def mem_of_def)
  let ?m = "put_segment (addr_of p) bs m"
  have l: "length ?m = length m" using assms(3) mm by simp
  have "?m ! a = mem_of r ! a" if "a < length m" "a \<notin> stack_bytes G" for a
    using that assms(2,3) m(3) mm by (auto simp: nth_put_segment subset_iff)
  then show ?thesis unfolding only_stack_def
    by (intro exI [of _ ?m]) (use m(1,2) l mm in \<open>simp add: write_mem_def set_mem_def mem_of_def\<close>)
qed

section \<open>Rules for the emitted code\<close>

definition sp_holds :: "globals \<Rightarrow> nat \<Rightarrow> byte list \<Rightarrow> bool" where
  "sp_holds G n mem \<longleftrightarrow>
     word_in (unat (G ''spPtr'')) (int n) mem \<and> is_word (int n) \<and> unat (G ''spPtr'') + 32 \<le> length mem"

lemma sp_holds_put: "is_word (int n) \<Longrightarrow> unat (G ''spPtr'') + 32 \<le> length mem \<Longrightarrow>
    sp_holds G n (put_segment (unat (G ''spPtr'')) (le_bytes 32 (int n)) mem)"
  by (simp add: sp_holds_def)

lemma stack_at_sp: "stack_at G xs mem \<Longrightarrow> sp_holds G (length xs) mem"
  by (auto simp: stack_at_def sp_holds_def stack_layout_def)

definition mstk_ptr :: "globals \<Rightarrow> nat \<Rightarrow> int" where
  "mstk_ptr G k = take_bit 32 (uint (G ''mstk'') + 32 * int k)"

lemma addr_mstk_ptr:
  assumes "mstk_entry G k < 2 ^ 32"
  shows "addr_of (mstk_ptr G k) = mstk_entry G k"
proof -
  have "uint (G ''mstk'') = int (unat (G ''mstk''))" by simp
  then have "uint (G ''mstk'') + 32 * int k = int (mstk_entry G k)" by (simp only: mstk_entry_def of_nat_add of_nat_mult of_nat_numeral)
  then have "addr_of (mstk_ptr G k) = unat (of_nat (mstk_entry G k) :: u32)"
    unfolding mstk_ptr_def addr_take_bit by (simp add: addr_of_def)
  then show ?thesis using unat_of_small [OF assms] by (simp only:)
qed

lemma addr_global [simp]: "addr_of (uint (a :: u32)) = unat a"
  by (simp add: addr_of_def)

lemma gwp_global:
  "gwp H G (insert (VGlobal s w, TPtr w, uint (G s)) F) st r m Q \<Longrightarrow> gwp H G F st r m Q"
  by (rule gwp_more) (simp_all add: den_def val_type_def vval_def del: in_range.simps)

lemma gwp_zext [gwp_intros]:
  assumes v: "(v, TInt w, x) \<in> F" and w: "w \<le> w'" and Q: "\<And>v'. Q v' (insert (v', TInt w', x) F) st r"
  shows "gwp H G F st r (createZExt w' v) Q"
proof (cases "w = w'")
  case True
  have "gwp H G (insert (v, TInt w', x) F) st r (createZExt w' v) Q"
    by (rule gwp_zext_same, rule insertI1, rule Q)
  then show ?thesis using v True by (simp add: insert_absorb)
next
  case False
  with w have lt: "w < w'" by simp
  show ?thesis
  proof (rule gwp_int_cases [OF v])
    fix i assume i: "v = VReg i"
    show ?thesis unfolding i by (rule gwp_zext_reg [OF v [unfolded i] lt]) (rule Q)
  next
    assume c: "v = VConst w x"
    show ?thesis
    proof (rule gwp_range [OF v])
      assume "in_range (TInt w) x"
      then have x: "0 \<le> x" "x < 2 ^ w'" using range_wider [of w x w'] w by simp_all
      then have t: "take_bit w' x = x" by (simp add: take_bit_int_eq_self)
      have "gwp H G F st r (returnE (VConst w' x)) Q" by (rule gwp_const [OF x]) (rule gwp_return, rule Q)
      then show ?thesis
        unfolding createZExt_def createCast_def using lt t c
        by (intro gwp_bind gwp_type [OF v]) (simp, intro gwp_bind gwp_type [OF v [unfolded c]], simp)
    qed
  qed
qed

lemma gwp_load_sp:
  assumes sp: "sp_holds G n (mem_of r)" and Q: "\<And>k. Q (VReg k) (insert (VReg k, TInt 256, int n) F) st r"
  shows "gwp H G F st r (createLoad (VGlobal ''spPtr'' 256)) Q"
proof (rule gwp_result [where P = "\<lambda>a. \<exists>k. a = VReg k" and ty = "TInt 256" and x = "int n"])
  have ld: "take_bit 256 (le_int (segment (unat (G ''spPtr'')) 32 (mem_of r))) = int n"
    using sp by (auto simp: sp_holds_def intro: word_in_load)
  show "gwp H G F st r (createLoad (VGlobal ''spPtr'' 256))
    (\<lambda>a F' st' r'. (\<exists>k. a = VReg k) \<and> (a, TInt 256, int n) \<in> F' \<and> st' = st \<and> r' = r)"
    by (rule gwp_global, rule gwp_load, rule insertI1) (use sp ld in \<open>simp_all add: sp_holds_def\<close>)
qed (use Q in blast)

lemma gwp_store_sp:
  assumes v: "(v, TInt 256, y) \<in> F" and "sp_holds G n (mem_of r)"
    and Q: "Q () F st (write_mem (uint (G ''spPtr'')) (le_bytes 32 y) r)"
  shows "gwp H G F st r (createStore v (VGlobal ''spPtr'' 256)) Q"
proof (rule gwp_conseq)
  show "gwp H G F st r (createStore v (VGlobal ''spPtr'' 256))
    (\<lambda>_ _ st' r'. st' = st \<and> r' = write_mem (uint (G ''spPtr'')) (le_bytes 32 y) r)"
    by (rule gwp_global, rule gwp_store, rule insertI2, rule v, rule insertI1) (use assms(2) in \<open>simp_all add: sp_holds_def\<close>)
qed (use Q in auto)

lemma gwp_gep_word:
  assumes v: "(v, TInt 256, int k) \<in> F" and Q: "\<And>i. Q (VReg i) (insert (VReg i, TPtr 256, mstk_ptr G k) F) st r"
  shows "gwp H G F st r (emit (IGepWord (VGlobal ''mstk'' 256) v) (TPtr 256)) Q"
proof (rule gwp_emit [where Q = Q, OF _ _ Q])
  fix g env assume "knows G F st g env"
  from knows_val [OF this v] show "run_inst (module_calls H G) G [] env (IGepWord (VGlobal ''mstk'' 256) v) r = (Inr (mstk_ptr G k), r)"
    by (simp add: run_inst_def returnE_def mstk_ptr_def vval_def)
qed (simp add: mstk_ptr_def ptr32_range del: in_range.simps)

lemma gwp_getPtr:
  assumes sp: "sp_holds G n (mem_of r)"
    and idx: "idx \<le> n" and Q: "\<And>i F'. F \<subseteq> F' \<Longrightarrow> (VReg i, TPtr 256, mstk_ptr G (n - idx)) \<in> F' \<Longrightarrow> Q (VReg i) F' st r"
  shows "gwp H G F st r (gs_getPtr idx) Q"
proof (cases "idx = 0")
  case True
  show ?thesis
    unfolding gs_getPtr_def True
    apply (rule gwp_bind, rule gwp_load_sp, rule sp)
    apply (simp only: if_False less_irrefl)
    apply (rule gwp_bind, rule gwp_return, rule gwp_gep_word, rule insertI1)
    apply (rule Q)
    by (auto simp: True)
next
  case False
  have c: "0 \<le> int idx" "int idx < 2 ^ 256" using sp idx by (simp_all add: sp_holds_def is_word_def)
  have s: "bin_value Sub 256 (int n) (int idx) = int (n - idx)"
    using sp idx by (simp add: bin_value_def sp_holds_def is_word_def of_nat_diff take_bit_int_eq_self)
  have w: "is_word (int (n - idx))" using sp by (auto simp: sp_holds_def is_word_def)
  show ?thesis
    unfolding gs_getPtr_def
    apply (rule gwp_bind, rule gwp_load_sp, rule sp)
    apply (simp only: False if_True neq0_conv [symmetric] not_False_eq_True)
    apply (rule gwp_bind, rule gwp_bin_reg, rule insertI1, rule c, rule c)
      apply (simp add: bin_defined_def)
     apply (use w in \<open>simp only: s in_range.simps is_word_def\<close>)
    apply (rule gwp_gep_word, simp only: s, rule insertI1)
    apply (rule Q)
    by auto
qed

section \<open>The operations on the stack in memory\<close>

definition pushed :: "globals \<Rightarrow> nat \<Rightarrow> int \<Rightarrow> 'h rt \<Rightarrow> 'h rt" where
  "pushed G n x r =
     write_mem (mstk_ptr G (Suc n)) (le_bytes 32 x) (write_mem (uint (G ''spPtr'')) (le_bytes 32 (int (Suc n))) r)"

text \<open>A push writes the new index and then the entry, wherever the entry lies.\<close>

lemma gwp_mem_push_any:
  assumes sp: "sp_holds G n (mem_of r)" "is_word (int (Suc n))"
    and e: "mstk_entry G (Suc n) + 32 \<le> length (mem_of r)" "length (mem_of r) \<le> 2 ^ 32"
    and v: "(v, TInt w, x) \<in> F" "w \<le> 256" and Q: "\<And>F'. F \<subseteq> F' \<Longrightarrow> Q () F' st (pushed G n x r)"
  shows "gwp H G F st r (gs_push False v) Q"
proof -
  let ?r = "write_mem (uint (G ''spPtr'')) (le_bytes 32 (int (Suc n))) r"
  have s: "bin_value Add 256 (int n) 1 = int (Suc n)" using sp(2) by (simp add: bin_value_def is_word_def take_bit_int_eq_self)
  have b: "unat (G ''spPtr'') + 32 \<le> length (mem_of r)" using sp(1) by (simp add: sp_holds_def)
  have sp': "sp_holds G (Suc n) (mem_of ?r)" using sp(2) b by (simp add: sp_holds_put del: of_nat_Suc)
  have a: "addr_of (mstk_ptr G (Suc n)) = mstk_entry G (Suc n)" using e by (intro addr_mstk_ptr) simp
  have tail: "gwp H G F' st ?r (bindE (gs_getPtr 0) (createStore v')) Q"
    if F': "F \<subseteq> F'" "(v', TInt 256, x) \<in> F'" for F' v'
    apply (rule gwp_bind, rule gwp_getPtr, rule sp', simp)
    apply (rule gwp_store)
       apply (use F' in blast)
      apply simp
     apply (use a e(1) b in simp)
    apply (use Q F'(1) in \<open>simp add: pushed_def\<close>)
    done
  show ?thesis
    unfolding gs_push_def
    apply (simp only: if_False)
    apply (rule gwp_bind, rule gwp_load_sp, rule sp)
    apply (rule gwp_bind, rule gwp_bin_reg, rule insertI1, simp, simp)
      apply (simp add: bin_defined_def)
     apply (use sp(2) in \<open>simp only: s in_range.simps is_word_def\<close>)
    apply (simp only: s)
    apply (rule gwp_seq, rule gwp_store_sp, rule insertI1, rule sp)
    apply (rule gwp_bind, rule gwp_type, rule insertI2, rule insertI2, rule v)
    apply (rule gwp_bind)
    apply (cases "w = 256")
     apply (simp only: simp_thms if_False, rule gwp_return, rule tail, blast, use v in blast)
    apply (simp only: lty.inject simp_thms if_True, rule gwp_zext, rule insertI2, rule insertI2, rule v, rule v, rule tail)
     apply blast
    by blast
qed

lemma mem_write_sp: "mem_of (write_mem (uint (a :: u32)) bs r) = put_segment (unat a) bs (mem_of r)"
  by simp

lemma mem_write_mstk:
  "mstk_entry G k < 2 ^ 32 \<Longrightarrow> mem_of (write_mem (mstk_ptr G k) bs r) = put_segment (mstk_entry G k) bs (mem_of r)"
  by (simp add: addr_mstk_ptr)

lemma entry_bound:
  "stack_at G xs mem \<Longrightarrow> k < mstk_words \<Longrightarrow> mstk_entry G k < 2 ^ 32 \<and> mstk_entry G k + 32 \<le> length mem"
  using layout_entry(1) [OF stack_at_layout, of G xs mem k] by (auto simp: stack_at_def stack_layout_def)

text \<open>The address of an entry and its value.\<close>

lemma gwp_peek:
  assumes s: "stack_at G xs (mem_of r)" and i: "idx < length xs"
    and Q: "\<And>F' p v. F \<subseteq> F' \<Longrightarrow> (p, TPtr 256, mstk_ptr G (length xs - idx)) \<in> F' \<Longrightarrow>
       (v, TInt 256, rev xs ! idx) \<in> F' \<Longrightarrow> gwp H G F' st r (k p v) Q"
  shows "gwp H G F st r (bindE (gs_getPtr idx) (\<lambda>p. bindE (createLoad p) (k p))) Q"
proof -
  let ?j = "length xs - Suc idx"
  have n: "length xs - idx = Suc ?j" and j: "?j < length xs" using i by simp_all
  have e: "mstk_entry G (Suc ?j) < 2 ^ 32 \<and> mstk_entry G (Suc ?j) + 32 \<le> length (mem_of r)"
    using s j by (intro entry_bound [OF s]) (simp add: stack_at_def)
  have w: "word_in (mstk_entry G (Suc ?j)) (xs ! ?j) (mem_of r)" "is_word (xs ! ?j)"
    using s j by (simp_all add: stack_at_def list_all_length)
  have ld: "take_bit 256 (le_int (segment (addr_of (mstk_ptr G (Suc ?j))) 32 (mem_of r))) = rev xs ! idx"
    using word_in_load [OF w] e i by (simp add: addr_mstk_ptr rev_nth)
  show ?thesis
    apply (rule gwp_bind, rule gwp_getPtr, rule stack_at_sp, rule s, use i in simp)
    apply (rule gwp_bind, rule gwp_load, assumption)
     apply (use e in \<open>simp add: n addr_mstk_ptr\<close>)
    apply (rule Q)
      apply blast
     apply blast
    using ld by (simp add: n)
qed

lemma gwp_mem_pop:
  assumes s: "stack_at G (xs @ [x]) (mem_of r)"
    and Q: "\<And>v F'. F \<subseteq> F' \<Longrightarrow> (v, TInt 256, x) \<in> F' \<Longrightarrow>
       Q v F' st (write_mem (uint (G ''spPtr'')) (le_bytes 32 (int (length xs))) r)"
  shows "gwp H G F st r (gs_pop False) Q"
proof -
  have sp: "sp_holds G (Suc (length xs)) (mem_of r)" using stack_at_sp [OF s] by simp
  have d: "bin_value Sub 256 (int (Suc (length xs))) 1 = int (length xs)" and w: "is_word (int (length xs))"
    using sp by (auto simp: bin_value_def sp_holds_def is_word_def take_bit_int_eq_self)
  show ?thesis
    unfolding gs_pop_def
    apply (simp only: if_False)
    apply (rule gwp_peek [OF s], simp)
    apply (rule gwp_bind, rule gwp_load_sp, rule sp)
    apply (rule gwp_bind, rule gwp_bin_reg, rule insertI1, simp, simp)
      apply (simp add: bin_defined_def)
     apply (use w in \<open>simp only: d in_range.simps is_word_def\<close>)
    apply (simp only: d)
    apply (rule gwp_seq, rule gwp_store_sp, rule insertI1, rule sp)
    apply (rule gwp_return, rule Q)
     apply blast
    by simp
qed

definition swapped :: "nat \<Rightarrow> 'a list \<Rightarrow> 'a list" where
  "swapped i xs = (let n = length xs - 1 in xs[n := xs ! (n - Suc i), n - Suc i := xs ! n])"

lemma gwp_mem_swap:
  assumes s: "stack_at G xs (mem_of r)" and i: "Suc idx < length xs"
    and Q: "\<And>F'. F \<subseteq> F' \<Longrightarrow>
       Q () F' st (write_mem (mstk_ptr G (length xs - Suc idx)) (le_bytes 32 (last xs))
         (write_mem (mstk_ptr G (length xs)) (le_bytes 32 (rev xs ! Suc idx)) r))"
  shows "gwp H G F st r (gs_swap False idx) Q"
proof -
  let ?n = "length xs"
  have e: "mstk_entry G k < 2 ^ 32 \<and> mstk_entry G k + 32 \<le> length (mem_of r)" if "k \<le> ?n" for k
    using s that by (intro entry_bound [OF s]) (simp add: stack_at_def)
  have t: "rev xs ! 0 = last xs" using i by (cases xs rule: rev_cases) simp_all
  show ?thesis
    unfolding gs_swap_def
    apply (simp only: if_False)
    apply (rule gwp_peek [OF s], rule order.strict_trans [OF zero_less_Suc i])
    apply (rule gwp_peek [OF s], use i in simp)
    apply (rule gwp_bind, rule gwp_getPtr, rule stack_at_sp, rule s, simp)
    apply (rule gwp_seq, rule gwp_store)
       apply blast
      apply simp
     apply (use e [of ?n] in \<open>simp add: addr_mstk_ptr\<close>)
    apply (rule gwp_store)
       apply blast
      apply blast
     apply (use e [of ?n] e [of "?n - Suc idx"] in \<open>simp add: addr_mstk_ptr\<close>)
    by (use t Q in \<open>simp only: type_bytes_simps diff_zero Suc_eq_plus1 [symmetric]\<close>)
qed

section \<open>Both modes implement a stack\<close>

lemma gwp_mono:
  assumes "gwp H G F st r m Q'" "\<And>a F' st' r'. Q' a F' st' r' \<Longrightarrow> F \<subseteq> F' \<Longrightarrow> Q a F' st' r'"
  shows "gwp H G F st r m Q"
proof (rule gwp_conseq [OF assms(1)])
  fix a F' st' r' assume "Q' a F' st' r'" "F \<subseteq> F'"
  then show "\<exists>F''. F \<subseteq> F'' \<and> F'' \<subseteq> F' \<and> Q a F'' st' r'" by (intro exI [of _ F'] conjI order_refl assms(2))
qed

text \<open>Values that stand for the given words.\<close>

definition words :: "(val \<times> lty \<times> int) set \<Rightarrow> val list \<Rightarrow> int list \<Rightarrow> bool" where
  "words F vs xs \<longleftrightarrow> list_all2 (\<lambda>v x. \<exists>w \<le> 256. (v, TInt w, x) \<in> F) vs xs"

lemma words_mono: "words F vs xs \<Longrightarrow> F \<subseteq> F' \<Longrightarrow> words F' vs xs"
  unfolding words_def by (erule list_all2_mono) blast

lemma words_simps [simp]:
  "words F [] xs \<longleftrightarrow> xs = []" "words F vs [] \<longleftrightarrow> vs = []"
  "words F (v # vs) (x # xs) \<longleftrightarrow> (\<exists>w \<le> 256. (v, TInt w, x) \<in> F) \<and> words F vs xs"
  by (auto simp: words_def)

lemma words_append: "words F vs xs \<Longrightarrow> words F vs' xs' \<Longrightarrow> words F (vs @ vs') (xs @ xs')"
  by (simp add: words_def list_all2_appendI)

lemma words_rev: "words F vs xs \<Longrightarrow> words F (rev vs) (rev xs)"
  by (simp add: words_def)

lemma words_length: "words F vs xs \<Longrightarrow> length vs = length xs"
  by (simp add: words_def list_all2_lengthD)

lemma words_snoc: "words F vs (xs @ [x]) \<Longrightarrow> \<exists>us v w. vs = us @ [v] \<and> words F us xs \<and> w \<le> 256 \<and> (v, TInt w, x) \<in> F"
  unfolding words_def by (cases vs rule: rev_cases) (auto simp: list_all2_append2 dest: list_all2_lengthD)

text \<open>The loops that move operands: pop the given number of entries, and push the values of a list.\<close>

fun pops :: "val cg \<Rightarrow> nat \<Rightarrow> val list cg" where
  "pops p 0 = returnE []"
| "pops p (Suc n) = bindE p (\<lambda>v. bindE (pops p n) (\<lambda>vs. returnE (v # vs)))"

fun pushes :: "(val \<Rightarrow> unit cg) \<Rightarrow> val list \<Rightarrow> unit cg" where
  "pushes p [] = returnE ()"
| "pushes p (v # vs) = seqE (p v) (pushes p vs)"

locale operand_stack =
  fixes H :: "'h HostInterface" and G :: globals
    and holds :: "(val \<times> lty \<times> int) set \<Rightarrow> val list \<Rightarrow> 'h rt \<Rightarrow> int list \<Rightarrow> bool"
    and room :: "nat \<Rightarrow> bool"
    and spush :: "val \<Rightarrow> unit cg" and spop :: "val cg" and sdup :: "nat \<Rightarrow> unit cg" and sswap :: "nat \<Rightarrow> unit cg"
  assumes push_law: "holds F st r xs \<Longrightarrow> room (length xs) \<Longrightarrow> (v, TInt w, x) \<in> F \<Longrightarrow> w \<le> 256 \<Longrightarrow>
      gwp H G F st r (spush v) (\<lambda>_ F' st' r'. F \<subseteq> F' \<and> holds F' st' r' (xs @ [x]))"
    and pop_law: "holds F st r (xs @ [x]) \<Longrightarrow>
      gwp H G F st r spop (\<lambda>v F' st' r'. F \<subseteq> F' \<and> words F' [v] [x] \<and> holds F' st' r' xs)"
    and dup_law: "holds F st r xs \<Longrightarrow> i < length xs \<Longrightarrow> room (length xs) \<Longrightarrow>
      gwp H G F st r (sdup i) (\<lambda>_ F' st' r'. F \<subseteq> F' \<and> holds F' st' r' (xs @ [rev xs ! i]))"
    and swap_law: "holds F st r xs \<Longrightarrow> Suc i < length xs \<Longrightarrow>
      gwp H G F st r (sswap i) (\<lambda>_ F' st' r'. F \<subseteq> F' \<and> holds F' st' r' (swapped i xs))"
begin

lemma pops_law:
  "holds F st r (xs @ ys) \<Longrightarrow>
   gwp H G F st r (pops spop (length ys)) (\<lambda>vs F' st' r'. F \<subseteq> F' \<and> words F' vs (rev ys) \<and> holds F' st' r' xs)"
proof (induction ys arbitrary: F st r rule: rev_induct)
  case Nil
  then show ?case by (simp add: gwp_return)
next
  case (snoc y ys)
  have "holds F st r ((xs @ ys) @ [y])" using snoc.prems by simp
  note p = pop_law [OF this]
  show ?case
    apply (simp del: words_simps)
    apply (rule gwp_bind, rule gwp_mono [OF p])
    apply (rule gwp_bind, rule gwp_mono, rule snoc.IH, blast)
    apply (rule gwp_return)
    by (auto dest: words_mono)
qed

lemma pushes_law:
  "holds F st r xs \<Longrightarrow> words F vs ys \<Longrightarrow> \<forall>k < length ys. room (length xs + k) \<Longrightarrow>
   gwp H G F st r (pushes spush vs) (\<lambda>_ F' st' r'. F \<subseteq> F' \<and> holds F' st' r' (xs @ ys))"
proof (induction vs arbitrary: F st r xs ys)
  case Nil
  then show ?case by (simp add: gwp_return)
next
  case (Cons v vs)
  from Cons.prems(2) obtain y zs where ys: "ys = y # zs" by (cases ys) simp_all
  with Cons.prems(2) obtain w where v: "w \<le> 256" "(v, TInt w, y) \<in> F" and vs: "words F vs zs" by auto
  have "room (length xs)" using Cons.prems(3) ys by (auto dest: spec [of _ 0])
  note p = push_law [OF Cons.prems(1) this v(2,1)]
  have room: "\<forall>k < length zs. room (length (xs @ [y]) + k)"
    using Cons.prems(3) unfolding ys by (auto dest: spec [of _ "Suc _"])
  show ?case
    unfolding ys pushes.simps
    apply (rule gwp_seq, rule gwp_mono [OF p])
    apply (rule gwp_mono, rule Cons.IH [where xs = "xs @ [y]" and ys = zs])
       apply blast
      apply (use vs words_mono in blast)
     apply (rule room)
    by auto
qed

text \<open>Taking entries off and putting them back leaves the stack as it was.\<close>

lemma pops_pushes_law:
  assumes "holds F st r (xs @ ys)" "\<forall>k < length ys. room (length xs + k)"
  shows "gwp H G F st r (bindE (pops spop (length ys)) (\<lambda>vs. pushes spush (rev vs)))
    (\<lambda>_ F' st' r'. F \<subseteq> F' \<and> holds F' st' r' (xs @ ys))"
  apply (rule gwp_bind, rule gwp_mono [OF pops_law [OF assms(1)]])
  apply (rule gwp_mono, rule pushes_law [where xs = xs and ys = ys])
  using assms(2) by (auto dest: words_rev)

end

text \<open>The registers: the vector above \<open>base\<close> stands for the entries, and nothing runs.\<close>

definition reg_stack ::
  "val list \<Rightarrow> 'h rt \<Rightarrow> (val \<times> lty \<times> int) set \<Rightarrow> val list \<Rightarrow> 'h rt \<Rightarrow> int list \<Rightarrow> bool" where
  "reg_stack base r0 F st r xs \<longleftrightarrow> (\<exists>vs. st = base @ vs \<and> words F vs xs) \<and> r = r0"

text \<open>The memory: the vector is not touched, and nothing changes but the bytes of the two globals.\<close>

definition mem_stack ::
  "globals \<Rightarrow> val list \<Rightarrow> 'h rt \<Rightarrow> (val \<times> lty \<times> int) set \<Rightarrow> val list \<Rightarrow> 'h rt \<Rightarrow> int list \<Rightarrow> bool" where
  "mem_stack G st0 r0 F st r xs \<longleftrightarrow> st = st0 \<and> only_stack G r0 r \<and> stack_at G xs (mem_of r)"

definition mem_room :: "nat \<Rightarrow> bool" where
  "mem_room n \<longleftrightarrow> Suc n < mstk_words"

lemma gwp_reg_dup:
  "i < length st \<Longrightarrow> Q () F (st @ [rev st ! i]) r \<Longrightarrow> gwp H G F st r (gs_dup True i) Q"
  by (rule gwp_silent_update) (auto simp: gs_dup_def push_def bindE_def getE_def modifyE_def)

lemma gwp_reg_swap:
  "Suc i < length st \<Longrightarrow> Q () F (swapped i st) r \<Longrightarrow> gwp H G F st r (gs_swap True i) Q"
  by (rule gwp_silent_update)
     (auto simp: gs_swap_def swapped_def modifyE_def Let_def list_update_swap)

lemma words_swapped: "words F vs xs \<Longrightarrow> words F (swapped i vs) (swapped i xs)"
  unfolding words_def swapped_def Let_def
  by (auto simp: list_all2_conv_all_nth nth_list_update)

lemma swapped_base: "Suc i < length vs \<Longrightarrow> swapped i (base @ vs) = base @ swapped i vs"
  by (simp add: swapped_def Let_def list_update_append nth_append)

interpretation regs: operand_stack H G "reg_stack base r0" "\<lambda>_. True" "gs_push True" "gs_pop True" "gs_dup True" "gs_swap True"
  for H :: "'h HostInterface" and G base r0
proof (unfold_locales, goal_cases)
  case (1 F st r xs v w x)
  then obtain vs where vs: "st = base @ vs" "words F vs xs" "r = r0" "words F [v] [x]" by (auto simp: reg_stack_def)
  with words_append [OF vs(2,4)] show ?case
    by (simp only: gs_push_def if_True, intro gwp_push) (auto simp: reg_stack_def)
next
  case (2 F st r xs x)
  then obtain us v where st: "st = (base @ us) @ [v]" and us: "words F us xs" "words F [v] [x]" "r = r0"
    by (auto simp: reg_stack_def dest!: words_snoc)
  show ?case
    unfolding st gs_pop_def by (simp only: if_True, rule gwp_pop) (use us in \<open>auto simp: reg_stack_def\<close>)
next
  case (3 F st r xs i)
  then obtain vs where vs: "st = base @ vs" "words F vs xs" "r = r0" "i < length vs"
    by (metis reg_stack_def words_length)
  then have "words F [rev vs ! i] [rev xs ! i]"
    using words_rev [OF vs(2)] words_length [OF vs(2)] by (simp add: words_def list_all2_conv_all_nth)
  from words_append [OF vs(2) this] have "reg_stack base r0 F (st @ [rev st ! i]) r (xs @ [rev xs ! i])"
    using vs by (simp add: reg_stack_def nth_append)
  then show ?case using vs(1,4) by (intro gwp_reg_dup) simp_all
next
  case (4 F st r xs i)
  then obtain vs where "st = base @ vs" "words F vs xs" "r = r0" "Suc i < length vs"
    by (metis reg_stack_def words_length)
  then show ?case by (intro gwp_reg_swap) (auto simp: reg_stack_def swapped_base words_swapped)
qed

lemma only_stack_pushed:
  assumes "only_stack G r0 r" "stack_at G xs (mem_of r)" "Suc (length xs) < mstk_words" "is_word x"
  shows "only_stack G r0 (pushed G (length xs) x r) \<and> stack_at G (xs @ [x]) (mem_of (pushed G (length xs) x r))"
proof -
  note e = entry_bound [OF assms(2,3)] and l = layout_entry [OF stack_at_layout [OF assms(2)] assms(3)]
  have s: "{mstk_entry G (Suc (length xs)) ..< mstk_entry G (Suc (length xs)) + 32} \<subseteq> stack_bytes G"
    using assms(3) by (auto simp: stack_bytes_def mstk_entry_def mstk_words_def)
  show ?thesis
    unfolding pushed_def
  proof (intro conjI only_stack_write)
    show "only_stack G r0 r" by (rule assms(1))
  qed (use stack_at_push [OF assms(2-4)] s e l in \<open>auto simp: addr_mstk_ptr stack_bytes_def\<close>)
qed

lemma only_stack_popped:
  assumes "only_stack G r0 r" "stack_at G (xs @ ys) (mem_of r)"
  defines "r' \<equiv> write_mem (uint (G ''spPtr'')) (le_bytes 32 (int (length xs))) r"
  shows "only_stack G r0 r' \<and> stack_at G xs (mem_of r')"
proof -
  have "0 < mstk_words" by (simp add: mstk_words_def)
  note l = layout_entry(3) [OF stack_at_layout [OF assms(2)] this]
  show ?thesis
    unfolding r'_def using stack_at_pop [OF assms(2)] l
    by (intro conjI only_stack_write [OF assms(1)]) (auto simp: stack_bytes_def)
qed

lemma only_stack_set:
  assumes "only_stack G r0 r" "stack_at G xs (mem_of r)" "i < length xs" "is_word y"
  defines "r' \<equiv> write_mem (mstk_ptr G (Suc i)) (le_bytes 32 y) r"
  shows "only_stack G r0 r' \<and> stack_at G (xs[i := y]) (mem_of r')"
proof -
  have k: "Suc i < mstk_words" using assms(2,3) by (simp add: stack_at_def)
  note e = entry_bound [OF assms(2) k]
  have s: "{mstk_entry G (Suc i) ..< mstk_entry G (Suc i) + 32} \<subseteq> stack_bytes G"
    using k by (auto simp: stack_bytes_def mstk_entry_def mstk_words_def)
  show ?thesis
    unfolding r'_def using stack_at_write [OF assms(2-4)] e s
    by (intro conjI only_stack_write [OF assms(1)]) (auto simp: addr_mstk_ptr)
qed

interpretation memory: operand_stack H G "mem_stack G st0 r0" mem_room "gs_push False" "gs_pop False" "gs_dup False" "gs_swap False"
  for H :: "'h HostInterface" and G st0 r0
proof (unfold_locales, goal_cases)
  case (1 F st r xs v w x)
  then have s: "stack_at G xs (mem_of r)" "only_stack G r0 r" "st = st0" and k: "Suc (length xs) < mstk_words"
    by (simp_all add: mem_stack_def mem_room_def)
  have e: "mstk_entry G (Suc (length xs)) + 32 \<le> length (mem_of r)" "length (mem_of r) \<le> 2 ^ 32"
    using entry_bound [OF s(1) k] s(1) by (simp_all add: stack_at_def stack_layout_def)
  have w: "is_word (int (Suc (length xs)))" using k by (intro is_word_nat) simp
  show ?case
  proof (rule gwp_range [OF 1(3)])
    assume "in_range (TInt w) x"
    then have x: "is_word x" using range_wider [of w x 256] 1(4) by (simp add: is_word_def)
    show ?thesis
      by (rule gwp_mem_push_any, rule stack_at_sp, rule s, rule w, rule e, rule e, rule 1(3), rule 1(4))
         (use only_stack_pushed [OF s(2,1) k x] s(3) in \<open>simp add: mem_stack_def\<close>)
  qed
next
  case (2 F st r xs x)
  then have s: "stack_at G (xs @ [x]) (mem_of r)" "only_stack G r0 r" "st = st0" by (simp_all add: mem_stack_def)
  show ?case
    by (rule gwp_mem_pop [OF s(1)]) (use only_stack_popped [OF s(2,1)] s(3) in \<open>auto simp: mem_stack_def\<close>)
next
  case (3 F st r xs i)
  then have s: "stack_at G xs (mem_of r)" "only_stack G r0 r" "st = st0" and k: "Suc (length xs) < mstk_words"
    by (simp_all add: mem_stack_def mem_room_def)
  have e: "mstk_entry G (Suc (length xs)) + 32 \<le> length (mem_of r)" "length (mem_of r) \<le> 2 ^ 32"
    using entry_bound [OF s(1) k] s(1) by (simp_all add: stack_at_def stack_layout_def)
  have w: "is_word (int (Suc (length xs)))" using k by (intro is_word_nat) simp
  have x: "is_word (rev xs ! i)" using s(1) 3(2) by (simp add: stack_at_def list_all_length rev_nth)
  show ?case
    unfolding gs_dup_def
    apply (simp only: if_False)
    apply (rule gwp_peek [OF s(1) 3(2)])
    apply (rule gwp_mem_push_any, rule stack_at_sp, rule s, rule w, rule e, rule e, assumption, simp)
    using only_stack_pushed [OF s(2,1) k x] s(3) by (auto simp: mem_stack_def)
next
  case (4 F st r xs i)
  then have s: "stack_at G xs (mem_of r)" "only_stack G r0 r" "st = st0" by (simp_all add: mem_stack_def)
  let ?n = "length xs - 1" and ?j = "length xs - Suc (Suc i)"
  have n: "length xs = Suc ?n" "length xs - Suc i = Suc ?j" "?n < length xs" "?j < length xs" using 4(2) by simp_all
  have la: "last xs = xs ! ?n" using n by (intro last_conv_nth) auto
  have w: "is_word (last xs)" "is_word (rev xs ! Suc i)"
    using s(1) n 4(2) by (auto simp: stack_at_def list_all_length la rev_nth)
  note 1 = only_stack_set [OF s(2,1) n(3) w(2)]
  have "only_stack G r0 (write_mem (mstk_ptr G (Suc ?j)) (le_bytes 32 (last xs))
       (write_mem (mstk_ptr G (Suc ?n)) (le_bytes 32 (rev xs ! Suc i)) r))
    \<and> stack_at G (swapped i xs) (mem_of (write_mem (mstk_ptr G (Suc ?j)) (le_bytes 32 (last xs))
       (write_mem (mstk_ptr G (Suc ?n)) (le_bytes 32 (rev xs ! Suc i)) r)))"
    using only_stack_set [OF conjunct1 [OF 1] conjunct2 [OF 1] _ w(1), of ?j] n 4(2)
    by (simp add: swapped_def Let_def rev_nth la del: mem_write_sp mem_write_mstk)
  then show ?case
    by (intro gwp_mem_swap [OF s(1) 4(2)]) (use n s(3) in \<open>simp add: mem_stack_def\<close>)
qed

end
