(* ===== verification/Block_Borders.thy ===== *)
theory Block_Borders
  imports Global_Stack
begin

text \<open>
  How compileMain (WASMCompiler.cpp) moves operands between the stack in memory and the registers
  of a block, and the properties of the operand stack: its operations in memory implement a
  stack, up to the size of the array, and the code in front of and behind every block transfers
  exactly the operands and results of the block.
\<close>

section \<open>The borders of a block\<close>

text \<open>
  What compileMain emits before and after the code of a block. The block is translated with
  its operands in registers: before it, they are popped off the memory or, when \<open>forward\<close> holds,
  taken from the registers \<open>pstack\<close> the preceding block ended with, in which case only the index
  of the memory stack is lowered; after it, all registers are pushed back to the memory.
\<close>

definition block_prologue :: "bool \<Rightarrow> nat \<Rightarrow> val list \<Rightarrow> unit cg" where
  "block_prologue forward nin pstack =
     bindE
       (if forward \<and> pstack \<noteq> [] then
          (let depStk = take nin (rev pstack) in
           bindE (createLoad (VGlobal ''spPtr'' 256)) (\<lambda>tsp.
           bindE (createBin2 Sub tsp (VConst 256 (int (length depStk)))) (\<lambda>tsp.
           seqE (createStore tsp (VGlobal ''spPtr'' 256)) (returnE depStk))))
        else returnE []) (\<lambda>depStk.
     bindE (pops (gs_pop False) (nin - length depStk)) (\<lambda>more.
     pushes (gs_push True) (rev (depStk @ more))))"

definition unvisited_prologue :: "nat \<Rightarrow> unit cg" where
  "unvisited_prologue nin =
     bindE (pops (gs_pop False) nin) (\<lambda>depStk. pushes (gs_push True) (rev depStk))"

definition block_epilogue :: "unit cg" where
  "block_epilogue = bindE (getE h_stack) (\<lambda>view. seqE (pushes (gs_push False) view) clearLocals)"

lemma gwp_clearLocals: "Q () F [] r \<Longrightarrow> gwp H G F st r clearLocals Q"
  by (rule gwp_silent_update) (auto simp: clearLocals_def modifyE_def)

lemma gwp_view: "Q st F st r \<Longrightarrow> gwp H G F st r (getE h_stack) Q"
  by (rule gwp_silent_update) (auto simp: getE_def)

lemma epilogue_gwp:
  assumes "stack_at G xs (mem_of r)" "words F st ys" "length xs + length ys < mstk_words"
  shows "gwp H G F st r block_epilogue (\<lambda>_ F' st' r'. F \<subseteq> F' \<and> mem_stack G [] r F' st' r' (xs @ ys))"
proof -
  have "mem_stack G st r F st r xs" using assms(1) only_stack_refl by (simp add: mem_stack_def)
  moreover have "\<forall>k < length ys. mem_room (length xs + k)" using assms(3) by (simp add: mem_room_def)
  ultimately have p: "gwp H G F st r (pushes (gs_push False) st) (\<lambda>_ F' st' r'. F \<subseteq> F' \<and> mem_stack G st r F' st' r' (xs @ ys))"
    using assms(2) by (intro memory.pushes_law)
  show ?thesis
    unfolding block_epilogue_def
    by (rule gwp_bind, rule gwp_view, rule gwp_seq, rule gwp_mono [OF p], rule gwp_clearLocals)
       (simp add: mem_stack_def)
qed

lemma fetch_gwp:
  assumes s: "stack_at G (xs @ ys) (mem_of r)" "only_stack G r0 r" and dep: "words F dep zs"
  shows "gwp H G F [] r (bindE (pops (gs_pop False) (length ys)) (\<lambda>more. pushes (gs_push True) (rev (dep @ more))))
    (\<lambda>_ F' st' r'. F \<subseteq> F' \<and> words F' st' (ys @ rev zs) \<and> mem_stack G st' r0 F' st' r' xs)"
proof -
  have "mem_stack G [] r0 F [] r (xs @ ys)" using s by (simp add: mem_stack_def)
  note p = memory.pops_law [OF this]
  show ?thesis
  proof (rule gwp_bind, rule gwp_mono [OF p])
    fix more F1 st1 r1
    assume 1: "F \<subseteq> F1 \<and> words F1 more (rev ys) \<and> mem_stack G [] r0 F1 st1 r1 xs"
    then have m: "st1 = []" "only_stack G r0 r1" "stack_at G xs (mem_of r1)" by (simp_all add: mem_stack_def)
    have "words F1 (dep @ more) (zs @ rev ys)" using words_append [OF words_mono [OF dep]] 1 by blast
    from words_rev [OF this] have w: "words F1 (rev (dep @ more)) (ys @ rev zs)" by simp
    have "reg_stack [] r1 F1 st1 r1 []" using m by (simp add: reg_stack_def)
    from regs.pushes_law [OF this w]
    have "gwp H G F1 st1 r1 (pushes (gs_push True) (rev (dep @ more))) (\<lambda>_ F' st' r'. F1 \<subseteq> F' \<and> reg_stack [] r1 F' st' r' ([] @ ys @ rev zs))"
      by simp
    then show "gwp H G F1 st1 r1 (pushes (gs_push True) (rev (dep @ more)))
       (\<lambda>_ F' st' r'. F \<subseteq> F' \<and> words F' st' (ys @ rev zs) \<and> mem_stack G st' r0 F' st' r' xs)"
      by (rule gwp_mono) (use 1 m in \<open>auto simp: reg_stack_def mem_stack_def\<close>)
  qed
qed

text \<open>The registers taken over stand for the topmost entries.\<close>

lemma taken_over:
  assumes "words F pstack ps" "xs @ ys = qs @ ps"
  obtains ys' zs where "ys = ys' @ rev zs" "words F (take (length ys) (rev pstack)) zs"
proof -
  let ?n = "length ys" and ?zs = "take (length ys) (rev ps)"
  let ?k = "length ?zs"
  have "?zs = take ?k (rev (qs @ ps))" by (simp add: min_def)
  also have "\<dots> = take ?k (rev (xs @ ys))" by (simp only: assms(2))
  also have "\<dots> = take ?k (rev ys)" by simp
  also have "\<dots> = rev (drop (?n - ?k) ys)" by (simp add: take_rev)
  finally have z: "rev ?zs = drop (?n - ?k) ys" by (metis rev_rev_ident)
  then have "ys = take (?n - ?k) ys @ rev ?zs" by (metis append_take_drop_id)
  moreover have "words F (take ?n (rev pstack)) ?zs"
    using words_rev [OF assms(1)] by (simp add: words_def list_all2_takeI)
  ultimately show thesis by (rule that)
qed

lemma prologue_gwp:
  assumes s: "stack_at G (xs @ ys) (mem_of r)"
    and fw: "forward \<Longrightarrow> words F pstack ps" "forward \<Longrightarrow> xs @ ys = qs @ ps"
  shows "gwp H G F [] r (block_prologue forward (length ys) pstack)
    (\<lambda>_ F' st' r'. F \<subseteq> F' \<and> words F' st' ys \<and> mem_stack G st' r F' st' r' xs)"
proof (cases "forward \<and> pstack \<noteq> []")
  case False
  have "gwp H G F [] r (bindE (pops (gs_pop False) (length ys)) (\<lambda>more. pushes (gs_push True) (rev ([] @ more))))
    (\<lambda>_ F' st' r'. F \<subseteq> F' \<and> words F' st' (ys @ rev []) \<and> mem_stack G st' r F' st' r' xs)"
    by (rule fetch_gwp [OF s only_stack_refl]) simp
  then show ?thesis
    unfolding block_prologue_def using False
    by (simp only: if_False) (intro gwp_bind [of _ _ _ _ _ "returnE _"] gwp_return, simp)
next
  case True
  obtain ys' zs where ys: "ys = ys' @ rev zs" and dep: "words F (take (length ys) (rev pstack)) zs"
    using taken_over [OF fw] True by metis
  let ?dep = "take (length ys) (rev pstack)"
  let ?r = "write_mem (uint (G ''spPtr'')) (le_bytes 32 (int (length (xs @ ys')))) r"
  have l: "length ?dep = length zs" using words_length [OF dep] .
  have s': "stack_at G ((xs @ ys') @ rev zs) (mem_of r)" using s by (simp add: ys)
  note o = only_stack_popped [OF only_stack_refl s']
  have sp: "sp_holds G (length (xs @ ys)) (mem_of r)" using stack_at_sp [OF s] .
  have n: "length (xs @ ys) \<le> mstk_words" using s by (simp add: stack_at_def)
  then have c: "0 \<le> int (length zs)" "int (length zs) < 2 ^ 256" by (simp_all add: ys mstk_words_def)
  have d: "bin_value Sub 256 (int (length (xs @ ys))) (int (length zs)) = int (length (xs @ ys'))"
    using n by (simp add: ys bin_value_def mstk_words_def take_bit_int_eq_self)
  have w: "is_word (int (length (xs @ ys')))" using n by (intro is_word_nat) (simp add: ys)
  have f: "gwp H G F1 [] ?r (bindE (pops (gs_pop False) (length ys')) (\<lambda>more. pushes (gs_push True) (rev (?dep @ more))))
    (\<lambda>_ F' st' r'. F1 \<subseteq> F' \<and> words F' st' (ys' @ rev zs) \<and> mem_stack G st' r F' st' r' xs)" if "F \<subseteq> F1" for F1
    by (rule fetch_gwp) (use o words_mono [OF dep that] in auto)
  have m: "length ys - length zs = length ys'" by (simp add: ys)
  show ?thesis
    unfolding block_prologue_def Let_def
    apply (simp only: True simp_thms if_True l)
    apply (rule gwp_bind, rule gwp_bind, rule gwp_load_sp, rule sp)
    apply (rule gwp_bind, rule gwp_bin_reg, rule insertI1, rule c, rule c)
      apply (simp add: bin_defined_def)
     apply (use w in \<open>simp only: d in_range.simps is_word_def\<close>)
    apply (simp only: d)
    apply (rule gwp_seq, rule gwp_store_sp, rule insertI1, rule sp)
    apply (rule gwp_return)
    apply (simp only: l m)
    apply (rule gwp_mono, rule f)
     apply blast
    by (auto simp: ys)
qed

section \<open>Properties\<close>

text \<open>The registers of the generator stand for the given words.\<close>

definition stands :: "globals \<Rightarrow> hgen \<Rightarrow> int list \<Rightarrow> val list \<Rightarrow> int list \<Rightarrow> bool" where
  "stands G g env vs xs \<longleftrightarrow> list_all2 (\<lambda>v x. \<exists>w \<le> 256. den G g env v (TInt w) x) vs xs"

definition facts_of :: "globals \<Rightarrow> hgen \<Rightarrow> int list \<Rightarrow> (val \<times> lty \<times> int) set" where
  "facts_of G g env = {(v, ty, x). den G g env v ty x}"

lemma facts_words: "words (facts_of G g env) vs xs \<longleftrightarrow> stands G g env vs xs"
  by (simp add: words_def stands_def facts_of_def)

lemma knows_words: "knows G F st g env \<Longrightarrow> words F vs xs \<Longrightarrow> stands G g env vs xs"
  unfolding words_def stands_def by (erule list_all2_mono) (blast intro: knowsD)

lemma gwp_run:
  assumes "gwp H G (facts_of G g env) (h_stack g) r m Q" "length env = length (h_code g)"
  obtains a g' env' r' F' where "gen_run H G m g env r a g' env' r'" "knows G F' (h_stack g') g' env'" "Q a F' (h_stack g') r'"
proof -
  have "knows G (facts_of G g env) (h_stack g) g env" using assms(2) by (simp add: knows_def facts_of_def)
  with assms(1) obtain a g' env' r' F' st' where "gen_run H G m g env r a g' env' r'" "knows G F' st' g' env'" "Q a F' st' r'"
    by (rule gwpD)
  moreover from this(2) have "st' = h_stack g'" by (simp add: knows_def)
  ultimately show thesis using that by blast
qed

text \<open>Generating and running \<open>m\<close> turns the stack in memory into \<open>ys\<close> and changes nothing else.\<close>

definition mem_runs ::
  "'h HostInterface \<Rightarrow> globals \<Rightarrow> hgen \<Rightarrow> int list \<Rightarrow> 'h rt \<Rightarrow> 'a cg \<Rightarrow> int list \<Rightarrow> ('a \<Rightarrow> hgen \<Rightarrow> int list \<Rightarrow> bool) \<Rightarrow> bool" where
  "mem_runs H G g env r m ys P \<longleftrightarrow>
     (\<exists>a g' env' r'. gen_run H G m g env r a g' env' r' \<and> only_stack G r r' \<and> stack_at G ys (mem_of r') \<and> P a g' env')"

lemma mem_runsI:
  assumes "gwp H G (facts_of G g env) (h_stack g) r m (\<lambda>a F' st' r'. mem_stack G st r F' st' r' ys \<and> R a F' st')"
    and "length env = length (h_code g)"
    and "\<And>a g' env' F'. knows G F' (h_stack g') g' env' \<Longrightarrow> h_stack g' = st \<Longrightarrow> R a F' (h_stack g') \<Longrightarrow> P a g' env'"
  shows "mem_runs H G g env r m ys P"
proof -
  from gwp_run [OF assms(1,2)] obtain a g' env' r' F' where
    "gen_run H G m g env r a g' env' r'" "knows G F' (h_stack g') g' env'" "mem_stack G st r F' (h_stack g') r' ys" "R a F' (h_stack g')"
    by metis
  with assms(3) show ?thesis unfolding mem_runs_def mem_stack_def by metis
qed

lemma mem_runs_op:
  assumes "gwp H G (facts_of G g env) (h_stack g) r m (\<lambda>_ F' st' r'. facts_of G g env \<subseteq> F' \<and> mem_stack G (h_stack g) r F' st' r' ys)"
    and "length env = length (h_code g)"
  shows "mem_runs H G g env r m ys (\<lambda>_ g' _. h_stack g' = h_stack g)"
  by (rule mem_runsI [where R = "\<lambda>_ _ _. True", OF gwp_mono [OF assms(1)] assms(2)]) auto

text \<open>
  C4: The operand stack in memory. As long as the memory holds the stack \<open>xs\<close>, the code the
  translator emits for push, pop, dup and swap without registers runs to the end and leaves
  the memory holding the stack the operation computes; a pop yields a value that stands for
  the top. A push or dup needs one of the 511 usable entries to be free, a dup or swap that its
  operand exists. No byte outside the array and the stack pointer changes.
\<close>

theorem memory_stack_refines:
  assumes "length env = length (h_code g)" "stack_at G xs (mem_of r)"
  shows "(stands G g env [v] [x] \<and> length xs < 511 \<longrightarrow>
       mem_runs H G g env r (gs_push False v) (xs @ [x]) (\<lambda>_ g' _. h_stack g' = h_stack g))
    \<and> (xs \<noteq> [] \<longrightarrow>
       mem_runs H G g env r (gs_pop False) (butlast xs) (\<lambda>a g' env'. h_stack g' = h_stack g \<and> stands G g' env' [a] [last xs]))
    \<and> (i < length xs \<and> length xs < 511 \<longrightarrow>
       mem_runs H G g env r (gs_dup False i) (xs @ [rev xs ! i]) (\<lambda>_ g' _. h_stack g' = h_stack g))
    \<and> (i + 1 < length xs \<longrightarrow>
       mem_runs H G g env r (gs_swap False i) (swapped i xs) (\<lambda>_ g' _. h_stack g' = h_stack g))"
proof -
  let ?F = "facts_of G g env"
  have m: "mem_stack G (h_stack g) r ?F (h_stack g) r xs" using assms(2) only_stack_refl by (simp add: mem_stack_def)
  have room: "mem_room (length xs)" if "length xs < 511" using that by (simp add: mem_room_def mstk_words_def)
  have "mem_runs H G g env r (gs_push False v) (xs @ [x]) (\<lambda>_ g' _. h_stack g' = h_stack g)"
    if "stands G g env [v] [x]" "length xs < 511"
  proof -
    from that(1) obtain w where "(v, TInt w, x) \<in> ?F" "w \<le> 256" by (auto simp: facts_words [symmetric])
    from memory.push_law [OF m room [OF that(2)] this] show ?thesis by (rule mem_runs_op [OF _ assms(1)])
  qed
  moreover have "mem_runs H G g env r (gs_pop False) (butlast xs) (\<lambda>a g' env'. h_stack g' = h_stack g \<and> stands G g' env' [a] [last xs])"
    if "xs \<noteq> []"
  proof -
    have "mem_stack G (h_stack g) r ?F (h_stack g) r (butlast xs @ [last xs])" using m that by simp
    note p = memory.pop_law [OF this]
    show ?thesis
      by (rule mem_runsI [where R = "\<lambda>a F' _. words F' [a] [last xs]", OF gwp_mono [OF p] assms(1)])
         (auto simp del: words_simps intro: knows_words)
  qed
  moreover have "mem_runs H G g env r (gs_dup False i) (xs @ [rev xs ! i]) (\<lambda>_ g' _. h_stack g' = h_stack g)"
    if "i < length xs" "length xs < 511"
    by (rule mem_runs_op [OF memory.dup_law [OF m that(1) room [OF that(2)]] assms(1)])
  moreover have "mem_runs H G g env r (gs_swap False i) (swapped i xs) (\<lambda>_ g' _. h_stack g' = h_stack g)"
    if "i + 1 < length xs"
    using that by (intro mem_runs_op [OF memory.swap_law [OF m] assms(1)]) simp
  ultimately show ?thesis by simp
qed

text \<open>Sample states: the array at address 0, the stack pointer behind it, and \<open>n\<close> zeros on the stack.\<close>

definition sample_globals :: globals where
  "sample_globals s = (if s = ''spPtr'' then 16416 else 0)"

definition sample_stack :: "nat \<Rightarrow> ExampleHost rt" where
  "sample_stack n = set_mem (put_segment 16416 (le_bytes 32 (int n)) (replicate 20000 0)) (sample_rt 0)"

lemma mem_sample_stack: "mem_of (sample_stack n) = put_segment 16416 (le_bytes 32 (int n)) (replicate 20000 0)"
  by (simp add: sample_stack_def set_mem_def mem_of_def)

lemma sample_stack_at:
  assumes "n < 512"
  shows "stack_at sample_globals (replicate n 0) (mem_of (sample_stack n))"
proof -
  have z: "le_bytes 32 0 = replicate 32 0" by (rule nth_equalityI) (simp_all add: nth_le_bytes)
  have g: "unat (sample_globals ''spPtr'') = 16416" "mstk_entry sample_globals k = 32 * k" for k
    by (simp_all add: sample_globals_def mstk_entry_def)
  have "word_in (32 * Suc i) 0 (mem_of (sample_stack n))" if "i < n" for i
  proof -
    have "word_in (32 * Suc i) 0 (replicate 20000 0)" using that assms z by (simp add: word_in_def segment_def)
    then show ?thesis using that assms by (simp add: mem_sample_stack word_in_put_other)
  qed
  then show ?thesis using assms
    by (simp add: stack_at_def stack_layout_def g mstk_words_def mem_sample_stack is_word_def list_all_length)
qed

theorem memory_stack_refines_witness:
  "mem_runs example_host sample_globals (sample_gen []) [] (sample_stack 2) (gs_push False (VConst 256 7)) [0, 0, 7] (\<lambda>_ g' _. h_stack g' = [])
   \<and> mem_runs example_host sample_globals (sample_gen []) [] (sample_stack 2) (gs_swap False 0) [0, 0] (\<lambda>_ g' _. h_stack g' = [])"
proof -
  have 1: "length ([] :: int list) = length (h_code (sample_gen []))" and st: "h_stack (sample_gen []) = []"
    by (simp_all add: sample_gen_def)
  have 2: "stack_at sample_globals [0, 0] (mem_of (sample_stack 2))"
    using sample_stack_at [of 2] by (simp add: numeral_2_eq_2)
  have 3: "stands sample_globals (sample_gen []) [] [VConst 256 7] [7]"
    by (auto simp: stands_def intro!: exI [of _ 256] sample_den)
  have 4: "swapped 0 [0, 0 :: int] = [0, 0]" by (simp add: swapped_def)
  from memory_stack_refines [OF 1 2, of "VConst 256 7" 7 example_host 0] 3 4 st show ?thesis by simp
qed

text \<open>
  The size of the operand stack. The 511th entry is the last one that lies inside the array
  mstk, although the EVM allows 1024 entries, and the emitted code does not check the index: a
  push onto a stack of 511 entries runs to the end and overwrites the 32 bytes behind the array
  with the pushed word.
\<close>

theorem memory_stack_overflow:
  assumes "length env = length (h_code g)" "stack_at G xs (mem_of r)" "length xs = 511"
    and "stands G g env [v] [x]"
    and "unat (G ''mstk'') + 32 * 512 + 32 \<le> length (mem_of r)"
  shows "\<exists>g' env' r'. gen_run H G (gs_push False v) g env r () g' env' r'
     \<and> segment (unat (G ''mstk'') + 32 * 512) 32 (mem_of r') = le_bytes 32 x"
proof -
  let ?F = "facts_of G g env"
  from assms(4) obtain w where v: "(v, TInt w, x) \<in> ?F" "w \<le> 256" by (auto simp: facts_words [symmetric])
  have n: "Suc 511 = (512 :: nat)" by simp
  have e: "mstk_entry G (Suc 511) + 32 \<le> length (mem_of r)" "length (mem_of r) \<le> 2 ^ 32"
    using assms(2,5) by (simp_all add: mstk_entry_def stack_at_def stack_layout_def)
  have sp: "sp_holds G 511 (mem_of r)" using stack_at_sp [OF assms(2)] assms(3) by simp
  have b: "unat (G ''spPtr'') + 32 \<le> length (mem_of r)" using sp by (simp add: sp_holds_def)
  have "word_in (mstk_entry G (Suc 511)) x (mem_of (pushed G 511 x r))"
    using e b by (simp add: pushed_def addr_mstk_ptr)
  then have "gwp H G ?F (h_stack g) r (gs_push False v) (\<lambda>_ _ _ r'. word_in (mstk_entry G 512) x (mem_of r'))"
    by (intro gwp_mem_push_any [OF sp _ e v]) (simp_all add: is_word_def)
  from gwp_run [OF this assms(1)] show ?thesis unfolding word_in_def mstk_entry_def by (metis (full_types) old.unit.exhaust)
qed

theorem memory_stack_overflow_witness:
  "\<exists>g' env' r'. gen_run example_host sample_globals (gs_push False (VConst 256 7)) (sample_gen []) [] (sample_stack 511) () g' env' r'
     \<and> segment 16384 32 (mem_of r') = le_bytes 32 7"
proof -
  have 1: "length ([] :: int list) = length (h_code (sample_gen []))" by (simp add: sample_gen_def)
  have 2: "stands sample_globals (sample_gen []) [] [VConst 256 7] [7]"
    by (auto simp: stands_def intro!: exI [of _ 256] sample_den)
  have 3: "unat (sample_globals ''mstk'') + 32 * 512 + 32 \<le> length (mem_of (sample_stack 511))" "unat (sample_globals ''mstk'') = 0"
    by (simp_all add: sample_globals_def mem_sample_stack)
  from memory_stack_overflow [OF 1 sample_stack_at _ 2 3(1), where H = example_host] 3(2) show ?thesis by simp
qed

text \<open>
  C5: The operands of a block. When the memory holds \<open>xs @ ys\<close> and the block takes as many
  operands as \<open>ys\<close> has, the code in front of the block leaves \<open>xs\<close> in memory and registers that
  stand for \<open>ys\<close>. This holds for operands loaded from memory and for those taken over from the
  registers of the preceding block, provided these stand for the topmost entries of the memory.
\<close>

theorem block_prologue_correct:
  assumes "length env = length (h_code g)" "h_stack g = []" "stack_at G (xs @ ys) (mem_of r)"
    and "forward \<Longrightarrow> stands G g env pstack ps" "forward \<Longrightarrow> xs @ ys = qs @ ps"
  shows "mem_runs H G g env r (block_prologue forward (length ys) pstack) xs (\<lambda>_ g' env'. stands G g' env' (h_stack g') ys)"
proof -
  have p: "gwp H G (facts_of G g env) (h_stack g) r (block_prologue forward (length ys) pstack)
    (\<lambda>_ F' st' r'. facts_of G g env \<subseteq> F' \<and> words F' st' ys \<and> mem_stack G st' r F' st' r' xs)"
    unfolding assms(2) by (rule prologue_gwp [OF assms(3)]) (use assms(4,5) in \<open>simp_all add: facts_words\<close>)
  from gwp_run [OF p assms(1)] show ?thesis
    unfolding mem_runs_def mem_stack_def by (metis knows_words)
qed

theorem block_prologue_correct_witness:
  "mem_runs example_host sample_globals (sample_gen []) [] (sample_stack 3) (block_prologue True 2 [VConst 256 0]) [0]
     (\<lambda>_ g' env'. stands sample_globals g' env' (h_stack g') [0, 0])"
proof -
  have 1: "length ([] :: int list) = length (h_code (sample_gen []))" "h_stack (sample_gen []) = []" by (simp_all add: sample_gen_def)
  have 2: "stack_at sample_globals ([0] @ [0, 0]) (mem_of (sample_stack 3))"
    using sample_stack_at [of 3] by (simp add: numeral_3_eq_3)
  have 3: "stands sample_globals (sample_gen []) [] [VConst 256 0] [0]"
    by (auto simp: stands_def intro!: exI [of _ 256] sample_den)
  from block_prologue_correct [OF 1 2, of True "[VConst 256 0]" "[0]" "[0, 0]" example_host] 3 show ?thesis
    by (simp add: numeral_2_eq_2)
qed

text \<open>
  C6: The results of a block. When the memory holds \<open>xs\<close> and the registers at the end of a block
  stand for \<open>ys\<close>, the code behind the block leaves \<open>xs @ ys\<close> in memory and no registers, if the
  stack fits into the array.
\<close>

theorem block_epilogue_correct:
  assumes "length env = length (h_code g)" "stack_at G xs (mem_of r)" "stands G g env (h_stack g) ys"
    and "length xs + length ys < 512"
  shows "mem_runs H G g env r block_epilogue (xs @ ys) (\<lambda>_ g' _. h_stack g' = [])"
proof -
  have p: "gwp H G (facts_of G g env) (h_stack g) r block_epilogue
    (\<lambda>_ F' st' r'. facts_of G g env \<subseteq> F' \<and> mem_stack G [] r F' st' r' (xs @ ys))"
    by (rule epilogue_gwp [OF assms(2)]) (use assms(3,4) in \<open>simp_all add: facts_words mstk_words_def\<close>)
  from gwp_run [OF p assms(1)] show ?thesis
    unfolding mem_runs_def mem_stack_def by metis
qed

theorem block_epilogue_correct_witness:
  "mem_runs example_host sample_globals (sample_gen [VConst 256 7, VConst 8 1]) [] (sample_stack 1) block_epilogue [0, 7, 1]
     (\<lambda>_ g' _. h_stack g' = [])"
proof -
  let ?g = "sample_gen [VConst 256 7, VConst 8 1]"
  have 1: "length ([] :: int list) = length (h_code ?g)" "h_stack ?g = [VConst 256 7, VConst 8 1]" by (simp_all add: sample_gen_def)
  have 2: "stack_at sample_globals [0] (mem_of (sample_stack 1))" using sample_stack_at [of 1] by simp
  have "den sample_globals ?g [] (VConst 256 7) (TInt 256) 7" "den sample_globals ?g [] (VConst 8 1) (TInt 8) 1"
    by (simp_all add: sample_den)
  then have 3: "stands sample_globals ?g [] (h_stack ?g) [7, 1]"
    unfolding stands_def 1(2) by (auto intro: exI [of _ 256] exI [of _ 8])
  from block_epilogue_correct [OF 1(1) 2 3, of example_host] show ?thesis by simp
qed

end
