(* ===== verification/Driver.thy ===== *)
theory Driver
  imports Dry_Run Block_Borders
begin

text \<open>
  The driver of the code generator: WASMCompiler::compileMain, which translates the blocks in the
  order of a worklist over the control flow graph and then those the worklist did not reach,
  and resolveJumps, which replaces jumps with a known destination and connects the blocks.
  The translation of the instructions of one block, which theories Codegen and Host\_Codegen
  model instruction by instruction, is an argument here: nothing below depends on it. All
  blocks belong to one function, so the emitted instructions are numbered through, in the
  order in which they are emitted, and a block is a range of them.
\<close>

section \<open>Compiling the blocks\<close>

record cblock =
  cb_idx :: nat
  cb_lo :: nat
  cb_hi :: nat
  cb_term :: "hterm option"
  cb_dest :: "val option"

text \<open>Whether the operands of a block are taken from the registers of the block before it.\<close>

definition takes_over :: "byte list \<Rightarrow> BasicBlock list \<Rightarrow> cfg \<Rightarrow> nat \<Rightarrow> bool" where
  "takes_over code blocks cfg i \<longleftrightarrow>
     code ! bb_begin (blocks ! i) \<noteq> I_JUMPDEST
     \<or> (length (bbs_from cfg i) = 1 \<and> code ! bb_begin (blocks ! (bbs_from cfg i ! 0)) = I_JUMPI)"

definition fresh_block :: "unit cg" where
  "fresh_block = modifyE (\<lambda>g. g\<lparr>h_stack := [], h_term := None, h_dest := None\<rparr>)"

text \<open>One block: the code in front of it, its instructions, and the code behind it; the result has the registers it ends with.\<close>

definition compile_one :: "unit cg \<Rightarrow> unit cg \<Rightarrow> nat \<Rightarrow> (val list \<times> cblock) cg" where
  "compile_one prologue body i =
     seqE fresh_block
     (bindE (getE (\<lambda>g. length (h_code g))) (\<lambda>lo.
      seqE prologue
      (seqE body
      (bindE (getE h_stack) (\<lambda>view.
       seqE block_epilogue
       (bindE (getE (\<lambda>g. \<lparr>cb_idx = i, cb_lo = lo, cb_hi = length (h_code g), cb_term = h_term g, cb_dest = h_dest g\<rparr>))
          (\<lambda>cb. returnE (view, cb))))))))"

lemma card_visit_block:
  assumes "Some i \<notin> vis" "i < (n :: nat)"
  shows "card (insert None (Some ` {..<n}) - insert (Some i) vis) < card (insert None (Some ` {..<n}) - vis)"
  by (rule psubset_card_mono) (use assms in auto)

lemma card_visit_null:
  assumes "None \<notin> vis"
  shows "card (Some ` {..<n :: nat} - vis) < card (insert None (Some ` {..<n}) - vis)"
  by (rule psubset_card_mono) (use assms in auto)

text \<open>
  The loop over waitingBlocks. \<open>None\<close> is a null pointer, the target of a jump to an invalid
  destination; an index outside the vector, which the graph does not contain, is dropped.
\<close>

function compile_queue ::
  "byte list \<Rightarrow> BasicBlock list \<Rightarrow> cfg \<Rightarrow> (nat \<Rightarrow> unit cg) \<Rightarrow> (nat option \<times> val list) list \<Rightarrow> nat option set \<Rightarrow>
   cblock list \<Rightarrow> (nat option set \<times> cblock list) cg" where
  "compile_queue code blocks cfg body q visited out g =
     (case q of
        [] \<Rightarrow> (Inr (visited, out), g)
      | (pbb, pstack) # q' \<Rightarrow>
          if pbb \<in> visited then compile_queue code blocks cfg body q' visited out g
          else
            (case pbb of
               None \<Rightarrow> compile_queue code blocks cfg body q' (insert None visited) out g
             | Some i \<Rightarrow>
                 if length blocks \<le> i then compile_queue code blocks cfg body q' visited out g
                 else
                   (case compile_one (block_prologue (takes_over code blocks cfg i) (stk_in (blocks ! i)) pstack) (body i) i g of
                      (Inl e, g') \<Rightarrow> (Inl e, g')
                    | (Inr (view, cb), g') \<Rightarrow>
                        compile_queue code blocks cfg body (q' @ map (\<lambda>t. (t, view)) (bbs_to cfg i))
                          (insert (Some i) visited) (out @ [cb]) g')))"
  by pat_completeness auto
termination
  by (relation "measures [\<lambda>(code, blocks, cfg, body, q, visited, out, g). card (insert None (Some ` {..<length blocks}) - visited),
                          \<lambda>(code, blocks, cfg, body, q, visited, out, g). length q]")
     (auto simp: card_visit_block card_visit_null not_le simp del: card_Diff_insert)

declare compile_queue.simps [simp del]

text \<open>The blocks the worklist did not reach, in the order of the code.\<close>

fun compile_rest :: "BasicBlock list \<Rightarrow> (nat \<Rightarrow> unit cg) \<Rightarrow> nat option set \<Rightarrow> nat list \<Rightarrow> cblock list cg" where
  "compile_rest blocks body visited [] = returnE []"
| "compile_rest blocks body visited (i # is) =
     (if Some i \<in> visited then compile_rest blocks body visited is
      else
        bindE (compile_one (unvisited_prologue (stk_in (blocks ! i))) (body i) i) (\<lambda>(_, cb).
        bindE (compile_rest blocks body visited is) (\<lambda>cbs. returnE (cb # cbs))))"

definition compile_blocks :: "byte list \<Rightarrow> BasicBlock list \<Rightarrow> cfg \<Rightarrow> (nat \<Rightarrow> unit cg) \<Rightarrow> cblock list cg" where
  "compile_blocks code blocks cfg body =
     bindE (compile_queue code blocks cfg body [(Some 0, [])] {} []) (\<lambda>(visited, out).
     bindE (compile_rest blocks body visited [0..<length blocks]) (\<lambda>rest.
     returnE (out @ rest)))"

section \<open>Connecting the blocks\<close>

text \<open>
  The blocks of the function, in its order: the entry, the blocks of the code, and four more.
  The terminators of the blocks after resolveJumps.
\<close>

datatype label = MainEntry | BB nat | Test | JumpTable | Abort | Exit

datatype rterm = RBr label | RCondBr val label label | RSwitch | RUnreachable

definition label_of :: "string \<Rightarrow> label" where
  "label_of s = (if s = ''jumpTable'' then JumpTable else Exit)"

definition next_label :: "nat \<Rightarrow> nat \<Rightarrow> label" where
  "next_label n i = (if Suc i < n then BB (Suc i) else Test)"

text \<open>The cases of the switch, one per compiled block that starts with a JUMPDEST, in the order of the translation.\<close>

definition jump_cases :: "byte list \<Rightarrow> BasicBlock list \<Rightarrow> cblock list \<Rightarrow> (nat \<times> nat) list" where
  "jump_cases code blocks out =
     map (\<lambda>i. (firstInstrIdx (blocks ! i), i)) (filter (\<lambda>i. code ! bb_begin (blocks ! i) = I_JUMPDEST) (map cb_idx out))"

definition switch_to :: "(nat \<times> nat) list \<Rightarrow> int \<Rightarrow> label" where
  "switch_to cases d = (if d < 0 then Abort else case map_of cases (nat d) of Some j \<Rightarrow> BB j | None \<Rightarrow> Abort)"

text \<open>The last store to the global target in the range of a block; resolveJumps erases it when the destination is known.\<close>

definition stores_target :: "inst \<Rightarrow> bool" where
  "stores_target i = (case i of IStore _ _ (VGlobal name _) \<Rightarrow> name = ''target'' | _ \<Rightarrow> False)"

definition target_store :: "(inst \<times> lty) list \<Rightarrow> cblock \<Rightarrow> nat option" where
  "target_store ins cb =
     find (\<lambda>k. stores_target (fst (ins ! k))) (rev [cb_lo cb..<cb_hi cb])"

record rblock =
  rb_term :: rterm
  rb_erased :: "nat option"

text \<open>A jump to the jump table: the first successor becomes the block a constant destination selects.\<close>

definition resolve_jump :: "(nat \<times> nat) list \<Rightarrow> (inst \<times> lty) list \<Rightarrow> cblock \<Rightarrow> label \<times> nat option" where
  "resolve_jump cases ins cb =
     (case cb_dest cb of
        Some (VConst w d) \<Rightarrow> (if w = 256 then switch_to cases d else Abort, target_store ins cb)
      | _ \<Rightarrow> (JumpTable, None))"

definition resolve_block :: "nat \<Rightarrow> (nat \<times> nat) list \<Rightarrow> (inst \<times> lty) list \<Rightarrow> cblock \<Rightarrow> rblock" where
  "resolve_block n cases ins cb =
     (let nxt = next_label n (cb_idx cb) in
      case cb_term cb of
        None \<Rightarrow> \<lparr>rb_term = RBr nxt, rb_erased = None\<rparr>
      | Some TUnreachable \<Rightarrow> \<lparr>rb_term = RUnreachable, rb_erased = None\<rparr>
      | Some (TBr l) \<Rightarrow>
          if label_of l = JumpTable
          then (let (t, e) = resolve_jump cases ins cb in \<lparr>rb_term = RBr t, rb_erased = e\<rparr>)
          else \<lparr>rb_term = RBr (label_of l), rb_erased = None\<rparr>
      | Some (TCondBr c l l') \<Rightarrow>
          if label_of l = JumpTable
          then (let (t, e) = resolve_jump cases ins cb in \<lparr>rb_term = RCondBr c t nxt, rb_erased = e\<rparr>)
          else \<lparr>rb_term = RCondBr c (label_of l) (label_of l'), rb_erased = None\<rparr>)"

text \<open>The terminators of the function; the loop of resolveJumps also reaches the empty block Test, which is followed by JumpTable.\<close>

definition resolveJumps :: "nat \<Rightarrow> (nat \<times> nat) list \<Rightarrow> (inst \<times> lty) list \<Rightarrow> cblock list \<Rightarrow> label \<Rightarrow> rterm option" where
  "resolveJumps n cases ins out l =
     (case l of
        MainEntry \<Rightarrow> Some (RBr (if 0 < n then BB 0 else Test))
      | BB i \<Rightarrow> map_option (\<lambda>cb. rb_term (resolve_block n cases ins cb)) (find (\<lambda>cb. cb_idx cb = i) out)
      | Test \<Rightarrow> Some (RBr JumpTable)
      | JumpTable \<Rightarrow> Some RSwitch
      | Abort \<Rightarrow> Some (RBr Exit)
      | Exit \<Rightarrow> Some RUnreachable)"

text \<open>The code of the last two blocks.\<close>

definition exit_code :: "unit cg" where
  "exit_code =
     bindE (createAlloca 256) (\<lambda>adr.
     bindE (createBitCastPtr 8 adr) (\<lambda>p.
     seqE (createCall Func_finish [p, VConst 32 0]) (setTerm TUnreachable)))"

definition abort_code :: "unit cg" where
  "abort_code =
     bindE (createAlloca 256) (\<lambda>addr.
     bindE (createBitCastPtr 8 addr) (\<lambda>p.
     seqE (createCall Func_revert [p, VConst 32 0]) (setTerm (TBr ''exit''))))"

text \<open>Where control goes from a terminator, given the value of the condition and the word at target.\<close>

definition transfer :: "(nat \<times> nat) list \<Rightarrow> bool \<Rightarrow> int \<Rightarrow> rterm \<Rightarrow> label option" where
  "transfer cases cond target t =
     (case t of
        RBr l \<Rightarrow> Some l
      | RCondBr _ l1 l2 \<Rightarrow> Some (if cond then l1 else l2)
      | RSwitch \<Rightarrow> Some (switch_to cases target)
      | RUnreachable \<Rightarrow> None)"

text \<open>Passing through the two blocks without effect.\<close>

definition arrive :: "(nat \<times> nat) list \<Rightarrow> int \<Rightarrow> label \<Rightarrow> label" where
  "arrive cases target l = (if l = Test \<or> l = JumpTable then switch_to cases target else l)"

section \<open>Every block is compiled once\<close>

lemma queue_nil: "compile_queue code blocks cfg body [] visited out g = (Inr (visited, out), g)"
  by (subst compile_queue.simps) simp

lemma queue_skip:
  "pbb \<in> visited \<Longrightarrow> compile_queue code blocks cfg body ((pbb, st) # q) visited out g = compile_queue code blocks cfg body q visited out g"
  by (subst compile_queue.simps) simp

lemma queue_null:
  "None \<notin> visited \<Longrightarrow> compile_queue code blocks cfg body ((None, st) # q) visited out g
     = compile_queue code blocks cfg body q (insert None visited) out g"
  by (subst compile_queue.simps) simp

lemma queue_block:
  "Some i \<notin> visited \<Longrightarrow> compile_queue code blocks cfg body ((Some i, st) # q) visited out g =
     (if length blocks \<le> i then compile_queue code blocks cfg body q visited out g
      else case compile_one (block_prologue (takes_over code blocks cfg i) (stk_in (blocks ! i)) st) (body i) i g of
             (Inl e, g') \<Rightarrow> (Inl e, g')
           | (Inr (view, cb), g') \<Rightarrow> compile_queue code blocks cfg body (q @ map (\<lambda>t. (t, view)) (bbs_to cfg i))
                (insert (Some i) visited) (out @ [cb]) g')"
  by (subst compile_queue.simps) simp

lemma compile_one_idx: "compile_one p m i g = (Inr (view, cb), g') \<Longrightarrow> cb_idx cb = i"
  by (auto simp: compile_one_def bindE_def seqE_def getE_def returnE_def split: prod.splits sum.splits)

text \<open>What holds whenever the loop is entered: the visited blocks are the compiled ones, and the queue leads to every edge that is open.\<close>

definition drive_inv :: "BasicBlock list \<Rightarrow> cfg \<Rightarrow> nat option set \<Rightarrow> nat option set \<Rightarrow> cblock list \<Rightarrow> bool" where
  "drive_inv blocks cfg todo visited out \<longleftrightarrow>
     distinct (map cb_idx out) \<and> set (map cb_idx out) \<subseteq> {..<length blocks}
     \<and> Some ` set (map cb_idx out) = visited - {None}
     \<and> (\<forall>i \<in> set (map cb_idx out). set (bbs_to cfg i) \<subseteq> visited \<union> todo)"

definition edges_inside :: "BasicBlock list \<Rightarrow> cfg \<Rightarrow> bool" where
  "edges_inside blocks cfg \<longleftrightarrow> (\<forall>i j. Some j \<in> set (bbs_to cfg i) \<longrightarrow> j < length blocks)"

inductive_set reach :: "cfg \<Rightarrow> nat set" for cfg where
  start: "0 \<in> reach cfg"
| edge: "i \<in> reach cfg \<Longrightarrow> Some j \<in> set (bbs_to cfg i) \<Longrightarrow> j \<in> reach cfg"

lemma drive_inv_step:
  assumes "drive_inv blocks cfg (insert (Some i) todo) visited out" "Some i \<notin> visited" "i < length blocks" "cb_idx cb = i"
  shows "drive_inv blocks cfg (todo \<union> set (bbs_to cfg i)) (insert (Some i) visited) (out @ [cb])"
  using assms unfolding drive_inv_def by (auto simp: image_iff)

lemma queue_inv:
  "compile_queue code blocks cfg body q visited out g = (Inr (visited', out'), g') \<Longrightarrow> edges_inside blocks cfg \<Longrightarrow>
   drive_inv blocks cfg (fst ` set q) visited out \<Longrightarrow> (\<forall>j. Some j \<in> fst ` set q \<longrightarrow> j < length blocks \<and> j \<in> reach cfg) \<Longrightarrow>
   set (map cb_idx out) \<subseteq> reach cfg \<Longrightarrow>
   drive_inv blocks cfg {} visited' out' \<and> visited \<union> fst ` set q \<subseteq> visited' \<and> set (map cb_idx out') \<subseteq> reach cfg"
proof (induction code blocks cfg body q visited out g rule: compile_queue.induct)
  case (1 code blocks cfg body q visited out g)
  show ?case
  proof (cases q)
    case Nil
    then show ?thesis using "1.prems" by (auto simp: queue_nil)
  next
    case (Cons e q')
    obtain pbb st where e: "e = (pbb, st)" by (cases e)
    show ?thesis
    proof (cases "pbb \<in> visited")
      case True
      have "drive_inv blocks cfg (fst ` set q') visited out"
        using "1.prems"(3) True Cons e by (auto simp: drive_inv_def)
      with "1.IH"(1) [OF Cons e [symmetric] True] "1.prems" True Cons e show ?thesis by (auto simp: queue_skip)
    next
      case new: False
      show ?thesis
      proof (cases pbb)
        case None
        have "drive_inv blocks cfg (fst ` set q') (insert None visited) out"
          using "1.prems"(3) new Cons e None by (auto simp: drive_inv_def)
        with "1.IH"(2) [OF Cons e [symmetric] new None] "1.prems" new Cons e None show ?thesis by (auto simp: queue_null)
      next
        case (Some i)
        have i: "i < length blocks" "i \<in> reach cfg" using "1.prems"(4) Cons e Some by auto
        obtain view cb g1 where c: "compile_one (block_prologue (takes_over code blocks cfg i) (stk_in (blocks ! i)) st) (body i) i g = (Inr (view, cb), g1)"
          and run: "compile_queue code blocks cfg body (q' @ map (\<lambda>t. (t, view)) (bbs_to cfg i)) (insert (Some i) visited) (out @ [cb]) g1
              = (Inr (visited', out'), g')"
          using "1.prems"(1) new Cons e Some i by (auto simp: queue_block split: prod.splits sum.splits)
        let ?q = "q' @ map (\<lambda>t. (t, view)) (bbs_to cfg i)"
        have idx: "cb_idx cb = i" by (rule compile_one_idx [OF c])
        have todo: "fst ` set ?q = fst ` set q' \<union> set (bbs_to cfg i)" by force
        have "drive_inv blocks cfg (fst ` set ?q) (insert (Some i) visited) (out @ [cb])"
          unfolding todo using "1.prems"(3) new Some i(1) idx Cons e by (intro drive_inv_step) auto
        moreover have "\<forall>j. Some j \<in> fst ` set ?q \<longrightarrow> j < length blocks \<and> j \<in> reach cfg"
          unfolding todo using "1.prems"(2,4) Cons i(2) by (auto simp: edges_inside_def intro: reach.edge)
        moreover have "set (map cb_idx (out @ [cb])) \<subseteq> reach cfg" using "1.prems"(5) idx i(2) by simp
        ultimately have "drive_inv blocks cfg {} visited' out' \<and> insert (Some i) visited \<union> fst ` set ?q \<subseteq> visited' \<and> set (map cb_idx out') \<subseteq> reach cfg"
          using "1.IH"(4) [OF Cons e [symmetric] new Some _ c [symmetric] refl refl run "1.prems"(2)] i(1) by simp
        then show ?thesis using Cons e Some todo by auto
      qed
    qed
  qed
qed

lemma rest_idx:
  "compile_rest blocks body visited is g = (Inr cbs, g') \<Longrightarrow> map cb_idx cbs = filter (\<lambda>i. Some i \<notin> visited) is"
proof (induction "is" arbitrary: g cbs)
  case (Cons i "is")
  show ?case
  proof (cases "Some i \<in> visited")
    case False
    with Cons.prems obtain view cb g1 cbs' where "compile_one (unvisited_prologue (stk_in (blocks ! i))) (body i) i g = (Inr (view, cb), g1)"
      "compile_rest blocks body visited is g1 = (Inr cbs', g')" "cbs = cb # cbs'"
      by (auto simp: bindE_def returnE_def split: prod.splits sum.splits)
    with Cons.IH [of g1 cbs'] False show ?thesis by (auto dest: compile_one_idx)
  qed (use Cons in auto)
qed (simp add: returnE_def)

lemma dry_run_cfg:
  assumes "dry_run code blocks = Some (vis, cfg)"
  shows "cfg_inv code blocks vis cfg" "blocks \<noteq> []"
proof -
  let ?g0 = "\<lparr>bbs_to = (\<lambda>_. []), bbs_from = (\<lambda>_. [])\<rparr> :: cfg"
  show ne: "blocks \<noteq> []" using assms by (auto simp: dry_run_def)
  have run: "dry_run_loop code blocks [(0, [])] {} ?g0 = (vis, cfg)" using assms ne by (simp add: dry_run_def)
  have "cfg_inv code blocks {} ?g0" "frontier {} ?g0 (fst ` set [(0, [])])" by (simp_all add: cfg_inv_def frontier_def)
  from dry_loop_inv [OF this _ run] ne show "cfg_inv code blocks vis cfg" by auto
qed

lemma dry_run_edges: "dry_run code blocks = Some (vis, cfg) \<Longrightarrow> edges_inside blocks cfg"
  using dry_run_cfg(1) [of code blocks vis cfg] by (force simp: cfg_inv_def edges_inside_def edge_ok_def)

lemma compile_blocks_parts:
  assumes "dry_run code blocks = Some (vis, cfg)" "compile_blocks code blocks cfg body g = (Inr out, g')"
  obtains visited out1 rest where "out = out1 @ rest" "drive_inv blocks cfg {} visited out1" "Some 0 \<in> visited"
    "set (map cb_idx out1) \<subseteq> reach cfg" "map cb_idx rest = filter (\<lambda>i. Some i \<notin> visited) [0..<length blocks]"
proof -
  from assms(2) obtain visited out1 g1 rest where
    q: "compile_queue code blocks cfg body [(Some 0, [])] {} [] g = (Inr (visited, out1), g1)"
    and r: "compile_rest blocks body visited [0..<length blocks] g1 = (Inr rest, g')" and out: "out = out1 @ rest"
    by (auto simp: compile_blocks_def bindE_def returnE_def split: prod.splits sum.splits)
  have "drive_inv blocks cfg (fst ` set [(Some 0, [])]) {} []" by (simp add: drive_inv_def)
  with queue_inv [OF q dry_run_edges [OF assms(1)]] dry_run_cfg(2) [OF assms(1)] reach.start
  have "drive_inv blocks cfg {} visited out1" "Some 0 \<in> visited" "set (map cb_idx out1) \<subseteq> reach cfg" by auto
  with out rest_idx [OF r] show thesis by (intro that)
qed

lemma compile_blocks_all:
  assumes "dry_run code blocks = Some (vis, cfg)" "compile_blocks code blocks cfg body g = (Inr out, g')"
  shows "distinct (map cb_idx out) \<and> set (map cb_idx out) = {..<length blocks}"
proof -
  obtain visited out1 rest where p: "out = out1 @ rest" "drive_inv blocks cfg {} visited out1"
    "map cb_idx rest = filter (\<lambda>i. Some i \<notin> visited) [0..<length blocks]"
    using compile_blocks_parts [OF assms] by metis
  have v: "Some i \<in> visited \<longleftrightarrow> i \<in> set (map cb_idx out1)" for i
  proof -
    have "Some ` set (map cb_idx out1) = visited - {None}" using p(2) unfolding drive_inv_def by blast
    then have "Some i \<in> visited \<longleftrightarrow> Some i \<in> Some ` set (map cb_idx out1)" by simp
    then show ?thesis by blast
  qed
  have "set (map cb_idx rest) = {..<length blocks} - set (map cb_idx out1)" "distinct (map cb_idx rest)"
    unfolding p(3) using v by auto
  then show ?thesis using p(1,2) by (auto simp: drive_inv_def)
qed

section \<open>Blocks follow one another\<close>

text \<open>The last instruction of each block ends the flow, or the next block starts right behind it.\<close>

fun chained :: "byte list \<Rightarrow> BasicBlock list \<Rightarrow> bool" where
  "chained code [] = True"
| "chained code (b # bs) =
     ((\<exists>t \<in> set (instrs code 0 (length code)). bb_begin b \<le> t \<and> skipPushDataAndGetNext code t (length code) = bb_end b
        \<and> (endsFlow (code ! t) \<or> bb_end b = length code \<or> bs \<noteq> [] \<and> bb_begin (hd bs) = bb_end b))
      \<and> chained code bs)"

lemma blocks_chained:
  assumes "cur = length code \<or> cur \<in> set (instrs code 0 (length code))"
    and "\<not> isDead \<longrightarrow> openRun code blk cur"
  shows "chained code (blocksFrom code cur isDead blk)
    \<and> (\<not> isDead \<and> cur < length code \<longrightarrow> blocksFrom code cur isDead blk \<noteq> [] \<and> bb_begin (hd (blocksFrom code cur isDead blk)) = blk)"
  using assms
proof (induction cur isDead blk rule: blocks_induct [where code = code and e = "length code"])
  case (Fin cur isDead blk)
  then show ?case by (simp add: createBlocks_done)
next
  case (Skip cur blk)
  then show ?case using next_boundary [of cur code] by (auto simp: createBlocks_skip)
next
  case (Close cur isDead blk)
  then have cur: "cur \<in> set (instrs code 0 (length code))" by auto
  let ?n = "skipPushDataAndGetNext code cur (length code)"
  note st = openRun_start [OF cur Close.prems(2) Close.hyps(2) refl]
  have IH: "chained code (blocksFrom code ?n (endsFlow (code ! cur)) ?n)"
    "\<not> endsFlow (code ! cur) \<and> ?n < length code \<longrightarrow>
       blocksFrom code ?n (endsFlow (code ! cur)) ?n \<noteq> [] \<and> bb_begin (hd (blocksFrom code ?n (endsFlow (code ! cur)) ?n)) = ?n"
    using Close.IH next_boundary [OF cur] by (simp_all add: openRun_def)
  have le: "?n \<le> length code" using getNext_le [OF Close.hyps(1), of code] .
  have b: "(if isDead then cur else blk) \<le> cur" using st(1) .
  show ?case
    unfolding createBlocks_close' [OF Close.hyps, of blk] Let_def chained.simps bb_mk
    using IH cur le b by (auto intro!: bexI [of _ cur])
next
  case (Open cur isDead blk)
  then have cur: "cur \<in> set (instrs code 0 (length code))" by auto
  let ?n = "skipPushDataAndGetNext code cur (length code)"
  note ext = openRun_extend [OF cur Open.prems(2) Open.hyps(2,3)]
  have "?n < length code"
    using Open.hyps(3) getNext_le [OF Open.hyps(1), of code] by (auto simp: closesBlock_def)
  then show ?case
    using Open.IH next_boundary [OF cur] ext createBlocks_open [OF Open.hyps, of blk "[]"] by auto
qed

lemma chained_nth:
  assumes "chained code bs" "i < length bs"
  shows "\<exists>t \<in> set (instrs code 0 (length code)). bb_begin (bs ! i) \<le> t
    \<and> skipPushDataAndGetNext code t (length code) = bb_end (bs ! i)
    \<and> (endsFlow (code ! t) \<or> bb_end (bs ! i) = length code \<or> Suc i < length bs \<and> bb_begin (bs ! Suc i) = bb_end (bs ! i))"
  using assms
proof (induction bs arbitrary: i)
  case (Cons b bs)
  show ?case
  proof (cases i)
    case 0
    with Cons.prems show ?thesis by (auto simp: hd_conv_nth)
  next
    case (Suc k)
    with Cons show ?thesis by auto
  qed
qed simp

section \<open>The cases of the jump table\<close>

lemma created_blocks:
  "b \<in> set (createBasicBlocks code) \<Longrightarrow> wf_block code b" "ordered_blocks (createBasicBlocks code)"
  using blocks_wf [OF start_boundary [of code], of False 0] by (auto simp: createBasicBlocks_def openRun_def)

lemma created_jumpdests:
  "bb_begin ` {b \<in> set (createBasicBlocks code). code ! bb_begin b = I_JUMPDEST} = validJumpdests code"
  using blocks_jumpdests [OF start_boundary [of code], of False 0]
  by (simp add: createBasicBlocks_def openRun_def validJumpdests_def)

lemma created_chained: "chained code (createBasicBlocks code)"
  using blocks_chained [OF start_boundary [of code], of False 0] by (simp add: createBasicBlocks_def openRun_def)

lemma ordered_sorted:
  "ordered_blocks bs \<Longrightarrow> \<forall>b \<in> set bs. bb_begin b < bb_end b \<Longrightarrow> sorted_wrt (\<lambda>a b. bb_begin a < bb_begin b) bs"
proof (induction bs rule: ordered_blocks.induct)
  case (3 b c bs)
  then have "sorted_wrt (\<lambda>a b. bb_begin a < bb_begin b) (c # bs)" "bb_begin b < bb_begin c" by auto
  then show ?case by auto
qed simp_all

lemma created_inj:
  assumes "i < length (createBasicBlocks code)" "j < length (createBasicBlocks code)"
    and "firstInstrIdx (createBasicBlocks code ! i) = firstInstrIdx (createBasicBlocks code ! j)"
  shows "i = j"
proof (rule ccontr)
  let ?bs = "createBasicBlocks code"
  assume "i \<noteq> j"
  have "sorted_wrt (\<lambda>a b. bb_begin a < bb_begin b) ?bs"
    using created_blocks by (intro ordered_sorted) (auto simp: wf_block_def)
  then have "bb_begin (?bs ! i) \<noteq> bb_begin (?bs ! j)"
    using assms(1,2) \<open>i \<noteq> j\<close> sorted_wrt_nth_less by (metis less_irrefl linorder_neqE_nat)
  then show False using assms created_blocks(1) nth_mem by (metis wf_block_def)
qed

lemma case_lookup:
  assumes "distinct (map cb_idx out)" "set (map cb_idx out) = {..<length (createBasicBlocks code)}"
  defines "bs \<equiv> createBasicBlocks code"
  shows "map_of (jump_cases code bs out) p = Some j \<longleftrightarrow>
    j < length bs \<and> firstInstrIdx (bs ! j) = p \<and> code ! bb_begin (bs ! j) = I_JUMPDEST"
proof -
  have "distinct (map fst (jump_cases code bs out))"
    unfolding jump_cases_def map_map o_def fst_conv
    using assms(1,2) created_inj unfolding bs_def by (subst distinct_map) (auto simp: inj_on_def)
  then have "map_of (jump_cases code bs out) p = Some j \<longleftrightarrow> (p, j) \<in> set (jump_cases code bs out)"
    by (rule map_of_eq_Some_iff)
  also have "\<dots> \<longleftrightarrow> j \<in> set (map cb_idx out) \<and> firstInstrIdx (bs ! j) = p \<and> code ! bb_begin (bs ! j) = I_JUMPDEST"
    by (auto simp: jump_cases_def)
  finally show ?thesis using assms(2) by (simp add: bs_def)
qed

text \<open>Where the EVM continues after a jump to \<open>d\<close>: at the block of that JUMPDEST, or not at all.\<close>

definition evm_destination :: "byte list \<Rightarrow> int \<Rightarrow> label \<Rightarrow> bool" where
  "evm_destination code d l \<longleftrightarrow>
     (if 0 \<le> d \<and> nat d \<in> validJumpdests code
      then \<exists>j < length (createBasicBlocks code). l = BB j \<and> bb_begin (createBasicBlocks code ! j) = nat d
      else l = Abort)"

lemma switch_destination:
  assumes "distinct (map cb_idx out)" "set (map cb_idx out) = {..<length (createBasicBlocks code)}"
  shows "evm_destination code d (switch_to (jump_cases code (createBasicBlocks code) out) d)"
proof (cases "d < 0")
  case True
  then show ?thesis by (simp add: evm_destination_def switch_to_def)
next
  case False
  let ?bs = "createBasicBlocks code" and ?c = "jump_cases code (createBasicBlocks code) out"
  note look = case_lookup [OF assms, of "nat d"]
  have f: "firstInstrIdx (?bs ! j) = bb_begin (?bs ! j)" if "j < length ?bs" for j
    using created_blocks(1) nth_mem [OF that] by (metis wf_block_def)
  show ?thesis
  proof (cases "map_of ?c (nat d)")
    case None
    have "nat d \<notin> validJumpdests code"
    proof
      assume "nat d \<in> validJumpdests code"
      then obtain j where "j < length ?bs" "bb_begin (?bs ! j) = nat d" "code ! bb_begin (?bs ! j) = I_JUMPDEST"
        unfolding created_jumpdests [symmetric] by (auto simp: in_set_conv_nth)
      with look [of j] f None show False by simp
    qed
    then show ?thesis using False None by (simp add: evm_destination_def switch_to_def)
  next
    case (Some j)
    with look [of j] f have j: "j < length ?bs" "bb_begin (?bs ! j) = nat d" "code ! bb_begin (?bs ! j) = I_JUMPDEST" by auto
    then have "nat d \<in> validJumpdests code" unfolding created_jumpdests [symmetric] by (metis (mono_tags, lifting) imageI mem_Collect_eq nth_mem)
    then show ?thesis using False Some j by (auto simp: evm_destination_def switch_to_def)
  qed
qed

section \<open>The two blocks that end the contract\<close>

lemma gth_empty_end:
  assumes call: "module_calls H G (d_name d) [uint (stack_slot 256 (rt_sp r)), 0] (r\<lparr>rt_sp := stack_slot 256 (rt_sp r)\<rparr>) = (Inl e, r')"
    and d: "d_params d = [Int8PtrTy, Int32Ty]"
  shows "gth H G {(VConst 32 0, TInt 32, 0)} st r (bindE (createAlloca 256) (\<lambda>adr. bindE (createBitCastPtr 8 adr) (\<lambda>p.
    seqE (createCall d [p, VConst 32 0]) (setTerm t)))) e r'"
  unfolding seqE_def
  apply (rule gth_bind, rule gwp_alloca)
  apply (rule gth_bind, rule gwp_bitcast_reg, (rule known)+, simp)
  apply (rule gth_call, (rule known_args)+)
    apply (simp add: d)
   apply (use call in simp)
  by (simp add: setTerm_def modifyE_def)

text \<open>Exit ends the contract without a return value, Abort reverts without one.\<close>

theorem exit_abort_end:
  assumes env: "length env = length (h_code g)" and room: "stack_room 32 r"
    and m: "(m, flag) = (exit_code, False) \<or> (m, flag) = (abort_code, True)"
  shows "gen_throws H G m g env r EndExecution
    (r\<lparr>rt_sp := stack_slot 256 (rt_sp r), rt_iface := (rt_iface r)\<lparr>m_result := (m_result (rt_iface r))\<lparr>returnValue := [], isRevert := flag\<rparr>\<rparr>\<rparr>)"
    (is "gen_throws H G m g env r EndExecution ?r")
proof -
  let ?p = "stack_slot 256 (rt_sp r)"
  have p: "unat ?p = unat (rt_sp r) - 32" using room slot_unat [of 256 "rt_sp r"] by (simp add: stack_room_def)
  have b: "mem_bound (rt_iface r)" using room by (simp add: mem_bound_def stack_room_def mem_of_def)
  have "unat (rt_sp r) < 2 ^ 32" using unsigned_less [of "rt_sp r", where ?'a = nat] by simp
  then have "eeiRevertOrFinish flag ?p 0 (rt_iface r) =
      (Inl EndExecution, (rt_iface r)\<lparr>m_result := (m_result (rt_iface r))\<lparr>returnValue := [], isRevert := flag\<rparr>\<rparr>)"
    using eeiRevertOrFinish_eq [OF b, of flag ?p 0] room
    by (auto simp: in_memory_def p stack_room_def mem_of_def segment_def)
  moreover have "d_params Func_finish = [Int8PtrTy, Int32Ty]" "d_params Func_revert = [Int8PtrTy, Int32Ty]"
    by (simp_all add: Func_finish_def Func_revert_def)
  ultimately have "gth H G {(VConst 32 0, TInt 32, 0)} (h_stack g) r m EndExecution ?r"
    using m by (auto simp: exit_code_def abort_code_def end_calls intro!: gth_empty_end)
  then show ?thesis using env by (auto simp: gth_def knows_def den_def val_type_def vval_def)
qed

section \<open>Properties\<close>

text \<open>
  C8: Every block is translated exactly once. When compileMain gets through all blocks, the
  translated blocks are the blocks of the code without repetition, and the worklist alone, which
  comes first, translates exactly those the graph of the dry run connects with the first block.
\<close>

theorem compile_blocks_once:
  assumes "dry_run code blocks = Some (vis, cfg)" "compile_blocks code blocks cfg body g = (Inr out, g')"
  shows "distinct (map cb_idx out) \<and> set (map cb_idx out) = {..<length blocks}
    \<and> (\<exists>k. set (map cb_idx (take k out)) = reach cfg)"
proof -
  obtain visited out1 rest where p: "out = out1 @ rest" "drive_inv blocks cfg {} visited out1" "Some 0 \<in> visited"
    "set (map cb_idx out1) \<subseteq> reach cfg"
    using compile_blocks_parts [OF assms] by metis
  have v: "i \<in> set (map cb_idx out1)" if "Some i \<in> visited" for i
  proof -
    have "Some ` set (map cb_idx out1) = visited - {None}" using p(2) unfolding drive_inv_def by blast
    then have "Some i \<in> Some ` set (map cb_idx out1)" using that by simp
    then show ?thesis by blast
  qed
  have "reach cfg \<subseteq> set (map cb_idx out1)"
  proof
    fix i assume "i \<in> reach cfg"
    then show "i \<in> set (map cb_idx out1)"
    proof induction
      case start
      show ?case using v p(3) by blast
    next
      case (edge i j)
      then have "Some j \<in> visited" using p(2) by (auto simp: drive_inv_def)
      then show ?case by (rule v)
    qed
  qed
  with p(4) have "set (map cb_idx (take (length out1) out)) = reach cfg" using p(1) by simp
  then show ?thesis using compile_blocks_all [OF assms] by blast
qed

text \<open>
  C7: Jumps. A block that ends with a jump to \<open>d\<close>, known to the translator or stored in target when
  the block runs, continues at the block that starts with the JUMPDEST at \<open>d\<close>, and at the block
  that reverts when there is no JUMPDEST instruction at \<open>d\<close>. A conditional jump does the same when
  its condition holds and goes on with the next block otherwise.
\<close>

theorem jump_reaches_destination:
  assumes "dry_run code (createBasicBlocks code) = Some (vis, cfg)"
    and "compile_blocks code (createBasicBlocks code) cfg body g = (Inr out, g')"
    and "cb \<in> set out" "cb_dest cb = Some v"
    and d: "v = VConst 256 d \<or> (\<forall>w n. v \<noteq> VConst w n) \<and> target = d"
  defines "n \<equiv> length (createBasicBlocks code)" and "cases \<equiv> jump_cases code (createBasicBlocks code) out"
  defines "t \<equiv> rb_term (resolve_block n cases (h_code g') cb)"
  shows "(cb_term cb = Some (TBr ''jumpTable'') \<longrightarrow>
       (\<exists>l. transfer cases cond target t = Some l \<and> evm_destination code d (arrive cases target l)))
    \<and> (cb_term cb = Some (TCondBr c ''jumpTable'' ''next'') \<longrightarrow>
       (\<exists>l. transfer cases True target t = Some l \<and> evm_destination code d (arrive cases target l))
       \<and> transfer cases False target t = Some (next_label n (cb_idx cb)))"
proof -
  note all = compile_blocks_all [OF assms(1,2)]
  note sw = switch_destination [OF conjunct1 [OF all] conjunct2 [OF all], folded cases_def]
  obtain l e where l: "resolve_jump cases (h_code g') cb = (l, e)" by fastforce
  have "arrive cases target (switch_to cases d) = switch_to cases d"
    by (simp add: arrive_def switch_to_def split: option.split)
  then have "evm_destination code d (arrive cases target l)"
    using d l assms(4) sw [of d] by (auto simp: resolve_jump_def arrive_def split: val.splits)
  then show ?thesis
    using l by (auto simp: t_def n_def resolve_block_def label_of_def transfer_def Let_def)
qed

text \<open>
  Falling through. Behind a block whose last instruction does not end the flow, control goes on
  with the block of the next instruction. Behind the last instruction of the code it does not
  stop, as the comment in resolveJumps says and the EVM does: it passes the empty block Test to
  the jump table, which jumps to the destination of the last jump that was taken through target.
\<close>

theorem fall_through:
  assumes "i < length (createBasicBlocks code)"
  defines "bs \<equiv> createBasicBlocks code"
  shows "\<exists>t \<in> set (instrs code 0 (length code)). bb_begin (bs ! i) \<le> t
    \<and> skipPushDataAndGetNext code t (length code) = bb_end (bs ! i)
    \<and> (endsFlow (code ! t)
      \<or> (if bb_end (bs ! i) < length code
         then next_label (length bs) i = BB (Suc i) \<and> bb_begin (bs ! Suc i) = bb_end (bs ! i)
         else next_label (length bs) i = Test \<and> arrive cases target Test = switch_to cases target))"
proof -
  from chained_nth [OF created_chained assms(1), folded bs_def] obtain t where
    t: "t \<in> set (instrs code 0 (length code))" "bb_begin (bs ! i) \<le> t" "skipPushDataAndGetNext code t (length code) = bb_end (bs ! i)"
    and e: "endsFlow (code ! t) \<or> bb_end (bs ! i) = length code \<or> Suc i < length bs \<and> bb_begin (bs ! Suc i) = bb_end (bs ! i)"
    by blast
  have "\<not> Suc i < length bs" if "bb_end (bs ! i) = length code"
  proof
    assume s: "Suc i < length bs"
    have "bb_end (bs ! i) \<le> bb_begin (bs ! Suc i)"
      using created_blocks(2) [of code, folded bs_def] s
    proof (induction bs arbitrary: i rule: ordered_blocks.induct)
      case (3 b c bs)
      then show ?case by (cases i) auto
    qed simp_all
    moreover have "bb_begin (bs ! Suc i) < length code"
      using created_blocks(1) [of "bs ! Suc i" code] nth_mem [OF s] by (auto simp: bs_def wf_block_def)
    ultimately show False using that by simp
  qed
  moreover have "bb_end (bs ! i) \<le> length code"
    using created_blocks(1) [of "bs ! i" code] nth_mem [OF assms(1)] by (auto simp: bs_def wf_block_def)
  ultimately show ?thesis using t e by (intro bexI [of _ t]) (auto simp: next_label_def arrive_def)
qed

text \<open>A code of one block, JUMPDEST and JUMP, translated with its jump.\<close>

lemma sample_created: "createBasicBlocks [0x5b, 0x56] = [sample_block]"
proof -
  have "ctxDep [0x5b, 0x56] 0 2 = (1, 0)"
    using sample_block_wf by (auto simp: wf_block_def sample_block_def)
  then have m: "mkBasicBlock [0x5b, 0x56] 0 2 = sample_block" by (simp add: mkBasicBlock_def sample_block_def)
  have n: "skipPushDataAndGetNext [0x5b, 0x56] 0 2 = 1" "skipPushDataAndGetNext [0x5b, 0x56] (Suc 0) 2 = 2"
    by (simp_all add: getNext_other isPush_def)
  have l: "length [0x5b, 0x56 :: byte] = 2" by simp
  show ?thesis
    unfolding createBasicBlocks_def l
    by (subst createBlocksLoop.simps, simp add: n endsFlow_def, subst createBlocksLoop.simps,
        simp add: n endsFlow_def m, subst createBlocksLoop.simps, simp)
qed

definition sample_cfg :: cfg where
  "sample_cfg = fst (dry_visit [0x5b, 0x56] [sample_block] 0 [] \<lparr>bbs_to = (\<lambda>_. []), bbs_from = (\<lambda>_. [])\<rparr>)"

lemma sample_dry_empty: "dry_run_bb [0x5b, 0x56] sample_block [] = []"
proof -
  have "stk_outs 0x5b = 0" "stk_ins 0x5b = 0"
    by (simp_all add: stk_outs_def stk_ins_def InstrMap_get_def InstrMap_def)
  then have "dry_op 0x5b stk = (False, stk)" for stk by (simp add: dry_op_def balanced_stk_def)
  then show ?thesis
    unfolding dry_run_bb_def sample_block_def
    by (simp add: dry_step_op isPush_def stopsFlow_def endsFlow_def dry_op_jumps)
qed

lemma sample_exits: "dry_exits [0x5b, 0x56] [sample_block] sample_block [] = [(Some 0, [])]"
  by (simp add: sample_block_def dry_exits_def terminator_def jump_bb_def idxMap_def stk_back_def stk_pop_def)

lemma sample_dry_run: "dry_run [0x5b, 0x56] [sample_block] = Some ({0}, sample_cfg)"
proof -
  let ?g = "\<lparr>bbs_to = (\<lambda>_. []), bbs_from = (\<lambda>_. [])\<rparr> :: cfg"
  have "snd (dry_visit [0x5b, 0x56] [sample_block] 0 [] ?g) = [(0, [])]"
    by (simp add: dry_visit_def Let_def sample_dry_empty sample_exits map_filter_def)
  then show ?thesis
    using dry_loop_visit [of 0 "{}" "[sample_block]" "[0x5b, 0x56]" "[]" "[]" ?g]
      dry_loop_skip [of 0 "{0}" "[0x5b, 0x56]" "[sample_block]" "[]" "[]" sample_cfg] dry_loop_done
    by (simp add: dry_run_def sample_cfg_def)
qed

lemma sample_edges: "bbs_to sample_cfg 0 = [Some 0]" "bbs_from sample_cfg 0 = [0]"
  by (simp_all add: sample_cfg_def dry_visit_def Let_def sample_dry_empty sample_exits add_edge_def)

lemmas gen_simps = eff_simps seqE_def bindE_def returnE_def getE_def modifyE_def emit_def typeOfV_def val_type_def

lemma sample_compile:
  "\<exists>g'. compile_blocks [0x5b, 0x56] [sample_block] sample_cfg (\<lambda>_. hc_JUMP) (sample_gen []) =
     (Inr [\<lparr>cb_idx = 0, cb_lo = 0, cb_hi = 7, cb_term = Some (TBr ''jumpTable''), cb_dest = Some (VReg 2)\<rparr>], g')"
proof -
  have t: "\<not> takes_over [0x5b, 0x56] [sample_block] sample_cfg 0"
    by (simp add: takes_over_def sample_block_def sample_edges)
  have n: "stk_in sample_block = Suc 0" by (simp add: sample_block_def)
  have c: "\<exists>g'. compile_one (block_prologue False (Suc 0) []) hc_JUMP 0 (sample_gen []) =
     (Inr ([], \<lparr>cb_idx = 0, cb_lo = 0, cb_hi = 7, cb_term = Some (TBr ''jumpTable''), cb_dest = Some (VReg 2)\<rparr>), g')"
    by (simp add: compile_one_def block_prologue_def fresh_block_def block_epilogue_def clearLocals_def gs_pop_def gs_push_def gs_getPtr_def
        hc_JUMP_def setTerm_def createLoad_def createStore_def createBin2_def gen_simps sample_gen_def push_def pop_def)
  then obtain g' where "compile_one (block_prologue False (Suc 0) []) hc_JUMP 0 (sample_gen []) =
     (Inr ([], \<lparr>cb_idx = 0, cb_lo = 0, cb_hi = 7, cb_term = Some (TBr ''jumpTable''), cb_dest = Some (VReg 2)\<rparr>), g')" by blast
  then have "compile_queue [0x5b, 0x56] [sample_block] sample_cfg (\<lambda>_. hc_JUMP) [(Some 0, [])] {} [] (sample_gen []) =
     (Inr ({Some 0}, [\<lparr>cb_idx = 0, cb_lo = 0, cb_hi = 7, cb_term = Some (TBr ''jumpTable''), cb_dest = Some (VReg 2)\<rparr>]), g')"
    using t by (simp add: queue_block queue_skip queue_nil n sample_edges)
  then show ?thesis by (simp add: compile_blocks_def bindE_def returnE_def)
qed

theorem compile_blocks_once_witness:
  "\<exists>out g' k. compile_blocks [0x5b, 0x56] [sample_block] sample_cfg (\<lambda>_. hc_JUMP) (sample_gen []) = (Inr out, g')
    \<and> map cb_idx out = [0] \<and> set (map cb_idx (take k out)) = reach sample_cfg"
proof -
  let ?cb = "\<lparr>cb_idx = 0, cb_lo = 0, cb_hi = 7, cb_term = Some (TBr ''jumpTable''), cb_dest = Some (VReg 2)\<rparr>"
  from sample_compile obtain g' where c: "compile_blocks [0x5b, 0x56] [sample_block] sample_cfg (\<lambda>_. hc_JUMP) (sample_gen []) = (Inr [?cb], g')"
    by blast
  from compile_blocks_once [OF sample_dry_run c] obtain k where "set (map cb_idx (take k [?cb])) = reach sample_cfg" by blast
  with c show ?thesis by (intro exI [of _ "[?cb]"] exI [of _ g'] exI [of _ k]) simp
qed

theorem jump_reaches_destination_witness:
  "\<exists>out g' cb l. compile_blocks [0x5b, 0x56] [sample_block] sample_cfg (\<lambda>_. hc_JUMP) (sample_gen []) = (Inr out, g') \<and> cb \<in> set out
    \<and> transfer (jump_cases [0x5b, 0x56] [sample_block] out) True 7
        (rb_term (resolve_block 1 (jump_cases [0x5b, 0x56] [sample_block] out) (h_code g') cb)) = Some l
    \<and> evm_destination [0x5b, 0x56] 7 (arrive (jump_cases [0x5b, 0x56] [sample_block] out) 7 l)"
proof -
  let ?cb = "\<lparr>cb_idx = 0, cb_lo = 0, cb_hi = 7, cb_term = Some (TBr ''jumpTable''), cb_dest = Some (VReg 2)\<rparr>"
  from sample_compile obtain g' where c: "compile_blocks [0x5b, 0x56] [sample_block] sample_cfg (\<lambda>_. hc_JUMP) (sample_gen []) = (Inr [?cb], g')"
    by blast
  have 1: "?cb \<in> set [?cb]" "cb_dest ?cb = Some (VReg 2)" "VReg 2 = VConst 256 7 \<or> (\<forall>w n. VReg 2 \<noteq> VConst w n) \<and> (7 :: int) = 7" by simp_all
  from jump_reaches_destination [OF sample_dry_run [folded sample_created] c [folded sample_created] 1, of True] c show ?thesis
    unfolding sample_created by simp
qed

theorem fall_through_witness:
  "\<exists>t \<in> set (instrs [0x5b, 0x56] 0 2). skipPushDataAndGetNext [0x5b, 0x56] t 2 = 2 \<and> (endsFlow ([0x5b, 0x56] ! t) \<or> next_label 1 0 = Test)"
  using fall_through [of 0 "[0x5b, 0x56]"] unfolding sample_created by (auto simp: sample_block_def numeral_2_eq_2)

end
