(* ===== verification/Codegen_Correct.thy ===== *)
theory Codegen_Correct
  imports Codegen
begin

text \<open>
  The generated code computes what the EVM computes. The reference is the machine of the
  Yellow Paper on 256-bit words, an instruction at a time; the simulation relates each LLVM
  value on the symbolic stack to the word it denotes. Two conditions bound what the code
  generator supports: the LLVM instruction must have a defined value (no zero divisor, no
  signed overflow of a division, no shift by 256 or more), and the operands of an
  instruction must not all be constants, since the folded result is not an instruction and
  the cast that attaches the program counter fails.
\<close>

unbundle bit_operations_syntax

section \<open>The reference machine\<close>

datatype alu = Op1 "w256 \<Rightarrow> w256" | Op2 "w256 \<Rightarrow> w256 \<Rightarrow> w256" | Op3 "w256 \<Rightarrow> w256 \<Rightarrow> w256 \<Rightarrow> w256"

definition of_flag :: "bool \<Rightarrow> w256" where
  "of_flag c = (if c then 1 else 0)"

definition evm_sdiv :: "w256 \<Rightarrow> w256 \<Rightarrow> w256" where
  "evm_sdiv x y = (if y = 0 then 0 else word_of_int (sint x sdiv sint y))"

definition evm_smod :: "w256 \<Rightarrow> w256 \<Rightarrow> w256" where
  "evm_smod x y = (if y = 0 then 0 else word_of_int (sint x smod sint y))"

definition evm_signextend :: "w256 \<Rightarrow> w256 \<Rightarrow> w256" where
  "evm_signextend k x = (if k < 31 then word_of_int (signed_take_bit (8 * unat k + 7) (uint x)) else x)"

definition evm_sar :: "w256 \<Rightarrow> w256 \<Rightarrow> w256" where
  "evm_sar k x =
     (if k < 256 then word_of_int (drop_bit (unat k) (sint x)) else if sint x < 0 then - 1 else 0)"

definition evm_alu :: "Instruction \<Rightarrow> alu option" where
  "evm_alu inst = map_of
     [(I_ADD, Op2 (+)), (I_MUL, Op2 (*)), (I_SUB, Op2 (-)),
      (I_DIV, Op2 (\<lambda>x y. if y = 0 then 0 else x div y)), (I_SDIV, Op2 evm_sdiv),
      (I_MOD, Op2 (\<lambda>x y. if y = 0 then 0 else x mod y)), (I_SMOD, Op2 evm_smod),
      (I_ADDMOD, Op3 (\<lambda>x y m. if m = 0 then 0 else word_of_int ((uint x + uint y) mod uint m))),
      (I_MULMOD, Op3 (\<lambda>x y m. if m = 0 then 0 else word_of_int ((uint x * uint y) mod uint m))),
      (I_SIGNEXTEND, Op2 evm_signextend),
      (I_LT, Op2 (\<lambda>x y. of_flag (x < y))), (I_GT, Op2 (\<lambda>x y. of_flag (y < x))),
      (I_SLT, Op2 (\<lambda>x y. of_flag (sint x < sint y))), (I_SGT, Op2 (\<lambda>x y. of_flag (sint y < sint x))),
      (I_EQ, Op2 (\<lambda>x y. of_flag (x = y))), (I_ISZERO, Op1 (\<lambda>x. of_flag (x = 0))),
      (I_AND, Op2 (AND)), (I_OR, Op2 (OR)), (I_XOR, Op2 (XOR)), (I_NOT, Op1 NOT),
      (I_SHL, Op2 (\<lambda>k x. if k < 256 then push_bit (unat k) x else 0)),
      (I_SHR, Op2 (\<lambda>k x. if k < 256 then drop_bit (unat k) x else 0)),
      (I_SAR, Op2 evm_sar)] inst"

text \<open>Instructions that only move items, on a stack whose head is the top.\<close>

definition evm_move :: "Instruction \<Rightarrow> 'a list \<Rightarrow> 'a list option" where
  "evm_move inst s =
     (if inst = I_POP then (if s = [] then None else Some (tl s))
      else if I_DUP1 \<le> inst \<and> inst \<le> I_DUP16 then
        (let n = unat inst - 0x80 in if n < length s then Some (s ! n # s) else None)
      else if I_SWAP1 \<le> inst \<and> inst \<le> I_SWAP16 then
        (let n = unat inst - 0x8f in if n < length s then Some (s[0 := s ! n, n := s ! 0]) else None)
      else if inst = I_JUMPDEST then Some s
      else None)"

fun evm_apply :: "alu \<Rightarrow> w256 list \<Rightarrow> w256 list option" where
  "evm_apply (Op1 f) (x # s) = Some (f x # s)"
| "evm_apply (Op2 f) (x # y # s) = Some (f x y # s)"
| "evm_apply (Op3 f) (x # y # z # s) = Some (f x y z # s)"
| "evm_apply _ _ = None"

definition evm_step :: "Instruction \<Rightarrow> w256 list \<Rightarrow> w256 list option" where
  "evm_step inst s = (case evm_alu inst of Some a \<Rightarrow> evm_apply a s | None \<Rightarrow> evm_move inst s)"

text \<open>
  Which items are computed at run time: a constant operand beside a computed one is fine,
  an instruction on constants only is not.
\<close>

fun rt_apply :: "alu \<Rightarrow> bool list \<Rightarrow> bool list option" where
  "rt_apply (Op1 f) (a # s) = (if a then Some (True # s) else None)"
| "rt_apply (Op2 f) (a # b # s) = (if a \<or> b then Some (True # s) else None)"
| "rt_apply (Op3 f) (a # b # c # s) = (if a \<or> b \<or> c then Some (True # s) else None)"
| "rt_apply _ _ = None"

definition rt_step :: "Instruction \<Rightarrow> bool list \<Rightarrow> bool list option" where
  "rt_step inst s = (case evm_alu inst of Some a \<Rightarrow> rt_apply a s | None \<Rightarrow> evm_move inst s)"

text \<open>The operands for which the emitted LLVM instruction has a value.\<close>

definition ir_defined :: "Instruction \<Rightarrow> w256 list \<Rightarrow> bool" where
  "ir_defined inst s =
     (if inst = I_DIV \<or> inst = I_MOD then s ! 1 \<noteq> 0
      else if inst = I_SDIV \<or> inst = I_SMOD then s ! 1 \<noteq> 0 \<and> \<not> (s ! 0 = 2 ^ 255 \<and> s ! 1 = - 1)
      else if inst = I_ADDMOD \<or> inst = I_MULMOD then s ! 2 \<noteq> 0
      else if inst = I_SHL \<or> inst = I_SHR \<or> inst = I_SAR then s ! 0 < 256
      else True)"

definition safe_step :: "Instruction \<Rightarrow> w256 list \<times> bool list \<Rightarrow> (w256 list \<times> bool list) option" where
  "safe_step inst \<sigma> =
     (case (evm_step inst (fst \<sigma>), rt_step inst (snd \<sigma>)) of
        (Some s, Some r) \<Rightarrow> if ir_defined inst (fst \<sigma>) then Some (s, r) else None
      | _ \<Rightarrow> None)"

text \<open>
  The run of the EVM over the instructions of a block, with the two conditions checked at
  every step, and without.
\<close>

function safe_run :: "byte list \<Rightarrow> nat \<Rightarrow> nat \<Rightarrow> w256 list \<times> bool list \<Rightarrow> (w256 list \<times> bool list) option" where
  "safe_run code e it \<sigma> =
     (if e \<le> it then Some \<sigma>
      else if isPush (code ! it) then
        safe_run code e (skipPushDataAndGetNext code it e)
          (of_nat (be_nat (pushSlice code (Suc it) e (pushBytes (code ! it)))) # fst \<sigma>, False # snd \<sigma>)
      else (case safe_step (code ! it) \<sigma> of
              None \<Rightarrow> None
            | Some \<sigma>' \<Rightarrow> safe_run code e (Suc it) \<sigma>'))"
  by pat_completeness auto
termination
  by (relation "measure (\<lambda>(code, e, it, \<sigma>). e - it)") (auto simp: getNext_gt diff_less_mono2)

declare safe_run.simps [simp del]

function evm_run :: "byte list \<Rightarrow> nat \<Rightarrow> nat \<Rightarrow> w256 list \<Rightarrow> w256 list option" where
  "evm_run code e it s =
     (if e \<le> it then Some s
      else if isPush (code ! it) then
        evm_run code e (skipPushDataAndGetNext code it e)
          (of_nat (be_nat (pushSlice code (Suc it) e (pushBytes (code ! it)))) # s)
      else (case evm_step (code ! it) s of
              None \<Rightarrow> None
            | Some s' \<Rightarrow> evm_run code e (Suc it) s'))"
  by pat_completeness auto
termination
  by (relation "measure (\<lambda>(code, e, it, s). e - it)") (auto simp: getNext_gt diff_less_mono2)

declare evm_run.simps [simp del]

section \<open>The relation between the two stacks\<close>

definition represents :: "'v IRBuilder \<Rightarrow> ('v \<Rightarrow> int option) \<Rightarrow> 'v Gen \<Rightarrow> w256 list \<times> bool list \<Rightarrow> bool" where
  "represents B den g \<sigma> \<longleftrightarrow>
     map (isInst B) (rev (m_local g)) = snd \<sigma>
   \<and> list_all2 (\<lambda>v x. typeOf B v = Word \<and> den v = Some (uint x)) (rev (m_local g)) (fst \<sigma>)"

section \<open>Defined operations\<close>

lemma bin_defined_total [simp]:
  "bin_defined Add w a b" "bin_defined Sub w a b" "bin_defined Mul w a b"
  "bin_defined And w a b" "bin_defined Or w a b" "bin_defined Xor w a b"
  by (simp_all add: bin_defined_def)

lemma uint_of_flag: "uint (of_flag c) = (if c then 1 else 0)"
  by (simp add: of_flag_def)

lemma uint_of_nat_small: "n < 256 \<Longrightarrow> uint (of_nat n :: w256) = int n"
  using less_trans [of n 256 "2 ^ 256"] by (simp add: unsigned_of_nat take_bit_nat_eq_self)

lemma take_bit_one_drop_bit: "drop_bit n x mod 2 = (if bit x n then 1 else 0)" for x :: int
  by (simp add: mod_2_eq_odd bit_iff_odd_drop_bit)

text \<open>The mask and the two selected values of the sign extension.\<close>

lemma signextend_bits:
  fixes x :: w256 and n :: nat
  assumes "n < 256"
  shows "(if bit (uint x) n then uint x OR (mask n XOR mask 256) else uint x AND mask n)
       = take_bit 256 (signed_take_bit n (uint x))"
  by (rule bit_eqI)
    (use assms in \<open>auto simp: bit_simps min_def not_le split: if_splits dest: bit_imp_le_length\<close>)

section \<open>Moving items\<close>

lemma evm_alu_cases:
  assumes "evm_alu inst = Some a"
  shows "inst \<in> {I_ADD, I_MUL, I_SUB, I_DIV, I_SDIV, I_MOD, I_SMOD, I_ADDMOD, I_MULMOD, I_SIGNEXTEND,
    I_LT, I_GT, I_SLT, I_SGT, I_EQ, I_ISZERO, I_AND, I_OR, I_XOR, I_NOT, I_SHL, I_SHR, I_SAR}"
  using assms by (auto simp: evm_alu_def split: if_splits)

lemma move_cases:
  assumes "evm_alu inst = None" "evm_move inst s = Some s'"
  obtains "inst = I_POP" | "I_DUP1 \<le> inst" "inst \<le> I_DUP16" | "I_SWAP1 \<le> inst" "inst \<le> I_SWAP16"
    | "inst = I_JUMPDEST"
  using assms by (auto simp: evm_move_def split: if_splits)

lemma compile_op_dup:
  "I_DUP1 \<le> inst \<Longrightarrow> inst \<le> I_DUP16 \<Longrightarrow> compile_op B b it inst g = case_DUP B inst g"
  by (auto simp: compile_op_def Let_def word_le_nat_alt)

lemma compile_op_swap:
  "I_SWAP1 \<le> inst \<Longrightarrow> inst \<le> I_SWAP16 \<Longrightarrow> compile_op B b it inst g = case_SWAP B inst g"
  by (auto simp: compile_op_def Let_def word_le_nat_alt)

lemma dup_rev:
  "n < length (m_local g) \<Longrightarrow> stack_dup B n g = g\<lparr>m_local := rev (rev (m_local g) ! n # rev (m_local g))\<rparr>"
  by (simp add: stack_dup_def stack_push_def rev_nth)

lemma swap_rev:
  assumes "Suc n < length (m_local g)"
  shows "stack_swap B n g =
    g\<lparr>m_local := rev ((rev (m_local g))[0 := rev (m_local g) ! Suc n, Suc n := rev (m_local g) ! 0])\<rparr>"
proof -
  let ?l = "m_local g"
  have "rev ((rev ?l)[0 := rev ?l ! Suc n, Suc n := rev ?l ! 0]) =
      ?l[length ?l - 1 := ?l ! (length ?l - 2 - n), length ?l - 2 - n := ?l ! (length ?l - 1)]"
    using assms by (cases "?l = []") (simp_all add: rev_update rev_nth numeral_2_eq_2)
  also have "\<dots> = ?l[length ?l - 2 - n := ?l ! (length ?l - 1), length ?l - 1 := ?l ! (length ?l - 2 - n)]"
    using assms by (intro list_update_swap) arith
  finally show ?thesis using assms by (simp add: stack_swap_def Let_def)
qed

lemma evm_move_all2:
  assumes "list_all2 P vs s" "evm_move inst s = Some s'"
  shows "\<exists>vs'. evm_move inst vs = Some vs' \<and> list_all2 P vs' s'"
proof -
  have len: "length vs = length s" using assms(1) by (rule list_all2_lengthD)
  have tl: "list_all2 P (tl vs) (tl s)" using assms(1) by (cases vs; cases s) auto
  have nth: "i < length s \<Longrightarrow> P (vs ! i) (s ! i)" for i using assms(1) len by (auto simp: list_all2_conv_all_nth)
  have swap: "list_all2 P (vs[0 := vs ! n, n := vs ! 0]) (s[0 := s ! n, n := s ! 0])" if "n < length s" for n
  proof -
    have "0 < length s" using that by linarith
    then show ?thesis using assms(1) nth [OF that] nth [of 0] by (intro list_all2_update_cong) auto
  qed
  show ?thesis using assms len tl nth swap
    by (auto simp: evm_move_def Let_def split: if_splits)
qed

section \<open>The cases, one by one\<close>

lemma stack_pop_rev:
  "m_local g = rev (v # vs) \<Longrightarrow> stack_pop B g = (v, g\<lparr>m_local := rev vs\<rparr>)"
  by (simp add: stack_pop_def)

context llvm_ir
begin

text \<open>A value of the width of the EVM word that denotes the given word.\<close>

definition wordv :: "'v \<Rightarrow> w256 \<Rightarrow> bool" where
  "wordv v x \<longleftrightarrow> typed v Word (uint x)"

text \<open>A case that pops its operands and pushes one instruction with the given value.\<close>

definition emits :: "nat \<Rightarrow> 'v cg_result \<Rightarrow> 'v Gen \<Rightarrow> 'v list \<Rightarrow> w256 \<Rightarrow> bool" where
  "emits pc m g vs x \<longleftrightarrow>
     (\<exists>r. m = Inr (g\<lparr>m_local := rev (r # vs), bytecodePC := bytecodePC g @ [(r, pc)]\<rparr>)
        \<and> wordv r x \<and> isInst B r)"

lemma emitsI:
  "wordv r x \<Longrightarrow> isInst B r \<Longrightarrow> emits pc (push_attach B pc r (g\<lparr>m_local := rev vs\<rparr>)) g vs x"
  by (auto simp: emits_def push_attach_def attachPC_def stack_push_def)

lemma widen_same: "wordv a x \<Longrightarrow> wordv b y \<Longrightarrow> widen B a b = (a, b)"
  by (simp add: widen_def wordv_def typed_def)

lemma wordv_const: "wordv (constInt B Word (uint x)) x"
  using typed_const [of Word "uint x"] by (simp add: wordv_def take_bit_uint_word)

lemma wordv_bin:
  "wordv a x \<Longrightarrow> wordv b y \<Longrightarrow> bin_defined op Word (uint x) (uint y) \<Longrightarrow>
   bin_value op Word (uint x) (uint y) = uint z \<Longrightarrow> wordv (createBin B op a b) z"
  using typed_bin [of a Word "uint x" b "uint y" op] by (simp add: wordv_def)

lemma wordv_icmp:
  "wordv a x \<Longrightarrow> wordv b y \<Longrightarrow>
   wordv (createZExt B (createICmp B p a b) Word) (of_flag (icmp_value p Word (uint x) (uint y)))"
  using typed_zext [OF typed_icmp [of a Word "uint x" b "uint y" p]]
  by (simp add: wordv_def uint_of_flag)

text \<open>The cases with two operands that are one LLVM instruction on operands of equal type.\<close>

lemma case_bin:
  assumes "m_local g = rev (a # b # vs)" "wordv a x" "wordv b y" "isInst B a \<or> isInst B b"
    and "bin_defined op Word (uint x) (uint y)" "bin_value op Word (uint x) (uint y) = uint z"
  shows "emits pc
    (let (lhs, g) = stack_pop B g; (rhs, g) = stack_pop B g; (lhs, rhs) = widen B lhs rhs
     in push_attach B pc (createBin B op lhs rhs) g) g vs z"
proof -
  have "emits pc (push_attach B pc (createBin B op a b) (g\<lparr>m_local := rev vs\<rparr>)) g vs z"
    using assms by (intro emitsI wordv_bin [of a x b y] bin_inst) auto
  then show ?thesis
    using assms(1,2,3) widen_same [of a x b y] by (simp add: stack_pop_def butlast_append)
qed

lemma case_icmp:
  assumes "m_local g = rev (a # b # vs)" "wordv a x" "wordv b y" "isInst B a \<or> isInst B b"
    and "z = of_flag (icmp_value p Word (uint x) (uint y))"
  shows "emits pc
    (let (lhs, g) = stack_pop B g; (rhs, g) = stack_pop B g; (lhs, rhs) = widen B lhs rhs
     in push_attach B pc (createZExt B (createICmp B p lhs rhs) Word) g) g vs z"
proof -
  have "emits pc (push_attach B pc (createZExt B (createICmp B p a b) Word) (g\<lparr>m_local := rev vs\<rparr>)) g vs z"
    using assms by (auto intro!: emitsI wordv_icmp zext_inst icmp_inst)
  then show ?thesis
    using assms(1,2,3) widen_same [of a x b y] by (simp add: stack_pop_def butlast_append)
qed

lemma case_shift:
  assumes "m_local g = rev (a # b # vs)" "wordv a k" "wordv b x" "isInst B a \<or> isInst B b"
    and "bin_defined op Word (uint x) (uint k)" "bin_value op Word (uint x) (uint k) = uint z"
  shows "emits pc
    (let (shift, g) = stack_pop B g; (v, g) = stack_pop B g
     in push_attach B pc (createBin B op v shift) g) g vs z"
proof -
  have "emits pc (push_attach B pc (createBin B op b a) (g\<lparr>m_local := rev vs\<rparr>)) g vs z"
    using assms by (intro emitsI wordv_bin [of b x a k] bin_inst) auto
  then show ?thesis using assms(1) by (simp add: stack_pop_def butlast_append)
qed

lemma case_unary:
  assumes "m_local g = rev (a # vs)" "wordv a x" "isInst B a"
  shows "emits pc (case_NOT B pc g) g vs (NOT x)"
    and "emits pc (case_ISZERO B pc g) g vs (of_flag (x = 0))"
proof -
  have "wordv (createNot B a) (NOT x)"
    using typed_not [of a Word "uint x"] assms(2) by (simp add: wordv_def unsigned_not_eq)
  then show "emits pc (case_NOT B pc g) g vs (NOT x)"
    using assms emitsI [of "createNot B a"] by (simp add: case_NOT_def stack_pop_rev not_inst)
  have "wordv (createZExt B (createICmp B ICmpEQ a (constInt B Word 0)) Word) (of_flag (x = 0))"
    using wordv_icmp [OF assms(2) wordv_const [of 0], of ICmpEQ] icmp_value_words(1) [of x 0] by simp
  moreover have "typeOf B a = Word" using assms(2) by (simp add: wordv_def typed_def)
  ultimately show "emits pc (case_ISZERO B pc g) g vs (of_flag (x = 0))"
    using assms emitsI [of "createZExt B (createICmp B ICmpEQ a (constInt B Word 0)) Word"]
    by (simp add: case_ISZERO_def stack_pop_rev zext_inst icmp_inst)
qed

lemma typed_zext_word: "wordv a x \<Longrightarrow> typed (createZExt B a 512) 512 (uint x)"
  using typed_zext [of a Word "uint x" 512] by (simp add: wordv_def)

lemma typed_zero_test:
  "wordv m z \<Longrightarrow> z \<noteq> 0 \<Longrightarrow> typed (createICmp B ICmpEQ m (constInt B Word 0)) 1 0"
  using typed_icmp [of m Word "uint z" "constInt B Word 0" "uint (0::w256)" ICmpEQ] wordv_const [of 0]
  by (simp add: wordv_def icmp_value_def unsigned_eq_0_iff)

text \<open>The two modular operations: the sum or the product is formed at 512 bits.\<close>

lemma wide_mod_value:
  assumes "wordv a x" "wordv b y" "wordv m z" "z \<noteq> 0"
    and "bin_defined op 512 (uint x) (uint y)" "bin_value op 512 (uint x) (uint y) = r"
  shows "wordv (createSelect B (createICmp B ICmpEQ m (constInt B Word 0)) (constInt B Word 0)
      (createTrunc B (createBin B URem (createBin B op (createZExt B a 512) (createZExt B b 512))
        (createZExt B m 512)) Word)) (word_of_int (r mod uint z))"
proof -
  have "typed (createBin B op (createZExt B a 512) (createZExt B b 512)) 512 r"
    using typed_bin [OF typed_zext_word typed_zext_word] assms by blast
  moreover have "bin_defined URem 512 r (uint z)"
    using assms(4) by (simp add: bin_defined_def unsigned_eq_0_iff)
  ultimately have "typed (createBin B URem (createBin B op (createZExt B a 512) (createZExt B b 512))
      (createZExt B m 512)) 512 (r mod uint z)"
    using typed_bin [of _ 512 r "createZExt B m 512" "uint z" URem] typed_zext_word [OF assms(3)]
    by (simp add: bin_value_def)
  from typed_trunc [OF this, of Word] typed_select [OF typed_zero_test [OF assms(3,4)] typed_const]
  show ?thesis by (simp add: wordv_def unsigned_of_int)
qed

lemma case_wide_mod:
  assumes "m_local g = rev (a # b # m # vs)" "wordv a x" "wordv b y" "wordv m z" "z \<noteq> 0"
    and "isInst B a \<or> isInst B b \<or> isInst B m"
  shows "emits pc (case_ADDMOD B pc g) g vs (word_of_int ((uint x + uint y) mod uint z))"
    and "emits pc (case_MULMOD B pc g) g vs (word_of_int ((uint x * uint y) mod uint z))"
proof -
  have lt: "uint x < 2 ^ 256" "uint y < 2 ^ 256" using uint_lt2p [of x] uint_lt2p [of y] by simp_all
  then have sum: "bin_defined NUWAdd 512 (uint x) (uint y)" by (simp add: bin_defined_def)
  have "uint x * uint y < 2 ^ 256 * 2 ^ 256" using lt by (intro mult_strict_mono) auto
  then have prd: "bin_defined NUWMul 512 (uint x) (uint y)" by (simp add: bin_defined_def)
  have vals: "bin_value NUWAdd 512 (uint x) (uint y) = uint x + uint y"
    "bin_value NUWMul 512 (uint x) (uint y) = uint x * uint y" by (simp_all add: bin_value_def)
  have inst: "isInst B (createSelect B (createICmp B ICmpEQ m (constInt B Word 0)) (constInt B Word 0)
      (createTrunc B (createBin B URem (createBin B op (createZExt B a 512) (createZExt B b 512))
        (createZExt B m 512)) Word))" for op
    using assms(6) by (intro select_inst) (auto intro!: trunc_inst bin_inst zext_inst)
  show "emits pc (case_ADDMOD B pc g) g vs (word_of_int ((uint x + uint y) mod uint z))"
    using emitsI [OF wide_mod_value [OF assms(2-5) sum vals(1)] inst] assms(1)
    by (simp add: case_ADDMOD_def stack_pop_def butlast_append)
  show "emits pc (case_MULMOD B pc g) g vs (word_of_int ((uint x * uint y) mod uint z))"
    using emitsI [OF wide_mod_value [OF assms(2-5) prd vals(2)] inst] assms(1)
    by (simp add: case_MULMOD_def stack_pop_def butlast_append)
qed

lemma signextend_bitpos:
  assumes "wordv idx k"
  defines "n \<equiv> 8 * nat (take_bit 5 (uint k)) + 7"
  shows "wordv (createZExt B (createBin B Add (createBin B Mul (createZExt B (createTrunc B idx 5) Size)
      (constInt B Size 8)) (constInt B Size 7)) Word) (of_nat n)"
    and "n < 256"
proof -
  let ?k = "take_bit 5 (uint k)"
  have k: "0 \<le> ?k" "?k < 32" using take_bit_int_less_exp [of 5 "uint k"] by simp_all
  then show n: "n < 256" by (simp add: n_def)
  have "typed (createZExt B (createTrunc B idx 5) Size) Size ?k"
    using typed_zext [OF typed_trunc [of idx Word "uint k" 5]] assms(1) by (simp add: wordv_def)
  from typed_bin [OF this typed_const, of Mul 8] have
    "typed (createBin B Mul (createZExt B (createTrunc B idx 5) Size) (constInt B Size 8)) Size (?k * 8)"
    using k by (simp add: bin_value_def take_bit_int_eq_self)
  from typed_bin [OF this typed_const, of Add 7] have
    "typed (createBin B Add (createBin B Mul (createZExt B (createTrunc B idx 5) Size) (constInt B Size 8))
       (constInt B Size 7)) Size (?k * 8 + 7)"
    using k by (simp add: bin_value_def take_bit_int_eq_self)
  moreover have "?k * 8 + 7 = uint (of_nat n :: w256)"
    using k uint_of_nat_small [OF n] by (simp add: n_def)
  ultimately show "wordv (createZExt B (createBin B Add (createBin B Mul (createZExt B (createTrunc B idx 5) Size)
      (constInt B Size 8)) (constInt B Size 7)) Word) (of_nat n)"
    using typed_zext by (simp add: wordv_def)
qed

lemma signextend_masks:
  assumes "wordv pos (of_nat n)" "n < 256" "wordv w x"
  defines "m \<equiv> createBin B Sub (createBin B Shl (constInt B Word 1) pos) (constInt B Word 1)"
  shows "typed (createTrunc B (createBin B LShr w pos) 1) 1 (if bit (uint x) n then 1 else 0)"
    and "typed (createBin B Or w (createBin B Xor m (constInt B Word (- 1)))) Word (uint x OR (mask n XOR mask 256))"
    and "typed (createBin B And w m) Word (uint x AND mask n)"
proof -
  have u: "uint (of_nat n :: w256) = int n" using uint_of_nat_small [OF assms(2)] .
  have "typed (createBin B LShr w pos) Word (drop_bit n (uint x))"
    using typed_bin [of w Word "uint x" pos "int n" LShr] assms u
    by (simp add: wordv_def bin_defined_def bin_value_def)
  from typed_trunc [OF this, of 1]
  show "typed (createTrunc B (createBin B LShr w pos) 1) 1 (if bit (uint x) n then 1 else 0)"
    by (simp add: take_bit_one_drop_bit split: if_splits)
  have "typed (createBin B Shl (constInt B Word 1) pos) Word (2 ^ n)"
    using typed_bin [OF typed_const [of Word 1], of pos "int n" Shl] assms(1,2) u
    by (simp add: wordv_def bin_defined_def bin_value_def take_bit_int_eq_self push_bit_eq_mult)
  moreover have "take_bit 256 (2 ^ n - 1 :: int) = mask n"
    using assms(2) unfolding mask_eq_exp_minus_1 [symmetric] by (simp add: take_bit_of_mask)
  ultimately have m: "typed m Word (mask n)"
    using typed_bin [OF _ typed_const [of Word 1], of _ "2 ^ n" Sub] by (simp add: m_def bin_value_def)
  then show "typed (createBin B And w m) Word (uint x AND mask n)"
    using typed_bin [of w Word "uint x" m "mask n" And] assms(3) by (simp add: wordv_def bin_value_def)
  have "typed (createBin B Xor m (constInt B Word (- 1))) Word (mask n XOR mask 256)"
    using typed_bin [OF m typed_const [of Word "- 1"], of Xor] by (simp add: bin_value_def)
  then show "typed (createBin B Or w (createBin B Xor m (constInt B Word (- 1)))) Word
      (uint x OR (mask n XOR mask 256))"
    using typed_bin [of w Word "uint x" _ "mask n XOR mask 256" Or] assms(3)
    by (simp add: wordv_def bin_value_def)
qed

lemma case_SIGNEXTEND_ok:
  assumes "m_local g = rev (idx # w # vs)" "wordv idx k" "wordv w x" "isInst B idx \<or> isInst B w"
  shows "emits pc (case_SIGNEXTEND B pc g) g vs (evm_signextend k x)"
proof -
  define pos where "pos = createZExt B (createBin B Add (createBin B Mul (createZExt B (createTrunc B idx 5) Size)
      (constInt B Size 8)) (constInt B Size 7)) Word"
  define n where "n = 8 * nat (take_bit 5 (uint k)) + 7"
  have pos: "wordv pos (of_nat n)" "n < 256"
    using signextend_bitpos [OF assms(2)] by (simp_all add: pos_def n_def)
  note vals = signextend_masks [OF pos assms(3)]
  have range: "typed (createICmp B ICmpULE idx (constInt B Word 30)) 1 (if k \<le> 30 then 1 else 0)"
    using typed_icmp [of idx Word "uint k" _ "uint (30::w256)" ICmpULE] wordv_const [of 30] assms(2)
      icmp_value_words(4) [of k 30] by (simp add: wordv_def)
  have small: "n = 8 * unat k + 7" if "k < 31"
  proof -
    have "uint k < 31" using that by (simp add: word_less_def)
    then show ?thesis by (simp add: n_def take_bit_int_eq_self)
  qed
  have "k \<le> 30 \<longleftrightarrow> k < 31" by (simp add: word_le_def word_less_def) arith
  then have "wordv (createSelect B (createICmp B ICmpULE idx (constInt B Word 30))
      (createSelect B (createTrunc B (createBin B LShr w pos) 1)
        (createBin B Or w (createBin B Xor (createBin B Sub (createBin B Shl (constInt B Word 1) pos)
            (constInt B Word 1)) (constInt B Word (- 1))))
        (createBin B And w (createBin B Sub (createBin B Shl (constInt B Word 1) pos) (constInt B Word 1)))) w)
     (evm_signextend k x)"
    using typed_select [OF range typed_select [OF vals], of w "uint x"] assms(3) small signextend_bits [OF pos(2), of x]
    by (auto simp: wordv_def evm_signextend_def unsigned_of_int split: if_splits)
  moreover have "isInst B (createSelect B (createICmp B ICmpULE idx (constInt B Word 30)) v w)" for v
    using assms(4) by (auto intro!: select_inst icmp_inst)
  ultimately show ?thesis
    using assms(1) by (auto simp: case_SIGNEXTEND_def stack_pop_def butlast_append Let_def pos_def intro!: emitsI)
qed

text \<open>The cases with two operands.\<close>

lemma cases_total:
  assumes "m_local g = rev (a # b # vs)" "wordv a x" "wordv b y" "isInst B a \<or> isInst B b"
  shows "emits pc (case_ADD B pc g) g vs (x + y)"
    and "emits pc (case_SUB B pc g) g vs (x - y)"
    and "emits pc (case_AND B pc g) g vs (x AND y)"
    and "emits pc (case_OR B pc g) g vs (x OR y)"
    and "emits pc (case_XOR B pc g) g vs (x XOR y)"
    and "emits pc (case_LT B pc g) g vs (of_flag (x < y))"
    and "emits pc (case_GT B pc g) g vs (of_flag (y < x))"
    and "emits pc (case_SLT B pc g) g vs (of_flag (sint x < sint y))"
    and "emits pc (case_SGT B pc g) g vs (of_flag (sint y < sint x))"
    and "emits pc (case_EQ B pc g) g vs (of_flag (x = y))"
  unfolding case_ADD_def case_SUB_def case_AND_def case_OR_def case_XOR_def
    case_LT_def case_GT_def case_SLT_def case_SGT_def case_EQ_def
  by (rule case_bin [OF assms] case_icmp [OF assms]; simp add: bin_value_words icmp_value_words)+

lemma case_MUL_ok:
  assumes "m_local g = rev (a # b # vs)" "wordv a x" "wordv b y" "isInst B a \<or> isInst B b"
  shows "emits pc (case_MUL B pc g) g vs (x * y)"
proof -
  have "emits pc (push_attach B pc (createBin B Mul a b) (g\<lparr>m_local := rev vs\<rparr>)) g vs (x * y)"
    using assms by (intro emitsI wordv_bin [of a x b y] bin_inst) (auto simp: bin_value_words)
  then show ?thesis
    using assms(1,2,3) by (simp add: case_MUL_def stack_pop_def butlast_append wordv_def typed_def)
qed

lemma cases_division:
  assumes "m_local g = rev (a # b # vs)" "wordv a x" "wordv b y" "isInst B a \<or> isInst B b" "y \<noteq> 0"
  shows "emits pc (case_DIV B pc g) g vs (x div y)"
    and "emits pc (case_MOD B pc g) g vs (x mod y)"
    and "\<not> (x = 2 ^ 255 \<and> y = - 1) \<Longrightarrow> emits pc (case_SDIV B pc g) g vs (evm_sdiv x y)"
    and "\<not> (x = 2 ^ 255 \<and> y = - 1) \<Longrightarrow> emits pc (case_SMOD B pc g) g vs (evm_smod x y)"
  unfolding case_DIV_def case_MOD_def case_SDIV_def case_SMOD_def
  by (rule case_bin [OF assms(1-4)]; use assms(5) in \<open>simp add: bin_value_words bin_defined_words evm_sdiv_def evm_smod_def\<close>)+

lemma cases_shift:
  assumes "m_local g = rev (a # b # vs)" "wordv a k" "wordv b x" "isInst B a \<or> isInst B b" "k < 256"
  shows "emits pc (case_SHL B pc g) g vs (push_bit (unat k) x)"
    and "emits pc (case_SHR B pc g) g vs (drop_bit (unat k) x)"
    and "emits pc (case_SAR B pc g) g vs (evm_sar k x)"
  unfolding case_SHL_def case_SHR_def case_SAR_def
  by (rule case_shift [OF assms(1-4)]; use assms(5) in \<open>simp add: bin_value_words bin_defined_words evm_sar_def\<close>)+

section \<open>One instruction\<close>

lemma alu1_sim:
  assumes "evm_alu inst = Some (Op1 f)" "m_local g = rev (a # vs)" "wordv a x" "isInst B a"
  shows "emits (firstInstrIdx b + it - bb_begin b) (compile_op B b it inst g) g vs (f x)"
  using evm_alu_cases [OF assms(1)] assms case_unary
  by (auto simp: evm_alu_def compile_op_def Let_def split: if_splits)

lemma alu2_sim:
  assumes "evm_alu inst = Some (Op2 f)" "m_local g = rev (a # b # vs)" "wordv a x" "wordv b y"
    and "isInst B a \<or> isInst B b" "ir_defined inst (x # y # s)"
  shows "emits (firstInstrIdx blk + it - bb_begin blk) (compile_op B blk it inst g) g vs (f x y)"
  using evm_alu_cases [OF assms(1)] assms(1,6) cases_total [OF assms(2-5)] case_MUL_ok [OF assms(2-5)]
    cases_division [OF assms(2-5)] cases_shift [OF assms(2-5)] case_SIGNEXTEND_ok [OF assms(2-5)]
  by (elim insertE emptyE; simp add: evm_alu_def compile_op_def ir_defined_def; (hypsubst, simp)?)

lemma alu3_sim:
  assumes "evm_alu inst = Some (Op3 f)" "m_local g = rev (a # b # m # vs)" "wordv a x" "wordv b y" "wordv m z"
    and "isInst B a \<or> isInst B b \<or> isInst B m" "ir_defined inst (x # y # z # s)"
  shows "emits (firstInstrIdx blk + it - bb_begin blk) (compile_op B blk it inst g) g vs (f x y z)"
  using evm_alu_cases [OF assms(1)] assms(1,7) case_wide_mod [OF assms(2-5) _ assms(6)]
  by (elim insertE emptyE; simp add: evm_alu_def compile_op_def ir_defined_def; (hypsubst, simp)?)

text \<open>The instructions that only move items.\<close>

lemma move_sim:
  assumes "evm_alu inst = None" "evm_move inst (rev (m_local g)) = Some vs'"
    and "inst = I_JUMPDEST \<Longrightarrow> it = bb_begin b"
  shows "compile_op B b it inst g = Inr (g\<lparr>m_local := rev vs',
    jumpTable := jumpTable g @ (if inst = I_JUMPDEST then [firstInstrIdx b] else [])\<rparr>)"
  using assms(1,2)
proof (cases rule: move_cases)
  case 1
  then show ?thesis using assms(2)
    by (auto simp: compile_op_def evm_move_def case_POP_def stack_pop_def split: if_splits simp flip: butlast_rev)
next
  case 2
  then have "inst \<noteq> I_JUMPDEST" by auto
  then show ?thesis using 2 assms(2) compile_op_dup [OF 2, of B b it g] dup_rev [of "unat inst - 0x80" g B]
    by (auto simp: evm_move_def Let_def case_DUP_def split: if_splits)
next
  case 3
  then have ne: "inst \<noteq> I_JUMPDEST" "inst \<noteq> I_POP" "\<not> inst \<le> I_DUP16" by (auto simp: word_le_nat_alt)
  from 3 have "0x90 \<le> unat inst" by (simp add: word_le_nat_alt)
  then have "unat inst - 0x8f = Suc (unat inst - 0x90)" by simp
  then show ?thesis using 3 ne assms(2) compile_op_swap [OF 3, of B b it g] swap_rev [of "unat inst - 0x90" g B]
    by (auto simp: evm_move_def Let_def case_SWAP_def split: if_splits)
next
  case 4
  then show ?thesis using assms(2,3)
    by (cases g) (auto simp: compile_op_def evm_move_def case_JUMPDEST_def)
qed

lemma represents_iff:
  "represents B den g \<sigma> \<longleftrightarrow>
     (\<exists>vs. m_local g = rev vs \<and> list_all2 wordv vs (fst \<sigma>) \<and> list_all2 (\<lambda>v r. isInst B v = r) vs (snd \<sigma>))"
proof -
  have "map (isInst B) vs = rs \<longleftrightarrow> list_all2 (\<lambda>v r. isInst B v = r) vs rs" for vs rs
    by (induction vs arbitrary: rs) (auto simp: list_all2_Cons1)
  moreover have "(\<lambda>v x. typeOf B v = Word \<and> den v = Some (uint x)) = wordv"
    by (auto simp: wordv_def typed_def fun_eq_iff)
  ultimately show ?thesis
    by (simp add: represents_def) (metis rev_rev_ident)
qed

lemma emits_represents:
  assumes "emits pc m g vs x" "list_all2 wordv vs s" "list_all2 (\<lambda>v r. isInst B v = r) vs r"
  shows "\<exists>g'. m = Inr g' \<and> represents B den g' (x # s, True # r) \<and> jumpTable g' = jumpTable g"
proof -
  obtain v where v: "m = Inr (g\<lparr>m_local := rev (v # vs), bytecodePC := bytecodePC g @ [(v, pc)]\<rparr>)"
    "wordv v x" "isInst B v"
    using assms(1) by (auto simp: emits_def)
  let ?g = "g\<lparr>m_local := rev (v # vs), bytecodePC := bytecodePC g @ [(v, pc)]\<rparr>"
  have "represents B den ?g (x # s, True # r)"
    unfolding represents_iff by (rule exI [of _ "v # vs"]) (use v assms(2,3) in simp)
  then show ?thesis using v(1) by auto
qed

text \<open>An arithmetic instruction, whatever its number of operands.\<close>

lemma alu_sim:
  assumes "evm_alu inst = Some a" "m_local g = rev vs" "list_all2 wordv vs s" "list_all2 (\<lambda>v r. isInst B v = r) vs r"
    and "evm_apply a s = Some s'" "rt_apply a r = Some r'" "ir_defined inst s"
  shows "\<exists>g'. compile_op B b it inst g = Inr g' \<and> represents B den g' (s', r') \<and> jumpTable g' = jumpTable g"
proof (cases a)
  case (Op1 f)
  then obtain x s0 r0 where "s = x # s0" "s' = f x # s0" "r = True # r0" "r' = True # r0"
    using assms(5,6) by (cases s; cases r) (auto split: if_splits)
  then show ?thesis using assms Op1
    by (auto simp: list_all2_Cons2 intro!: emits_represents alu1_sim)
next
  case (Op2 f)
  then obtain x y s0 p q r0 where "s = x # y # s0" "s' = f x y # s0" "r = p # q # r0" "r' = True # r0" "p \<or> q"
    using assms(5,6) by (cases "(a, s)" rule: evm_apply.cases; cases "(a, r)" rule: rt_apply.cases) (auto split: if_splits)
  then show ?thesis using assms Op2
    by (auto simp: list_all2_Cons2 intro!: emits_represents alu2_sim)
next
  case (Op3 f)
  then obtain x y z s0 p q u r0 where "s = x # y # z # s0" "s' = f x y z # s0" "r = p # q # u # r0"
    "r' = True # r0" "p \<or> q \<or> u"
    using assms(5,6) by (cases "(a, s)" rule: evm_apply.cases; cases "(a, r)" rule: rt_apply.cases) (auto split: if_splits)
  then show ?thesis using assms Op3
    by (auto simp: list_all2_Cons2 intro!: emits_represents alu3_sim)
qed

lemma step_sim:
  assumes "represents B den g \<sigma>" "safe_step inst \<sigma> = Some \<sigma>'" "inst = I_JUMPDEST \<Longrightarrow> it = bb_begin b"
  shows "\<exists>g'. compile_op B b it inst g = Inr g' \<and> represents B den g' \<sigma>'
    \<and> jumpTable g' = jumpTable g @ (if inst = I_JUMPDEST then [firstInstrIdx b] else [])"
proof -
  obtain vs where vs: "m_local g = rev vs" "list_all2 wordv vs (fst \<sigma>)" "list_all2 (\<lambda>v r. isInst B v = r) vs (snd \<sigma>)"
    using assms(1) represents_iff by blast
  have st: "evm_step inst (fst \<sigma>) = Some (fst \<sigma>')" "rt_step inst (snd \<sigma>) = Some (snd \<sigma>')" "ir_defined inst (fst \<sigma>)"
    using assms(2) by (auto simp: safe_step_def split: option.splits if_splits)
  show ?thesis
  proof (cases "evm_alu inst")
    case None
    then obtain vs' where vs': "evm_move inst vs = Some vs'" "list_all2 wordv vs' (fst \<sigma>')"
      "list_all2 (\<lambda>v r. isInst B v = r) vs' (snd \<sigma>')"
      using st evm_move_all2 [OF vs(2)] evm_move_all2 [OF vs(3)] by (fastforce simp: evm_step_def rt_step_def)
    then show ?thesis using move_sim [OF None _ assms(3), of g vs'] vs(1) by (auto simp: represents_iff)
  next
    case (Some a)
    then have "inst \<noteq> I_JUMPDEST" using evm_alu_cases [OF Some] by auto
    then show ?thesis
      using alu_sim [OF Some vs, of "fst \<sigma>'" "snd \<sigma>'" b it] st Some by (simp add: evm_step_def rt_step_def)
  qed
qed

lemma push_represents:
  assumes "represents B den g \<sigma>"
  shows "represents B den (stack_push (constInt B Word (uint x)) g) (x # fst \<sigma>, False # snd \<sigma>)"
  using assms wordv_const [of x] const_const [of Word "uint x"] const_not_inst
  by (auto simp: represents_def stack_push_def wordv_def typed_def)

section \<open>The block\<close>

lemma loop_sim:
  assumes "safe_run code (bb_end b) it \<sigma> = Some \<sigma>'" "represents B den g \<sigma>" "bb_end b \<le> length code"
    and "\<forall>i \<in> set (instrs code it (bb_end b)). code ! i = I_JUMPDEST \<longrightarrow> i = bb_begin b"
  shows "\<exists>g'. compileLoop B code b it g = Inr g' \<and> represents B den g' \<sigma>'
    \<and> jumpTable g' = jumpTable g @
        map (\<lambda>_. firstInstrIdx b) (filter (\<lambda>i. code ! i = I_JUMPDEST) (instrs code it (bb_end b)))"
  using assms
proof (induction code "bb_end b" it \<sigma> arbitrary: g rule: safe_run.induct)
  case (1 code it \<sigma>)
  consider "bb_end b \<le> it" | "it < bb_end b" "isPush (code ! it)" | "it < bb_end b" "\<not> isPush (code ! it)"
    by linarith
  then show ?case
  proof cases
    case 1
    then show ?thesis using "1.prems" by (simp add: safe_run.simps compileLoop.simps)
  next
    case 2
    let ?it = "skipPushDataAndGetNext code it (bb_end b)"
    let ?x = "of_nat (be_nat (pushSlice code (Suc it) (bb_end b) (pushBytes (code ! it)))) :: w256"
    have "readPushData code it (bb_end b) = Some (?x, ?it - 1)" "Suc (?it - 1) = ?it"
      using readPushData_eq [OF 2(2,1) "1.prems"(3)] getNext_gt [of it code "bb_end b"] by simp_all
    then have "compileLoop B code b it g = compileLoop B code b ?it (stack_push (constInt B Word (uint ?x)) g)"
      using 2 by (subst compileLoop.simps) simp
    moreover have "code ! it \<noteq> I_JUMPDEST" using 2(2) by (auto simp: isPush_def)
    moreover have "safe_run code (bb_end b) ?it (?x # fst \<sigma>, False # snd \<sigma>) = Some \<sigma>'"
      using "1.prems"(1) 2 by (subst (asm) safe_run.simps) simp
    ultimately show ?thesis
      using "1.hyps"(1) [OF _ 2(2) _ push_represents [OF "1.prems"(2)] "1.prems"(3)] "1.prems"(4) 2
      by (simp add: instrs_step stack_push_def)
  next
    case 3
    obtain \<sigma>1 where s1: "safe_step (code ! it) \<sigma> = Some \<sigma>1" "safe_run code (bb_end b) (Suc it) \<sigma>1 = Some \<sigma>'"
      using "1.prems"(1) 3 by (subst (asm) safe_run.simps) (auto split: option.splits)
    have steps: "instrs code it (bb_end b) = it # instrs code (Suc it) (bb_end b)"
      using 3 by (simp add: instrs_step getNext_other)
    then obtain g1 where g1: "compile_op B b it (code ! it) g = Inr g1" "represents B den g1 \<sigma>1"
      "jumpTable g1 = jumpTable g @ (if code ! it = I_JUMPDEST then [firstInstrIdx b] else [])"
      using step_sim [OF "1.prems"(2) s1(1), of it b] "1.prems"(4) by auto
    then have "compileLoop B code b it g = compileLoop B code b (Suc it) g1"
      using 3 by (subst compileLoop.simps) simp
    then show ?thesis
      using "1.hyps"(2) [OF _ 3(2) s1(1) s1(2) g1(2) "1.prems"(3)] "1.prems"(4) steps g1(3) 3 by auto
  qed
qed

end

lemma safe_run_evm: "safe_run code e it \<sigma> = Some \<sigma>' \<Longrightarrow> evm_run code e it (fst \<sigma>) = Some (fst \<sigma>')"
proof (induction code e it \<sigma> rule: safe_run.induct)
  case (1 code e it \<sigma>)
  have step: "evm_step (code ! it) (fst \<sigma>) = Some (fst \<sigma>1)" if "safe_step (code ! it) \<sigma> = Some \<sigma>1" for \<sigma>1
    using that by (auto simp: safe_step_def split: option.splits if_splits)
  from "1.prems" show ?case
    using "1.IH" step by (subst (asm) safe_run.simps, subst evm_run.simps) (fastforce split: if_splits option.splits)
qed

lemma jumpdest_first:
  assumes "wf_block code b"
  shows "map (\<lambda>_. firstInstrIdx b) (filter (\<lambda>i. code ! i = I_JUMPDEST) (instrs code (bb_begin b) (bb_end b)))
       = (if code ! bb_begin b = I_JUMPDEST then [firstInstrIdx b] else [])"
proof -
  let ?r = "instrs code (skipPushDataAndGetNext code (bb_begin b) (bb_end b)) (bb_end b)"
  have "filter (\<lambda>i. code ! i = I_JUMPDEST) ?r = []"
    using assms instrs_range [of _ code "skipPushDataAndGetNext code (bb_begin b) (bb_end b)" "bb_end b"]
      getNext_gt [of "bb_begin b" code "bb_end b"]
    by (fastforce simp: wf_block_def instrs_step filter_empty_conv)
  moreover have "bb_begin b < bb_end b" using assms by (simp add: wf_block_def)
  ultimately show ?thesis by (simp add: instrs_step)
qed

context ir_folding
begin

lemma const_result: "isConst B v \<Longrightarrow> push_attach B pc v g = Inl CastToInstruction"
  using const_not_inst by (simp add: push_attach_def attachPC_def)

definition all_const :: "'v Gen \<Rightarrow> bool" where
  "all_const g \<longleftrightarrow> (\<forall>v \<in> set (m_local g). isConst B v)"

lemma pop_const:
  assumes "all_const g"
  shows "isConst B (fst (stack_pop B g))" "all_const (snd (stack_pop B g))"
  using assms const_const by (auto simp: stack_pop_def all_const_def dest: in_set_butlastD)

lemmas folds = const_result pop_const const_const bin_const icmp_const select_const not_const zext_const trunc_const

lemma alu_const_abort:
  assumes "all_const g" "evm_alu inst = Some a"
  shows "compile_op B b it inst g = Inl CastToInstruction"
  using evm_alu_cases [OF assms(2)] assms(1)
  by (elim insertE emptyE; simp add: compile_op_def case_ADD_def case_SUB_def case_MUL_def case_DIV_def case_SDIV_def
      case_MOD_def case_SMOD_def case_ADDMOD_def case_MULMOD_def case_NOT_def case_LT_def case_GT_def
      case_SLT_def case_SGT_def case_EQ_def case_ISZERO_def case_AND_def case_OR_def case_XOR_def
      case_SIGNEXTEND_def case_SHL_def case_SHR_def case_SAR_def widen_def split_beta Let_def folds)

end

context llvm_ir
begin

lemma push_result:
  "typed r w x \<Longrightarrow> isInst B r \<Longrightarrow>
   \<exists>r' g'. push_attach B pc r g = Inr g' \<and> m_local g' = m_local g @ [r'] \<and> den r' = Some x"
  by (auto simp: push_attach_def attachPC_def stack_push_def typed_def)

end

section \<open>Properties\<close>

text \<open>
  C2: the code generator is correct on the arithmetic, comparison, bit and stack instructions.
  On a block of the partition, from a symbolic stack that represents an EVM stack, whenever the
  EVM run of the block meets no operand for which the LLVM instruction is undefined and no
  instruction on constants only, the generator succeeds, the symbolic stack it leaves
  represents exactly the stack of the EVM after the block, and the block is entered in the
  jump table if and only if it starts with a JUMPDEST.
\<close>

theorem compileBasicBlock_simulates_evm:
  assumes "llvm_ir B den" "wf_block code b" "represents B den g (stk, rt)"
    and "safe_run code (bb_end b) (bb_begin b) (stk, rt) = Some (stk', rt')"
  shows "evm_run code (bb_end b) (bb_begin b) stk = Some stk'
    \<and> (\<exists>g'. compileBasicBlock B code b g = Inr g' \<and> represents B den g' (stk', rt')
        \<and> jumpTable g' = jumpTable g @ (if code ! bb_begin b = I_JUMPDEST then [firstInstrIdx b] else []))"
  using llvm_ir.loop_sim [OF assms(1,4,3)] safe_run_evm [OF assms(4)] assms(2) jumpdest_first [OF assms(2)]
  by (simp add: wf_block_def compileBasicBlock_def)

text \<open>JUMPDEST, PUSH1 3, ADD, DUP1, MUL on a stack that holds the value 5.\<close>

definition sample_code :: "byte list" where
  "sample_code = [0x5b, 0x60, 3, 0x01, 0x80, 0x02]"

definition sample_gen :: "folded Gen" where
  "sample_gen = \<lparr>m_local = [\<lparr>f_width = 256, f_val = Some 5, f_const = False\<rparr>], bytecodePC = [], jumpTable = []\<rparr>"

lemma sample_wf: "wf_block sample_code (mkBasicBlock sample_code 0 6)"
  by code_simp

lemma sample_block_run: "safe_run sample_code 6 0 ([5], [True]) = Some ([64], [True])"
  by code_simp

theorem compileBasicBlock_simulates_evm_witness:
  "evm_run sample_code 6 0 [5] = Some [64]
    \<and> (\<exists>g'. compileBasicBlock fold_builder sample_code (mkBasicBlock sample_code 0 6) sample_gen = Inr g'
        \<and> represents fold_builder f_val g' ([64], [True]) \<and> jumpTable g' = [0])"
proof -
  have "represents fold_builder f_val sample_gen ([5], [True])"
    by (simp add: represents_def sample_gen_def fold_builder_def)
  from compileBasicBlock_simulates_evm [OF folding.llvm_ir_axioms sample_wf this, of "[64]" "[True]"] show ?thesis
    using sample_block_run by (simp add: mkBasicBlock_def Let_def split_beta sample_code_def sample_gen_def)
qed

text \<open>
  An arithmetic instruction all of whose operands are constants, and the instruction PC
  always, abort the generator: the folding builder returns a constant, which the cast to an
  instruction rejects. A block that pushes two constants and adds them is enough.
\<close>

theorem constant_operands_abort:
  assumes "ir_folding B" "\<forall>v \<in> set (m_local g). isConst B v" "evm_alu inst \<noteq> None \<or> inst = I_PC"
  shows "compile_op B b it inst g = Inl CastToInstruction"
  using assms(3)
proof
  assume "evm_alu inst \<noteq> None"
  then show ?thesis
    using ir_folding.alu_const_abort [OF assms(1)] assms(2) ir_folding.all_const_def [OF assms(1), of g] by blast
next
  assume "inst = I_PC"
  then show ?thesis
    using ir_folding.const_result [OF assms(1)] ir_folding.const_const [OF assms(1)]
    by (simp add: compile_op_def case_PC_def)
qed

theorem constant_operands_abort_witness:
  "compile_op fold_builder (mkBasicBlock [0x60, 2, 0x60, 1, 0x01] 0 5) 4 I_ADD (stack_push (constInt fold_builder Word 1)
     (stack_push (constInt fold_builder Word 2) \<lparr>m_local = [], bytecodePC = [], jumpTable = []\<rparr>)) =
   Inl CastToInstruction"
  by (rule constant_operands_abort [OF folding.ir_folding_axioms])
    (simp_all add: stack_push_def fold_builder_def evm_alu_def)

text \<open>
  Operands of different widths. ADD extends both to 256 bits and adds them; MUL
  overwrites the second operand and pushes the square of the first.
\<close>

theorem mixed_width_operands:
  assumes "llvm_ir B den" "m_local g = vs @ [v, u]" "isInst B u"
    and "den u = Some x" "den v = Some y" "typeOf B u \<le> Word" "typeOf B v \<le> Word" "typeOf B u \<noteq> typeOf B v"
  shows "(\<exists>r g'. case_ADD B pc g = Inr g' \<and> m_local g' = vs @ [r] \<and> den r = Some (take_bit Word (x + y)))
       \<and> (\<exists>r g'. case_MUL B pc g = Inr g' \<and> m_local g' = vs @ [r] \<and> den r = Some (take_bit Word (x * x)))"
proof -
  note lr = assms(1)
  let ?u = "createZExt B u Word" and ?v = "createZExt B v Word"
  have t: "llvm_ir.typed B den ?u Word x" "llvm_ir.typed B den ?v Word y"
    using llvm_ir.typed_zext [OF lr] llvm_ir.typed_def [OF lr] assms by blast+
  have tt: "llvm_ir.typed B den (createZExt B ?u Word) Word x"
    using llvm_ir.typed_zext [OF lr t(1)] by simp
  have bin: "bin_value Add Word x y = take_bit Word (x + y)" "bin_value Mul Word x x = take_bit Word (x * x)"
    by (simp_all add: bin_value_def)
  have i: "isInst B ?u" using lr assms(3) by (simp add: ir_folding.zext_inst llvm_ir.axioms(1))
  then have j: "isInst B (createBin B Add ?u ?v)" "isInst B (createBin B Mul ?u (createZExt B ?u Word))"
    using ir_folding.bin_inst [OF llvm_ir.axioms(1) [OF lr]] by blast+
  note add = llvm_ir.typed_bin [OF lr t, of Add, unfolded bin, simplified]
  note mul = llvm_ir.typed_bin [OF lr t(1) tt, of Mul, unfolded bin, simplified]
  show ?thesis
    using llvm_ir.push_result [OF lr add j(1), of pc "g\<lparr>m_local := vs\<rparr>"]
      llvm_ir.push_result [OF lr mul j(2), of pc "g\<lparr>m_local := vs\<rparr>"] assms(2,8)
    by (simp add: case_ADD_def case_MUL_def widen_def stack_pop_def butlast_append Let_def)
qed

text \<open>The address of the account, 160 bits wide, times and plus a word: 3 times 5 gives 9.\<close>

theorem mixed_width_operands_witness:
  "(\<exists>r g'. case_ADD fold_builder 0 (\<lparr>m_local = [] @ [\<lparr>f_width = 256, f_val = Some 5, f_const = False\<rparr>,
        \<lparr>f_width = 160, f_val = Some 3, f_const = False\<rparr>], bytecodePC = [], jumpTable = []\<rparr>) = Inr g'
      \<and> m_local g' = [] @ [r] \<and> f_val r = Some (take_bit Word (3 + 5)))
   \<and> (\<exists>r g'. case_MUL fold_builder 0 (\<lparr>m_local = [] @ [\<lparr>f_width = 256, f_val = Some 5, f_const = False\<rparr>,
        \<lparr>f_width = 160, f_val = Some 3, f_const = False\<rparr>], bytecodePC = [], jumpTable = []\<rparr>) = Inr g'
      \<and> m_local g' = [] @ [r] \<and> f_val r = Some (take_bit Word (3 * 3)))"
  by (rule mixed_width_operands [OF folding.llvm_ir_axioms], simp) (simp_all add: fold_builder_def)

end
