(* ===== verification/Hera.thy ===== *)
theory Hera
  imports Eei_Functional
begin

text \<open>
  The virtual machine instance of Hera (src/evmtrans/hera/hera.cpp) and its helpers
  (helpers.cpp): the options of an instance, the calls to the three system contracts and the
  execution of a message, from the choice of the code that runs to the EVMC result. The
  engine is a record of its two methods, as the abstract class WasmEngine has them; the
  instance that runs is WabtEngine. The state of an execution is the instance, whose map of
  preloaded contracts grows when it is read with the index operator, and the host context.
  The outcome \<open>None\<close> of an execution stands for undefined behaviour. Debug output is left out.
\<close>

section \<open>Helpers (helpers.cpp)\<close>

definition hasWasmPreamble :: "byte list \<Rightarrow> bool" where
  "hasWasmPreamble input \<longleftrightarrow>
     8 \<le> length input \<and> input ! 0 = 0 \<and> input ! 1 = 0x61 \<and> input ! 2 = 0x73 \<and> input ! 3 = 0x6d"

definition hasWasmVersion :: "byte list \<Rightarrow> byte \<Rightarrow> bool" where
  "hasWasmVersion input version \<longleftrightarrow>
     8 \<le> length input \<and> input ! 4 = version \<and> input ! 5 = 0 \<and> input ! 6 = 0 \<and> input ! 7 = 0"

definition hexDigit :: "nat \<Rightarrow> char" where
  "hexDigit n = char_of (if n < 10 then 48 + n else 87 + n)"

definition hexByte :: "byte \<Rightarrow> string" where
  "hexByte b = [hexDigit (unat b div 16), hexDigit (unat b mod 16)]"

definition bytesAsHexStr :: "byte list \<Rightarrow> string" where
  "bytesAsHexStr input = ''0x'' @ concat (map hexByte input)"

definition toHex :: "uint256be \<Rightarrow> string" where
  "toHex x = ''0x'' @ concat (map hexByte (bytes_be 32 x))"

definition nibble2value :: "char \<Rightarrow> nat option" where
  "nibble2value c =
     (let i = of_char c :: nat in
      if 48 \<le> i \<and> i \<le> 57 then Some (i - 48)
      else if 97 \<le> i \<and> i \<le> 102 then Some (i - 97 + 10)
      else if 65 \<le> i \<and> i \<le> 70 then Some (i - 65 + 10)
      else None)"

fun parseHexLoop :: "string \<Rightarrow> byte list \<Rightarrow> byte list" where
  "parseHexLoop (h # l # input) ret =
     (case (nibble2value h, nibble2value l) of
        (Some hi, Some lo) \<Rightarrow> parseHexLoop input (ret @ [of_nat (push_bit 4 hi OR lo)])
      | _ \<Rightarrow> [])"
| "parseHexLoop _ ret = ret"

text \<open>
  For an empty input the bound of the loop wraps around and the loop is entered once; the
  character it reads is the terminating zero, which is no digit.
\<close>

definition parseHexString :: "string \<Rightarrow> byte list" where
  "parseHexString input =
     (if length input mod 2 \<noteq> 0 then []
      else if input = [] then (case nibble2value (char_of (0::nat)) of None \<Rightarrow> [] | Some v \<Rightarrow> [of_nat v])
      else parseHexLoop input [])"

section \<open>The instance\<close>

record 'h WasmEngine =
  we_execute ::
    "'h HostContext \<Rightarrow> byte list \<Rightarrow> byte list \<Rightarrow> evmc_message \<Rightarrow> bool
     \<Rightarrow> (hera_exception + ExecutionResult) \<times> 'h HostContext"
  we_verifyContract :: "byte list \<Rightarrow> hera_exception + unit"

definition WabtEngine_create ::
  "(import_sig list \<Rightarrow> byte list \<Rightarrow> wasm_module option) \<Rightarrow> (wasm_module \<Rightarrow> ('h, bool) eei) \<Rightarrow> 'h WasmEngine" where
  "WabtEngine_create load run =
     \<lparr>we_execute = WabtEngine_execute load run, we_verifyContract = WabtEngine_verifyContract load\<rparr>"

datatype hera_evm1mode = Reject | Fallback | Evm2wasm_contract | Runevm_contract

definition evm1mode_options :: "(string \<times> hera_evm1mode) list" where
  "evm1mode_options =
     [(''reject'', Reject), (''fallback'', Fallback), (''evm2wasm'', Evm2wasm_contract),
      (''runevm'', Runevm_contract)]"

record 'h hera_instance =
  engine :: "'h WasmEngine option"
  evm1mode :: hera_evm1mode
  metering :: bool
  contract_preload_list :: "address \<rightharpoonup> byte list"

definition evmc_create_hera :: "'h WasmEngine \<Rightarrow> 'h hera_instance" where
  "evmc_create_hera newEngine =
     \<lparr>engine = Some newEngine, evm1mode = Reject, metering = False, contract_preload_list = Map.empty\<rparr>"

definition sentinelAddress :: address where "sentinelAddress = 0x0a"
definition evm2wasmAddress :: address where "evm2wasmAddress = 0x0b"
definition runevmAddress :: address where "runevmAddress = 0x0c"

record 'h hera_state =
  hera :: "'h hera_instance"
  host :: "'h HostContext"

type_synonym ('h, 'a) hera_m = "('h hera_state, hera_exception, 'a) eff"

section \<open>System contracts\<close>

definition system_message :: "address \<Rightarrow> int \<Rightarrow> byte list \<Rightarrow> evmc_message" where
  "system_message address gas data =
     \<lparr>msg_kind = EVMC_CALL, msg_flags = EVMC_STATIC, msg_depth = 0, msg_gas = gas,
      msg_destination = address, msg_sender = 0, msg_input = data, msg_value = 0\<rparr>"

definition callSystemContract ::
  "'h HostInterface \<Rightarrow> address \<Rightarrow> int \<Rightarrow> byte list \<Rightarrow> ('h, (evmc_status_code \<times> byte list) \<times> int) hera_m" where
  "callSystemContract H address gas data s =
     (let (r, h) = host_call H (host_state (host s)) (system_message address gas data);
          ret = (if status_code r = EVMC_SUCCESS then (case output_data r of Some d \<Rightarrow> d | None \<Rightarrow> []) else [])
      in (Inr ((status_code r, ret), gas_left r), s\<lparr>host := (host s)\<lparr>host_state := h\<rparr>\<rparr>))"

definition locallyExecuteSystemContract ::
  "'h WasmEngine \<Rightarrow> address \<Rightarrow> int \<Rightarrow> byte list \<Rightarrow> byte list \<Rightarrow> byte list
   \<Rightarrow> ('h, evmc_status_code \<times> byte list) hera_m" where
  "locallyExecuteSystemContract newEngine address gas data code state_code s =
     (case we_execute newEngine (host s) code state_code (system_message address gas data) False of
        (Inl e, c) \<Rightarrow> (Inl e, s\<lparr>host := c\<rparr>)
      | (Inr r, c) \<Rightarrow>
          (let status = (if isRevert r then EVMC_REVERT else EVMC_SUCCESS);
               ret = (if status = EVMC_SUCCESS then returnValue r else [])
           in (Inr (status, ret), s\<lparr>host := c\<rparr>)))"

definition sentinel :: "'h HostInterface \<Rightarrow> byte list \<Rightarrow> ('h, byte list) hera_m" where
  "sentinel H data =
     bindE (callSystemContract H sentinelAddress int64_max data) (\<lambda>((status, ret), gas).
     seqE (ensureE (status = EVMC_SUCCESS) ContractValidationFailure) (returnE ret))"

definition evm2wasm :: "'h HostInterface \<Rightarrow> byte list \<Rightarrow> ('h, byte list) hera_m" where
  "evm2wasm H data =
     bindE (callSystemContract H evm2wasmAddress int64_max data) (\<lambda>((status, ret), gas).
     seqE (ensureE (status = EVMC_SUCCESS) ContractValidationFailure) (returnE ret))"

definition runevm :: "'h WasmEngine \<Rightarrow> byte list \<Rightarrow> ('h, byte list) hera_m" where
  "runevm newEngine code =
     bindE (locallyExecuteSystemContract newEngine runevmAddress int64_max [] code code) (\<lambda>(status, ret).
     seqE (ensureE (status = EVMC_SUCCESS) ContractValidationFailure)
     (seqE (ensureE (0 < length ret) ContractValidationFailure)
     (seqE (ensureE (hasWasmPreamble ret) ContractValidationFailure) (returnE ret))))"

text \<open>Reading the map of preloaded contracts with the index operator inserts an empty contract.\<close>

definition preload_at :: "address \<Rightarrow> ('h, byte list) hera_m" where
  "preload_at a s =
     (case contract_preload_list (hera s) a of
        Some c \<Rightarrow> (Inr c, s)
      | None \<Rightarrow>
          (Inr [], s\<lparr>hera := (hera s)\<lparr>contract_preload_list := (contract_preload_list (hera s))(a \<mapsto> [])\<rparr>\<rparr>))"

section \<open>Executing a message\<close>

definition empty_result :: evmc_result where
  "empty_result = \<lparr>status_code = EVMC_SUCCESS, gas_left = 0, output_data = None, create_address = 0\<rparr>"

definition wasmVersion1 :: "byte list \<Rightarrow> bool" where
  "wasmVersion1 code \<longleftrightarrow> hasWasmPreamble code \<and> hasWasmVersion code 1"

text \<open>The code a creation returns is metered and verified before it is handed to the client.\<close>

definition verifyDeployed :: "'h WasmEngine \<Rightarrow> byte list \<Rightarrow> ('h, unit) hera_m" where
  "verifyDeployed E code s = (we_verifyContract E code, s)"

definition deployedCode ::
  "'h HostInterface \<Rightarrow> 'h WasmEngine \<Rightarrow> evmc_message \<Rightarrow> ExecutionResult \<Rightarrow> ('h, byte list) hera_m" where
  "deployedCode H E msg result =
     (if msg_kind msg = EVMC_CREATE \<and> \<not> isRevert result \<and> hasWasmPreamble (returnValue result) then
        seqE (ensureE (hasWasmVersion (returnValue result) 1) ContractValidationFailure)
        (bindE (getE (\<lambda>s. metering (hera s))) (\<lambda>meter.
         bindE (if meter then sentinel H (returnValue result) else returnE (returnValue result)) (\<lambda>code.
         seqE (ensureE (wasmVersion1 code) ContractValidationFailure)
         (seqE (verifyDeployed E code) (returnE code)))))
      else returnE (returnValue result))"

definition engineExecute ::
  "'h WasmEngine \<Rightarrow> byte list \<Rightarrow> byte list \<Rightarrow> evmc_message \<Rightarrow> bool \<Rightarrow> ('h, ExecutionResult) hera_m" where
  "engineExecute E code state_code msg meter s =
     (case we_execute E (host s) code state_code msg meter of (r, c) \<Rightarrow> (r, s\<lparr>host := c\<rparr>))"

text \<open>From the version check to the result, for the code that will run.\<close>

definition runCode ::
  "'h HostInterface \<Rightarrow> evmc_message \<Rightarrow> byte list \<Rightarrow> bool \<Rightarrow> bool \<Rightarrow> byte list \<Rightarrow> ('h, evmc_result) hera_m" where
  "runCode H msg state_code isWasm meterInterfaceGas run_code =
     seqE (ensureE (hasWasmVersion run_code 1) ContractValidationFailure)
     (bindE
       (if msg_kind msg = EVMC_CREATE \<and> isWasm then
          bindE (getE (\<lambda>s. metering (hera s))) (\<lambda>meter.
          bindE (if meter then sentinel H run_code else returnE run_code) (\<lambda>code.
          seqE (ensureE (wasmVersion1 code) ContractValidationFailure) (returnE code)))
        else returnE run_code) (\<lambda>run_code.
      bindE (getE (\<lambda>s. engine (hera s))) (\<lambda>e. case e of
        None \<Rightarrow> throwE InternalErrorException
      | Some E \<Rightarrow>
          bindE (engineExecute E run_code state_code msg meterInterfaceGas) (\<lambda>result.
          seqE (ensureE (0 \<le> gasLeft result) InternalErrorException)
          (bindE (if 0 < length (returnValue result)
                  then bindE (deployedCode H E msg result) (\<lambda>out. returnE (Some out))
                  else returnE None) (\<lambda>out.
           returnE (empty_result\<lparr>output_data := out,
             status_code := (if isRevert result then EVMC_REVERT else EVMC_SUCCESS),
             gas_left := gasLeft result\<rparr>)))))))"

definition hera_try ::
  "'h HostInterface \<Rightarrow> 'h WasmEngine \<Rightarrow> evmc_revision \<Rightarrow> evmc_message \<Rightarrow> byte list \<Rightarrow> ('h, evmc_result) hera_m" where
  "hera_try H newEngine revision msg code =
     seqE (ensureE (revision = EVMC_BYZANTIUM) InternalErrorException)
     (seqE (ensureE (0 \<le> msg_gas msg) InternalErrorException)
     (bindE (getE (\<lambda>s. case contract_preload_list (hera s) (msg_destination msg) of
                         Some c \<Rightarrow> c | None \<Rightarrow> code)) (\<lambda>run_code.
      bindE (getE (\<lambda>s. evm1mode (hera s))) (\<lambda>mode.
      if hasWasmPreamble run_code then runCode H msg code True True run_code
      else (case mode of
              Evm2wasm_contract \<Rightarrow>
                bindE (evm2wasm H run_code) (\<lambda>run_code.
                seqE (ensureE (8 < length run_code) ContractValidationFailure)
                (runCode H msg code False True run_code))
            | Fallback \<Rightarrow> returnE (empty_result\<lparr>status_code := EVMC_REJECTED\<rparr>)
            | Reject \<Rightarrow> returnE (empty_result\<lparr>status_code := EVMC_FAILURE\<rparr>)
            | Runevm_contract \<Rightarrow>
                bindE (preload_at runevmAddress) (\<lambda>interp.
                bindE (runevm newEngine interp) (\<lambda>run_code.
                seqE (ensureE (8 < length run_code) ContractValidationFailure)
                (runCode H msg code False False run_code))))))))"

definition exception_status :: "hera_exception \<Rightarrow> evmc_status_code option" where
  "exception_status e =
     (case e of
        EndExecution \<Rightarrow> Some EVMC_INTERNAL_ERROR
      | VMTrap \<Rightarrow> Some EVMC_FAILURE
      | ArgumentOutOfRange \<Rightarrow> Some EVMC_ARGUMENT_OUT_OF_RANGE
      | OutOfGas \<Rightarrow> Some EVMC_OUT_OF_GAS
      | ContractValidationFailure \<Rightarrow> Some EVMC_CONTRACT_VALIDATION_FAILURE
      | InvalidMemoryAccess \<Rightarrow> Some EVMC_INVALID_MEMORY_ACCESS
      | StaticModeViolation \<Rightarrow> Some EVMC_STATIC_MODE_VIOLATION
      | InternalErrorException \<Rightarrow> Some EVMC_INTERNAL_ERROR
      | UndefinedBehaviour \<Rightarrow> None)"

definition hera_execute ::
  "'h HostInterface \<Rightarrow> 'h WasmEngine \<Rightarrow> 'h hera_instance \<Rightarrow> 'h \<Rightarrow> evmc_revision \<Rightarrow> evmc_message \<Rightarrow> byte list
   \<Rightarrow> evmc_result option \<times> 'h hera_instance \<times> 'h" where
  "hera_execute H newEngine vm ctx revision msg code =
     (case hera_try H newEngine revision msg code \<lparr>hera = vm, host = mkHostContext ctx\<rparr> of
        (Inr r, s) \<Rightarrow> (Some r, hera s, host_state (host s))
      | (Inl e, s) \<Rightarrow>
          (map_option (\<lambda>c. empty_result\<lparr>status_code := c\<rparr>) (exception_status e), hera s, host_state (host s)))"

section \<open>Options\<close>

definition system_aliases :: "(string \<times> address) list" where
  "system_aliases =
     [(''sentinel'', sentinelAddress), (''evm2wasm'', evm2wasmAddress), (''runevm'', runevmAddress)]"

definition sys_address :: "string \<Rightarrow> address option" where
  "sys_address name =
     (if take 2 name = ''0x'' then
        (let ret = parseHexString (drop 2 name) in
         if ret = [] then None else if length ret \<noteq> 20 then None else Some (word_be ret))
      else map_of system_aliases name)"

definition hera_parse_sys_option ::
  "(string \<Rightarrow> byte list) \<Rightarrow> 'h hera_instance \<Rightarrow> string \<Rightarrow> string \<Rightarrow> bool \<times> 'h hera_instance" where
  "hera_parse_sys_option loadFileContents vm name v =
     (case sys_address (drop 4 name) of
        None \<Rightarrow> (False, vm)
      | Some address \<Rightarrow>
          (let contents = loadFileContents v in
           if length contents = 0 then (False, vm)
           else (True, vm\<lparr>contract_preload_list := (contract_preload_list vm)(address \<mapsto> contents)\<rparr>)))"

definition wasm_engine_map :: "string list" where
  "wasm_engine_map = [''wabt'']"

text \<open>The last component is the flag WasmEngine::benchmarkingEnabled, which all instances share.\<close>

definition hera_set_option ::
  "(string \<Rightarrow> byte list) \<Rightarrow> 'h WasmEngine \<Rightarrow> 'h hera_instance \<Rightarrow> bool \<Rightarrow> string \<Rightarrow> string
   \<Rightarrow> evmc_set_option_result \<times> 'h hera_instance \<times> bool" where
  "hera_set_option loadFileContents newEngine vm bench name v =
     (if name = ''evm1mode'' then
        (case map_of evm1mode_options v of
           Some m \<Rightarrow> (EVMC_SET_OPTION_SUCCESS, vm\<lparr>evm1mode := m\<rparr>, bench)
         | None \<Rightarrow> (EVMC_SET_OPTION_INVALID_VALUE, vm, bench))
      else if name = ''metering'' then
        (if v = ''true'' then (EVMC_SET_OPTION_SUCCESS, vm\<lparr>metering := True\<rparr>, bench)
         else if v \<noteq> ''false'' then (EVMC_SET_OPTION_INVALID_VALUE, vm, bench)
         else (EVMC_SET_OPTION_SUCCESS, vm, bench))
      else if name = ''benchmark'' then
        (if v = ''true'' then (EVMC_SET_OPTION_SUCCESS, vm, True)
         else (EVMC_SET_OPTION_INVALID_VALUE, vm, bench))
      else if name = ''engine'' then
        (if v \<in> set wasm_engine_map then (EVMC_SET_OPTION_SUCCESS, vm\<lparr>engine := Some newEngine\<rparr>, bench)
         else (EVMC_SET_OPTION_INVALID_VALUE, vm, bench))
      else if take 4 name = ''sys:'' then
        (case hera_parse_sys_option loadFileContents vm name v of
           (True, vm') \<Rightarrow> (EVMC_SET_OPTION_SUCCESS, vm', bench)
         | (False, vm') \<Rightarrow> (EVMC_SET_OPTION_INVALID_VALUE, vm', bench))
      else (EVMC_SET_OPTION_INVALID_NAME, vm, bench))"

definition hera_get_capabilities :: "'h hera_instance \<Rightarrow> u32" where
  "hera_get_capabilities vm =
     (if evm1mode vm \<noteq> Reject then EVMC_CAPABILITY_EWASM OR EVMC_CAPABILITY_EVM1 else EVMC_CAPABILITY_EWASM)"

end
