(* ===== verification/Hera_Correct.thy ===== *)
theory Hera_Correct
  imports Hera
begin

text \<open>
  What an execution in Hera guarantees, for every engine that keeps its part: the contract of
  an engine is the locale wasm\_engine, and WabtEngine with an interpreter that only acts
  through the host functions is shown to meet it.
\<close>

section \<open>The contract of an engine\<close>

locale wasm_engine = evmc_host H world for H :: "'h HostInterface" and world :: "'h \<Rightarrow> 'w" +
  fixes E :: "'h WasmEngine"
  assumes exec_safe:
      "\<lbrakk>0 \<le> msg_gas msg; msg_gas msg \<le> int64_max; msg_value msg = 0;
        we_execute E ctx code state_code msg True = (res, ctx')\<rbrakk> \<Longrightarrow>
       res \<noteq> Inl UndefinedBehaviour
       \<and> (\<forall>r. res = Inr r \<longrightarrow> 0 \<le> gasLeft r \<and> gasLeft r \<le> msg_gas msg)
       \<and> (is_static (msg_flags msg) \<longrightarrow> world (host_state ctx') = world (host_state ctx))"
    and verify_safe: "we_verifyContract E code \<noteq> Inl UndefinedBehaviour"

locale wabt_engine = evmc_host H world for H :: "'h HostInterface" and world :: "'h \<Rightarrow> 'w" +
  fixes load :: "import_sig list \<Rightarrow> byte list \<Rightarrow> wasm_module option"
    and run :: "wasm_module \<Rightarrow> ('h, bool) eei"
  assumes runs: "engine_runs H run"
    and small_memory: "load exports code = Some m \<Longrightarrow> length (initial_memory m) \<le> 2 ^ 32"

sublocale wabt_engine \<subseteq> wasm_engine H world "WabtEngine_create load run"
proof
  fix msg :: evmc_message and ctx ctx' :: "'h HostContext" and code state_code res
  assume "0 \<le> msg_gas msg" "msg_gas msg \<le> int64_max" "msg_value msg = 0"
    "we_execute (WabtEngine_create load run) ctx code state_code msg True = (res, ctx')"
  then show "res \<noteq> Inl UndefinedBehaviour
      \<and> (\<forall>r. res = Inr r \<longrightarrow> 0 \<le> gasLeft r \<and> gasLeft r \<le> msg_gas msg)
      \<and> (is_static (msg_flags msg) \<longrightarrow> world (host_state ctx') = world (host_state ctx))"
    using wabt_execute_inv [OF evmc_host_axioms runs, of msg load code ctx state_code res ctx'] small_memory
    by (simp add: WabtEngine_create_def)
next
  fix code
  show "we_verifyContract (WabtEngine_create load run) code \<noteq> Inl UndefinedBehaviour"
    by (auto simp: WabtEngine_create_def WabtEngine_verifyContract_def validateModule_def
        split: sum.splits option.splits if_splits export_kind.splits)
qed

interpretation probe: wabt_engine example_host "\<lambda>h. h" "\<lambda>_ _. Some probe_module" probe_run
  by unfold_locales (auto simp: probe_engine probe_module_def)

section \<open>Computations that keep an invariant and return what they promise\<close>

definition yields :: "('s \<Rightarrow> bool) \<Rightarrow> 'e set \<Rightarrow> ('s, 'e, 'a) eff \<Rightarrow> ('a \<Rightarrow> bool) \<Rightarrow> bool" where
  "yields I bad m P \<longleftrightarrow> hoare I m (\<lambda>x s. I s \<and> P x) (\<lambda>e s. I s \<and> e \<notin> bad)"

lemma yields_bind:
  assumes "yields I bad m P" "\<And>x. P x \<Longrightarrow> yields I bad (f x) Q"
  shows "yields I bad (bindE m f) Q"
  using assms unfolding yields_def
  by (intro hoare_bind [where R = "\<lambda>x s. I s \<and> P x"]) (auto simp: hoare_def split: prod.splits sum.splits)

lemma yields_seq:
  "yields I bad m P \<Longrightarrow> (\<And>x. P x \<Longrightarrow> yields I bad k Q) \<Longrightarrow> yields I bad (seqE m k) Q"
  unfolding seqE_def by (rule yields_bind)

lemma yields_return: "P x \<Longrightarrow> yields I bad (returnE x) P"
  by (simp add: yields_def hoare_return)

lemma yields_throw: "e \<notin> bad \<Longrightarrow> yields I bad (throwE e) P"
  by (simp add: yields_def hoare_throw)

lemma yields_ensure: "e \<notin> bad \<Longrightarrow> yields I bad (ensureE c e) (\<lambda>_. c)"
  by (simp add: yields_def hoare_ensure)

lemma yields_get: "(\<And>s. I s \<Longrightarrow> P (f s)) \<Longrightarrow> yields I bad (getE f) P"
  by (simp add: yields_def hoare_get)

lemma yields_if:
  "(c \<Longrightarrow> yields I bad m P) \<Longrightarrow> (\<not> c \<Longrightarrow> yields I bad k P) \<Longrightarrow> yields I bad (if c then m else k) P"
  by simp

lemma yields_weaken: "yields I bad m P \<Longrightarrow> (\<And>x. P x \<Longrightarrow> Q x) \<Longrightarrow> yields I bad m Q"
  unfolding yields_def by (erule hoare_conseq) auto

lemma yieldsD:
  assumes "yields I bad m P" "I s" "m s = (r, t)"
  shows "I t" "r = Inr x \<Longrightarrow> P x" "r = Inl e \<Longrightarrow> e \<notin> bad"
  using assms by (cases r; fastforce simp: yields_def hoare_def split: sum.splits)+

lemmas yields_rules = yields_bind yields_seq yields_return yields_throw yields_if

section \<open>Executions\<close>

text \<open>What the client receives for a creation that succeeds with a contract.\<close>

definition deployable :: "'h WasmEngine \<Rightarrow> byte list \<Rightarrow> bool" where
  "deployable E out \<longleftrightarrow> hasWasmVersion out 1 \<and> we_verifyContract E out = Inr ()"

definition result_ok :: "'h WasmEngine \<Rightarrow> (int \<Rightarrow> bool) \<Rightarrow> evmc_message \<Rightarrow> evmc_result \<Rightarrow> bool" where
  "result_ok E G msg r \<longleftrightarrow>
     (if status_code r = EVMC_SUCCESS \<or> status_code r = EVMC_REVERT then G (gas_left r)
      else gas_left r = 0 \<and> output_data r = None)
   \<and> (msg_kind msg = EVMC_CREATE \<and> status_code r = EVMC_SUCCESS \<longrightarrow>
        (\<forall>out. output_data r = Some out \<and> hasWasmPreamble out \<longrightarrow> deployable E out))"

text \<open>
  The steps of an execution under an invariant of the state that the host calls and the
  engine keep. The predicate G bounds the gas the engine leaves.
\<close>

locale hera_run =
  fixes H :: "'h HostInterface" and E :: "'h WasmEngine" and I :: "'h hera_state \<Rightarrow> bool"
    and bad :: "hera_exception set" and G :: "int \<Rightarrow> bool" and msg :: evmc_message
  assumes calls: "yields I bad (callSystemContract H a g d) (\<lambda>_. True)"
    and executes: "yields I bad (engineExecute E code sc msg True) (\<lambda>r. G (gasLeft r))"
    and verifies: "we_verifyContract E code = Inl e \<Longrightarrow> e \<notin> bad"
    and has_engine: "I s \<Longrightarrow> engine (hera s) = Some E"
    and mode: "I s \<Longrightarrow> evm1mode (hera s) \<noteq> Runevm_contract"
    and harmless: "InternalErrorException \<notin> bad" "ContractValidationFailure \<notin> bad"
begin

lemma yields_checked:
  "yields I bad (seqE (ensureE c ContractValidationFailure) (returnE x)) (\<lambda>_. True)"
  by (rule yields_seq [OF yields_ensure [OF harmless(2)]]) (simp add: yields_return)

lemma yields_system: "yields I bad (sentinel H d) (\<lambda>_. True)" "yields I bad (evm2wasm H d) (\<lambda>_. True)"
  unfolding sentinel_def evm2wasm_def
  by (rule yields_bind [OF calls], simp add: split_beta yields_checked)+

lemma yields_maybe_sentinel:
  "yields I bad (if c then sentinel H d else returnE d) (\<lambda>_. True)"
  by (simp add: yields_system yields_return)

lemma yields_verify: "yields I bad (verifyDeployed E code) (\<lambda>_. we_verifyContract E code = Inr ())"
  using verifies by (auto simp: yields_def hoare_def verifyDeployed_def split: sum.splits)

lemma yields_deployed:
  "yields I bad (deployedCode H E msg result) (\<lambda>out.
     msg_kind msg = EVMC_CREATE \<and> \<not> isRevert result \<and> hasWasmPreamble out \<longrightarrow> deployable E out)"
proof (cases "msg_kind msg = EVMC_CREATE \<and> \<not> isRevert result \<and> hasWasmPreamble (returnValue result)")
  case True
  have verified: "yields I bad (seqE (ensureE (wasmVersion1 code) ContractValidationFailure)
      (seqE (verifyDeployed E code) (returnE code))) (deployable E)" for code
    by (rule yields_seq [OF yields_ensure [OF harmless(2)]], rule yields_seq [OF yields_verify])
      (simp add: yields_return deployable_def wasmVersion1_def)
  have "yields I bad (deployedCode H E msg result) (deployable E)"
    unfolding deployedCode_def using True
    by simp (rule yields_seq [OF yields_ensure [OF harmless(2)]],
        rule yields_bind [OF yields_get [where P = "\<lambda>_. True"] yields_bind [OF yields_maybe_sentinel]],
        simp_all add: verified)
  then show ?thesis by (rule yields_weaken) simp
next
  case False
  then show ?thesis by (auto simp: deployedCode_def intro!: yields_return)
qed

lemma yields_prepared:
  "yields I bad
     (if msg_kind msg = EVMC_CREATE \<and> isWasm then
        bindE (getE (\<lambda>s. metering (hera s))) (\<lambda>meter.
        bindE (if meter then sentinel H run_code else returnE run_code) (\<lambda>code.
        seqE (ensureE (wasmVersion1 code) ContractValidationFailure) (returnE code)))
      else returnE run_code) (\<lambda>_. True)"
  by (rule yields_if, rule yields_bind [OF yields_get [where P = "\<lambda>_. True"] yields_bind [OF yields_maybe_sentinel]])
    (simp_all add: yields_checked yields_return)

text \<open>What the engine leaves becomes the result.\<close>

lemma yields_finished:
  assumes "G (gasLeft result)"
  shows "yields I bad
     (bindE (if 0 < length (returnValue result)
             then bindE (deployedCode H E msg result) (\<lambda>out. returnE (Some out))
             else returnE None) (\<lambda>out.
      returnE (empty_result\<lparr>output_data := out,
        status_code := (if isRevert result then EVMC_REVERT else EVMC_SUCCESS),
        gas_left := gasLeft result\<rparr>))) (result_ok E G msg)"
proof (rule yields_bind)
  show "yields I bad (if 0 < length (returnValue result)
      then bindE (deployedCode H E msg result) (\<lambda>out. returnE (Some out)) else returnE None)
    (\<lambda>res. \<forall>out. res = Some out \<and> msg_kind msg = EVMC_CREATE \<and> \<not> isRevert result \<and> hasWasmPreamble out
       \<longrightarrow> deployable E out)"
    by (rule yields_if, rule yields_bind [OF yields_deployed]) (auto intro: yields_return)
next
  fix out
  assume "\<forall>c. out = Some c \<and> msg_kind msg = EVMC_CREATE \<and> \<not> isRevert result \<and> hasWasmPreamble c \<longrightarrow> deployable E c"
  then show "yields I bad (returnE (empty_result\<lparr>output_data := out,
        status_code := (if isRevert result then EVMC_REVERT else EVMC_SUCCESS),
        gas_left := gasLeft result\<rparr>)) (result_ok E G msg)"
    using assms by (intro yields_return) (auto simp: result_ok_def empty_result_def)
qed

lemma yields_engine: "yields I bad (getE (\<lambda>s. engine (hera s))) (\<lambda>e. e = Some E)"
  by (rule yields_get) (rule has_engine)

lemma yields_runCode: "yields I bad (runCode H msg sc isWasm True run_code) (result_ok E G msg)"
  unfolding runCode_def
  by (rule yields_seq [OF yields_ensure [OF harmless(2)]], rule yields_bind [OF yields_prepared],
      rule yields_bind [OF yields_engine], hypsubst, simp only: option.case, rule yields_bind [OF executes],
      rule yields_seq [OF yields_ensure [OF harmless(1)]], rule yields_finished)

lemma rejected_ok: "c \<noteq> EVMC_SUCCESS \<Longrightarrow> c \<noteq> EVMC_REVERT \<Longrightarrow> result_ok E G msg (empty_result\<lparr>status_code := c\<rparr>)"
  by (simp add: result_ok_def empty_result_def)

lemma yields_try: "yields I bad (hera_try H newEngine revision msg code) (result_ok E G msg)"
  unfolding hera_try_def
proof (rule yields_seq [OF yields_ensure [OF harmless(1)]], rule yields_seq [OF yields_ensure [OF harmless(1)]],
    rule yields_bind [OF yields_get [where P = "\<lambda>_. True"]], simp, rule yields_bind)
  show "yields I bad (getE (\<lambda>s. evm1mode (hera s))) (\<lambda>m. m \<noteq> Runevm_contract)"
    by (rule yields_get) (rule mode)
next
  fix run_code m
  assume "m \<noteq> Runevm_contract"
  then show "yields I bad
      (if hasWasmPreamble run_code then runCode H msg code True True run_code
       else (case m of
              Evm2wasm_contract \<Rightarrow>
                bindE (evm2wasm H run_code) (\<lambda>run_code.
                seqE (ensureE (8 < length run_code) ContractValidationFailure)
                (runCode H msg code False True run_code))
            | Fallback \<Rightarrow> returnE (empty_result\<lparr>status_code := EVMC_REJECTED\<rparr>)
            | Reject \<Rightarrow> returnE (empty_result\<lparr>status_code := EVMC_FAILURE\<rparr>)
            | Runevm_contract \<Rightarrow>
                bindE (preload_at runevmAddress) (\<lambda>interp.
                bindE (runevm newEngine interp) (\<lambda>run_code.
                seqE (ensureE (8 < length run_code) ContractValidationFailure)
                (runCode H msg code False False run_code))))) (result_ok E G msg)"
    by (cases m) (auto intro: yields_runCode yields_return rejected_ok
        yields_bind [OF yields_system(2)] yields_seq [OF yields_ensure [OF harmless(2)]])
qed

end

text \<open>Whatever the engine and the host do, the instance keeps its engine and its mode.\<close>

interpretation any_engine: hera_run H E "\<lambda>s. engine (hera s) = Some E \<and> evm1mode (hera s) \<noteq> Runevm_contract"
  "{}" "\<lambda>_. True" msg
  for H :: "'h HostInterface" and E :: "'h WasmEngine" and msg :: evmc_message
  by unfold_locales
    (auto simp: yields_def hoare_def callSystemContract_def engineExecute_def split_beta split: sum.splits)

context wasm_engine
begin

definition run_inv :: "evmc_message \<Rightarrow> 'w \<Rightarrow> 'h hera_state \<Rightarrow> bool" where
  "run_inv msg w s \<longleftrightarrow>
     engine (hera s) = Some E \<and> evm1mode (hera s) \<noteq> Runevm_contract
   \<and> (is_static (msg_flags msg) \<longrightarrow> world (host_state (host s)) = w)"

lemma run_inv_frame:
  "run_inv msg w s \<Longrightarrow> (is_static (msg_flags msg) \<Longrightarrow> world (host_state c) = world (host_state (host s))) \<Longrightarrow>
   run_inv msg w (s\<lparr>host := c\<rparr>)"
  by (auto simp: run_inv_def)

lemma calls_safe: "yields (run_inv msg w) bad (callSystemContract H a g d) (\<lambda>_. True)"
  using call_static [of "system_message a g d"]
  by (auto simp: yields_def hoare_def callSystemContract_def system_message_def is_static_def EVMC_STATIC_def
      split_beta intro: run_inv_frame)

lemma execute_safe:
  assumes "0 \<le> msg_gas msg" "msg_gas msg \<le> int64_max" "msg_value msg = 0"
  shows "yields (run_inv msg w) {UndefinedBehaviour} (engineExecute E code sc msg True)
     (\<lambda>r. 0 \<le> gasLeft r \<and> gasLeft r \<le> msg_gas msg)"
proof -
  have "case engineExecute E code sc msg True s of
          (Inl e, t) \<Rightarrow> run_inv msg w t \<and> e \<noteq> UndefinedBehaviour
        | (Inr r, t) \<Rightarrow> run_inv msg w t \<and> 0 \<le> gasLeft r \<and> gasLeft r \<le> msg_gas msg" if "run_inv msg w s" for s
  proof (cases "we_execute E (host s) code sc msg True")
    case (Pair res c)
    note safe = exec_safe [OF assms Pair]
    then have "run_inv msg w (s\<lparr>host := c\<rparr>)" using that by (auto intro: run_inv_frame)
    then show ?thesis using safe Pair by (auto simp: engineExecute_def split: sum.splits)
  qed
  then show ?thesis by (auto simp: yields_def hoare_def)
qed

lemma hera_run_safe:
  assumes "0 \<le> msg_gas msg" "msg_gas msg \<le> int64_max" "msg_value msg = 0"
  shows "hera_run H E (run_inv msg w) {UndefinedBehaviour} (\<lambda>g. 0 \<le> g \<and> g \<le> msg_gas msg) msg"
  using verify_safe by unfold_locales (auto simp: calls_safe execute_safe [OF assms] run_inv_def)

end

section \<open>Hexadecimal strings\<close>

lemma of_char_hexDigit: "n < 16 \<Longrightarrow> of_char (hexDigit n) = (if n < 10 then 48 + n else 87 + n)"
  by (simp add: hexDigit_def of_char_of)

lemma nibble_hexDigit: "n < 16 \<Longrightarrow> nibble2value (hexDigit n) = Some n"
  by (simp add: nibble2value_def of_char_hexDigit Let_def)

lemma join_nibbles: "of_nat (push_bit 4 (unat b div 16) OR unat b mod 16) = (b :: byte)"
proof -
  have "push_bit 4 (drop_bit 4 n) OR take_bit 4 n = n" for n :: nat
    by (rule bit_eqI) (auto simp: bit_simps)
  from this [of "unat b"] have "push_bit 4 (unat b div 16) OR unat b mod 16 = unat b"
    by (simp add: drop_bit_eq_div take_bit_eq_mod)
  then show ?thesis by simp
qed

lemma parseHexLoop_bytes: "parseHexLoop (concat (map hexByte bs)) ret = ret @ bs"
proof (induction bs arbitrary: ret)
  case (Cons b bs)
  have "unat b < 256" using unsigned_less [of b, where ?'a = nat] by simp
  then have "unat b div 16 < 16" "unat b mod 16 < 16" by simp_all
  then show ?case using Cons.IH by (simp add: hexByte_def nibble_hexDigit join_nibbles)
qed simp

section \<open>Properties\<close>

text \<open>
  C23: executing a message. With an engine that keeps its contract, outside the mode that
  interprets EVM code with a system contract, and for a message without value: the execution
  is never undefined, a success or a revert leaves between zero and the gas of the message,
  every other status leaves no gas and no output, and a static message leaves the world alone.
\<close>

theorem hera_execute_safe:
  assumes "wasm_engine H world E" "engine vm = Some E" "evm1mode vm \<noteq> Runevm_contract"
    and "0 \<le> msg_gas msg" "msg_gas msg \<le> int64_max" "msg_value msg = 0"
    and "hera_execute H newEngine vm ctx revision msg code = (res, vm', ctx')"
  shows "\<exists>r. res = Some r
    \<and> (if status_code r = EVMC_SUCCESS \<or> status_code r = EVMC_REVERT
       then 0 \<le> gas_left r \<and> gas_left r \<le> msg_gas msg else gas_left r = 0 \<and> output_data r = None)
    \<and> (is_static (msg_flags msg) \<longrightarrow> world ctx' = world ctx)"
proof -
  let ?s = "\<lparr>hera = vm, host = mkHostContext ctx\<rparr>"
  have inv: "wasm_engine.run_inv world E msg (world ctx) ?s"
    using assms(2,3) by (simp add: wasm_engine.run_inv_def [OF assms(1)] mkHostContext_def)
  obtain r t where rt: "hera_try H newEngine revision msg code ?s = (r, t)" by fastforce
  note run = yieldsD [OF hera_run.yields_try [OF wasm_engine.hera_run_safe [OF assms(1,4,5,6)]] inv rt]
  from run(1) have w: "is_static (msg_flags msg) \<longrightarrow> world (host_state (host t)) = world ctx"
    by (simp add: wasm_engine.run_inv_def [OF assms(1)])
  show ?thesis
  proof (cases r)
    case (Inl e)
    then show ?thesis
      using assms(7) rt run(3) [OF Inl] w
      by (cases e) (auto simp: hera_execute_def exception_status_def empty_result_def)
  next
    case (Inr x)
    then show ?thesis using assms(7) rt run(2) [OF Inr] w by (auto simp: hera_execute_def result_ok_def)
  qed
qed

theorem hera_execute_safe_witness:
  "\<exists>r. fst (hera_execute example_host (WabtEngine_create (\<lambda>_ _. Some probe_module) probe_run)
      (evmc_create_hera (WabtEngine_create (\<lambda>_ _. Some probe_module) probe_run)) (host_state sample_host)
      EVMC_BYZANTIUM (sample_msg 1 0) [0, 0x61, 0x73, 0x6d, 1, 0, 0, 0]) = Some r"
proof -
  obtain res vm' ctx' where ex: "hera_execute example_host (WabtEngine_create (\<lambda>_ _. Some probe_module) probe_run)
      (evmc_create_hera (WabtEngine_create (\<lambda>_ _. Some probe_module) probe_run)) (host_state sample_host)
      EVMC_BYZANTIUM (sample_msg 1 0) [0, 0x61, 0x73, 0x6d, 1, 0, 0, 0] = (res, vm', ctx')"
    using prod_cases3 by blast
  have "0 \<le> msg_gas (sample_msg 1 0)" "msg_gas (sample_msg 1 0) \<le> int64_max" "msg_value (sample_msg 1 0) = 0"
    by (simp_all add: sample_msg_def int64_max_def)
  from hera_execute_safe [OF probe.wasm_engine_axioms _ _ this ex] ex show ?thesis
    by (auto simp: evmc_create_hera_def)
qed


text \<open>An engine whose contracts return the code they are given, and that accepts every contract.\<close>

definition echo_engine :: "ExampleHost WasmEngine" where
  "echo_engine =
     \<lparr>we_execute = (\<lambda>ctx code state_code msg meter.
        (Inr \<lparr>gasLeft = msg_gas msg, returnValue = code, isRevert = False\<rparr>, ctx)),
      we_verifyContract = (\<lambda>code. Inr ())\<rparr>"


text \<open>
  hexadecimal strings. Parsing the digits that bytesAsHexStr prints gives the bytes back,
  for every sequence of bytes, and toHex prints the big-endian bytes of a number in the same form.
\<close>

theorem parseHexString_roundtrip:
  "parseHexString (drop 2 (bytesAsHexStr bs)) = bs
   \<and> word_be (parseHexString (drop 2 (toHex x))) = x"
proof -
  have even: "length (concat (map hexByte bs)) mod 2 = 0" for bs
    by (induction bs) (simp_all add: hexByte_def)
  have parse: "parseHexString (concat (map hexByte bs)) = bs" for bs
    using even [of bs] parseHexLoop_bytes [of bs "[]"]
    by (cases bs) (simp_all add: parseHexString_def nibble2value_def hexByte_def)
  then show ?thesis by (simp add: bytesAsHexStr_def toHex_def word_be_bytes_be)
qed

text \<open>
  the option "metering" cannot be switched off: setting it to "false" reports success and
  changes nothing, so an instance that meters keeps metering whatever options follow.
\<close>

theorem metering_stays_on:
  "hera_set_option files newEngine vm bench ''metering'' ''false'' = (EVMC_SET_OPTION_SUCCESS, vm, bench)
   \<and> (metering vm \<longrightarrow> metering (fst (snd (hera_set_option files newEngine vm bench name v))))"
  by (auto simp: hera_set_option_def hera_parse_sys_option_def Let_def split: option.splits prod.splits bool.splits)

theorem metering_stays_on_witness:
  "metering (fst (snd (hera_set_option (\<lambda>_. []) echo_engine ((evmc_create_hera echo_engine)\<lparr>metering := True\<rparr>)
     False ''metering'' ''false'')))"
  using metering_stays_on [of "\<lambda>_. []" echo_engine "(evmc_create_hera echo_engine)\<lparr>metering := True\<rparr>" False]
  by simp

end
