(* ===== verification/Binaryen.thy ===== *)
theory Binaryen
  imports Hera_Correct
begin

text \<open>
  The binaryen engine (src/evmtrans/hera/binaryen.cpp): the dispatch of an imported function by
  its name, the conditions under which a module is accepted, and how a module runs. The parser,
  the validator and the interpreter are library code and parameters: the interpreter is given
  the function callImport of the interface, as ModuleInstance is. A literal carries its type;
  reading it at another type fails an assertion of the library, which is undefined behaviour
  here. The flag \<open>dbg\<close> is the compile-time switch HERA\_DEBUGGING.
\<close>

section \<open>Imported functions\<close>

datatype Literal = L_none | L_i32 u32 | L_i64 u64

definition heraAssert :: "bool \<Rightarrow> ('h, unit) eei" where
  "heraAssert c = ensureE c InternalErrorException"

fun geti32 :: "Literal \<Rightarrow> ('h, u32) eei" where
  "geti32 (L_i32 v) = returnE v"
| "geti32 _ = throwE UndefinedBehaviour"

fun geti64 :: "Literal \<Rightarrow> ('h, u64) eei" where
  "geti64 (L_i64 v) = returnE v"
| "geti64 _ = throwE UndefinedBehaviour"

definition geti64s :: "Literal \<Rightarrow> ('h, int) eei" where
  "geti64s l = bindE (geti64 l) (\<lambda>v. returnE (sint v))"

definition geti32s :: "Literal \<Rightarrow> ('h, int) eei" where
  "geti32s l = bindE (geti32 l) (\<lambda>v. returnE (sint v))"

text \<open>The assertion at the end of the dispatch, which finish, revert and selfDestruct fall into.\<close>

definition unsupportedImport :: "('h, Literal) eei" where
  "unsupportedImport = throwE InternalErrorException"

definition binaryen_useGas :: "'h HostInterface \<Rightarrow> Literal list \<Rightarrow> ('h, Literal) eei" where
  "binaryen_useGas H arguments =
     seqE (heraAssert (length arguments = 1))
     (bindE (geti64s (arguments ! 0)) (\<lambda>gas.
      seqE (eeiUseGas gas) (returnE L_none)))"

definition binaryen_getGasLeft :: "'h HostInterface \<Rightarrow> Literal list \<Rightarrow> ('h, Literal) eei" where
  "binaryen_getGasLeft H arguments =
     seqE (heraAssert (length arguments = 0))
     (bindE (eeiGetGasLeft) (\<lambda>r. returnE (L_i64 (word_of_int r))))"

definition binaryen_getAddress :: "'h HostInterface \<Rightarrow> Literal list \<Rightarrow> ('h, Literal) eei" where
  "binaryen_getAddress H arguments =
     seqE (heraAssert (length arguments = 1))
     (bindE (geti32 (arguments ! 0)) (\<lambda>resultOffset.
      seqE (eeiGetAddress resultOffset) (returnE L_none)))"

definition binaryen_getExternalBalance :: "'h HostInterface \<Rightarrow> Literal list \<Rightarrow> ('h, Literal) eei" where
  "binaryen_getExternalBalance H arguments =
     seqE (heraAssert (length arguments = 2))
     (bindE (geti32 (arguments ! 0)) (\<lambda>addressOffset.
      bindE (geti32 (arguments ! 1)) (\<lambda>resultOffset.
      seqE (eeiGetExternalBalance H addressOffset resultOffset) (returnE L_none))))"

definition binaryen_getBlockHash :: "'h HostInterface \<Rightarrow> Literal list \<Rightarrow> ('h, Literal) eei" where
  "binaryen_getBlockHash H arguments =
     seqE (heraAssert (length arguments = 2))
     (bindE (geti64 (arguments ! 0)) (\<lambda>number.
      bindE (geti32 (arguments ! 1)) (\<lambda>resultOffset.
      bindE (eeiGetBlockHash H number resultOffset) (\<lambda>r. returnE (L_i32 r)))))"

definition binaryen_getCallDataSize :: "'h HostInterface \<Rightarrow> Literal list \<Rightarrow> ('h, Literal) eei" where
  "binaryen_getCallDataSize H arguments =
     seqE (heraAssert (length arguments = 0))
     (bindE (eeiGetCallDataSize) (\<lambda>r. returnE (L_i32 r)))"

definition binaryen_callDataCopy :: "'h HostInterface \<Rightarrow> Literal list \<Rightarrow> ('h, Literal) eei" where
  "binaryen_callDataCopy H arguments =
     seqE (heraAssert (length arguments = 3))
     (bindE (geti32 (arguments ! 0)) (\<lambda>resultOffset.
      bindE (geti32 (arguments ! 1)) (\<lambda>dataOffset.
      bindE (geti32 (arguments ! 2)) (\<lambda>len.
      seqE (eeiCallDataCopy resultOffset dataOffset len) (returnE L_none)))))"

definition binaryen_getCaller :: "'h HostInterface \<Rightarrow> Literal list \<Rightarrow> ('h, Literal) eei" where
  "binaryen_getCaller H arguments =
     seqE (heraAssert (length arguments = 1))
     (bindE (geti32 (arguments ! 0)) (\<lambda>resultOffset.
      seqE (eeiGetCaller resultOffset) (returnE L_none)))"

definition binaryen_getCallValue :: "'h HostInterface \<Rightarrow> Literal list \<Rightarrow> ('h, Literal) eei" where
  "binaryen_getCallValue H arguments =
     seqE (heraAssert (length arguments = 1))
     (bindE (geti32 (arguments ! 0)) (\<lambda>resultOffset.
      seqE (eeiGetCallValue resultOffset) (returnE L_none)))"

definition binaryen_codeCopy :: "'h HostInterface \<Rightarrow> Literal list \<Rightarrow> ('h, Literal) eei" where
  "binaryen_codeCopy H arguments =
     seqE (heraAssert (length arguments = 3))
     (bindE (geti32 (arguments ! 0)) (\<lambda>resultOffset.
      bindE (geti32 (arguments ! 1)) (\<lambda>codeOffset.
      bindE (geti32 (arguments ! 2)) (\<lambda>len.
      seqE (eeiCodeCopy resultOffset codeOffset len) (returnE L_none)))))"

definition binaryen_getCodeSize :: "'h HostInterface \<Rightarrow> Literal list \<Rightarrow> ('h, Literal) eei" where
  "binaryen_getCodeSize H arguments =
     seqE (heraAssert (length arguments = 0))
     (bindE (eeiGetCodeSize) (\<lambda>r. returnE (L_i32 r)))"

definition binaryen_externalCodeCopy :: "'h HostInterface \<Rightarrow> Literal list \<Rightarrow> ('h, Literal) eei" where
  "binaryen_externalCodeCopy H arguments =
     seqE (heraAssert (length arguments = 4))
     (bindE (geti32 (arguments ! 0)) (\<lambda>addressOffset.
      bindE (geti32 (arguments ! 1)) (\<lambda>resultOffset.
      bindE (geti32 (arguments ! 2)) (\<lambda>codeOffset.
      bindE (geti32 (arguments ! 3)) (\<lambda>len.
      seqE (eeiExternalCodeCopy H addressOffset resultOffset codeOffset len) (returnE L_none))))))"

definition binaryen_getExternalCodeSize :: "'h HostInterface \<Rightarrow> Literal list \<Rightarrow> ('h, Literal) eei" where
  "binaryen_getExternalCodeSize H arguments =
     seqE (heraAssert (length arguments = 1))
     (bindE (geti32 (arguments ! 0)) (\<lambda>addressOffset.
      bindE (eeiGetExternalCodeSize H addressOffset) (\<lambda>r. returnE (L_i32 r))))"

definition binaryen_getBlockCoinbase :: "'h HostInterface \<Rightarrow> Literal list \<Rightarrow> ('h, Literal) eei" where
  "binaryen_getBlockCoinbase H arguments =
     seqE (heraAssert (length arguments = 1))
     (bindE (geti32 (arguments ! 0)) (\<lambda>resultOffset.
      seqE (eeiGetBlockCoinbase H resultOffset) (returnE L_none)))"

definition binaryen_getBlockDifficulty :: "'h HostInterface \<Rightarrow> Literal list \<Rightarrow> ('h, Literal) eei" where
  "binaryen_getBlockDifficulty H arguments =
     seqE (heraAssert (length arguments = 1))
     (bindE (geti32 (arguments ! 0)) (\<lambda>offset.
      seqE (eeiGetBlockDifficulty H offset) (returnE L_none)))"

definition binaryen_getBlockGasLimit :: "'h HostInterface \<Rightarrow> Literal list \<Rightarrow> ('h, Literal) eei" where
  "binaryen_getBlockGasLimit H arguments =
     seqE (heraAssert (length arguments = 0))
     (bindE (eeiGetBlockGasLimit H) (\<lambda>r. returnE (L_i64 (word_of_int r))))"

definition binaryen_getTxGasPrice :: "'h HostInterface \<Rightarrow> Literal list \<Rightarrow> ('h, Literal) eei" where
  "binaryen_getTxGasPrice H arguments =
     seqE (heraAssert (length arguments = 1))
     (bindE (geti32 (arguments ! 0)) (\<lambda>valueOffset.
      seqE (eeiGetTxGasPrice H valueOffset) (returnE L_none)))"

definition binaryen_log :: "'h HostInterface \<Rightarrow> Literal list \<Rightarrow> ('h, Literal) eei" where
  "binaryen_log H arguments =
     seqE (heraAssert (length arguments = 7))
     (bindE (geti32 (arguments ! 0)) (\<lambda>dataOffset.
      bindE (geti32 (arguments ! 1)) (\<lambda>len.
      bindE (geti32 (arguments ! 2)) (\<lambda>numberOfTopics.
      bindE (geti32 (arguments ! 3)) (\<lambda>topic1.
      bindE (geti32 (arguments ! 4)) (\<lambda>topic2.
      bindE (geti32 (arguments ! 5)) (\<lambda>topic3.
      bindE (geti32 (arguments ! 6)) (\<lambda>topic4.
      seqE (eeiLog H dataOffset len numberOfTopics topic1 topic2 topic3 topic4) (returnE L_none)))))))))"

definition binaryen_getBlockNumber :: "'h HostInterface \<Rightarrow> Literal list \<Rightarrow> ('h, Literal) eei" where
  "binaryen_getBlockNumber H arguments =
     seqE (heraAssert (length arguments = 0))
     (bindE (eeiGetBlockNumber H) (\<lambda>r. returnE (L_i64 (word_of_int r))))"

definition binaryen_getBlockTimestamp :: "'h HostInterface \<Rightarrow> Literal list \<Rightarrow> ('h, Literal) eei" where
  "binaryen_getBlockTimestamp H arguments =
     seqE (heraAssert (length arguments = 0))
     (bindE (eeiGetBlockTimestamp H) (\<lambda>r. returnE (L_i64 (word_of_int r))))"

definition binaryen_getTxOrigin :: "'h HostInterface \<Rightarrow> Literal list \<Rightarrow> ('h, Literal) eei" where
  "binaryen_getTxOrigin H arguments =
     seqE (heraAssert (length arguments = 1))
     (bindE (geti32 (arguments ! 0)) (\<lambda>resultOffset.
      seqE (eeiGetTxOrigin H resultOffset) (returnE L_none)))"

definition binaryen_storageStore :: "'h HostInterface \<Rightarrow> Literal list \<Rightarrow> ('h, Literal) eei" where
  "binaryen_storageStore H arguments =
     seqE (heraAssert (length arguments = 2))
     (bindE (geti32 (arguments ! 0)) (\<lambda>pathOffset.
      bindE (geti32 (arguments ! 1)) (\<lambda>valueOffset.
      seqE (eeiStorageStore H pathOffset valueOffset) (returnE L_none))))"

definition binaryen_storageLoad :: "'h HostInterface \<Rightarrow> Literal list \<Rightarrow> ('h, Literal) eei" where
  "binaryen_storageLoad H arguments =
     seqE (heraAssert (length arguments = 2))
     (bindE (geti32 (arguments ! 0)) (\<lambda>pathOffset.
      bindE (geti32 (arguments ! 1)) (\<lambda>resultOffset.
      seqE (eeiStorageLoad H pathOffset resultOffset) (returnE L_none))))"

definition binaryen_finish :: "'h HostInterface \<Rightarrow> Literal list \<Rightarrow> ('h, Literal) eei" where
  "binaryen_finish H arguments =
     seqE (heraAssert (length arguments = 2))
     (bindE (geti32 (arguments ! 0)) (\<lambda>offset.
      bindE (geti32 (arguments ! 1)) (\<lambda>sz.
      seqE (eeiFinish offset sz) unsupportedImport)))"

definition binaryen_revert :: "'h HostInterface \<Rightarrow> Literal list \<Rightarrow> ('h, Literal) eei" where
  "binaryen_revert H arguments =
     seqE (heraAssert (length arguments = 2))
     (bindE (geti32 (arguments ! 0)) (\<lambda>offset.
      bindE (geti32 (arguments ! 1)) (\<lambda>sz.
      seqE (eeiRevert offset sz) unsupportedImport)))"

definition binaryen_getReturnDataSize :: "'h HostInterface \<Rightarrow> Literal list \<Rightarrow> ('h, Literal) eei" where
  "binaryen_getReturnDataSize H arguments =
     seqE (heraAssert (length arguments = 0))
     (bindE (eeiGetReturnDataSize) (\<lambda>r. returnE (L_i32 r)))"

definition binaryen_returnDataCopy :: "'h HostInterface \<Rightarrow> Literal list \<Rightarrow> ('h, Literal) eei" where
  "binaryen_returnDataCopy H arguments =
     seqE (heraAssert (length arguments = 3))
     (bindE (geti32 (arguments ! 0)) (\<lambda>dataOffset.
      bindE (geti32 (arguments ! 1)) (\<lambda>offset.
      bindE (geti32 (arguments ! 2)) (\<lambda>sz.
      seqE (eeiReturnDataCopy dataOffset offset sz) (returnE L_none)))))"

definition binaryen_call :: "'h HostInterface \<Rightarrow> EEICallKind \<Rightarrow> Literal list \<Rightarrow> ('h, Literal) eei" where
  "binaryen_call H kind arguments =
     (let withValue = (kind = Call \<or> kind = CallCode) in
      seqE (if withValue then heraAssert (length arguments = 5) else heraAssert (length arguments = 4))
      (bindE (geti64s (arguments ! 0)) (\<lambda>gas.
       bindE (geti32 (arguments ! 1)) (\<lambda>addressOffset.
       bindE (if withValue then
                bindE (geti32 (arguments ! 2)) (\<lambda>valueOffset.
                bindE (geti32 (arguments ! 3)) (\<lambda>dataOffset.
                bindE (geti32 (arguments ! 4)) (\<lambda>dataLength. returnE (valueOffset, dataOffset, dataLength))))
              else
                bindE (geti32 (arguments ! 2)) (\<lambda>dataOffset.
                bindE (geti32 (arguments ! 3)) (\<lambda>dataLength. returnE (0, dataOffset, dataLength))))
         (\<lambda>(valueOffset, dataOffset, dataLength).
       bindE (eeiCall H kind gas addressOffset valueOffset dataOffset dataLength) (\<lambda>r. returnE (L_i32 r)))))))"

definition binaryen_create :: "'h HostInterface \<Rightarrow> Literal list \<Rightarrow> ('h, Literal) eei" where
  "binaryen_create H arguments =
     seqE (heraAssert (length arguments = 4))
     (bindE (geti32 (arguments ! 0)) (\<lambda>valueOffset.
      bindE (geti32 (arguments ! 1)) (\<lambda>dataOffset.
      bindE (geti32 (arguments ! 2)) (\<lambda>len.
      bindE (geti32 (arguments ! 3)) (\<lambda>resultOffset.
      bindE (eeiCreate H valueOffset dataOffset len resultOffset) (\<lambda>r. returnE (L_i32 r)))))))"

definition binaryen_selfDestruct :: "'h HostInterface \<Rightarrow> Literal list \<Rightarrow> ('h, Literal) eei" where
  "binaryen_selfDestruct H arguments =
     seqE (heraAssert (length arguments = 1))
     (bindE (geti32 (arguments ! 0)) (\<lambda>addressOffset.
      seqE (eeiSelfDestruct H addressOffset) unsupportedImport))"

definition binaryen_imports :: "'h HostInterface \<Rightarrow> (string \<times> (Literal list \<Rightarrow> ('h, Literal) eei)) list" where
  "binaryen_imports H =
    [(''useGas'', binaryen_useGas H), (''getGasLeft'', binaryen_getGasLeft H),
     (''getAddress'', binaryen_getAddress H), (''getExternalBalance'', binaryen_getExternalBalance H),
     (''getBlockHash'', binaryen_getBlockHash H), (''getCallDataSize'', binaryen_getCallDataSize H),
     (''callDataCopy'', binaryen_callDataCopy H), (''getCaller'', binaryen_getCaller H),
     (''getCallValue'', binaryen_getCallValue H), (''codeCopy'', binaryen_codeCopy H),
     (''getCodeSize'', binaryen_getCodeSize H), (''externalCodeCopy'', binaryen_externalCodeCopy H),
     (''getExternalCodeSize'', binaryen_getExternalCodeSize H), (''getBlockCoinbase'', binaryen_getBlockCoinbase H),
     (''getBlockDifficulty'', binaryen_getBlockDifficulty H), (''getBlockGasLimit'', binaryen_getBlockGasLimit H),
     (''getTxGasPrice'', binaryen_getTxGasPrice H), (''log'', binaryen_log H),
     (''getBlockNumber'', binaryen_getBlockNumber H), (''getBlockTimestamp'', binaryen_getBlockTimestamp H),
     (''getTxOrigin'', binaryen_getTxOrigin H), (''storageStore'', binaryen_storageStore H),
     (''storageLoad'', binaryen_storageLoad H), (''finish'', binaryen_finish H),
     (''revert'', binaryen_revert H), (''getReturnDataSize'', binaryen_getReturnDataSize H),
     (''returnDataCopy'', binaryen_returnDataCopy H), (''call'', binaryen_call H Call),
     (''callCode'', binaryen_call H CallCode), (''callDelegate'', binaryen_call H CallDelegate),
     (''callStatic'', binaryen_call H CallStatic), (''create'', binaryen_create H),
     (''selfDestruct'', binaryen_selfDestruct H)]"

record wasm_import =
  imp_module :: string
  imp_base :: string
  imp_type :: string

definition debug_print32 :: "Literal list \<Rightarrow> ('h, Literal) eei" where
  "debug_print32 arguments =
     seqE (heraAssert (length arguments = 1)) (bindE (geti32 (arguments ! 0)) (\<lambda>_. returnE L_none))"

definition debug_print64 :: "Literal list \<Rightarrow> ('h, Literal) eei" where
  "debug_print64 arguments =
     seqE (heraAssert (length arguments = 1)) (bindE (geti64 (arguments ! 0)) (\<lambda>_. returnE L_none))"

definition debug_printMem :: "Literal list \<Rightarrow> ('h, Literal) eei" where
  "debug_printMem arguments =
     seqE (heraAssert (length arguments = 2))
     (bindE (geti32 (arguments ! 0)) (\<lambda>offset.
      bindE (geti32 (arguments ! 1)) (\<lambda>len.
      seqE (debugPrintMem offset len) (returnE L_none))))"

definition debug_printStorage :: "'h HostInterface \<Rightarrow> Literal list \<Rightarrow> ('h, Literal) eei" where
  "debug_printStorage H arguments =
     seqE (heraAssert (length arguments = 1))
     (bindE (geti32 (arguments ! 0)) (\<lambda>pathOffset.
      seqE (debugPrintStorage H pathOffset) (returnE L_none)))"

definition debug_evmTrace :: "Literal list \<Rightarrow> ('h, Literal) eei" where
  "debug_evmTrace arguments =
     seqE (heraAssert (length arguments = 4))
     (bindE (geti32 (arguments ! 0)) (\<lambda>pc.
      bindE (geti32s (arguments ! 1)) (\<lambda>opcode.
      bindE (geti32 (arguments ! 2)) (\<lambda>cost.
      bindE (geti32s (arguments ! 3)) (\<lambda>sp.
      seqE (debugEvmTrace pc opcode cost sp) (returnE L_none))))))"

definition callDebugImport :: "'h HostInterface \<Rightarrow> wasm_import \<Rightarrow> Literal list \<Rightarrow> ('h, Literal) eei" where
  "callDebugImport H imp arguments =
     seqE (heraAssert (imp_module imp = ''debug''))
     (if imp_base imp = ''print32'' then debug_print32 arguments
      else if imp_base imp = ''print64'' then debug_print64 arguments
      else if imp_base imp = ''printMem'' \<or> imp_base imp = ''printMemHex'' then debug_printMem arguments
      else if imp_base imp = ''printStorage'' \<or> imp_base imp = ''printStorageHex'' then debug_printStorage H arguments
      else if imp_base imp = ''evmTrace'' then debug_evmTrace arguments
      else unsupportedImport)"

definition callImport :: "bool \<Rightarrow> 'h HostInterface \<Rightarrow> wasm_import \<Rightarrow> Literal list \<Rightarrow> ('h, Literal) eei" where
  "callImport dbg H imp arguments =
     (if dbg \<and> imp_module imp = ''debug'' then callDebugImport H imp arguments
      else
        seqE (heraAssert (imp_module imp = ''ethereum''))
        (case map_of (binaryen_imports H) (imp_base imp) of
           Some f \<Rightarrow> f arguments
         | None \<Rightarrow> unsupportedImport))"

section \<open>Accepting a module\<close>

datatype btype = B_none | B_i32 | B_i64 | B_f32 | B_f64

type_synonym btypes = "btype list \<times> btype"

record binaryen_module =
  bm_start :: "string option"
  bm_exports :: "(string \<times> string) list"
  bm_functions :: "(string \<times> btypes) list"
  bm_types :: "(string \<times> btypes) list"
  bm_imports :: "wasm_import list"
  bm_memory :: "byte list"

definition eei_signatures :: "(string \<times> btypes) list" where
  "eei_signatures =
    [(''useGas'', [B_i64], B_none),
     (''getGasLeft'', [], B_i64),
     (''getAddress'', [B_i32], B_none),
     (''getExternalBalance'', [B_i32, B_i32], B_none),
     (''getBlockHash'', [B_i64, B_i32], B_i32),
     (''getCallDataSize'', [], B_i32),
     (''callDataCopy'', [B_i32, B_i32, B_i32], B_none),
     (''getCaller'', [B_i32], B_none),
     (''getCallValue'', [B_i32], B_none),
     (''codeCopy'', [B_i32, B_i32, B_i32], B_none),
     (''getCodeSize'', [], B_i32),
     (''externalCodeCopy'', [B_i32, B_i32, B_i32, B_i32], B_none),
     (''getExternalCodeSize'', [B_i32], B_i32),
     (''getBlockCoinbase'', [B_i32], B_none),
     (''getBlockDifficulty'', [B_i32], B_none),
     (''getBlockGasLimit'', [], B_i64),
     (''getTxGasPrice'', [B_i32], B_none),
     (''log'', [B_i32, B_i32, B_i32, B_i32, B_i32, B_i32, B_i32], B_none),
     (''getBlockNumber'', [], B_i64),
     (''getBlockTimestamp'', [], B_i64),
     (''getTxOrigin'', [B_i32], B_none),
     (''storageStore'', [B_i32, B_i32], B_none),
     (''storageLoad'', [B_i32, B_i32], B_none),
     (''finish'', [B_i32, B_i32], B_none),
     (''revert'', [B_i32, B_i32], B_none),
     (''getReturnDataSize'', [], B_i32),
     (''returnDataCopy'', [B_i32, B_i32, B_i32], B_none),
     (''call'', [B_i64, B_i32, B_i32, B_i32, B_i32], B_i32),
     (''callCode'', [B_i64, B_i32, B_i32, B_i32, B_i32], B_i32),
     (''callDelegate'', [B_i64, B_i32, B_i32, B_i32], B_i32),
     (''callStatic'', [B_i64, B_i32, B_i32, B_i32], B_i32),
     (''create'', [B_i32, B_i32, B_i32, B_i32], B_i32),
     (''create2'', [B_i32, B_i32, B_i32, B_i32, B_i32], B_i32),
     (''selfDestruct'', [B_i32], B_none)]"

fun verifyImports :: "bool \<Rightarrow> (string \<times> btypes) list \<Rightarrow> wasm_import list \<Rightarrow> hera_exception + unit" where
  "verifyImports dbg types [] = Inr ()"
| "verifyImports dbg types (imp # imps) =
     (if dbg \<and> imp_module imp = ''debug'' then verifyImports dbg types imps
      else if imp_module imp \<noteq> ''ethereum'' then Inl ContractValidationFailure
      else
        (case map_of eei_signatures (imp_base imp) of
           None \<Rightarrow> Inl ContractValidationFailure
         | Some eei_function_type \<Rightarrow>
             (case map_of types (imp_type imp) of
                None \<Rightarrow> Inl ContractValidationFailure
              | Some function_type \<Rightarrow>
                  if function_type = eei_function_type then verifyImports dbg types imps
                  else Inl ContractValidationFailure)))"

definition verifyModule :: "bool \<Rightarrow> (binaryen_module \<Rightarrow> bool) \<Rightarrow> binaryen_module \<Rightarrow> hera_exception + unit" where
  "verifyModule dbg validate m =
     (if \<not> validate m then Inl ContractValidationFailure
      else if bm_start m \<noteq> None then Inl ContractValidationFailure
      else
        (case map_of (bm_exports m) ''main'' of
           None \<Rightarrow> Inl ContractValidationFailure
         | Some main_value \<Rightarrow>
             if map_of (bm_exports m) ''memory'' = None then Inl ContractValidationFailure
             else if length (bm_exports m) \<noteq> 2 then Inl ContractValidationFailure
             else
               (case map_of (bm_functions m) main_value of
                  None \<Rightarrow> Inl ContractValidationFailure
                | Some (params, result) \<Rightarrow>
                    if length params = 0 \<and> result = B_none
                    then verifyImports dbg (bm_types m) (bm_imports m)
                    else Inl ContractValidationFailure)))"

section \<open>Running a module\<close>

definition loadModule :: "(byte list \<Rightarrow> binaryen_module option) \<Rightarrow> byte list \<Rightarrow> hera_exception + binaryen_module" where
  "loadModule parse code =
     (case parse code of None \<Rightarrow> Inl ContractValidationFailure | Some m \<Rightarrow> Inr m)"

definition BinaryenEngine_verifyContract ::
  "bool \<Rightarrow> (byte list \<Rightarrow> binaryen_module option) \<Rightarrow> (binaryen_module \<Rightarrow> bool) \<Rightarrow> byte list \<Rightarrow> hera_exception + unit" where
  "BinaryenEngine_verifyContract dbg parse validate code =
     (case loadModule parse code of Inl e \<Rightarrow> Inl e | Inr m \<Rightarrow> verifyModule dbg validate m)"

definition BinaryenEngine_execute ::
  "bool \<Rightarrow> 'h HostInterface \<Rightarrow> (byte list \<Rightarrow> binaryen_module option) \<Rightarrow> (binaryen_module \<Rightarrow> bool)
   \<Rightarrow> ((wasm_import \<Rightarrow> Literal list \<Rightarrow> ('h, Literal) eei) \<Rightarrow> binaryen_module \<Rightarrow> ('h, unit) eei)
   \<Rightarrow> 'h HostContext \<Rightarrow> byte list \<Rightarrow> byte list \<Rightarrow> evmc_message \<Rightarrow> bool
   \<Rightarrow> (hera_exception + ExecutionResult) \<times> 'h HostContext" where
  "BinaryenEngine_execute dbg H parse validate run ctx code state_code msg meter =
     (case loadModule parse code of
        Inl e \<Rightarrow> (Inl e, ctx)
      | Inr m \<Rightarrow>
          (case verifyModule dbg validate m of
             Inl e \<Rightarrow> (Inl e, ctx)
           | Inr _ \<Rightarrow>
               (case mkEthereumInterface ctx state_code msg meter [] of
                  Inl e \<Rightarrow> (Inl e, ctx)
                | Inr i \<Rightarrow>
                    (case run (callImport dbg H) m (i\<lparr>wasm_memory := bm_memory m\<rparr>) of
                       (Inr _, t) \<Rightarrow> (Inr (m_result t), m_host t)
                     | (Inl EndExecution, t) \<Rightarrow> (Inr (m_result t), m_host t)
                     | (Inl e, t) \<Rightarrow> (Inl e, m_host t)))))"

definition BinaryenEngine_create ::
  "bool \<Rightarrow> 'h HostInterface \<Rightarrow> (byte list \<Rightarrow> binaryen_module option) \<Rightarrow> (binaryen_module \<Rightarrow> bool)
   \<Rightarrow> ((wasm_import \<Rightarrow> Literal list \<Rightarrow> ('h, Literal) eei) \<Rightarrow> binaryen_module \<Rightarrow> ('h, unit) eei)
   \<Rightarrow> 'h WasmEngine" where
  "BinaryenEngine_create dbg H parse validate run =
     \<lparr>we_execute = BinaryenEngine_execute dbg H parse validate run,
      we_verifyContract = BinaryenEngine_verifyContract dbg parse validate\<rparr>"

end
