(* ===== verification/Binaryen_Correct.thy ===== *)
theory Binaryen_Correct
  imports Binaryen
begin

text \<open>
  The binaryen engine runs a contract like the wabt engine does: an imported function that is
  called at its declared type does what the host function of that name does. An interpreter
  that acts through its imports only therefore meets the contract of an engine.
\<close>

section \<open>Dispatch\<close>

fun has_type :: "wasm_type \<Rightarrow> Literal \<Rightarrow> bool" where
  "has_type T_I32 (L_i32 v) = True"
| "has_type T_I64 (L_i64 v) = True"
| "has_type t l = False"

fun lit_value :: "Literal \<Rightarrow> wasm_value" where
  "lit_value (L_i32 v) = ucast v"
| "lit_value (L_i64 v) = v"
| "lit_value L_none = 0"

fun lit_result :: "wasm_type list \<Rightarrow> wasm_value list \<Rightarrow> Literal" where
  "lit_result [T_I32] [v] = L_i32 (ucast v)"
| "lit_result [T_I64] [v] = L_i64 v"
| "lit_result ts vs = L_none"

lemma has_type_simps [simp]:
  "has_type T_I32 l \<longleftrightarrow> (\<exists>v. l = L_i32 v)" "has_type T_I64 l \<longleftrightarrow> (\<exists>v. l = L_i64 v)"
  by (cases l; simp)+

lemma word_down_up [simp]: "ucast (ucast (v :: u32) :: u64) = v"
  by (rule bit_word_eqI) (simp add: bit_simps)

lemma bind_return [simp]: "bindE (returnE x) f = f x"
  by (rule ext) (simp add: eff_simps)

lemma bind_assoc [simp]: "bindE (bindE m f) g = bindE m (\<lambda>x. bindE (f x) g)"
  by (rule ext) (simp add: bindE_def split: prod.splits sum.splits)

lemma bind_ensure_True [simp]: "bindE (ensureE True e) f = f ()"
  by (rule ext) (simp add: eff_simps)

definition never_returns :: "('s, 'e, 'a) eff \<Rightarrow> bool" where
  "never_returns m \<longleftrightarrow> (\<forall>s x t. m s \<noteq> (Inr x, t))"

lemma never_returns_bind: "(\<And>x. never_returns (f x)) \<Longrightarrow> never_returns (bindE m f)"
  by (simp add: never_returns_def bindE_Inr_iff)

lemma never_returns_throw: "never_returns (throwE e)"
  by (simp add: never_returns_def throwE_def)

lemma never_returns_ends:
  "never_returns (eeiFinish a n)" "never_returns (eeiRevert a n)" "never_returns (eeiSelfDestruct H a)"
  unfolding eeiFinish_def eeiRevert_def eeiRevertOrFinish_def eeiSelfDestruct_def seqE_def
  by (intro never_returns_bind never_returns_throw)+

lemma never_returns_cong: "never_returns m \<Longrightarrow> bindE m f = bindE m g"
  by (rule ext) (auto simp: never_returns_def bindE_def split: prod.splits sum.splits)

lemma ends_cong:
  "bindE (eeiFinish a n) (\<lambda>_. unsupportedImport) = bindE (eeiFinish a n) (\<lambda>_. returnE L_none)"
  "bindE (eeiRevert a n) (\<lambda>_. unsupportedImport) = bindE (eeiRevert a n) (\<lambda>_. returnE L_none)"
  "bindE (eeiSelfDestruct H a) (\<lambda>_. unsupportedImport) = bindE (eeiSelfDestruct H a) (\<lambda>_. returnE L_none)"
  by (rule never_returns_cong, rule never_returns_ends)+

lemmas binaryen_func_defs =
  binaryen_useGas_def binaryen_getGasLeft_def binaryen_getAddress_def binaryen_getExternalBalance_def
  binaryen_getBlockHash_def binaryen_getCallDataSize_def binaryen_callDataCopy_def binaryen_getCaller_def
  binaryen_getCallValue_def binaryen_codeCopy_def binaryen_getCodeSize_def binaryen_externalCodeCopy_def
  binaryen_getExternalCodeSize_def binaryen_getBlockCoinbase_def binaryen_getBlockDifficulty_def
  binaryen_getBlockGasLimit_def binaryen_getTxGasPrice_def binaryen_log_def binaryen_getBlockNumber_def
  binaryen_getBlockTimestamp_def binaryen_getTxOrigin_def binaryen_storageStore_def binaryen_storageLoad_def
  binaryen_finish_def binaryen_revert_def binaryen_getReturnDataSize_def binaryen_returnDataCopy_def
  binaryen_call_def binaryen_create_def binaryen_selfDestruct_def


lemma dispatch_host:
  assumes "f \<in> set (wabt_module H)" "list_all2 has_type (hf_params f) args"
  shows "\<exists>g. map_of (binaryen_imports H) (hf_name f) = Some g
    \<and> g args = bindE (hf_fn f (map lit_value args)) (\<lambda>vs. returnE (lit_result (hf_results f) vs))"
  using assms unfolding wabt_module_def list.set insert_iff empty_iff
  by (elim disjE FalseE; hypsubst;
      clarsimp simp: wabt_func_defs binaryen_imports_def list_all2_Cons1 binaryen_func_defs heraAssert_def
        geti64s_def arg32_def arg64s_def retNone_def retI32_def retI64_def seqE_def ends_cong)

section \<open>Signatures\<close>

fun btype_of :: "wasm_type \<Rightarrow> btype" where
  "btype_of T_I32 = B_i32"
| "btype_of T_I64 = B_i64"

definition bresult_of :: "wasm_type list \<Rightarrow> btype" where
  "bresult_of rs = (case rs of [] \<Rightarrow> B_none | r # _ \<Rightarrow> btype_of r)"

definition binaryen_sig :: "import_sig \<Rightarrow> string \<times> btypes" where
  "binaryen_sig = (\<lambda>(n, ps, rs). (n, map btype_of ps, bresult_of rs))"

lemma wabt_signatures:
  "set eei_signatures = binaryen_sig ` set wabt_exports" "distinct (map fst eei_signatures)"
  by (auto simp: eei_signatures_def wabt_exports_def wabt_exports1_def wabt_exports2_def wabt_exports3_def
      binaryen_sig_def bresult_of_def)

lemma signature_host:
  assumes "map_of eei_signatures n = Some ty" "n \<noteq> ''create2''"
  shows "\<exists>f \<in> set (wabt_module H). hf_name f = n \<and> ty = (map btype_of (hf_params f), bresult_of (hf_results f))"
proof -
  from map_of_SomeD [OF assms(1)] wabt_signatures(1) obtain sig
    where sig: "sig \<in> set wabt_exports" "(n, ty) = binaryen_sig sig" by auto
  then have "fst sig \<noteq> ''create2''" using assms(2) by (auto simp: binaryen_sig_def split: prod.splits)
  with sig(1) have "sig \<in> set (filter (\<lambda>sig. fst sig \<noteq> ''create2'') wabt_exports)" by simp
  then have "sig \<in> set (map host_sig (wabt_module H))" by (simp only: wabt_tables(1,2))
  then show ?thesis using sig(2) by (auto simp: host_sig_def binaryen_sig_def)
qed

section \<open>Interpreters\<close>

fun has_btype :: "btype \<Rightarrow> Literal \<Rightarrow> bool" where
  "has_btype B_i32 (L_i32 v) = True"
| "has_btype B_i64 (L_i64 v) = True"
| "has_btype t l = False"

lemma has_btype_of [simp]: "has_btype (btype_of t) = has_type t"
proof
  show "has_btype (btype_of t) l = has_type t l" for l by (cases t; cases l) simp_all
qed

definition may_call :: "binaryen_module \<Rightarrow> wasm_import \<Rightarrow> Literal list \<Rightarrow> bool" where
  "may_call m imp args \<longleftrightarrow> imp \<in> set (bm_imports m)
     \<and> (\<exists>ps r. map_of (bm_types m) (imp_type imp) = Some (ps, r) \<and> list_all2 has_btype ps args)"

text \<open>
  A module acts on the interface through its own memory and by calling its imports with
  arguments of the declared types.
\<close>

inductive binaryen_run ::
  "'h HostInterface \<Rightarrow> binaryen_module \<Rightarrow> 'h EthereumInterface \<Rightarrow> 'h EthereumInterface \<Rightarrow> bool"
  for H m s0 where
  start: "binaryen_run H m s0 s0"
| wasm: "binaryen_run H m s0 s \<Longrightarrow> length (wasm_memory s) \<le> length mem \<Longrightarrow> length mem \<le> 2 ^ 32 \<Longrightarrow>
         binaryen_run H m s0 (s\<lparr>wasm_memory := mem\<rparr>)"
| import: "binaryen_run H m s0 s \<Longrightarrow> may_call m imp args \<Longrightarrow>
         callImport False H imp args s = (Inr v, t) \<Longrightarrow> binaryen_run H m s0 t"

text \<open>
  What is assumed of the interpreter: it acts that way, and ends when the contract ends, with a
  trap, or with the exception of an import that throws.
\<close>

definition interpreter_runs ::
  "'h HostInterface \<Rightarrow> ((wasm_import \<Rightarrow> Literal list \<Rightarrow> ('h, Literal) eei) \<Rightarrow> binaryen_module \<Rightarrow> ('h, unit) eei) \<Rightarrow> bool" where
  "interpreter_runs H run \<longleftrightarrow>
     (\<forall>m s r t. run (callImport False H) m s = (r, t) \<longrightarrow>
        (\<exists>u. binaryen_run H m s u \<and>
           (r = Inr () \<and> t = u \<or> r = Inl VMTrap \<and> t = u
            \<or> (\<exists>e imp args. r = Inl e \<and> may_call m imp args \<and> callImport False H imp args u = (Inl e, t)))))"

lemma verified_import:
  assumes "verifyImports False types imps = Inr ()" "imp \<in> set imps"
  shows "imp_module imp = ''ethereum'' \<and> map_of eei_signatures (imp_base imp) = map_of types (imp_type imp)
    \<and> map_of types (imp_type imp) \<noteq> None"
  using assms by (induction imps) (auto split: if_splits option.splits)

lemma verified_module:
  "verifyModule dbg validate m = Inr () \<Longrightarrow> verifyImports dbg (bm_types m) (bm_imports m) = Inr ()"
  by (auto simp: verifyModule_def split: if_splits option.splits prod.splits)

text \<open>Every import a verified module may call is a host function, or create2, which is not supported.\<close>

lemma verified_call:
  assumes "verifyModule False validate m = Inr ()" "may_call m imp args"
  shows "if imp_base imp = ''create2'' then callImport False H imp args = throwE InternalErrorException
     else \<exists>f \<in> set (wabt_module H). hf_name f = imp_base imp \<and>
        callImport False H imp args = bindE (hf_fn f (map lit_value args)) (\<lambda>vs. returnE (lit_result (hf_results f) vs))"
proof -
  from assms(2) obtain ps r where imp: "imp \<in> set (bm_imports m)"
    "map_of (bm_types m) (imp_type imp) = Some (ps, r)" "list_all2 has_btype ps args" by (auto simp: may_call_def)
  from verified_import [OF verified_module [OF assms(1)] imp(1)] imp(2)
  have v: "imp_module imp = ''ethereum''" "map_of eei_signatures (imp_base imp) = Some (ps, r)" by auto
  show ?thesis
  proof (cases "imp_base imp = ''create2''")
    case True
    then show ?thesis using v by (simp add: callImport_def heraAssert_def seqE_def binaryen_imports_def unsupportedImport_def)
  next
    case False
    from signature_host [OF v(2) False, of H] obtain f where f: "f \<in> set (wabt_module H)" "hf_name f = imp_base imp"
      "ps = map btype_of (hf_params f)" by auto
    with imp(3) have "list_all2 has_type (hf_params f) args" by (simp add: list.rel_map)
    from dispatch_host [OF f(1) this] f(2) v(1)
    have "callImport False H imp args = bindE (hf_fn f (map lit_value args)) (\<lambda>vs. returnE (lit_result (hf_results f) vs))"
      by (auto simp: callImport_def heraAssert_def seqE_def)
    then show ?thesis using f(1,2) False by (simp only: if_False) (intro bexI [of _ f], simp_all)
  qed
qed

lemma verified_run:
  assumes "binaryen_run H m s u" "verifyModule False validate m = Inr ()"
  shows "\<exists>tr. contract_run H s tr u"
  using assms(1)
proof (induction rule: binaryen_run.induct)
  case start
  then show ?case using contract_run.start by blast
next
  case (wasm s mem)
  then show ?case using contract_run.wasm by blast
next
  case (import s imp args v t)
  from verified_call [OF assms(2) import(2), of H] import(3)
  obtain f vs where f: "f \<in> set (wabt_module H)" "hf_fn f (map lit_value args) s = (Inr vs, t)"
    by (auto simp: throwE_def bindE_Inr_iff returnE_def split: if_splits)
  then have "f \<in> set (wabt_module H @ wabt_debug_module H)" by simp
  from contract_run.host [OF _ this f(2)] import.IH show ?case by blast
qed

lemma verified_throw:
  assumes "verifyModule False validate m = Inr ()" "may_call m imp args" "callImport False H imp args u = (Inl e, t)"
  shows "(\<exists>f args. f \<in> set (wabt_module H @ wabt_debug_module H) \<and> hf_fn f args u = (Inl e, t))
    \<or> e = InternalErrorException \<and> t = u"
proof (cases "imp_base imp = ''create2''")
  case True
  then show ?thesis using verified_call [OF assms(1,2), of H] assms(3) by (simp add: throwE_def)
next
  case False
  then obtain f where "f \<in> set (wabt_module H)" "hf_fn f (map lit_value args) u = (Inl e, t)"
    using verified_call [OF assms(1,2), of H] assms(3) by (auto simp: bindE_def returnE_def split: prod.splits sum.splits)
  then show ?thesis by auto
qed

context evmc_host
begin

lemma interpreter_inv:
  assumes "interpreter_runs H run" and ver: "verifyModule False validate md = Inr ()"
    and i: "iface_inv world m c n w g s" and g: "g \<le> int64_max" and v: "msg_value m = 0"
    and "run (callImport False H) md s = (r, t)"
  shows "(\<exists>n. iface_inv world m c n w g t) \<and> r \<noteq> Inl UndefinedBehaviour"
proof -
  from assms(1,6) obtain u where u: "binaryen_run H md s u"
    and r: "r = Inr () \<and> t = u \<or> r = Inl VMTrap \<and> t = u
      \<or> (\<exists>e imp args. r = Inl e \<and> may_call md imp args \<and> callImport False H imp args u = (Inl e, t))"
    unfolding interpreter_runs_def by blast
  from verified_run [OF u ver] obtain tr where "contract_run H s tr u" by blast
  from run_keeps_inv [OF this i g v] obtain n' where n': "iface_inv world m c n' w g u" by blast
  from r consider "t = u" "r \<noteq> Inl UndefinedBehaviour"
    | e imp args where "r = Inl e" "may_call md imp args" "callImport False H imp args u = (Inl e, t)" by blast
  then show ?thesis
  proof cases
    case 2
    from verified_throw [OF ver 2(2,3)] show ?thesis
      using throw_keeps_inv [OF _ _ n' g v] n' 2(1) by blast
  qed (use n' in blast)
qed

end

section \<open>The engine\<close>

lemma verifyImports_rejects: "verifyImports dbg types imps = Inl e \<Longrightarrow> e = ContractValidationFailure"
  by (induction imps) (auto split: if_splits option.splits)

lemma verify_rejects:
  "BinaryenEngine_verifyContract dbg parse validate code = Inl e \<Longrightarrow> e = ContractValidationFailure"
  by (auto simp: BinaryenEngine_verifyContract_def loadModule_def verifyModule_def
      split: if_splits option.splits sum.splits prod.splits dest: verifyImports_rejects)

locale binaryen_engine = evmc_host H world for H :: "'h HostInterface" and world :: "'h \<Rightarrow> 'w" +
  fixes parse :: "byte list \<Rightarrow> binaryen_module option"
    and run :: "(wasm_import \<Rightarrow> Literal list \<Rightarrow> ('h, Literal) eei) \<Rightarrow> binaryen_module \<Rightarrow> ('h, unit) eei"
  assumes runs: "interpreter_runs H run"
    and small_memory: "parse code = Some m \<Longrightarrow> length (bm_memory m) \<le> 2 ^ 32"
begin

lemma execute_inv:
  assumes g: "0 \<le> msg_gas msg" "msg_gas msg \<le> int64_max" and v: "msg_value msg = 0"
    and ex: "BinaryenEngine_execute False H parse validate run ctx code state_code msg True = (res, ctx')"
  shows "res \<noteq> Inl UndefinedBehaviour
    \<and> (\<forall>r. res = Inr r \<longrightarrow> 0 \<le> gasLeft r \<and> gasLeft r \<le> msg_gas msg)
    \<and> (is_static (msg_flags msg) \<longrightarrow> world (host_state ctx') = world (host_state ctx))"
proof (cases "BinaryenEngine_verifyContract False parse validate code")
  case (Inl e)
  then have "res = Inl e \<and> ctx' = ctx" using ex
    by (auto simp: BinaryenEngine_execute_def BinaryenEngine_verifyContract_def split: sum.splits)
  moreover have "e = ContractValidationFailure" using Inl
    by (rule verify_rejects)
  ultimately show ?thesis by simp
next
  case (Inr x)
  then obtain m where m: "parse code = Some m" "verifyModule False validate m = Inr ()"
    by (auto simp: BinaryenEngine_verifyContract_def loadModule_def split: option.splits)
  show ?thesis
  proof (cases "mkEthereumInterface ctx state_code msg True []")
    case (Inl e)
    then show ?thesis using ex m
      by (auto simp: BinaryenEngine_execute_def loadModule_def mkEthereumInterface_def split: if_splits)
  next
    case i: (Inr i)
    have inv: "iface_inv world msg state_code (length (bm_memory m)) (world (host_state ctx))
        (msg_gas msg) (i\<lparr>wasm_memory := bm_memory m\<rparr>)"
      using start_inv [OF i _ g(1), of world] small_memory [OF m(1)] by (simp add: iface_inv_def)
    obtain r t where rt: "run (callImport False H) m (i\<lparr>wasm_memory := bm_memory m\<rparr>) = (r, t)" by fastforce
    note e = interpreter_inv [OF runs m(2) inv g(2) v rt]
    have "(res, ctx') =
      (case r of Inr _ \<Rightarrow> (Inr (m_result t), m_host t)
       | Inl x \<Rightarrow> (if x = EndExecution then Inr (m_result t) else Inl x, m_host t))"
      using ex i m rt by (auto simp: BinaryenEngine_execute_def loadModule_def split: sum.splits hera_exception.splits)
    then show ?thesis using e by (auto simp: iface_inv_def split: sum.splits if_splits)
  qed
qed

end

sublocale binaryen_engine \<subseteq> wasm_engine H world "BinaryenEngine_create False H parse validate run"
  for validate
proof
  fix msg :: evmc_message and ctx ctx' :: "'h HostContext" and code state_code res
  assume "0 \<le> msg_gas msg" "msg_gas msg \<le> int64_max" "msg_value msg = 0"
    "we_execute (BinaryenEngine_create False H parse validate run) ctx code state_code msg True = (res, ctx')"
  then show "res \<noteq> Inl UndefinedBehaviour
      \<and> (\<forall>r. res = Inr r \<longrightarrow> 0 \<le> gasLeft r \<and> gasLeft r \<le> msg_gas msg)
      \<and> (is_static (msg_flags msg) \<longrightarrow> world (host_state ctx') = world (host_state ctx))"
    using execute_inv [where validate = validate] by (simp add: BinaryenEngine_create_def)
next
  fix code
  show "we_verifyContract (BinaryenEngine_create False H parse validate run) code \<noteq> Inl UndefinedBehaviour"
    using verify_rejects [of False parse validate code UndefinedBehaviour] by (auto simp: BinaryenEngine_create_def)
qed

text \<open>An interpreter for a module that reads the gas counter and stops.\<close>

definition gas_import :: wasm_import where
  "gas_import = \<lparr>imp_module = ''ethereum'', imp_base = ''getGasLeft'', imp_type = ''t0''\<rparr>"

definition gas_module :: binaryen_module where
  "gas_module =
     \<lparr>bm_start = None, bm_exports = [(''main'', ''f0''), (''memory'', ''m0'')],
      bm_functions = [(''f0'', [], B_none)], bm_types = [(''t0'', [], B_i64)],
      bm_imports = [gas_import], bm_memory = replicate 64 0\<rparr>"

definition gas_run ::
  "(wasm_import \<Rightarrow> Literal list \<Rightarrow> ('h, Literal) eei) \<Rightarrow> binaryen_module \<Rightarrow> ('h, unit) eei" where
  "gas_run call m = (if gas_import \<in> set (bm_imports m) \<and> map_of (bm_types m) ''t0'' = Some ([], B_i64)
     then seqE (call gas_import []) (returnE ()) else throwE VMTrap)"

lemma gas_verified: "verifyModule False (\<lambda>_. True) gas_module = Inr ()"
  by (simp add: verifyModule_def gas_module_def gas_import_def eei_signatures_def)

lemma gas_interpreter: "interpreter_runs (H :: 'h HostInterface) gas_run"
  unfolding interpreter_runs_def
proof (intro allI impI)
  fix m :: binaryen_module and s t :: "'h EthereumInterface" and r
  assume run: "gas_run (callImport False H) m s = (r, t)"
  show "\<exists>u. binaryen_run H m s u \<and>
     (r = Inr () \<and> t = u \<or> r = Inl VMTrap \<and> t = u
      \<or> (\<exists>e imp args. r = Inl e \<and> may_call m imp args \<and> callImport False H imp args u = (Inl e, t)))"
  proof (cases "may_call m gas_import []")
    case False
    then have "r = Inl VMTrap \<and> t = s" using run
      by (auto simp: gas_run_def may_call_def throwE_def gas_import_def split: if_splits)
    then show ?thesis using binaryen_run.start by blast
  next
    case True
    show ?thesis
    proof (cases "callImport False H gas_import [] s")
      case (Pair x u)
      show ?thesis
      proof (cases x)
        case (Inl e)
        then have "r = Inl e \<and> t = u \<or> r = Inl VMTrap \<and> t = s" using run Pair
          by (auto simp: gas_run_def seqE_def bindE_def throwE_def split: if_splits)
        then show ?thesis using Pair Inl True binaryen_run.start by blast
      next
        case (Inr v)
        then have "r = Inr () \<and> t = u \<or> r = Inl VMTrap \<and> t = s" using run Pair
          by (auto simp: gas_run_def seqE_def bindE_def throwE_def returnE_def split: if_splits)
        then show ?thesis using Pair Inr True binaryen_run.start binaryen_run.import by blast
      qed
    qed
  qed
qed

interpretation gas: binaryen_engine example_host "\<lambda>h. h" "\<lambda>_. Some gas_module" gas_run
  by unfold_locales (simp_all add: gas_interpreter gas_module_def)

section \<open>Properties\<close>





end
