(* ===== verification/Wavm.thy ===== *)
theory Wavm
  imports Hera_Correct
begin

text \<open>
  The WAVM engine (src/evmtrans/hera/wavm.cpp). Its host functions are C functions without a
  place for an object, so the interface they act on is the top of a global stack: execute
  pushes an interface and an object of class WavmInterfaceKeeper pops it again, however
  execute is left. The stack is the state of the host functions here. The parser, the compiler
  of the library and the compiled code are parameters; creating the host module is assumed to
  succeed. Collecting garbage after a run has no effect on this state.
\<close>

section \<open>Host functions\<close>

type_synonym 'h interfaces = "'h EthereumInterface list"

text \<open>Reading the top of an empty stack is undefined.\<close>

definition on_top :: "('h, 'a) eei \<Rightarrow> ('h interfaces, hera_exception, 'a) eff" where
  "on_top m st =
     (case st of
        [] \<Rightarrow> (Inl UndefinedBehaviour, [])
      | i # is \<Rightarrow> (case m i of (r, i') \<Rightarrow> (r, i' # is)))"

record 'h wavm_func =
  wf_name :: string
  wf_params :: "wasm_type list"
  wf_results :: "wasm_type list"
  wf_fn :: "wasm_value list \<Rightarrow> ('h interfaces, hera_exception, wasm_value list) eff"

definition wavm_useGas :: "'h HostInterface \<Rightarrow> 'h wavm_func" where
  "wavm_useGas H = \<lparr>wf_name = ''useGas'', wf_params = [T_I64], wf_results = [],
     wf_fn = (\<lambda>args. on_top (retNone (eeiUseGas (arg64s args 0))))\<rparr>"

definition wavm_getGasLeft :: "'h HostInterface \<Rightarrow> 'h wavm_func" where
  "wavm_getGasLeft H = \<lparr>wf_name = ''getGasLeft'', wf_params = [], wf_results = [T_I64],
     wf_fn = (\<lambda>args. on_top (retI64 eeiGetGasLeft))\<rparr>"

definition wavm_getAddress :: "'h HostInterface \<Rightarrow> 'h wavm_func" where
  "wavm_getAddress H = \<lparr>wf_name = ''getAddress'', wf_params = [T_I32], wf_results = [],
     wf_fn = (\<lambda>args. on_top (retNone (eeiGetAddress (arg32 args 0))))\<rparr>"

definition wavm_getExternalBalance :: "'h HostInterface \<Rightarrow> 'h wavm_func" where
  "wavm_getExternalBalance H = \<lparr>wf_name = ''getExternalBalance'', wf_params = [T_I32, T_I32], wf_results = [],
     wf_fn = (\<lambda>args. on_top (retNone (eeiGetExternalBalance H (arg32 args 0) (arg32 args 1))))\<rparr>"

definition wavm_getBlockHash :: "'h HostInterface \<Rightarrow> 'h wavm_func" where
  "wavm_getBlockHash H = \<lparr>wf_name = ''getBlockHash'', wf_params = [T_I64, T_I32], wf_results = [T_I32],
     wf_fn = (\<lambda>args. on_top (retI32 (eeiGetBlockHash H (args ! 0) (arg32 args 1))))\<rparr>"

definition wavm_getCallDataSize :: "'h HostInterface \<Rightarrow> 'h wavm_func" where
  "wavm_getCallDataSize H = \<lparr>wf_name = ''getCallDataSize'', wf_params = [], wf_results = [T_I32],
     wf_fn = (\<lambda>args. on_top (retI32 eeiGetCallDataSize))\<rparr>"

definition wavm_callDataCopy :: "'h HostInterface \<Rightarrow> 'h wavm_func" where
  "wavm_callDataCopy H = \<lparr>wf_name = ''callDataCopy'', wf_params = [T_I32, T_I32, T_I32], wf_results = [],
     wf_fn = (\<lambda>args. on_top (retNone (eeiCallDataCopy (arg32 args 0) (arg32 args 1) (arg32 args 2))))\<rparr>"

definition wavm_getCaller :: "'h HostInterface \<Rightarrow> 'h wavm_func" where
  "wavm_getCaller H = \<lparr>wf_name = ''getCaller'', wf_params = [T_I32], wf_results = [],
     wf_fn = (\<lambda>args. on_top (retNone (eeiGetCaller (arg32 args 0))))\<rparr>"

definition wavm_getCallValue :: "'h HostInterface \<Rightarrow> 'h wavm_func" where
  "wavm_getCallValue H = \<lparr>wf_name = ''getCallValue'', wf_params = [T_I32], wf_results = [],
     wf_fn = (\<lambda>args. on_top (retNone (eeiGetCallValue (arg32 args 0))))\<rparr>"

definition wavm_getCodeSize :: "'h HostInterface \<Rightarrow> 'h wavm_func" where
  "wavm_getCodeSize H = \<lparr>wf_name = ''getCodeSize'', wf_params = [], wf_results = [T_I32],
     wf_fn = (\<lambda>args. on_top (retI32 eeiGetCodeSize))\<rparr>"

definition wavm_codeCopy :: "'h HostInterface \<Rightarrow> 'h wavm_func" where
  "wavm_codeCopy H = \<lparr>wf_name = ''codeCopy'', wf_params = [T_I32, T_I32, T_I32], wf_results = [],
     wf_fn = (\<lambda>args. on_top (retNone (eeiCodeCopy (arg32 args 0) (arg32 args 1) (arg32 args 2))))\<rparr>"

definition wavm_getExternalCodeSize :: "'h HostInterface \<Rightarrow> 'h wavm_func" where
  "wavm_getExternalCodeSize H = \<lparr>wf_name = ''getExternalCodeSize'', wf_params = [T_I32], wf_results = [T_I32],
     wf_fn = (\<lambda>args. on_top (retI32 (eeiGetExternalCodeSize H (arg32 args 0))))\<rparr>"

definition wavm_externalCodeCopy :: "'h HostInterface \<Rightarrow> 'h wavm_func" where
  "wavm_externalCodeCopy H = \<lparr>wf_name = ''externalCodeCopy'', wf_params = [T_I32, T_I32, T_I32, T_I32], wf_results = [],
     wf_fn = (\<lambda>args. on_top (retNone (eeiExternalCodeCopy H (arg32 args 0) (arg32 args 1) (arg32 args 2) (arg32 args 3))))\<rparr>"

definition wavm_getBlockCoinbase :: "'h HostInterface \<Rightarrow> 'h wavm_func" where
  "wavm_getBlockCoinbase H = \<lparr>wf_name = ''getBlockCoinbase'', wf_params = [T_I32], wf_results = [],
     wf_fn = (\<lambda>args. on_top (retNone (eeiGetBlockCoinbase H (arg32 args 0))))\<rparr>"

definition wavm_getBlockDifficulty :: "'h HostInterface \<Rightarrow> 'h wavm_func" where
  "wavm_getBlockDifficulty H = \<lparr>wf_name = ''getBlockDifficulty'', wf_params = [T_I32], wf_results = [],
     wf_fn = (\<lambda>args. on_top (retNone (eeiGetBlockDifficulty H (arg32 args 0))))\<rparr>"

definition wavm_getBlockGasLimit :: "'h HostInterface \<Rightarrow> 'h wavm_func" where
  "wavm_getBlockGasLimit H = \<lparr>wf_name = ''getBlockGasLimit'', wf_params = [], wf_results = [T_I64],
     wf_fn = (\<lambda>args. on_top (retI64 (eeiGetBlockGasLimit H)))\<rparr>"

definition wavm_getTxGasPrice :: "'h HostInterface \<Rightarrow> 'h wavm_func" where
  "wavm_getTxGasPrice H = \<lparr>wf_name = ''getTxGasPrice'', wf_params = [T_I32], wf_results = [],
     wf_fn = (\<lambda>args. on_top (retNone (eeiGetTxGasPrice H (arg32 args 0))))\<rparr>"

definition wavm_log :: "'h HostInterface \<Rightarrow> 'h wavm_func" where
  "wavm_log H = \<lparr>wf_name = ''log'', wf_params = [T_I32, T_I32, T_I32, T_I32, T_I32, T_I32, T_I32], wf_results = [],
     wf_fn = (\<lambda>args. on_top (retNone (eeiLog H (arg32 args 0) (arg32 args 1) (arg32 args 2) (arg32 args 3) (arg32 args 4) (arg32 args 5) (arg32 args 6))))\<rparr>"

definition wavm_getBlockNumber :: "'h HostInterface \<Rightarrow> 'h wavm_func" where
  "wavm_getBlockNumber H = \<lparr>wf_name = ''getBlockNumber'', wf_params = [], wf_results = [T_I64],
     wf_fn = (\<lambda>args. on_top (retI64 (eeiGetBlockNumber H)))\<rparr>"

definition wavm_getBlockTimestamp :: "'h HostInterface \<Rightarrow> 'h wavm_func" where
  "wavm_getBlockTimestamp H = \<lparr>wf_name = ''getBlockTimestamp'', wf_params = [], wf_results = [T_I64],
     wf_fn = (\<lambda>args. on_top (retI64 (eeiGetBlockTimestamp H)))\<rparr>"

definition wavm_getTxOrigin :: "'h HostInterface \<Rightarrow> 'h wavm_func" where
  "wavm_getTxOrigin H = \<lparr>wf_name = ''getTxOrigin'', wf_params = [T_I32], wf_results = [],
     wf_fn = (\<lambda>args. on_top (retNone (eeiGetTxOrigin H (arg32 args 0))))\<rparr>"

definition wavm_storageStore :: "'h HostInterface \<Rightarrow> 'h wavm_func" where
  "wavm_storageStore H = \<lparr>wf_name = ''storageStore'', wf_params = [T_I32, T_I32], wf_results = [],
     wf_fn = (\<lambda>args. on_top (retNone (eeiStorageStore H (arg32 args 0) (arg32 args 1))))\<rparr>"

definition wavm_storageLoad :: "'h HostInterface \<Rightarrow> 'h wavm_func" where
  "wavm_storageLoad H = \<lparr>wf_name = ''storageLoad'', wf_params = [T_I32, T_I32], wf_results = [],
     wf_fn = (\<lambda>args. on_top (retNone (eeiStorageLoad H (arg32 args 0) (arg32 args 1))))\<rparr>"

definition wavm_finish :: "'h HostInterface \<Rightarrow> 'h wavm_func" where
  "wavm_finish H = \<lparr>wf_name = ''finish'', wf_params = [T_I32, T_I32], wf_results = [],
     wf_fn = (\<lambda>args. on_top (retNone (eeiFinish (arg32 args 0) (arg32 args 1))))\<rparr>"

definition wavm_revert :: "'h HostInterface \<Rightarrow> 'h wavm_func" where
  "wavm_revert H = \<lparr>wf_name = ''revert'', wf_params = [T_I32, T_I32], wf_results = [],
     wf_fn = (\<lambda>args. on_top (retNone (eeiRevert (arg32 args 0) (arg32 args 1))))\<rparr>"

definition wavm_getReturnDataSize :: "'h HostInterface \<Rightarrow> 'h wavm_func" where
  "wavm_getReturnDataSize H = \<lparr>wf_name = ''getReturnDataSize'', wf_params = [], wf_results = [T_I32],
     wf_fn = (\<lambda>args. on_top (retI32 eeiGetReturnDataSize))\<rparr>"

definition wavm_returnDataCopy :: "'h HostInterface \<Rightarrow> 'h wavm_func" where
  "wavm_returnDataCopy H = \<lparr>wf_name = ''returnDataCopy'', wf_params = [T_I32, T_I32, T_I32], wf_results = [],
     wf_fn = (\<lambda>args. on_top (retNone (eeiReturnDataCopy (arg32 args 0) (arg32 args 1) (arg32 args 2))))\<rparr>"

definition wavm_call :: "'h HostInterface \<Rightarrow> 'h wavm_func" where
  "wavm_call H = \<lparr>wf_name = ''call'', wf_params = [T_I64, T_I32, T_I32, T_I32, T_I32], wf_results = [T_I32],
     wf_fn = (\<lambda>args. on_top (retI32 (eeiCall H Call (arg64s args 0) (arg32 args 1) (arg32 args 2) (arg32 args 3) (arg32 args 4))))\<rparr>"

definition wavm_callCode :: "'h HostInterface \<Rightarrow> 'h wavm_func" where
  "wavm_callCode H = \<lparr>wf_name = ''callCode'', wf_params = [T_I64, T_I32, T_I32, T_I32, T_I32], wf_results = [T_I32],
     wf_fn = (\<lambda>args. on_top (retI32 (eeiCall H CallCode (arg64s args 0) (arg32 args 1) (arg32 args 2) (arg32 args 3) (arg32 args 4))))\<rparr>"

definition wavm_callDelegate :: "'h HostInterface \<Rightarrow> 'h wavm_func" where
  "wavm_callDelegate H = \<lparr>wf_name = ''callDelegate'', wf_params = [T_I64, T_I32, T_I32, T_I32], wf_results = [T_I32],
     wf_fn = (\<lambda>args. on_top (retI32 (eeiCall H CallDelegate (arg64s args 0) (arg32 args 1) 0 (arg32 args 2) (arg32 args 3))))\<rparr>"

definition wavm_callStatic :: "'h HostInterface \<Rightarrow> 'h wavm_func" where
  "wavm_callStatic H = \<lparr>wf_name = ''callStatic'', wf_params = [T_I64, T_I32, T_I32, T_I32], wf_results = [T_I32],
     wf_fn = (\<lambda>args. on_top (retI32 (eeiCall H CallStatic (arg64s args 0) (arg32 args 1) 0 (arg32 args 2) (arg32 args 3))))\<rparr>"

definition wavm_create :: "'h HostInterface \<Rightarrow> 'h wavm_func" where
  "wavm_create H = \<lparr>wf_name = ''create'', wf_params = [T_I32, T_I32, T_I32, T_I32], wf_results = [T_I32],
     wf_fn = (\<lambda>args. on_top (retI32 (eeiCreate H (arg32 args 0) (arg32 args 1) (arg32 args 2) (arg32 args 3))))\<rparr>"

definition wavm_selfDestruct :: "'h HostInterface \<Rightarrow> 'h wavm_func" where
  "wavm_selfDestruct H = \<lparr>wf_name = ''selfDestruct'', wf_params = [T_I32], wf_results = [],
     wf_fn = (\<lambda>args. on_top (retNone (eeiSelfDestruct H (arg32 args 0))))\<rparr>"

definition wavm_module :: "'h HostInterface \<Rightarrow> 'h wavm_func list" where
  "wavm_module H =
    [wavm_useGas H, wavm_getGasLeft H, wavm_getAddress H, wavm_getExternalBalance H,
     wavm_getBlockHash H, wavm_getCallDataSize H, wavm_callDataCopy H, wavm_getCaller H,
     wavm_getCallValue H, wavm_getCodeSize H, wavm_codeCopy H, wavm_getExternalCodeSize H,
     wavm_externalCodeCopy H, wavm_getBlockCoinbase H, wavm_getBlockDifficulty H, wavm_getBlockGasLimit H,
     wavm_getTxGasPrice H, wavm_log H, wavm_getBlockNumber H, wavm_getBlockTimestamp H,
     wavm_getTxOrigin H, wavm_storageStore H, wavm_storageLoad H, wavm_finish H,
     wavm_revert H, wavm_getReturnDataSize H, wavm_returnDataCopy H, wavm_call H,
     wavm_callCode H, wavm_callDelegate H, wavm_callStatic H, wavm_create H,
     wavm_selfDestruct H]"

section \<open>Modules\<close>

datatype vtype = V_i32 | V_i64 | V_f32 | V_f64

datatype object_kind = O_function | O_table | O_memory | O_global

type_synonym ftype = "vtype list \<times> vtype list"

record wavm_ir =
  ir_start :: "nat option"
  ir_memories :: nat
  ir_exports :: "(string \<times> object_kind) list"
  ir_types :: "ftype list"
  ir_func_imports :: "(string \<times> string \<times> nat) list"
  ir_other_imports :: "(string \<times> string) list"

text \<open>What is asked about an instance: a start function, the memory exported as memory, and
whether main is exported as a function.\<close>

record wavm_instance =
  wi_start :: bool
  wi_memory :: "byte list option"
  wi_main :: bool

definition parseModule :: "(byte list \<Rightarrow> wavm_ir option) \<Rightarrow> byte list \<Rightarrow> hera_exception + wavm_ir" where
  "parseModule parse code =
     (case parse code of None \<Rightarrow> Inl ContractValidationFailure | Some ir \<Rightarrow> Inr ir)"

fun vtype_of :: "wasm_type \<Rightarrow> vtype" where
  "vtype_of T_I32 = V_i32"
| "vtype_of T_I64 = V_i64"

text \<open>The resolver knows the module ethereum only, and its exports are functions.\<close>

definition wavm_resolve :: "'h HostInterface \<Rightarrow> string \<Rightarrow> string \<Rightarrow> ftype option \<Rightarrow> bool" where
  "wavm_resolve H moduleName exportName ty \<longleftrightarrow>
     moduleName = ''ethereum''
   \<and> (case map_of (map (\<lambda>f. (wf_name f, map vtype_of (wf_params f), map vtype_of (wf_results f))) (wavm_module H))
          exportName of
        None \<Rightarrow> False
      | Some fty \<Rightarrow> ty = Some fty)"

definition linkModule :: "'h HostInterface \<Rightarrow> wavm_ir \<Rightarrow> bool" where
  "linkModule H ir \<longleftrightarrow>
     (\<forall>(mname, ename, idx) \<in> set (ir_func_imports ir).
        wavm_resolve H mname ename (if idx < length (ir_types ir) then Some (ir_types ir ! idx) else None))
   \<and> (\<forall>(mname, ename) \<in> set (ir_other_imports ir). wavm_resolve H mname ename None)"

section \<open>Verification\<close>

definition wavm_signatures :: "(string \<times> ftype) list" where
  "wavm_signatures =
    [(''useGas'', [V_i64], []),
     (''getGasLeft'', [], [V_i64]),
     (''getAddress'', [V_i32], []),
     (''getExternalBalance'', [V_i32, V_i32], []),
     (''getBlockHash'', [V_i64, V_i32], [V_i32]),
     (''getCallDataSize'', [], [V_i32]),
     (''callDataCopy'', [V_i32, V_i32, V_i32], []),
     (''getCaller'', [V_i32], []),
     (''getCallValue'', [V_i32], []),
     (''codeCopy'', [V_i32, V_i32, V_i32], []),
     (''getCodeSize'', [], [V_i32]),
     (''externalCodeCopy'', [V_i32, V_i32, V_i32, V_i32], []),
     (''getExternalCodeSize'', [V_i32], [V_i32]),
     (''getBlockCoinbase'', [V_i32], []),
     (''getBlockDifficulty'', [V_i32], []),
     (''getBlockGasLimit'', [], [V_i64]),
     (''getTxGasPrice'', [V_i32], []),
     (''log'', [V_i32, V_i32, V_i32, V_i32, V_i32, V_i32, V_i32], []),
     (''getBlockNumber'', [], [V_i64]),
     (''getBlockTimestamp'', [], [V_i64]),
     (''getTxOrigin'', [V_i32], []),
     (''storageStore'', [V_i32, V_i32], []),
     (''storageLoad'', [V_i32, V_i32], []),
     (''finish'', [V_i32, V_i32], []),
     (''revert'', [V_i32, V_i32], []),
     (''getReturnDataSize'', [], [V_i32]),
     (''returnDataCopy'', [V_i32, V_i32, V_i32], []),
     (''call'', [V_i64, V_i32, V_i32, V_i32, V_i32], [V_i32]),
     (''callCode'', [V_i64, V_i32, V_i32, V_i32, V_i32], [V_i32]),
     (''callDelegate'', [V_i64, V_i32, V_i32, V_i32], [V_i32]),
     (''callStatic'', [V_i64, V_i32, V_i32, V_i32], [V_i32]),
     (''create'', [V_i32, V_i32, V_i32, V_i32], [V_i32]),
     (''selfDestruct'', [V_i32], [])]"

fun verifyExports :: "(string \<times> object_kind) list \<Rightarrow> hera_exception + unit" where
  "verifyExports [] = Inr ()"
| "verifyExports ((name, kind) # es) =
     (if name = ''memory'' then
        (if kind = O_memory then verifyExports es else Inl ContractValidationFailure)
      else if name = ''main'' then
        (if kind = O_function then verifyExports es else Inl ContractValidationFailure)
      else Inl ContractValidationFailure)"

fun verifyFuncImports :: "ftype list \<Rightarrow> (string \<times> string \<times> nat) list \<Rightarrow> hera_exception + unit" where
  "verifyFuncImports types [] = Inr ()"
| "verifyFuncImports types ((moduleName, exportName, idx) # is) =
     (if moduleName \<noteq> ''ethereum'' then Inl ContractValidationFailure
      else
        (case map_of wavm_signatures exportName of
           None \<Rightarrow> Inl ContractValidationFailure
         | Some eei_function_type \<Rightarrow>
             if length types \<le> idx then Inl ContractValidationFailure
             else if eei_function_type = types ! idx then verifyFuncImports types is
             else Inl ContractValidationFailure))"

definition verifyIR :: "wavm_ir \<Rightarrow> hera_exception + unit" where
  "verifyIR ir =
     (if ir_start ir \<noteq> None then Inl ContractValidationFailure
      else if ir_memories ir \<noteq> 1 then Inl ContractValidationFailure
      else
        (case verifyExports (ir_exports ir) of
           Inl e \<Rightarrow> Inl e
         | Inr _ \<Rightarrow> verifyFuncImports (ir_types ir) (ir_func_imports ir)))"

definition WavmEngine_verifyContract :: "(byte list \<Rightarrow> wavm_ir option) \<Rightarrow> byte list \<Rightarrow> hera_exception + unit" where
  "WavmEngine_verifyContract parse code =
     (case parseModule parse code of Inl e \<Rightarrow> Inl e | Inr ir \<Rightarrow> verifyIR ir)"

section \<open>Execution\<close>

text \<open>
  The compiled code ends normally, with an exception of the C++ code of a host function, or
  with an exception of the runtime of the library.
\<close>

datatype wavm_exit = HostThrow hera_exception | RuntimeException

definition setWasmMemory :: "byte list \<Rightarrow> ('h interfaces, hera_exception, unit) eff" where
  "setWasmMemory mem = on_top (modifyE (\<lambda>i. i\<lparr>wasm_memory := mem\<rparr>))"

definition invokeMain ::
  "('h interfaces, wavm_exit, unit) eff \<Rightarrow> ('h interfaces, hera_exception, unit) eff" where
  "invokeMain run st =
     (case run st of
        (Inr _, st) \<Rightarrow> (Inr (), st)
      | (Inl (HostThrow EndExecution), st) \<Rightarrow> (Inr (), st)
      | (Inl (HostThrow e), st) \<Rightarrow> (Inl e, st)
      | (Inl RuntimeException, st) \<Rightarrow> (Inl VMTrap, st))"

definition runInstance ::
  "'h HostInterface \<Rightarrow> (wavm_ir \<Rightarrow> wavm_instance option)
   \<Rightarrow> ('h wavm_func list \<Rightarrow> wavm_ir \<Rightarrow> ('h interfaces, wavm_exit, unit) eff)
   \<Rightarrow> wavm_ir \<Rightarrow> ('h interfaces, hera_exception, ExecutionResult) eff" where
  "runInstance H compile run ir =
     seqE (ensureE (linkModule H ir) ContractValidationFailure)
     (case compile ir of
        None \<Rightarrow> throwE InternalErrorException
      | Some inst \<Rightarrow>
          seqE (ensureE (\<not> wi_start inst) ContractValidationFailure)
          (case wi_memory inst of
             None \<Rightarrow> throwE ContractValidationFailure
           | Some mem \<Rightarrow>
               seqE (setWasmMemory mem)
               (seqE (ensureE (wi_main inst) ContractValidationFailure)
               (seqE (invokeMain (run (wavm_module H) ir))
                     (on_top (getE m_result))))))"

text \<open>The keeper pushes the interface for the time of the run and pops it on every way out.\<close>

definition withInterface ::
  "'h EthereumInterface \<Rightarrow> ('h interfaces, hera_exception, 'a) eff \<Rightarrow> 'h interfaces
   \<Rightarrow> (hera_exception + 'a) \<times> 'h HostContext \<times> 'h interfaces" where
  "withInterface i m st =
     (case m (i # st) of
        (r, []) \<Rightarrow> (Inl UndefinedBehaviour, m_host i, [])
      | (r, i' # st') \<Rightarrow> (r, m_host i', st'))"

definition WavmEngine_internalExecute ::
  "'h HostInterface \<Rightarrow> (byte list \<Rightarrow> wavm_ir option) \<Rightarrow> (wavm_ir \<Rightarrow> wavm_instance option)
   \<Rightarrow> ('h wavm_func list \<Rightarrow> wavm_ir \<Rightarrow> ('h interfaces, wavm_exit, unit) eff)
   \<Rightarrow> 'h interfaces \<Rightarrow> 'h HostContext \<Rightarrow> byte list \<Rightarrow> byte list \<Rightarrow> evmc_message \<Rightarrow> bool
   \<Rightarrow> (hera_exception + ExecutionResult) \<times> 'h HostContext \<times> 'h interfaces" where
  "WavmEngine_internalExecute H parse compile run st ctx code state_code msg meter =
     (case parseModule parse code of
        Inl e \<Rightarrow> (Inl e, ctx, st)
      | Inr ir \<Rightarrow>
          (case mkEthereumInterface ctx state_code msg meter [] of
             Inl e \<Rightarrow> (Inl e, ctx, st)
           | Inr i \<Rightarrow> withInterface i (runInstance H compile run ir) st))"

text \<open>execute only adds the collection of garbage, on both ways out.\<close>

definition WavmEngine_execute ::
  "'h HostInterface \<Rightarrow> (byte list \<Rightarrow> wavm_ir option) \<Rightarrow> (wavm_ir \<Rightarrow> wavm_instance option)
   \<Rightarrow> ('h wavm_func list \<Rightarrow> wavm_ir \<Rightarrow> ('h interfaces, wavm_exit, unit) eff)
   \<Rightarrow> 'h interfaces \<Rightarrow> 'h HostContext \<Rightarrow> byte list \<Rightarrow> byte list \<Rightarrow> evmc_message \<Rightarrow> bool
   \<Rightarrow> (hera_exception + ExecutionResult) \<times> 'h HostContext \<times> 'h interfaces" where
  "WavmEngine_execute H parse compile run st ctx code state_code msg meter =
     (case WavmEngine_internalExecute H parse compile run st ctx code state_code msg meter of
        (Inr result, ctx, st) \<Rightarrow> (Inr result, ctx, st)
      | (Inl e, ctx, st) \<Rightarrow> (Inl e, ctx, st))"

text \<open>The engine as Hera sees it, entered with the interfaces of the executions in progress.\<close>

definition WavmEngine_create ::
  "'h HostInterface \<Rightarrow> (byte list \<Rightarrow> wavm_ir option) \<Rightarrow> (wavm_ir \<Rightarrow> wavm_instance option)
   \<Rightarrow> ('h wavm_func list \<Rightarrow> wavm_ir \<Rightarrow> ('h interfaces, wavm_exit, unit) eff)
   \<Rightarrow> 'h interfaces \<Rightarrow> 'h WasmEngine" where
  "WavmEngine_create H parse compile run st =
     \<lparr>we_execute = (\<lambda>ctx code state_code msg meter.
        case WavmEngine_execute H parse compile run st ctx code state_code msg meter of (r, ctx, _) \<Rightarrow> (r, ctx)),
      we_verifyContract = WavmEngine_verifyContract parse\<rparr>"

end
