(* ===== verification/Wavm_Correct.thy ===== *)
theory Wavm_Correct
  imports Wavm
begin

text \<open>
  The WAVM engine against the contract of an engine: its host functions are those of the wabt
  engine on the interface on top of the stack, every execution leaves the stack as it found
  it, and compiled code that acts through the host functions only is safe. Its verification
  asks less than its execution does.
\<close>

section \<open>Host functions\<close>

lemmas wavm_func_defs =
  wavm_useGas_def wavm_getGasLeft_def wavm_getAddress_def wavm_getExternalBalance_def wavm_getBlockHash_def
  wavm_getCallDataSize_def wavm_callDataCopy_def wavm_getCaller_def wavm_getCallValue_def wavm_getCodeSize_def
  wavm_codeCopy_def wavm_getExternalCodeSize_def wavm_externalCodeCopy_def wavm_getBlockCoinbase_def
  wavm_getBlockDifficulty_def wavm_getBlockGasLimit_def wavm_getTxGasPrice_def wavm_log_def
  wavm_getBlockNumber_def wavm_getBlockTimestamp_def wavm_getTxOrigin_def wavm_storageStore_def
  wavm_storageLoad_def wavm_finish_def wavm_revert_def wavm_getReturnDataSize_def wavm_returnDataCopy_def
  wavm_call_def wavm_callCode_def wavm_callDelegate_def wavm_callStatic_def wavm_create_def wavm_selfDestruct_def

text \<open>A host function of the wabt engine, as WAVM would call it.\<close>

definition as_wavm :: "'h host_func \<Rightarrow> 'h wavm_func" where
  "as_wavm g = \<lparr>wf_name = hf_name g, wf_params = hf_params g, wf_results = hf_results g,
     wf_fn = (\<lambda>args. on_top (hf_fn g args))\<rparr>"

lemma as_wavm_funcs:
  "as_wavm (wabt_useGas H) = wavm_useGas H" "as_wavm (wabt_getGasLeft H) = wavm_getGasLeft H"
  "as_wavm (wabt_getAddress H) = wavm_getAddress H" "as_wavm (wabt_getExternalBalance H) = wavm_getExternalBalance H"
  "as_wavm (wabt_getBlockHash H) = wavm_getBlockHash H" "as_wavm (wabt_getCallDataSize H) = wavm_getCallDataSize H"
  "as_wavm (wabt_callDataCopy H) = wavm_callDataCopy H" "as_wavm (wabt_getCaller H) = wavm_getCaller H"
  "as_wavm (wabt_getCallValue H) = wavm_getCallValue H" "as_wavm (wabt_getCodeSize H) = wavm_getCodeSize H"
  "as_wavm (wabt_codeCopy H) = wavm_codeCopy H" "as_wavm (wabt_getExternalCodeSize H) = wavm_getExternalCodeSize H"
  "as_wavm (wabt_externalCodeCopy H) = wavm_externalCodeCopy H" "as_wavm (wabt_getBlockCoinbase H) = wavm_getBlockCoinbase H"
  "as_wavm (wabt_getBlockDifficulty H) = wavm_getBlockDifficulty H" "as_wavm (wabt_getBlockGasLimit H) = wavm_getBlockGasLimit H"
  "as_wavm (wabt_getTxGasPrice H) = wavm_getTxGasPrice H" "as_wavm (wabt_log H) = wavm_log H"
  "as_wavm (wabt_getBlockNumber H) = wavm_getBlockNumber H" "as_wavm (wabt_getBlockTimestamp H) = wavm_getBlockTimestamp H"
  "as_wavm (wabt_getTxOrigin H) = wavm_getTxOrigin H" "as_wavm (wabt_storageStore H) = wavm_storageStore H"
  "as_wavm (wabt_storageLoad H) = wavm_storageLoad H" "as_wavm (wabt_finish H) = wavm_finish H"
  "as_wavm (wabt_revert H) = wavm_revert H" "as_wavm (wabt_getReturnDataSize H) = wavm_getReturnDataSize H"
  "as_wavm (wabt_returnDataCopy H) = wavm_returnDataCopy H" "as_wavm (wabt_call H) = wavm_call H"
  "as_wavm (wabt_callCode H) = wavm_callCode H" "as_wavm (wabt_callDelegate H) = wavm_callDelegate H"
  "as_wavm (wabt_callStatic H) = wavm_callStatic H" "as_wavm (wabt_create H) = wavm_create H"
  "as_wavm (wabt_selfDestruct H) = wavm_selfDestruct H"
  by (simp_all add: as_wavm_def wavm_func_defs wabt_func_defs)

lemma wavm_module_wabt: "set (wavm_module H) = as_wavm ` set (wabt_module H)"
  unfolding wavm_module_def wabt_module_def list.set image_insert image_empty as_wavm_funcs by blast

definition wavm_sig :: "'h wavm_func \<Rightarrow> string \<times> ftype" where
  "wavm_sig f = (wf_name f, map vtype_of (wf_params f), map vtype_of (wf_results f))"

lemma wavm_signatures_host: "map_of wavm_signatures = map_of (map wavm_sig (wavm_module H))"
proof -
  have "set wavm_signatures \<subseteq> set (map wavm_sig (wavm_module H))"
    by (simp add: wavm_signatures_def wavm_module_def wavm_sig_def wavm_func_defs)
  moreover have "set (map wavm_sig (wavm_module H)) \<subseteq> set wavm_signatures"
    by (simp add: wavm_signatures_def wavm_module_def wavm_sig_def wavm_func_defs)
  ultimately have "set wavm_signatures = set (map wavm_sig (wavm_module H))" by (rule equalityI)
  moreover have "distinct (map fst wavm_signatures)" by (simp add: wavm_signatures_def)
  moreover have "distinct (map fst (map wavm_sig (wavm_module H)))"
    by (simp add: wavm_module_def wavm_sig_def wavm_func_defs)
  ultimately show ?thesis using map_of_inject_set by blast
qed

text \<open>What the verification accepts can be linked, apart from imports that are not functions.\<close>

lemma verified_imports_resolve:
  assumes "verifyFuncImports types is = Inr ()" "(mname, ename, idx) \<in> set is"
  shows "idx < length types \<and> wavm_resolve H mname ename (Some (types ! idx))"
  using assms
proof (induction "is")
  case (Cons x xs)
  then show ?case
    by (cases x) (auto simp: wavm_resolve_def wavm_signatures_host [of H, unfolded wavm_sig_def]
        split: if_splits option.splits)
qed simp

lemma verified_links: "verifyIR ir = Inr () \<Longrightarrow> ir_other_imports ir = [] \<Longrightarrow> linkModule H ir"
  using verified_imports_resolve [of "ir_types ir" "ir_func_imports ir" _ _ _ H]
  by (fastforce simp: verifyIR_def linkModule_def split: if_splits sum.splits)

section \<open>The stack of interfaces\<close>

lemma on_top_Cons [simp]: "on_top m (i # st) = (case m i of (r, i') \<Rightarrow> (r, i' # st))"
  by (simp add: on_top_def)

text \<open>Compiled code acts through the memory of the interface on top and the host functions.\<close>

inductive wavm_run :: "'h HostInterface \<Rightarrow> 'h interfaces \<Rightarrow> 'h interfaces \<Rightarrow> bool" for H st0 where
  start: "wavm_run H st0 st0"
| wasm: "wavm_run H st0 (i # st) \<Longrightarrow> length (wasm_memory i) \<le> length mem \<Longrightarrow> length mem \<le> 2 ^ 32 \<Longrightarrow>
         wavm_run H st0 (i\<lparr>wasm_memory := mem\<rparr> # st)"
| host: "wavm_run H st0 st \<Longrightarrow> f \<in> set (wavm_module H) \<Longrightarrow> wf_fn f args st = (Inr vs, st') \<Longrightarrow>
         wavm_run H st0 st'"

definition code_runs ::
  "'h HostInterface \<Rightarrow> ('h wavm_func list \<Rightarrow> wavm_ir \<Rightarrow> ('h interfaces, wavm_exit, unit) eff) \<Rightarrow> bool" where
  "code_runs H run \<longleftrightarrow>
     (\<forall>ir st r st'. run (wavm_module H) ir st = (r, st') \<longrightarrow>
        (\<exists>u. wavm_run H st u \<and>
           (r = Inr () \<and> st' = u \<or> r = Inl RuntimeException \<and> st' = u
            \<or> (\<exists>f args e. r = Inl (HostThrow e) \<and> f \<in> set (wavm_module H) \<and> wf_fn f args u = (Inl e, st')))))"

lemma wavm_step:
  assumes "f \<in> set (wavm_module H)" "wf_fn f args (i # st) = (r, st')"
  shows "\<exists>g i'. g \<in> set (wabt_module H @ wabt_debug_module H) \<and> hf_fn g args i = (r, i') \<and> st' = i' # st"
proof -
  from assms(1) obtain g where g: "g \<in> set (wabt_module H)" "f = as_wavm g" by (auto simp: wavm_module_wabt)
  with assms(2) show ?thesis by (auto simp: as_wavm_def split: prod.splits)
qed

lemma wavm_run_top:
  assumes "wavm_run H (i # st) u"
  shows "\<exists>i' tr. u = i' # st \<and> contract_run H i tr i'"
  using assms
proof (induction rule: wavm_run.induct)
  case start
  then show ?case using contract_run.start by blast
next
  case (wasm j st' mem)
  then show ?case using contract_run.wasm by blast
next
  case (host u f args vs st')
  then obtain j tr where j: "u = j # st" "contract_run H i tr j" by blast
  with wavm_step [OF host(2)] host(3) obtain g i' where
    "g \<in> set (wabt_module H @ wabt_debug_module H)" "hf_fn g args j = (Inr vs, i')" "st' = i' # st" by blast
  then show ?case using contract_run.host [OF j(2)] by blast
qed

section \<open>The engine\<close>

text \<open>What a piece of an execution guarantees of the interface on top and of the stack below.\<close>

definition top_ok ::
  "('h \<Rightarrow> 'w) \<Rightarrow> evmc_message \<Rightarrow> byte list \<Rightarrow> 'w \<Rightarrow> int \<Rightarrow> 'h interfaces \<Rightarrow> 'h interfaces \<Rightarrow> bool" where
  "top_ok world m c w g st u \<longleftrightarrow> (\<exists>i n. u = i # st \<and> iface_inv world m c n w g i)"

lemma hoare_guard:
  "(\<And>s. P s \<Longrightarrow> E e s) \<Longrightarrow> hoare P k Q E \<Longrightarrow> hoare P (seqE (ensureE c e) k) Q E"
  by (rule hoare_seq [where R = P]) (simp_all add: hoare_ensure)

locale wavm_engine = evmc_host H world for H :: "'h HostInterface" and world :: "'h \<Rightarrow> 'w" +
  fixes compile :: "wavm_ir \<Rightarrow> wavm_instance option"
    and run :: "'h wavm_func list \<Rightarrow> wavm_ir \<Rightarrow> ('h interfaces, wavm_exit, unit) eff"
  assumes runs: "code_runs H run"
    and small_memory: "compile ir = Some inst \<Longrightarrow> wi_memory inst = Some mem \<Longrightarrow> length mem \<le> 2 ^ 32"
begin

lemma invoke_ok:
  assumes "g \<le> int64_max" "msg_value m = 0"
  shows "hoare (top_ok world m c w g st) (invokeMain (run (wavm_module H) ir))
     (\<lambda>_. top_ok world m c w g st) (\<lambda>e u. top_ok world m c w g st u \<and> e \<noteq> UndefinedBehaviour)"
  unfolding hoare_def
proof (intro allI impI)
  fix s
  assume "top_ok world m c w g st s"
  then obtain i n where i: "s = i # st" "iface_inv world m c n w g i" by (auto simp: top_ok_def)
  obtain r u where ru: "run (wavm_module H) ir s = (r, u)" by fastforce
  with runs obtain v where v: "wavm_run H s v" and r: "r = Inr () \<and> u = v \<or> r = Inl RuntimeException \<and> u = v
      \<or> (\<exists>f args e. r = Inl (HostThrow e) \<and> f \<in> set (wavm_module H) \<and> wf_fn f args v = (Inl e, u))"
    unfolding code_runs_def by blast
  from wavm_run_top [OF v [unfolded i(1)]] obtain j tr where j: "v = j # st" "contract_run H i tr j" by blast
  from run_keeps_inv [OF j(2) i(2) assms] obtain n' where n': "iface_inv world m c n' w g j" by blast
  from r consider "u = v" "r = Inr () \<or> r = Inl RuntimeException"
    | f args e where "r = Inl (HostThrow e)" "f \<in> set (wavm_module H)" "wf_fn f args v = (Inl e, u)" by blast
  then have "top_ok world m c w g st u \<and> r \<noteq> Inl (HostThrow UndefinedBehaviour)"
  proof cases
    case 1
    then show ?thesis using j(1) n' by (auto simp: top_ok_def)
  next
    case 2
    from wavm_step [OF 2(2) 2(3) [unfolded j(1)]] obtain h j' where
      h: "h \<in> set (wabt_module H @ wabt_debug_module H)" "hf_fn h args j = (Inl e, j')" "u = j' # st" by blast
    from throw_keeps_inv [OF h(1,2) n' assms] h(3) 2(1) show ?thesis by (auto simp: top_ok_def)
  qed
  then show "case invokeMain (run (wavm_module H) ir) s of
      (Inl e, u) \<Rightarrow> top_ok world m c w g st u \<and> e \<noteq> UndefinedBehaviour
    | (Inr _, u) \<Rightarrow> top_ok world m c w g st u"
    using ru by (auto simp: invokeMain_def split: sum.splits wavm_exit.splits hera_exception.splits)
qed

lemma instance_ok:
  assumes "g \<le> int64_max" "msg_value m = 0"
  shows "hoare (top_ok world m c w g st) (runInstance H compile run ir)
     (\<lambda>r u. top_ok world m c w g st u \<and> 0 \<le> gasLeft r \<and> gasLeft r \<le> g)
     (\<lambda>e u. top_ok world m c w g st u \<and> e \<noteq> UndefinedBehaviour)"
proof -
  have mem: "hoare (top_ok world m c w g st) (setWasmMemory mem) (\<lambda>_. top_ok world m c w g st)
      (\<lambda>e u. top_ok world m c w g st u \<and> e \<noteq> UndefinedBehaviour)" if "length mem \<le> 2 ^ 32" for mem
    using that by (auto simp: hoare_def top_ok_def setWasmMemory_def modifyE_def iface_inv_def)
  have res: "hoare (top_ok world m c w g st) (on_top (getE m_result))
      (\<lambda>r u. top_ok world m c w g st u \<and> 0 \<le> gasLeft r \<and> gasLeft r \<le> g)
      (\<lambda>e u. top_ok world m c w g st u \<and> e \<noteq> UndefinedBehaviour)"
    by (auto simp: hoare_def top_ok_def getE_def iface_inv_def)
  show ?thesis
    unfolding runInstance_def
    by (intro hoare_guard) (auto intro!: hoare_guard hoare_throw hoare_seq [OF mem] hoare_seq [OF invoke_ok [OF assms]]
        res small_memory split: option.splits)
qed

lemma execute_inv:
  assumes g: "0 \<le> msg_gas msg" "msg_gas msg \<le> int64_max" and v: "msg_value msg = 0"
    and ex: "WavmEngine_execute H parse compile run st ctx code state_code msg True = (res, ctx', st')"
  shows "st' = st \<and> res \<noteq> Inl UndefinedBehaviour
    \<and> (\<forall>r. res = Inr r \<longrightarrow> 0 \<le> gasLeft r \<and> gasLeft r \<le> msg_gas msg)
    \<and> (is_static (msg_flags msg) \<longrightarrow> world (host_state ctx') = world (host_state ctx))"
proof -
  have int: "WavmEngine_internalExecute H parse compile run st ctx code state_code msg True = (res, ctx', st')"
    using ex by (auto simp: WavmEngine_execute_def split: prod.splits sum.splits)
  show ?thesis
  proof (cases "mkEthereumInterface ctx state_code msg True []")
    case (Inl e)
    then show ?thesis using int
      by (auto simp: WavmEngine_internalExecute_def parseModule_def mkEthereumInterface_def split: option.splits if_splits)
  next
    case i: (Inr i)
    show ?thesis
    proof (cases "parse code")
      case None
      then show ?thesis using int by (auto simp: WavmEngine_internalExecute_def parseModule_def)
    next
      case (Some ir)
      obtain r u where ru: "runInstance H compile run ir (i # st) = (r, u)" by fastforce
      have t: "top_ok world msg state_code (world (host_state ctx)) (msg_gas msg) st (i # st)"
        using start_inv [OF i _ g(1), of world] by (simp add: top_ok_def) blast
      note h = instance_ok [OF g(2) v, of state_code "world (host_state ctx)" st ir]
      have "(case r of Inl e \<Rightarrow> e \<noteq> UndefinedBehaviour | Inr x \<Rightarrow> 0 \<le> gasLeft x \<and> gasLeft x \<le> msg_gas msg)
          \<and> top_ok world msg state_code (world (host_state ctx)) (msg_gas msg) st u"
        using hoareD_return [OF h t] hoareD_throw [OF h t] ru by (cases r) simp_all
      moreover have "(res, ctx', st') = (case u of [] \<Rightarrow> (Inl UndefinedBehaviour, m_host i, []) | j # st'' \<Rightarrow> (r, m_host j, st''))"
        using int i Some ru by (auto simp: WavmEngine_internalExecute_def parseModule_def withInterface_def split: list.splits)
      ultimately show ?thesis by (auto simp: top_ok_def iface_inv_def split: sum.splits)
    qed
  qed
qed

end

lemma verifyExports_rejects: "verifyExports es = Inl e \<Longrightarrow> e = ContractValidationFailure"
  by (induction es rule: verifyExports.induct) (auto split: if_splits)

lemma verifyFuncImports_rejects: "verifyFuncImports types is = Inl e \<Longrightarrow> e = ContractValidationFailure"
  by (induction "is") (auto split: if_splits option.splits)

lemma wavm_verify_rejects: "WavmEngine_verifyContract parse code = Inl e \<Longrightarrow> e = ContractValidationFailure"
  by (auto simp: WavmEngine_verifyContract_def parseModule_def verifyIR_def
      split: if_splits option.splits sum.splits dest: verifyExports_rejects verifyFuncImports_rejects)

sublocale wavm_engine \<subseteq> wasm_engine H world "WavmEngine_create H parse compile run st"
  for parse st
proof
  fix msg :: evmc_message and ctx ctx' :: "'h HostContext" and code state_code res
  assume a: "0 \<le> msg_gas msg" "msg_gas msg \<le> int64_max" "msg_value msg = 0"
    and "we_execute (WavmEngine_create H parse compile run st) ctx code state_code msg True = (res, ctx')"
  then obtain st' where "WavmEngine_execute H parse compile run st ctx code state_code msg True = (res, ctx', st')"
    by (auto simp: WavmEngine_create_def split: prod.splits)
  from execute_inv [OF a this] show "res \<noteq> Inl UndefinedBehaviour
      \<and> (\<forall>r. res = Inr r \<longrightarrow> 0 \<le> gasLeft r \<and> gasLeft r \<le> msg_gas msg)
      \<and> (is_static (msg_flags msg) \<longrightarrow> world (host_state ctx') = world (host_state ctx))" by blast
next
  fix code
  show "we_verifyContract (WavmEngine_create H parse compile run st) code \<noteq> Inl UndefinedBehaviour"
    using wavm_verify_rejects [of parse code UndefinedBehaviour] by (auto simp: WavmEngine_create_def)
qed

text \<open>A compiled module that reads the gas counter and stops, and one that exports nothing.\<close>

definition gas_ir :: wavm_ir where
  "gas_ir = \<lparr>ir_start = None, ir_memories = 1, ir_exports = [(''main'', O_function), (''memory'', O_memory)],
     ir_types = [([], [V_i64])], ir_func_imports = [(''ethereum'', ''getGasLeft'', 0)], ir_other_imports = []\<rparr>"

definition mute_ir :: wavm_ir where
  "mute_ir = gas_ir\<lparr>ir_exports := []\<rparr>"

definition compile_ir :: "wavm_ir \<Rightarrow> wavm_instance option" where
  "compile_ir ir = Some \<lparr>wi_start = (ir_start ir \<noteq> None),
     wi_memory = (if (''memory'', O_memory) \<in> set (ir_exports ir) then Some (replicate 64 0) else None),
     wi_main = ((''main'', O_function) \<in> set (ir_exports ir))\<rparr>"

definition gas_code :: "'h wavm_func list \<Rightarrow> wavm_ir \<Rightarrow> ('h interfaces, wavm_exit, unit) eff" where
  "gas_code fs ir st =
     (case fs of
        f # g # _ \<Rightarrow> (case wf_fn g [] st of (Inr _, st) \<Rightarrow> (Inr (), st) | (Inl e, st) \<Rightarrow> (Inl (HostThrow e), st))
      | _ \<Rightarrow> (Inl RuntimeException, st))"

lemma gas_code_runs: "code_runs (H :: 'h HostInterface) gas_code"
  unfolding code_runs_def
proof (intro allI impI)
  fix ir :: wavm_ir and st st' :: "'h interfaces" and r
  let ?g = "wavm_getGasLeft H"
  have g: "?g \<in> set (wavm_module H)" by (simp add: wavm_module_def)
  assume "gas_code (wavm_module H) ir st = (r, st')"
  then have r: "(r, st') = (case wf_fn ?g [] st of (Inr _, st) \<Rightarrow> (Inr (), st) | (Inl e, st) \<Rightarrow> (Inl (HostThrow e), st))"
    by (simp add: gas_code_def wavm_module_def)
  show "\<exists>u. wavm_run H st u \<and> (r = Inr () \<and> st' = u \<or> r = Inl RuntimeException \<and> st' = u
      \<or> (\<exists>f args e. r = Inl (HostThrow e) \<and> f \<in> set (wavm_module H) \<and> wf_fn f args u = (Inl e, st')))"
  proof (cases "wf_fn ?g [] st")
    case (Pair x u)
    show ?thesis
    proof (cases x)
      case (Inl e)
      then have "r = Inl (HostThrow e) \<and> wf_fn ?g [] st = (Inl e, st')" using r Pair by simp
      then show ?thesis using g wavm_run.start by blast
    next
      case (Inr vs)
      then have "r = Inr () \<and> wf_fn ?g [] st = (Inr vs, st')" using r Pair by simp
      then show ?thesis using wavm_run.host [OF wavm_run.start g] by blast
    qed
  qed
qed

interpretation gas_wavm: wavm_engine example_host "\<lambda>h. h" compile_ir gas_code
  by unfold_locales (auto simp: gas_code_runs compile_ir_def split: if_splits)

section \<open>Properties\<close>

text \<open>
  C20: running a contract in the WAVM engine, metered and without value, with compiled code that
  acts through the host functions only: the global stack of interfaces is as before, whichever
  way the execution ends, no host function meets an empty stack or other undefined behaviour,
  the gas left is between zero and the gas of the message, and a static run leaves the world
  as it was.
\<close>

theorem wavm_execute_safe:
  assumes "wavm_engine H world compile run"
    and "0 \<le> msg_gas msg" "msg_gas msg \<le> int64_max" "msg_value msg = 0"
    and "WavmEngine_execute H parse compile run st ctx code state_code msg True = (res, ctx', st')"
  shows "st' = st \<and> res \<noteq> Inl UndefinedBehaviour
    \<and> (\<forall>r. res = Inr r \<longrightarrow> 0 \<le> gasLeft r \<and> gasLeft r \<le> msg_gas msg)
    \<and> (is_static (msg_flags msg) \<longrightarrow> world (host_state ctx') = world (host_state ctx))"
  by (rule wavm_engine.execute_inv [OF assms])

theorem wavm_execute_safe_witness:
  "snd (snd (WavmEngine_execute example_host (\<lambda>_. Some gas_ir) compile_ir gas_code [sample_iface 0 7] sample_host
     [] [] (sample_msg 1 0) True)) = [sample_iface 0 7]"
proof -
  obtain res ctx' st' where ex: "WavmEngine_execute example_host (\<lambda>_. Some gas_ir) compile_ir gas_code
      [sample_iface 0 7] sample_host [] [] (sample_msg 1 0) True = (res, ctx', st')" by (metis prod.collapse)
  have "0 \<le> msg_gas (sample_msg 1 0)" "msg_gas (sample_msg 1 0) \<le> int64_max" "msg_value (sample_msg 1 0) = 0"
    by (simp_all add: sample_msg_def int64_max_def)
  from wavm_execute_safe [OF gas_wavm.wavm_engine_axioms this ex] ex show ?thesis by simp
qed

text \<open>
  what WavmEngine::verifyContract accepts can always be linked when it imports functions
  only, but it need not be runnable: a module that exports neither memory nor main is accepted
  for deployment, and every execution of it is then rejected.
\<close>

theorem wavm_verified_but_rejected:
  assumes "compile mute_ir = Some inst" "wi_memory inst = None" "\<not> wi_start inst" "msg_flags msg = 0"
  shows "WavmEngine_verifyContract (\<lambda>_. Some mute_ir) code = Inr () \<and> linkModule H mute_ir
    \<and> fst (WavmEngine_execute H (\<lambda>_. Some mute_ir) compile run st ctx code state_code msg meter)
        = Inl ContractValidationFailure"
proof -
  have v: "verifyIR mute_ir = Inr ()"
    by (simp add: verifyIR_def mute_ir_def gas_ir_def wavm_signatures_def)
  moreover from v have "linkModule H mute_ir" by (rule verified_links) (simp add: mute_ir_def gas_ir_def)
  ultimately show ?thesis using assms
    by (simp add: WavmEngine_verifyContract_def WavmEngine_execute_def WavmEngine_internalExecute_def parseModule_def
        mkEthereumInterface_def withInterface_def runInstance_def eff_simps)
qed

theorem wavm_verified_but_rejected_witness:
  "WavmEngine_verifyContract (\<lambda>_. Some mute_ir) [] = Inr ()
   \<and> fst (WavmEngine_execute example_host (\<lambda>_. Some mute_ir) compile_ir gas_code [] sample_host [] [] (sample_msg 0 0) True)
       = Inl ContractValidationFailure"
  using wavm_verified_but_rejected [of compile_ir _ "sample_msg 0 0" "[]" example_host gas_code "[]" sample_host "[]" True]
  by (simp add: compile_ir_def mute_ir_def gas_ir_def sample_msg_def)

end
