(* ===== verification/Arith256.thy ===== *)
theory Arith256
  imports Ir
begin

text \<open>
  The arithmetic runtime the translator emits as LLVM functions (src/evmtrans/Arith256.cpp):
  counting leading zeros, unsigned and signed division with remainder at 256 and 512 bits,
  multiplication from half-width parts, exponentiation, and the checked operations of
  SafeMath. Each definition is the function that the builder calls assemble, block by block;
  the names of registers and blocks are those of the sources, or the C++ variable where the
  sources give an instruction no name. The stack slot whose address the checked operations
  pass to the host's revert, with length zero, is an undefined value.
\<close>

section \<open>The functions\<close>

definition ctlzName :: "nat \<Rightarrow> string" where
  "ctlzName bits = (if bits = 256 then ''wasm.ctlz.i256'' else ''wasm.ctlz.i512'')"

definition ctlz_Entry :: "nat \<Rightarrow> ir_block" where
  "ctlz_Entry bits =
     \<lparr>blk_phis = [], blk_body = [], blk_term = Br ''ctlz.LoopHeader''\<rparr>"

definition ctlz_LoopHeader :: "nat \<Rightarrow> ir_block" where
  "ctlz_LoopHeader bits =
     \<lparr>blk_phis = [(''tmp'', [(''ctlz.Entry'', Reg ''x''), (''ctlz.LoopBody'', Reg ''t1'')]),
                  (''cnt'', [(''ctlz.Entry'', Imm 0), (''ctlz.LoopBody'', Reg ''c1'')])],
      blk_body = [(''tmp.nonzero'', OICmp ICmpNE bits (Reg ''tmp'') (Imm 0))],
      blk_term = CondBr (Reg ''tmp.nonzero'') ''ctlz.LoopBody'' ''ctlz.Return''\<rparr>"

definition ctlz_LoopBody :: "nat \<Rightarrow> ir_block" where
  "ctlz_LoopBody bits =
     \<lparr>blk_phis = [],
      blk_body = [(''t1'', OBin LShr bits (Reg ''tmp'') (Imm 1)), (''c1'', OBin Add bits (Reg ''cnt'') (Imm 1))],
      blk_term = Br ''ctlz.LoopHeader''\<rparr>"

definition ctlz_Return :: "nat \<Rightarrow> ir_block" where
  "ctlz_Return bits =
     \<lparr>blk_phis = [], blk_body = [(''r'', OBin Sub bits (Imm (int bits)) (Reg ''cnt''))],
      blk_term = Ret (Reg ''r'')\<rparr>"

definition createCTLZFunc :: "nat \<Rightarrow> ir_func" where
  "createCTLZFunc bits =
     \<lparr>fn_params = [''x''], fn_entry = ''ctlz.Entry'',
      fn_blocks =
        [(''ctlz.Entry'', ctlz_Entry bits), (''ctlz.LoopHeader'', ctlz_LoopHeader bits), (''ctlz.LoopBody'', ctlz_LoopBody bits), (''ctlz.Return'', ctlz_Return bits)]\<rparr>"

lemma ctlz_lookup [simp]:
  "map_of (fn_blocks (createCTLZFunc bits)) ''ctlz.Entry'' = Some (ctlz_Entry bits)"
  "map_of (fn_blocks (createCTLZFunc bits)) ''ctlz.LoopHeader'' = Some (ctlz_LoopHeader bits)"
  "map_of (fn_blocks (createCTLZFunc bits)) ''ctlz.LoopBody'' = Some (ctlz_LoopBody bits)"
  "map_of (fn_blocks (createCTLZFunc bits)) ''ctlz.Return'' = Some (ctlz_Return bits)"
  by (simp_all add: createCTLZFunc_def)

lemma ctlz_entry [simp]: "fn_entry (createCTLZFunc bits) = ''ctlz.Entry''" "fn_params (createCTLZFunc bits) = [''x'']"
  by (simp_all add: createCTLZFunc_def)

lemmas ctlz_at_block = run_from.simps [where bs = "fn_blocks (createCTLZFunc bits)" for bits]

lemmas ctlz_defs = ctlz_Entry_def ctlz_LoopHeader_def ctlz_LoopBody_def ctlz_Return_def

definition udr_Entry :: "nat \<Rightarrow> ir_block" where
  "udr_Entry bits =
     \<lparr>blk_phis = [], blk_body = [(''yLEx'', OICmp ICmpULE bits (Reg ''y'') (Reg ''x''))],
      blk_term = CondBr (Reg ''yLEx'') ''Main'' ''Return''\<rparr>"

definition udr_Main :: "nat \<Rightarrow> ir_block" where
  "udr_Main bits =
     \<lparr>blk_phis = [],
      blk_body = [(''y.lz'', OCall (ctlzName bits) [Reg ''y'']), (''r.lz'', OCall (ctlzName bits) [Reg ''x'']),
                  (''i0'', OBin NUWSub bits (Reg ''y.lz'') (Reg ''r.lz''))],
      blk_term = Br ''beforeloopY''\<rparr>"

definition udr_beforeloopY :: "nat \<Rightarrow> ir_block" where
  "udr_beforeloopY bits =
     \<lparr>blk_phis = [(''i0.phi'', [(''Main'', Reg ''i0''), (''LoopY'', Reg ''i1'')]),
                  (''y0'', [(''Main'', Reg ''y''), (''LoopY'', Reg ''y1'')])],
      blk_body = [(''i0.nonzero'', OICmp ICmpNE bits (Reg ''i0.phi'') (Imm 0))],
      blk_term = CondBr (Reg ''i0.nonzero'') ''LoopY'' ''Loop''\<rparr>"

definition udr_LoopY :: "nat \<Rightarrow> ir_block" where
  "udr_LoopY bits =
     \<lparr>blk_phis = [],
      blk_body = [(''y1'', OBin Shl bits (Reg ''y0'') (Imm 1)), (''i1'', OBin Sub bits (Reg ''i0.phi'') (Imm 1))],
      blk_term = Br ''beforeloopY''\<rparr>"

definition udr_Loop :: "nat \<Rightarrow> ir_block" where
  "udr_Loop bits =
     \<lparr>blk_phis = [(''y.phi'', [(''beforeloopY'', Reg ''y0''), (''Continue'', Reg ''y2'')]),
                  (''r.phi'', [(''beforeloopY'', Reg ''x''), (''Continue'', Reg ''r1'')]),
                  (''i.phi'', [(''beforeloopY'', Reg ''i0''), (''Continue'', Reg ''i2'')]),
                  (''q.phi'', [(''beforeloopY'', Imm 0), (''Continue'', Reg ''q2'')])],
      blk_body = [(''rUpdate'', OBin NUWSub bits (Reg ''r.phi'') (Reg ''y.phi'')),
                  (''qUpdate'', OBin Or bits (Reg ''q.phi'') (Imm 1)),
                  (''rGEy'', OICmp ICmpUGE bits (Reg ''r.phi'') (Reg ''y.phi'')),
                  (''r1'', OSelect (Reg ''rGEy'') (Reg ''rUpdate'') (Reg ''r.phi'')),
                  (''q'', OSelect (Reg ''rGEy'') (Reg ''qUpdate'') (Reg ''q.phi'')),
                  (''iZero'', OICmp ICmpEQ bits (Reg ''i.phi'') (Imm 0))],
      blk_term = CondBr (Reg ''iZero'') ''Return'' ''Continue''\<rparr>"

definition udr_Continue :: "nat \<Rightarrow> ir_block" where
  "udr_Continue bits =
     \<lparr>blk_phis = [],
      blk_body = [(''i2'', OBin NUWSub bits (Reg ''i.phi'') (Imm 1)),
                  (''q2'', OBin Shl bits (Reg ''q'') (Imm 1)),
                  (''y2'', OBin LShr bits (Reg ''y.phi'') (Imm 1))],
      blk_term = Br ''Loop''\<rparr>"

definition udr_Return :: "nat \<Rightarrow> ir_block" where
  "udr_Return bits =
     \<lparr>blk_phis = [(''q.ret'', [(''Entry'', Imm 0), (''Loop'', Reg ''q'')]),
                  (''r.ret'', [(''Entry'', Reg ''x''), (''Loop'', Reg ''r1'')])],
      blk_body = [(''ret0'', OInsertElement (UndefVec 2) (Reg ''q.ret'') 0),
                  (''ret'', OInsertElement (Reg ''ret0'') (Reg ''r.ret'') 1)],
      blk_term = Ret (Reg ''ret'')\<rparr>"

definition createUDivRemFunc :: "nat \<Rightarrow> ir_func" where
  "createUDivRemFunc bits =
     \<lparr>fn_params = [''x'', ''y''], fn_entry = ''Entry'',
      fn_blocks =
        [(''Entry'', udr_Entry bits), (''Main'', udr_Main bits), (''beforeloopY'', udr_beforeloopY bits), (''LoopY'', udr_LoopY bits), (''Loop'', udr_Loop bits), (''Continue'', udr_Continue bits), (''Return'', udr_Return bits)]\<rparr>"

lemma udr_lookup [simp]:
  "map_of (fn_blocks (createUDivRemFunc bits)) ''Entry'' = Some (udr_Entry bits)"
  "map_of (fn_blocks (createUDivRemFunc bits)) ''Main'' = Some (udr_Main bits)"
  "map_of (fn_blocks (createUDivRemFunc bits)) ''beforeloopY'' = Some (udr_beforeloopY bits)"
  "map_of (fn_blocks (createUDivRemFunc bits)) ''LoopY'' = Some (udr_LoopY bits)"
  "map_of (fn_blocks (createUDivRemFunc bits)) ''Loop'' = Some (udr_Loop bits)"
  "map_of (fn_blocks (createUDivRemFunc bits)) ''Continue'' = Some (udr_Continue bits)"
  "map_of (fn_blocks (createUDivRemFunc bits)) ''Return'' = Some (udr_Return bits)"
  by (simp_all add: createUDivRemFunc_def)

lemma udr_entry [simp]:
  "fn_entry (createUDivRemFunc bits) = ''Entry''" "fn_params (createUDivRemFunc bits) = [''x'', ''y'']"
  by (simp_all add: createUDivRemFunc_def)

lemmas udr_at_block = run_from.simps [where bs = "fn_blocks (createUDivRemFunc bits)" for bits]

lemmas udr_defs = udr_Entry_def udr_Main_def udr_beforeloopY_def udr_LoopY_def udr_Loop_def udr_Continue_def udr_Return_def

definition udivremName :: "nat \<Rightarrow> string" where
  "udivremName bits = (if bits = 256 then ''evm.udivrem.i256'' else ''evm.udivrem.i512'')"

definition udiv_bb :: "ir_block" where
  "udiv_bb =
     \<lparr>blk_phis = [],
      blk_body = [(''udivrem'', OCall (udivremName 256) [Reg ''x'', Reg ''y'']),
                  (''udiv'', OExtractElement (Reg ''udivrem'') 0)],
      blk_term = Ret (Reg ''udiv'')\<rparr>"

definition getUDiv256Func :: "ir_func" where
  "getUDiv256Func =
     \<lparr>fn_params = [''x'', ''y''], fn_entry = ''bb'',
      fn_blocks =
        [(''bb'', udiv_bb)]\<rparr>"

definition urem_bb :: "nat \<Rightarrow> ir_block" where
  "urem_bb bits =
     \<lparr>blk_phis = [],
      blk_body = [(''udivrem'', OCall (udivremName bits) [Reg ''x'', Reg ''y'']),
                  (''r'', OExtractElement (Reg ''udivrem'') 1)],
      blk_term = Ret (Reg ''r'')\<rparr>"

definition createURemFunc :: "nat \<Rightarrow> ir_func" where
  "createURemFunc bits =
     \<lparr>fn_params = [''x'', ''y''], fn_entry = ''bb'',
      fn_blocks =
        [(''bb'', urem_bb bits)]\<rparr>"

definition sdr_bb :: "ir_block" where
  "sdr_bb =
     \<lparr>blk_phis = [],
      blk_body = [(''xIsNeg'', OICmp ICmpSLT 256 (Reg ''x'') (Imm 0)),
                  (''xNeg'', OBin Sub 256 (Imm 0) (Reg ''x'')),
                  (''xAbs'', OSelect (Reg ''xIsNeg'') (Reg ''xNeg'') (Reg ''x'')),
                  (''yIsNeg'', OICmp ICmpSLT 256 (Reg ''y'') (Imm 0)),
                  (''yNeg'', OBin Sub 256 (Imm 0) (Reg ''y'')),
                  (''yAbs'', OSelect (Reg ''yIsNeg'') (Reg ''yNeg'') (Reg ''y'')),
                  (''res'', OCall (udivremName 256) [Reg ''xAbs'', Reg ''yAbs'']),
                  (''qAbs'', OExtractElement (Reg ''res'') 0),
                  (''rAbs'', OExtractElement (Reg ''res'') 1),
                  (''rNeg'', OBin Sub 256 (Imm 0) (Reg ''rAbs'')),
                  (''r'', OSelect (Reg ''xIsNeg'') (Reg ''rNeg'') (Reg ''rAbs'')),
                  (''qNeg'', OBin Sub 256 (Imm 0) (Reg ''qAbs'')),
                  (''xyOpposite'', OBin Xor 1 (Reg ''xIsNeg'') (Reg ''yIsNeg'')),
                  (''q'', OSelect (Reg ''xyOpposite'') (Reg ''qNeg'') (Reg ''qAbs'')),
                  (''ret0'', OInsertElement (UndefVec 2) (Reg ''q'') 0),
                  (''ret'', OInsertElement (Reg ''ret0'') (Reg ''r'') 1)],
      blk_term = Ret (Reg ''ret'')\<rparr>"

definition getSDivRem256Func :: "ir_func" where
  "getSDivRem256Func =
     \<lparr>fn_params = [''x'', ''y''], fn_entry = ''bb'',
      fn_blocks =
        [(''bb'', sdr_bb)]\<rparr>"

definition sdiv_bb :: "ir_block" where
  "sdiv_bb =
     \<lparr>blk_phis = [],
      blk_body = [(''sdivrem'', OCall ''evm.sdivrem.i256'' [Reg ''x'', Reg ''y'']),
                  (''q'', OExtractElement (Reg ''sdivrem'') 0)],
      blk_term = Ret (Reg ''q'')\<rparr>"

definition getSDiv256Func :: "ir_func" where
  "getSDiv256Func =
     \<lparr>fn_params = [''x'', ''y''], fn_entry = ''bb'',
      fn_blocks =
        [(''bb'', sdiv_bb)]\<rparr>"

definition srem_bb :: "ir_block" where
  "srem_bb =
     \<lparr>blk_phis = [],
      blk_body = [(''sdivrem'', OCall ''evm.sdivrem.i256'' [Reg ''x'', Reg ''y'']),
                  (''r'', OExtractElement (Reg ''sdivrem'') 1)],
      blk_term = Ret (Reg ''r'')\<rparr>"

definition getSRem256Func :: "ir_func" where
  "getSRem256Func =
     \<lparr>fn_params = [''x'', ''y''], fn_entry = ''bb'',
      fn_blocks =
        [(''bb'', srem_bb)]\<rparr>"

definition mul_Entry :: "nat \<Rightarrow> ir_block" where
  "mul_Entry bits =
     \<lparr>blk_phis = [],
      blk_body = [(''lhs_l'', OTrunc (bits div 2) (Reg ''lhs'')),
                  (''lhs_s'', OBin LShr bits (Reg ''lhs'') (Imm (int (bits div 2)))),
                  (''lhs_h'', OTrunc (bits div 2) (Reg ''lhs_s'')),
                  (''rhs_l'', OTrunc (bits div 2) (Reg ''rhs'')),
                  (''rhs_s'', OBin LShr bits (Reg ''rhs'') (Imm (int (bits div 2)))),
                  (''rhs_h'', OTrunc (bits div 2) (Reg ''rhs_s'')),
                  (''lhs_ll'', OBin And (bits div 2) (Reg ''lhs_l'') (Imm (mask (bits div 4)))),
                  (''rhs_ll'', OBin And (bits div 2) (Reg ''rhs_l'') (Imm (mask (bits div 4)))),
                  (''t'', OBin Mul (bits div 2) (Reg ''lhs_ll'') (Reg ''rhs_ll'')),
                  (''t_l'', OBin And (bits div 2) (Reg ''t'') (Imm (mask (bits div 4)))),
                  (''t_h'', OBin LShr (bits div 2) (Reg ''t'') (Imm (int (bits div 4)))),
                  (''lhs_lh'', OBin LShr (bits div 2) (Reg ''lhs_l'') (Imm (int (bits div 4)))),
                  (''rhs_lh'', OBin LShr (bits div 2) (Reg ''rhs_l'') (Imm (int (bits div 4)))),
                  (''u_m'', OBin Mul (bits div 2) (Reg ''lhs_lh'') (Reg ''rhs_ll'')),
                  (''u'', OBin Add (bits div 2) (Reg ''u_m'') (Reg ''t_h'')),
                  (''u_l'', OBin And (bits div 2) (Reg ''u'') (Imm (mask (bits div 4)))),
                  (''u_h'', OBin LShr (bits div 2) (Reg ''u'') (Imm (int (bits div 4)))),
                  (''v_m'', OBin Mul (bits div 2) (Reg ''lhs_ll'') (Reg ''rhs_lh'')),
                  (''v'', OBin Add (bits div 2) (Reg ''v_m'') (Reg ''u_l'')),
                  (''v_h'', OBin LShr (bits div 2) (Reg ''v'') (Imm (int (bits div 4)))),
                  (''w_m'', OBin Mul (bits div 2) (Reg ''lhs_lh'') (Reg ''rhs_lh'')),
                  (''w_a'', OBin Add (bits div 2) (Reg ''u_h'') (Reg ''v_h'')),
                  (''w'', OBin Add (bits div 2) (Reg ''w_m'') (Reg ''w_a'')),
                  (''v_s'', OBin Shl (bits div 2) (Reg ''v'') (Imm (int (bits div 4)))),
                  (''o_a'', OBin Add (bits div 2) (Reg ''t_l'') (Reg ''v_s'')),
                  (''o_l'', OZExt bits (Reg ''o_a'')),
                  (''o_m1'', OBin Mul (bits div 2) (Reg ''rhs_h'') (Reg ''lhs_l'')),
                  (''o_m2'', OBin Mul (bits div 2) (Reg ''rhs_l'') (Reg ''lhs_h'')),
                  (''o_m'', OBin Add (bits div 2) (Reg ''o_m1'') (Reg ''o_m2'')),
                  (''o_b'', OBin Add (bits div 2) (Reg ''w'') (Reg ''o_m'')),
                  (''o_h'', OZExt bits (Reg ''o_b'')),
                  (''o_s'', OBin Shl bits (Reg ''o_h'') (Imm (int (bits div 2)))),
                  (''o'', OBin Add bits (Reg ''o_l'') (Reg ''o_s''))],
      blk_term = Ret (Reg ''o'')\<rparr>"

definition getMulFunc :: "nat \<Rightarrow> ir_func" where
  "getMulFunc bits =
     \<lparr>fn_params = [''lhs'', ''rhs''], fn_entry = ''mul.Entry'',
      fn_blocks =
        [(''mul.Entry'', mul_Entry bits)]\<rparr>"

definition exp_Entry :: "ir_block" where
  "exp_Entry =
     \<lparr>blk_phis = [],
      blk_body = [],
      blk_term = Br ''exp.LoopHeader''\<rparr>"

definition exp_LoopHeader :: "ir_block" where
  "exp_LoopHeader =
     \<lparr>blk_phis = [(''r'', [(''exp.Entry'', Imm 1), (''exp.Continue'', Reg ''r1'')]),
                  (''b'', [(''exp.Entry'', Reg ''base''), (''exp.Continue'', Reg ''b1'')]),
                  (''e'', [(''exp.Entry'', Reg ''exponent''), (''exp.Continue'', Reg ''e1'')])],
      blk_body = [(''e.nonzero'', OICmp ICmpNE 256 (Reg ''e'') (Imm 0))],
      blk_term = CondBr (Reg ''e.nonzero'') ''exp.LoopBody'' ''exp.Return''\<rparr>"

definition exp_LoopBody :: "ir_block" where
  "exp_LoopBody =
     \<lparr>blk_phis = [],
      blk_body = [(''e.and'', OBin And 256 (Reg ''e'') (Imm 1)),
                  (''e.isodd'', OICmp ICmpNE 256 (Reg ''e.and'') (Imm 0))],
      blk_term = CondBr (Reg ''e.isodd'') ''exp.ResultUpdate'' ''exp.Continue''\<rparr>"

definition exp_ResultUpdate :: "ir_block" where
  "exp_ResultUpdate =
     \<lparr>blk_phis = [],
      blk_body = [(''r0'', OBin Mul 256 (Reg ''r'') (Reg ''b''))],
      blk_term = Br ''exp.Continue''\<rparr>"

definition exp_Continue :: "ir_block" where
  "exp_Continue =
     \<lparr>blk_phis = [(''r1'', [(''exp.LoopBody'', Reg ''r''), (''exp.ResultUpdate'', Reg ''r0'')])],
      blk_body = [(''b1'', OBin Mul 256 (Reg ''b'') (Reg ''b'')),
                  (''e1'', OBin LShr 256 (Reg ''e'') (Imm 1))],
      blk_term = Br ''exp.LoopHeader''\<rparr>"

definition exp_Return :: "ir_block" where
  "exp_Return =
     \<lparr>blk_phis = [],
      blk_body = [],
      blk_term = Ret (Reg ''r'')\<rparr>"

definition getExpFunc :: "ir_func" where
  "getExpFunc =
     \<lparr>fn_params = [''base'', ''exponent''], fn_entry = ''exp.Entry'',
      fn_blocks =
        [(''exp.Entry'', exp_Entry),
         (''exp.LoopHeader'', exp_LoopHeader),
         (''exp.LoopBody'', exp_LoopBody),
         (''exp.ResultUpdate'', exp_ResultUpdate),
         (''exp.Continue'', exp_Continue),
         (''exp.Return'', exp_Return)]\<rparr>"

definition safeAdd_entry :: "ir_block" where
  "safeAdd_entry =
     \<lparr>blk_phis = [],
      blk_body = [(''res'', OBin Add 256 (Reg ''lhs'') (Reg ''rhs'')),
                  (''cmp'', OICmp ICmpULT 256 (Reg ''res'') (Reg ''lhs''))],
      blk_term = CondBr (Reg ''cmp'') ''safeAdd.unreachable'' ''safeAdd.pass''\<rparr>"

definition safeAdd_unreachable :: "ir_block" where
  "safeAdd_unreachable =
     \<lparr>blk_phis = [],
      blk_body = [(''revert'', OCall ''ethereum.revert'' [UndefVec 0, Imm 0])],
      blk_term = Ret (Imm 0)\<rparr>"

definition safeAdd_pass :: "ir_block" where
  "safeAdd_pass =
     \<lparr>blk_phis = [],
      blk_body = [],
      blk_term = Ret (Reg ''res'')\<rparr>"

definition getSafeMathAddFunc :: "ir_func" where
  "getSafeMathAddFunc =
     \<lparr>fn_params = [''lhs'', ''rhs''], fn_entry = ''safeAdd.entry'',
      fn_blocks =
        [(''safeAdd.entry'', safeAdd_entry),
         (''safeAdd.unreachable'', safeAdd_unreachable),
         (''safeAdd.pass'', safeAdd_pass)]\<rparr>"

definition safeSub_entry :: "ir_block" where
  "safeSub_entry =
     \<lparr>blk_phis = [],
      blk_body = [(''cmp'', OICmp ICmpUGT 256 (Reg ''rhs'') (Reg ''lhs''))],
      blk_term = CondBr (Reg ''cmp'') ''safeSub.unreachable'' ''safeSub.pass''\<rparr>"

definition safeSub_unreachable :: "ir_block" where
  "safeSub_unreachable =
     \<lparr>blk_phis = [],
      blk_body = [(''revert'', OCall ''ethereum.revert'' [UndefVec 0, Imm 0])],
      blk_term = Ret (Imm 0)\<rparr>"

definition safeSub_pass :: "ir_block" where
  "safeSub_pass =
     \<lparr>blk_phis = [],
      blk_body = [(''res'', OBin Sub 256 (Reg ''lhs'') (Reg ''rhs''))],
      blk_term = Ret (Reg ''res'')\<rparr>"

definition getSafeMathSubFunc :: "ir_func" where
  "getSafeMathSubFunc =
     \<lparr>fn_params = [''lhs'', ''rhs''], fn_entry = ''safeSub.entry'',
      fn_blocks =
        [(''safeSub.entry'', safeSub_entry),
         (''safeSub.unreachable'', safeSub_unreachable),
         (''safeSub.pass'', safeSub_pass)]\<rparr>"

definition safeMul_entry :: "ir_block" where
  "safeMul_entry =
     \<lparr>blk_phis = [],
      blk_body = [(''cmp'', OICmp ICmpEQ 256 (Reg ''lhs'') (Imm 0))],
      blk_term = CondBr (Reg ''cmp'') ''safeMul.return0'' ''safeMul.overflow''\<rparr>"

definition safeMul_return0 :: "ir_block" where
  "safeMul_return0 =
     \<lparr>blk_phis = [],
      blk_body = [],
      blk_term = Ret (Imm 0)\<rparr>"

definition safeMul_overflow :: "ir_block" where
  "safeMul_overflow =
     \<lparr>blk_phis = [],
      blk_body = [(''res'', OBin Mul 256 (Reg ''lhs'') (Reg ''rhs'')),
                  (''quot'', OBin UDiv 256 (Reg ''res'') (Reg ''lhs'')),
                  (''ne'', OICmp ICmpNE 256 (Reg ''quot'') (Reg ''rhs''))],
      blk_term = CondBr (Reg ''ne'') ''safeMul.unreachable'' ''safeMul.pass''\<rparr>"

definition safeMul_unreachable :: "ir_block" where
  "safeMul_unreachable =
     \<lparr>blk_phis = [],
      blk_body = [(''revert'', OCall ''ethereum.revert'' [UndefVec 0, Imm 0])],
      blk_term = Ret (Imm 0)\<rparr>"

definition safeMul_pass :: "ir_block" where
  "safeMul_pass =
     \<lparr>blk_phis = [],
      blk_body = [],
      blk_term = Ret (Reg ''res'')\<rparr>"

definition getSafeMathMulFunc :: "ir_func" where
  "getSafeMathMulFunc =
     \<lparr>fn_params = [''lhs'', ''rhs''], fn_entry = ''safeMul.entry'',
      fn_blocks =
        [(''safeMul.entry'', safeMul_entry),
         (''safeMul.return0'', safeMul_return0),
         (''safeMul.overflow'', safeMul_overflow),
         (''safeMul.unreachable'', safeMul_unreachable),
         (''safeMul.pass'', safeMul_pass)]\<rparr>"

definition safeUDiv_entry :: "ir_block" where
  "safeUDiv_entry =
     \<lparr>blk_phis = [],
      blk_body = [(''cmp'', OICmp ICmpEQ 256 (Reg ''rhs'') (Imm 0))],
      blk_term = CondBr (Reg ''cmp'') ''safeUDiv.unreachable'' ''safeUDiv.pass''\<rparr>"

definition safeUDiv_unreachable :: "ir_block" where
  "safeUDiv_unreachable =
     \<lparr>blk_phis = [],
      blk_body = [(''revert'', OCall ''ethereum.revert'' [UndefVec 0, Imm 0])],
      blk_term = Ret (Imm 0)\<rparr>"

definition safeUDiv_pass :: "ir_block" where
  "safeUDiv_pass =
     \<lparr>blk_phis = [],
      blk_body = [(''res'', OBin UDiv 256 (Reg ''lhs'') (Reg ''rhs''))],
      blk_term = Ret (Reg ''res'')\<rparr>"

definition getSafeMathUDivFunc :: "ir_func" where
  "getSafeMathUDivFunc =
     \<lparr>fn_params = [''lhs'', ''rhs''], fn_entry = ''safeUDiv.entry'',
      fn_blocks =
        [(''safeUDiv.entry'', safeUDiv_entry),
         (''safeUDiv.unreachable'', safeUDiv_unreachable),
         (''safeUDiv.pass'', safeUDiv_pass)]\<rparr>"

text \<open>The module the runtime forms; a call of the host's revert ends the contract.\<close>

definition arith_module :: "(string \<times> ir_func) list" where
  "arith_module =
     [(''evm.sdiv.i256'', getSDiv256Func), (''evm.srem.i256'', getSRem256Func),
      (''evm.sdivrem.i256'', getSDivRem256Func), (''evm.udiv.i256'', getUDiv256Func),
      (''evm.urem.i256'', createURemFunc 256), (''evm.urem.i512'', createURemFunc 512),
      (''evm.udivrem.i256'', createUDivRemFunc 256), (''evm.udivrem.i512'', createUDivRemFunc 512),
      (''wasm.ctlz.i256'', createCTLZFunc 256), (''wasm.ctlz.i512'', createCTLZFunc 512),
      (''evm.mul.i256'', getMulFunc 256), (''evm.mul.i128'', getMulFunc 128), (''evm.exp'', getExpFunc),
      (''safeAdd'', getSafeMathAddFunc), (''safeSub'', getSafeMathSubFunc), (''safeMul'', getSafeMathMulFunc),
      (''safeUDiv'', getSafeMathUDivFunc)]"

text \<open>Exponentiation of constants is done by the translator itself.\<close>

function expLoop :: "w256 \<Rightarrow> w256 \<Rightarrow> w256 \<Rightarrow> w256" where
  "expLoop r b e =
     (if e = 0 then r else expLoop (if bit e 0 then r * b else r) (b * b) (drop_bit 1 e))"
  by pat_completeness auto
termination
proof (relation "measure (\<lambda>(r, b, e). unat e)")
  fix r b e :: w256
  assume "e \<noteq> 0"
  then have "0 < unat e" by (simp add: unat_gt_0)
  then have "unat e div 2 < unat e" by simp
  then show "((if bit e 0 then r * b else r, b * b, drop_bit 1 e), (r, b, e)) \<in> measure (\<lambda>(r, b, e). unat e)"
    by (simp add: drop_bit_Suc unat_div)
qed simp

declare expLoop.simps [simp del]

definition arith_exp :: "opnd \<Rightarrow> opnd \<Rightarrow> opnd + irop" where
  "arith_exp arg1 arg2 =
     (case (arg1, arg2) of
        (Imm b, Imm e) \<Rightarrow> Inl (Imm (uint (expLoop 1 (word_of_int b) (word_of_int e))))
      | _ \<Rightarrow> Inr (OCall ''evm.exp'' [arg1, arg2]))"

section \<open>Looking up blocks\<close>

lemma udiv_lookup [simp]:
  "map_of (fn_blocks (getUDiv256Func)) ''bb'' = Some (udiv_bb)"
  "fn_entry (getUDiv256Func) = ''bb''" "fn_params (getUDiv256Func) = [''x'', ''y'']"
  by (simp_all add: getUDiv256Func_def)

lemmas udiv_at_block = run_from.simps [where bs = "fn_blocks (getUDiv256Func)"]

lemmas udiv_defs = udiv_bb_def

lemma urem_lookup [simp]:
  "map_of (fn_blocks (createURemFunc bits)) ''bb'' = Some (urem_bb bits)"
  "fn_entry (createURemFunc bits) = ''bb''" "fn_params (createURemFunc bits) = [''x'', ''y'']"
  by (simp_all add: createURemFunc_def)

lemmas urem_at_block = run_from.simps [where bs = "fn_blocks (createURemFunc bits)" for bits]

lemmas urem_defs = urem_bb_def

lemma sdr_lookup [simp]:
  "map_of (fn_blocks (getSDivRem256Func)) ''bb'' = Some (sdr_bb)"
  "fn_entry (getSDivRem256Func) = ''bb''" "fn_params (getSDivRem256Func) = [''x'', ''y'']"
  by (simp_all add: getSDivRem256Func_def)

lemmas sdr_at_block = run_from.simps [where bs = "fn_blocks (getSDivRem256Func)"]

lemmas sdr_defs = sdr_bb_def

lemma sdiv_lookup [simp]:
  "map_of (fn_blocks (getSDiv256Func)) ''bb'' = Some (sdiv_bb)"
  "fn_entry (getSDiv256Func) = ''bb''" "fn_params (getSDiv256Func) = [''x'', ''y'']"
  by (simp_all add: getSDiv256Func_def)

lemmas sdiv_at_block = run_from.simps [where bs = "fn_blocks (getSDiv256Func)"]

lemmas sdiv_defs = sdiv_bb_def

lemma srem_lookup [simp]:
  "map_of (fn_blocks (getSRem256Func)) ''bb'' = Some (srem_bb)"
  "fn_entry (getSRem256Func) = ''bb''" "fn_params (getSRem256Func) = [''x'', ''y'']"
  by (simp_all add: getSRem256Func_def)

lemmas srem_at_block = run_from.simps [where bs = "fn_blocks (getSRem256Func)"]

lemmas srem_defs = srem_bb_def

lemma mul_lookup [simp]:
  "map_of (fn_blocks (getMulFunc bits)) ''mul.Entry'' = Some (mul_Entry bits)"
  "fn_entry (getMulFunc bits) = ''mul.Entry''" "fn_params (getMulFunc bits) = [''lhs'', ''rhs'']"
  by (simp_all add: getMulFunc_def)

lemmas mul_at_block = run_from.simps [where bs = "fn_blocks (getMulFunc bits)" for bits]

lemmas mul_defs = mul_Entry_def

lemma exp_lookup [simp]:
  "map_of (fn_blocks (getExpFunc)) ''exp.Entry'' = Some (exp_Entry)"
  "map_of (fn_blocks (getExpFunc)) ''exp.LoopHeader'' = Some (exp_LoopHeader)"
  "map_of (fn_blocks (getExpFunc)) ''exp.LoopBody'' = Some (exp_LoopBody)"
  "map_of (fn_blocks (getExpFunc)) ''exp.ResultUpdate'' = Some (exp_ResultUpdate)"
  "map_of (fn_blocks (getExpFunc)) ''exp.Continue'' = Some (exp_Continue)"
  "map_of (fn_blocks (getExpFunc)) ''exp.Return'' = Some (exp_Return)"
  "fn_entry (getExpFunc) = ''exp.Entry''" "fn_params (getExpFunc) = [''base'', ''exponent'']"
  by (simp_all add: getExpFunc_def)

lemmas exp_at_block = run_from.simps [where bs = "fn_blocks (getExpFunc)"]

lemmas exp_defs = exp_Entry_def exp_LoopHeader_def exp_LoopBody_def exp_ResultUpdate_def exp_Continue_def exp_Return_def

lemma safeAdd_lookup [simp]:
  "map_of (fn_blocks (getSafeMathAddFunc)) ''safeAdd.entry'' = Some (safeAdd_entry)"
  "map_of (fn_blocks (getSafeMathAddFunc)) ''safeAdd.unreachable'' = Some (safeAdd_unreachable)"
  "map_of (fn_blocks (getSafeMathAddFunc)) ''safeAdd.pass'' = Some (safeAdd_pass)"
  "fn_entry (getSafeMathAddFunc) = ''safeAdd.entry''" "fn_params (getSafeMathAddFunc) = [''lhs'', ''rhs'']"
  by (simp_all add: getSafeMathAddFunc_def)

lemmas safeAdd_at_block = run_from.simps [where bs = "fn_blocks (getSafeMathAddFunc)"]

lemmas safeAdd_defs = safeAdd_entry_def safeAdd_unreachable_def safeAdd_pass_def

lemma safeSub_lookup [simp]:
  "map_of (fn_blocks (getSafeMathSubFunc)) ''safeSub.entry'' = Some (safeSub_entry)"
  "map_of (fn_blocks (getSafeMathSubFunc)) ''safeSub.unreachable'' = Some (safeSub_unreachable)"
  "map_of (fn_blocks (getSafeMathSubFunc)) ''safeSub.pass'' = Some (safeSub_pass)"
  "fn_entry (getSafeMathSubFunc) = ''safeSub.entry''" "fn_params (getSafeMathSubFunc) = [''lhs'', ''rhs'']"
  by (simp_all add: getSafeMathSubFunc_def)

lemmas safeSub_at_block = run_from.simps [where bs = "fn_blocks (getSafeMathSubFunc)"]

lemmas safeSub_defs = safeSub_entry_def safeSub_unreachable_def safeSub_pass_def

lemma safeMul_lookup [simp]:
  "map_of (fn_blocks (getSafeMathMulFunc)) ''safeMul.entry'' = Some (safeMul_entry)"
  "map_of (fn_blocks (getSafeMathMulFunc)) ''safeMul.return0'' = Some (safeMul_return0)"
  "map_of (fn_blocks (getSafeMathMulFunc)) ''safeMul.overflow'' = Some (safeMul_overflow)"
  "map_of (fn_blocks (getSafeMathMulFunc)) ''safeMul.unreachable'' = Some (safeMul_unreachable)"
  "map_of (fn_blocks (getSafeMathMulFunc)) ''safeMul.pass'' = Some (safeMul_pass)"
  "fn_entry (getSafeMathMulFunc) = ''safeMul.entry''" "fn_params (getSafeMathMulFunc) = [''lhs'', ''rhs'']"
  by (simp_all add: getSafeMathMulFunc_def)

lemmas safeMul_at_block = run_from.simps [where bs = "fn_blocks (getSafeMathMulFunc)"]

lemmas safeMul_defs = safeMul_entry_def safeMul_return0_def safeMul_overflow_def safeMul_unreachable_def safeMul_pass_def

lemma safeUDiv_lookup [simp]:
  "map_of (fn_blocks (getSafeMathUDivFunc)) ''safeUDiv.entry'' = Some (safeUDiv_entry)"
  "map_of (fn_blocks (getSafeMathUDivFunc)) ''safeUDiv.unreachable'' = Some (safeUDiv_unreachable)"
  "map_of (fn_blocks (getSafeMathUDivFunc)) ''safeUDiv.pass'' = Some (safeUDiv_pass)"
  "fn_entry (getSafeMathUDivFunc) = ''safeUDiv.entry''" "fn_params (getSafeMathUDivFunc) = [''lhs'', ''rhs'']"
  by (simp_all add: getSafeMathUDivFunc_def)

lemmas safeUDiv_at_block = run_from.simps [where bs = "fn_blocks (getSafeMathUDivFunc)"]

lemmas safeUDiv_defs = safeUDiv_entry_def safeUDiv_unreachable_def safeUDiv_pass_def

section \<open>Counting leading zeros\<close>

text \<open>The number of significant bits of a natural number.\<close>

fun bitlen :: "nat \<Rightarrow> nat" where
  "bitlen n = (if n = 0 then 0 else Suc (bitlen (n div 2)))"

declare bitlen.simps [simp del]

lemma bitlen_0 [simp]: "bitlen 0 = 0" by (simp add: bitlen.simps)
lemma bitlen_pos: "0 < n \<Longrightarrow> bitlen n = Suc (bitlen (n div 2))" by (subst bitlen.simps) simp

abbreviation ctlzBlocks :: "nat \<Rightarrow> (string \<times> ir_block) list" where
  "ctlzBlocks bits \<equiv> fn_blocks (createCTLZFunc bits)"

lemma replicate_2 [simp]: "replicate 2 x = [x, x]"
  by (simp add: numeral_2_eq_2)

lemmas ir_step = op_result_def icmp_value_def bin_value_def bin_defined_def divides_def

lemma take_bit_small: "n < 2 ^ w \<Longrightarrow> take_bit w (int n) = int n"
  by (metis of_nat_take_bit take_bit_nat_eq_self)

text \<open>Control is about to enter the header, with the values the PHI nodes will take.\<close>

definition ctlz_at :: "string \<Rightarrow> env \<Rightarrow> nat \<Rightarrow> nat \<Rightarrow> bool" where
  "ctlz_at prev e t c \<longleftrightarrow>
     prev = ''ctlz.Entry'' \<and> e ''x'' = I (int t) \<and> c = 0
   \<or> prev = ''ctlz.LoopBody'' \<and> e ''t1'' = I (int t) \<and> e ''c1'' = I (int c)"

lemma ctlz_iter:
  assumes "ctlz_at prev e t c" "0 < t" "Suc c < 2 ^ bits" "1 < bits"
  shows "\<exists>e'. run_from calls (ctlzBlocks bits) prev ''ctlz.LoopHeader'' e
    = run_from calls (ctlzBlocks bits) ''ctlz.LoopBody'' ''ctlz.LoopHeader'' e'
    \<and> ctlz_at ''ctlz.LoopBody'' e' (t div 2) (Suc c)"
  using assms take_bit_small [OF assms(3)] unfolding ctlz_at_def
  by (elim disjE; subst run_from.simps, simp add: ctlz_defs ir_step, subst run_from.simps)
    (auto simp: ctlz_defs ir_step drop_bit_Suc add.commute)

lemma ctlz_loop:
  assumes "ctlz_at prev e t c" "c + bitlen t < 2 ^ bits" "1 < bits"
  shows "run_from calls (ctlzBlocks bits) prev ''ctlz.LoopHeader'' e
    = Some (Returns (I (take_bit bits (int bits - int (c + bitlen t)))))"
  using assms
proof (induction t arbitrary: c e prev rule: bitlen.induct)
  case (1 t)
  show ?case
  proof (cases "t = 0")
    case True
    then show ?thesis using "1.prems" unfolding ctlz_at_def
      by (elim disjE; subst run_from.simps, simp add: ctlz_defs ir_step, subst run_from.simps)
        (auto simp: ctlz_defs ir_step)
  next
    case False
    then have t: "0 < t" by simp
    then have c: "Suc c < 2 ^ bits" "Suc c + bitlen (t div 2) < 2 ^ bits"
      using "1.prems"(2) bitlen_pos [OF t] by simp_all
    from ctlz_iter [OF "1.prems"(1) t c(1) "1.prems"(3)] obtain e' where e':
      "run_from calls (ctlzBlocks bits) prev ''ctlz.LoopHeader'' e
        = run_from calls (ctlzBlocks bits) ''ctlz.LoopBody'' ''ctlz.LoopHeader'' e'"
      "ctlz_at ''ctlz.LoopBody'' e' (t div 2) (Suc c)" by blast
    from "1.IH" [OF False e'(2) c(2) "1.prems"(3)] show ?thesis
      using e'(1) bitlen_pos [OF t] by simp
  qed
qed

lemma bitlen_le: "n < 2 ^ k \<Longrightarrow> bitlen n \<le> k"
proof (induction k arbitrary: n)
  case (Suc k)
  then have "n div 2 < 2 ^ k" by auto
  then show ?case using Suc.IH [of "n div 2"] by (cases "n = 0") (simp_all add: bitlen_pos)
qed simp

lemma ctlz_run:
  assumes "x < 2 ^ bits" "1 < bits"
  shows "run_func calls (createCTLZFunc bits) [I (int x)] = Some (Returns (I (int (bits - bitlen x))))"
proof -
  have bl: "bitlen x \<le> bits" using bitlen_le [OF assms(1)] .
  have lt: "bits < 2 ^ bits" by (rule less_exp)
  let ?e = "\<lambda>r. case map_of (zip [''x''] [I (int x)]) r of Some v \<Rightarrow> v | None \<Rightarrow> Poison"
  have at: "ctlz_at ''ctlz.Entry'' ?e x 0" by (simp add: ctlz_at_def)
  have "run_func calls (createCTLZFunc bits) [I (int x)] =
      run_from calls (ctlzBlocks bits) ''ctlz.Entry'' ''ctlz.LoopHeader'' ?e"
    unfolding run_func_def by (subst run_from.simps) (simp add: ctlz_defs)
  also have "\<dots> = Some (Returns (I (take_bit bits (int bits - int (bitlen x)))))"
    using ctlz_loop [OF at _ assms(2)] bl lt by simp
  also have "int bits - int (bitlen x) = int (bits - bitlen x)" using bl by simp
  finally show ?thesis using take_bit_small [of "bits - bitlen x" bits] lt by simp
qed

section \<open>Unsigned division\<close>

abbreviation udrBlocks :: "nat \<Rightarrow> (string \<times> ir_block) list" where
  "udrBlocks bits \<equiv> fn_blocks (createUDivRemFunc bits)"

text \<open>The loop of the division over natural numbers, and what shifting the divisor gives.\<close>

fun div_loop :: "nat \<Rightarrow> nat \<Rightarrow> nat \<Rightarrow> nat \<Rightarrow> nat \<Rightarrow> nat \<times> nat" where
  "div_loop bits y r 0 q = (if y \<le> r then (q OR 1, r - y) else (q, r))"
| "div_loop bits y r (Suc i) q =
     (if y \<le> r then div_loop bits (y div 2) (r - y) i (take_bit bits (2 * (q OR 1)))
      else div_loop bits (y div 2) r i (take_bit bits (2 * q)))"

definition shift_at :: "string \<Rightarrow> env \<Rightarrow> nat \<Rightarrow> nat \<Rightarrow> nat \<Rightarrow> nat \<Rightarrow> bool" where
  "shift_at prev e x i k y \<longleftrightarrow>
     e ''x'' = I (int x) \<and> e ''i0'' = I (int i)
   \<and> (prev = ''Main'' \<and> k = i \<and> e ''y'' = I (int y)
      \<or> prev = ''LoopY'' \<and> e ''i1'' = I (int k) \<and> e ''y1'' = I (int y))"

definition div_at :: "string \<Rightarrow> env \<Rightarrow> nat \<Rightarrow> nat \<Rightarrow> nat \<Rightarrow> nat \<Rightarrow> bool" where
  "div_at prev e y r i q \<longleftrightarrow>
     prev = ''beforeloopY'' \<and> e ''y0'' = I (int y) \<and> e ''x'' = I (int r) \<and> e ''i0'' = I (int i) \<and> q = 0
   \<or> prev = ''Continue'' \<and> e ''y2'' = I (int y) \<and> e ''r1'' = I (int r) \<and> e ''i2'' = I (int i)
     \<and> e ''q2'' = I (int q)"

lemma int_ops:
  "take_bit w (int y * 2) = int (take_bit w (2 * y))"
  "int y div 2 = int (y div 2)"
  "int q OR 1 = int (q OR 1)"
  using of_nat_take_bit [of w "2 * y", where ?'a = int] of_nat_or_eq [of q 1, where ?'a = int]
  by (simp_all add: zdiv_int mult.commute)

lemma shift_iter:
  assumes "shift_at prev e x i (Suc k) y" "Suc k < 2 ^ bits" "1 < bits"
  shows "\<exists>e'. run_from calls (udrBlocks bits) prev ''beforeloopY'' e
    = run_from calls (udrBlocks bits) ''LoopY'' ''beforeloopY'' e'
    \<and> shift_at ''LoopY'' e' x i k (take_bit bits (2 * y))"
proof -
  have "take_bit bits (int (Suc k) - 1) = int k" using take_bit_small [of k bits] assms(2) by simp
  then show ?thesis using assms unfolding shift_at_def
    by (elim conjE disjE; subst run_from.simps, simp add: udr_defs ir_step, subst run_from.simps)
      (auto simp: udr_defs ir_step int_ops)
qed

lemma shift_done:
  assumes "shift_at prev e x i 0 y"
  shows "\<exists>e'. run_from calls (udrBlocks bits) prev ''beforeloopY'' e
    = run_from calls (udrBlocks bits) ''beforeloopY'' ''Loop'' e' \<and> div_at ''beforeloopY'' e' y x i 0"
  using assms unfolding shift_at_def div_at_def
  by (elim conjE disjE; subst run_from.simps) (auto simp: udr_defs ir_step)

lemma div_done:
  assumes "div_at prev e y r 0 q"
  shows "run_from calls (udrBlocks bits) prev ''Loop'' e =
    (case div_loop bits y r 0 q of (a, b) \<Rightarrow> Some (Returns (V [I (int a), I (int b)])))"
  using assms unfolding div_at_def
  by (cases "y \<le> r"; elim conjE disjE; subst run_from.simps)
    (simp_all add: udr_defs udr_at_block [where lbl = "''Return''"] ir_step int_ops)

lemma div_iter:
  assumes "div_at prev e y r (Suc i) q" "1 < bits"
  shows "\<exists>e'. run_from calls (udrBlocks bits) prev ''Loop'' e = run_from calls (udrBlocks bits) ''Continue'' ''Loop'' e'
    \<and> (if y \<le> r then div_at ''Continue'' e' (y div 2) (r - y) i (take_bit bits (2 * (q OR 1)))
       else div_at ''Continue'' e' (y div 2) r i (take_bit bits (2 * q)))"
proof (cases "y \<le> r")
  case True
  then show ?thesis using assms unfolding div_at_def
    by (elim conjE disjE; subst run_from.simps)
      (simp add: udr_defs udr_at_block [where lbl = "''Continue''"] ir_step int_ops drop_bit_Suc; rule exI, rule conjI, rule refl; simp)+
next
  case False
  then show ?thesis using assms unfolding div_at_def
    by (elim conjE disjE; subst run_from.simps)
      (simp add: udr_defs udr_at_block [where lbl = "''Continue''"] ir_step int_ops drop_bit_Suc; rule exI, rule conjI, rule refl; simp)+
qed

lemma shift_loop:
  assumes "shift_at prev e x i k y" "k < 2 ^ bits" "1 < bits" "y < 2 ^ bits"
  shows "\<exists>e'. run_from calls (udrBlocks bits) prev ''beforeloopY'' e
    = run_from calls (udrBlocks bits) ''beforeloopY'' ''Loop'' e' \<and> div_at ''beforeloopY'' e' (take_bit bits (2 ^ k * y)) x i 0"
  using assms
proof (induction k arbitrary: prev e y)
  case 0
  then show ?case using shift_done [OF 0(1)] by (simp add: take_bit_nat_eq_self)
next
  case (Suc k)
  obtain e' where e': "run_from calls (udrBlocks bits) prev ''beforeloopY'' e
      = run_from calls (udrBlocks bits) ''LoopY'' ''beforeloopY'' e'"
    "shift_at ''LoopY'' e' x i k (take_bit bits (2 * y))"
    using shift_iter [OF Suc.prems(1-3)] by blast
  have "take_bit bits (2 * y) < 2 ^ bits" by simp
  moreover have "take_bit bits (2 ^ k * take_bit bits (2 * y)) = take_bit bits (2 ^ Suc k * y)"
    by (simp add: take_bit_eq_mod mod_mult_right_eq mult.assoc [symmetric] mult.commute)
  ultimately show ?case using Suc.IH [OF e'(2)] Suc.prems e'(1) by simp
qed

lemma div_loop_run:
  assumes "div_at prev e y r i q" "1 < bits"
  shows "run_from calls (udrBlocks bits) prev ''Loop'' e =
    (case div_loop bits y r i q of (a, b) \<Rightarrow> Some (Returns (V [I (int a), I (int b)])))"
  using assms
proof (induction i arbitrary: prev e y r q)
  case 0
  then show ?case by (intro div_done)
next
  case (Suc i)
  from div_iter [OF Suc.prems, of calls] Suc.IH Suc.prems(2) show ?case by (auto split: if_splits)
qed

text \<open>Where the runtime can count leading zeros.\<close>

definition has_ctlz :: "nat \<Rightarrow> callees \<Rightarrow> bool" where
  "has_ctlz bits calls \<longleftrightarrow>
     (\<forall>n < 2 ^ bits. calls (ctlzName bits) [I (int n)] = Some (Returns (I (int (bits - bitlen n)))))"

lemma bitlen_mono: "m \<le> n \<Longrightarrow> bitlen m \<le> bitlen n"
proof (induction n arbitrary: m rule: bitlen.induct)
  case (1 n)
  have "m div 2 \<le> n div 2" using "1.prems" by (rule div_le_mono)
  then show ?case using "1.IH" [of "m div 2"] "1.prems" by (cases "m = 0"; cases "n = 0") (simp_all add: bitlen_pos)
qed

lemma udr_run_small:
  assumes "x < y"
  shows "run_func calls (createUDivRemFunc bits) [I (int x), I (int y)] = Some (Returns (V [I 0, I (int x)]))"
  unfolding run_func_def using assms
  by (subst run_from.simps) (simp add: udr_defs udr_at_block [where lbl = "''Return''"] ir_step)

lemma udr_run_large:
  assumes "has_ctlz bits calls" "y \<le> x" "x < 2 ^ bits" "1 < bits"
  shows "run_func calls (createUDivRemFunc bits) [I (int x), I (int y)] =
    (case div_loop bits (take_bit bits (2 ^ (bitlen x - bitlen y) * y)) x (bitlen x - bitlen y) 0 of
       (q, r) \<Rightarrow> Some (Returns (V [I (int q), I (int r)])))"
proof -
  let ?i = "bitlen x - bitlen y"
  have bl: "bitlen y \<le> bitlen x" "bitlen x \<le> bits"
    using bitlen_mono [OF assms(2)] bitlen_le [OF assms(3)] by simp_all
  have y: "y < 2 ^ bits" using assms(2,3) by simp
  have i0: "int (bits - bitlen y) - int (bits - bitlen x) = int ?i" "bits - bitlen x \<le> bits - bitlen y"
    using bl by simp_all
  have cz: "calls (ctlzName bits) [I (int y)] = Some (Returns (I (int (bits - bitlen y))))"
    "calls (ctlzName bits) [I (int x)] = Some (Returns (I (int (bits - bitlen x))))"
    using assms(1,3) y by (simp_all add: has_ctlz_def)
  have "\<exists>e. run_func calls (createUDivRemFunc bits) [I (int x), I (int y)]
      = run_from calls (udrBlocks bits) ''Main'' ''beforeloopY'' e \<and> shift_at ''Main'' e x ?i ?i y"
    unfolding run_func_def shift_at_def using assms(2) cz i0
    by (subst run_from.simps)
      (simp add: udr_defs udr_at_block [where lbl = "''Main''"] ir_step del: of_nat_diff, rule exI, rule conjI, rule refl, simp)
  then obtain e where e: "run_func calls (createUDivRemFunc bits) [I (int x), I (int y)]
      = run_from calls (udrBlocks bits) ''Main'' ''beforeloopY'' e" "shift_at ''Main'' e x ?i ?i y" by blast
  have "bits < 2 ^ bits" by (rule less_exp)
  then have "?i < 2 ^ bits" using bl by linarith
  from shift_loop [OF e(2) this assms(4) y, of calls] e(1) div_loop_run [OF _ assms(4)] show ?thesis by auto
qed

section \<open>The loop computes quotient and remainder\<close>

lemma bitlen_upper: "n < 2 ^ bitlen n"
proof (induction n rule: bitlen.induct)
  case (1 n)
  then show ?case by (cases "n = 0") (auto simp: bitlen_pos)
qed

lemma bitlen_lower: "0 < n \<Longrightarrow> 2 ^ bitlen n \<le> 2 * n"
proof (induction n rule: bitlen.induct)
  case (1 n)
  show ?case
  proof (cases "n div 2 = 0")
    case True
    then show ?thesis using "1.prems" by (auto simp: bitlen_pos)
  next
    case False
    then have "2 ^ bitlen (n div 2) \<le> 2 * (n div 2)" using "1.IH" "1.prems" by simp
    then show ?thesis using "1.prems" by (simp add: bitlen_pos)
  qed
qed

lemma or_one_even: "even q \<Longrightarrow> q OR Suc 0 = Suc q"
  by (simp add: or_Suc_0_eq)

lemma div_loop_correct:
  assumes "0 < y" "r < 2 * (2 ^ i * y)" "even q" "q * (2 ^ i * y) + r < 2 ^ bits"
  shows "div_loop bits (2 ^ i * y) r i q = ((q * (2 ^ i * y) + r) div y, (q * (2 ^ i * y) + r) mod y)"
  using assms
proof (induction i arbitrary: r q)
  case 0
  show ?case
  proof (cases "y \<le> r")
    case True
    then have r: "r - y < y" "q * y + r = Suc q * y + (r - y)" using 0 by simp_all
    have "(Suc q * y + (r - y)) div y = Suc q" "(Suc q * y + (r - y)) mod y = r - y"
      using r(1) by (simp_all add: add.commute [of "Suc q * y"] del: mult_Suc)
    then have "(q * y + r) div y = Suc q" "(q * y + r) mod y = r - y" by (simp_all only: r(2))
    then show ?thesis using 0 True by (simp add: or_one_even)
  next
    case False
    then show ?thesis using 0 by simp
  qed
next
  case (Suc i)
  define q1 where "q1 = (if 2 ^ Suc i * y \<le> r then Suc q else q)"
  define r1 where "r1 = (if 2 ^ Suc i * y \<le> r then r - 2 ^ Suc i * y else r)"
  have eq: "q * (2 ^ Suc i * y) + r = 2 * q1 * (2 ^ i * y) + r1"
    by (simp add: q1_def r1_def algebra_simps)
  have r1: "r1 < 2 * (2 ^ i * y)" using Suc.prems(2) by (auto simp: r1_def)
  have "2 * q1 \<le> 2 * q1 * (2 ^ i * y)" using Suc.prems(1) by simp
  then have "2 * q1 < 2 ^ bits" using Suc.prems(4) eq by linarith
  then have tb: "take_bit bits (2 * q1) = 2 * q1" by (rule take_bit_nat_eq_self)
  have "div_loop bits (2 ^ Suc i * y) r (Suc i) q = div_loop bits (2 ^ i * y) r1 i (take_bit bits (2 * q1))"
    using Suc.prems(3) by (simp add: q1_def r1_def or_one_even)
  also have "\<dots> = ((2 * q1 * (2 ^ i * y) + r1) div y, (2 * q1 * (2 ^ i * y) + r1) mod y)"
    unfolding tb using Suc.prems(4) eq by (intro Suc.IH Suc.prems(1) r1) simp_all
  finally show ?case using eq by simp
qed

lemma udr_correct:
  assumes "has_ctlz bits calls" "x < 2 ^ bits" "y < 2 ^ bits" "0 < y" "1 < bits"
  shows "run_func calls (createUDivRemFunc bits) [I (int x), I (int y)] =
    Some (Returns (V [I (int (x div y)), I (int (x mod y))]))"
proof (cases "y \<le> x")
  case False
  then show ?thesis by (simp add: udr_run_small)
next
  case True
  let ?i = "bitlen x - bitlen y"
  have i: "bitlen x = ?i + bitlen y" using bitlen_mono [OF True] by simp
  have "2 ^ ?i * y < 2 ^ ?i * 2 ^ bitlen y" using bitlen_upper [of y] by simp
  also have "\<dots> = 2 ^ bitlen x" by (subst i) (simp add: power_add)
  also have "\<dots> \<le> 2 ^ bits" using bitlen_le [OF assms(2)] by simp
  finally have tb: "take_bit bits (2 ^ ?i * y) = 2 ^ ?i * y" by (rule take_bit_nat_eq_self)
  have "x < 2 ^ ?i * 2 ^ bitlen y" using bitlen_upper [of x] i by (metis power_add)
  also have "\<dots> \<le> 2 * (2 ^ ?i * y)" using bitlen_lower [OF assms(4)] by simp
  finally have "div_loop bits (2 ^ ?i * y) x ?i 0 = (x div y, x mod y)"
    using div_loop_correct [OF assms(4), of x ?i 0 bits] assms(2) by simp
  then show ?thesis using udr_run_large [OF assms(1) True assms(2,5)] tb by simp
qed

text \<open>With a zero divisor every test succeeds.\<close>

lemma div_loop_zero:
  "even q \<Longrightarrow> q < 2 ^ bits \<Longrightarrow> 1 < bits \<Longrightarrow>
   div_loop bits 0 r i q = (take_bit bits (2 ^ i * q + (2 ^ Suc i - 1)), r)"
proof (induction i arbitrary: q)
  case 0
  have "even ((2::nat) ^ bits)" using 0(3) by simp
  then have "Suc q < 2 ^ bits" using 0(1,2) by (metis Suc_lessI even_Suc)
  then show ?case using 0 by (simp add: or_one_even take_bit_nat_eq_self)
next
  case (Suc i)
  let ?q = "take_bit bits (2 * Suc q)"
  have "even ?q" using Suc.prems(3) by (simp add: even_take_bit_eq)
  then have "div_loop bits 0 r i ?q = (take_bit bits (2 ^ i * ?q + (2 ^ Suc i - 1)), r)"
    using Suc.prems(3) by (intro Suc.IH) simp_all
  moreover have "take_bit bits (2 ^ i * ?q + (2 ^ Suc i - 1)) = take_bit bits (2 ^ i * (2 * Suc q) + (2 ^ Suc i - 1))"
    by (metis (no_types) take_bit_eq_mod mod_add_left_eq mod_mult_right_eq)
  moreover have "2 ^ i * (2 * Suc q) + (2 ^ Suc i - 1) = 2 ^ Suc i * q + (2 ^ Suc (Suc i) - 1)"
    by (simp add: algebra_simps)
  ultimately show ?case using Suc.prems(1) by (simp add: or_one_even)
qed

end
