(* ===== verification/Arith_Correct.thy ===== *)
theory Arith_Correct
  imports Arith256
begin

text \<open>
  The arithmetic runtime computes what its names say: each emitted function, run on operands
  of its width, comes back with the exact result, or ends the contract where it should.
\<close>

section \<open>Calls inside the module\<close>

lemma module_ctlz:
  assumes "bits = 256 \<or> bits = 512" "x < 2 ^ bits"
  shows "run_module arith_module ext (ctlzName bits) [I (int x)] = Some (Returns (I (int (bits - bitlen x))))"
  using assms ctlz_run [of x bits] by (elim disjE) (simp_all add: arith_module_def ctlzName_def)

section \<open>Exponentiation\<close>

definition exp_at :: "string \<Rightarrow> env \<Rightarrow> w256 \<Rightarrow> w256 \<Rightarrow> w256 \<Rightarrow> bool" where
  "exp_at prev env r b e \<longleftrightarrow>
     prev = ''exp.Entry'' \<and> r = 1 \<and> env ''base'' = I (uint b) \<and> env ''exponent'' = I (uint e)
   \<or> prev = ''exp.Continue'' \<and> env ''r1'' = I (uint r) \<and> env ''b1'' = I (uint b) \<and> env ''e1'' = I (uint e)"

lemma uint_mult: "take_bit 256 (uint x * uint y) = uint (x * y)" for x y :: w256
  by (simp add: uint_word_ariths take_bit_eq_mod)

lemma uint_half: "uint x div 2 = uint (x div 2)" for x :: w256
  by (simp add: uint_div)

lemma odd_uint: "odd (uint x) \<longleftrightarrow> odd x" for x :: w256
  using bit_unsigned_iff [where ?'a = int, of x 0] by (simp add: bit_0)

lemma uint_low: "uint x AND 1 = (if odd x then 1 else 0)" for x :: w256
  using odd_uint [of x] by (simp add: and_one_eq mod_2_eq_odd)

lemma exp_iter:
  assumes "exp_at prev env r b e" "e \<noteq> 0"
  shows "\<exists>env'. run_from calls (fn_blocks getExpFunc) prev ''exp.LoopHeader'' env
     = run_from calls (fn_blocks getExpFunc) ''exp.Continue'' ''exp.LoopHeader'' env'
     \<and> exp_at ''exp.Continue'' env' (if bit e 0 then r * b else r) (b * b) (drop_bit 1 e)"
proof -
  have "uint e \<noteq> 0" using assms(2) by (simp add: unsigned_eq_0_iff)
  then show ?thesis using assms(1) unfolding exp_at_def
    by (cases "odd e"; elim conjE disjE; subst run_from.simps)
      (simp_all add: exp_defs exp_at_block [where lbl = "''exp.LoopBody''"]
        exp_at_block [where lbl = "''exp.ResultUpdate''"] exp_at_block [where lbl = "''exp.Continue''"]
        ir_step uint_mult uint_half uint_low drop_bit_Suc,
       (simp add: bit_0, rule exI, rule conjI, rule refl, simp add: take_bit_uint_word)+)
qed

lemma exp_loop:
  "exp_at prev env r b e \<Longrightarrow>
   run_from calls (fn_blocks getExpFunc) prev ''exp.LoopHeader'' env = Some (Returns (I (uint (expLoop r b e))))"
proof (induction r b e arbitrary: prev env rule: expLoop.induct)
  case (1 r b e)
  show ?case
  proof (cases "e = 0")
    case True
    then show ?thesis using "1.prems" unfolding exp_at_def
      by (elim conjE disjE; subst run_from.simps)
        (simp_all add: exp_defs exp_at_block [where lbl = "''exp.Return''"] ir_step expLoop.simps)
  next
    case False
    from exp_iter [OF "1.prems" False, of calls] "1.IH" [OF False] show ?thesis
      by (subst expLoop.simps) (auto simp: False)
  qed
qed

lemma expLoop_power: "expLoop r b e = r * b ^ unat e"
proof (induction r b e rule: expLoop.induct)
  case (1 r b e)
  show ?case
  proof (cases "e = 0")
    case False
    have half: "unat (drop_bit 1 e) = unat e div 2" by (simp add: drop_bit_Suc unat_div)
    have odd: "bit e 0 \<longleftrightarrow> odd (unat e)"
      using bit_unsigned_iff [where ?'a = nat, of e 0] by (simp add: bit_0)
    have "b ^ unat e = (if odd (unat e) then b else 1) * (b * b) ^ (unat e div 2)"
      by (simp add: power_mult [symmetric] power2_eq_square [symmetric] power_Suc [symmetric] del: power_Suc)
    then show ?thesis using "1.IH" [OF False] False half odd
      by (subst expLoop.simps) (simp add: mult.assoc)
  qed (simp add: expLoop.simps)
qed

section \<open>Multiplication\<close>

text \<open>The schoolbook product of two numbers of two digits in base L, with the carries of the code.\<close>

lemma mul_digits:
  fixes L a0 a1 b0 b1 :: int
  assumes "a0 * b0 = L * tq + tr" "a1 * b0 + tq = L * uq + ur" "a0 * b1 + ur = L * vq + vr"
  shows "(a0 + L * a1) * (b0 + L * b1) = tr + L * vr + L * L * (a1 * b1 + (uq + vq))"
  using assms by algebra

text \<open>The value the emitted instructions compute, in their order, for quarters of h bits.\<close>

definition mul_value :: "nat \<Rightarrow> int \<Rightarrow> int \<Rightarrow> int" where
  "mul_value h x y =
     (let lo = take_bit (2 * h);
          xl = lo x; xh = lo (drop_bit (2 * h) x); yl = lo y; yh = lo (drop_bit (2 * h) y);
          xll = xl AND mask h; yll = yl AND mask h;
          t = lo (xll * yll); tl = t AND mask h; th = drop_bit h t;
          xlh = drop_bit h xl; ylh = drop_bit h yl;
          u = lo (lo (xlh * yll) + th); ul = u AND mask h; uh = drop_bit h u;
          v = lo (lo (xll * ylh) + ul); vh = drop_bit h v;
          w = lo (lo (xlh * ylh) + lo (uh + vh));
          ol = lo (tl + lo (push_bit h v));
          oh = lo (w + lo (lo (yh * xl) + lo (yl * xh)))
      in take_bit (4 * h) (ol + take_bit (4 * h) (push_bit (2 * h) oh)))"

lemma mul_run:
  assumes "0 < h"
  shows "run_func calls (getMulFunc (4 * h)) [I x, I y] = Some (Returns (I (mul_value h x y)))"
proof -
  have "nat (2 * int h) = 2 * h" by simp
  then show ?thesis unfolding run_func_def using assms
    by (subst run_from.simps) (simp add: mul_defs ir_step mul_value_def Let_def)
qed

text \<open>Digits in base L do not overflow two digits when multiplied with one digit added.\<close>

lemma digit_bound:
  fixes L :: int
  assumes "0 \<le> a" "a < L" "0 \<le> b" "b < L" "0 \<le> c" "c < L"
  shows "0 \<le> a * b + c" "a * b + c < L * L" "(a * b mod (L * L) + c) mod (L * L) = a * b + c"
proof -
  have "a * b \<le> (L - 1) * (L - 1)" using assms by (intro mult_mono) auto
  then have lt: "a * b + c < L * L" using assms by (simp add: algebra_simps)
  have ab: "0 \<le> a * b" using assms by simp
  then show "0 \<le> a * b + c" using assms by simp
  show "a * b + c < L * L" by (rule lt)
  have "a * b < L * L" using lt assms(5) by simp
  then show "(a * b mod (L * L) + c) mod (L * L) = a * b + c" using ab lt assms(5) by simp
qed

lemma high_digit:
  fixes L :: int
  assumes "0 < L" "a < L * L"
  shows "a div L < L"
proof -
  have "L * (a div L) \<le> a" using assms(1) by (simp add: minus_mod_eq_mult_div [symmetric])
  then have "L * (a div L) < L * L" using assms(2) by linarith
  then show ?thesis using assms(1) by (simp add: mult_less_cancel_left_pos)
qed

lemma mul_high:
  fixes M :: int
  shows "(l + (M * (z mod M)) mod (M * M)) mod (M * M) = (l + M * z) mod (M * M)"
proof -
  have "M * (z mod M) mod (M * M) = M * z mod (M * M)" by (simp only: mult_mod_right [symmetric] mod_mod_trivial)
  then show ?thesis by (simp only: mod_add_right_eq)
qed

lemma mod_cross:
  fixes M :: int
  shows "(a mod M * b + c * (d mod M)) mod M = (a * b + c * d) mod M"
  by (intro mod_add_cong mod_mult_cong) simp_all

lemma mul_split:
  fixes M x y :: int
  shows "x * y mod (M * M) =
    ((x mod M) * (y mod M) + M * (((y div M) mod M) * (x mod M) + (y mod M) * ((x div M) mod M))) mod (M * M)"
proof -
  let ?z = "(y div M) * (x mod M) + (y mod M) * (x div M)"
  have xy: "x = x mod M + M * (x div M)" "y = y mod M + M * (y div M)" by simp_all
  have "x * y = (x mod M) * (y mod M) + M * ?z + M * M * ((x div M) * (y div M))"
    using xy by algebra
  then have "x * y mod (M * M) = ((x mod M) * (y mod M) + M * ?z) mod (M * M)" by (simp only: mod_mult_self2)
  also have "\<dots> = ((x mod M) * (y mod M) + M * (?z mod M) mod (M * M)) mod (M * M)" by (rule mul_high [symmetric])
  also have "?z mod M = (((y div M) mod M) * (x mod M) + (y mod M) * ((x div M) mod M)) mod M"
    by (rule mod_cross [symmetric])
  finally show ?thesis by (simp only: mul_high)
qed

lemma mul_value_correct: "mul_value h x y = take_bit (4 * h) (x * y)"
proof -
  define L :: int where "L = 2 ^ h"
  define M where "M = L * L"
  have L: "0 < L" by (simp add: L_def)
  have low: "drop_bit h a = a div L" "a AND mask h = a mod L" "take_bit (2 * h) a = a mod M"
    "drop_bit (2 * h) a = a div M" "push_bit h a = L * a" "push_bit (2 * h) a = M * a"
    "take_bit (4 * h) a = a mod (M * M)" for a :: int
    by (simp_all add: take_bit_eq_mod drop_bit_eq_div push_bit_eq_mult M_def L_def mult_2 power_add
        flip: take_bit_eq_mask) (simp add: power_add [symmetric] mult_2 [symmetric])
  define xl xh yl yh where "xl = x mod M" and "xh = x div M mod M" and "yl = y mod M" and "yh = y div M mod M"
  define a0 a1 b0 b1 where "a0 = xl mod L" and "a1 = xl div L" and "b0 = yl mod L" and "b1 = yl div L"
  have d: "0 \<le> a0" "a0 < L" "0 \<le> b0" "b0 < L" using L by (simp_all add: a0_def b0_def)
  have "0 \<le> xl" "xl < L * L" "0 \<le> yl" "yl < L * L" using L by (simp_all add: xl_def yl_def M_def)
  then have e: "0 \<le> a1" "a1 < L" "0 \<le> b1" "b1 < L"
    using L by (simp_all add: a1_def b1_def pos_imp_zdiv_nonneg_iff high_digit)
  define t u v where "t = a0 * b0" and "u = a1 * b0 + t div L" and "v = a0 * b1 + u mod L"
  have t: "0 \<le> t" "t < L * L" "a0 * b0 mod M = t"
    using digit_bound [OF d(1,2,3,4), of 0] L by (simp_all add: t_def M_def)
  have tq: "0 \<le> t div L" "t div L < L" using t L by (simp_all add: pos_imp_zdiv_nonneg_iff high_digit)
  have u: "0 \<le> u" "u < L * L" "(a1 * b0 mod M + t div L) mod M = u"
    using digit_bound [OF e(1,2) d(3,4) tq] by (simp_all add: u_def M_def)
  have ur: "0 \<le> u mod L" "u mod L < L" using L by simp_all
  have v: "0 \<le> v" "v < L * L" "(a0 * b1 mod M + u mod L) mod M = v"
    using digit_bound [OF d(1,2) e(3,4) ur] by (simp_all add: v_def M_def)
  have prod: "xl * yl = t mod L + L * (v mod L) + M * (a1 * b1 + (u div L + v div L))"
  proof -
    have digits: "xl = a0 + L * a1" "yl = b0 + L * b1" by (simp_all add: a0_def a1_def b0_def b1_def)
    have "a0 * b0 = L * (t div L) + t mod L" "a1 * b0 + t div L = L * (u div L) + u mod L"
      "a0 * b1 + u mod L = L * (v div L) + v mod L" by (simp_all flip: t_def u_def v_def)
    from mul_digits [OF this] show ?thesis unfolding digits M_def .
  qed
  have lv: "(L * v) mod M = L * (v mod L)" by (simp add: M_def)
  have "0 \<le> t mod L + L * (v mod L)" using L by simp
  moreover have "t mod L + L * (v mod L) < M"
  proof -
    have "L * (v mod L) \<le> L * (L - 1)" using L by simp
    moreover have "t mod L < L" using L by simp
    ultimately show ?thesis unfolding M_def right_diff_distrib by linarith
  qed
  ultimately have ol: "(t mod L + (L * v) mod M) mod M = t mod L + L * (v mod L)" unfolding lv by (rule mod_pos_pos_trivial)
  have oh: "((a1 * b1 mod M + (u div L + v div L) mod M) mod M + (yh * xl mod M + yl * xh mod M) mod M) mod M
      = (a1 * b1 + (u div L + v div L) + (yh * xl + yl * xh)) mod M"
    by (simp only: mod_add_eq)
  have "mul_value h x y = (t mod L + L * (v mod L) + M * (a1 * b1 + (u div L + v div L) + (yh * xl + yl * xh))) mod (M * M)"
    unfolding mul_value_def Let_def low
      xl_def [symmetric] xh_def [symmetric] yl_def [symmetric] yh_def [symmetric]
      a0_def [symmetric] a1_def [symmetric] b0_def [symmetric] b1_def [symmetric] t(3) u(3) v(3) ol
    by (simp only: oh mul_high)
  also have "\<dots> = (xl * yl + M * (yh * xl + yl * xh)) mod (M * M)" by (simp only: prod distrib_left add.assoc)
  also have "\<dots> = x * y mod (M * M)" by (simp only: mul_split [of x y M] xl_def xh_def yl_def yh_def)
  finally show ?thesis by (simp add: low)
qed

section \<open>Division inside the module\<close>

lemma has_ctlz_skip [simp]:
  "n \<noteq> ctlzName bits \<Longrightarrow> has_ctlz bits (run_module ((n, f) # fs) ext) = has_ctlz bits (run_module fs ext)"
  by (auto simp: has_ctlz_def)

lemma has_ctlz_here [simp]:
  "n = ctlzName bits \<Longrightarrow> 1 < bits \<Longrightarrow> has_ctlz bits (run_module ((n, createCTLZFunc bits) # fs) ext)"
  by (simp add: has_ctlz_def ctlz_run)

lemma ctlz_names [simp]: "ctlzName 256 = ''wasm.ctlz.i256''" "ctlzName 512 = ''wasm.ctlz.i512''"
  "udivremName 256 = ''evm.udivrem.i256''" "udivremName 512 = ''evm.udivrem.i512''"
  by (simp_all add: ctlzName_def udivremName_def)

definition udr_value :: "nat \<Rightarrow> nat \<Rightarrow> nat \<Rightarrow> irval" where
  "udr_value bits x y =
     (if y = 0 then V [I (int (take_bit bits (2 ^ Suc (bitlen x) - 1))), I (int x)]
      else V [I (int (x div y)), I (int (x mod y))])"

lemma udr_total:
  assumes "has_ctlz bits calls" "x < 2 ^ bits" "y < 2 ^ bits" "1 < bits"
  shows "run_func calls (createUDivRemFunc bits) [I (int x), I (int y)] = Some (Returns (udr_value bits x y))"
proof (cases "y = 0")
  case True
  then show ?thesis using udr_run_large [OF assms(1) _ assms(2,4), of 0] div_loop_zero [of 0 bits x "bitlen x"] assms(4)
    by (simp add: udr_value_def)
next
  case False
  then show ?thesis using udr_correct [OF assms(1-3) _ assms(4)] by (simp add: udr_value_def)
qed

lemma udr_module:
  assumes "bits = 256 \<or> bits = 512" "x < 2 ^ bits" "y < 2 ^ bits"
  shows "run_module arith_module ext (udivremName bits) [I (int x), I (int y)] = Some (Returns (udr_value bits x y))"
  using assms by (elim disjE) (simp_all add: arith_module_def udr_total)

lemma extract_udr [simp]:
  "extract_result (udr_value bits x y) 0 = I (int (if y = 0 then take_bit bits (2 ^ Suc (bitlen x) - 1) else x div y))"
  "extract_result (udr_value bits x y) (Suc 0) = I (int (x mod y))"
  by (simp_all add: udr_value_def)

lemma wrapper_run:
  "calls (udivremName 256) [a, b] = Some (Returns v) \<Longrightarrow>
     run_func calls getUDiv256Func [a, b] = Some (Returns (extract_result v 0))"
  "calls (udivremName bits) [a, b] = Some (Returns v) \<Longrightarrow>
     run_func calls (createURemFunc bits) [a, b] = Some (Returns (extract_result v 1))"
  "calls ''evm.sdivrem.i256'' [a, b] = Some (Returns v) \<Longrightarrow>
     run_func calls getSDiv256Func [a, b] = Some (Returns (extract_result v 0))"
  "calls ''evm.sdivrem.i256'' [a, b] = Some (Returns v) \<Longrightarrow>
     run_func calls getSRem256Func [a, b] = Some (Returns (extract_result v 1))"
  by (simp_all add: run_func_def udiv_at_block udiv_defs urem_at_block urem_defs sdiv_at_block sdiv_defs
      srem_at_block srem_defs ir_step)

lemma udiv_urem_module:
  assumes "x < 2 ^ 256" "y < 2 ^ 256"
  shows "run_module arith_module ext ''evm.udiv.i256'' [I (int x), I (int y)] =
      Some (Returns (I (int (if y = 0 then take_bit 256 (2 ^ Suc (bitlen x) - 1) else x div y))))"
    and "run_module arith_module ext ''evm.urem.i256'' [I (int x), I (int y)] = Some (Returns (I (int (x mod y))))"
  using assms by (simp_all add: arith_module_def wrapper_run udr_total)

lemma urem512_module:
  assumes "x < 2 ^ 512" "y < 2 ^ 512"
  shows "run_module arith_module ext ''evm.urem.i512'' [I (int x), I (int y)] = Some (Returns (I (int (x mod y))))"
  using assms by (simp add: arith_module_def wrapper_run udr_total)

text \<open>The signed division splits the operands into sign and magnitude.\<close>

definition magnitude :: "w256 \<Rightarrow> nat" where
  "magnitude x = nat \<bar>sint x\<bar>"

lemma magnitude_bound: "magnitude x < 2 ^ 256"
proof -
  have "\<bar>sint x\<bar> \<le> 2 ^ 255" using sint_greater_eq [of x] sint_less [of x] by simp
  then have "\<bar>sint x\<bar> < 2 ^ 256" by simp
  then show ?thesis by (simp add: magnitude_def nat_less_iff)
qed

lemma magnitude_code: "(if sint x < 0 then take_bit 256 (- uint x) else uint x) = int (magnitude x)"
proof -
  have "uint x = take_bit 256 (sint x)" using uint_sint [of x] by simp
  then have "(if sint x < 0 then take_bit 256 (- uint x) else uint x) = take_bit 256 \<bar>sint x\<bar>"
    by (auto simp: take_bit_minus)
  then show ?thesis using magnitude_bound [of x] take_bit_int_eq_self by (simp add: magnitude_def)
qed

definition sdr_value :: "nat \<Rightarrow> nat \<Rightarrow> bool \<Rightarrow> bool \<Rightarrow> irval" where
  "sdr_value q r sx sy =
     V [I (if sx \<noteq> sy then take_bit 256 (- int q) else int q), I (if sx then take_bit 256 (- int r) else int r)]"

lemma signed_zero [simp]: "signed 256 0 = 0"
  by (simp add: signed_def)

lemma sdr_run:
  assumes "calls ''evm.udivrem.i256'' [I (int (magnitude x)), I (int (magnitude y))] = Some (Returns (V [I (int q), I (int r)]))"
  shows "run_func calls getSDivRem256Func [I (uint x), I (uint y)] = Some (Returns (sdr_value q r (sint x < 0) (sint y < 0)))"
  using assms magnitude_code [of x, symmetric] magnitude_code [of y, symmetric]
  by (cases "sint x < 0"; cases "sint y < 0")
    (simp_all add: run_func_def sdr_at_block sdr_defs ir_step sdr_value_def signed_uint)


lemma sdr_value_signed:
  fixes x y :: w256
  assumes "y \<noteq> 0"
  shows "sdr_value (magnitude x div magnitude y) (magnitude x mod magnitude y) (sint x < 0) (sint y < 0) =
    V [I (uint (word_of_int (sint x sdiv sint y) :: w256)), I (uint (word_of_int (sint x smod sint y) :: w256))]"
proof -
  let ?q = "\<bar>sint x\<bar> div \<bar>sint y\<bar>" and ?r = "\<bar>sint x\<bar> mod \<bar>sint y\<bar>"
  have q: "int (magnitude x div magnitude y) = ?q" and r: "int (magnitude x mod magnitude y) = ?r"
    by (simp_all add: magnitude_def zdiv_int zmod_int)
  have "magnitude x div magnitude y < 2 ^ 256" "magnitude x mod magnitude y < 2 ^ 256"
    using magnitude_bound [of x] le_less_trans [OF div_le_dividend] le_less_trans [OF mod_less_eq_dividend] by blast+
  then have small: "take_bit 256 ?q = ?q" "take_bit 256 ?r = ?r"
    unfolding q [symmetric] r [symmetric] by (simp_all only: take_bit_small)
  have "sint y \<noteq> 0" using assms by (simp add: signed_eq_0_iff)
  then have "sint x sdiv sint y = (if (sint x < 0) \<noteq> (sint y < 0) then - ?q else ?q)"
    "sint x smod sint y = (if sint x < 0 then - ?r else ?r)"
    by (auto simp: signed_divide_int_def signed_modulo_int_def sgn_if)
  moreover have "uint (word_of_int k :: w256) = take_bit 256 k" for k by (simp add: unsigned_of_int)
  ultimately show ?thesis unfolding sdr_value_def q r by (simp only: small split: if_split) simp
qed

lemma sdivrem_run:
  fixes x y :: w256
  assumes "y \<noteq> 0"
  shows "calls ''evm.udivrem.i256'' [I (int (magnitude x)), I (int (magnitude y))] =
      Some (Returns (udr_value 256 (magnitude x) (magnitude y))) \<Longrightarrow>
    run_func calls getSDivRem256Func [I (uint x), I (uint y)] =
    Some (Returns (V [I (uint (word_of_int (sint x sdiv sint y) :: w256)), I (uint (word_of_int (sint x smod sint y) :: w256))]))"
proof -
  assume "calls ''evm.udivrem.i256'' [I (int (magnitude x)), I (int (magnitude y))] =
      Some (Returns (udr_value 256 (magnitude x) (magnitude y)))"
  moreover have "magnitude y \<noteq> 0" using assms by (simp add: magnitude_def signed_eq_0_iff)
  ultimately show ?thesis unfolding sdr_value_signed [OF assms, symmetric]
    by (intro sdr_run) (simp add: udr_value_def)
qed

lemma sdiv_srem_module:
  fixes x y :: w256
  assumes "y \<noteq> 0"
  shows "run_module arith_module ext ''evm.sdiv.i256'' [I (uint x), I (uint y)] =
      Some (Returns (I (uint (word_of_int (sint x sdiv sint y) :: w256))))"
    and "run_module arith_module ext ''evm.srem.i256'' [I (uint x), I (uint y)] =
      Some (Returns (I (uint (word_of_int (sint x smod sint y) :: w256))))"
  using assms by (simp_all add: arith_module_def wrapper_run sdivrem_run udr_total magnitude_bound [simplified])

lemma mul_module:
  "run_module arith_module ext ''evm.mul.i128'' [I x, I y] = Some (Returns (I (take_bit 128 (x * y))))"
  "run_module arith_module ext ''evm.mul.i256'' [I x, I y] = Some (Returns (I (take_bit 256 (x * y))))"
  using mul_run [of 32] mul_run [of 64] by (simp_all add: arith_module_def mul_value_correct)

section \<open>Checked operations\<close>

lemma mul_overflow_test:
  fixes x y :: w256
  assumes "x \<noteq> 0"
  shows "take_bit 256 (uint x * uint y) div uint x = uint y \<longleftrightarrow> uint x * uint y < 2 ^ 256"
proof
  have x: "0 < uint x" using assms by (metis uint_ge_0 unsigned_eq_0_iff order_le_less)
  show "take_bit 256 (uint x * uint y) div uint x = uint y" if "uint x * uint y < 2 ^ 256"
    using that x by (simp add: take_bit_int_eq_self)
  assume eq: "take_bit 256 (uint x * uint y) div uint x = uint y"
  have "uint x * (t div uint x) \<le> t" for t using x by (simp add: minus_mod_eq_mult_div [symmetric])
  from this [of "take_bit 256 (uint x * uint y)"] have "uint x * uint y \<le> take_bit 256 (uint x * uint y)"
    unfolding eq .
  then show "uint x * uint y < 2 ^ 256" using take_bit_int_less_exp [of 256] le_less_trans by blast
qed

lemma safe_add_run:
  fixes x y :: w256
  assumes "\<And>args. calls ''ethereum.revert'' args = Some Halts"
  shows "run_func calls getSafeMathAddFunc [I (uint x), I (uint y)] =
    Some (if uint x + uint y < 2 ^ 256 then Returns (I (uint x + uint y)) else Halts)"
proof -
  have "take_bit 256 (uint x + uint y) < uint x \<longleftrightarrow> \<not> uint x + uint y < 2 ^ 256"
  proof (cases "uint x + uint y < 2 ^ 256")
    case True
    then show ?thesis by (simp add: take_bit_int_eq_self)
  next
    case False
    have "take_bit 256 (uint x + uint y) = take_bit 256 (uint x + uint y - 2 ^ 256)" by (simp add: take_bit_eq_mod)
    also have "\<dots> = uint x + uint y - 2 ^ 256"
      using False uint_lt2p [of x] uint_lt2p [of y] by (intro take_bit_int_eq_self) simp_all
    finally show ?thesis using False uint_lt2p [of y] by simp
  qed
  then show ?thesis using assms
    by (simp add: run_func_def safeAdd_at_block safeAdd_defs ir_step take_bit_int_eq_self)
qed

lemma safe_sub_run:
  fixes x y :: w256
  assumes "\<And>args. calls ''ethereum.revert'' args = Some Halts"
  shows "run_func calls getSafeMathSubFunc [I (uint x), I (uint y)] =
    Some (if uint y \<le> uint x then Returns (I (uint x - uint y)) else Halts)"
proof -
  have "uint y \<le> uint x \<Longrightarrow> take_bit 256 (uint x - uint y) = uint x - uint y"
    by (intro take_bit_int_eq_self) (simp, rule le_less_trans [of _ "uint x"], simp_all, insert uint_lt2p [of x], simp)
  then show ?thesis using assms by (simp add: run_func_def safeSub_at_block safeSub_defs ir_step)
qed

lemma safe_mul_run:
  fixes x y :: w256
  assumes "\<And>args. calls ''ethereum.revert'' args = Some Halts"
  shows "run_func calls getSafeMathMulFunc [I (uint x), I (uint y)] =
    Some (if uint x * uint y < 2 ^ 256 then Returns (I (uint x * uint y)) else Halts)"
  using assms mul_overflow_test [of x y]
  by (cases "x = 0") (simp_all add: run_func_def safeMul_at_block safeMul_defs ir_step take_bit_int_eq_self unsigned_eq_0_iff)

lemma safe_udiv_run:
  fixes x y :: w256
  assumes "\<And>args. calls ''ethereum.revert'' args = Some Halts"
  shows "run_func calls getSafeMathUDivFunc [I (uint x), I (uint y)] =
    Some (if y = 0 then Halts else Returns (I (uint x div uint y)))"
  using assms by (simp add: run_func_def safeUDiv_at_block safeUDiv_defs ir_step unsigned_eq_0_iff)

lemmas safe_math_runs = safe_add_run safe_sub_run safe_mul_run safe_udiv_run

section \<open>The properties\<close>

text \<open>C16: The unsigned division runtime always comes back. At 256 and at 512 bits, for every
dividend and every nonzero divisor, the emitted shift-and-subtract loop returns the quotient
and the remainder of the numbers, without poison and without undefined behaviour.\<close>

theorem udivrem_correct:
  assumes "bits = 256 \<or> bits = 512" "x < 2 ^ bits" "y < 2 ^ bits" "0 < y"
  shows "run_module arith_module ext (udivremName bits) [I (int x), I (int y)] =
    Some (Returns (V [I (int (x div y)), I (int (x mod y))]))"
  using udr_module [OF assms(1-3), of ext] assms(4) by (simp add: udr_value_def)

theorem udivrem_correct_witness:
  "run_module arith_module (\<lambda>_ _. None) (udivremName 512) [I (int (2 ^ 511 + 5)), I (int 3)] =
    Some (Returns (V [I (int ((2 ^ 511 + 5) div 3)), I (int ((2 ^ 511 + 5) mod 3))]))"
  by (rule udivrem_correct) simp_all

text \<open>A zero divisor is not special to the runtime: the division returns the dividend as the
remainder and, as the quotient, all ones up to one bit above the dividend's highest, where
the EVM and the comment in the sources expect zero for both.\<close>

theorem udivrem_by_zero:
  assumes "bits = 256 \<or> bits = 512" "x < 2 ^ bits"
  shows "run_module arith_module ext (udivremName bits) [I (int x), I 0] =
    Some (Returns (V [I (int (take_bit bits (2 ^ Suc (bitlen x) - 1))), I (int x)]))"
  using udr_module [OF assms, of 0 ext] by (simp add: udr_value_def)

theorem udivrem_by_zero_witness:
  "run_module arith_module (\<lambda>_ _. None) (udivremName 256) [I (int 6), I 0] = Some (Returns (V [I 15, I 6]))"
  using udivrem_by_zero [of 256 6 "\<lambda>_ _. None"] by (simp add: bitlen.simps take_bit_eq_mod)

text \<open>The signed division and remainder round towards zero and wrap the one quotient that does
not fit (the least number divided by minus one), as the EVM's SDIV and SMOD require, for
every dividend and every nonzero divisor.\<close>

theorem sdiv_srem_correct:
  fixes x y :: w256
  assumes "y \<noteq> 0"
  shows "run_module arith_module ext ''evm.sdiv.i256'' [I (uint x), I (uint y)] =
      Some (Returns (I (uint (word_of_int (sint x sdiv sint y) :: w256))))
    \<and> run_module arith_module ext ''evm.srem.i256'' [I (uint x), I (uint y)] =
      Some (Returns (I (uint (word_of_int (sint x smod sint y) :: w256))))"
  using sdiv_srem_module [OF assms] by simp

theorem sdiv_srem_correct_witness:
  "run_module arith_module (\<lambda>_ _. None) ''evm.sdiv.i256'' [I (uint (- 7 :: w256)), I (uint (2 :: w256))] =
      Some (Returns (I (2 ^ 256 - 3)))"
  using sdiv_srem_correct [of 2 "\<lambda>_ _. None" "- 7"] by simp

text \<open>The product assembled from half-width digits with explicit carries is the product modulo
two to the width, at 128 and at 256 bits.\<close>

theorem mul_correct:
  fixes x y :: "128 word" and x' y' :: w256
  shows "run_module arith_module ext ''evm.mul.i128'' [I (uint x), I (uint y)] = Some (Returns (I (uint (x * y))))
    \<and> run_module arith_module ext ''evm.mul.i256'' [I (uint x'), I (uint y')] = Some (Returns (I (uint (x' * y'))))"
  by (simp add: mul_module uint_word_ariths take_bit_eq_mod)

text \<open>Square and multiply ends for every exponent and returns the power modulo two to the 256,
and the constant the translator folds for constant operands is the one the emitted
function would return.\<close>

theorem exp_correct:
  fixes b e :: w256
  shows "run_module arith_module ext ''evm.exp'' [I (uint b), I (uint e)] = Some (Returns (I (uint (b ^ unat e))))
    \<and> arith_exp (Imm (uint b)) (Imm (uint e)) = Inl (Imm (uint (b ^ unat e)))"
proof -
  have "run_func calls getExpFunc [I (uint b), I (uint e)] = Some (Returns (I (uint (expLoop 1 b e))))" for calls
  proof -
    have "\<exists>env. run_func calls getExpFunc [I (uint b), I (uint e)]
        = run_from calls (fn_blocks getExpFunc) ''exp.Entry'' ''exp.LoopHeader'' env \<and> exp_at ''exp.Entry'' env 1 b e"
      unfolding run_func_def exp_at_def
      by (subst run_from.simps) (simp add: exp_defs, rule exI, rule conjI, rule refl, simp)
    then show ?thesis using exp_loop by auto
  qed
  then show ?thesis by (simp add: arith_module_def arith_exp_def expLoop_power)
qed

text \<open>C36: The checked operations return the exact result of the numbers when it fits 256 bits (and
the divisor is not zero), and otherwise end the contract through the host's revert.\<close>

theorem safe_math_exact:
  fixes x y :: w256
  assumes "\<And>args. ext ''ethereum.revert'' args = Some Halts"
  shows "run_module arith_module ext ''safeAdd'' [I (uint x), I (uint y)] =
      Some (if uint x + uint y < 2 ^ 256 then Returns (I (uint x + uint y)) else Halts)
    \<and> run_module arith_module ext ''safeSub'' [I (uint x), I (uint y)] =
      Some (if uint y \<le> uint x then Returns (I (uint x - uint y)) else Halts)
    \<and> run_module arith_module ext ''safeMul'' [I (uint x), I (uint y)] =
      Some (if uint x * uint y < 2 ^ 256 then Returns (I (uint x * uint y)) else Halts)
    \<and> run_module arith_module ext ''safeUDiv'' [I (uint x), I (uint y)] =
      Some (if y = 0 then Halts else Returns (I (uint x div uint y)))"
  using assms by (simp add: arith_module_def safe_math_runs)

theorem safe_math_exact_witness:
  "run_module arith_module (\<lambda>_ _. Some Halts) ''safeMul'' [I (uint (2 ^ 255 :: w256)), I (uint (2 :: w256))] = Some Halts"
  using safe_math_exact [of "\<lambda>_ _. Some Halts" "2 ^ 255" 2] by simp

end
