(* ===== verification/Passes.thy ===== *)
theory Passes
  imports Arith_Correct
begin

text \<open>
  The passes of src/evmtrans/Optimizer.cpp that rewrite or inspect the emitted functions: the
  lowering of wide divisions and products to the arithmetic runtime (LowerEVMPass), the
  replacement of unchecked operations (UseSafeMathPass) and the searches that decide whether
  a function needs a patch. A call of a function of the environment is recognised by the
  name and the number of operands of the call, callee included, as the sources do; no other
  value carries such a name. Log output is left out, and so are the passes that only print.
\<close>

section \<open>Lowering (LowerEVMPass)\<close>

fun lower_op :: "irop \<Rightarrow> irop" where
  "lower_op (OBin op w x y) =
     (if w = 256 then
        (case op of
           UDiv \<Rightarrow> OCall ''evm.udiv.i256'' [x, y]
         | URem \<Rightarrow> OCall ''evm.urem.i256'' [x, y]
         | SDiv \<Rightarrow> OCall ''evm.sdiv.i256'' [x, y]
         | SRem \<Rightarrow> OCall ''evm.srem.i256'' [x, y]
         | Mul \<Rightarrow> OCall ''evm.mul.i256'' [x, y]
         | NUWMul \<Rightarrow> OCall ''evm.mul.i256'' [x, y]
         | _ \<Rightarrow> OBin op w x y)
      else if w = 128 then
        (case op of
           Mul \<Rightarrow> OCall ''evm.mul.i128'' [x, y]
         | NUWMul \<Rightarrow> OCall ''evm.mul.i128'' [x, y]
         | _ \<Rightarrow> OBin op w x y)
      else if w = 512 then
        (case op of URem \<Rightarrow> OCall ''evm.urem.i512'' [x, y] | _ \<Rightarrow> OBin op w x y)
      else OBin op w x y)"
| "lower_op op = op"

definition lower_block :: "ir_block \<Rightarrow> ir_block" where
  "lower_block b = b\<lparr>blk_body := map (\<lambda>(r, op). (r, lower_op op)) (blk_body b)\<rparr>"

definition LowerEVMPass :: "ir_func \<Rightarrow> ir_func" where
  "LowerEVMPass f = f\<lparr>fn_blocks := map (\<lambda>(l, b). (l, lower_block b)) (fn_blocks f)\<rparr>"

section \<open>Searching the control flow graph\<close>

definition successors :: "ir_block \<Rightarrow> string list" where
  "successors b = (case blk_term b of Br l \<Rightarrow> [l] | CondBr c t e \<Rightarrow> [t, e] | Ret v \<Rightarrow> [])"

definition calls_env :: "string \<Rightarrow> nat \<Rightarrow> irop \<Rightarrow> bool" where
  "calls_env f n op = (case op of OCall g args \<Rightarrow> g = f \<and> length args + 1 = n | _ \<Rightarrow> False)"

definition has_inst :: "(irop \<Rightarrow> bool) \<Rightarrow> ir_block \<Rightarrow> bool" where
  "has_inst P b = list_ex (\<lambda>(r, op). P op) (blk_body b)"

definition isStore :: "irop \<Rightarrow> bool" where
  "isStore = calls_env ''ethereum.storageStore'' 3"

definition isCall :: "irop \<Rightarrow> bool" where
  "isCall = calls_env ''ethereum.call'' 6"

type_synonym cfg_blocks = "(string \<times> ir_block) list"

definition block_at :: "cfg_blocks \<Rightarrow> string \<Rightarrow> ir_block" where
  "block_at bs l = (case map_of bs l of Some b \<Rightarrow> b | None \<Rightarrow> \<lparr>blk_phis = [], blk_body = [], blk_term = Ret (Imm 0)\<rparr>)"

text \<open>The successors of a block that were not visited are pushed, and count as visited.\<close>

definition visit :: "string \<Rightarrow> string list \<times> string list \<Rightarrow> string list \<times> string list" where
  "visit s = (\<lambda>(fifo, visited). if s \<in> set visited then (fifo, visited) else (s # fifo, visited @ [s]))"

definition succ_labels :: "cfg_blocks \<Rightarrow> string set" where
  "succ_labels bs = (\<Union>(l, b) \<in> set bs. set (successors b))"

lemma visit_simps [simp]:
  "s \<in> set v \<Longrightarrow> visit s (f, v) = (f, v)" "s \<notin> set v \<Longrightarrow> visit s (f, v) = (s # f, v @ [s])"
  by (simp_all add: visit_def)

lemma fold_visit_sets:
  "set (snd (fold visit ss (f, v))) = set v \<union> set ss \<and> set (fst (fold visit ss (f, v))) = set f \<union> (set ss - set v)"
proof (induction ss arbitrary: f v)
  case (Cons s ss)
  show ?case
  proof (cases "s \<in> set v")
    case True
    then show ?thesis using Cons.IH [of f v] by auto
  next
    case False
    then show ?thesis using Cons.IH [of "s # f" "v @ [s]"] by auto
  qed
qed simp

lemma fold_visit_measure:
  assumes "finite A"
  shows "set ss \<subseteq> A \<Longrightarrow>
    card (A - set (snd (fold visit ss (f, v)))) + length (fst (fold visit ss (f, v))) \<le> card (A - set v) + length f"
proof (induction ss arbitrary: f v)
  case (Cons s ss)
  show ?case
  proof (cases "s \<in> set v")
    case True
    then show ?thesis using Cons.IH [of f v] Cons.prems by simp
  next
    case False
    have eq: "A - set v = insert s (A - set (v @ [s]))" using False Cons.prems by auto
    have "card (A - set v) = Suc (card (A - set (v @ [s])))"
      by (subst eq, rule card_insert_disjoint) (use assms in auto)
    then show ?thesis using False Cons.IH [of "s # f" "v @ [s]"] Cons.prems by simp
  qed
qed simp

lemma fold_visit:
  assumes "finite A" "set ss \<subseteq> A" "fold visit ss (f, v) = (f', v')"
  shows "set v' = set v \<union> set ss" "set f' = set f \<union> (set ss - set v)"
    "card (A - set v') + length f' \<le> card (A - set v) + length f"
  using fold_visit_sets [of ss f v] fold_visit_measure [OF assms(1,2), of f v] assms(3) by simp_all

lemma finite_succ_labels [simp]: "finite (succ_labels bs)"
  by (auto simp: succ_labels_def)

lemma successors_labels: "set (successors (block_at bs l)) \<subseteq> succ_labels bs"
  by (auto simp: block_at_def succ_labels_def successors_def split: option.splits dest!: map_of_SomeD)

text \<open>The depth-first search from a stack of blocks for an instruction; the list is what was visited.\<close>

function search_cfg :: "(irop \<Rightarrow> bool) \<Rightarrow> cfg_blocks \<Rightarrow> string list \<Rightarrow> string list \<Rightarrow> bool \<times> string list" where
  "search_cfg P bs [] visited = (False, visited)"
| "search_cfg P bs (dnode # fifo) visited =
     (if has_inst P (block_at bs dnode) then (True, visited)
      else case fold visit (successors (block_at bs dnode)) (fifo, visited) of
             (fifo', visited') \<Rightarrow> search_cfg P bs fifo' visited')"
  by pat_completeness auto
termination
proof (relation "measure (\<lambda>(P, bs, fifo, visited). card (succ_labels bs - set visited) + length fifo)")
  fix P :: "irop \<Rightarrow> bool" and bs dnode fifo visited fifo' visited'
  assume "(fifo', visited') = fold visit (successors (block_at bs dnode)) (fifo, visited)"
  from fold_visit(3) [OF finite_succ_labels successors_labels this [symmetric]]
  show "((P, bs, fifo', visited'), P, bs, dnode # fifo, visited)
      \<in> measure (\<lambda>(P, bs, fifo, visited). card (succ_labels bs - set visited) + length fifo)" by simp
qed simp

declare search_cfg.simps(2) [simp del]

section \<open>Reentrancy (EstimateReenrancePass::detectBug)\<close>

text \<open>A store after a call, within a block.\<close>

fun call_then_store :: "irop list \<Rightarrow> bool \<Rightarrow> bool" where
  "call_then_store [] found = False"
| "call_then_store (op # ops) found =
     (if isCall op then call_then_store ops True
      else if found \<and> isStore op then True
      else call_then_store ops found)"

fun search_calls :: "cfg_blocks \<Rightarrow> string list \<Rightarrow> string list \<Rightarrow> bool" where
  "search_calls bs [] visited = False"
| "search_calls bs (l # ls) visited =
     (case search_cfg isStore bs [l] visited of
        (True, _) \<Rightarrow> True
      | (False, visited') \<Rightarrow> search_calls bs ls visited')"

definition extCallList :: "cfg_blocks \<Rightarrow> string list" where
  "extCallList bs = concat (map (\<lambda>(l, b). map (\<lambda>_. l) (filter (\<lambda>(r, op). isCall op) (blk_body b))) bs)"

definition reentrancy_detectBug :: "ir_func \<Rightarrow> bool" where
  "reentrancy_detectBug f =
     (list_ex (\<lambda>(l, b). call_then_store (map snd (blk_body b)) False) (fn_blocks f)
      \<or> search_calls (fn_blocks f) (extCallList (fn_blocks f)) [])"

section \<open>Unchecked arithmetic (UseSafeMathPass)\<close>

definition isEffect :: "irop \<Rightarrow> bool" where
  "isEffect op \<longleftrightarrow> isStore op \<or> isCall op"

text \<open>The search has no return statement at its end: it returns true or its result is undefined.\<close>

definition safemath_detectBug :: "ir_func \<Rightarrow> string \<Rightarrow> bool option" where
  "safemath_detectBug f l = (if fst (search_cfg isEffect (fn_blocks f) [l] []) then Some True else None)"

definition safe_op :: "string \<Rightarrow> irop \<Rightarrow> irop" where
  "safe_op r op =
     (if take 6 r = ''unsafe'' then
        (case op of
           OBin b w x y \<Rightarrow>
             (if b = Add \<or> b = NUWAdd then OCall ''safeAdd'' [x, y]
              else if b = Sub \<or> b = NUWSub then OCall ''safeSub'' [x, y]
              else if b = Mul \<or> b = NUWMul then OCall ''safeMul'' [x, y]
              else if b = UDiv then OCall ''safeUDiv'' [x, y]
              else op)
         | _ \<Rightarrow> op)
      else op)"

text \<open>The decision is taken for every instruction, at least for the terminator; \<open>None\<close> where it is undefined.\<close>

fun safe_blocks :: "ir_func \<Rightarrow> cfg_blocks \<Rightarrow> cfg_blocks option" where
  "safe_blocks f [] = Some []"
| "safe_blocks f ((l, b) # bs) =
     (if safemath_detectBug f l = None then None
      else map_option (\<lambda>rest. (l, b\<lparr>blk_body := map (\<lambda>(r, op). (r, safe_op r op)) (blk_body b)\<rparr>) # rest) (safe_blocks f bs))"

definition UseSafeMathPass :: "string \<Rightarrow> ir_func \<Rightarrow> ir_func option" where
  "UseSafeMathPass name f =
     (if name \<noteq> ''main'' then Some f else map_option (\<lambda>bs. f\<lparr>fn_blocks := bs\<rparr>) (safe_blocks f (fn_blocks f)))"

section \<open>Rollback (EstimateRollbackPass::detectBug)\<close>

text \<open>
  Values are identified by their registers. The position seven instructions further on is
  outside the block when the block ends before it, and then the search is undefined.
\<close>

record rollback_lists =
  icmpInstList :: "(opnd \<times> opnd) list"
  originValList :: "string list"
  senderValList :: "string list"

text \<open>The two calls the collection looks for: the sources test for the same name twice.\<close>

definition isOrigin :: "irop \<Rightarrow> bool" where
  "isOrigin = calls_env ''ethereum.getTxOrigin'' 3"

definition isSender :: "irop \<Rightarrow> bool" where
  "isSender = calls_env ''ethereum.getTxOrigin'' 3"

fun icmp_operands :: "irop \<Rightarrow> (opnd \<times> opnd) option" where
  "icmp_operands (OICmp p w x y) = Some (x, y)"
| "icmp_operands _ = None"

definition collect_inst :: "irop \<Rightarrow> (string \<times> irop) list \<Rightarrow> rollback_lists \<Rightarrow> rollback_lists option" where
  "collect_inst op rest acc =
     (case icmp_operands op of
        Some xy \<Rightarrow> Some (acc\<lparr>icmpInstList := icmpInstList acc @ [xy]\<rparr>)
      | None \<Rightarrow>
          if isOrigin op then
            (if 6 < length rest then Some (acc\<lparr>originValList := originValList acc @ [fst (rest ! 6)]\<rparr>) else None)
          else if isSender op then
            (if 6 < length rest then Some (acc\<lparr>senderValList := senderValList acc @ [fst (rest ! 6)]\<rparr>) else None)
          else Some acc)"

fun rollback_collect :: "(string \<times> irop) list \<Rightarrow> rollback_lists \<Rightarrow> rollback_lists option" where
  "rollback_collect [] acc = Some acc"
| "rollback_collect ((r, op) # rest) acc =
     (case collect_inst op rest acc of None \<Rightarrow> None | Some acc' \<Rightarrow> rollback_collect rest acc')"

fun rollback_collect_all :: "cfg_blocks \<Rightarrow> rollback_lists \<Rightarrow> rollback_lists option" where
  "rollback_collect_all [] acc = Some acc"
| "rollback_collect_all ((l, b) # bs) acc =
     (case rollback_collect (blk_body b) acc of None \<Rightarrow> None | Some acc' \<Rightarrow> rollback_collect_all bs acc')"

fun is_among :: "opnd \<Rightarrow> string list \<Rightarrow> bool" where
  "is_among (Reg r) rs = (r \<in> set rs)"
| "is_among _ rs = False"

definition rollback_detectBug :: "ir_func \<Rightarrow> bool option" where
  "rollback_detectBug f =
     (case rollback_collect_all (fn_blocks f) \<lparr>icmpInstList = [], originValList = [], senderValList = []\<rparr> of
        None \<Rightarrow> None
      | Some ls \<Rightarrow>
          if senderValList ls = [] \<or> originValList ls = [] then Some True
          else Some (\<not> list_ex (\<lambda>(lhs, rhs).
                 is_among lhs (originValList ls) \<and> is_among rhs (senderValList ls)
               \<or> is_among rhs (originValList ls) \<and> is_among lhs (senderValList ls)) (icmpInstList ls)))"

end
