(* ===== verification/Passes_Correct.thy ===== *)
theory Passes_Correct
  imports Passes
begin

text \<open>
  The searches of the passes decide reachability in the control flow graph, and lowering to
  the arithmetic runtime keeps what a function computes.
\<close>

section \<open>Reachability\<close>

definition edge :: "cfg_blocks \<Rightarrow> string \<Rightarrow> string \<Rightarrow> bool" where
  "edge bs l l' \<longleftrightarrow> l' \<in> set (successors (block_at bs l))"

definition reaches :: "(irop \<Rightarrow> bool) \<Rightarrow> cfg_blocks \<Rightarrow> string \<Rightarrow> bool" where
  "reaches P bs l \<longleftrightarrow> (\<exists>l'. (edge bs)\<^sup>*\<^sup>* l l' \<and> has_inst P (block_at bs l'))"

lemma reaches_here: "has_inst P (block_at bs l) \<Longrightarrow> reaches P bs l"
  by (auto simp: reaches_def)

lemma reaches_step: "edge bs l l' \<Longrightarrow> reaches P bs l' \<Longrightarrow> reaches P bs l"
  by (auto simp: reaches_def intro: converse_rtranclp_into_rtranclp)

text \<open>A set of blocks without the instruction that no edge leaves.\<close>

definition clean :: "(irop \<Rightarrow> bool) \<Rightarrow> cfg_blocks \<Rightarrow> string set \<Rightarrow> bool" where
  "clean P bs S \<longleftrightarrow> (\<forall>v \<in> S. \<not> has_inst P (block_at bs v) \<and> set (successors (block_at bs v)) \<subseteq> S)"

lemma clean_reaches: "clean P bs S \<Longrightarrow> l \<in> S \<Longrightarrow> \<not> reaches P bs l"
proof
  assume S: "clean P bs S" "l \<in> S" and "reaches P bs l"
  then obtain l' where l': "(edge bs)\<^sup>*\<^sup>* l l'" "has_inst P (block_at bs l')" by (auto simp: reaches_def)
  from l'(1) have "l' \<in> S" using S by induction (auto simp: clean_def edge_def)
  then show False using l'(2) S by (auto simp: clean_def)
qed

lemma search_found: "fst (search_cfg P bs fifo visited) \<Longrightarrow> \<exists>l \<in> set fifo. reaches P bs l"
proof (induction P bs fifo visited rule: search_cfg.induct)
  case (2 P bs dnode fifo visited)
  obtain fifo' visited' where v: "fold visit (successors (block_at bs dnode)) (fifo, visited) = (fifo', visited')"
    by fastforce
  note sets = fold_visit [OF finite_succ_labels successors_labels v]
  show ?case
  proof (cases "has_inst P (block_at bs dnode)")
    case True
    then show ?thesis using reaches_here by auto
  next
    case False
    then obtain l where "l \<in> set fifo'" "reaches P bs l"
      using 2 v by (auto simp: search_cfg.simps(2))
    then show ?thesis using sets(2) reaches_step [of bs dnode l P] by (auto simp: edge_def)
  qed
qed simp

lemma search_missed:
  assumes "search_cfg P bs fifo visited = (False, visited')"
    and "\<forall>v \<in> set visited. v \<in> set fifo \<or> \<not> has_inst P (block_at bs v) \<and> set (successors (block_at bs v)) \<subseteq> set visited"
  shows "set visited \<subseteq> set visited'
    \<and> (\<forall>v \<in> set visited' \<union> set fifo. \<not> has_inst P (block_at bs v) \<and> set (successors (block_at bs v)) \<subseteq> set visited')"
  using assms
proof (induction P bs fifo visited rule: search_cfg.induct)
  case (2 P bs dnode fifo visited)
  obtain fifo1 visited1 where v: "fold visit (successors (block_at bs dnode)) (fifo, visited) = (fifo1, visited1)"
    by fastforce
  note sets = fold_visit [OF finite_succ_labels successors_labels v]
  have no: "\<not> has_inst P (block_at bs dnode)" and run: "search_cfg P bs fifo1 visited1 = (False, visited')"
    using "2.prems"(1) v by (auto simp: search_cfg.simps(2) split: if_splits)
  have inv: "\<forall>x \<in> set visited1. x \<in> set fifo1 \<or> \<not> has_inst P (block_at bs x) \<and> set (successors (block_at bs x)) \<subseteq> set visited1"
    using "2.prems"(2) sets no by auto
  have IH: "set visited1 \<subseteq> set visited'"
    "\<forall>x \<in> set visited' \<union> set fifo1. \<not> has_inst P (block_at bs x) \<and> set (successors (block_at bs x)) \<subseteq> set visited'"
    using "2.IH" [OF no v [symmetric] run inv] by auto
  then show ?case using sets no by auto
qed auto

lemma search_cfg_iff:
  assumes "clean P bs (set visited)" "search_cfg P bs [l] visited = (found, visited')"
  shows "found \<longleftrightarrow> reaches P bs l"
    and "\<not> found \<Longrightarrow> clean P bs (set visited')"
proof -
  have miss: "clean P bs (insert l (set visited'))" "clean P bs (set visited')" if "\<not> found"
    using search_missed [of P bs "[l]" visited visited'] assms that by (auto simp: clean_def)
  show "found \<longleftrightarrow> reaches P bs l"
    using search_found [of P bs "[l]" visited] miss clean_reaches [of P bs "insert l (set visited')" l] assms(2) by auto
  show "\<not> found \<Longrightarrow> clean P bs (set visited')" by (rule miss)
qed

lemma search_calls_iff: "clean isStore bs (set visited) \<Longrightarrow> search_calls bs ls visited \<longleftrightarrow> (\<exists>l \<in> set ls. reaches isStore bs l)"
proof (induction ls arbitrary: visited)
  case (Cons l ls)
  obtain found visited' where s: "search_cfg isStore bs [l] visited = (found, visited')" by fastforce
  note iff = search_cfg_iff [OF Cons.prems s]
  show ?case using iff Cons.IH [of visited'] by (cases found) (auto simp: s)
qed simp

lemma set_extCallList: "l \<in> set (extCallList bs) \<longleftrightarrow> (\<exists>b. (l, b) \<in> set bs \<and> has_inst isCall b)"
  by (force simp: extCallList_def has_inst_def list_ex_iff)

lemma call_then_store_has: "call_then_store ops found \<Longrightarrow> (found \<or> list_ex isCall ops) \<and> list_ex isStore ops"
  by (induction ops found rule: call_then_store.induct) (auto split: if_splits)

section \<open>Lowering\<close>

text \<open>
  An execution in which every lowered instruction is defined: its operands are numbers of its
  width, and it neither divides by zero nor overflows where the language forbids it. The
  functions it calls are not those of the runtime.
\<close>

definition bin_ok :: "binop \<Rightarrow> nat \<Rightarrow> irval \<Rightarrow> irval \<Rightarrow> bool" where
  "bin_ok op w u v =
     (case (u, v) of
        (I x, I y) \<Rightarrow> 0 \<le> x \<and> x < 2 ^ w \<and> 0 \<le> y \<and> y < 2 ^ w \<and> bin_defined op w x y
      | _ \<Rightarrow> False)"

fun operands_ok :: "env \<Rightarrow> irop \<Rightarrow> bool" where
  "operands_ok env (OBin op w x y) =
     (lower_op (OBin op w x y) = OBin op w x y \<or> bin_ok op w (opval env x) (opval env y))"
| "operands_ok env (OCall f args) = (f \<notin> set (map fst arith_module))"
| "operands_ok env op = True"

fun body_ok :: "callees \<Rightarrow> (string \<times> irop) list \<Rightarrow> env \<Rightarrow> bool" where
  "body_ok calls [] env = True"
| "body_ok calls ((r, op) # ops) env =
     (operands_ok env op \<and>
      (case op_result calls env op of Some (Returns v) \<Rightarrow> body_ok calls ops (env(r := v)) | _ \<Rightarrow> True))"

inductive good_run :: "callees \<Rightarrow> cfg_blocks \<Rightarrow> string \<Rightarrow> string \<Rightarrow> env \<Rightarrow> outcome \<Rightarrow> bool" for calls bs where
  good_ret:
    "\<lbrakk>map_of bs lbl = Some b; env0 = assign_phis prev env (blk_phis b) env; body_ok calls (blk_body b) env0;
      run_body calls (blk_body b) env0 = Inr env'; blk_term b = Ret v\<rbrakk>
     \<Longrightarrow> good_run calls bs prev lbl env (Returns (opval env' v))"
| good_br:
    "\<lbrakk>map_of bs lbl = Some b; env0 = assign_phis prev env (blk_phis b) env; body_ok calls (blk_body b) env0;
      run_body calls (blk_body b) env0 = Inr env'; blk_term b = Br l; good_run calls bs lbl l env' out\<rbrakk>
     \<Longrightarrow> good_run calls bs prev lbl env out"
| good_condbr:
    "\<lbrakk>map_of bs lbl = Some b; env0 = assign_phis prev env (blk_phis b) env; body_ok calls (blk_body b) env0;
      run_body calls (blk_body b) env0 = Inr env'; blk_term b = CondBr c t e; opval env' c = I k;
      good_run calls bs lbl (if k = 1 then t else e) env' out\<rbrakk>
     \<Longrightarrow> good_run calls bs prev lbl env out"
| good_halt:
    "\<lbrakk>map_of bs lbl = Some b; env0 = assign_phis prev env (blk_phis b) env; body_ok calls (blk_body b) env0;
      run_body calls (blk_body b) env0 = Inl (Some Halts)\<rbrakk>
     \<Longrightarrow> good_run calls bs prev lbl env Halts"

lemma module_other: "f \<notin> set (map fst fs) \<Longrightarrow> run_module fs ext f args = ext f args"
  by (induction fs) auto

lemma numbers:
  assumes "0 \<le> x" "x < 2 ^ w"
  obtains n where "x = int n" "n < 2 ^ w"
  using assms by (metis nat_0_le nat_less_numeral_power_cancel_iff of_nat_numeral of_nat_power)

lemma words:
  assumes "0 \<le> x" "x < 2 ^ 256"
  obtains a :: w256 where "x = uint a"
proof -
  have "x = uint (word_of_int x :: w256)" using assms by (simp add: unsigned_of_int take_bit_int_eq_self)
  then show thesis by (rule that)
qed

lemma lower_bin:
  assumes "bin_ok op w u v" "lower_op (OBin op w x y) = OCall f [x, y]"
  shows "run_module arith_module calls f [u, v] = Some (bin_result op w u v)"
proof -
  obtain i j where uv: "u = I i" "v = I j" and range: "0 \<le> i" "i < 2 ^ w" "0 \<le> j" "j < 2 ^ w" and d: "bin_defined op w i j"
    using assms(1) by (auto simp: bin_ok_def split: irval.splits)
  obtain n m where nm: "i = int n" "n < 2 ^ w" "j = int m" "m < 2 ^ w" using numbers range by metis
  consider "w = 256" "op = UDiv" "f = ''evm.udiv.i256''" | "w = 256" "op = URem" "f = ''evm.urem.i256''"
    | "w = 256" "op = SDiv" "f = ''evm.sdiv.i256''" | "w = 256" "op = SRem" "f = ''evm.srem.i256''"
    | "w = 256" "op = Mul \<or> op = NUWMul" "f = ''evm.mul.i256''" | "w = 128" "op = Mul \<or> op = NUWMul" "f = ''evm.mul.i128''"
    | "w = 512" "op = URem" "f = ''evm.urem.i512''"
    using assms(2) by (auto split: if_splits binop.splits)
  then show ?thesis
  proof cases
    case 1
    then show ?thesis using nm d udiv_urem_module(1) [of n m calls] by (auto simp: uv bin_defined_def bin_value_def zdiv_int)
  next
    case 2
    then show ?thesis using nm d udiv_urem_module(2) [of n m calls] by (auto simp: uv bin_defined_def bin_value_def zmod_int)
  next
    case 3
    then obtain a b :: w256 where ab: "i = uint a" "j = uint b" using range words by metis
    then show ?thesis using 3 d sdiv_srem_module(1) [of b calls a] by (simp add: uv bin_defined_words bin_value_words)
  next
    case 4
    then obtain a b :: w256 where ab: "i = uint a" "j = uint b" using range words by metis
    then show ?thesis using 4 d sdiv_srem_module(2) [of b calls a] by (simp add: uv bin_defined_words bin_value_words)
  next
    case 5
    then show ?thesis using range d by (auto simp: uv mul_module bin_defined_def bin_value_def take_bit_int_eq_self)
  next
    case 6
    then show ?thesis using range d by (auto simp: uv mul_module bin_defined_def bin_value_def take_bit_int_eq_self)
  next
    case 7
    then show ?thesis using nm d urem512_module [of n m calls] by (auto simp: uv bin_defined_def bin_value_def zmod_int)
  qed
qed

lemma lower_bin_form:
  "lower_op (OBin op w x y) = OBin op w x y \<or> (\<exists>f. lower_op (OBin op w x y) = OCall f [x, y])"
  by (auto split: binop.splits)

lemma lower_op_result:
  "operands_ok env op \<Longrightarrow> op_result (run_module arith_module calls) env (lower_op op) = op_result calls env op"
proof (cases op)
  case (OBin b w x y)
  assume ok: "operands_ok env op"
  show ?thesis
  proof (cases "lower_op op = op")
    case False
    then obtain f where f: "lower_op op = OCall f [x, y]" using lower_bin_form OBin by metis
    then show ?thesis using ok False lower_bin [of b w "opval env x" "opval env y" x y f calls]
      by (simp add: OBin op_result_def)
  qed (simp add: OBin op_result_def)
qed (simp_all add: op_result_def module_other)

lemma lower_body:
  "body_ok calls ops env \<Longrightarrow>
   run_body (run_module arith_module calls) (map (\<lambda>(r, op). (r, lower_op op)) ops) env = run_body calls ops env"
proof (induction calls ops env rule: body_ok.induct)
  case (2 calls r op ops env)
  then show ?case by (auto simp: lower_op_result fun_upd_def split: option.splits outcome.splits)
qed simp

lemma lower_block_simps [simp]:
  "blk_phis (lower_block b) = blk_phis b" "blk_term (lower_block b) = blk_term b"
  "blk_body (lower_block b) = map (\<lambda>(r, op). (r, lower_op op)) (blk_body b)"
  by (simp_all add: lower_block_def)

lemma lower_lookup: "map_of (map (\<lambda>(l, b). (l, lower_block b)) bs) l = map_option lower_block (map_of bs l)"
  by (induction bs) auto

lemma good_run_same:
  "good_run calls bs prev lbl env out \<Longrightarrow> run_from calls bs prev lbl env = Some out"
  by (induction rule: good_run.induct) (subst run_from.simps; simp)+

lemma good_run_lower:
  "good_run calls bs prev lbl env out \<Longrightarrow>
   run_from (run_module arith_module calls) (map (\<lambda>(l, b). (l, lower_block b)) bs) prev lbl env = Some out"
  by (induction rule: good_run.induct) (subst run_from.simps; simp add: lower_lookup lower_body)+

definition entry_env :: "ir_func \<Rightarrow> irval list \<Rightarrow> env" where
  "entry_env f args = (\<lambda>r. case map_of (zip (fn_params f) args) r of Some v \<Rightarrow> v | None \<Rightarrow> Poison)"

section \<open>The properties\<close>

text \<open>C11: lowering keeps what a function computes. For every execution of a function in which the
wide divisions and products are defined, the function after the pass, linked with the
arithmetic runtime, ends with the same outcome: the same returned value, or the same halt
through the environment.\<close>

theorem lowering_correct:
  assumes "good_run calls (fn_blocks f) [] (fn_entry f) (entry_env f args) out"
  shows "run_func calls f args = Some out
    \<and> run_func (run_module arith_module calls) (LowerEVMPass f) args = Some out"
  using good_run_same [OF assms] good_run_lower [OF assms]
  by (simp add: run_func_def LowerEVMPass_def entry_env_def)

definition div_func :: ir_func where
  "div_func = \<lparr>fn_params = [''x'', ''y''], fn_entry = ''e'',
     fn_blocks = [(''e'', \<lparr>blk_phis = [], blk_body = [(''q'', OBin SDiv 256 (Reg ''x'') (Reg ''y''))], blk_term = Ret (Reg ''q'')\<rparr>)]\<rparr>"

theorem lowering_correct_witness:
  "run_func (run_module arith_module (\<lambda>_ _. None)) (LowerEVMPass div_func) [I 7, I 2] = Some (Returns (I 3))"
proof -
  have v: "bin_value SDiv 256 7 2 = 3" "bin_defined SDiv 256 7 2"
    by (simp_all add: bin_value_def bin_defined_def signed_def signed_take_bit_int_eq_self signed_divide_int_def take_bit_eq_mod)
  have "good_run (\<lambda>_ _. None) (fn_blocks div_func) [] (fn_entry div_func) (entry_env div_func [I 7, I 2])
      (Returns (opval ((entry_env div_func [I 7, I 2])(''q'' := I 3)) (Reg ''q'')))"
    by (rule good_ret, (simp add: div_func_def entry_env_def bin_ok_def op_result_def v)+)
  from lowering_correct [OF this] show ?thesis by simp
qed

text \<open>C37: the reentrancy check. The search always ends, and it reports a function exactly when from a
block with an external call some block with a storage write can be reached, that block
itself included; remembering visited blocks from one call to the next loses nothing.\<close>

theorem reentrancy_detectBug_iff:
  assumes "distinct (map fst (fn_blocks f))"
  shows "reentrancy_detectBug f \<longleftrightarrow>
    (\<exists>l b. (l, b) \<in> set (fn_blocks f) \<and> has_inst isCall b \<and> reaches isStore (fn_blocks f) l)"
proof -
  have here: "block_at (fn_blocks f) l = b" if "(l, b) \<in> set (fn_blocks f)" for l b
    using that assms by (simp add: block_at_def)
  have local: "has_inst isCall b \<and> has_inst isStore b" if "call_then_store (map snd (blk_body b)) False" for b
    using call_then_store_has [OF that] by (auto simp: has_inst_def list_ex_iff)
  have "search_calls (fn_blocks f) (extCallList (fn_blocks f)) [] \<longleftrightarrow>
      (\<exists>l b. (l, b) \<in> set (fn_blocks f) \<and> has_inst isCall b \<and> reaches isStore (fn_blocks f) l)"
    using search_calls_iff [of "fn_blocks f" "[]" "extCallList (fn_blocks f)"] set_extCallList [of _ "fn_blocks f"]
    by (simp add: clean_def) blast
  moreover have "reaches isStore (fn_blocks f) l" if "(l, b) \<in> set (fn_blocks f)" "has_inst isStore b" for l b
    using that here reaches_here by metis
  ultimately show ?thesis using local by (fastforce simp: reentrancy_detectBug_def list_ex_iff)
qed

definition call_func :: ir_func where
  "call_func = \<lparr>fn_params = [], fn_entry = ''e'',
     fn_blocks =
       [(''e'', \<lparr>blk_phis = [], blk_body = [(''r'', OCall ''ethereum.call'' [Imm 0, Imm 0, Imm 0, Imm 0, Imm 0])],
                 blk_term = Br ''n''\<rparr>),
        (''n'', \<lparr>blk_phis = [], blk_body = [(''s'', OCall ''ethereum.storageStore'' [Imm 0, Imm 0])], blk_term = Br ''e''\<rparr>)]\<rparr>"

theorem reentrancy_detectBug_iff_witness: "reentrancy_detectBug call_func"
proof -
  let ?bs = "fn_blocks call_func"
  have "edge ?bs ''e'' ''n''" "has_inst isStore (block_at ?bs ''n'')"
    by (simp_all add: call_func_def edge_def successors_def block_at_def has_inst_def isStore_def calls_env_def)
  then have r: "reaches isStore ?bs ''e''" using reaches_step reaches_here by metis
  have "distinct (map fst ?bs)" "(''e'', block_at ?bs ''e'') \<in> set ?bs" "has_inst isCall (block_at ?bs ''e'')"
    by (simp_all add: call_func_def block_at_def has_inst_def isCall_def calls_env_def)
  with r show ?thesis using reentrancy_detectBug_iff [of call_func] by blast
qed

text \<open>Two checks that cannot decide. The rollback check never finds a function safe, because
the list of senders it compares with is collected under the condition of the list of
origins and stays empty; and the decision of the safe arithmetic pass is undefined for every
block from which neither a storage write nor a call can be reached, so that the pass is
undefined on every main function that has such a block.\<close>

theorem checks_without_answer:
  "rollback_detectBug f \<noteq> Some False
   \<and> safemath_detectBug f l = (if reaches isEffect (fn_blocks f) l then Some True else None)
   \<and> (UseSafeMathPass ''main'' f = None \<longleftrightarrow>
        list_ex (\<lambda>(l, b). \<not> reaches isEffect (fn_blocks f) l) (fn_blocks f))"
proof -
  have detect: "safemath_detectBug f l = (if reaches isEffect (fn_blocks f) l then Some True else None)" for l
    using search_cfg_iff(1) [of isEffect "fn_blocks f" "[]" l]
    by (cases "search_cfg isEffect (fn_blocks f) [l] []") (simp add: safemath_detectBug_def clean_def)
  have "safe_blocks f bs = None \<longleftrightarrow> list_ex (\<lambda>(l, b). \<not> reaches isEffect (fn_blocks f) l) bs" for bs
    by (induction bs) (auto simp: detect)
  moreover have "rollback_collect ops acc = Some ls \<Longrightarrow> senderValList ls = senderValList acc" for ops acc ls
    by (induction ops acc rule: rollback_collect.induct)
      (auto simp: collect_inst_def isOrigin_def isSender_def split: option.splits if_splits)
  then have "rollback_collect_all bs acc = Some ls \<Longrightarrow> senderValList ls = senderValList acc" for bs acc ls
    by (induction bs acc rule: rollback_collect_all.induct) (auto split: option.splits)
  then have "rollback_detectBug f \<noteq> Some False"
    by (fastforce simp: rollback_detectBug_def split: option.splits)
  ultimately show ?thesis using detect by (simp add: UseSafeMathPass_def)
qed

end
