(* ===== verification/Patches.thy ===== *)
theory Patches
  imports Passes Host_Memory
begin

text \<open>
  The passes of src/evmtrans/Optimizer.cpp that insert code into the function main: the mutex
  against reentrancy, the comparison of the caller with the origin, the check of a call's result,
  the replacement of the origin by the caller and the shortened copy of the call data. A function
  has its instructions block by block; an instruction is known by the number of the register it
  defines, and carries a name and the position of the byte code it was emitted for. What the
  instructions do is the semantics of theory Host\_Run. Log output is left out.
\<close>

section \<open>Functions\<close>

record pinst =
  pi_id :: nat
  pi_name :: string
  pi_pc :: "int option"
  pi_op :: inst
  pi_ty :: lty

datatype pterm = PBr nat | PCondBr val nat nat | PSwitch val nat "(int \<times> nat) list" | PUnreachable

record pblock =
  pb_code :: "pinst list"
  pb_term :: pterm

text \<open>The first block is the entry; registers and labels from the last two fields on are not used.\<close>

record pfunc =
  pf_name :: string
  pf_blocks :: "(nat \<times> pblock) list"
  pf_regs :: nat
  pf_labels :: nat

definition wf_func :: "pfunc \<Rightarrow> bool" where
  "wf_func f \<longleftrightarrow> pf_blocks f \<noteq> [] \<and> distinct (map fst (pf_blocks f)) \<and> list_all (\<lambda>(l, b). l < pf_labels f) (pf_blocks f)
     \<and> distinct (concat (map (\<lambda>(l, b). map pi_id (pb_code b)) (pf_blocks f)))
     \<and> list_all (\<lambda>(l, b). list_all (\<lambda>i. pi_id i < pf_regs f) (pb_code b)) (pf_blocks f)"

definition mk_inst :: "nat \<Rightarrow> string \<Rightarrow> inst \<Rightarrow> lty \<Rightarrow> pinst" where
  "mk_inst k name i t = \<lparr>pi_id = k, pi_name = name, pi_pc = None, pi_op = i, pi_ty = t\<rparr>"

text \<open>The test the passes use for a call of the environment: the callee is the last of the operands.\<close>

definition calls_fn :: "string \<Rightarrow> nat \<Rightarrow> inst \<Rightarrow> bool" where
  "calls_fn f n i = (case i of ICall g args \<Rightarrow> g = f \<and> length args + 1 = n | _ \<Rightarrow> False)"

text \<open>An IRBuilder at an instruction inserts before it.\<close>

definition insert_before :: "nat \<Rightarrow> pinst list \<Rightarrow> pblock \<Rightarrow> pblock" where
  "insert_before k new b = b\<lparr>pb_code := concat (map (\<lambda>i. if pi_id i = k then new @ [i] else [i]) (pb_code b))\<rparr>"

definition in_blocks :: "(pblock \<Rightarrow> pblock) \<Rightarrow> (nat \<times> pblock) list \<Rightarrow> (nat \<times> pblock) list" where
  "in_blocks h bs = map (\<lambda>(l, b). (l, h b)) bs"

text \<open>
  SplitBlockAndInsertIfThen as LLVM documents it, for an instruction at position \<open>k\<close> of the
  block \<open>l\<close>: the block ends before it with a branch on the condition, to a new block \<open>t\<close> without
  continuation or to a new block that has the rest.
\<close>

definition split_if_then :: "val \<Rightarrow> nat \<Rightarrow> nat \<Rightarrow> nat \<Rightarrow> (nat \<times> pblock) list \<Rightarrow> (nat \<times> pblock) list" where
  "split_if_then c l k t bs =
     concat (map (\<lambda>(l', b).
       if l' = l then
         [(l, \<lparr>pb_code = take k (pb_code b), pb_term = PCondBr c t (t + 1)\<rparr>),
          (t, \<lparr>pb_code = [], pb_term = PUnreachable\<rparr>),
          (t + 1, \<lparr>pb_code = drop k (pb_code b), pb_term = pb_term b\<rparr>)]
       else [(l', b)]) bs)"

text \<open>Code in front of the first instruction of the function, and the split at that instruction.\<close>

definition check_entry :: "pinst list \<Rightarrow> val \<Rightarrow> nat \<Rightarrow> (nat \<times> pblock) list \<Rightarrow> (nat \<times> pblock) list" where
  "check_entry check c t bs =
     (case bs of
        [] \<Rightarrow> []
      | (l, b) # rest \<Rightarrow> split_if_then c l (length check) t ((l, b\<lparr>pb_code := check @ pb_code b\<rparr>) # rest))"

section \<open>The mutex (EstimateReenrancePass::runOnFunction)\<close>

text \<open>Whether the pass applies is decided by the search of theory Passes, an argument here.\<close>

definition guard_check :: "nat \<Rightarrow> pinst list" where
  "guard_check n =
     [mk_inst n ''mutex.slot.ptr'' (IAlloca 256) (TPtr 256),
      mk_inst (n + 1) [] (IStore 256 (VConst 256 0xfffffff) (VReg n)) (TInt 0),
      mk_inst (n + 2) ''mutex.value.ptr'' (IAlloca 256) (TPtr 256),
      mk_inst (n + 3) [] (IBitCast 32 (VReg n)) (TPtr 32),
      mk_inst (n + 4) [] (IBitCast 32 (VReg (n + 2))) (TPtr 32),
      mk_inst (n + 5) [] (ICall ''ethereum.storageLoad'' [VReg (n + 3), VReg (n + 4)]) (TInt 0),
      mk_inst (n + 6) [] (ILoad 256 (VReg (n + 2))) (TInt 256),
      mk_inst (n + 7) ''reentrancy.check'' (IICmp ICmpNE 256 (VReg (n + 6)) (VConst 256 0)) (TInt 1)]"

text \<open>The code that sets the mutex to 1 at the entry and to 0 before the end; registers from \<open>m\<close> on.\<close>

definition guard_write :: "int \<Rightarrow> nat \<Rightarrow> nat \<Rightarrow> pinst list" where
  "guard_write c n m =
     [mk_inst m [] (IStore 256 (VConst 256 c) (VReg (n + 2))) (TInt 0),
      mk_inst (m + 1) [] (IBitCast 32 (VReg n)) (TPtr 32),
      mk_inst (m + 2) [] (IBitCast 32 (VReg (n + 2))) (TPtr 32),
      mk_inst (m + 3) [] (ICall ''ethereum.storageStore'' [VReg (m + 1), VReg (m + 2)]) (TInt 0)]"

definition ends_contract :: "inst \<Rightarrow> bool" where
  "ends_contract i \<longleftrightarrow> calls_fn ''ethereum.finish'' 3 i \<or> calls_fn ''ethereum.revert'' 3 i"

definition terminatorInstrList :: "pfunc \<Rightarrow> nat list" where
  "terminatorInstrList f = concat (map (\<lambda>(l, b). map pi_id (filter (\<lambda>i. ends_contract (pi_op i)) (pb_code b))) (pf_blocks f))"

fun unlock_before :: "nat \<Rightarrow> nat \<Rightarrow> nat list \<Rightarrow> (nat \<times> pblock) list \<Rightarrow> (nat \<times> pblock) list" where
  "unlock_before n m [] bs = bs"
| "unlock_before n m (k # ks) bs = unlock_before n (m + 4) ks (in_blocks (insert_before k (guard_write 0 n m)) bs)"

text \<open>The entry: the check in front of its first instruction, the split there, and the lock behind it.\<close>

definition guard_entry :: "nat \<Rightarrow> nat \<Rightarrow> (nat \<times> pblock) list \<Rightarrow> (nat \<times> pblock) list" where
  "guard_entry n t bs =
     map (\<lambda>(l, b). if l = t + 1 then (l, b\<lparr>pb_code := guard_write 1 n (n + 8) @ pb_code b\<rparr>) else (l, b))
       (check_entry (guard_check n) (VReg (n + 7)) t bs)"

definition EstimateReenrancePass :: "(pfunc \<Rightarrow> bool) \<Rightarrow> pfunc \<Rightarrow> pfunc \<times> bool" where
  "EstimateReenrancePass detectBug f =
     (if pf_name f \<noteq> ''main'' \<or> \<not> detectBug f then (f, False)
      else
        let n = pf_regs f; ks = terminatorInstrList f in
        (f\<lparr>pf_blocks := unlock_before n (n + 12) ks (guard_entry n (pf_labels f) (pf_blocks f)),
           pf_regs := n + 12 + 4 * length ks, pf_labels := pf_labels f + 2\<rparr>,
         ks \<noteq> []))"

section \<open>Callers that are contracts (EstimateRollbackPass::runOnFunction)\<close>

definition rollback_check :: "nat \<Rightarrow> pinst list" where
  "rollback_check n =
     [mk_inst n [] (IAlloca 160) (TPtr 160),
      mk_inst (n + 1) [] (IBitCast 32 (VReg n)) (TPtr 32),
      mk_inst (n + 2) [] (ICall ''ethereum.getCaller'' [VReg (n + 1)]) (TInt 0),
      mk_inst (n + 3) [] (ILoad 160 (VReg n)) (TInt 160),
      mk_inst (n + 4) [] (IBitCast 32 (VReg n)) (TPtr 32),
      mk_inst (n + 5) [] (ICall ''ethereum.getTxOrigin'' [VReg (n + 4)]) (TInt 0),
      mk_inst (n + 6) [] (ILoad 160 (VReg n)) (TInt 160),
      mk_inst (n + 7) [] (IICmp ICmpNE 160 (VReg (n + 3)) (VReg (n + 6))) (TInt 1)]"

definition EstimateRollbackPass :: "(pfunc \<Rightarrow> bool) \<Rightarrow> pfunc \<Rightarrow> pfunc \<times> bool" where
  "EstimateRollbackPass detectBug f =
     (if pf_name f \<noteq> ''main'' \<or> \<not> detectBug f then (f, False)
      else
        let n = pf_regs f; t = pf_labels f in
        (f\<lparr>pf_blocks := check_entry (rollback_check n) (VReg (n + 7)) t (pf_blocks f), pf_regs := n + 8, pf_labels := t + 2\<rparr>, True))"

section \<open>Unchecked calls (EstimateVulSendPass)\<close>

definition vulSendRetList :: "int \<Rightarrow> pfunc \<Rightarrow> nat list" where
  "vulSendRetList vulPC f =
     concat (map (\<lambda>(l, b). map pi_id (filter (\<lambda>i. pi_pc i = Some vulPC \<and> calls_fn ''ethereum.call'' 6 (pi_op i)) (pb_code b))) (pf_blocks f))"

text \<open>The comparison is inserted behind the call, and the block is split behind the comparison.\<close>

definition protect_call :: "nat \<Rightarrow> nat \<Rightarrow> nat \<Rightarrow> (nat \<times> pblock) list \<Rightarrow> (nat \<times> pblock) list" where
  "protect_call k m t bs =
     concat (map (\<lambda>(l, b).
       if list_ex (\<lambda>i. pi_id i = k) (pb_code b) then
         let pos = length (takeWhile (\<lambda>i. pi_id i \<noteq> k) (pb_code b)) + 1;
             cmp = mk_inst m ''new_ret_check'' (IICmp ICmpNE 32 (VReg k) (VConst 32 0)) (TInt 1)
         in split_if_then (VReg m) l (pos + 1) t [(l, b\<lparr>pb_code := take pos (pb_code b) @ cmp # drop pos (pb_code b)\<rparr>)]
       else [(l, b)]) bs)"

fun protect_calls :: "nat \<Rightarrow> nat \<Rightarrow> nat list \<Rightarrow> (nat \<times> pblock) list \<Rightarrow> (nat \<times> pblock) list" where
  "protect_calls m t [] bs = bs"
| "protect_calls m t (k # ks) bs = protect_calls (m + 1) (t + 2) ks (protect_call k m t bs)"

definition EstimateVulSendPass :: "int \<Rightarrow> pfunc \<Rightarrow> pfunc \<times> bool" where
  "EstimateVulSendPass vulPC f =
     (if pf_name f \<noteq> ''main'' then (f, False)
      else
        let ks = vulSendRetList vulPC f in
        (f\<lparr>pf_blocks := protect_calls (pf_regs f) (pf_labels f) ks (pf_blocks f),
           pf_regs := pf_regs f + length ks, pf_labels := pf_labels f + 2 * length ks\<rparr>, ks \<noteq> []))"

section \<open>The origin (EstimateOriginPass)\<close>

text \<open>
  The value of a query is looked up a fixed number of instructions further on. The terminator
  counts as an instruction; behind it the position is undefined, as is the use of a call that has been
  replaced before, which happens when two comparisons have its value: \<open>None\<close>.
\<close>

definition origin_icmps :: "pfunc \<Rightarrow> (val \<times> val) list" where
  "origin_icmps f = concat (map (\<lambda>(l, b). concat (map (\<lambda>i. case pi_op i of IICmp _ _ x y \<Rightarrow> [(x, y)] | _ \<Rightarrow> []) (pb_code b))) (pf_blocks f))"

fun sloads_ok :: "pinst list \<Rightarrow> bool" where
  "sloads_ok [] = True"
| "sloads_ok (i # rest) = ((calls_fn ''ethereum.storageLoad'' 3 (pi_op i) \<longrightarrow> 4 \<le> length rest) \<and> sloads_ok rest)"

fun origin_code :: "(val \<times> val) list \<Rightarrow> pinst list \<Rightarrow> pinst list option" where
  "origin_code icmps [] = Some []"
| "origin_code icmps (i # rest) =
     Option.bind
       (if calls_fn ''ethereum.getTxOrigin'' 2 (pi_op i) \<and> icmps \<noteq> [] then
          if length rest < 6 then None
          else
            let matches = filter (\<lambda>(x, y). 6 < length rest \<and> (x = VReg (pi_id (rest ! 6)) \<or> y = VReg (pi_id (rest ! 6)))) icmps in
            case (matches, pi_op i) of
              ([], _) \<Rightarrow> Some i
            | ([_], ICall f as) \<Rightarrow> Some (i\<lparr>pi_op := ICall ''ethereum.getCaller'' as, pi_pc := None\<rparr>)
            | _ \<Rightarrow> None
        else Some i)
       (\<lambda>i'. map_option ((#) i') (origin_code icmps rest))"

fun origin_blocks :: "(val \<times> val) list \<Rightarrow> (nat \<times> pblock) list \<Rightarrow> (nat \<times> pblock) list option" where
  "origin_blocks icmps [] = Some []"
| "origin_blocks icmps ((l, b) # bs) =
     Option.bind (origin_code icmps (pb_code b)) (\<lambda>c. map_option ((#) (l, b\<lparr>pb_code := c\<rparr>)) (origin_blocks icmps bs))"

definition EstimateOriginPass :: "pfunc \<Rightarrow> (pfunc \<times> bool) option" where
  "EstimateOriginPass f =
     (if pf_name f \<noteq> ''main'' then Some (f, False)
      else if \<not> list_all (\<lambda>(l, b). sloads_ok (pb_code b)) (pf_blocks f) then None
      else if \<not> list_ex (\<lambda>(l, b). list_ex (\<lambda>i. calls_fn ''ethereum.storageLoad'' 3 (pi_op i)) (pb_code b)) (pf_blocks f) then Some (f, False)
      else map_option (\<lambda>bs. (f\<lparr>pf_blocks := bs\<rparr>, bs \<noteq> pf_blocks f)) (origin_blocks (origin_icmps f) (pf_blocks f)))"

section \<open>The selector of the call data (calldataCopyPass)\<close>

text \<open>
  The pass works on the first match and ends; it always reports that nothing changed. An operand that
  is not the constant it is taken for is a null pointer: \<open>None\<close>. The flag says whether to go on.
\<close>

definition const_of :: "val \<Rightarrow> int option" where
  "const_of v = (case v of VConst _ n \<Rightarrow> Some n | _ \<Rightarrow> None)"

definition shorten_copy :: "pinst \<Rightarrow> pinst" where
  "shorten_copy i = (case pi_op i of ICall f as \<Rightarrow> i\<lparr>pi_op := ICall f (as[2 := VConst 32 4])\<rparr> | _ \<Rightarrow> i)"

definition copy_match :: "pinst \<Rightarrow> pinst list \<Rightarrow> pinst list option option" where
  "copy_match i rest =
     (if length rest < 2 then (if rest = [] then None else Some None)
      else if pi_name (rest ! 1) \<noteq> ''.reverse'' \<or> length rest < 3 then Some None
      else
        (case pi_op (rest ! 2) of
           IBin op w x y \<Rightarrow>
             if op = LShr then
               (case const_of y of
                  None \<Rightarrow> None
                | Some n \<Rightarrow> Some (if n = 224 then Some (shorten_copy i # rest) else None))
             else if op = UDiv \<and> 3 < length rest then
               (case pi_op (rest ! 3) of
                  IBin op' w' x' y' \<Rightarrow>
                    if op' = And then
                      (case const_of x' of
                         None \<Rightarrow> None
                       | Some n \<Rightarrow>
                           Some (if n = 0xffffffff
                             then Some (shorten_copy i # rest[3 := (rest ! 3)\<lparr>pi_op := IBin LShr 256 (VReg (pi_id (rest ! 1))) (VConst 256 224)\<rparr>])
                             else None))
                    else Some None
                | _ \<Rightarrow> Some None)
             else Some None
         | _ \<Rightarrow> Some None))"

fun copy_code_pass :: "pinst list \<Rightarrow> (pinst list \<times> bool) option" where
  "copy_code_pass [] = Some ([], True)"
| "copy_code_pass (i # rest) =
     (if calls_fn ''ethereum.callDataCopy'' 4 (pi_op i) then
        (case copy_match i rest of
           None \<Rightarrow> None
         | Some (Some c) \<Rightarrow> Some (c, False)
         | Some None \<Rightarrow> map_option (\<lambda>(c, go). (i # c, go)) (copy_code_pass rest))
      else map_option (\<lambda>(c, go). (i # c, go)) (copy_code_pass rest))"

fun copy_blocks :: "(nat \<times> pblock) list \<Rightarrow> (nat \<times> pblock) list option" where
  "copy_blocks [] = Some []"
| "copy_blocks ((l, b) # bs) =
     Option.bind (copy_code_pass (pb_code b)) (\<lambda>(c, go).
     map_option ((#) (l, b\<lparr>pb_code := c\<rparr>)) (if go then copy_blocks bs else Some bs))"

definition calldataCopyPass :: "pfunc \<Rightarrow> (pfunc \<times> bool) option" where
  "calldataCopyPass f =
     (if pf_name f \<noteq> ''main'' then Some (f, False)
      else map_option (\<lambda>bs. (f\<lparr>pf_blocks := bs\<rparr>, False)) (copy_blocks (pf_blocks f)))"

section \<open>The upgradable deployment (ProxyWrapperPass)\<close>

text \<open>
  The first finish whose data is inside the global runtimeCode; the size of a finish that is not
  a constant is a null pointer, and data that no instruction computes cannot be cast: \<open>None\<close>.
\<close>

definition def_of :: "pfunc \<Rightarrow> val \<Rightarrow> inst option" where
  "def_of f v =
     (case v of
        VReg k \<Rightarrow> map_option pi_op (find (\<lambda>i. pi_id i = k) (concat (map (\<lambda>(l, b). pb_code b) (pf_blocks f))))
      | _ \<Rightarrow> None)"

fun findRtReturn :: "pfunc \<Rightarrow> pinst list \<Rightarrow> (nat \<times> int) option option" where
  "findRtReturn f [] = Some None"
| "findRtReturn f (i # rest) =
     (case pi_op i of
        ICall g [offset, n] \<Rightarrow>
          if g = ''ethereum.finish'' then
            (case (const_of n, def_of f offset) of
               (Some sz, Some (IGep (VGlobal name w) k)) \<Rightarrow>
                 if name = ''runtimeCode'' then Some (Some (pi_id i, sz)) else findRtReturn f rest
             | (Some sz, Some _) \<Rightarrow> findRtReturn f rest
             | _ \<Rightarrow> None)
          else findRtReturn f rest
      | _ \<Rightarrow> findRtReturn f rest)"

definition proxy_code :: "nat \<Rightarrow> int \<Rightarrow> pinst list" where
  "proxy_code n runtimeCodeSize =
     [mk_inst n [] (IAlloca 160) (TPtr 160),
      mk_inst (n + 1) [] (IBitCast 32 (VReg n)) (TPtr 32),
      mk_inst (n + 2) [] (ICall ''ethereum.getCaller'' [VReg (n + 1)]) (TInt 0),
      mk_inst (n + 3) [] (IAlloca 128) (TPtr 128),
      mk_inst (n + 4) [] (IStore 128 (VConst 128 0) (VReg (n + 3))) (TInt 0),
      mk_inst (n + 5) [] (IAlloca 32) (TPtr 32),
      mk_inst (n + 6) [] (IStore 32 (VConst 32 0x31d19166) (VReg (n + 5))) (TInt 0),
      mk_inst (n + 7) [] (IBitCast 32 (VReg (n + 3))) (TPtr 32),
      mk_inst (n + 8) [] (IBitCast 8 (VReg (n + 5))) (TPtr 8),
      mk_inst (n + 9) [] (ICall ''ethereum.call'' [VConst 64 2300, VReg n, VReg (n + 7), VReg (n + 8), VConst 32 32]) (TInt 32),
      mk_inst (n + 10) [] (IAlloca 8) (TPtr 8),
      mk_inst (n + 11) [] (ICall ''ethereum.returnDataCopy'' [VReg (n + 10), VConst 32 0, VConst 32 (take_bit 32 runtimeCodeSize)]) (TInt 0),
      mk_inst (n + 12) [] (IGep (VReg (n + 10)) (VConst 8 32)) (TPtr 8),
      mk_inst (n + 13) [] (ICall ''ethereum.finish'' [VReg (n + 12), VConst 32 (take_bit 32 runtimeCodeSize)]) (TInt 0)]"

definition replace_inst :: "nat \<Rightarrow> pinst list \<Rightarrow> pblock \<Rightarrow> pblock" where
  "replace_inst k new b = b\<lparr>pb_code := concat (map (\<lambda>i. if pi_id i = k then new else [i]) (pb_code b))\<rparr>"

definition ProxyWrapperPass :: "pfunc \<Rightarrow> (pfunc \<times> bool) option" where
  "ProxyWrapperPass f =
     (if pf_name f \<noteq> ''main'' then Some (f, False)
      else
        map_option
          (\<lambda>found. case found of
             None \<Rightarrow> (f, False)
           | Some (k, sz) \<Rightarrow>
               (f\<lparr>pf_blocks := in_blocks (replace_inst k (proxy_code (pf_regs f) sz)) (pf_blocks f), pf_regs := pf_regs f + 14\<rparr>, True))
          (findRtReturn f (concat (map (\<lambda>(l, b). pb_code b) (pf_blocks f)))))"

section \<open>The order of the passes (prepare)\<close>

record Options =
  enableCheckReentrancy :: bool
  enableDetectSuicide :: bool
  enableCheckSend :: bool
  enableEOAonly :: bool
  enableRmOrigin :: bool
  enableSafeMath :: bool
  isRtcode :: bool
  enableUpgrade :: bool
  vulpc :: int
  enableKlee :: bool

datatype pass =
    Klee | EstimateReenrance | DetectSuicide | EstimateRollback | EstimateVulSend int | EstimateOrigin int | UseSafeMath int
  | ProxyWrapper | calldataCopy | LowerEVM | Library string

definition prepare :: "Options \<Rightarrow> pass list" where
  "prepare options = concat
     [if isRtcode options \<and> enableKlee options then [Klee] else [],
      if isRtcode options \<and> enableCheckReentrancy options then [EstimateReenrance] else [],
      if isRtcode options \<and> enableDetectSuicide options then [DetectSuicide] else [],
      if isRtcode options \<and> enableEOAonly options then [EstimateRollback] else [],
      if isRtcode options \<and> enableCheckSend options then [EstimateVulSend (vulpc options)] else [],
      if isRtcode options \<and> enableRmOrigin options then [EstimateOrigin (vulpc options)] else [],
      if isRtcode options \<and> enableSafeMath options then [UseSafeMath (vulpc options)] else [],
      if \<not> isRtcode options \<and> enableUpgrade options then [ProxyWrapper] else [],
      if isRtcode options then [calldataCopy] else [],
      [LowerEVM],
      map Library [''reassociate'', ''simplifycfg'', ''dce'', ''reassociate'', ''inline'', ''adce'', ''mem2reg'']]"

section \<open>Running a function\<close>

fun run_pcode :: "'h hcalls \<Rightarrow> globals \<Rightarrow> pinst list \<Rightarrow> int list \<Rightarrow> ('h, int list) rte" where
  "run_pcode calls G [] env = returnE env"
| "run_pcode calls G (i # c) env =
     bindE (run_inst calls G [] env (pi_op i)) (\<lambda>x. run_pcode calls G c (env[pi_id i := x]))"

text \<open>A branch on a condition and a switch; the blocks control arrives at from the entry.\<close>

fun target_of :: "globals \<Rightarrow> int list \<Rightarrow> pterm \<Rightarrow> nat option" where
  "target_of G env (PBr l) = Some l"
| "target_of G env (PCondBr c l1 l2) = Some (if vval G env c = 1 then l1 else l2)"
| "target_of G env (PSwitch v d cs) = Some (case map_of cs (vval G env v) of Some l \<Rightarrow> l | None \<Rightarrow> d)"
| "target_of G env PUnreachable = None"

inductive arrives :: "'h HostInterface \<Rightarrow> globals \<Rightarrow> pfunc \<Rightarrow> 'h rt \<Rightarrow> nat \<Rightarrow> int list \<Rightarrow> 'h rt \<Rightarrow> bool"
  for H G f r0 where
  entry: "pf_blocks f = (l, b) # bs \<Longrightarrow> length env = pf_regs f \<Longrightarrow> arrives H G f r0 l env r0"
| step: "arrives H G f r0 l env r \<Longrightarrow> map_of (pf_blocks f) l = Some b \<Longrightarrow>
    run_pcode (module_calls H G) G (pb_code b) env r = (Inr env', r') \<Longrightarrow> target_of G env' (pb_term b) = Some l' \<Longrightarrow>
    arrives H G f r0 l' env' r'"

lemma run_pcode_append: "run_pcode calls G (a @ b) env = bindE (run_pcode calls G a env) (run_pcode calls G b)"
  by (induction a arbitrary: env) (auto simp: fun_eq_iff bindE_def returnE_def split: prod.splits sum.splits)

lemma length_run_pcode: "run_pcode calls G c env r = (Inr env', r') \<Longrightarrow> length env' = length env"
  by (induction c arbitrary: env r) (auto simp: bindE_def returnE_def split: prod.splits sum.splits)

section \<open>The mutex in the storage\<close>

text \<open>The key and the value are stored in the byte order of the machine, so this is the storage slot.\<close>

definition mutex_slot :: bytes32 where
  "mutex_slot = word_be (le_bytes 32 0xfffffff)"

definition mutex_word :: "int \<Rightarrow> bytes32" where
  "mutex_word c = word_be (le_bytes 32 c)"

definition mutex_of :: "'h HostInterface \<Rightarrow> 'h rt \<Rightarrow> bytes32" where
  "mutex_of H r = get_storage H (host_state (m_host (rt_iface r))) (msg_destination (m_msg (rt_iface r))) mutex_slot"

text \<open>The two slots of the guard in the memory: the first still has the key.\<close>

definition guard_slots :: "nat \<Rightarrow> int list \<Rightarrow> 'h rt \<Rightarrow> bool" where
  "guard_slots n env r \<longleftrightarrow>
     (\<exists>(p :: u32) (q :: u32). env ! n = uint p \<and> env ! (n + 2) = uint q
        \<and> unat p + 32 \<le> length (mem_of r) \<and> unat q + 32 \<le> length (mem_of r) \<and> length (mem_of r) \<le> 2 ^ 32
        \<and> (unat p + 32 \<le> unat q \<or> unat q + 32 \<le> unat p)
        \<and> segment (unat p) 32 (mem_of r) = le_bytes 32 0xfffffff)"

lemma run_simps:
  "run_inst calls G args env (IAlloca w) r = (Inr (uint (stack_slot w (rt_sp r))), r\<lparr>rt_sp := stack_slot w (rt_sp r)\<rparr>)"
  "run_inst calls G args env (IBitCast w a) r = (Inr (vval G env a), r)"
  "run_inst calls G args env (IICmp p w a b) r = (Inr (if icmp_value p w (vval G env a) (vval G env b) then 1 else 0), r)"
  "addr_of (vval G env a) + type_bytes w \<le> length (mem_of r) \<Longrightarrow> run_inst calls G args env (ILoad w a) r =
     (Inr (take_bit w (le_int (segment (addr_of (vval G env a)) (type_bytes w) (mem_of r)))), r)"
  "addr_of (vval G env a) + type_bytes w \<le> length (mem_of r) \<Longrightarrow> run_inst calls G args env (IStore w v a) r =
     (Inr 0, write_mem (vval G env a) (le_bytes (type_bytes w) (vval G env v)) r)"
  "run_inst calls G args env (ICall f as) r = calls f (map (vval G env) as) r"
  by (simp_all add: run_inst_def bindE_def modifyE_def getE_def returnE_def mem_load_def mem_store_def write_mem_def)

lemma vval_simps [simp]: "vval G env (VReg k) = env ! k" "vval G env (VConst w x) = x"
  by (simp_all add: vval_def)

lemma mk_inst_simps [simp]: "pi_id (mk_inst k s i t) = k" "pi_op (mk_inst k s i t) = i"
  by (simp_all add: mk_inst_def)

lemma run_pcode_Cons:
  "run_inst calls G [] env (pi_op i) r = (Inr x, r1) \<Longrightarrow>
   run_pcode calls G (i # c) env r = run_pcode calls G c (env[pi_id i := x]) r1"
  by (simp add: bindE_def)

lemma le_int_zero: "le_int (bytes_be 32 (w :: bytes32)) = 0 \<longleftrightarrow> w = 0"
proof
  assume "le_int (bytes_be 32 w) = 0"
  then have "byte_swap 32 0 = uint w" using swapped_load_full [of 32 w] by simp
  moreover have "byte_swap 32 0 = 0" by (simp add: byte_swap_def le_bytes_def le_int_Cons numeral_eq_Suc)
  ultimately show "w = 0" by (simp add: uint_0_iff)
qed (simp add: bytes_be_def le_int_Cons numeral_eq_Suc)

lemma guard_check_runs:
  assumes room: "stack_room 64 r" and gas: "has_gas gs_storageLoad r" and n: "n + 12 \<le> length env"
  shows "\<exists>env' r'. run_pcode (module_calls H G) G (guard_check n) env r = (Inr env', r')
    \<and> length env' = length env \<and> env' ! (n + 7) = (if mutex_of H r = 0 then 0 else 1)
    \<and> guard_slots n env' r' \<and> m_host (rt_iface r') = m_host (rt_iface r) \<and> m_msg (rt_iface r') = m_msg (rt_iface r)
    \<and> m_meterGas (rt_iface r') = m_meterGas (rt_iface r)
    \<and> gasLeft (m_result (rt_iface r')) = gasLeft (m_result (rt_iface r)) - (if m_meterGas (rt_iface r) then gs_storageLoad else 0)"
proof -
  let ?p = "stack_slot 256 (rt_sp r)" and ?q = "stack_slot 256 (stack_slot 256 (rt_sp r))"
  let ?K = "le_bytes 32 0xfffffff"
  let ?r3 = "(write_mem (uint ?p) ?K (r\<lparr>rt_sp := ?p\<rparr>))\<lparr>rt_sp := ?q\<rparr>"
  let ?s = "rt_iface ?r3"
  let ?t = "put ?q (bytes_be 32 (mutex_of H r)) (pay gs_storageLoad ?s)"
  let ?r4 = "?r3\<lparr>rt_iface := ?t\<rparr>"
  let ?v = "le_int (bytes_be 32 (mutex_of H r))"
  have u: "unat ?p = unat (rt_sp r) - 32" "unat ?q = unat (rt_sp r) - 64"
    using word_slots [OF room] by (simp_all add: addr_of_def)
  have len: "length (wasm_memory ?s) = length (mem_of r)"
    using room u by (simp add: stack_room_def addr_of_def)
  have b: "mem_bound ?s" "in_memory ?p 32 ?s" "store_ok ?q 32 ?s"
    using room u len unsigned_less [of "rt_sp r", where ?'a = nat]
    by (auto simp: stack_room_def mem_bound_def in_memory_def store_ok_def)
  have key: "segment (unat ?p) 32 (wasm_memory ?s) = ?K"
    using room u by (simp add: addr_of_def stack_room_def)
  have "eeiStorageLoad H ?p ?q ?s = (Inr (), ?t)"
    using storageLoad_returns [OF _ b, of H, unfolded key] gas
    by (simp add: has_gas_def Let_def mutex_of_def mutex_slot_def)
  then have call: "module_calls H G ''ethereum.storageLoad'' [uint ?p, uint ?q] ?r3 = (Inr 0, ?r4)"
    using call_storageLoad [of H "uint ?p" "uint ?q" ?r3 ?t G] by (simp add: Func_storageLoad_def)
  have mem4: "mem_of ?r4 = put_segment (unat ?q) (bytes_be 32 (mutex_of H r)) (wasm_memory ?s)"
    by (simp add: put_def)
  have v: "take_bit 256 (le_int (segment (unat ?q) 32 (mem_of ?r4))) = ?v" "unat ?q + 32 \<le> length (mem_of ?r4)"
    "segment (unat ?p) 32 (mem_of ?r4) = ?K" "length (mem_of ?r4) = length (mem_of r)"
    unfolding mem4 using room u len le_int_take_bit [of "bytes_be 32 (mutex_of H r)" 32] key
    by (auto simp: stack_room_def segment_put_other)
  let ?env = "env[n := uint ?p, n + 1 := 0, n + 2 := uint ?q, n + 3 := uint ?p, n + 4 := uint ?q, n + 5 := 0, n + 6 := ?v,
    n + 7 := if mutex_of H r = 0 then 0 else 1]"
  have "run_pcode (module_calls H G) G (guard_check n) env r = (Inr ?env, ?r4)"
    unfolding guard_check_def
    apply (subst run_pcode_Cons, simp add: run_simps)
    apply (subst run_pcode_Cons, use room u n in \<open>simp add: run_simps addr_of_def stack_room_def\<close>)
    apply (subst run_pcode_Cons, simp add: run_simps)
    apply (subst run_pcode_Cons, simp add: run_simps)
    apply (subst run_pcode_Cons, simp add: run_simps)
    apply (subst run_pcode_Cons, use n call in \<open>simp add: run_simps\<close>)
    apply (subst run_pcode_Cons, use n v in \<open>simp add: run_simps addr_of_def\<close>)
    apply (subst run_pcode_Cons, simp add: run_simps)
    using n by (simp add: returnE_def icmp_value_def le_int_zero addr_of_def)
  moreover have "guard_slots n ?env ?r4"
    unfolding guard_slots_def using n v u room
    by (intro exI [of _ ?p] exI [of _ ?q]) (auto simp: stack_room_def)
  moreover have "m_host (rt_iface ?r4) = m_host (rt_iface r)" "m_msg (rt_iface ?r4) = m_msg (rt_iface r)"
    "m_meterGas (rt_iface ?r4) = m_meterGas (rt_iface r)"
    "gasLeft (m_result (rt_iface ?r4)) = gasLeft (m_result (rt_iface r)) - (if m_meterGas (rt_iface r) then gs_storageLoad else 0)"
    by (simp_all add: put_def pay_def)
  ultimately show ?thesis using n by (intro exI [of _ ?env] exI [of _ ?r4] conjI) simp_all
qed

lemma guard_write_runs:
  assumes slots: "guard_slots n env r" and gas: "has_gas gs_storageStoreCreate r" and m: "n + 2 < m" "m + 4 \<le> length env"
    and static: "\<not> is_static (msg_flags (m_msg (rt_iface r)))"
  shows "\<exists>env' r'. run_pcode (module_calls H G) G (guard_write c n m) env r = (Inr env', r')
    \<and> length env' = length env \<and> (\<forall>k < m. env' ! k = env ! k) \<and> guard_slots n env' r'
    \<and> m_msg (rt_iface r') = m_msg (rt_iface r) \<and> host_state (m_host (rt_iface r')) = set_storage H (host_state (m_host (rt_iface r)))
        (msg_destination (m_msg (rt_iface r))) mutex_slot (mutex_word c)"
proof -
  obtain p q :: u32 where pq: "env ! n = uint p" "env ! (n + 2) = uint q" "unat p + 32 \<le> length (mem_of r)"
    "unat q + 32 \<le> length (mem_of r)" "length (mem_of r) \<le> 2 ^ 32" "unat p + 32 \<le> unat q \<or> unat q + 32 \<le> unat p"
    "segment (unat p) 32 (mem_of r) = le_bytes 32 0xfffffff"
    using slots unfolding guard_slots_def by blast
  let ?r1 = "write_mem (uint q) (le_bytes 32 c) r"
  let ?s = "rt_iface ?r1"
  have mem: "wasm_memory ?s = put_segment (unat q) (le_bytes 32 c) (mem_of r)" by (simp add: addr_of_def)
  have b: "mem_bound ?s" "in_memory p 32 ?s" "in_memory q 32 ?s"
    using pq by (auto simp: mem_bound_def in_memory_def addr_of_def)
  have seg: "segment (unat p) 32 (wasm_memory ?s) = le_bytes 32 0xfffffff" "segment (unat q) 32 (wasm_memory ?s) = le_bytes 32 c"
    unfolding mem using pq by (auto simp: segment_put_other)
  have gas': "m_meterGas ?s \<longrightarrow> gs_storageStoreCreate \<le> gasLeft (m_result ?s) \<and> gasLeft (m_result ?s) \<le> int64_max"
    using gas by (simp add: has_gas_def Let_def)
  from storageStore_returns [OF gas' b, of H, unfolded seg] static
  obtain s2 where s2: "eeiStorageStore H p q ?s = (Inr (), s2)" "wasm_memory s2 = wasm_memory ?s" "m_msg s2 = m_msg (rt_iface r)"
    "host_state (m_host s2) = set_storage H (host_state (m_host (rt_iface r))) (msg_destination (m_msg (rt_iface r))) mutex_slot (mutex_word c)"
    by (auto simp: mutex_slot_def mutex_word_def)
  let ?r2 = "?r1\<lparr>rt_iface := s2\<rparr>" and ?env = "env[m := 0, m + 1 := uint p, m + 2 := uint q, m + 3 := 0]"
  have call: "module_calls H G ''ethereum.storageStore'' [uint p, uint q] ?r1 = (Inr 0, ?r2)"
    using call_storageStore [of H G "uint p" "uint q" ?r1] s2(1) by (simp add: Func_storageStore_def)
  have "run_pcode (module_calls H G) G (guard_write c n m) env r = (Inr ?env, ?r2)"
    unfolding guard_write_def
    apply (subst run_pcode_Cons, use pq m in \<open>simp add: run_simps addr_of_def\<close>)
    apply (subst run_pcode_Cons, simp add: run_simps)
    apply (subst run_pcode_Cons, simp add: run_simps)
    apply (subst run_pcode_Cons, use m call pq in \<open>simp add: run_simps\<close>)
    using m pq by (simp add: returnE_def)
  moreover have "guard_slots n ?env ?r2"
    unfolding guard_slots_def using m pq seg s2(2) by (intro exI [of _ p] exI [of _ q]) (auto simp: addr_of_def)
  ultimately show ?thesis using m s2 by (intro exI [of _ ?env] exI [of _ ?r2] conjI) simp_all
qed

text \<open>In a static call the write ends the contract.\<close>

lemma guard_write_static:
  assumes slots: "guard_slots n env r" and gas: "has_gas gs_storageStoreChange r" and m: "n + 2 < m" "m + 4 \<le> length env"
    and static: "is_static (msg_flags (m_msg (rt_iface r)))"
  shows "\<exists>r'. run_pcode (module_calls H G) G (guard_write c n m @ code) env r = (Inl StaticModeViolation, r')
    \<and> m_host (rt_iface r') = m_host (rt_iface r)"
proof -
  obtain p q :: u32 where pq: "env ! n = uint p" "env ! (n + 2) = uint q" "unat q + 32 \<le> length (mem_of r)"
    using slots unfolding guard_slots_def by blast
  let ?r1 = "write_mem (uint q) (le_bytes 32 c) r"
  let ?s = "rt_iface ?r1"
  have gas': "m_meterGas ?s \<longrightarrow> gs_storageStoreChange \<le> gasLeft (m_result ?s) \<and> gasLeft (m_result ?s) \<le> int64_max"
    using gas by (simp add: has_gas_def Let_def)
  have call: "module_calls H G ''ethereum.storageStore'' [uint p, uint q] ?r1 =
      (Inl StaticModeViolation, ?r1\<lparr>rt_iface := pay gs_storageStoreChange ?s\<rparr>)"
    using call_storageStore [of H G "uint p" "uint q" ?r1] storageStore_static [OF gas'] static by (simp add: Func_storageStore_def)
  have "run_pcode (module_calls H G) G (guard_write c n m @ code) env r =
      (Inl StaticModeViolation, ?r1\<lparr>rt_iface := pay gs_storageStoreChange ?s\<rparr>)"
    unfolding guard_write_def append_Cons
    apply (subst run_pcode_Cons, use pq m in \<open>simp add: run_simps addr_of_def\<close>)
    apply (subst run_pcode_Cons, simp add: run_simps)
    apply (subst run_pcode_Cons, simp add: run_simps)
    using m call pq by (simp add: run_simps bindE_def)
  then show ?thesis by simp
qed

end
