(* ===== verification/Patches_Correct.thy ===== *)
theory Patches_Correct
  imports Patches
begin

text \<open>
  What the patched functions do: where the inserted code ends up in the blocks, and what a run
  of the patched function does at the entry and before the end of the contract.
\<close>

section \<open>The blocks of the guarded function\<close>

fun unlocks :: "nat \<Rightarrow> nat \<Rightarrow> nat list \<Rightarrow> pinst list \<Rightarrow> pinst list" where
  "unlocks n m [] code = code"
| "unlocks n m (k # ks) code =
     unlocks n (m + 4) ks (concat (map (\<lambda>i. if pi_id i = k then guard_write 0 n m @ [i] else [i]) code))"

lemma unlock_before_eq:
  "unlock_before n m ks bs = map (\<lambda>(l, b). (l, b\<lparr>pb_code := unlocks n m ks (pb_code b)\<rparr>)) bs"
  by (induction ks arbitrary: m bs) (auto simp: in_blocks_def insert_before_def)

lemma unlocks_append: "unlocks n m ks (a @ b) = unlocks n m ks a @ unlocks n m ks b"
  by (induction ks arbitrary: m a b) auto

lemma unlocks_other: "pi_id ` set code \<inter> set ks = {} \<Longrightarrow> unlocks n m ks code = code"
proof (induction ks arbitrary: m)
  case (Cons k ks)
  then have "map (\<lambda>i. if pi_id i = k then guard_write 0 n m @ [i] else [i]) code = map (\<lambda>i. [i]) code"
    by (intro map_cong) auto
  then show ?case using Cons by (simp only: unlocks.simps concat_map_singleton) auto
qed simp

lemma guard_ids: "pi_id ` set (guard_write c n m) = {m..<m + 4}" "pi_id ` set (guard_check n) = {n..<n + 8}"
  by (auto simp: guard_write_def guard_check_def)

lemma unlocks_here:
  assumes "pi_id i \<in> set ks" "distinct ks" "\<forall>k \<in> set ks. k < m"
  shows "\<exists>m'. m \<le> m' \<and> m' + 4 \<le> m + 4 * length ks \<and> unlocks n m ks [i] = guard_write 0 n m' @ [i]"
  using assms
proof (induction ks arbitrary: m)
  case (Cons k ks)
  show ?case
  proof (cases "pi_id i = k")
    case True
    have "unlocks n (m + 4) ks (guard_write 0 n m @ [i]) = guard_write 0 n m @ [i]"
      by (rule unlocks_other) (use Cons.prems True in \<open>auto simp: guard_ids image_Un\<close>)
    then show ?thesis using True by (intro exI [of _ m]) simp
  next
    case False
    then obtain m' where "m + 4 \<le> m'" "m' + 4 \<le> m + 4 + 4 * length ks" "unlocks n (m + 4) ks [i] = guard_write 0 n m' @ [i]"
      using Cons.IH [of "m + 4"] Cons.prems by fastforce
    then show ?thesis using False by (intro exI [of _ m']) simp
  qed
qed simp

lemma check_entry_eq:
  assumes "distinct (map fst ((l, b) # rest))"
  shows "check_entry check c t ((l, b) # rest) =
    [(l, \<lparr>pb_code = check, pb_term = PCondBr c t (t + 1)\<rparr>), (t, \<lparr>pb_code = [], pb_term = PUnreachable\<rparr>),
     (t + 1, \<lparr>pb_code = pb_code b, pb_term = pb_term b\<rparr>)] @ rest"
proof -
  have "concat (map (\<lambda>(l', b). if l' = l then h l' b else [(l', b)]) rest) = rest" for h
    using assms by (induction rest) auto
  then show ?thesis using assms by (simp add: check_entry_def split_if_then_def)
qed

lemma guard_entry_eq:
  assumes "distinct (map fst ((l, b) # rest))" "list_all (\<lambda>(l, b). l < t) ((l, b) # rest)"
  shows "guard_entry n t ((l, b) # rest) =
    [(l, \<lparr>pb_code = guard_check n, pb_term = PCondBr (VReg (n + 7)) t (t + 1)\<rparr>),
     (t, \<lparr>pb_code = [], pb_term = PUnreachable\<rparr>),
     (t + 1, \<lparr>pb_code = guard_write 1 n (n + 8) @ pb_code b, pb_term = pb_term b\<rparr>)] @ rest"
proof -
  have "map (\<lambda>(l', b'). if l' = t + 1 then h l' b' else (l', b')) rest = rest" for h
    using assms(2) by (induction rest) auto
  then show ?thesis using assms(2) by (simp add: guard_entry_def check_entry_eq [OF assms(1)])
qed

definition guarded :: "pfunc \<Rightarrow> pfunc" where
  "guarded f =
     (let n = pf_regs f; ks = terminatorInstrList f in
      f\<lparr>pf_blocks := unlock_before n (n + 12) ks (guard_entry n (pf_labels f) (pf_blocks f)),
        pf_regs := n + 12 + 4 * length ks, pf_labels := pf_labels f + 2\<rparr>)"

lemma pass_guarded:
  "pf_name f = ''main'' \<Longrightarrow> detectBug f \<Longrightarrow> EstimateReenrancePass detectBug f = (guarded f, terminatorInstrList f \<noteq> [])"
  by (simp add: EstimateReenrancePass_def guarded_def Let_def)

lemma code_ids:
  fixes bs :: "(nat \<times> pblock) list"
  shows "concat (map (\<lambda>(l, b). map pi_id (pb_code b)) bs) = map pi_id (concat (map (\<lambda>(l, b). pb_code b) bs))"
    "concat (map (\<lambda>(l, b). map pi_id (filter P (pb_code b))) bs) = map pi_id (filter P (concat (map (\<lambda>(l, b). pb_code b) bs)))"
  by (induction bs) auto

lemma wf_ids:
  assumes "wf_func f"
  shows "distinct (concat (map (\<lambda>(l, b). map pi_id (filter P (pb_code b))) (pf_blocks f)))"
    "inj_on pi_id (set (concat (map (\<lambda>(l, b). pb_code b) (pf_blocks f))))"
    "(l, b) \<in> set (pf_blocks f) \<Longrightarrow> distinct (map pi_id (pb_code b))"
    "(l, b) \<in> set (pf_blocks f) \<Longrightarrow> i \<in> set (pb_code b) \<Longrightarrow> pi_id i < pf_regs f"
proof -
  have d: "distinct (map pi_id (concat (map (\<lambda>(l, b). pb_code b) (pf_blocks f))))" using assms by (simp add: wf_func_def code_ids(1))
  then show "distinct (concat (map (\<lambda>(l, b). map pi_id (filter P (pb_code b))) (pf_blocks f)))"
    by (simp only: code_ids(2) distinct_map_filter)
  show "inj_on pi_id (set (concat (map (\<lambda>(l, b). pb_code b) (pf_blocks f))))" using d by (simp only: distinct_map)
  show "distinct (map pi_id (pb_code b))" if "(l, b) \<in> set (pf_blocks f)"
    using assms split_list [OF that] by (auto simp: wf_func_def)
  show "pi_id i < pf_regs f" if "(l, b) \<in> set (pf_blocks f)" "i \<in> set (pb_code b)"
    using assms that by (fastforce simp: wf_func_def list_all_iff)
qed

lemma selected_ids:
  assumes "(l, b) \<in> set bs" "i \<in> set (pb_code b)" "P i"
  shows "pi_id i \<in> set (concat (map (\<lambda>(l, b). map pi_id (filter P (pb_code b))) bs))"
proof -
  have "map pi_id (filter P (pb_code b)) \<in> set (map (\<lambda>(l, b). map pi_id (filter P (pb_code b))) bs)"
    using assms(1) by (force simp: image_iff)
  moreover have "pi_id i \<in> set (map pi_id (filter P (pb_code b)))" using assms(2,3) by simp
  ultimately show ?thesis by (simp only: set_concat) blast
qed

lemma selected_below:
  assumes "wf_func f"
  shows "\<forall>k \<in> set (concat (map (\<lambda>(l, b). map pi_id (filter P (pb_code b))) (pf_blocks f))). k < pf_regs f"
  using wf_ids(4) [OF assms] by auto

lemma terminators:
  assumes "wf_func f"
  shows "distinct (terminatorInstrList f)" "\<forall>k \<in> set (terminatorInstrList f). k < pf_regs f"
  unfolding terminatorInstrList_def by (rule wf_ids(1) [OF assms], rule selected_below [OF assms])

lemma guarded_blocks:
  assumes wf: "wf_func f" and f: "pf_blocks f = (l, b) # rest"
  defines "n \<equiv> pf_regs f" and "t \<equiv> pf_labels f" and "ul \<equiv> unlocks (pf_regs f) (pf_regs f + 12) (terminatorInstrList f)"
  shows "pf_blocks (guarded f) =
    [(l, \<lparr>pb_code = guard_check n, pb_term = PCondBr (VReg (n + 7)) t (t + 1)\<rparr>),
     (t, \<lparr>pb_code = [], pb_term = PUnreachable\<rparr>),
     (t + 1, \<lparr>pb_code = guard_write 1 n (n + 8) @ ul (pb_code b), pb_term = pb_term b\<rparr>)]
    @ map (\<lambda>(l, b). (l, b\<lparr>pb_code := ul (pb_code b)\<rparr>)) rest"
proof -
  have same: "ul (guard_check n) = guard_check n" "ul (guard_write 1 n (n + 8)) = guard_write 1 n (n + 8)"
    unfolding ul_def n_def by (rule unlocks_other, use terminators(2) [OF wf] in \<open>simp only: guard_ids, force\<close>)+
  have nil: "ul [] = []" by (simp add: ul_def unlocks_other)
  have ap: "ul (a @ c) = ul a @ ul c" for a c by (simp add: ul_def unlocks_append)
  have "guard_entry n t ((l, b) # rest) =
    [(l, \<lparr>pb_code = guard_check n, pb_term = PCondBr (VReg (n + 7)) t (t + 1)\<rparr>),
     (t, \<lparr>pb_code = [], pb_term = PUnreachable\<rparr>),
     (t + 1, \<lparr>pb_code = guard_write 1 n (n + 8) @ pb_code b, pb_term = pb_term b\<rparr>)] @ rest"
    using wf f by (intro guard_entry_eq) (auto simp: wf_func_def t_def)
  moreover have "unlocks n (n + 12) (terminatorInstrList f) = ul" by (simp add: ul_def n_def)
  ultimately show ?thesis
    by (simp add: guarded_def Let_def f unlock_before_eq same nil ap n_def [symmetric] t_def [symmetric])
qed

section \<open>The guard at the entry\<close>

lemma guarded_regs: "pf_regs f + 12 \<le> pf_regs (guarded f)"
  by (simp add: guarded_def Let_def)

lemma guarded_held:
  assumes wf: "wf_func f" and f: "pf_blocks f = (l, b) # rest" and r: "stack_room 64 r" "has_gas gs_storageLoad r"
    and held: "mutex_of H r \<noteq> 0" and a: "arrives H G (guarded f) r l' env r'"
  shows "(l' = l \<and> r' = r \<and> length env = pf_regs (guarded f)) \<or> (l' = pf_labels f \<and> m_host (rt_iface r') = m_host (rt_iface r))"
  using a
proof induction
  case (entry l0 b0 bs0 env)
  then show ?case using guarded_blocks [OF wf f] by simp
next
  case (step l1 env r1 b1 env' r' l2)
  note blocks = guarded_blocks [OF wf f]
  from step.IH show ?case
  proof
    assume at: "l1 = l \<and> r1 = r \<and> length env = pf_regs (guarded f)"
    then have b1: "b1 = \<lparr>pb_code = guard_check (pf_regs f), pb_term = PCondBr (VReg (pf_regs f + 7)) (pf_labels f) (pf_labels f + 1)\<rparr>"
      using step.hyps(2) blocks by simp
    from guard_check_runs [OF r, of "pf_regs f" env H G] at guarded_regs [of f] step.hyps(3) b1
    have "env' ! (pf_regs f + 7) = 1" "m_host (rt_iface r') = m_host (rt_iface r)" using held by auto
    then show ?thesis using step.hyps(4) b1 by simp
  next
    assume at: "l1 = pf_labels f \<and> m_host (rt_iface r1) = m_host (rt_iface r)"
    have "l \<noteq> pf_labels f" using wf f by (simp add: wf_func_def)
    then have "pb_term b1 = PUnreachable" using at step.hyps(2) blocks by auto
    then show ?thesis using step.hyps(4) by simp
  qed
qed

lemma guarded_checked:
  assumes wf: "wf_func f" and f: "pf_blocks f = (l, b) # rest" and r: "stack_room 64 r" "has_gas gs_storageLoad r"
  shows "\<exists>env' r'. arrives H G (guarded f) r (if mutex_of H r = 0 then pf_labels f + 1 else pf_labels f) env' r'
    \<and> length env' = pf_regs (guarded f) \<and> guard_slots (pf_regs f) env' r'
    \<and> m_host (rt_iface r') = m_host (rt_iface r) \<and> m_msg (rt_iface r') = m_msg (rt_iface r)
    \<and> m_meterGas (rt_iface r') = m_meterGas (rt_iface r)
    \<and> gasLeft (m_result (rt_iface r')) = gasLeft (m_result (rt_iface r)) - (if m_meterGas (rt_iface r) then gs_storageLoad else 0)"
proof -
  note blocks = guarded_blocks [OF wf f]
  let ?env = "replicate (pf_regs (guarded f)) 0"
  have e: "arrives H G (guarded f) r l ?env r" by (rule arrives.entry) (use blocks in simp_all)
  obtain env' r' where c: "run_pcode (module_calls H G) G (guard_check (pf_regs f)) ?env r = (Inr env', r')"
    "length env' = length ?env" "env' ! (pf_regs f + 7) = (if mutex_of H r = 0 then 0 else 1)" "guard_slots (pf_regs f) env' r'"
    "m_host (rt_iface r') = m_host (rt_iface r)" "m_msg (rt_iface r') = m_msg (rt_iface r)"
    "m_meterGas (rt_iface r') = m_meterGas (rt_iface r)"
    "gasLeft (m_result (rt_iface r')) = gasLeft (m_result (rt_iface r)) - (if m_meterGas (rt_iface r) then gs_storageLoad else 0)"
    using guard_check_runs [OF r, of "pf_regs f" ?env H G] guarded_regs [of f] by auto
  have "arrives H G (guarded f) r (if mutex_of H r = 0 then pf_labels f + 1 else pf_labels f) env' r'"
    by (rule arrives.step [OF e, of "\<lparr>pb_code = guard_check (pf_regs f),
        pb_term = PCondBr (VReg (pf_regs f + 7)) (pf_labels f) (pf_labels f + 1)\<rparr>"]) (use blocks c in simp_all)
  then show ?thesis using c by (intro exI [of _ env'] exI [of _ r'] conjI) simp_all
qed

lemma upt_32: "[0..<32] = [0, 1, 2, 3, 4, 5, 6, 7, 8, 9, 10, 11, 12, 13, 14, 15, 16, 17, 18, 19, 20, 21, 22, 23, 24, 25, 26, 27, 28, 29, 30, 31 :: nat]"
  by (simp add: upt_rec)

lemma mutex_bytes:
  "le_bytes 32 0 = replicate 32 0"
  "le_bytes 32 1 = [1, 0, 0, 0, 0, 0, 0, 0, 0, 0, 0, 0, 0, 0, 0, 0, 0, 0, 0, 0, 0, 0, 0, 0, 0, 0, 0, 0, 0, 0, 0, 0]"
  "le_bytes 32 0xfffffff = [255, 255, 255, 15, 0, 0, 0, 0, 0, 0, 0, 0, 0, 0, 0, 0, 0, 0, 0, 0, 0, 0, 0, 0, 0, 0, 0, 0, 0, 0, 0, 0]"
  by (simp add: le_bytes_def map_replicate_const) (simp_all add: le_bytes_def upt_32 drop_bit_eq_div)

lemma mutex_words: "mutex_word 0 = 0" "mutex_word 1 = 2 ^ 248" "mutex_slot = 0xffffff0f * 2 ^ 224"
  by (simp add: mutex_word_def mutex_bytes(1) word_be_def be_nat_zeros)
     (simp_all add: mutex_word_def mutex_slot_def mutex_bytes(2,3) word_be_def be_nat_def)

lemma guarded_lookup:
  assumes wf: "wf_func f" and f: "pf_blocks f = (l, b) # rest"
  shows "map_of (pf_blocks (guarded f)) (pf_labels f) = Some \<lparr>pb_code = [], pb_term = PUnreachable\<rparr>"
    "map_of (pf_blocks (guarded f)) (pf_labels f + 1) = Some \<lparr>pb_code = guard_write 1 (pf_regs f) (pf_regs f + 8)
       @ unlocks (pf_regs f) (pf_regs f + 12) (terminatorInstrList f) (pb_code b), pb_term = pb_term b\<rparr>"
  using wf guarded_blocks [OF wf f] f by (auto simp: wf_func_def)


text \<open>
  C9: The mutex is released. Wherever the contract ends with finish or revert, the guarded function
  has code in front of the call that writes zero to the mutex and changes no register of the
  contract: a run that reaches this code with the slots of the guard intact, outside of a static
  call and with the gas for it, goes on to the call with the mutex free.
\<close>

theorem guard_releases:
  assumes H: "evmc_host H world" and wf: "wf_func f" and main: "pf_name f = ''main''" "detectBug f"
    and b: "(l, b) \<in> set (pf_blocks f)" "pb_code b = c1 @ i # c2" "ends_contract (pi_op i)" "\<forall>j \<in> set c1. \<not> ends_contract (pi_op j)"
  defines "f' \<equiv> fst (EstimateReenrancePass detectBug f)"
  shows "\<exists>l' b' pre unlock post. map_of (pf_blocks f') l' = Some b' \<and> pb_term b' = pb_term b
    \<and> pb_code b' = pre @ c1 @ unlock @ i # post \<and> pre \<in> {[], guard_write 1 (pf_regs f) (pf_regs f + 8)}
    \<and> (\<forall>env1 r1. length env1 = pf_regs f' \<longrightarrow> guard_slots (pf_regs f) env1 r1 \<longrightarrow> has_gas gs_storageStoreCreate r1 \<longrightarrow>
        \<not> is_static (msg_flags (m_msg (rt_iface r1))) \<longrightarrow>
        (\<exists>env2 r2. run_pcode (module_calls H G) G unlock env1 r1 = (Inr env2, r2)
          \<and> (\<forall>k < pf_regs f. env2 ! k = env1 ! k) \<and> mutex_of H r2 = 0))"
proof -
  let ?n = "pf_regs f" and ?ks = "terminatorInstrList f"
  have f': "f' = guarded f" using pass_guarded [of f detectBug, OF main] by (simp add: f'_def)
  obtain l0 b0 rest where f: "pf_blocks f = (l0, b0) # rest" using b(1) by (cases "pf_blocks f") auto
  note blocks = guarded_blocks [OF wf f]
  have k: "pi_id i \<in> set ?ks" using b by (force simp: terminatorInstrList_def)
  have "pi_id j \<notin> set ?ks" if j: "j \<in> set c1" for j
  proof
    assume "pi_id j \<in> set ?ks"
    then obtain l2 b2 i2 where i2: "(l2, b2) \<in> set (pf_blocks f)" "i2 \<in> set (pb_code b2)" "ends_contract (pi_op i2)" "pi_id i2 = pi_id j"
      by (auto simp: terminatorInstrList_def)
    let ?code = "concat (map (\<lambda>(l, b). pb_code b) (pf_blocks f))"
    have "inj_on pi_id (set ?code)" by (rule wf_ids(2) [OF wf])
    moreover have "i2 \<in> set ?code" "j \<in> set ?code" using i2 b(1,2) j by (force, force)
    ultimately have "i2 = j" using i2(4) by (simp add: inj_on_eq_iff)
    then show False using i2(3) b(4) j by simp
  qed
  then have c1: "unlocks ?n (?n + 12) ?ks c1 = c1" by (intro unlocks_other) auto
  obtain m where m: "?n + 12 \<le> m" "m + 4 \<le> ?n + 12 + 4 * length ?ks" "unlocks ?n (?n + 12) ?ks [i] = guard_write 0 ?n m @ [i]"
    using unlocks_here [OF k terminators(1) [OF wf], of "?n + 12" ?n] terminators(2) [OF wf] by fastforce
  define post where "post = unlocks ?n (?n + 12) ?ks c2"
  have code: "unlocks ?n (?n + 12) ?ks (pb_code b) = c1 @ guard_write 0 ?n m @ i # post"
    using unlocks_append [of ?n "?n + 12" ?ks c1 "[i] @ c2"] unlocks_append [of ?n "?n + 12" ?ks "[i]" c2]
    by (simp add: b(2) c1 m(3) post_def)
  have run: "\<exists>env2 r2. run_pcode (module_calls H G) G (guard_write 0 ?n m) env1 r1 = (Inr env2, r2)
      \<and> (\<forall>k < ?n. env2 ! k = env1 ! k) \<and> mutex_of H r2 = 0"
    if a: "length env1 = pf_regs f'" "guard_slots ?n env1 r1" "has_gas gs_storageStoreCreate r1"
      "\<not> is_static (msg_flags (m_msg (rt_iface r1)))" for env1 r1
  proof -
    have "m + 4 \<le> length env1" using a(1) m(2) by (simp add: f' guarded_def Let_def)
    from guard_write_runs [OF a(2,3) _ this a(4), of H G 0] m(1)
    obtain env2 r2 where w: "run_pcode (module_calls H G) G (guard_write 0 ?n m) env1 r1 = (Inr env2, r2)"
      "\<forall>k < m. env2 ! k = env1 ! k" "m_msg (rt_iface r2) = m_msg (rt_iface r1)"
      "host_state (m_host (rt_iface r2)) = set_storage H (host_state (m_host (rt_iface r1)))
        (msg_destination (m_msg (rt_iface r1))) mutex_slot 0" by (auto simp: mutex_words)
    then have "mutex_of H r2 = 0" using evmc_host.storage_same [OF H] by (simp add: mutex_of_def)
    then show ?thesis using w m(1) by (intro exI [of _ env2] exI [of _ r2]) simp
  qed
  have "\<exists>l' b' pre. map_of (pf_blocks f') l' = Some b' \<and> pb_term b' = pb_term b
      \<and> pb_code b' = pre @ c1 @ guard_write 0 ?n m @ i # post \<and> pre \<in> {[], guard_write 1 ?n (?n + 8)}"
  proof (cases "(l, b) = (l0, b0)")
    case True
    then show ?thesis using guarded_lookup(2) [OF wf f] code unfolding f' by force
  next
    case False
    then have "(l, b) \<in> set rest" using b(1) f by auto
    moreover from this have "l \<in> fst ` set rest" by force
    then have "distinct (map fst rest)" "l \<noteq> l0" "l < pf_labels f"
      using wf f b(1) by (auto simp: wf_func_def list_all_iff)
    ultimately have "map_of (pf_blocks f') l = Some (b\<lparr>pb_code := unlocks ?n (?n + 12) ?ks (pb_code b)\<rparr>)"
      unfolding f' blocks by (force simp: map_of_map map_of_eq_Some_iff)
    then show ?thesis using code by force
  qed
  then show ?thesis using run by blast
qed

section \<open>A guarded function\<close>

definition sample_end :: pinst where
  "sample_end = mk_inst 0 [] (ICall ''ethereum.finish'' [VConstPtr 8 0, VConst 32 0]) (TInt 0)"

definition sample_func :: pfunc where
  "sample_func = \<lparr>pf_name = ''main'', pf_blocks =
     [(0, \<lparr>pb_code = [], pb_term = PBr 1\<rparr>), (1, \<lparr>pb_code = [sample_end], pb_term = PUnreachable\<rparr>)], pf_regs = 1, pf_labels = 2\<rparr>"

lemma sample_func_ok: "wf_func sample_func" "pf_name sample_func = ''main''"
  by (simp_all add: wf_func_def sample_func_def sample_end_def)

lemma example_is_host: "evmc_host example_host (\<lambda>h. h)"
  by (rule example.evmc_host_axioms)


theorem guard_releases_witness:
  "\<exists>l' b' pre unlock post. map_of (pf_blocks (fst (EstimateReenrancePass (\<lambda>_. True) sample_func))) l' = Some b'
    \<and> pb_code b' = pre @ unlock @ sample_end # post
    \<and> (\<forall>env1 r1. length env1 = 17 \<longrightarrow> guard_slots 1 env1 r1 \<longrightarrow> has_gas gs_storageStoreCreate r1 \<longrightarrow>
        \<not> is_static (msg_flags (m_msg (rt_iface r1))) \<longrightarrow>
        (\<exists>env2 r2. run_pcode (module_calls example_host (\<lambda>_. 0)) (\<lambda>_. 0) unlock env1 r1 = (Inr env2, r2)
          \<and> (\<forall>k < 1. env2 ! k = env1 ! k) \<and> mutex_of example_host r2 = 0))"
proof -
  let ?b = "\<lparr>pb_code = [sample_end], pb_term = PUnreachable\<rparr>"
  have b: "(1, ?b) \<in> set (pf_blocks sample_func)" "pb_code ?b = [] @ sample_end # []" "ends_contract (pi_op sample_end)"
    "\<forall>j \<in> set []. \<not> ends_contract (pi_op j)"
    by (simp_all add: sample_func_def sample_end_def ends_contract_def calls_fn_def)
  have "pf_regs (fst (EstimateReenrancePass (\<lambda>_. True) sample_func)) = 17" "pf_regs sample_func = 1"
    by (simp_all add: EstimateReenrancePass_def sample_func_def terminatorInstrList_def sample_end_def ends_contract_def calls_fn_def)
  note regs = this
  note g = guard_releases [where detectBug = "\<lambda>_. True" and G = "\<lambda>_. 0", OF example_is_host sample_func_ok TrueI b, unfolded regs append_Nil]
  show ?thesis by (rule exE [OF g], elim exE conjE, intro exI conjI, assumption+)
qed

text \<open>A guarded contract cannot be called statically: with the mutex free, the lock ends the run.\<close>

theorem guarded_static:
  assumes wf: "wf_func f" and f: "pf_blocks f = (l, b) # rest" and r: "stack_room 64 r" "has_gas (gs_storageLoad + gs_storageStoreChange) r"
    and free: "mutex_of H r = 0" and static: "is_static (msg_flags (m_msg (rt_iface r)))"
  shows "\<exists>env b' r1 r'. arrives H G (guarded f) r (pf_labels f + 1) env r1 \<and> map_of (pf_blocks (guarded f)) (pf_labels f + 1) = Some b'
    \<and> run_pcode (module_calls H G) G (pb_code b') env r1 = (Inl StaticModeViolation, r')"
proof -
  have gas: "has_gas gs_storageLoad r" using r(2) by (auto simp: has_gas_def Let_def gas_schedule)
  obtain env r1 where c: "arrives H G (guarded f) r (pf_labels f + 1) env r1" "length env = pf_regs (guarded f)"
    "guard_slots (pf_regs f) env r1" "m_msg (rt_iface r1) = m_msg (rt_iface r)" "m_meterGas (rt_iface r1) = m_meterGas (rt_iface r)"
    "gasLeft (m_result (rt_iface r1)) = gasLeft (m_result (rt_iface r)) - (if m_meterGas (rt_iface r) then gs_storageLoad else 0)"
    using guarded_checked [OF wf f r(1) gas, of H G] free by auto
  have "has_gas gs_storageStoreChange r1" using c r(2) by (auto simp: has_gas_def Let_def gas_schedule)
  from guard_write_static [OF c(3) this, of "pf_regs f + 8" H G 1] c static guarded_regs [of f] guarded_lookup(2) [OF wf f]
  show ?thesis using c(1) by fastforce
qed

section \<open>The comparison of caller and origin\<close>

lemma call_getTxOrigin:
  "eeiGetTxOrigin H (word_of_int a) (rt_iface r) = (Inr (), s) \<Longrightarrow>
   module_calls H G ''ethereum.getTxOrigin'' [a] r = (Inr 0, r\<lparr>rt_iface := s\<rparr>)"
  by (simp add: module_calls_host call_host_def wabt_module_def wabt_func_defs on_iface_def bindE_def retNone_def returnE_def
      arg32_def ucast_of_int_u32)

lemma getTxOrigin_call:
  assumes gas: "has_gas gs_base r" and ok: "store_ok p 20 (rt_iface r)"
  shows "\<exists>c. module_calls H G ''ethereum.getTxOrigin'' [uint p] r =
      (Inr 0, r\<lparr>rt_iface := put p (bytes_be 20 (tx_origin (fst (get_tx_context H (m_host (rt_iface r)))))) (pay gs_base (rt_iface r)\<lparr>m_host := c\<rparr>)\<rparr>)
    \<and> host_state c = host_state (m_host (rt_iface r))"
proof -
  obtain t c where t: "get_tx_context H (m_host (rt_iface r)) = (t, c)" by fastforce
  then have c: "host_state c = host_state (m_host (rt_iface r))" by (auto simp: get_tx_context_def Let_def split: if_splits)
  have "takeInterfaceGas gs_base (rt_iface r) = (Inr (), pay gs_base (rt_iface r))"
    using gas by (intro takeInterfaceGas_pays) (simp_all add: has_gas_def Let_def gs_base_def)
  moreover have "store_ok p 20 (pay gs_base (rt_iface r)\<lparr>m_host := c\<rparr>)" using ok by (simp add: store_ok_def in_memory_def)
  ultimately have "eeiGetTxOrigin H p (rt_iface r) = (Inr (), put p (bytes_be 20 (tx_origin t)) (pay gs_base (rt_iface r)\<lparr>m_host := c\<rparr>))"
    using t by (simp add: eeiGetTxOrigin_def seqE_def bindE_def hostTxContext_def storeAddress_eq)
  then show ?thesis using t c call_getTxOrigin [of H "uint p" r _ G] by auto
qed

lemma le_int_address: "le_int (bytes_be 20 (a :: address)) = le_int (bytes_be 20 b) \<longleftrightarrow> a = b"
proof
  assume "le_int (bytes_be 20 a) = le_int (bytes_be 20 b)"
  then have "uint a = uint b" using swapped_load_full [of 20 a] swapped_load_full [of 20 b] by simp
  then show "a = b" by (simp add: word_uint_eq_iff)
qed simp

lemma rollback_check_runs:
  assumes room: "stack_room 32 r" and gas: "has_gas (gs_base + gs_base) r" and n: "n + 8 \<le> length env"
  shows "\<exists>env' r'. run_pcode (module_calls H G) G (rollback_check n) env r = (Inr env', r') \<and> length env' = length env
    \<and> env' ! (n + 7) = (if msg_sender (m_msg (rt_iface r)) = tx_origin (fst (get_tx_context H (m_host (rt_iface r)))) then 0 else 1)
    \<and> host_state (m_host (rt_iface r')) = host_state (m_host (rt_iface r))"
proof -
  let ?p = "stack_slot 160 (rt_sp r)" and ?a = "msg_sender (m_msg (rt_iface r))"
  let ?o = "tx_origin (fst (get_tx_context H (m_host (rt_iface r))))"
  let ?s1 = "put ?p (bytes_be 20 ?a) (pay gs_base (rt_iface r))"
  let ?r1 = "r\<lparr>rt_sp := ?p, rt_iface := ?s1\<rparr>"
  note slot = address_slot [OF room]
  have gas1: "has_gas gs_base r" and gas2: "has_gas gs_base ?r1"
    using gas by (auto simp: has_gas_def Let_def gs_base_def put_def pay_def)
  have c1: "module_calls H G ''ethereum.getCaller'' [uint ?p] (r\<lparr>rt_sp := ?p\<rparr>) = (Inr 0, ?r1)"
    using address_calls(1) [of H G "uint ?p" "r\<lparr>rt_sp := ?p\<rparr>"] address_query_returns [OF gas1 room, of msg_sender]
    by (simp add: Func_getCaller_def)
  have ok1: "store_ok ?p 20 ?s1" using slot(2) by (auto simp: store_ok_def in_memory_def put_def)
  obtain c where c2: "module_calls H G ''ethereum.getTxOrigin'' [uint ?p] ?r1 =
      (Inr 0, ?r1\<lparr>rt_iface := put ?p (bytes_be 20 ?o) (pay gs_base ?s1\<lparr>m_host := c\<rparr>)\<rparr>)" "host_state c = host_state (m_host (rt_iface r))"
    using getTxOrigin_call [OF gas2, of ?p H G] ok1 by (auto simp: put_def)
  let ?s2 = "put ?p (bytes_be 20 ?o) (pay gs_base ?s1\<lparr>m_host := c\<rparr>)"
  have b: "unat ?p + 20 \<le> length (mem_of r)" using slot(2) by (simp add: store_ok_def in_memory_def mem_of_def)
  have m1: "take_bit 160 (le_int (segment (unat ?p) 20 (wasm_memory ?s1))) = le_int (bytes_be 20 ?a)" "length (wasm_memory ?s1) = length (mem_of r)"
    using b le_int_take_bit [of "bytes_be 20 ?a" 20] by (simp_all add: put_def mem_of_def)
  have m2: "take_bit 160 (le_int (segment (unat ?p) 20 (wasm_memory ?s2))) = le_int (bytes_be 20 ?o)" "length (wasm_memory ?s2) = length (mem_of r)"
    using b m1(2) le_int_take_bit [of "bytes_be 20 ?o" 20] by (simp_all add: put_def mem_of_def)
  let ?env = "env[n := uint ?p, n + 1 := uint ?p, n + 2 := 0, n + 3 := le_int (bytes_be 20 ?a), n + 4 := uint ?p, n + 5 := 0,
    n + 6 := le_int (bytes_be 20 ?o), n + 7 := if ?a = ?o then 0 else 1]"
  have "run_pcode (module_calls H G) G (rollback_check n) env r = (Inr ?env, ?r1\<lparr>rt_iface := ?s2\<rparr>)"
    unfolding rollback_check_def
    apply (subst run_pcode_Cons, simp add: run_simps)
    apply (subst run_pcode_Cons, simp add: run_simps)
    apply (subst run_pcode_Cons, use n c1 in \<open>simp add: run_simps\<close>)
    apply (subst run_pcode_Cons, use n b m1 in \<open>simp add: run_simps addr_of_def\<close>)
    apply (subst run_pcode_Cons, simp add: run_simps)
    apply (subst run_pcode_Cons, use n c2(1) in \<open>simp add: run_simps\<close>)
    apply (subst run_pcode_Cons, use n b m2 in \<open>simp add: run_simps addr_of_def\<close>)
    apply (subst run_pcode_Cons, simp add: run_simps)
    using n by (simp add: returnE_def icmp_value_def le_int_address)
  moreover have "host_state (m_host (rt_iface (?r1\<lparr>rt_iface := ?s2\<rparr>))) = host_state (m_host (rt_iface r))"
    using c2(2) by (simp add: put_def)
  ultimately show ?thesis using n by (intro exI [of _ ?env] exI [of _ "?r1\<lparr>rt_iface := ?s2\<rparr>"] conjI) simp_all
qed



section \<open>The check of a call\<close>

text \<open>
  A call is protected when its block ends behind the comparison of its result, in a new register, with
  a branch to a dead end.
\<close>

definition protected :: "nat \<Rightarrow> (nat \<times> pblock) list \<Rightarrow> pinst \<Rightarrow> bool" where
  "protected n bs i \<longleftrightarrow> (\<exists>l b c t cmp. (l, b) \<in> set bs \<and> pb_code b = c @ [i, cmp] \<and> n \<le> pi_id cmp
     \<and> pi_op cmp = IICmp ICmpNE 32 (VReg (pi_id i)) (VConst 32 0) \<and> pb_term b = PCondBr (VReg (pi_id cmp)) t (t + 1)
     \<and> (t, \<lparr>pb_code = [], pb_term = PUnreachable\<rparr>) \<in> set bs)"

definition fresh_ids :: "nat \<Rightarrow> (nat \<times> pblock) list \<Rightarrow> bool" where
  "fresh_ids m bs \<longleftrightarrow> (\<forall>(l, b) \<in> set bs. distinct (map pi_id (pb_code b)) \<and> (\<forall>i \<in> set (pb_code b). pi_id i < m))"

lemma protect_one:
  assumes "pb_code b = c1 @ i # c2" "\<forall>j \<in> set c1. pi_id j \<noteq> pi_id i"
  shows "protect_call (pi_id i) m t [(l, b)] =
    [(l, \<lparr>pb_code = c1 @ [i, mk_inst m ''new_ret_check'' (IICmp ICmpNE 32 (VReg (pi_id i)) (VConst 32 0)) (TInt 1)],
          pb_term = PCondBr (VReg m) t (t + 1)\<rparr>),
     (t, \<lparr>pb_code = [], pb_term = PUnreachable\<rparr>), (t + 1, \<lparr>pb_code = c2, pb_term = pb_term b\<rparr>)]"
proof -
  have "takeWhile (\<lambda>j. pi_id j \<noteq> pi_id i) (c1 @ i # c2) = c1" using assms(2) by (simp add: takeWhile_append)
  then show ?thesis using assms by (auto simp: protect_call_def split_if_then_def)
qed

lemma protect_other: "k \<notin> pi_id ` set (pb_code b) \<Longrightarrow> protect_call k m t [(l, b)] = [(l, b)]"
  by (auto simp: protect_call_def list_ex_iff)

lemma protect_Cons: "protect_call k m t (lb # bs) = protect_call k m t [lb] @ protect_call k m t bs"
  by (simp add: protect_call_def)

lemma in_protect: "x \<in> set (protect_call k m t bs) \<longleftrightarrow> (\<exists>lb \<in> set bs. x \<in> set (protect_call k m t [lb]))"
  by (induction bs) (auto simp: protect_Cons [of k m t _ "_ # _"] protect_call_def)

lemma split_at_id:
  assumes "k \<in> pi_id ` set code"
  obtains c1 i c2 where "code = c1 @ i # c2" "pi_id i = k" "\<forall>j \<in> set c1. pi_id j \<noteq> k"
proof -
  from split_list_first_prop [of code "\<lambda>i. pi_id i = k"] assms obtain c1 i c2 where "code = c1 @ i # c2" "pi_id i = k" "\<forall>j \<in> set c1. pi_id j \<noteq> k"
    by blast
  then show ?thesis by (rule that)
qed

text \<open>Protecting another call keeps what is protected, and a call that is in the function becomes protected.\<close>

lemma protect_new:
  assumes "(l, b) \<in> set bs" "i \<in> set (pb_code b)" "distinct (map pi_id (pb_code b))" "n \<le> m"
  shows "protected n (protect_call (pi_id i) m t bs) i"
proof -
  obtain c1 j c2 where c: "pb_code b = c1 @ j # c2" "pi_id j = pi_id i" "\<forall>x \<in> set c1. pi_id x \<noteq> pi_id i"
    by (rule split_at_id [of "pi_id i" "pb_code b"]) (use assms(2) in auto)
  have "j = i" using c assms(2,3) by (auto simp: distinct_map dest: inj_onD)
  then have "set (protect_call (pi_id i) m t [(l, b)]) \<subseteq> set (protect_call (pi_id i) m t bs)"
    using assms(1) in_protect by blast
  then show ?thesis using protect_one [of b c1 i c2 m t l] c \<open>j = i\<close> assms(4) unfolding protected_def by fastforce
qed

lemma protect_cases:
  obtains (other) "k \<notin> pi_id ` set (pb_code b)" "protect_call k m t [(l, b)] = [(l, b)]"
  | (call) c1 j c2 where "pb_code b = c1 @ j # c2" "pi_id j = k" "\<forall>x \<in> set c1. pi_id x \<noteq> k"
      "protect_call k m t [(l, b)] =
        [(l, \<lparr>pb_code = c1 @ [j, mk_inst m ''new_ret_check'' (IICmp ICmpNE 32 (VReg k) (VConst 32 0)) (TInt 1)], pb_term = PCondBr (VReg m) t (t + 1)\<rparr>),
         (t, \<lparr>pb_code = [], pb_term = PUnreachable\<rparr>), (t + 1, \<lparr>pb_code = c2, pb_term = pb_term b\<rparr>)]"
proof (cases "k \<in> pi_id ` set (pb_code b)")
  case True
  then obtain c1 j c2 where c: "pb_code b = c1 @ j # c2" "pi_id j = k" "\<forall>x \<in> set c1. pi_id x \<noteq> k" by (rule split_at_id)
  show ?thesis by (rule call [OF c]) (use protect_one [of b c1 j c2 m t l] c in simp)
next
  case False
  show ?thesis by (rule other [OF False protect_other [OF False]])
qed

lemma protect_fresh:
  assumes "fresh_ids m bs"
  shows "fresh_ids (m + 1) (protect_call k m t bs)"
proof -
  have "fresh_ids (m + 1) (protect_call k m t [(l, b)])" if "(l, b) \<in> set bs" for l b
  proof (cases rule: protect_cases [where k = k and b = b and m = m and t = t and l = l])
    case other
    have "distinct (map pi_id (pb_code b))" "\<forall>i \<in> set (pb_code b). pi_id i < m" using assms that by (auto simp: fresh_ids_def)
    then show ?thesis unfolding other by (auto simp: fresh_ids_def less_Suc_eq)
  next
    case (call c1 j c2)
    have "distinct (map pi_id (pb_code b))" "\<forall>i \<in> set (pb_code b). pi_id i < m" using assms that by (auto simp: fresh_ids_def)
    then show ?thesis unfolding call by (auto simp: fresh_ids_def call(1) less_Suc_eq)
  qed
  then show ?thesis unfolding fresh_ids_def using in_protect [of _ k m t bs] by fast
qed

lemma protect_keeps:
  assumes "protected n bs i" "k \<noteq> pi_id i" "k < n"
  shows "protected n (protect_call k m t bs) i"
proof -
  obtain l b c u cmp where p: "(l, b) \<in> set bs" "pb_code b = c @ [i, cmp]" "pi_op cmp = IICmp ICmpNE 32 (VReg (pi_id i)) (VConst 32 0)"
    "pb_term b = PCondBr (VReg (pi_id cmp)) u (u + 1)" "n \<le> pi_id cmp" "(u, \<lparr>pb_code = [], pb_term = PUnreachable\<rparr>) \<in> set bs"
    using assms(1) unfolding protected_def by blast
  have u: "(u, \<lparr>pb_code = [], pb_term = PUnreachable\<rparr>) \<in> set (protect_call k m t bs)"
    using p(6) in_protect [of _ k m t bs] protect_other [of k "\<lparr>pb_code = [], pb_term = PUnreachable\<rparr>" m t u] by force
  have "\<exists>l' b' c'. (l', b') \<in> set (protect_call k m t [(l, b)]) \<and> pb_code b' = c' @ [i, cmp] \<and> pb_term b' = pb_term b"
  proof (cases rule: protect_cases [where k = k and b = b and m = m and t = t and l = l])
    case other
    then show ?thesis using p(2) by auto
  next
    case (call c1 j c2)
    have "j \<noteq> i" "j \<noteq> cmp" using call(2) assms(2,3) p(5) by auto
    then obtain c2' where "c2 = c2' @ [i, cmp]"
      using call(1) p(2) by (auto simp: append_eq_append_conv2 append_eq_Cons_conv Cons_eq_append_conv)
    then show ?thesis unfolding call by (intro exI [of _ "t + 1"] exI [of _ "\<lparr>pb_code = c2, pb_term = pb_term b\<rparr>"] exI [of _ c2']) simp
  qed
  then obtain l' b' c' where "(l', b') \<in> set (protect_call k m t bs)" "pb_code b' = c' @ [i, cmp]" "pb_term b' = pb_term b"
    using p(1) in_protect [of _ k m t bs] by fast
  then show ?thesis unfolding protected_def using p(3,4,5) u by metis
qed

lemma protect_present:
  assumes "(l, b) \<in> set bs" "i \<in> set (pb_code b)"
  shows "\<exists>l' b'. (l', b') \<in> set (protect_call k m t bs) \<and> i \<in> set (pb_code b')"
proof -
  have "\<exists>x \<in> set (protect_call k m t [(l, b)]). i \<in> set (pb_code (snd x))"
    by (cases rule: protect_cases [where k = k and b = b and m = m and t = t and l = l]) (use assms(2) in auto)
  then obtain x where "x \<in> set (protect_call k m t bs)" "i \<in> set (pb_code (snd x))"
    using assms(1) in_protect [of _ k m t bs] by blast
  then show ?thesis by (metis prod.collapse)
qed

lemma protect_calls_keep:
  "protected n bs i \<Longrightarrow> pi_id i \<notin> set ks \<Longrightarrow> \<forall>k \<in> set ks. k < n \<Longrightarrow> protected n (protect_calls m t ks bs) i"
  by (induction ks arbitrary: m t bs) (simp_all add: protect_keeps)

lemma protect_calls_all:
  assumes "fresh_ids m bs" "n \<le> m" "distinct ks" "\<forall>k \<in> set ks. k < n" "pi_id i \<in> set ks" "(l, b) \<in> set bs" "i \<in> set (pb_code b)"
  shows "protected n (protect_calls m t ks bs) i"
  using assms
proof (induction ks arbitrary: m t bs l b)
  case (Cons k ks)
  show ?case
  proof (cases "pi_id i = k")
    case True
    have "distinct (map pi_id (pb_code b))" using Cons.prems(1,6) by (auto simp: fresh_ids_def)
    then have "protected n (protect_call k m t bs) i" using protect_new [OF Cons.prems(6,7) _ Cons.prems(2)] True by simp
    then show ?thesis using True Cons.prems(3,4) by (auto intro: protect_calls_keep)
  next
    case False
    obtain l' b' where "(l', b') \<in> set (protect_call k m t bs)" "i \<in> set (pb_code b')"
      using protect_present [OF Cons.prems(6,7)] by blast
    with Cons.IH [OF protect_fresh [OF Cons.prems(1), of k t]] False Cons.prems show ?thesis by simp
  qed
qed simp


definition sample_call :: pinst where
  "sample_call = (mk_inst 0 [] (ICall ''ethereum.call'' [VConst 64 0, VConstPtr 160 0, VConstPtr 128 0, VConstPtr 8 0, VConst 32 0]) (TInt 32))
     \<lparr>pi_pc := Some 7\<rparr>"

definition sample_sends :: pfunc where
  "sample_sends = \<lparr>pf_name = ''main'', pf_blocks = [(0, \<lparr>pb_code = [sample_call], pb_term = PUnreachable\<rparr>)], pf_regs = 1, pf_labels = 1\<rparr>"


section \<open>The selector of the call data\<close>

text \<open>
  What calldataCopyPass relies on: the selector, the highest 32 bits of the word that is loaded and
  converted, is in the first four bytes of the copy, and the shift is the division by \<open>2 ^ 224\<close> with the mask.
  The pass does not compare the divisor: with another one the result changes.
\<close>

lemma high_bits:
  assumes "length bs = 32"
  shows "drop_bit 224 (byte_swap 32 (le_int bs)) = le_int (rev (take 4 bs))"
proof -
  have "byte_swap 32 (le_int bs) = le_int (rev bs)" using le_bytes_int [of bs] assms by (simp add: byte_swap_def)
  also have "rev bs = rev (drop 4 bs) @ rev (take 4 bs)" by (simp flip: rev_append)
  also have "le_int \<dots> = le_int (rev (drop 4 bs)) + 2 ^ 224 * le_int (rev (take 4 bs))"
    using assms by (simp add: le_int_def horner_sum_append)
  finally show ?thesis
    using le_int_bounds [of "rev (drop 4 bs)"] assms by (simp add: drop_bit_eq_div)
qed

theorem selector_from_four_bytes:
  assumes "length bs = 32" "length bs' = 32" "take 4 bs = take 4 bs'"
  shows "drop_bit 224 (byte_swap 32 (le_int bs)) = drop_bit 224 (byte_swap 32 (le_int bs'))"
    and "byte_swap 32 (le_int bs) div 2 ^ 224 AND 0xffffffff = drop_bit 224 (byte_swap 32 (le_int bs'))"
proof -
  show 1: "drop_bit 224 (byte_swap 32 (le_int bs)) = drop_bit 224 (byte_swap 32 (le_int bs'))" using assms by (simp add: high_bits)
  have "0 \<le> le_int (rev (take 4 bs)) \<and> le_int (rev (take 4 bs)) < 2 ^ 32"
    using le_int_bounds [of "rev (take 4 bs)"] assms(1) by simp
  then have "take_bit 32 (drop_bit 224 (byte_swap 32 (le_int bs))) = drop_bit 224 (byte_swap 32 (le_int bs))"
    using high_bits [OF assms(1)] by (simp add: take_bit_int_eq_self)
  moreover have "x AND 0xffffffff = take_bit 32 x" for x :: int by (simp add: take_bit_eq_mask mask_eq_exp_minus_1)
  ultimately show "byte_swap 32 (le_int bs) div 2 ^ 224 AND 0xffffffff = drop_bit 224 (byte_swap 32 (le_int bs'))"
    using 1 by (simp add: drop_bit_eq_div)
qed

lemma other_divisor: "(2 ^ 224 :: int) div 1 AND 0xffffffff \<noteq> drop_bit 224 (2 ^ 224)"
  by simp

section \<open>The origin\<close>

text \<open>Only queries of the origin are replaced, by the query of the caller with the same slot.\<close>

theorem origin_code_replaces:
  "origin_code icmps c = Some c' \<Longrightarrow> list_all2 (\<lambda>i j. j = i \<or> (calls_fn ''ethereum.getTxOrigin'' 2 (pi_op i) \<and>
     (\<exists>f as. pi_op i = ICall f as \<and> j = i\<lparr>pi_op := ICall ''ethereum.getCaller'' as, pi_pc := None\<rparr>))) c c'"
proof (induction c arbitrary: c')
  case (Cons i c)
  then show ?case
    by (auto simp: Let_def split: if_splits list.splits inst.splits)
qed simp

text \<open>
  The value that ORIGIN pushes is six instructions behind the query, and the pass looks seven behind: the
  comparison of the origin itself is not found, whatever follows.
\<close>

definition inst_list :: "(inst \<times> lty) list \<Rightarrow> pinst list" where
  "inst_list c = map (\<lambda>k. mk_inst k [] (fst (c ! k)) (snd (c ! k))) [0..<length c]"

lemma origin_kept: "\<not> list_ex (\<lambda>i. calls_fn ''ethereum.getTxOrigin'' 2 (pi_op i)) c \<Longrightarrow> origin_code icmps c = Some c"
  by (induction c) auto

lemma origin_gen:
  "hc_ORIGIN pc (sample_gen []) = (Inr (), \<lparr>h_code = [(IAlloca 160, TPtr 160), (IBitCast 32 (VReg 0), TPtr 32),
      (ICall ''ethereum.getTxOrigin'' [VReg 1], TInt 0), (ILoad 160 (VReg 0), TInt 160), (IZExt 256 (VReg 3), TInt 256),
      (IBin Shl 256 (VReg 4) (VConst 256 96), TInt 256), (ICall ''solidity.bswapi256'' [VReg 5], TInt 256),
      (ITrunc 160 (VReg 6), TInt 160), (IZExt 256 (VReg 7), TInt 256)],
      h_stack = [VReg 8], h_pcs = [(2, pc)], h_term = None, h_dest = None\<rparr>)"
  by (simp add: hc_ORIGIN_def slot_call_def createAlloca_def createBitCastPtr_def createCast_def emit_def bindE_def seqE_def getE_def
      modifyE_def returnE_def typeOfV_def val_type_def sample_gen_def createCall_def createCallTyped_def Func_getTxOrigin_def
      createLoad_def emitEndianConvert_def createZExtOrTrunc_def createZExt_def createTrunc_def createBin2_def call_bswap_def
      push_def setPC_def ensureE_def)

theorem origin_not_found:
  fixes pc :: nat
  assumes "pi_id i \<noteq> 8" "y \<noteq> VReg (pi_id i)" "\<not> list_ex (\<lambda>i. calls_fn ''ethereum.getTxOrigin'' 2 (pi_op i)) (i # rest)"
  defines "c \<equiv> inst_list (h_code (snd (hc_ORIGIN pc (sample_gen [])))) @ i # rest"
  shows "h_stack (snd (hc_ORIGIN pc (sample_gen []))) = [VReg 8] \<and> origin_code [(VReg 8, y)] c = Some c"
proof -
  have "origin_code [(VReg 8, y)] (i # rest) = Some (i # rest)" by (rule origin_kept [OF assms(3)])
  then show ?thesis
    using assms(1,2) by (simp add: c_def origin_gen inst_list_def upt_rec [of _ "Suc _"] calls_fn_def numeral_eq_Suc)
qed

section \<open>The deployment proxy and the order of the passes\<close>

text \<open>
  The selector is stored in the byte order of the machine: the input of the call starts with the
  bytes of the constant in reverse, not with the first bytes of the hash of deployBytecode.
\<close>

lemma proxy_selector_reversed: "le_bytes 4 0x31d19166 = rev [0x31, 0xd1, 0x91, 0x66]"
  by (simp add: le_bytes_def upt_rec drop_bit_eq_div)

text \<open>
  Lowering comes after every patch, so that wide operations a patch inserts are lowered, and the code
  of a deployment is only touched by the proxy.
\<close>

theorem prepare_order:
  "\<exists>patches rest. prepare options = patches @ LowerEVM # map Library rest \<and> LowerEVM \<notin> set patches
    \<and> (\<not> isRtcode options \<longrightarrow> set patches \<subseteq> {ProxyWrapper}) \<and> (isRtcode options \<longrightarrow> last patches = calldataCopy \<and> ProxyWrapper \<notin> set patches)"
  by (rule exI [of _ "takeWhile (\<lambda>p. p \<noteq> LowerEVM) (prepare options)"],
      rule exI [of _ "[''reassociate'', ''simplifycfg'', ''dce'', ''reassociate'', ''inline'', ''adce'', ''mem2reg'']"])
     (auto simp: prepare_def)

end
