(* ===== verification/Evmc_Tables.thy ===== *)
theory Evmc_Tables
  imports Evmc Opcodes
begin

text \<open>
  The instruction tables of EVMC (src/evmc/lib/instructions): for every revision of the EVM
  the gas cost and the stack effect of each of the 256 opcodes, and its name. Each table is
  written in two halves of 128 rows, in the order of the opcodes, with the price tiers the
  sources name. The two getters take a revision as the number of the enumeration; a number
  outside of it gives no table.
\<close>

section \<open>Rows\<close>

record evmc_instruction_metrics =
  gas_cost :: int
  num_stack_arguments :: int
  num_stack_returned_items :: int

definition metrics :: "int \<Rightarrow> int \<Rightarrow> int \<Rightarrow> evmc_instruction_metrics" where
  "metrics gas args rets =
     \<lparr>gas_cost = gas, num_stack_arguments = args, num_stack_returned_items = rets\<rparr>"

definition UNDEFINED :: int where "UNDEFINED = - 1"
definition ZERO :: int where "ZERO = 0"
definition BASE :: int where "BASE = 2"
definition VERYLOW :: int where "VERYLOW = 3"
definition LOW :: int where "LOW = 5"
definition MID :: int where "MID = 8"
definition HIGH :: int where "HIGH = 10"

section \<open>The tables\<close>

definition istanbul_metrics_lo :: "evmc_instruction_metrics list" where
  "istanbul_metrics_lo =
   [metrics ZERO 0 0, metrics VERYLOW 2 1, metrics LOW 2 1, metrics VERYLOW 2 1, metrics LOW 2 1,
     metrics LOW 2 1, metrics LOW 2 1, metrics LOW 2 1, metrics MID 3 1, metrics MID 3 1, metrics HIGH 2 1,
     metrics LOW 2 1, metrics UNDEFINED 0 0, metrics UNDEFINED 0 0, metrics UNDEFINED 0 0,
     metrics UNDEFINED 0 0, metrics VERYLOW 2 1, metrics VERYLOW 2 1, metrics VERYLOW 2 1, metrics VERYLOW 2 1,
     metrics VERYLOW 2 1, metrics VERYLOW 1 1, metrics VERYLOW 2 1, metrics VERYLOW 2 1, metrics VERYLOW 2 1,
     metrics VERYLOW 1 1, metrics VERYLOW 2 1, metrics VERYLOW 2 1, metrics VERYLOW 2 1, metrics VERYLOW 2 1,
     metrics UNDEFINED 0 0, metrics UNDEFINED 0 0, metrics 30 2 1, metrics UNDEFINED 0 0,
     metrics UNDEFINED 0 0, metrics UNDEFINED 0 0, metrics UNDEFINED 0 0, metrics UNDEFINED 0 0,
     metrics UNDEFINED 0 0, metrics UNDEFINED 0 0, metrics UNDEFINED 0 0, metrics UNDEFINED 0 0,
     metrics UNDEFINED 0 0, metrics UNDEFINED 0 0, metrics UNDEFINED 0 0, metrics UNDEFINED 0 0,
     metrics UNDEFINED 0 0, metrics UNDEFINED 0 0, metrics BASE 0 1, metrics 400 1 1, metrics BASE 0 1,
     metrics BASE 0 1, metrics BASE 0 1, metrics VERYLOW 1 1, metrics BASE 0 1, metrics VERYLOW 3 0,
     metrics BASE 0 1, metrics VERYLOW 3 0, metrics BASE 0 1, metrics 700 1 1, metrics 700 4 0,
     metrics BASE 0 1, metrics VERYLOW 3 0, metrics 400 1 1, metrics 20 1 1, metrics BASE 0 1,
     metrics BASE 0 1, metrics BASE 0 1, metrics BASE 0 1, metrics BASE 0 1, metrics UNDEFINED 0 0,
     metrics UNDEFINED 0 0, metrics UNDEFINED 0 0, metrics UNDEFINED 0 0, metrics UNDEFINED 0 0,
     metrics UNDEFINED 0 0, metrics UNDEFINED 0 0, metrics UNDEFINED 0 0, metrics UNDEFINED 0 0,
     metrics UNDEFINED 0 0, metrics BASE 1 0, metrics VERYLOW 1 1, metrics VERYLOW 2 0, metrics VERYLOW 2 0,
     metrics 200 1 1, metrics 0 2 0, metrics MID 1 0, metrics HIGH 2 0, metrics BASE 0 1, metrics BASE 0 1,
     metrics BASE 0 1, metrics 1 0 0, metrics UNDEFINED 0 0, metrics UNDEFINED 0 0, metrics UNDEFINED 0 0,
     metrics UNDEFINED 0 0, metrics VERYLOW 0 1, metrics VERYLOW 0 1, metrics VERYLOW 0 1, metrics VERYLOW 0 1,
     metrics VERYLOW 0 1, metrics VERYLOW 0 1, metrics VERYLOW 0 1, metrics VERYLOW 0 1, metrics VERYLOW 0 1,
     metrics VERYLOW 0 1, metrics VERYLOW 0 1, metrics VERYLOW 0 1, metrics VERYLOW 0 1, metrics VERYLOW 0 1,
     metrics VERYLOW 0 1, metrics VERYLOW 0 1, metrics VERYLOW 0 1, metrics VERYLOW 0 1, metrics VERYLOW 0 1,
     metrics VERYLOW 0 1, metrics VERYLOW 0 1, metrics VERYLOW 0 1, metrics VERYLOW 0 1, metrics VERYLOW 0 1,
     metrics VERYLOW 0 1, metrics VERYLOW 0 1, metrics VERYLOW 0 1, metrics VERYLOW 0 1, metrics VERYLOW 0 1,
     metrics VERYLOW 0 1, metrics VERYLOW 0 1, metrics VERYLOW 0 1]"

definition istanbul_metrics_hi :: "evmc_instruction_metrics list" where
  "istanbul_metrics_hi =
   [metrics VERYLOW 1 2, metrics VERYLOW 2 3, metrics VERYLOW 3 4, metrics VERYLOW 4 5, metrics VERYLOW 5 6,
     metrics VERYLOW 6 7, metrics VERYLOW 7 8, metrics VERYLOW 8 9, metrics VERYLOW 9 10,
     metrics VERYLOW 10 11, metrics VERYLOW 11 12, metrics VERYLOW 12 13, metrics VERYLOW 13 14,
     metrics VERYLOW 14 15, metrics VERYLOW 15 16, metrics VERYLOW 16 17, metrics VERYLOW 2 2,
     metrics VERYLOW 3 3, metrics VERYLOW 4 4, metrics VERYLOW 5 5, metrics VERYLOW 6 6, metrics VERYLOW 7 7,
     metrics VERYLOW 8 8, metrics VERYLOW 9 9, metrics VERYLOW 10 10, metrics VERYLOW 11 11,
     metrics VERYLOW 12 12, metrics VERYLOW 13 13, metrics VERYLOW 14 14, metrics VERYLOW 15 15,
     metrics VERYLOW 16 16, metrics VERYLOW 17 17, metrics (1 * 375) 2 0, metrics (2 * 375) 3 0,
     metrics (3 * 375) 4 0, metrics (4 * 375) 5 0, metrics (5 * 375) 6 0, metrics UNDEFINED 0 0,
     metrics UNDEFINED 0 0, metrics UNDEFINED 0 0, metrics UNDEFINED 0 0, metrics UNDEFINED 0 0,
     metrics UNDEFINED 0 0, metrics UNDEFINED 0 0, metrics UNDEFINED 0 0, metrics UNDEFINED 0 0,
     metrics UNDEFINED 0 0, metrics UNDEFINED 0 0, metrics UNDEFINED 0 0, metrics UNDEFINED 0 0,
     metrics UNDEFINED 0 0, metrics UNDEFINED 0 0, metrics UNDEFINED 0 0, metrics UNDEFINED 0 0,
     metrics UNDEFINED 0 0, metrics UNDEFINED 0 0, metrics UNDEFINED 0 0, metrics UNDEFINED 0 0,
     metrics UNDEFINED 0 0, metrics UNDEFINED 0 0, metrics UNDEFINED 0 0, metrics UNDEFINED 0 0,
     metrics UNDEFINED 0 0, metrics UNDEFINED 0 0, metrics UNDEFINED 0 0, metrics UNDEFINED 0 0,
     metrics UNDEFINED 0 0, metrics UNDEFINED 0 0, metrics UNDEFINED 0 0, metrics UNDEFINED 0 0,
     metrics UNDEFINED 0 0, metrics UNDEFINED 0 0, metrics UNDEFINED 0 0, metrics UNDEFINED 0 0,
     metrics UNDEFINED 0 0, metrics UNDEFINED 0 0, metrics UNDEFINED 0 0, metrics UNDEFINED 0 0,
     metrics UNDEFINED 0 0, metrics UNDEFINED 0 0, metrics UNDEFINED 0 0, metrics UNDEFINED 0 0,
     metrics UNDEFINED 0 0, metrics UNDEFINED 0 0, metrics UNDEFINED 0 0, metrics UNDEFINED 0 0,
     metrics UNDEFINED 0 0, metrics UNDEFINED 0 0, metrics UNDEFINED 0 0, metrics UNDEFINED 0 0,
     metrics UNDEFINED 0 0, metrics UNDEFINED 0 0, metrics UNDEFINED 0 0, metrics UNDEFINED 0 0,
     metrics UNDEFINED 0 0, metrics UNDEFINED 0 0, metrics UNDEFINED 0 0, metrics UNDEFINED 0 0,
     metrics UNDEFINED 0 0, metrics UNDEFINED 0 0, metrics UNDEFINED 0 0, metrics UNDEFINED 0 0,
     metrics UNDEFINED 0 0, metrics UNDEFINED 0 0, metrics UNDEFINED 0 0, metrics UNDEFINED 0 0,
     metrics UNDEFINED 0 0, metrics UNDEFINED 0 0, metrics UNDEFINED 0 0, metrics UNDEFINED 0 0,
     metrics UNDEFINED 0 0, metrics UNDEFINED 0 0, metrics 32000 3 1, metrics 700 7 1, metrics 700 7 1,
     metrics ZERO 2 0, metrics 700 6 1, metrics 32000 4 1, metrics UNDEFINED 0 0, metrics UNDEFINED 0 0,
     metrics UNDEFINED 0 0, metrics UNDEFINED 0 0, metrics 700 6 1, metrics UNDEFINED 0 0,
     metrics UNDEFINED 0 0, metrics ZERO 2 0, metrics ZERO 0 0, metrics 5000 1 0]"

definition istanbul_metrics :: "evmc_instruction_metrics list" where
  "istanbul_metrics = istanbul_metrics_lo @ istanbul_metrics_hi"

definition constantinople_metrics_lo :: "evmc_instruction_metrics list" where
  "constantinople_metrics_lo =
   [metrics ZERO 0 0, metrics VERYLOW 2 1, metrics LOW 2 1, metrics VERYLOW 2 1, metrics LOW 2 1,
     metrics LOW 2 1, metrics LOW 2 1, metrics LOW 2 1, metrics MID 3 1, metrics MID 3 1, metrics HIGH 2 1,
     metrics LOW 2 1, metrics UNDEFINED 0 0, metrics UNDEFINED 0 0, metrics UNDEFINED 0 0,
     metrics UNDEFINED 0 0, metrics VERYLOW 2 1, metrics VERYLOW 2 1, metrics VERYLOW 2 1, metrics VERYLOW 2 1,
     metrics VERYLOW 2 1, metrics VERYLOW 1 1, metrics VERYLOW 2 1, metrics VERYLOW 2 1, metrics VERYLOW 2 1,
     metrics VERYLOW 1 1, metrics VERYLOW 2 1, metrics VERYLOW 2 1, metrics VERYLOW 2 1, metrics VERYLOW 2 1,
     metrics UNDEFINED 0 0, metrics UNDEFINED 0 0, metrics 30 2 1, metrics UNDEFINED 0 0,
     metrics UNDEFINED 0 0, metrics UNDEFINED 0 0, metrics UNDEFINED 0 0, metrics UNDEFINED 0 0,
     metrics UNDEFINED 0 0, metrics UNDEFINED 0 0, metrics UNDEFINED 0 0, metrics UNDEFINED 0 0,
     metrics UNDEFINED 0 0, metrics UNDEFINED 0 0, metrics UNDEFINED 0 0, metrics UNDEFINED 0 0,
     metrics UNDEFINED 0 0, metrics UNDEFINED 0 0, metrics BASE 0 1, metrics 400 1 1, metrics BASE 0 1,
     metrics BASE 0 1, metrics BASE 0 1, metrics VERYLOW 1 1, metrics BASE 0 1, metrics VERYLOW 3 0,
     metrics BASE 0 1, metrics VERYLOW 3 0, metrics BASE 0 1, metrics 700 1 1, metrics 700 4 0,
     metrics BASE 0 1, metrics VERYLOW 3 0, metrics 400 1 1, metrics 20 1 1, metrics BASE 0 1,
     metrics BASE 0 1, metrics BASE 0 1, metrics BASE 0 1, metrics BASE 0 1, metrics UNDEFINED 0 0,
     metrics UNDEFINED 0 0, metrics UNDEFINED 0 0, metrics UNDEFINED 0 0, metrics UNDEFINED 0 0,
     metrics UNDEFINED 0 0, metrics UNDEFINED 0 0, metrics UNDEFINED 0 0, metrics UNDEFINED 0 0,
     metrics UNDEFINED 0 0, metrics BASE 1 0, metrics VERYLOW 1 1, metrics VERYLOW 2 0, metrics VERYLOW 2 0,
     metrics 200 1 1, metrics 0 2 0, metrics MID 1 0, metrics HIGH 2 0, metrics BASE 0 1, metrics BASE 0 1,
     metrics BASE 0 1, metrics 1 0 0, metrics UNDEFINED 0 0, metrics UNDEFINED 0 0, metrics UNDEFINED 0 0,
     metrics UNDEFINED 0 0, metrics VERYLOW 0 1, metrics VERYLOW 0 1, metrics VERYLOW 0 1, metrics VERYLOW 0 1,
     metrics VERYLOW 0 1, metrics VERYLOW 0 1, metrics VERYLOW 0 1, metrics VERYLOW 0 1, metrics VERYLOW 0 1,
     metrics VERYLOW 0 1, metrics VERYLOW 0 1, metrics VERYLOW 0 1, metrics VERYLOW 0 1, metrics VERYLOW 0 1,
     metrics VERYLOW 0 1, metrics VERYLOW 0 1, metrics VERYLOW 0 1, metrics VERYLOW 0 1, metrics VERYLOW 0 1,
     metrics VERYLOW 0 1, metrics VERYLOW 0 1, metrics VERYLOW 0 1, metrics VERYLOW 0 1, metrics VERYLOW 0 1,
     metrics VERYLOW 0 1, metrics VERYLOW 0 1, metrics VERYLOW 0 1, metrics VERYLOW 0 1, metrics VERYLOW 0 1,
     metrics VERYLOW 0 1, metrics VERYLOW 0 1, metrics VERYLOW 0 1]"

definition constantinople_metrics_hi :: "evmc_instruction_metrics list" where
  "constantinople_metrics_hi =
   [metrics VERYLOW 1 2, metrics VERYLOW 2 3, metrics VERYLOW 3 4, metrics VERYLOW 4 5, metrics VERYLOW 5 6,
     metrics VERYLOW 6 7, metrics VERYLOW 7 8, metrics VERYLOW 8 9, metrics VERYLOW 9 10,
     metrics VERYLOW 10 11, metrics VERYLOW 11 12, metrics VERYLOW 12 13, metrics VERYLOW 13 14,
     metrics VERYLOW 14 15, metrics VERYLOW 15 16, metrics VERYLOW 16 17, metrics VERYLOW 2 2,
     metrics VERYLOW 3 3, metrics VERYLOW 4 4, metrics VERYLOW 5 5, metrics VERYLOW 6 6, metrics VERYLOW 7 7,
     metrics VERYLOW 8 8, metrics VERYLOW 9 9, metrics VERYLOW 10 10, metrics VERYLOW 11 11,
     metrics VERYLOW 12 12, metrics VERYLOW 13 13, metrics VERYLOW 14 14, metrics VERYLOW 15 15,
     metrics VERYLOW 16 16, metrics VERYLOW 17 17, metrics (1 * 375) 2 0, metrics (2 * 375) 3 0,
     metrics (3 * 375) 4 0, metrics (4 * 375) 5 0, metrics (5 * 375) 6 0, metrics UNDEFINED 0 0,
     metrics UNDEFINED 0 0, metrics UNDEFINED 0 0, metrics UNDEFINED 0 0, metrics UNDEFINED 0 0,
     metrics UNDEFINED 0 0, metrics UNDEFINED 0 0, metrics UNDEFINED 0 0, metrics UNDEFINED 0 0,
     metrics UNDEFINED 0 0, metrics UNDEFINED 0 0, metrics UNDEFINED 0 0, metrics UNDEFINED 0 0,
     metrics UNDEFINED 0 0, metrics UNDEFINED 0 0, metrics UNDEFINED 0 0, metrics UNDEFINED 0 0,
     metrics UNDEFINED 0 0, metrics UNDEFINED 0 0, metrics UNDEFINED 0 0, metrics UNDEFINED 0 0,
     metrics UNDEFINED 0 0, metrics UNDEFINED 0 0, metrics UNDEFINED 0 0, metrics UNDEFINED 0 0,
     metrics UNDEFINED 0 0, metrics UNDEFINED 0 0, metrics UNDEFINED 0 0, metrics UNDEFINED 0 0,
     metrics UNDEFINED 0 0, metrics UNDEFINED 0 0, metrics UNDEFINED 0 0, metrics UNDEFINED 0 0,
     metrics UNDEFINED 0 0, metrics UNDEFINED 0 0, metrics UNDEFINED 0 0, metrics UNDEFINED 0 0,
     metrics UNDEFINED 0 0, metrics UNDEFINED 0 0, metrics UNDEFINED 0 0, metrics UNDEFINED 0 0,
     metrics UNDEFINED 0 0, metrics UNDEFINED 0 0, metrics UNDEFINED 0 0, metrics UNDEFINED 0 0,
     metrics UNDEFINED 0 0, metrics UNDEFINED 0 0, metrics UNDEFINED 0 0, metrics UNDEFINED 0 0,
     metrics UNDEFINED 0 0, metrics UNDEFINED 0 0, metrics UNDEFINED 0 0, metrics UNDEFINED 0 0,
     metrics UNDEFINED 0 0, metrics UNDEFINED 0 0, metrics UNDEFINED 0 0, metrics UNDEFINED 0 0,
     metrics UNDEFINED 0 0, metrics UNDEFINED 0 0, metrics UNDEFINED 0 0, metrics UNDEFINED 0 0,
     metrics UNDEFINED 0 0, metrics UNDEFINED 0 0, metrics UNDEFINED 0 0, metrics UNDEFINED 0 0,
     metrics UNDEFINED 0 0, metrics UNDEFINED 0 0, metrics UNDEFINED 0 0, metrics UNDEFINED 0 0,
     metrics UNDEFINED 0 0, metrics UNDEFINED 0 0, metrics UNDEFINED 0 0, metrics UNDEFINED 0 0,
     metrics UNDEFINED 0 0, metrics UNDEFINED 0 0, metrics 32000 3 1, metrics 700 7 1, metrics 700 7 1,
     metrics ZERO 2 0, metrics 700 6 1, metrics 32000 4 1, metrics UNDEFINED 0 0, metrics UNDEFINED 0 0,
     metrics UNDEFINED 0 0, metrics UNDEFINED 0 0, metrics 700 6 1, metrics UNDEFINED 0 0,
     metrics UNDEFINED 0 0, metrics ZERO 2 0, metrics ZERO 0 0, metrics 5000 1 0]"

definition constantinople_metrics :: "evmc_instruction_metrics list" where
  "constantinople_metrics = constantinople_metrics_lo @ constantinople_metrics_hi"

definition byzantium_metrics_lo :: "evmc_instruction_metrics list" where
  "byzantium_metrics_lo =
   [metrics ZERO 0 0, metrics VERYLOW 2 1, metrics LOW 2 1, metrics VERYLOW 2 1, metrics LOW 2 1,
     metrics LOW 2 1, metrics LOW 2 1, metrics LOW 2 1, metrics MID 3 1, metrics MID 3 1, metrics HIGH 2 1,
     metrics LOW 2 1, metrics UNDEFINED 0 0, metrics UNDEFINED 0 0, metrics UNDEFINED 0 0,
     metrics UNDEFINED 0 0, metrics VERYLOW 2 1, metrics VERYLOW 2 1, metrics VERYLOW 2 1, metrics VERYLOW 2 1,
     metrics VERYLOW 2 1, metrics VERYLOW 1 1, metrics VERYLOW 2 1, metrics VERYLOW 2 1, metrics VERYLOW 2 1,
     metrics VERYLOW 1 1, metrics VERYLOW 2 1, metrics UNDEFINED 0 0, metrics UNDEFINED 0 0,
     metrics UNDEFINED 0 0, metrics UNDEFINED 0 0, metrics UNDEFINED 0 0, metrics 30 2 1,
     metrics UNDEFINED 0 0, metrics UNDEFINED 0 0, metrics UNDEFINED 0 0, metrics UNDEFINED 0 0,
     metrics UNDEFINED 0 0, metrics UNDEFINED 0 0, metrics UNDEFINED 0 0, metrics UNDEFINED 0 0,
     metrics UNDEFINED 0 0, metrics UNDEFINED 0 0, metrics UNDEFINED 0 0, metrics UNDEFINED 0 0,
     metrics UNDEFINED 0 0, metrics UNDEFINED 0 0, metrics UNDEFINED 0 0, metrics BASE 0 1, metrics 400 1 1,
     metrics BASE 0 1, metrics BASE 0 1, metrics BASE 0 1, metrics VERYLOW 1 1, metrics BASE 0 1,
     metrics VERYLOW 3 0, metrics BASE 0 1, metrics VERYLOW 3 0, metrics BASE 0 1, metrics 700 1 1,
     metrics 700 4 0, metrics BASE 0 1, metrics VERYLOW 3 0, metrics UNDEFINED 0 0, metrics 20 1 1,
     metrics BASE 0 1, metrics BASE 0 1, metrics BASE 0 1, metrics BASE 0 1, metrics BASE 0 1,
     metrics UNDEFINED 0 0, metrics UNDEFINED 0 0, metrics UNDEFINED 0 0, metrics UNDEFINED 0 0,
     metrics UNDEFINED 0 0, metrics UNDEFINED 0 0, metrics UNDEFINED 0 0, metrics UNDEFINED 0 0,
     metrics UNDEFINED 0 0, metrics UNDEFINED 0 0, metrics BASE 1 0, metrics VERYLOW 1 1, metrics VERYLOW 2 0,
     metrics VERYLOW 2 0, metrics 200 1 1, metrics 0 2 0, metrics MID 1 0, metrics HIGH 2 0, metrics BASE 0 1,
     metrics BASE 0 1, metrics BASE 0 1, metrics 1 0 0, metrics UNDEFINED 0 0, metrics UNDEFINED 0 0,
     metrics UNDEFINED 0 0, metrics UNDEFINED 0 0, metrics VERYLOW 0 1, metrics VERYLOW 0 1,
     metrics VERYLOW 0 1, metrics VERYLOW 0 1, metrics VERYLOW 0 1, metrics VERYLOW 0 1, metrics VERYLOW 0 1,
     metrics VERYLOW 0 1, metrics VERYLOW 0 1, metrics VERYLOW 0 1, metrics VERYLOW 0 1, metrics VERYLOW 0 1,
     metrics VERYLOW 0 1, metrics VERYLOW 0 1, metrics VERYLOW 0 1, metrics VERYLOW 0 1, metrics VERYLOW 0 1,
     metrics VERYLOW 0 1, metrics VERYLOW 0 1, metrics VERYLOW 0 1, metrics VERYLOW 0 1, metrics VERYLOW 0 1,
     metrics VERYLOW 0 1, metrics VERYLOW 0 1, metrics VERYLOW 0 1, metrics VERYLOW 0 1, metrics VERYLOW 0 1,
     metrics VERYLOW 0 1, metrics VERYLOW 0 1, metrics VERYLOW 0 1, metrics VERYLOW 0 1, metrics VERYLOW 0 1]"

definition byzantium_metrics_hi :: "evmc_instruction_metrics list" where
  "byzantium_metrics_hi =
   [metrics VERYLOW 1 2, metrics VERYLOW 2 3, metrics VERYLOW 3 4, metrics VERYLOW 4 5, metrics VERYLOW 5 6,
     metrics VERYLOW 6 7, metrics VERYLOW 7 8, metrics VERYLOW 8 9, metrics VERYLOW 9 10,
     metrics VERYLOW 10 11, metrics VERYLOW 11 12, metrics VERYLOW 12 13, metrics VERYLOW 13 14,
     metrics VERYLOW 14 15, metrics VERYLOW 15 16, metrics VERYLOW 16 17, metrics VERYLOW 2 2,
     metrics VERYLOW 3 3, metrics VERYLOW 4 4, metrics VERYLOW 5 5, metrics VERYLOW 6 6, metrics VERYLOW 7 7,
     metrics VERYLOW 8 8, metrics VERYLOW 9 9, metrics VERYLOW 10 10, metrics VERYLOW 11 11,
     metrics VERYLOW 12 12, metrics VERYLOW 13 13, metrics VERYLOW 14 14, metrics VERYLOW 15 15,
     metrics VERYLOW 16 16, metrics VERYLOW 17 17, metrics (1 * 375) 2 0, metrics (2 * 375) 3 0,
     metrics (3 * 375) 4 0, metrics (4 * 375) 5 0, metrics (5 * 375) 6 0, metrics UNDEFINED 0 0,
     metrics UNDEFINED 0 0, metrics UNDEFINED 0 0, metrics UNDEFINED 0 0, metrics UNDEFINED 0 0,
     metrics UNDEFINED 0 0, metrics UNDEFINED 0 0, metrics UNDEFINED 0 0, metrics UNDEFINED 0 0,
     metrics UNDEFINED 0 0, metrics UNDEFINED 0 0, metrics UNDEFINED 0 0, metrics UNDEFINED 0 0,
     metrics UNDEFINED 0 0, metrics UNDEFINED 0 0, metrics UNDEFINED 0 0, metrics UNDEFINED 0 0,
     metrics UNDEFINED 0 0, metrics UNDEFINED 0 0, metrics UNDEFINED 0 0, metrics UNDEFINED 0 0,
     metrics UNDEFINED 0 0, metrics UNDEFINED 0 0, metrics UNDEFINED 0 0, metrics UNDEFINED 0 0,
     metrics UNDEFINED 0 0, metrics UNDEFINED 0 0, metrics UNDEFINED 0 0, metrics UNDEFINED 0 0,
     metrics UNDEFINED 0 0, metrics UNDEFINED 0 0, metrics UNDEFINED 0 0, metrics UNDEFINED 0 0,
     metrics UNDEFINED 0 0, metrics UNDEFINED 0 0, metrics UNDEFINED 0 0, metrics UNDEFINED 0 0,
     metrics UNDEFINED 0 0, metrics UNDEFINED 0 0, metrics UNDEFINED 0 0, metrics UNDEFINED 0 0,
     metrics UNDEFINED 0 0, metrics UNDEFINED 0 0, metrics UNDEFINED 0 0, metrics UNDEFINED 0 0,
     metrics UNDEFINED 0 0, metrics UNDEFINED 0 0, metrics UNDEFINED 0 0, metrics UNDEFINED 0 0,
     metrics UNDEFINED 0 0, metrics UNDEFINED 0 0, metrics UNDEFINED 0 0, metrics UNDEFINED 0 0,
     metrics UNDEFINED 0 0, metrics UNDEFINED 0 0, metrics UNDEFINED 0 0, metrics UNDEFINED 0 0,
     metrics UNDEFINED 0 0, metrics UNDEFINED 0 0, metrics UNDEFINED 0 0, metrics UNDEFINED 0 0,
     metrics UNDEFINED 0 0, metrics UNDEFINED 0 0, metrics UNDEFINED 0 0, metrics UNDEFINED 0 0,
     metrics UNDEFINED 0 0, metrics UNDEFINED 0 0, metrics UNDEFINED 0 0, metrics UNDEFINED 0 0,
     metrics UNDEFINED 0 0, metrics UNDEFINED 0 0, metrics UNDEFINED 0 0, metrics UNDEFINED 0 0,
     metrics UNDEFINED 0 0, metrics UNDEFINED 0 0, metrics 32000 3 1, metrics 700 7 1, metrics 700 7 1,
     metrics ZERO 2 0, metrics 700 6 1, metrics UNDEFINED 0 0, metrics UNDEFINED 0 0, metrics UNDEFINED 0 0,
     metrics UNDEFINED 0 0, metrics UNDEFINED 0 0, metrics 700 6 1, metrics UNDEFINED 0 0,
     metrics UNDEFINED 0 0, metrics ZERO 2 0, metrics ZERO 0 0, metrics 5000 1 0]"

definition byzantium_metrics :: "evmc_instruction_metrics list" where
  "byzantium_metrics = byzantium_metrics_lo @ byzantium_metrics_hi"

definition tangerine_whistle_metrics_lo :: "evmc_instruction_metrics list" where
  "tangerine_whistle_metrics_lo =
   [metrics ZERO 0 0, metrics VERYLOW 2 1, metrics LOW 2 1, metrics VERYLOW 2 1, metrics LOW 2 1,
     metrics LOW 2 1, metrics LOW 2 1, metrics LOW 2 1, metrics MID 3 1, metrics MID 3 1, metrics HIGH 2 1,
     metrics LOW 2 1, metrics UNDEFINED 0 0, metrics UNDEFINED 0 0, metrics UNDEFINED 0 0,
     metrics UNDEFINED 0 0, metrics VERYLOW 2 1, metrics VERYLOW 2 1, metrics VERYLOW 2 1, metrics VERYLOW 2 1,
     metrics VERYLOW 2 1, metrics VERYLOW 1 1, metrics VERYLOW 2 1, metrics VERYLOW 2 1, metrics VERYLOW 2 1,
     metrics VERYLOW 1 1, metrics VERYLOW 2 1, metrics UNDEFINED 0 0, metrics UNDEFINED 0 0,
     metrics UNDEFINED 0 0, metrics UNDEFINED 0 0, metrics UNDEFINED 0 0, metrics 30 2 1,
     metrics UNDEFINED 0 0, metrics UNDEFINED 0 0, metrics UNDEFINED 0 0, metrics UNDEFINED 0 0,
     metrics UNDEFINED 0 0, metrics UNDEFINED 0 0, metrics UNDEFINED 0 0, metrics UNDEFINED 0 0,
     metrics UNDEFINED 0 0, metrics UNDEFINED 0 0, metrics UNDEFINED 0 0, metrics UNDEFINED 0 0,
     metrics UNDEFINED 0 0, metrics UNDEFINED 0 0, metrics UNDEFINED 0 0, metrics BASE 0 1, metrics 400 1 1,
     metrics BASE 0 1, metrics BASE 0 1, metrics BASE 0 1, metrics VERYLOW 1 1, metrics BASE 0 1,
     metrics VERYLOW 3 0, metrics BASE 0 1, metrics VERYLOW 3 0, metrics BASE 0 1, metrics 700 1 1,
     metrics 700 4 0, metrics UNDEFINED 0 0, metrics UNDEFINED 0 0, metrics UNDEFINED 0 0, metrics 20 1 1,
     metrics BASE 0 1, metrics BASE 0 1, metrics BASE 0 1, metrics BASE 0 1, metrics BASE 0 1,
     metrics UNDEFINED 0 0, metrics UNDEFINED 0 0, metrics UNDEFINED 0 0, metrics UNDEFINED 0 0,
     metrics UNDEFINED 0 0, metrics UNDEFINED 0 0, metrics UNDEFINED 0 0, metrics UNDEFINED 0 0,
     metrics UNDEFINED 0 0, metrics UNDEFINED 0 0, metrics BASE 1 0, metrics VERYLOW 1 1, metrics VERYLOW 2 0,
     metrics VERYLOW 2 0, metrics 200 1 1, metrics 0 2 0, metrics MID 1 0, metrics HIGH 2 0, metrics BASE 0 1,
     metrics BASE 0 1, metrics BASE 0 1, metrics 1 0 0, metrics UNDEFINED 0 0, metrics UNDEFINED 0 0,
     metrics UNDEFINED 0 0, metrics UNDEFINED 0 0, metrics VERYLOW 0 1, metrics VERYLOW 0 1,
     metrics VERYLOW 0 1, metrics VERYLOW 0 1, metrics VERYLOW 0 1, metrics VERYLOW 0 1, metrics VERYLOW 0 1,
     metrics VERYLOW 0 1, metrics VERYLOW 0 1, metrics VERYLOW 0 1, metrics VERYLOW 0 1, metrics VERYLOW 0 1,
     metrics VERYLOW 0 1, metrics VERYLOW 0 1, metrics VERYLOW 0 1, metrics VERYLOW 0 1, metrics VERYLOW 0 1,
     metrics VERYLOW 0 1, metrics VERYLOW 0 1, metrics VERYLOW 0 1, metrics VERYLOW 0 1, metrics VERYLOW 0 1,
     metrics VERYLOW 0 1, metrics VERYLOW 0 1, metrics VERYLOW 0 1, metrics VERYLOW 0 1, metrics VERYLOW 0 1,
     metrics VERYLOW 0 1, metrics VERYLOW 0 1, metrics VERYLOW 0 1, metrics VERYLOW 0 1, metrics VERYLOW 0 1]"

definition tangerine_whistle_metrics_hi :: "evmc_instruction_metrics list" where
  "tangerine_whistle_metrics_hi =
   [metrics VERYLOW 1 2, metrics VERYLOW 2 3, metrics VERYLOW 3 4, metrics VERYLOW 4 5, metrics VERYLOW 5 6,
     metrics VERYLOW 6 7, metrics VERYLOW 7 8, metrics VERYLOW 8 9, metrics VERYLOW 9 10,
     metrics VERYLOW 10 11, metrics VERYLOW 11 12, metrics VERYLOW 12 13, metrics VERYLOW 13 14,
     metrics VERYLOW 14 15, metrics VERYLOW 15 16, metrics VERYLOW 16 17, metrics VERYLOW 2 2,
     metrics VERYLOW 3 3, metrics VERYLOW 4 4, metrics VERYLOW 5 5, metrics VERYLOW 6 6, metrics VERYLOW 7 7,
     metrics VERYLOW 8 8, metrics VERYLOW 9 9, metrics VERYLOW 10 10, metrics VERYLOW 11 11,
     metrics VERYLOW 12 12, metrics VERYLOW 13 13, metrics VERYLOW 14 14, metrics VERYLOW 15 15,
     metrics VERYLOW 16 16, metrics VERYLOW 17 17, metrics (1 * 375) 2 0, metrics (2 * 375) 3 0,
     metrics (3 * 375) 4 0, metrics (4 * 375) 5 0, metrics (5 * 375) 6 0, metrics UNDEFINED 0 0,
     metrics UNDEFINED 0 0, metrics UNDEFINED 0 0, metrics UNDEFINED 0 0, metrics UNDEFINED 0 0,
     metrics UNDEFINED 0 0, metrics UNDEFINED 0 0, metrics UNDEFINED 0 0, metrics UNDEFINED 0 0,
     metrics UNDEFINED 0 0, metrics UNDEFINED 0 0, metrics UNDEFINED 0 0, metrics UNDEFINED 0 0,
     metrics UNDEFINED 0 0, metrics UNDEFINED 0 0, metrics UNDEFINED 0 0, metrics UNDEFINED 0 0,
     metrics UNDEFINED 0 0, metrics UNDEFINED 0 0, metrics UNDEFINED 0 0, metrics UNDEFINED 0 0,
     metrics UNDEFINED 0 0, metrics UNDEFINED 0 0, metrics UNDEFINED 0 0, metrics UNDEFINED 0 0,
     metrics UNDEFINED 0 0, metrics UNDEFINED 0 0, metrics UNDEFINED 0 0, metrics UNDEFINED 0 0,
     metrics UNDEFINED 0 0, metrics UNDEFINED 0 0, metrics UNDEFINED 0 0, metrics UNDEFINED 0 0,
     metrics UNDEFINED 0 0, metrics UNDEFINED 0 0, metrics UNDEFINED 0 0, metrics UNDEFINED 0 0,
     metrics UNDEFINED 0 0, metrics UNDEFINED 0 0, metrics UNDEFINED 0 0, metrics UNDEFINED 0 0,
     metrics UNDEFINED 0 0, metrics UNDEFINED 0 0, metrics UNDEFINED 0 0, metrics UNDEFINED 0 0,
     metrics UNDEFINED 0 0, metrics UNDEFINED 0 0, metrics UNDEFINED 0 0, metrics UNDEFINED 0 0,
     metrics UNDEFINED 0 0, metrics UNDEFINED 0 0, metrics UNDEFINED 0 0, metrics UNDEFINED 0 0,
     metrics UNDEFINED 0 0, metrics UNDEFINED 0 0, metrics UNDEFINED 0 0, metrics UNDEFINED 0 0,
     metrics UNDEFINED 0 0, metrics UNDEFINED 0 0, metrics UNDEFINED 0 0, metrics UNDEFINED 0 0,
     metrics UNDEFINED 0 0, metrics UNDEFINED 0 0, metrics UNDEFINED 0 0, metrics UNDEFINED 0 0,
     metrics UNDEFINED 0 0, metrics UNDEFINED 0 0, metrics UNDEFINED 0 0, metrics UNDEFINED 0 0,
     metrics UNDEFINED 0 0, metrics UNDEFINED 0 0, metrics UNDEFINED 0 0, metrics UNDEFINED 0 0,
     metrics UNDEFINED 0 0, metrics UNDEFINED 0 0, metrics 32000 3 1, metrics 700 7 1, metrics 700 7 1,
     metrics ZERO 2 0, metrics 700 6 1, metrics UNDEFINED 0 0, metrics UNDEFINED 0 0, metrics UNDEFINED 0 0,
     metrics UNDEFINED 0 0, metrics UNDEFINED 0 0, metrics UNDEFINED 0 0, metrics UNDEFINED 0 0,
     metrics UNDEFINED 0 0, metrics UNDEFINED 0 0, metrics ZERO 0 0, metrics 5000 1 0]"

definition tangerine_whistle_metrics :: "evmc_instruction_metrics list" where
  "tangerine_whistle_metrics = tangerine_whistle_metrics_lo @ tangerine_whistle_metrics_hi"

definition homestead_metrics_lo :: "evmc_instruction_metrics list" where
  "homestead_metrics_lo =
   [metrics ZERO 0 0, metrics VERYLOW 2 1, metrics LOW 2 1, metrics VERYLOW 2 1, metrics LOW 2 1,
     metrics LOW 2 1, metrics LOW 2 1, metrics LOW 2 1, metrics MID 3 1, metrics MID 3 1, metrics HIGH 2 1,
     metrics LOW 2 1, metrics UNDEFINED 0 0, metrics UNDEFINED 0 0, metrics UNDEFINED 0 0,
     metrics UNDEFINED 0 0, metrics VERYLOW 2 1, metrics VERYLOW 2 1, metrics VERYLOW 2 1, metrics VERYLOW 2 1,
     metrics VERYLOW 2 1, metrics VERYLOW 1 1, metrics VERYLOW 2 1, metrics VERYLOW 2 1, metrics VERYLOW 2 1,
     metrics VERYLOW 1 1, metrics VERYLOW 2 1, metrics UNDEFINED 0 0, metrics UNDEFINED 0 0,
     metrics UNDEFINED 0 0, metrics UNDEFINED 0 0, metrics UNDEFINED 0 0, metrics 30 2 1,
     metrics UNDEFINED 0 0, metrics UNDEFINED 0 0, metrics UNDEFINED 0 0, metrics UNDEFINED 0 0,
     metrics UNDEFINED 0 0, metrics UNDEFINED 0 0, metrics UNDEFINED 0 0, metrics UNDEFINED 0 0,
     metrics UNDEFINED 0 0, metrics UNDEFINED 0 0, metrics UNDEFINED 0 0, metrics UNDEFINED 0 0,
     metrics UNDEFINED 0 0, metrics UNDEFINED 0 0, metrics UNDEFINED 0 0, metrics BASE 0 1, metrics 20 1 1,
     metrics BASE 0 1, metrics BASE 0 1, metrics BASE 0 1, metrics VERYLOW 1 1, metrics BASE 0 1,
     metrics VERYLOW 3 0, metrics BASE 0 1, metrics VERYLOW 3 0, metrics BASE 0 1, metrics 20 1 1,
     metrics 20 4 0, metrics UNDEFINED 0 0, metrics UNDEFINED 0 0, metrics UNDEFINED 0 0, metrics 20 1 1,
     metrics BASE 0 1, metrics BASE 0 1, metrics BASE 0 1, metrics BASE 0 1, metrics BASE 0 1,
     metrics UNDEFINED 0 0, metrics UNDEFINED 0 0, metrics UNDEFINED 0 0, metrics UNDEFINED 0 0,
     metrics UNDEFINED 0 0, metrics UNDEFINED 0 0, metrics UNDEFINED 0 0, metrics UNDEFINED 0 0,
     metrics UNDEFINED 0 0, metrics UNDEFINED 0 0, metrics BASE 1 0, metrics VERYLOW 1 1, metrics VERYLOW 2 0,
     metrics VERYLOW 2 0, metrics 50 1 1, metrics 0 2 0, metrics MID 1 0, metrics HIGH 2 0, metrics BASE 0 1,
     metrics BASE 0 1, metrics BASE 0 1, metrics 1 0 0, metrics UNDEFINED 0 0, metrics UNDEFINED 0 0,
     metrics UNDEFINED 0 0, metrics UNDEFINED 0 0, metrics VERYLOW 0 1, metrics VERYLOW 0 1,
     metrics VERYLOW 0 1, metrics VERYLOW 0 1, metrics VERYLOW 0 1, metrics VERYLOW 0 1, metrics VERYLOW 0 1,
     metrics VERYLOW 0 1, metrics VERYLOW 0 1, metrics VERYLOW 0 1, metrics VERYLOW 0 1, metrics VERYLOW 0 1,
     metrics VERYLOW 0 1, metrics VERYLOW 0 1, metrics VERYLOW 0 1, metrics VERYLOW 0 1, metrics VERYLOW 0 1,
     metrics VERYLOW 0 1, metrics VERYLOW 0 1, metrics VERYLOW 0 1, metrics VERYLOW 0 1, metrics VERYLOW 0 1,
     metrics VERYLOW 0 1, metrics VERYLOW 0 1, metrics VERYLOW 0 1, metrics VERYLOW 0 1, metrics VERYLOW 0 1,
     metrics VERYLOW 0 1, metrics VERYLOW 0 1, metrics VERYLOW 0 1, metrics VERYLOW 0 1, metrics VERYLOW 0 1]"

definition homestead_metrics_hi :: "evmc_instruction_metrics list" where
  "homestead_metrics_hi =
   [metrics VERYLOW 1 2, metrics VERYLOW 2 3, metrics VERYLOW 3 4, metrics VERYLOW 4 5, metrics VERYLOW 5 6,
     metrics VERYLOW 6 7, metrics VERYLOW 7 8, metrics VERYLOW 8 9, metrics VERYLOW 9 10,
     metrics VERYLOW 10 11, metrics VERYLOW 11 12, metrics VERYLOW 12 13, metrics VERYLOW 13 14,
     metrics VERYLOW 14 15, metrics VERYLOW 15 16, metrics VERYLOW 16 17, metrics VERYLOW 2 2,
     metrics VERYLOW 3 3, metrics VERYLOW 4 4, metrics VERYLOW 5 5, metrics VERYLOW 6 6, metrics VERYLOW 7 7,
     metrics VERYLOW 8 8, metrics VERYLOW 9 9, metrics VERYLOW 10 10, metrics VERYLOW 11 11,
     metrics VERYLOW 12 12, metrics VERYLOW 13 13, metrics VERYLOW 14 14, metrics VERYLOW 15 15,
     metrics VERYLOW 16 16, metrics VERYLOW 17 17, metrics (1 * 375) 2 0, metrics (2 * 375) 3 0,
     metrics (3 * 375) 4 0, metrics (4 * 375) 5 0, metrics (5 * 375) 6 0, metrics UNDEFINED 0 0,
     metrics UNDEFINED 0 0, metrics UNDEFINED 0 0, metrics UNDEFINED 0 0, metrics UNDEFINED 0 0,
     metrics UNDEFINED 0 0, metrics UNDEFINED 0 0, metrics UNDEFINED 0 0, metrics UNDEFINED 0 0,
     metrics UNDEFINED 0 0, metrics UNDEFINED 0 0, metrics UNDEFINED 0 0, metrics UNDEFINED 0 0,
     metrics UNDEFINED 0 0, metrics UNDEFINED 0 0, metrics UNDEFINED 0 0, metrics UNDEFINED 0 0,
     metrics UNDEFINED 0 0, metrics UNDEFINED 0 0, metrics UNDEFINED 0 0, metrics UNDEFINED 0 0,
     metrics UNDEFINED 0 0, metrics UNDEFINED 0 0, metrics UNDEFINED 0 0, metrics UNDEFINED 0 0,
     metrics UNDEFINED 0 0, metrics UNDEFINED 0 0, metrics UNDEFINED 0 0, metrics UNDEFINED 0 0,
     metrics UNDEFINED 0 0, metrics UNDEFINED 0 0, metrics UNDEFINED 0 0, metrics UNDEFINED 0 0,
     metrics UNDEFINED 0 0, metrics UNDEFINED 0 0, metrics UNDEFINED 0 0, metrics UNDEFINED 0 0,
     metrics UNDEFINED 0 0, metrics UNDEFINED 0 0, metrics UNDEFINED 0 0, metrics UNDEFINED 0 0,
     metrics UNDEFINED 0 0, metrics UNDEFINED 0 0, metrics UNDEFINED 0 0, metrics UNDEFINED 0 0,
     metrics UNDEFINED 0 0, metrics UNDEFINED 0 0, metrics UNDEFINED 0 0, metrics UNDEFINED 0 0,
     metrics UNDEFINED 0 0, metrics UNDEFINED 0 0, metrics UNDEFINED 0 0, metrics UNDEFINED 0 0,
     metrics UNDEFINED 0 0, metrics UNDEFINED 0 0, metrics UNDEFINED 0 0, metrics UNDEFINED 0 0,
     metrics UNDEFINED 0 0, metrics UNDEFINED 0 0, metrics UNDEFINED 0 0, metrics UNDEFINED 0 0,
     metrics UNDEFINED 0 0, metrics UNDEFINED 0 0, metrics UNDEFINED 0 0, metrics UNDEFINED 0 0,
     metrics UNDEFINED 0 0, metrics UNDEFINED 0 0, metrics UNDEFINED 0 0, metrics UNDEFINED 0 0,
     metrics UNDEFINED 0 0, metrics UNDEFINED 0 0, metrics UNDEFINED 0 0, metrics UNDEFINED 0 0,
     metrics UNDEFINED 0 0, metrics UNDEFINED 0 0, metrics 32000 3 1, metrics 40 7 1, metrics 40 7 1,
     metrics ZERO 2 0, metrics 40 6 1, metrics UNDEFINED 0 0, metrics UNDEFINED 0 0, metrics UNDEFINED 0 0,
     metrics UNDEFINED 0 0, metrics UNDEFINED 0 0, metrics UNDEFINED 0 0, metrics UNDEFINED 0 0,
     metrics UNDEFINED 0 0, metrics UNDEFINED 0 0, metrics ZERO 0 0, metrics ZERO 1 0]"

definition homestead_metrics :: "evmc_instruction_metrics list" where
  "homestead_metrics = homestead_metrics_lo @ homestead_metrics_hi"

definition frontier_metrics_lo :: "evmc_instruction_metrics list" where
  "frontier_metrics_lo =
   [metrics ZERO 0 0, metrics VERYLOW 2 1, metrics LOW 2 1, metrics VERYLOW 2 1, metrics LOW 2 1,
     metrics LOW 2 1, metrics LOW 2 1, metrics LOW 2 1, metrics MID 3 1, metrics MID 3 1, metrics HIGH 2 1,
     metrics LOW 2 1, metrics UNDEFINED 0 0, metrics UNDEFINED 0 0, metrics UNDEFINED 0 0,
     metrics UNDEFINED 0 0, metrics VERYLOW 2 1, metrics VERYLOW 2 1, metrics VERYLOW 2 1, metrics VERYLOW 2 1,
     metrics VERYLOW 2 1, metrics VERYLOW 1 1, metrics VERYLOW 2 1, metrics VERYLOW 2 1, metrics VERYLOW 2 1,
     metrics VERYLOW 1 1, metrics VERYLOW 2 1, metrics UNDEFINED 0 0, metrics UNDEFINED 0 0,
     metrics UNDEFINED 0 0, metrics UNDEFINED 0 0, metrics UNDEFINED 0 0, metrics 30 2 1,
     metrics UNDEFINED 0 0, metrics UNDEFINED 0 0, metrics UNDEFINED 0 0, metrics UNDEFINED 0 0,
     metrics UNDEFINED 0 0, metrics UNDEFINED 0 0, metrics UNDEFINED 0 0, metrics UNDEFINED 0 0,
     metrics UNDEFINED 0 0, metrics UNDEFINED 0 0, metrics UNDEFINED 0 0, metrics UNDEFINED 0 0,
     metrics UNDEFINED 0 0, metrics UNDEFINED 0 0, metrics UNDEFINED 0 0, metrics BASE 0 1, metrics 20 1 1,
     metrics BASE 0 1, metrics BASE 0 1, metrics BASE 0 1, metrics VERYLOW 1 1, metrics BASE 0 1,
     metrics VERYLOW 3 0, metrics BASE 0 1, metrics VERYLOW 3 0, metrics BASE 0 1, metrics 20 1 1,
     metrics 20 4 0, metrics UNDEFINED 0 0, metrics UNDEFINED 0 0, metrics UNDEFINED 0 0, metrics 20 1 1,
     metrics BASE 0 1, metrics BASE 0 1, metrics BASE 0 1, metrics BASE 0 1, metrics BASE 0 1,
     metrics UNDEFINED 0 0, metrics UNDEFINED 0 0, metrics UNDEFINED 0 0, metrics UNDEFINED 0 0,
     metrics UNDEFINED 0 0, metrics UNDEFINED 0 0, metrics UNDEFINED 0 0, metrics UNDEFINED 0 0,
     metrics UNDEFINED 0 0, metrics UNDEFINED 0 0, metrics BASE 1 0, metrics VERYLOW 1 1, metrics VERYLOW 2 0,
     metrics VERYLOW 2 0, metrics 50 1 1, metrics 0 2 0, metrics MID 1 0, metrics HIGH 2 0, metrics BASE 0 1,
     metrics BASE 0 1, metrics BASE 0 1, metrics 1 0 0, metrics UNDEFINED 0 0, metrics UNDEFINED 0 0,
     metrics UNDEFINED 0 0, metrics UNDEFINED 0 0, metrics VERYLOW 0 1, metrics VERYLOW 0 1,
     metrics VERYLOW 0 1, metrics VERYLOW 0 1, metrics VERYLOW 0 1, metrics VERYLOW 0 1, metrics VERYLOW 0 1,
     metrics VERYLOW 0 1, metrics VERYLOW 0 1, metrics VERYLOW 0 1, metrics VERYLOW 0 1, metrics VERYLOW 0 1,
     metrics VERYLOW 0 1, metrics VERYLOW 0 1, metrics VERYLOW 0 1, metrics VERYLOW 0 1, metrics VERYLOW 0 1,
     metrics VERYLOW 0 1, metrics VERYLOW 0 1, metrics VERYLOW 0 1, metrics VERYLOW 0 1, metrics VERYLOW 0 1,
     metrics VERYLOW 0 1, metrics VERYLOW 0 1, metrics VERYLOW 0 1, metrics VERYLOW 0 1, metrics VERYLOW 0 1,
     metrics VERYLOW 0 1, metrics VERYLOW 0 1, metrics VERYLOW 0 1, metrics VERYLOW 0 1, metrics VERYLOW 0 1]"

definition frontier_metrics_hi :: "evmc_instruction_metrics list" where
  "frontier_metrics_hi =
   [metrics VERYLOW 1 2, metrics VERYLOW 2 3, metrics VERYLOW 3 4, metrics VERYLOW 4 5, metrics VERYLOW 5 6,
     metrics VERYLOW 6 7, metrics VERYLOW 7 8, metrics VERYLOW 8 9, metrics VERYLOW 9 10,
     metrics VERYLOW 10 11, metrics VERYLOW 11 12, metrics VERYLOW 12 13, metrics VERYLOW 13 14,
     metrics VERYLOW 14 15, metrics VERYLOW 15 16, metrics VERYLOW 16 17, metrics VERYLOW 2 2,
     metrics VERYLOW 3 3, metrics VERYLOW 4 4, metrics VERYLOW 5 5, metrics VERYLOW 6 6, metrics VERYLOW 7 7,
     metrics VERYLOW 8 8, metrics VERYLOW 9 9, metrics VERYLOW 10 10, metrics VERYLOW 11 11,
     metrics VERYLOW 12 12, metrics VERYLOW 13 13, metrics VERYLOW 14 14, metrics VERYLOW 15 15,
     metrics VERYLOW 16 16, metrics VERYLOW 17 17, metrics (1 * 375) 2 0, metrics (2 * 375) 3 0,
     metrics (3 * 375) 4 0, metrics (4 * 375) 5 0, metrics (5 * 375) 6 0, metrics UNDEFINED 0 0,
     metrics UNDEFINED 0 0, metrics UNDEFINED 0 0, metrics UNDEFINED 0 0, metrics UNDEFINED 0 0,
     metrics UNDEFINED 0 0, metrics UNDEFINED 0 0, metrics UNDEFINED 0 0, metrics UNDEFINED 0 0,
     metrics UNDEFINED 0 0, metrics UNDEFINED 0 0, metrics UNDEFINED 0 0, metrics UNDEFINED 0 0,
     metrics UNDEFINED 0 0, metrics UNDEFINED 0 0, metrics UNDEFINED 0 0, metrics UNDEFINED 0 0,
     metrics UNDEFINED 0 0, metrics UNDEFINED 0 0, metrics UNDEFINED 0 0, metrics UNDEFINED 0 0,
     metrics UNDEFINED 0 0, metrics UNDEFINED 0 0, metrics UNDEFINED 0 0, metrics UNDEFINED 0 0,
     metrics UNDEFINED 0 0, metrics UNDEFINED 0 0, metrics UNDEFINED 0 0, metrics UNDEFINED 0 0,
     metrics UNDEFINED 0 0, metrics UNDEFINED 0 0, metrics UNDEFINED 0 0, metrics UNDEFINED 0 0,
     metrics UNDEFINED 0 0, metrics UNDEFINED 0 0, metrics UNDEFINED 0 0, metrics UNDEFINED 0 0,
     metrics UNDEFINED 0 0, metrics UNDEFINED 0 0, metrics UNDEFINED 0 0, metrics UNDEFINED 0 0,
     metrics UNDEFINED 0 0, metrics UNDEFINED 0 0, metrics UNDEFINED 0 0, metrics UNDEFINED 0 0,
     metrics UNDEFINED 0 0, metrics UNDEFINED 0 0, metrics UNDEFINED 0 0, metrics UNDEFINED 0 0,
     metrics UNDEFINED 0 0, metrics UNDEFINED 0 0, metrics UNDEFINED 0 0, metrics UNDEFINED 0 0,
     metrics UNDEFINED 0 0, metrics UNDEFINED 0 0, metrics UNDEFINED 0 0, metrics UNDEFINED 0 0,
     metrics UNDEFINED 0 0, metrics UNDEFINED 0 0, metrics UNDEFINED 0 0, metrics UNDEFINED 0 0,
     metrics UNDEFINED 0 0, metrics UNDEFINED 0 0, metrics UNDEFINED 0 0, metrics UNDEFINED 0 0,
     metrics UNDEFINED 0 0, metrics UNDEFINED 0 0, metrics UNDEFINED 0 0, metrics UNDEFINED 0 0,
     metrics UNDEFINED 0 0, metrics UNDEFINED 0 0, metrics UNDEFINED 0 0, metrics UNDEFINED 0 0,
     metrics UNDEFINED 0 0, metrics UNDEFINED 0 0, metrics 32000 3 1, metrics 40 7 1, metrics 40 7 1,
     metrics ZERO 2 0, metrics UNDEFINED 0 0, metrics UNDEFINED 0 0, metrics UNDEFINED 0 0,
     metrics UNDEFINED 0 0, metrics UNDEFINED 0 0, metrics UNDEFINED 0 0, metrics UNDEFINED 0 0,
     metrics UNDEFINED 0 0, metrics UNDEFINED 0 0, metrics UNDEFINED 0 0, metrics ZERO 0 0, metrics ZERO 1 0]"

definition frontier_metrics :: "evmc_instruction_metrics list" where
  "frontier_metrics = frontier_metrics_lo @ frontier_metrics_hi"

definition istanbul_names_lo :: "string option list" where
  "istanbul_names_lo =
   [Some ''STOP'', Some ''ADD'', Some ''MUL'', Some ''SUB'', Some ''DIV'', Some ''SDIV'', Some ''MOD'',
     Some ''SMOD'', Some ''ADDMOD'', Some ''MULMOD'', Some ''EXP'', Some ''SIGNEXTEND'', None, None, None,
     None, Some ''LT'', Some ''GT'', Some ''SLT'', Some ''SGT'', Some ''EQ'', Some ''ISZERO'', Some ''AND'',
     Some ''OR'', Some ''XOR'', Some ''NOT'', Some ''BYTE'', Some ''SHL'', Some ''SHR'', Some ''SAR'', None,
     None, Some ''SHA3'', None, None, None, None, None, None, None, None, None, None, None, None, None, None,
     None, Some ''ADDRESS'', Some ''BALANCE'', Some ''ORIGIN'', Some ''CALLER'', Some ''CALLVALUE'',
     Some ''CALLDATALOAD'', Some ''CALLDATASIZE'', Some ''CALLDATACOPY'', Some ''CODESIZE'', Some ''CODECOPY'',
     Some ''GASPRICE'', Some ''EXTCODESIZE'', Some ''EXTCODECOPY'', Some ''RETURNDATASIZE'',
     Some ''RETURNDATACOPY'', Some ''EXTCODEHASH'', Some ''BLOCKHASH'', Some ''COINBASE'', Some ''TIMESTAMP'',
     Some ''NUMBER'', Some ''DIFFICULTY'', Some ''GASLIMIT'', None, None, None, None, None, None, None, None,
     None, None, Some ''POP'', Some ''MLOAD'', Some ''MSTORE'', Some ''MSTORE8'', Some ''SLOAD'',
     Some ''SSTORE'', Some ''JUMP'', Some ''JUMPI'', Some ''PC'', Some ''MSIZE'', Some ''GAS'',
     Some ''JUMPDEST'', None, None, None, None, Some ''PUSH1'', Some ''PUSH2'', Some ''PUSH3'', Some ''PUSH4'',
     Some ''PUSH5'', Some ''PUSH6'', Some ''PUSH7'', Some ''PUSH8'', Some ''PUSH9'', Some ''PUSH10'',
     Some ''PUSH11'', Some ''PUSH12'', Some ''PUSH13'', Some ''PUSH14'', Some ''PUSH15'', Some ''PUSH16'',
     Some ''PUSH17'', Some ''PUSH18'', Some ''PUSH19'', Some ''PUSH20'', Some ''PUSH21'', Some ''PUSH22'',
     Some ''PUSH23'', Some ''PUSH24'', Some ''PUSH25'', Some ''PUSH26'', Some ''PUSH27'', Some ''PUSH28'',
     Some ''PUSH29'', Some ''PUSH30'', Some ''PUSH31'', Some ''PUSH32'']"

definition istanbul_names_hi :: "string option list" where
  "istanbul_names_hi =
   [Some ''DUP1'', Some ''DUP2'', Some ''DUP3'', Some ''DUP4'', Some ''DUP5'', Some ''DUP6'', Some ''DUP7'',
     Some ''DUP8'', Some ''DUP9'', Some ''DUP10'', Some ''DUP11'', Some ''DUP12'', Some ''DUP13'',
     Some ''DUP14'', Some ''DUP15'', Some ''DUP16'', Some ''SWAP1'', Some ''SWAP2'', Some ''SWAP3'',
     Some ''SWAP4'', Some ''SWAP5'', Some ''SWAP6'', Some ''SWAP7'', Some ''SWAP8'', Some ''SWAP9'',
     Some ''SWAP10'', Some ''SWAP11'', Some ''SWAP12'', Some ''SWAP13'', Some ''SWAP14'', Some ''SWAP15'',
     Some ''SWAP16'', Some ''LOG0'', Some ''LOG1'', Some ''LOG2'', Some ''LOG3'', Some ''LOG4'', None, None,
     None, None, None, None, None, None, None, None, None, None, None, None, None, None, None, None, None,
     None, None, None, None, None, None, None, None, None, None, None, None, None, None, None, None, None,
     None, None, None, None, None, None, None, None, None, None, None, None, None, None, None, None, None,
     None, None, None, None, None, None, None, None, None, None, None, None, None, None, None, None, None,
     None, None, None, None, None, Some ''CREATE'', Some ''CALL'', Some ''CALLCODE'', Some ''RETURN'',
     Some ''DELEGATECALL'', Some ''CREATE2'', None, None, None, None, Some ''STATICCALL'', None, None,
     Some ''REVERT'', Some ''INVALID'', Some ''SELFDESTRUCT'']"

definition istanbul_names :: "string option list" where
  "istanbul_names = istanbul_names_lo @ istanbul_names_hi"

definition constantinople_names_lo :: "string option list" where
  "constantinople_names_lo =
   [Some ''STOP'', Some ''ADD'', Some ''MUL'', Some ''SUB'', Some ''DIV'', Some ''SDIV'', Some ''MOD'',
     Some ''SMOD'', Some ''ADDMOD'', Some ''MULMOD'', Some ''EXP'', Some ''SIGNEXTEND'', None, None, None,
     None, Some ''LT'', Some ''GT'', Some ''SLT'', Some ''SGT'', Some ''EQ'', Some ''ISZERO'', Some ''AND'',
     Some ''OR'', Some ''XOR'', Some ''NOT'', Some ''BYTE'', Some ''SHL'', Some ''SHR'', Some ''SAR'', None,
     None, Some ''SHA3'', None, None, None, None, None, None, None, None, None, None, None, None, None, None,
     None, Some ''ADDRESS'', Some ''BALANCE'', Some ''ORIGIN'', Some ''CALLER'', Some ''CALLVALUE'',
     Some ''CALLDATALOAD'', Some ''CALLDATASIZE'', Some ''CALLDATACOPY'', Some ''CODESIZE'', Some ''CODECOPY'',
     Some ''GASPRICE'', Some ''EXTCODESIZE'', Some ''EXTCODECOPY'', Some ''RETURNDATASIZE'',
     Some ''RETURNDATACOPY'', Some ''EXTCODEHASH'', Some ''BLOCKHASH'', Some ''COINBASE'', Some ''TIMESTAMP'',
     Some ''NUMBER'', Some ''DIFFICULTY'', Some ''GASLIMIT'', None, None, None, None, None, None, None, None,
     None, None, Some ''POP'', Some ''MLOAD'', Some ''MSTORE'', Some ''MSTORE8'', Some ''SLOAD'',
     Some ''SSTORE'', Some ''JUMP'', Some ''JUMPI'', Some ''PC'', Some ''MSIZE'', Some ''GAS'',
     Some ''JUMPDEST'', None, None, None, None, Some ''PUSH1'', Some ''PUSH2'', Some ''PUSH3'', Some ''PUSH4'',
     Some ''PUSH5'', Some ''PUSH6'', Some ''PUSH7'', Some ''PUSH8'', Some ''PUSH9'', Some ''PUSH10'',
     Some ''PUSH11'', Some ''PUSH12'', Some ''PUSH13'', Some ''PUSH14'', Some ''PUSH15'', Some ''PUSH16'',
     Some ''PUSH17'', Some ''PUSH18'', Some ''PUSH19'', Some ''PUSH20'', Some ''PUSH21'', Some ''PUSH22'',
     Some ''PUSH23'', Some ''PUSH24'', Some ''PUSH25'', Some ''PUSH26'', Some ''PUSH27'', Some ''PUSH28'',
     Some ''PUSH29'', Some ''PUSH30'', Some ''PUSH31'', Some ''PUSH32'']"

definition constantinople_names_hi :: "string option list" where
  "constantinople_names_hi =
   [Some ''DUP1'', Some ''DUP2'', Some ''DUP3'', Some ''DUP4'', Some ''DUP5'', Some ''DUP6'', Some ''DUP7'',
     Some ''DUP8'', Some ''DUP9'', Some ''DUP10'', Some ''DUP11'', Some ''DUP12'', Some ''DUP13'',
     Some ''DUP14'', Some ''DUP15'', Some ''DUP16'', Some ''SWAP1'', Some ''SWAP2'', Some ''SWAP3'',
     Some ''SWAP4'', Some ''SWAP5'', Some ''SWAP6'', Some ''SWAP7'', Some ''SWAP8'', Some ''SWAP9'',
     Some ''SWAP10'', Some ''SWAP11'', Some ''SWAP12'', Some ''SWAP13'', Some ''SWAP14'', Some ''SWAP15'',
     Some ''SWAP16'', Some ''LOG0'', Some ''LOG1'', Some ''LOG2'', Some ''LOG3'', Some ''LOG4'', None, None,
     None, None, None, None, None, None, None, None, None, None, None, None, None, None, None, None, None,
     None, None, None, None, None, None, None, None, None, None, None, None, None, None, None, None, None,
     None, None, None, None, None, None, None, None, None, None, None, None, None, None, None, None, None,
     None, None, None, None, None, None, None, None, None, None, None, None, None, None, None, None, None,
     None, None, None, None, None, Some ''CREATE'', Some ''CALL'', Some ''CALLCODE'', Some ''RETURN'',
     Some ''DELEGATECALL'', Some ''CREATE2'', None, None, None, None, Some ''STATICCALL'', None, None,
     Some ''REVERT'', Some ''INVALID'', Some ''SELFDESTRUCT'']"

definition constantinople_names :: "string option list" where
  "constantinople_names = constantinople_names_lo @ constantinople_names_hi"

definition byzantium_names_lo :: "string option list" where
  "byzantium_names_lo =
   [Some ''STOP'', Some ''ADD'', Some ''MUL'', Some ''SUB'', Some ''DIV'', Some ''SDIV'', Some ''MOD'',
     Some ''SMOD'', Some ''ADDMOD'', Some ''MULMOD'', Some ''EXP'', Some ''SIGNEXTEND'', None, None, None,
     None, Some ''LT'', Some ''GT'', Some ''SLT'', Some ''SGT'', Some ''EQ'', Some ''ISZERO'', Some ''AND'',
     Some ''OR'', Some ''XOR'', Some ''NOT'', Some ''BYTE'', None, None, None, None, None, Some ''SHA3'', None,
     None, None, None, None, None, None, None, None, None, None, None, None, None, None, Some ''ADDRESS'',
     Some ''BALANCE'', Some ''ORIGIN'', Some ''CALLER'', Some ''CALLVALUE'', Some ''CALLDATALOAD'',
     Some ''CALLDATASIZE'', Some ''CALLDATACOPY'', Some ''CODESIZE'', Some ''CODECOPY'', Some ''GASPRICE'',
     Some ''EXTCODESIZE'', Some ''EXTCODECOPY'', Some ''RETURNDATASIZE'', Some ''RETURNDATACOPY'', None,
     Some ''BLOCKHASH'', Some ''COINBASE'', Some ''TIMESTAMP'', Some ''NUMBER'', Some ''DIFFICULTY'',
     Some ''GASLIMIT'', None, None, None, None, None, None, None, None, None, None, Some ''POP'',
     Some ''MLOAD'', Some ''MSTORE'', Some ''MSTORE8'', Some ''SLOAD'', Some ''SSTORE'', Some ''JUMP'',
     Some ''JUMPI'', Some ''PC'', Some ''MSIZE'', Some ''GAS'', Some ''JUMPDEST'', None, None, None, None,
     Some ''PUSH1'', Some ''PUSH2'', Some ''PUSH3'', Some ''PUSH4'', Some ''PUSH5'', Some ''PUSH6'',
     Some ''PUSH7'', Some ''PUSH8'', Some ''PUSH9'', Some ''PUSH10'', Some ''PUSH11'', Some ''PUSH12'',
     Some ''PUSH13'', Some ''PUSH14'', Some ''PUSH15'', Some ''PUSH16'', Some ''PUSH17'', Some ''PUSH18'',
     Some ''PUSH19'', Some ''PUSH20'', Some ''PUSH21'', Some ''PUSH22'', Some ''PUSH23'', Some ''PUSH24'',
     Some ''PUSH25'', Some ''PUSH26'', Some ''PUSH27'', Some ''PUSH28'', Some ''PUSH29'', Some ''PUSH30'',
     Some ''PUSH31'', Some ''PUSH32'']"

definition byzantium_names_hi :: "string option list" where
  "byzantium_names_hi =
   [Some ''DUP1'', Some ''DUP2'', Some ''DUP3'', Some ''DUP4'', Some ''DUP5'', Some ''DUP6'', Some ''DUP7'',
     Some ''DUP8'', Some ''DUP9'', Some ''DUP10'', Some ''DUP11'', Some ''DUP12'', Some ''DUP13'',
     Some ''DUP14'', Some ''DUP15'', Some ''DUP16'', Some ''SWAP1'', Some ''SWAP2'', Some ''SWAP3'',
     Some ''SWAP4'', Some ''SWAP5'', Some ''SWAP6'', Some ''SWAP7'', Some ''SWAP8'', Some ''SWAP9'',
     Some ''SWAP10'', Some ''SWAP11'', Some ''SWAP12'', Some ''SWAP13'', Some ''SWAP14'', Some ''SWAP15'',
     Some ''SWAP16'', Some ''LOG0'', Some ''LOG1'', Some ''LOG2'', Some ''LOG3'', Some ''LOG4'', None, None,
     None, None, None, None, None, None, None, None, None, None, None, None, None, None, None, None, None,
     None, None, None, None, None, None, None, None, None, None, None, None, None, None, None, None, None,
     None, None, None, None, None, None, None, None, None, None, None, None, None, None, None, None, None,
     None, None, None, None, None, None, None, None, None, None, None, None, None, None, None, None, None,
     None, None, None, None, None, Some ''CREATE'', Some ''CALL'', Some ''CALLCODE'', Some ''RETURN'',
     Some ''DELEGATECALL'', None, None, None, None, None, Some ''STATICCALL'', None, None, Some ''REVERT'',
     Some ''INVALID'', Some ''SELFDESTRUCT'']"

definition byzantium_names :: "string option list" where
  "byzantium_names = byzantium_names_lo @ byzantium_names_hi"

definition homestead_names_lo :: "string option list" where
  "homestead_names_lo =
   [Some ''STOP'', Some ''ADD'', Some ''MUL'', Some ''SUB'', Some ''DIV'', Some ''SDIV'', Some ''MOD'',
     Some ''SMOD'', Some ''ADDMOD'', Some ''MULMOD'', Some ''EXP'', Some ''SIGNEXTEND'', None, None, None,
     None, Some ''LT'', Some ''GT'', Some ''SLT'', Some ''SGT'', Some ''EQ'', Some ''ISZERO'', Some ''AND'',
     Some ''OR'', Some ''XOR'', Some ''NOT'', Some ''BYTE'', None, None, None, None, None, Some ''SHA3'', None,
     None, None, None, None, None, None, None, None, None, None, None, None, None, None, Some ''ADDRESS'',
     Some ''BALANCE'', Some ''ORIGIN'', Some ''CALLER'', Some ''CALLVALUE'', Some ''CALLDATALOAD'',
     Some ''CALLDATASIZE'', Some ''CALLDATACOPY'', Some ''CODESIZE'', Some ''CODECOPY'', Some ''GASPRICE'',
     Some ''EXTCODESIZE'', Some ''EXTCODECOPY'', None, None, None, Some ''BLOCKHASH'', Some ''COINBASE'',
     Some ''TIMESTAMP'', Some ''NUMBER'', Some ''DIFFICULTY'', Some ''GASLIMIT'', None, None, None, None, None,
     None, None, None, None, None, Some ''POP'', Some ''MLOAD'', Some ''MSTORE'', Some ''MSTORE8'',
     Some ''SLOAD'', Some ''SSTORE'', Some ''JUMP'', Some ''JUMPI'', Some ''PC'', Some ''MSIZE'', Some ''GAS'',
     Some ''JUMPDEST'', None, None, None, None, Some ''PUSH1'', Some ''PUSH2'', Some ''PUSH3'', Some ''PUSH4'',
     Some ''PUSH5'', Some ''PUSH6'', Some ''PUSH7'', Some ''PUSH8'', Some ''PUSH9'', Some ''PUSH10'',
     Some ''PUSH11'', Some ''PUSH12'', Some ''PUSH13'', Some ''PUSH14'', Some ''PUSH15'', Some ''PUSH16'',
     Some ''PUSH17'', Some ''PUSH18'', Some ''PUSH19'', Some ''PUSH20'', Some ''PUSH21'', Some ''PUSH22'',
     Some ''PUSH23'', Some ''PUSH24'', Some ''PUSH25'', Some ''PUSH26'', Some ''PUSH27'', Some ''PUSH28'',
     Some ''PUSH29'', Some ''PUSH30'', Some ''PUSH31'', Some ''PUSH32'']"

definition homestead_names_hi :: "string option list" where
  "homestead_names_hi =
   [Some ''DUP1'', Some ''DUP2'', Some ''DUP3'', Some ''DUP4'', Some ''DUP5'', Some ''DUP6'', Some ''DUP7'',
     Some ''DUP8'', Some ''DUP9'', Some ''DUP10'', Some ''DUP11'', Some ''DUP12'', Some ''DUP13'',
     Some ''DUP14'', Some ''DUP15'', Some ''DUP16'', Some ''SWAP1'', Some ''SWAP2'', Some ''SWAP3'',
     Some ''SWAP4'', Some ''SWAP5'', Some ''SWAP6'', Some ''SWAP7'', Some ''SWAP8'', Some ''SWAP9'',
     Some ''SWAP10'', Some ''SWAP11'', Some ''SWAP12'', Some ''SWAP13'', Some ''SWAP14'', Some ''SWAP15'',
     Some ''SWAP16'', Some ''LOG0'', Some ''LOG1'', Some ''LOG2'', Some ''LOG3'', Some ''LOG4'', None, None,
     None, None, None, None, None, None, None, None, None, None, None, None, None, None, None, None, None,
     None, None, None, None, None, None, None, None, None, None, None, None, None, None, None, None, None,
     None, None, None, None, None, None, None, None, None, None, None, None, None, None, None, None, None,
     None, None, None, None, None, None, None, None, None, None, None, None, None, None, None, None, None,
     None, None, None, None, None, Some ''CREATE'', Some ''CALL'', Some ''CALLCODE'', Some ''RETURN'',
     Some ''DELEGATECALL'', None, None, None, None, None, None, None, None, None, Some ''INVALID'',
     Some ''SELFDESTRUCT'']"

definition homestead_names :: "string option list" where
  "homestead_names = homestead_names_lo @ homestead_names_hi"

definition frontier_names_lo :: "string option list" where
  "frontier_names_lo =
   [Some ''STOP'', Some ''ADD'', Some ''MUL'', Some ''SUB'', Some ''DIV'', Some ''SDIV'', Some ''MOD'',
     Some ''SMOD'', Some ''ADDMOD'', Some ''MULMOD'', Some ''EXP'', Some ''SIGNEXTEND'', None, None, None,
     None, Some ''LT'', Some ''GT'', Some ''SLT'', Some ''SGT'', Some ''EQ'', Some ''ISZERO'', Some ''AND'',
     Some ''OR'', Some ''XOR'', Some ''NOT'', Some ''BYTE'', None, None, None, None, None, Some ''SHA3'', None,
     None, None, None, None, None, None, None, None, None, None, None, None, None, None, Some ''ADDRESS'',
     Some ''BALANCE'', Some ''ORIGIN'', Some ''CALLER'', Some ''CALLVALUE'', Some ''CALLDATALOAD'',
     Some ''CALLDATASIZE'', Some ''CALLDATACOPY'', Some ''CODESIZE'', Some ''CODECOPY'', Some ''GASPRICE'',
     Some ''EXTCODESIZE'', Some ''EXTCODECOPY'', None, None, None, Some ''BLOCKHASH'', Some ''COINBASE'',
     Some ''TIMESTAMP'', Some ''NUMBER'', Some ''DIFFICULTY'', Some ''GASLIMIT'', None, None, None, None, None,
     None, None, None, None, None, Some ''POP'', Some ''MLOAD'', Some ''MSTORE'', Some ''MSTORE8'',
     Some ''SLOAD'', Some ''SSTORE'', Some ''JUMP'', Some ''JUMPI'', Some ''PC'', Some ''MSIZE'', Some ''GAS'',
     Some ''JUMPDEST'', None, None, None, None, Some ''PUSH1'', Some ''PUSH2'', Some ''PUSH3'', Some ''PUSH4'',
     Some ''PUSH5'', Some ''PUSH6'', Some ''PUSH7'', Some ''PUSH8'', Some ''PUSH9'', Some ''PUSH10'',
     Some ''PUSH11'', Some ''PUSH12'', Some ''PUSH13'', Some ''PUSH14'', Some ''PUSH15'', Some ''PUSH16'',
     Some ''PUSH17'', Some ''PUSH18'', Some ''PUSH19'', Some ''PUSH20'', Some ''PUSH21'', Some ''PUSH22'',
     Some ''PUSH23'', Some ''PUSH24'', Some ''PUSH25'', Some ''PUSH26'', Some ''PUSH27'', Some ''PUSH28'',
     Some ''PUSH29'', Some ''PUSH30'', Some ''PUSH31'', Some ''PUSH32'']"

definition frontier_names_hi :: "string option list" where
  "frontier_names_hi =
   [Some ''DUP1'', Some ''DUP2'', Some ''DUP3'', Some ''DUP4'', Some ''DUP5'', Some ''DUP6'', Some ''DUP7'',
     Some ''DUP8'', Some ''DUP9'', Some ''DUP10'', Some ''DUP11'', Some ''DUP12'', Some ''DUP13'',
     Some ''DUP14'', Some ''DUP15'', Some ''DUP16'', Some ''SWAP1'', Some ''SWAP2'', Some ''SWAP3'',
     Some ''SWAP4'', Some ''SWAP5'', Some ''SWAP6'', Some ''SWAP7'', Some ''SWAP8'', Some ''SWAP9'',
     Some ''SWAP10'', Some ''SWAP11'', Some ''SWAP12'', Some ''SWAP13'', Some ''SWAP14'', Some ''SWAP15'',
     Some ''SWAP16'', Some ''LOG0'', Some ''LOG1'', Some ''LOG2'', Some ''LOG3'', Some ''LOG4'', None, None,
     None, None, None, None, None, None, None, None, None, None, None, None, None, None, None, None, None,
     None, None, None, None, None, None, None, None, None, None, None, None, None, None, None, None, None,
     None, None, None, None, None, None, None, None, None, None, None, None, None, None, None, None, None,
     None, None, None, None, None, None, None, None, None, None, None, None, None, None, None, None, None,
     None, None, None, None, None, Some ''CREATE'', Some ''CALL'', Some ''CALLCODE'', Some ''RETURN'', None,
     None, None, None, None, None, None, None, None, None, Some ''INVALID'', Some ''SELFDESTRUCT'']"

definition frontier_names :: "string option list" where
  "frontier_names = frontier_names_lo @ frontier_names_hi"

definition revision_of :: "nat \<Rightarrow> evmc_revision option" where
  "revision_of n =
     (let revisions =
        [EVMC_FRONTIER, EVMC_HOMESTEAD, EVMC_TANGERINE_WHISTLE, EVMC_SPURIOUS_DRAGON, EVMC_BYZANTIUM,
         EVMC_CONSTANTINOPLE, EVMC_PETERSBURG, EVMC_ISTANBUL]
      in if n < length revisions then Some (revisions ! n) else None)"

definition evmc_get_instruction_metrics_table :: "nat \<Rightarrow> evmc_instruction_metrics list option" where
  "evmc_get_instruction_metrics_table revision =
     (case revision_of revision of
        Some EVMC_ISTANBUL \<Rightarrow> Some istanbul_metrics
      | Some EVMC_PETERSBURG \<Rightarrow> Some constantinople_metrics
      | Some EVMC_CONSTANTINOPLE \<Rightarrow> Some constantinople_metrics
      | Some EVMC_BYZANTIUM \<Rightarrow> Some byzantium_metrics
      | Some EVMC_SPURIOUS_DRAGON \<Rightarrow> Some tangerine_whistle_metrics
      | Some EVMC_TANGERINE_WHISTLE \<Rightarrow> Some tangerine_whistle_metrics
      | Some EVMC_HOMESTEAD \<Rightarrow> Some homestead_metrics
      | Some EVMC_FRONTIER \<Rightarrow> Some frontier_metrics
      | None \<Rightarrow> None)"

definition evmc_get_instruction_names_table :: "nat \<Rightarrow> string option list option" where
  "evmc_get_instruction_names_table revision =
     (case revision_of revision of
        Some EVMC_ISTANBUL \<Rightarrow> Some istanbul_names
      | Some EVMC_PETERSBURG \<Rightarrow> Some constantinople_names
      | Some EVMC_CONSTANTINOPLE \<Rightarrow> Some constantinople_names
      | Some EVMC_BYZANTIUM \<Rightarrow> Some byzantium_names
      | Some EVMC_SPURIOUS_DRAGON \<Rightarrow> Some homestead_names
      | Some EVMC_TANGERINE_WHISTLE \<Rightarrow> Some homestead_names
      | Some EVMC_HOMESTEAD \<Rightarrow> Some homestead_names
      | Some EVMC_FRONTIER \<Rightarrow> Some frontier_names
      | None \<Rightarrow> None)"

section \<open>Comparing rows\<close>

definition defined_row :: "evmc_instruction_metrics \<Rightarrow> bool" where
  "defined_row m \<longleftrightarrow> gas_cost m \<noteq> UNDEFINED"

text \<open>A row and the name of its opcode.\<close>

definition row_named :: "evmc_instruction_metrics \<Rightarrow> string option \<Rightarrow> bool" where
  "row_named m n \<longleftrightarrow>
     (if n = None then m = metrics UNDEFINED 0 0
      else 0 \<le> gas_cost m \<and> gas_cost m < 32768
         \<and> 0 \<le> num_stack_arguments m \<and> num_stack_arguments m \<le> 17
         \<and> 0 \<le> num_stack_returned_items m \<and> num_stack_returned_items m \<le> 17)"

text \<open>A row and what a later revision makes of it.\<close>

definition row_kept :: "evmc_instruction_metrics \<Rightarrow> evmc_instruction_metrics \<Rightarrow> bool" where
  "row_kept m m' \<longleftrightarrow>
     (0 \<le> gas_cost m \<longrightarrow>
      gas_cost m \<le> gas_cost m' \<and> num_stack_arguments m' = num_stack_arguments m
    \<and> num_stack_returned_items m' = num_stack_returned_items m)"

definition name_kept :: "string option \<Rightarrow> string option \<Rightarrow> bool" where
  "name_kept n n' \<longleftrightarrow> n = None \<or> n' = n"

lemmas tiers = UNDEFINED_def ZERO_def BASE_def VERYLOW_def LOW_def MID_def HIGH_def

lemmas metrics_tables =
  istanbul_metrics_lo_def istanbul_metrics_hi_def constantinople_metrics_lo_def constantinople_metrics_hi_def
  byzantium_metrics_lo_def byzantium_metrics_hi_def tangerine_whistle_metrics_lo_def tangerine_whistle_metrics_hi_def
  homestead_metrics_lo_def homestead_metrics_hi_def frontier_metrics_lo_def frontier_metrics_hi_def

lemmas names_tables =
  istanbul_names_lo_def istanbul_names_hi_def constantinople_names_lo_def constantinople_names_hi_def
  byzantium_names_lo_def byzantium_names_hi_def homestead_names_lo_def homestead_names_hi_def
  frontier_names_lo_def frontier_names_hi_def

lemma row_named_rules [simp]:
  "row_named (metrics g a r) None \<longleftrightarrow> g = UNDEFINED \<and> a = 0 \<and> r = 0"
  "row_named (metrics g a r) (Some n) \<longleftrightarrow> 0 \<le> g \<and> g < 32768 \<and> 0 \<le> a \<and> a \<le> 17 \<and> 0 \<le> r \<and> r \<le> 17"
  "row_kept (metrics g a r) (metrics g' a' r') \<longleftrightarrow> (0 \<le> g \<longrightarrow> g \<le> g' \<and> a' = a \<and> r' = r)"
  by (auto simp: row_named_def row_kept_def metrics_def)

lemma named_lo:
  "list_all2 row_named istanbul_metrics_lo istanbul_names_lo"
  "list_all2 row_named constantinople_metrics_lo constantinople_names_lo"
  "list_all2 row_named byzantium_metrics_lo byzantium_names_lo"
  "list_all2 row_named tangerine_whistle_metrics_lo homestead_names_lo"
  "list_all2 row_named homestead_metrics_lo homestead_names_lo"
  "list_all2 row_named frontier_metrics_lo frontier_names_lo"
  by (simp_all add: metrics_tables names_tables tiers)

lemma named_hi:
  "list_all2 row_named istanbul_metrics_hi istanbul_names_hi"
  "list_all2 row_named constantinople_metrics_hi constantinople_names_hi"
  "list_all2 row_named byzantium_metrics_hi byzantium_names_hi"
  "list_all2 row_named tangerine_whistle_metrics_hi homestead_names_hi"
  "list_all2 row_named homestead_metrics_hi homestead_names_hi"
  "list_all2 row_named frontier_metrics_hi frontier_names_hi"
  by (simp_all add: metrics_tables names_tables tiers)

lemma kept_lo:
  "list_all2 row_kept frontier_metrics_lo homestead_metrics_lo"
  "list_all2 row_kept homestead_metrics_lo tangerine_whistle_metrics_lo"
  "list_all2 row_kept tangerine_whistle_metrics_lo byzantium_metrics_lo"
  "list_all2 row_kept byzantium_metrics_lo constantinople_metrics_lo"
  "list_all2 row_kept constantinople_metrics_lo istanbul_metrics_lo"
  by (simp_all add: metrics_tables tiers)

lemma kept_hi:
  "list_all2 row_kept frontier_metrics_hi homestead_metrics_hi"
  "list_all2 row_kept homestead_metrics_hi tangerine_whistle_metrics_hi"
  "list_all2 row_kept tangerine_whistle_metrics_hi byzantium_metrics_hi"
  "list_all2 row_kept byzantium_metrics_hi constantinople_metrics_hi"
  "list_all2 row_kept constantinople_metrics_hi istanbul_metrics_hi"
  by (simp_all add: metrics_tables tiers)

lemma names_kept_lo:
  "list_all2 name_kept frontier_names_lo homestead_names_lo"
  "list_all2 name_kept homestead_names_lo byzantium_names_lo"
  "list_all2 name_kept byzantium_names_lo constantinople_names_lo"
  "list_all2 name_kept constantinople_names_lo istanbul_names_lo"
  by (simp_all add: names_tables name_kept_def)

lemma names_kept_hi:
  "list_all2 name_kept frontier_names_hi homestead_names_hi"
  "list_all2 name_kept homestead_names_hi byzantium_names_hi"
  "list_all2 name_kept byzantium_names_hi constantinople_names_hi"
  "list_all2 name_kept constantinople_names_hi istanbul_names_hi"
  by (simp_all add: names_tables name_kept_def)


section \<open>The tables by revision\<close>

text \<open>The tables of a revision of the enumeration.\<close>

definition metrics_at :: "nat \<Rightarrow> evmc_instruction_metrics list" where
  "metrics_at n = the (evmc_get_instruction_metrics_table n)"

definition names_at :: "nat \<Rightarrow> string option list" where
  "names_at n = the (evmc_get_instruction_names_table n)"

lemmas metrics_whole = istanbul_metrics_def constantinople_metrics_def byzantium_metrics_def
  tangerine_whistle_metrics_def homestead_metrics_def frontier_metrics_def

lemmas names_whole = istanbul_names_def constantinople_names_def byzantium_names_def
  homestead_names_def frontier_names_def

lemma revision_cases:
  fixes n :: nat
  assumes "n \<le> 7"
  obtains "n = 0" | "n = 1" | "n = 2" | "n = 3" | "n = 4" | "n = 5" | "n = 6" | "n = 7"
  using assms by linarith

lemma tables_at:
  "evmc_get_instruction_metrics_table n = (if n \<le> 7 then Some (metrics_at n) else None)"
  "evmc_get_instruction_names_table n = (if n \<le> 7 then Some (names_at n) else None)"
  by (auto simp: metrics_at_def names_at_def evmc_get_instruction_metrics_table_def
      evmc_get_instruction_names_table_def revision_of_def elim!: revision_cases)

lemmas at_defs = metrics_at_def names_at_def evmc_get_instruction_metrics_table_def
  evmc_get_instruction_names_table_def revision_of_def

lemma tables_named: "n \<le> 7 \<Longrightarrow> list_all2 row_named (metrics_at n) (names_at n)"
  by (elim revision_cases) (simp_all add: at_defs metrics_whole names_whole list_all2_appendI named_lo named_hi)

lemma kept_refl: "list_all2 row_kept ms ms" "list_all2 name_kept ns ns"
  by (simp_all add: list_all2_refl row_kept_def name_kept_def)

lemma kept_trans:
  "list_all2 row_kept a b \<Longrightarrow> list_all2 row_kept b c \<Longrightarrow> list_all2 row_kept a c"
  "list_all2 name_kept ns1 ns2 \<Longrightarrow> list_all2 name_kept ns2 ns3 \<Longrightarrow> list_all2 name_kept ns1 ns3"
  by (erule (1) list_all2_trans [rotated], auto simp: row_kept_def name_kept_def)+

lemma kept_step:
  assumes "n < 7"
  shows "list_all2 row_kept (metrics_at n) (metrics_at (Suc n))"
    and "list_all2 name_kept (names_at n) (names_at (Suc n))"
proof -
  have "n \<le> 7" using assms by simp
  then show "list_all2 row_kept (metrics_at n) (metrics_at (Suc n))"
    using assms by (cases rule: revision_cases)
      (simp_all add: at_defs metrics_whole list_all2_appendI kept_lo kept_hi kept_refl)
  show "list_all2 name_kept (names_at n) (names_at (Suc n))"
    using \<open>n \<le> 7\<close> assms by (cases rule: revision_cases)
      (simp_all add: at_defs names_whole list_all2_appendI names_kept_lo names_kept_hi kept_refl)
qed

lemma tables_kept:
  assumes "m \<le> n" "n \<le> 7"
  shows "list_all2 row_kept (metrics_at m) (metrics_at n)" "list_all2 name_kept (names_at m) (names_at n)"
  using assms(1)
proof (induction rule: dec_induct)
  case (step k)
  have k: "k < 7" using step.hyps assms(2) by simp
  { case 1 show ?case by (rule kept_trans(1) [OF step.IH(1) kept_step(1) [OF k]]) }
  { case 2 show ?case by (rule kept_trans(2) [OF step.IH(2) kept_step(2) [OF k]]) }
qed (simp_all add: kept_refl)

lemma istanbul_length: "length istanbul_metrics = 256"
  by (simp add: istanbul_metrics_def istanbul_metrics_lo_def istanbul_metrics_hi_def)

lemma kept_length: "n \<le> 7 \<Longrightarrow> length (metrics_at n) = 256" "n \<le> 7 \<Longrightarrow> length (names_at n) = 256"
proof -
  assume n: "n \<le> 7"
  have "metrics_at 7 = istanbul_metrics" by (simp add: at_defs)
  then show "length (metrics_at n) = 256"
    using tables_kept(1) [OF n] istanbul_length by (auto dest: list_all2_lengthD)
  then show "length (names_at n) = 256" using tables_named [OF n] by (auto dest: list_all2_lengthD)
qed

section \<open>The translator's table\<close>

lemma translator_rows:
  "list_all (\<lambda>(k, _, outs, ins). k \<in> {0x46, 0x47, 0x48} \<or>
     (istanbul_metrics ! k = metrics (gas_cost (istanbul_metrics ! k)) (int outs) (int ins))) InstrMap"
  unfolding InstrMap_def istanbul_metrics_def istanbul_metrics_lo_def istanbul_metrics_hi_def
  by (simp add: metrics_def)


lemma translator_keys:
  "map fst InstrMap = map fst (filter (\<lambda>(k, m). gas_cost m \<noteq> UNDEFINED \<or> k \<in> {0x46, 0x47, 0x48}) (enumerate 0 istanbul_metrics))"
  by code_simp

lemma translator_domain:
  assumes "op < 256"
  shows "op \<in> set (map fst InstrMap) \<longleftrightarrow> gas_cost (istanbul_metrics ! op) \<noteq> UNDEFINED \<or> op \<in> {0x46, 0x47, 0x48}"
  unfolding translator_keys using assms istanbul_length by (force simp: in_set_enumerate_eq)

section \<open>The properties\<close>

text \<open>The instruction tables are well formed. Exactly the eight revisions of the enumeration have
tables, each with 256 rows; an opcode has a name if and only if its cost is not the undefined
marker, an undefined opcode has no stack effect, and the costs and stack heights fit the
16-bit and 8-bit fields that hold them.\<close>

theorem instruction_tables_typed:
  "if n \<le> 7 then
     \<exists>ms ns. evmc_get_instruction_metrics_table n = Some ms \<and> evmc_get_instruction_names_table n = Some ns
       \<and> length ms = 256 \<and> length ns = 256
       \<and> (\<forall>op. op < 256 \<longrightarrow> (if ns ! op = None then ms ! op = metrics UNDEFINED 0 0
            else 0 \<le> gas_cost (ms ! op) \<and> gas_cost (ms ! op) < 32768
              \<and> num_stack_arguments (ms ! op) \<in> {0..17} \<and> num_stack_returned_items (ms ! op) \<in> {0..17}))
   else evmc_get_instruction_metrics_table n = None \<and> evmc_get_instruction_names_table n = None"
  using tables_named [of n] kept_length [of n]
  by (auto simp: tables_at list_all2_conv_all_nth row_named_def)

theorem instruction_tables_typed_witness:
  "\<exists>ms ns. evmc_get_instruction_metrics_table 4 = Some ms \<and> evmc_get_instruction_names_table 4 = Some ns
     \<and> length ms = 256 \<and> length ns = 256"
  using instruction_tables_typed [of 4] by (simp only: if_True rel_simps le_numeral_extra) blast

text \<open>The instruction set only grows. An opcode that a revision defines is defined in every later
revision, with the same name, the same stack effect and a cost that is not lower.\<close>

theorem instruction_tables_monotone:
  assumes "m \<le> n" "evmc_get_instruction_metrics_table m = Some ms" "evmc_get_instruction_names_table m = Some ns"
    and "evmc_get_instruction_metrics_table n = Some ms'" "evmc_get_instruction_names_table n = Some ns'"
    and "op < 256" "gas_cost (ms ! op) \<noteq> UNDEFINED"
  shows "ns' ! op = ns ! op \<and> gas_cost (ms ! op) \<le> gas_cost (ms' ! op)
    \<and> num_stack_arguments (ms' ! op) = num_stack_arguments (ms ! op)
    \<and> num_stack_returned_items (ms' ! op) = num_stack_returned_items (ms ! op)"
proof -
  have n: "n \<le> 7" and eq: "ms = metrics_at m" "ns = names_at m" "ms' = metrics_at n" "ns' = names_at n"
    using assms(1-5) by (simp_all add: tables_at split: if_splits)
  have len: "length (metrics_at m) = 256" "length (names_at m) = 256" using kept_length assms(1) n by simp_all
  have "row_named (ms ! op) (ns ! op)" using tables_named [of m] assms(1,6) n len by (simp add: eq list_all2_conv_all_nth)
  then have "ns ! op \<noteq> None" "0 \<le> gas_cost (ms ! op)"
    using assms(7) by (auto simp: row_named_def metrics_def split: if_splits)
  moreover have "row_kept (ms ! op) (ms' ! op)" "name_kept (ns ! op) (ns' ! op)"
    using tables_kept [OF assms(1) n] len assms(6) by (simp_all add: eq list_all2_conv_all_nth)
  ultimately show ?thesis unfolding row_kept_def name_kept_def by metis
qed

theorem instruction_tables_monotone_witness:
  "the (evmc_get_instruction_names_table 7) ! 1 = the (evmc_get_instruction_names_table 0) ! 1
   \<and> gas_cost (frontier_metrics ! 1) \<le> gas_cost (istanbul_metrics ! 1)"
  using instruction_tables_monotone [of 0 7 frontier_metrics frontier_names istanbul_metrics istanbul_names 1]
  by (simp add: at_defs tiers frontier_metrics_def frontier_metrics_lo_def metrics_def)

text \<open>the translator's stack effects are the EVM's. Every opcode that the Istanbul table defines
is in the translator's table with the same numbers of popped and pushed items, and the only
other opcodes there are CHAINID, SELFBALANCE and BASEFEE.\<close>

theorem translator_stack_effects:
  assumes "op < 256"
  shows "(if gas_cost (istanbul_metrics ! op) = UNDEFINED
      then map_of InstrMap op \<noteq> None \<longleftrightarrow> op \<in> {0x46, 0x47, 0x48}
      else int (stk_outs (of_nat op)) = num_stack_arguments (istanbul_metrics ! op)
         \<and> int (stk_ins (of_nat op)) = num_stack_returned_items (istanbul_metrics ! op))"
proof (cases "gas_cost (istanbul_metrics ! op) = UNDEFINED")
  case True
  then show ?thesis using translator_domain [OF assms] by (simp add: map_of_eq_None_iff)
next
  case False
  then obtain n outs ins where row: "(op, n, outs, ins) \<in> set InstrMap"
    using translator_domain [OF assms] by force
  have "gas_cost (istanbul_metrics ! k) = UNDEFINED" if "k \<in> {0x46, 0x47, 0x48}" for k
    using that by (auto simp: istanbul_metrics_def istanbul_metrics_lo_def metrics_def)
  then have "istanbul_metrics ! op = metrics (gas_cost (istanbul_metrics ! op)) (int outs) (int ins)"
    using translator_rows row False by (fastforce simp: list_all_iff)
  then have "num_stack_arguments (istanbul_metrics ! op) = int outs"
    "num_stack_returned_items (istanbul_metrics ! op) = int ins" by (metis metrics_def evmc_instruction_metrics.simps)+
  moreover have "map_of InstrMap op = Some (n, outs, ins)" using row InstrMap_distinct by simp
  moreover have "unat (of_nat op :: byte) = op" using assms by (simp add: unsigned_of_nat take_bit_eq_mod)
  ultimately show ?thesis using False by (simp add: stk_outs_def stk_ins_def InstrMap_get_def)
qed

theorem translator_stack_effects_witness:
  "int (stk_outs 8) = num_stack_arguments (istanbul_metrics ! 8)"
  using translator_stack_effects [of 8]
  by (simp add: tiers istanbul_metrics_def istanbul_metrics_lo_def metrics_def)

end
