(* ===== verification/Loader.thy ===== *)
theory Loader
  imports Evmc
begin

text \<open>
  The loader of EVMC modules (src/evmc/lib/loader/loader.c): finding the function that creates
  a virtual machine in a dynamic library, creating the machine, and configuring it from a
  string of options. The dynamic linker and the create functions are a parameter. The state
  is the last error message, the handles of open libraries and the number of live machines,
  so that what is released on an error is visible. C strings are lists of characters without
  the terminating zero. A null pointer is \<open>None\<close>.
\<close>

section \<open>Instances and the platform\<close>

record 'v evmc_instance =
  abi_version :: int
  vm_name :: string
  vm :: 'v
  set_option :: "('v \<Rightarrow> string \<Rightarrow> string \<Rightarrow> evmc_set_option_result \<times> 'v) option"

definition EVMC_ABI_VERSION :: int where "EVMC_ABI_VERSION = 6"

definition evmc_is_abi_compatible :: "'v evmc_instance \<Rightarrow> bool" where
  "evmc_is_abi_compatible instance' \<longleftrightarrow> abi_version instance' = EVMC_ABI_VERSION"

record ('lib, 'fn, 'v) platform =
  dll_open :: "string \<Rightarrow> 'lib option"
  dll_error :: "string \<Rightarrow> string option"
  dll_sym :: "'lib \<Rightarrow> string \<Rightarrow> 'fn option"
  create :: "'fn \<Rightarrow> 'v evmc_instance option"

datatype evmc_loader_error_code =
    EVMC_LOADER_SUCCESS | EVMC_LOADER_CANNOT_OPEN | EVMC_LOADER_SYMBOL_NOT_FOUND
  | EVMC_LOADER_INVALID_ARGUMENT | EVMC_LOADER_INSTANCE_CREATION_FAILURE
  | EVMC_LOADER_ABI_VERSION_MISMATCH | EVMC_LOADER_INVALID_OPTION_NAME | EVMC_LOADER_INVALID_OPTION_VALUE

record 'lib loader_state =
  last_error_msg :: "string option"
  handles :: "'lib list"
  live :: nat

definition evmc_destroy :: "'lib loader_state \<Rightarrow> 'lib loader_state" where
  "evmc_destroy st = st\<lparr>live := live st - 1\<rparr>"

section \<open>Strings\<close>

definition PATH_MAX_LENGTH :: nat where "PATH_MAX_LENGTH = 4096"
definition LAST_ERROR_MSG_BUFFER_SIZE :: nat where "LAST_ERROR_MSG_BUFFER_SIZE = 511"

text \<open>The contents of the destination afterwards and the result of the copy.\<close>

definition strcpy_sx :: "nat \<Rightarrow> string \<Rightarrow> string \<times> int" where
  "strcpy_sx destsz src = (if destsz \<le> length src then ([], 1) else (src, 0))"

fun decimal :: "nat \<Rightarrow> string" where
  "decimal n = (if n < 10 then [char_of (48 + n)] else decimal (n div 10) @ [char_of (48 + n mod 10)])"

declare decimal.simps [simp del]

text \<open>The conversion \<open>%d\<close> of a size cast to int.\<close>

definition fmt_int :: "nat \<Rightarrow> string" where
  "fmt_int n =
     (let i = sint (of_nat n :: 32 word) in if i < 0 then ''-'' @ decimal (nat (- i)) else decimal (nat i))"

definition quoted :: "string \<Rightarrow> string" where
  "quoted s = CHR 0x27 # s @ [CHR 0x27]"

text \<open>A message that does not fit the buffer leaves the last error as it was.\<close>

definition set_error ::
  "evmc_loader_error_code \<Rightarrow> string \<Rightarrow> 'lib loader_state \<Rightarrow> evmc_loader_error_code \<times> 'lib loader_state" where
  "set_error ec msg st =
     (ec, if length msg < LAST_ERROR_MSG_BUFFER_SIZE then st\<lparr>last_error_msg := Some msg\<rparr> else st)"

definition evmc_last_error_msg :: "'lib loader_state \<Rightarrow> string option \<times> 'lib loader_state" where
  "evmc_last_error_msg st = (last_error_msg st, st\<lparr>last_error_msg := None\<rparr>)"

definition after_last :: "char \<Rightarrow> string \<Rightarrow> string" where
  "after_last c s = rev (takeWhile (\<lambda>x. x \<noteq> c) (rev s))"

definition before_last :: "char \<Rightarrow> string \<Rightarrow> string" where
  "before_last c s = (if c \<in> set s then rev (tl (dropWhile (\<lambda>x. x \<noteq> c) (rev s))) else s)"

text \<open>The token up to the delimiter, and the rest of the string after it.\<close>

definition get_token :: "string \<Rightarrow> char \<Rightarrow> string \<times> string" where
  "get_token str delim = (takeWhile (\<lambda>c. c \<noteq> delim) str, tl (dropWhile (\<lambda>c. c \<noteq> delim) str))"

section \<open>Loading\<close>

definition create_prefix :: string where "create_prefix = ''evmc_create_''"

definition skip_lib :: "string \<Rightarrow> string" where
  "skip_lib name = (if take 3 name = ''lib'' then drop 3 name else name)"

definition base_name :: "string \<Rightarrow> string" where
  "base_name filename =
     (let name = skip_lib (after_last (CHR ''/'') filename);
          prefixed = create_prefix @ fst (strcpy_sx PATH_MAX_LENGTH name);
          trimmed = before_last (CHR ''.'') prefixed
      in map (\<lambda>c. if c = CHR ''-'' then CHR ''_'' else c) (drop (length create_prefix) trimmed))"

function search :: "(string \<Rightarrow> 'fn option) \<Rightarrow> string \<Rightarrow> 'fn option" where
  "search dlsym base =
     (case dlsym (create_prefix @ base) of
        Some fn \<Rightarrow> Some fn
      | None \<Rightarrow>
          if CHR ''_'' \<in> set base then search dlsym (tl (dropWhile (\<lambda>c. c \<noteq> CHR ''_'') base)) else None)"
  by pat_completeness auto
termination
proof (relation "measure (\<lambda>(dlsym, base). length base)")
  fix dlsym :: "string \<Rightarrow> 'fn option" and base :: string
  assume u: "CHR ''_'' \<in> set base"
  have "length (dropWhile (\<lambda>c. c \<noteq> CHR ''_'') base) \<le> length base" by (rule length_dropWhile_le)
  moreover have "dropWhile (\<lambda>c. c \<noteq> CHR ''_'') base \<noteq> []" using u by (auto simp: dropWhile_eq_Nil_conv)
  ultimately show "((dlsym, tl (dropWhile (\<lambda>c. c \<noteq> CHR ''_'') base)), dlsym, base) \<in> measure (\<lambda>(dlsym, base). length base)"
    by (cases "dropWhile (\<lambda>c. c \<noteq> CHR ''_'') base") auto
qed simp

declare search.simps [simp del]

definition evmc_load ::
  "('lib, 'fn, 'v) platform \<Rightarrow> string option \<Rightarrow> 'lib loader_state
   \<Rightarrow> 'fn option \<times> evmc_loader_error_code \<times> 'lib loader_state" where
  "evmc_load P filename st =
     (let st = st\<lparr>last_error_msg := None\<rparr> in
      case filename of
        None \<Rightarrow> (None, set_error EVMC_LOADER_INVALID_ARGUMENT ''invalid argument: file name cannot be null'' st)
      | Some filename \<Rightarrow>
          if length filename = 0 then
            (None, set_error EVMC_LOADER_INVALID_ARGUMENT ''invalid argument: file name cannot be empty'' st)
          else if PATH_MAX_LENGTH < length filename then
            (None, set_error EVMC_LOADER_INVALID_ARGUMENT
               (''invalid argument: file name is too long ('' @ fmt_int (length filename)
                @ '', maximum allowed length is '' @ fmt_int PATH_MAX_LENGTH @ '')'') st)
          else
            (case dll_open P filename of
               None \<Rightarrow>
                 (case dll_error P filename of
                    Some msg \<Rightarrow> (None, EVMC_LOADER_CANNOT_OPEN, st\<lparr>last_error_msg := Some msg\<rparr>)
                  | None \<Rightarrow> (None, set_error EVMC_LOADER_CANNOT_OPEN (''cannot open '' @ filename) st))
             | Some handle \<Rightarrow>
                 (let st = st\<lparr>handles := handle # handles st\<rparr>;
                      fn = (case search (dll_sym P handle) (base_name filename) of
                              Some fn \<Rightarrow> Some fn
                            | None \<Rightarrow> dll_sym P handle ''evmc_create'')
                  in case fn of
                       Some fn \<Rightarrow> (Some fn, EVMC_LOADER_SUCCESS, st)
                     | None \<Rightarrow>
                         (None, set_error EVMC_LOADER_SYMBOL_NOT_FOUND
                            (''EVMC create function not found in '' @ filename)
                            (st\<lparr>handles := remove1 handle (handles st)\<rparr>)))))"

definition evmc_load_and_create ::
  "('lib, 'fn, 'v) platform \<Rightarrow> string option \<Rightarrow> 'lib loader_state
   \<Rightarrow> 'v evmc_instance option \<times> evmc_loader_error_code \<times> 'lib loader_state" where
  "evmc_load_and_create P filename st =
     (case evmc_load P filename st of
        (None, ec, st) \<Rightarrow> (None, ec, st)
      | (Some fn, ec, st) \<Rightarrow>
          (let name = (case filename of None \<Rightarrow> [] | Some f \<Rightarrow> f) in
           case create P fn of
             None \<Rightarrow>
               (None, set_error EVMC_LOADER_INSTANCE_CREATION_FAILURE
                  (''creating EVMC instance of '' @ name @ '' has failed'') st)
           | Some inst \<Rightarrow>
               (let st = st\<lparr>live := live st + 1\<rparr> in
                if \<not> evmc_is_abi_compatible inst then
                  (case set_error EVMC_LOADER_ABI_VERSION_MISMATCH
                          (''EVMC ABI version '' @ (if abi_version inst < 0 then ''-'' else [])
                           @ decimal (nat \<bar>abi_version inst\<bar>) @ '' of '' @ name
                           @ '' mismatches the expected version '' @ fmt_int 6) st of
                     (ec, st) \<Rightarrow> (None, ec, evmc_destroy st))
                else (Some inst, EVMC_LOADER_SUCCESS, st))))"

section \<open>Configuring\<close>

lemma get_token_shorter: "s \<noteq> [] \<Longrightarrow> length (snd (get_token s c)) < length s"
proof -
  assume "s \<noteq> []"
  then have "0 < length s" by simp
  moreover have "length (dropWhile (\<lambda>x. x \<noteq> c) s) \<le> length s" by (rule length_dropWhile_le)
  ultimately have "length (dropWhile (\<lambda>x. x \<noteq> c) s) - 1 < length s" by linarith
  then show ?thesis by (simp add: get_token_def)
qed

text \<open>The loop over the options, for an instance that has the method set\_option.\<close>

function configure ::
  "string \<Rightarrow> string \<Rightarrow> ('v \<Rightarrow> string \<Rightarrow> string \<Rightarrow> evmc_set_option_result \<times> 'v) \<Rightarrow> string \<Rightarrow> 'v
   \<Rightarrow> 'lib loader_state \<Rightarrow> (evmc_loader_error_code \<times> 'lib loader_state) \<times> 'v" where
  "configure vmname path setopt options v st =
     (if options = [] then ((EVMC_LOADER_SUCCESS, st), v)
      else
        (let (option, rest) = get_token options (CHR '','');
             (name, val) = get_token option (CHR ''='')
         in case setopt v name val of
              (EVMC_SET_OPTION_SUCCESS, v) \<Rightarrow> configure vmname path setopt rest v st
            | (EVMC_SET_OPTION_INVALID_NAME, v) \<Rightarrow>
                (set_error EVMC_LOADER_INVALID_OPTION_NAME
                   (vmname @ '' ('' @ path @ ''): unknown option '' @ quoted name) st, v)
            | (EVMC_SET_OPTION_INVALID_VALUE, v) \<Rightarrow>
                (set_error EVMC_LOADER_INVALID_OPTION_VALUE
                   (vmname @ '' ('' @ path @ ''): unsupported value '' @ quoted val @ '' for option '' @ quoted name) st, v)))"
  by pat_completeness auto
termination
  by (relation "measure (\<lambda>(vmname, path, setopt, options, v, st). length options)")
    (auto dest!: get_token_shorter [of _ "CHR '',''"] sym [of "(_, _)"])

declare configure.simps [simp del]

definition evmc_load_and_configure ::
  "('lib, 'fn, 'v) platform \<Rightarrow> string \<Rightarrow> 'lib loader_state
   \<Rightarrow> 'v evmc_instance option \<times> evmc_loader_error_code \<times> 'lib loader_state" where
  "evmc_load_and_configure P config st =
     (case strcpy_sx PATH_MAX_LENGTH config of
        (buffer, rc) \<Rightarrow>
          if rc \<noteq> 0 then
            (None, set_error EVMC_LOADER_INVALID_ARGUMENT
               (''invalid argument: configuration is too long (maximum allowed length is ''
                @ fmt_int PATH_MAX_LENGTH @ '')'') st)
          else
            (let (path, options) = get_token buffer (CHR '','') in
             case evmc_load_and_create P (Some path) st of
               (None, ec, st) \<Rightarrow> (None, ec, st)
             | (Some inst, _, st) \<Rightarrow>
                 (let ((ec, st), v) =
                    (case set_option inst of
                       None \<Rightarrow>
                         (if options \<noteq> [] then
                            set_error EVMC_LOADER_INVALID_OPTION_NAME
                              (vm_name inst @ '' ('' @ path @ '') does not support any options'') st
                          else (EVMC_LOADER_SUCCESS, st), vm inst)
                     | Some setopt \<Rightarrow> configure (vm_name inst) path setopt options (vm inst) st)
                  in if ec = EVMC_LOADER_SUCCESS then (Some (inst\<lparr>vm := v\<rparr>), ec, st)
                     else (None, ec, evmc_destroy st))))"

end
