(* ===== verification/Evmc_Cpp.thy ===== *)
theory Evmc_Cpp
  imports Loader
begin

text \<open>
  The C++ interface of EVMC (evmc.hpp): comparison, hashing and literals of addresses and of
  32-byte words. An address is a word of 160 bits and a bytes32 one of 256 bits; the
  operators work on its bytes, most significant first, which they load in groups of eight
  and four.
\<close>

unbundle bit_operations_syntax

section \<open>Loading bytes\<close>

definition load64be :: "byte list \<Rightarrow> u64" where
  "load64be bytes =
     push_bit 56 (ucast (bytes ! 0)) OR push_bit 48 (ucast (bytes ! 1)) OR push_bit 40 (ucast (bytes ! 2)) OR
     push_bit 32 (ucast (bytes ! 3)) OR push_bit 24 (ucast (bytes ! 4)) OR push_bit 16 (ucast (bytes ! 5)) OR
     push_bit 8 (ucast (bytes ! 6)) OR ucast (bytes ! 7)"

definition load32be :: "byte list \<Rightarrow> u32" where
  "load32be bytes =
     push_bit 24 (ucast (bytes ! 0)) OR push_bit 16 (ucast (bytes ! 1)) OR push_bit 8 (ucast (bytes ! 2)) OR
     ucast (bytes ! 3)"

section \<open>Comparison\<close>

definition addr_eq :: "address \<Rightarrow> address \<Rightarrow> bool" where
  "addr_eq a b \<longleftrightarrow>
     (let x = bytes_be 20 a; y = bytes_be 20 b in
      load64be (drop 0 x) = load64be (drop 0 y) \<and> load64be (drop 8 x) = load64be (drop 8 y)
      \<and> load32be (drop 16 x) = load32be (drop 16 y))"

definition addr_neq :: "address \<Rightarrow> address \<Rightarrow> bool" where
  "addr_neq a b \<longleftrightarrow> \<not> addr_eq a b"

definition addr_less :: "address \<Rightarrow> address \<Rightarrow> bool" where
  "addr_less a b \<longleftrightarrow>
     (let x = bytes_be 20 a; y = bytes_be 20 b in
      load64be (drop 0 x) < load64be (drop 0 y)
      \<or> (load64be (drop 0 x) = load64be (drop 0 y) \<and> load64be (drop 8 x) < load64be (drop 8 y))
      \<or> (load64be (drop 8 x) = load64be (drop 8 y) \<and> load32be (drop 16 x) < load32be (drop 16 y)))"

definition bytes32_eq :: "bytes32 \<Rightarrow> bytes32 \<Rightarrow> bool" where
  "bytes32_eq a b \<longleftrightarrow>
     (let x = bytes_be 32 a; y = bytes_be 32 b in
      load64be (drop 0 x) = load64be (drop 0 y) \<and> load64be (drop 8 x) = load64be (drop 8 y)
      \<and> load64be (drop 16 x) = load64be (drop 16 y) \<and> load64be (drop 24 x) = load64be (drop 24 y))"

definition bytes32_neq :: "bytes32 \<Rightarrow> bytes32 \<Rightarrow> bool" where
  "bytes32_neq a b \<longleftrightarrow> \<not> bytes32_eq a b"

definition bytes32_less :: "bytes32 \<Rightarrow> bytes32 \<Rightarrow> bool" where
  "bytes32_less a b \<longleftrightarrow>
     (let x = bytes_be 32 a; y = bytes_be 32 b in
      load64be (drop 0 x) < load64be (drop 0 y)
      \<or> (load64be (drop 0 x) = load64be (drop 0 y) \<and> load64be (drop 8 x) < load64be (drop 8 y))
      \<or> (load64be (drop 8 x) = load64be (drop 8 y) \<and> load64be (drop 16 x) < load64be (drop 16 y))
      \<or> (load64be (drop 16 x) = load64be (drop 16 y) \<and> load64be (drop 24 x) < load64be (drop 24 y)))"

definition is_zero_address :: "address \<Rightarrow> bool" where
  "is_zero_address a \<longleftrightarrow> addr_eq a 0"

definition address_bool :: "address \<Rightarrow> bool" where
  "address_bool a \<longleftrightarrow> \<not> is_zero_address a"

definition is_zero_bytes32 :: "bytes32 \<Rightarrow> bool" where
  "is_zero_bytes32 a \<longleftrightarrow> bytes32_eq a 0"

definition bytes32_bool :: "bytes32 \<Rightarrow> bool" where
  "bytes32_bool a \<longleftrightarrow> \<not> is_zero_bytes32 a"

section \<open>Hashing\<close>

definition fnv_prime :: u64 where "fnv_prime = 0x100000001b3"
definition fnv_offset_basis :: u64 where "fnv_offset_basis = 0xcbf29ce484222325"

definition fnv1a_by64 :: "u64 \<Rightarrow> u64 \<Rightarrow> u64" where
  "fnv1a_by64 h x = (h XOR x) * fnv_prime"

definition hash_address :: "address \<Rightarrow> u64" where
  "hash_address s =
     (let b = bytes_be 20 s in
      fnv1a_by64 (fnv1a_by64 (fnv1a_by64 fnv_offset_basis (load64be (drop 0 b))) (load64be (drop 8 b)))
        (ucast (load32be (drop 16 b))))"

definition hash_bytes32 :: "bytes32 \<Rightarrow> u64" where
  "hash_bytes32 s =
     (let b = bytes_be 32 s in
      fnv1a_by64 (fnv1a_by64 (fnv1a_by64 (fnv1a_by64 fnv_offset_basis (load64be (drop 0 b))) (load64be (drop 8 b)))
        (load64be (drop 16 b))) (load64be (drop 24 b)))"

section \<open>Literals\<close>

text \<open>A static assertion that fails is \<open>None\<close>.\<close>

definition parse_hex_digit :: "nat \<Rightarrow> byte option" where
  "parse_hex_digit d =
     (if 48 \<le> d \<and> d \<le> 57 then Some (of_nat (d - 48))
      else if 97 \<le> d \<and> d \<le> 102 then Some (of_nat (d - 97 + 10))
      else if 65 \<le> d \<and> d \<le> 70 then Some (of_nat (d - 65 + 10))
      else None)"

fun parse_digits :: "nat list \<Rightarrow> byte list option" where
  "parse_digits [] = None"
| "parse_digits [_] = None"
| "parse_digits (d1 # d2 # rest) =
     Option.bind (parse_hex_digit d1) (\<lambda>x.
     Option.bind (parse_hex_digit d2) (\<lambda>y.
     let b = push_bit 4 x OR y in
     if rest = [] then Some [b]
     else map_option ((#) b) (parse_digits rest)))"

text \<open>The literal of a type of \<open>n\<close> bytes.\<close>

fun parse_literal :: "nat \<Rightarrow> string \<Rightarrow> byte list option" where
  "parse_literal n [c] = (if c = CHR ''0'' then Some (replicate n 0) else None)"
| "parse_literal n (p1 # p2 # lit) =
     (if p1 = CHR ''0'' \<and> p2 = CHR ''x'' \<and> length lit = n * 2 then parse_digits (map of_char lit) else None)"
| "parse_literal n [] = None"

definition literal_address :: "string \<Rightarrow> address option" where
  "literal_address s = map_option word_be (parse_literal 20 s)"

definition literal_bytes32 :: "string \<Rightarrow> bytes32 option" where
  "literal_bytes32 s = map_option word_be (parse_literal 32 s)"

section \<open>Groups of bytes\<close>

lemma bit_byte_out: "8 \<le> k \<Longrightarrow> \<not> bit (b :: byte) k"
  using bit_imp_le_length [of b k] by auto

lemma bit_load64be:
  assumes "j < 64"
  shows "bit (load64be bs) j \<longleftrightarrow> bit (bs ! (7 - j div 8)) (j mod 8)"
proof -
  obtain k m where j: "j = 8 * k + m" "m < 8" by (metis mod_less_divisor mult_div_mod_eq zero_less_numeral)
  then have d: "j div 8 = k" "j mod 8 = m" by auto
  from j have "k < 8" using assms by simp
  then consider "k = 0" | "k = 1" | "k = 2" | "k = 3" | "k = 4" | "k = 5" | "k = 6" | "k = 7" by linarith
  then show ?thesis
    unfolding d by cases (use j in \<open>simp_all add: load64be_def bit_simps bit_byte_out not_le\<close>)
qed

lemma bit_load32be:
  assumes "j < 32"
  shows "bit (load32be bs) j \<longleftrightarrow> bit (bs ! (3 - j div 8)) (j mod 8)"
proof -
  obtain k m where j: "j = 8 * k + m" "m < 8" by (metis mod_less_divisor mult_div_mod_eq zero_less_numeral)
  then have d: "j div 8 = k" "j mod 8 = m" by auto
  from j have "k < 4" using assms by simp
  then consider "k = 0" | "k = 1" | "k = 2" | "k = 3" by linarith
  then show ?thesis
    unfolding d by cases (use j in \<open>simp_all add: load32be_def bit_simps bit_byte_out not_le\<close>)
qed

text \<open>The group of bytes from \<open>o\<close> on, as a slice of the word.\<close>

lemma bit_bytes_be:
  "i < n \<Longrightarrow> k < 8 \<Longrightarrow> 8 * n \<le> LENGTH('a) \<Longrightarrow> bit (bytes_be n (w :: 'a::len word) ! i) k \<longleftrightarrow> bit w (8 * (n - 1 - i) + k)"
  by (simp add: bytes_be_def bit_simps add.commute)

lemma load64_slice:
  assumes "off + 8 \<le> n" "8 * n \<le> LENGTH('a)"
  shows "load64be (drop off (bytes_be n (w :: 'a::len word))) = ucast (drop_bit (8 * (n - off - 8)) w)"
proof (rule bit_word_eqI)
  fix j assume "j < LENGTH(64)"
  then have j: "j < 64" by simp
  then have q: "j div 8 < 8" by (simp add: div_less_iff_less_mult)
  have i: "off + (7 - j div 8) < n" using assms(1) q by simp
  have e: "8 * (n - 1 - (off + (7 - j div 8))) + j mod 8 = 8 * (n - off - 8) + j"
  proof -
    have "n - 1 - (off + (7 - j div 8)) = (n - off - 8) + j div 8" using assms(1) q by simp
    moreover have "8 * (j div 8) + j mod 8 = j" by simp
    ultimately show ?thesis by (simp only: distrib_left)
  qed
  have "bit (load64be (drop off (bytes_be n w))) j = bit (bytes_be n w ! (off + (7 - j div 8))) (j mod 8)"
    using j i assms(1) by (subst bit_load64be) simp_all
  also have "\<dots> = bit w (8 * (n - off - 8) + j)"
    unfolding e [symmetric] by (rule bit_bytes_be [OF i _ assms(2)]) simp
  finally show "bit (load64be (drop off (bytes_be n w))) j = bit (ucast (drop_bit (8 * (n - off - 8)) w) :: u64) j"
    using j by (simp add: bit_simps)
qed

lemma load32_slice:
  assumes "off + 4 \<le> n" "8 * n \<le> LENGTH('a)"
  shows "load32be (drop off (bytes_be n (w :: 'a::len word))) = ucast (drop_bit (8 * (n - off - 4)) w)"
proof (rule bit_word_eqI)
  fix j assume "j < LENGTH(32)"
  then have j: "j < 32" by simp
  then have q: "j div 8 < 4" by (simp add: div_less_iff_less_mult)
  have i: "off + (3 - j div 8) < n" using assms(1) q by simp
  have e: "8 * (n - 1 - (off + (3 - j div 8))) + j mod 8 = 8 * (n - off - 4) + j"
  proof -
    have "n - 1 - (off + (3 - j div 8)) = (n - off - 4) + j div 8" using assms(1) q by simp
    moreover have "8 * (j div 8) + j mod 8 = j" by simp
    ultimately show ?thesis by (simp only: distrib_left)
  qed
  have "bit (load32be (drop off (bytes_be n w))) j = bit (bytes_be n w ! (off + (3 - j div 8))) (j mod 8)"
    using j i assms(1) by (subst bit_load32be) simp_all
  also have "\<dots> = bit w (8 * (n - off - 4) + j)"
    unfolding e [symmetric] by (rule bit_bytes_be [OF i _ assms(2)]) simp
  finally show "bit (load32be (drop off (bytes_be n w))) j = bit (ucast (drop_bit (8 * (n - off - 4)) w) :: u32) j"
    using j by (simp add: bit_simps)
qed

section \<open>Equality\<close>

definition addr_high :: "address \<Rightarrow> nat" where "addr_high a = unat a div 2 ^ 96"
definition addr_mid :: "address \<Rightarrow> nat" where "addr_mid a = unat a div 2 ^ 32 mod 2 ^ 64"
definition addr_low :: "address \<Rightarrow> nat" where "addr_low a = unat a mod 2 ^ 32"

lemma addr_parts: "unat a = addr_high a * 2 ^ 96 + addr_mid a * 2 ^ 32 + addr_low a"
proof -
  have "unat a = unat a div 2 ^ 32 * 2 ^ 32 + addr_low a" unfolding addr_low_def by (simp only: div_mult_mod_eq)
  moreover have "unat a div 2 ^ 32 = addr_high a * 2 ^ 64 + addr_mid a"
  proof -
    have "unat a div 2 ^ 32 div 2 ^ 64 = unat a div 2 ^ 96" by (simp add: div_mult2_eq [symmetric])
    then show ?thesis unfolding addr_high_def addr_mid_def by (metis div_mult_mod_eq)
  qed
  ultimately have "unat a = (addr_high a * 2 ^ 64 + addr_mid a) * 2 ^ 32 + addr_low a" by metis
  then show ?thesis by (simp add: distrib_right)
qed

lemma unat_slice: "unat (ucast (drop_bit k (w :: 'a::len word)) :: 'b::len word) = unat w div 2 ^ k mod 2 ^ LENGTH('b)"
proof -
  have "unat (drop_bit k w) = drop_bit k (unat w)"
    by (simp only: unsigned_drop_bit_eq take_bit_nat_eq_self unsigned_less)
  then show ?thesis by (simp add: unsigned_ucast_eq take_bit_eq_mod drop_bit_eq_div)
qed

lemma addr_loads:
  "unat (load64be (drop 0 (bytes_be 20 a))) = addr_high a"
  "unat (load64be (drop 8 (bytes_be 20 a))) = addr_mid a"
  "unat (load32be (drop 16 (bytes_be 20 a))) = addr_low a"
proof -
  have "unat a < 2 ^ 160" using unsigned_less [of a, where ?'a = nat] by simp
  then have "unat a div 2 ^ 96 < 2 ^ 64" by (simp add: div_less_iff_less_mult)
  then show "unat (load64be (drop 0 (bytes_be 20 a))) = addr_high a"
    by (subst load64_slice) (simp_all add: unat_slice addr_high_def)
  show "unat (load64be (drop 8 (bytes_be 20 a))) = addr_mid a"
    by (subst load64_slice) (simp_all add: unat_slice addr_mid_def)
  show "unat (load32be (drop 16 (bytes_be 20 a))) = addr_low a"
    using unat_slice [of 0 a, where ?'b = 32] by (subst load32_slice) (simp_all add: addr_low_def)
qed

lemma addr_eq_iff: "addr_eq a b \<longleftrightarrow> a = b"
proof
  assume "addr_eq a b"
  then have "addr_high a = addr_high b" "addr_mid a = addr_mid b" "addr_low a = addr_low b"
    unfolding addr_loads [symmetric] by (simp_all add: addr_eq_def Let_def)
  then have "unat a = unat b" using addr_parts [of a] addr_parts [of b] by simp
  then show "a = b" by (simp add: unsigned_word_eqI)
qed (simp add: addr_eq_def)

lemma addr_less_iff:
  "addr_less a b \<longleftrightarrow> addr_high a < addr_high b \<or> (addr_high a = addr_high b \<and> addr_mid a < addr_mid b)
     \<or> (addr_mid a = addr_mid b \<and> addr_low a < addr_low b)"
  unfolding addr_loads [symmetric] by (simp add: addr_less_def Let_def word_less_nat_alt word_unat_eq_iff)

lemma addr_numeric:
  "a < b \<longleftrightarrow> addr_high a < addr_high b \<or> (addr_high a = addr_high b \<and> addr_mid a < addr_mid b)
     \<or> (addr_high a = addr_high b \<and> addr_mid a = addr_mid b \<and> addr_low a < addr_low b)"
proof -
  have "addr_mid x < 2 ^ 64" "addr_low x < 2 ^ 32" for x by (simp_all add: addr_mid_def addr_low_def)
  from this [of a] this [of b] show ?thesis
    unfolding word_less_nat_alt addr_parts [of a] addr_parts [of b] by (auto simp: not_less)
qed

lemma bytes32_eq_iff: "bytes32_eq a b \<longleftrightarrow> a = b"
proof
  assume e: "bytes32_eq a b"
  have "load64be (drop (8 * i) (bytes_be 32 a)) = load64be (drop (8 * i) (bytes_be 32 b))" if "i < 4" for i
  proof -
    from that consider "i = 0" | "i = 1" | "i = 2" | "i = 3" by linarith
    then show ?thesis by cases (use e in \<open>simp_all add: bytes32_eq_def Let_def\<close>)
  qed
  then have l: "(ucast (drop_bit (8 * (24 - 8 * i)) a) :: u64) = ucast (drop_bit (8 * (24 - 8 * i)) b)" if "i < 4" for i
    using that load64_slice [of "8 * i" 32 a] load64_slice [of "8 * i" 32 b] by simp
  show "a = b"
  proof (rule bit_word_eqI)
    fix j assume "j < LENGTH(256)"
    then have j: "j < 256" by simp
    let ?i = "3 - j div 64" and ?m = "j mod 64"
    have q: "j div 64 < 4" using j by (simp add: div_less_iff_less_mult)
    then have s: "8 * (24 - 8 * ?i) + ?m = j"
    proof -
      have "8 * (24 - 8 * ?i) = 64 * (j div 64)" using q by simp
      then show ?thesis by simp
    qed
    have "bit (ucast (drop_bit (8 * (24 - 8 * ?i)) x) :: u64) ?m = bit x (8 * (24 - 8 * ?i) + ?m)" for x :: bytes32
      by (simp add: bit_simps)
    note slice = this
    have "?i < 4" by simp
    from l [OF this] have "bit (ucast (drop_bit (8 * (24 - 8 * ?i)) a) :: u64) ?m = bit (ucast (drop_bit (8 * (24 - 8 * ?i)) b) :: u64) ?m"
      by (rule arg_cong)
    then show "bit a j = bit b j" by (simp only: slice s)
  qed
qed (simp add: bytes32_eq_def)

section \<open>Printing\<close>

text \<open>The literal that names a list of bytes, in lower or upper case.\<close>

definition hex_code :: "nat \<Rightarrow> nat \<Rightarrow> nat" where
  "hex_code ten d = (if d < 10 then 48 + d else ten + (d - 10))"

fun hex_codes :: "nat \<Rightarrow> byte list \<Rightarrow> nat list" where
  "hex_codes ten [] = []"
| "hex_codes ten (b # bs) = hex_code ten (unat b div 16) # hex_code ten (unat b mod 16) # hex_codes ten bs"

definition hex_literal :: "nat \<Rightarrow> byte list \<Rightarrow> string" where
  "hex_literal ten bs = ''0x'' @ map char_of (hex_codes ten bs)"

lemma parse_hex_code:
  assumes "ten = 97 \<or> ten = 65" "d < 16"
  shows "parse_hex_digit (hex_code ten d) = Some (of_nat d)"
  using assms by (auto simp: parse_hex_digit_def hex_code_def)

lemma byte_join: "push_bit 4 (of_nat (unat b div 16)) OR of_nat (unat b mod 16) = (b :: byte)"
proof (rule bit_word_eqI)
  fix k assume "k < LENGTH(8)"
  have e: "unat b div 16 = drop_bit 4 (unat b)" "unat b mod 16 = take_bit 4 (unat b)"
    by (simp_all add: drop_bit_eq_div take_bit_eq_mod)
  show "bit (push_bit 4 (of_nat (unat b div 16)) OR of_nat (unat b mod 16) :: byte) k = bit b k"
    unfolding e using \<open>k < LENGTH(8)\<close> by (auto simp: bit_simps)
qed

lemma length_hex_codes [simp]: "length (hex_codes ten bs) = 2 * length bs"
  by (induction bs) simp_all

lemma parse_hex_codes:
  assumes "ten = 97 \<or> ten = 65" "bs \<noteq> []"
  shows "parse_digits (hex_codes ten bs) = Some bs"
  using assms(2)
proof (induction bs)
  case (Cons b bs)
  have d: "unat b div 16 < 16" "unat b mod 16 < 16"
    using unsigned_less [of b, where ?'a = nat] by (simp_all add: div_less_iff_less_mult)
  show ?case
  proof (cases bs)
    case Nil
    then show ?thesis by (simp add: parse_hex_code [OF assms(1) d(1)] parse_hex_code [OF assms(1) d(2)] byte_join)
  next
    case (Cons c cs)
    then have "hex_codes ten bs \<noteq> []" by simp
    then show ?thesis using Cons.IH Cons
      by (simp add: parse_hex_code [OF assms(1) d(1)] parse_hex_code [OF assms(1) d(2)] byte_join Let_def)
  qed
qed simp

lemma hex_codes_small: "ten = 97 \<or> ten = 65 \<Longrightarrow> c \<in> set (hex_codes ten bs) \<Longrightarrow> c < 256"
proof (induction bs)
  case (Cons b bs)
  have "unat b < 256" using unsigned_less [of b, where ?'a = nat] by simp
  then have "unat b div 16 < 16" by (simp add: div_less_iff_less_mult)
  with Cons show ?case by (auto simp: hex_code_def)
qed simp

lemma parse_hex_literal:
  assumes "ten = 97 \<or> ten = 65" "length bs = n" "0 < n"
  shows "parse_literal n (hex_literal ten bs) = Some bs"
proof -
  have "map (of_char \<circ> (char_of :: nat \<Rightarrow> char)) (hex_codes ten bs) = hex_codes ten bs"
    using hex_codes_small [OF assms(1)] by (intro map_idI) (simp add: of_char_mod_256)
  then show ?thesis using assms parse_hex_codes [OF assms(1), of bs]
    by (auto simp: hex_literal_def)
qed

section \<open>Properties\<close>

text \<open>
  Literals of addresses and 32-byte words. Every value has a literal, \<open>0x\<close> and its bytes in
  hexadecimal digits of either case, that parses to the value; the literal \<open>0\<close> is zero, and a
  literal of another length is rejected.
\<close>

theorem literal_roundtrip:
  "ten = 97 \<or> ten = 65 \<Longrightarrow> literal_address (hex_literal ten (bytes_be 20 a)) = Some a
     \<and> literal_bytes32 (hex_literal ten (bytes_be 32 b)) = Some b
     \<and> literal_address ''0'' = Some 0 \<and> literal_bytes32 ''0'' = Some 0
     \<and> (length s \<noteq> 42 \<and> length s \<noteq> 1 \<longrightarrow> literal_address s = None)"
proof (intro conjI impI)
  assume ten: "ten = 97 \<or> ten = 65"
  show "literal_address (hex_literal ten (bytes_be 20 a)) = Some a"
    using ten by (simp add: literal_address_def parse_hex_literal word_be_bytes_be)
  show "literal_bytes32 (hex_literal ten (bytes_be 32 b)) = Some b"
    using ten by (simp add: literal_bytes32_def parse_hex_literal word_be_bytes_be)
  show "literal_address ''0'' = Some 0" "literal_bytes32 ''0'' = Some 0"
    by (simp_all add: literal_address_def literal_bytes32_def word_be_def)
next
  assume "length s \<noteq> 42 \<and> length s \<noteq> 1"
  then show "literal_address s = None"
    by (cases "(20 :: nat, s)" rule: parse_literal.cases) (auto simp: literal_address_def)
qed

theorem literal_roundtrip_witness:
  "literal_address (hex_literal 97 (bytes_be 20 (0xab :: address))) = Some 0xab \<and> literal_address ''0x12'' = None"
  using literal_roundtrip [of 97 "0xab" 0 "''0x12''"] by simp

text \<open>
  Comparison of addresses. Equality of the three groups of bytes is equality. The operator less
  holds whenever the first address is smaller as a number, but it is no order: its last case
  does not ask for the first groups to agree, so it holds in both directions exactly for addresses
  with the same middle group whose first and last groups are ordered in opposite ways.
\<close>

theorem address_comparison:
  "(addr_eq a b \<longleftrightarrow> a = b) \<and> (a < b \<longrightarrow> addr_less a b)
   \<and> (addr_less a b \<and> addr_less b a \<longleftrightarrow>
        addr_mid a = addr_mid b
        \<and> (addr_high a < addr_high b \<and> addr_low b < addr_low a \<or> addr_high b < addr_high a \<and> addr_low a < addr_low b))"
proof (intro conjI)
  have both: "(h < h' \<or> h = h' \<and> m < m' \<or> m = m' \<and> l < l') \<and> (h' < h \<or> h' = h \<and> m' < m \<or> m' = m \<and> l' < l) \<longleftrightarrow>
      m = m' \<and> (h < h' \<and> l' < l \<or> h' < h \<and> l < l')" for h h' m m' l l' :: nat
    by linarith
  show "addr_less a b \<and> addr_less b a \<longleftrightarrow> addr_mid a = addr_mid b
      \<and> (addr_high a < addr_high b \<and> addr_low b < addr_low a \<or> addr_high b < addr_high a \<and> addr_low a < addr_low b)"
    unfolding addr_less_iff by (rule both)
  show "a < b \<longrightarrow> addr_less a b" unfolding addr_numeric addr_less_iff by blast
  show "addr_eq a b \<longleftrightarrow> a = b" by (rule addr_eq_iff)
qed

theorem address_comparison_witness:
  "addr_less 1 (2 ^ 96) \<and> addr_less (2 ^ 96) 1"
proof -
  have "addr_high 1 = 0" "addr_high (2 ^ 96) = 1" "addr_mid 1 = addr_mid (2 ^ 96)" "addr_low (2 ^ 96) < addr_low 1"
    by (simp_all add: addr_high_def addr_mid_def addr_low_def)
  then show ?thesis using address_comparison [of 1 "2 ^ 96"] by simp
qed

text \<open>The same for 32-byte words.\<close>

lemma bytes32_not_ordered: "bytes32_less 1 (2 ^ 192) \<and> bytes32_less (2 ^ 192) 1"
proof -
  have l: "unat (load64be (drop off (bytes_be 32 a))) = unat a div 2 ^ (8 * (24 - off)) mod 2 ^ 64" if "off \<le> 24" for off and a :: bytes32
    using that load64_slice [of off 32 a] unat_slice [of "8 * (24 - off)" a, where ?'b = 64] by simp
  show ?thesis by (simp add: bytes32_less_def Let_def word_less_nat_alt word_unat_eq_iff l del: drop0)
qed

text \<open>
  The hash folds its groups of bytes with an odd factor, which can be cancelled: two addresses
  that differ in their last four bytes only have different hashes.
\<close>

lemma fnv1a_inj: "fnv1a_by64 h x = fnv1a_by64 h y \<longleftrightarrow> x = y"
proof
  assume e: "fnv1a_by64 h x = fnv1a_by64 h y"
  have inv: "z * fnv_prime * 0xce965057aff6957b = z" for z :: u64
  proof -
    have "fnv_prime * 0xce965057aff6957b = 1" unfolding fnv_prime_def by code_simp
    then show ?thesis by (simp only: mult.assoc mult_1_right)
  qed
  have "(h XOR x) * fnv_prime * 0xce965057aff6957b = (h XOR y) * fnv_prime * 0xce965057aff6957b"
    using e by (simp only: fnv1a_by64_def)
  then have "h XOR x = h XOR y" by (simp only: inv)
  then have "h XOR (h XOR x) = h XOR (h XOR y)" by (rule arg_cong)
  then show "x = y" by (simp flip: xor.assoc)
qed simp

theorem hash_address_separates:
  assumes "addr_high a = addr_high b" "addr_mid a = addr_mid b" "a \<noteq> b"
  shows "hash_address a \<noteq> hash_address b"
proof -
  have h: "load64be (drop 0 (bytes_be 20 a)) = load64be (drop 0 (bytes_be 20 b))"
    "load64be (drop 8 (bytes_be 20 a)) = load64be (drop 8 (bytes_be 20 b))"
    using assms(1,2) by (simp_all only: word_unat_eq_iff addr_loads)
  have "addr_low a \<noteq> addr_low b" using assms addr_parts [of a] addr_parts [of b] by (auto simp: word_unat_eq_iff)
  then have "load32be (drop 16 (bytes_be 20 a)) \<noteq> load32be (drop 16 (bytes_be 20 b))"
    by (simp only: word_unat_eq_iff addr_loads) simp
  moreover have "(ucast x :: u64) = ucast y \<longleftrightarrow> x = y" for x y :: u32
  proof -
    have "unat (ucast z :: u64) = unat z" for z :: u32
      using unsigned_less [of z, where ?'a = nat] by (simp add: unsigned_ucast_eq take_bit_nat_eq_self)
    then show ?thesis by (simp only: word_unat_eq_iff)
  qed
  ultimately show ?thesis by (simp only: hash_address_def Let_def h fnv1a_inj not_False_eq_True)
qed

end
