(* ===== verification/Evmc_Raii.thy ===== *)
theory Evmc_Raii
  imports Evmc_Cpp
begin

text \<open>
  Ownership in the C++ interface of EVMC: the classes evmc::result and evmc::vm of evmc.hpp, which
  own the output buffer of a result and an instance of a virtual machine, and the helpers of
  helpers.h they use. A store has the objects that are alive, by name, and the resources that are
  allocated, by address. Releasing a resource that is not allocated, destroying an object
  that is not alive and constructing one under the name of another are undefined: \<open>None\<close>. The
  allocator is an argument.
\<close>

section \<open>Objects that own a resource\<close>

record ('ob, 'res) store =
  objs :: "nat \<rightharpoonup> 'ob"
  heap :: "nat \<rightharpoonup> 'res"

text \<open>
  The shape both classes have, over what an object owns and how it is made to own nothing:
  destructor, move constructor of \<open>y\<close> from \<open>x\<close>, and move assignment of \<open>y\<close> to \<open>x\<close>, which destroys \<open>x\<close> first.
\<close>

definition release_with :: "('ob \<Rightarrow> nat option) \<Rightarrow> 'ob \<Rightarrow> ('ob, 'res) store \<Rightarrow> ('ob, 'res) store option" where
  "release_with owns ob s =
     (case owns ob of
        None \<Rightarrow> Some s
      | Some r \<Rightarrow> if heap s r = None then None else Some (s\<lparr>heap := (heap s)(r := None)\<rparr>))"

definition destroy_with :: "('ob \<Rightarrow> nat option) \<Rightarrow> nat \<Rightarrow> ('ob, 'res) store \<Rightarrow> ('ob, 'res) store option" where
  "destroy_with owns x s =
     Option.bind (objs s x) (\<lambda>ob.
     Option.bind (release_with owns ob s) (\<lambda>s.
     Some (s\<lparr>objs := (objs s)(x := None)\<rparr>)))"

definition move_new_with :: "('ob \<Rightarrow> 'ob) \<Rightarrow> nat \<Rightarrow> nat \<Rightarrow> ('ob, 'res) store \<Rightarrow> ('ob, 'res) store option" where
  "move_new_with disown x y s =
     Option.bind (objs s x) (\<lambda>ob.
     if objs s y \<noteq> None then None else Some (s\<lparr>objs := (objs s)(y \<mapsto> ob, x \<mapsto> disown ob)\<rparr>))"

definition move_assign_with :: "('ob \<Rightarrow> nat option) \<Rightarrow> ('ob \<Rightarrow> 'ob) \<Rightarrow> nat \<Rightarrow> nat \<Rightarrow> ('ob, 'res) store \<Rightarrow> ('ob, 'res) store option" where
  "move_assign_with owns disown x y s =
     Option.bind (objs s x) (\<lambda>this.
     Option.bind (objs s y) (\<lambda>other.
     Option.bind (release_with owns this s) (\<lambda>s.
     Some (s\<lparr>objs := (objs s)(x \<mapsto> other, y \<mapsto> disown other)\<rparr>))))"

section \<open>Results\<close>

text \<open>The release pointer is null or the function that frees the output.\<close>

record raw_result =
  rr_status :: evmc_status_code
  rr_gas_left :: int
  rr_output :: "nat option"
  rr_size :: nat
  rr_release :: bool

definition zeroed_result :: raw_result where
  "zeroed_result = \<lparr>rr_status = EVMC_SUCCESS, rr_gas_left = 0, rr_output = None, rr_size = 0, rr_release = False\<rparr>"

definition evmc_make_result ::
  "((nat \<rightharpoonup> byte list) \<Rightarrow> nat option) \<Rightarrow> evmc_status_code \<Rightarrow> int \<Rightarrow> byte list \<Rightarrow> (nat \<rightharpoonup> byte list) \<Rightarrow>
   raw_result \<times> (nat \<rightharpoonup> byte list)" where
  "evmc_make_result malloc sc gas output h =
     (if output \<noteq> [] then
        (case malloc h of
           None \<Rightarrow> (zeroed_result\<lparr>rr_status := EVMC_OUT_OF_MEMORY\<rparr>, h)
         | Some p \<Rightarrow>
             (zeroed_result\<lparr>rr_output := Some p, rr_size := length output, rr_release := True, rr_status := sc, rr_gas_left := gas\<rparr>,
              h(p \<mapsto> output)))
      else (zeroed_result\<lparr>rr_status := sc, rr_gas_left := gas\<rparr>, h))"

definition result_owns :: "raw_result \<Rightarrow> nat option" where
  "result_owns ob = (if rr_release ob then rr_output ob else None)"

definition result_disown :: "raw_result \<Rightarrow> raw_result" where
  "result_disown ob = ob\<lparr>rr_release := False\<rparr>"

definition evmc_release_result :: "nat \<Rightarrow> (raw_result, byte list) store \<Rightarrow> (raw_result, byte list) store option" where
  "evmc_release_result x s = Option.bind (objs s x) (\<lambda>ob. release_with result_owns ob s)"

definition result_new ::
  "((nat \<rightharpoonup> byte list) \<Rightarrow> nat option) \<Rightarrow> nat \<Rightarrow> evmc_status_code \<Rightarrow> int \<Rightarrow> byte list \<Rightarrow>
   (raw_result, byte list) store \<Rightarrow> (raw_result, byte list) store option" where
  "result_new malloc x sc gas output s =
     (if objs s x \<noteq> None then None
      else case evmc_make_result malloc sc gas output (heap s) of
             (ob, h) \<Rightarrow> Some (s\<lparr>objs := (objs s)(x \<mapsto> ob), heap := h\<rparr>))"

definition result_delete :: "nat \<Rightarrow> (raw_result, byte list) store \<Rightarrow> (raw_result, byte list) store option" where
  "result_delete = destroy_with result_owns"

definition result_move :: "nat \<Rightarrow> nat \<Rightarrow> (raw_result, byte list) store \<Rightarrow> (raw_result, byte list) store option" where
  "result_move = move_new_with result_disown"

definition result_assign :: "nat \<Rightarrow> nat \<Rightarrow> (raw_result, byte list) store \<Rightarrow> (raw_result, byte list) store option" where
  "result_assign = move_assign_with result_owns result_disown"

text \<open>The raw copy that release\_raw returns is an object under the name \<open>y\<close>, whose owner is the caller.\<close>

definition release_raw :: "nat \<Rightarrow> nat \<Rightarrow> (raw_result, byte list) store \<Rightarrow> (raw_result, byte list) store option" where
  "release_raw x y s =
     Option.bind (objs s x) (\<lambda>ob.
     if objs s y \<noteq> None then None else Some (s\<lparr>objs := (objs s)(y \<mapsto> ob, x \<mapsto> ob\<lparr>rr_release := False\<rparr>)\<rparr>))"

section \<open>Virtual machines\<close>

text \<open>An object of class vm is its pointer to an instance, which may be null.\<close>

definition vm_owns :: "nat option \<Rightarrow> nat option" where "vm_owns p = p"
definition vm_disown :: "nat option \<Rightarrow> nat option" where "vm_disown p = None"

definition vm_delete :: "nat \<Rightarrow> (nat option, 'v evmc_instance) store \<Rightarrow> (nat option, 'v evmc_instance) store option" where
  "vm_delete = destroy_with vm_owns"

definition vm_move :: "nat \<Rightarrow> nat \<Rightarrow> (nat option, 'v evmc_instance) store \<Rightarrow> (nat option, 'v evmc_instance) store option" where
  "vm_move = move_new_with vm_disown"

definition vm_assign :: "nat \<Rightarrow> nat \<Rightarrow> (nat option, 'v evmc_instance) store \<Rightarrow> (nat option, 'v evmc_instance) store option" where
  "vm_assign = move_assign_with vm_owns vm_disown"

definition vm_bool :: "nat option \<Rightarrow> bool" where "vm_bool p \<longleftrightarrow> p \<noteq> None"

definition evmc_vm_name :: "'v evmc_instance \<Rightarrow> string" where
  "evmc_vm_name inst = vm_name inst"

definition evmc_vm_has_capability :: "u32 \<Rightarrow> u32 \<Rightarrow> bool" where
  "evmc_vm_has_capability capabilities capability \<longleftrightarrow> capabilities AND capability \<noteq> 0"

definition evmc_set_option :: "'v evmc_instance \<Rightarrow> string \<Rightarrow> string \<Rightarrow> evmc_set_option_result \<times> 'v evmc_instance" where
  "evmc_set_option inst name val =
     (case set_option inst of
        None \<Rightarrow> (EVMC_SET_OPTION_INVALID_NAME, inst)
      | Some f \<Rightarrow> (case f (vm inst) name val of (r, v) \<Rightarrow> (r, inst\<lparr>vm := v\<rparr>)))"

text \<open>The constructor with a list of options ignores the results.\<close>

definition vm_with_options :: "'v evmc_instance \<Rightarrow> (string \<times> string) list \<Rightarrow> 'v evmc_instance" where
  "vm_with_options inst options = foldl (\<lambda>i (n, v). snd (evmc_set_option i n v)) inst options"

section \<open>Hosts\<close>

text \<open>
  The table of C functions, and the two adapters between it and the methods of a host. The
  transaction context that HostContext keeps is modelled by \<^const>\<open>get_tx_context\<close>.
\<close>

record 'h evmc_host_interface =
  c_account_exists :: "'h \<Rightarrow> address \<Rightarrow> bool"
  c_get_storage :: "'h \<Rightarrow> address \<Rightarrow> bytes32 \<Rightarrow> bytes32"
  c_set_storage :: "'h \<Rightarrow> address \<Rightarrow> bytes32 \<Rightarrow> bytes32 \<Rightarrow> 'h"
  c_get_balance :: "'h \<Rightarrow> address \<Rightarrow> uint256be"
  c_get_code_size :: "'h \<Rightarrow> address \<Rightarrow> nat"
  c_get_code_hash :: "'h \<Rightarrow> address \<Rightarrow> bytes32"
  c_copy_code :: "'h \<Rightarrow> address \<Rightarrow> nat \<Rightarrow> nat \<Rightarrow> byte list"
  c_selfdestruct :: "'h \<Rightarrow> address \<Rightarrow> address \<Rightarrow> 'h"
  c_call :: "'h \<Rightarrow> evmc_message \<Rightarrow> evmc_result \<times> 'h"
  c_get_tx_context :: "'h \<Rightarrow> evmc_tx_context"
  c_get_block_hash :: "'h \<Rightarrow> int \<Rightarrow> bytes32"
  c_emit_log :: "'h \<Rightarrow> address \<Rightarrow> byte list \<Rightarrow> bytes32 list \<Rightarrow> 'h"

definition internal_interface :: "'h HostInterface \<Rightarrow> 'h evmc_host_interface" where
  "internal_interface H =
     \<lparr>c_account_exists = (\<lambda>h addr. account_exists H h addr),
      c_get_storage = (\<lambda>h addr key. get_storage H h addr key),
      c_set_storage = (\<lambda>h addr key val. set_storage H h addr key val),
      c_get_balance = (\<lambda>h addr. get_balance H h addr),
      c_get_code_size = (\<lambda>h addr. get_code_size H h addr),
      c_get_code_hash = (\<lambda>h addr. get_code_hash H h addr),
      c_copy_code = (\<lambda>h addr off n. copy_code H h addr off n),
      c_selfdestruct = (\<lambda>h addr beneficiary. selfdestruct H h addr beneficiary),
      c_call = (\<lambda>h msg. host_call H h msg),
      c_get_tx_context = (\<lambda>h. host_tx_context H h),
      c_get_block_hash = (\<lambda>h number. get_block_hash H h number),
      c_emit_log = (\<lambda>h addr data topics. emit_log H h addr data topics)\<rparr>"

definition HostContext_methods :: "'h evmc_host_interface \<Rightarrow> 'h HostInterface" where
  "HostContext_methods host =
     \<lparr>account_exists = (\<lambda>context addr. c_account_exists host context addr),
      get_storage = (\<lambda>context addr key. c_get_storage host context addr key),
      set_storage = (\<lambda>context addr key val. c_set_storage host context addr key val),
      get_balance = (\<lambda>context addr. c_get_balance host context addr),
      get_code_size = (\<lambda>context addr. c_get_code_size host context addr),
      get_code_hash = (\<lambda>context addr. c_get_code_hash host context addr),
      copy_code = (\<lambda>context addr off n. c_copy_code host context addr off n),
      selfdestruct = (\<lambda>context addr beneficiary. c_selfdestruct host context addr beneficiary),
      host_call = (\<lambda>context msg. c_call host context msg),
      host_tx_context = (\<lambda>context. c_get_tx_context host context),
      get_block_hash = (\<lambda>context number. c_get_block_hash host context number),
      emit_log = (\<lambda>context addr data topics. c_emit_log host context addr data topics)\<rparr>"

lemma host_adapters: "HostContext_methods (internal_interface H) = H"
  by (simp add: HostContext_methods_def internal_interface_def)

section \<open>Every resource has one owner\<close>

definition owner :: "('ob \<Rightarrow> nat option) \<Rightarrow> ('ob, 'res) store \<Rightarrow> nat \<Rightarrow> nat \<Rightarrow> bool" where
  "owner owns s x r \<longleftrightarrow> (\<exists>ob. objs s x = Some ob \<and> owns ob = Some r)"

definition owned_once :: "('ob \<Rightarrow> nat option) \<Rightarrow> ('ob, 'res) store \<Rightarrow> bool" where
  "owned_once owns s \<longleftrightarrow>
     (\<forall>x y r. owner owns s x r \<and> owner owns s y r \<longrightarrow> x = y)
     \<and> (\<forall>r. heap s r \<noteq> None \<longleftrightarrow> (\<exists>x. owner owns s x r))"

lemma owned_onceD:
  "owned_once owns s \<Longrightarrow> owner owns s x r \<Longrightarrow> owner owns s y r \<Longrightarrow> x = y"
  "owned_once owns s \<Longrightarrow> heap s r \<noteq> None \<longleftrightarrow> (\<exists>x. owner owns s x r)"
  by (auto simp: owned_once_def)

lemma owned_onceI:
  assumes "\<And>x y r. owner owns s x r \<Longrightarrow> owner owns s y r \<Longrightarrow> x = y" "\<And>r. heap s r \<noteq> None \<longleftrightarrow> (\<exists>x. owner owns s x r)"
  shows "owned_once owns s"
  unfolding owned_once_def using assms by blast

locale handle =
  fixes owns :: "'ob \<Rightarrow> nat option" and disown :: "'ob \<Rightarrow> 'ob"
  assumes owns_disown: "owns (disown ob) = None"
begin

lemma release_owned:
  assumes "owned_once owns s" "objs s x = Some ob"
  shows "\<exists>h. release_with owns ob s = Some (s\<lparr>heap := h\<rparr>)
    \<and> (\<forall>r. h r \<noteq> None \<longleftrightarrow> (\<exists>y. y \<noteq> x \<and> owner owns s y r))"
proof (cases "owns ob")
  case None
  then have "\<not> owner owns s x r" for r using assms(2) by (simp add: owner_def)
  then have "heap s r \<noteq> None \<longleftrightarrow> (\<exists>y. y \<noteq> x \<and> owner owns s y r)" for r
    using owned_onceD(2) [OF assms(1), of r] by metis
  with None show ?thesis by (intro exI [of _ "heap s"]) (simp add: release_with_def)
next
  case (Some r0)
  then have o: "owner owns s x r \<longleftrightarrow> r = r0" for r using assms(2) by (auto simp: owner_def)
  then have "heap s r0 \<noteq> None" using owned_onceD(2) [OF assms(1), of r0] by blast
  moreover have "((heap s)(r0 := None)) r \<noteq> None \<longleftrightarrow> (\<exists>y. y \<noteq> x \<and> owner owns s y r)" for r
    using owned_onceD(1) [OF assms(1), of x r] owned_onceD(2) [OF assms(1), of r] o [of r] by auto
  ultimately show ?thesis using Some by (intro exI [of _ "(heap s)(r0 := None)"]) (auto simp: release_with_def)
qed

lemma destroy_owned:
  assumes "owned_once owns s" "objs s x = Some ob"
  shows "\<exists>s'. destroy_with owns x s = Some s' \<and> owned_once owns s' \<and> objs s' = (objs s)(x := None)"
proof -
  obtain h where h: "release_with owns ob s = Some (s\<lparr>heap := h\<rparr>)"
    "\<And>r. h r \<noteq> None \<longleftrightarrow> (\<exists>y. y \<noteq> x \<and> owner owns s y r)" using release_owned [OF assms] by blast
  let ?s = "s\<lparr>heap := h, objs := (objs s)(x := None)\<rparr>"
  have o: "owner owns ?s y r \<longleftrightarrow> y \<noteq> x \<and> owner owns s y r" for y r by (simp add: owner_def)
  have "owned_once owns ?s"
    unfolding owned_once_def o using h(2) owned_onceD(1) [OF assms(1)] by auto
  then show ?thesis using assms(2) h(1) by (simp add: destroy_with_def)
qed

lemma move_new_owned:
  assumes "owned_once owns s" "objs s x = Some ob" "objs s y = None"
  shows "\<exists>s'. move_new_with disown x y s = Some s' \<and> owned_once owns s' \<and> objs s' = (objs s)(y \<mapsto> ob, x \<mapsto> disown ob)"
proof -
  let ?s = "s\<lparr>objs := (objs s)(y \<mapsto> ob, x \<mapsto> disown ob)\<rparr>"
  have ne: "x \<noteq> y" using assms(2,3) by auto
  have o: "owner owns ?s z r \<longleftrightarrow> (if z = y then owner owns s x r else z \<noteq> x \<and> owner owns s z r)" for z r
    using ne assms(2) by (auto simp: owner_def owns_disown)
  have ny: "\<not> owner owns s y r" for r using assms(3) by (simp add: owner_def)
  have "heap ?s r \<noteq> None \<longleftrightarrow> (\<exists>z. owner owns ?s z r)" for r
    unfolding o using ne ny owned_onceD(2) [OF assms(1), of r] by (simp, metis)
  moreover have "z = z'" if "owner owns ?s z r" "owner owns ?s z' r" for z z' r
    using that owned_onceD(1) [OF assms(1)] ne unfolding o by (metis (full_types))
  ultimately have "owned_once owns ?s" by (intro owned_onceI)
  then show ?thesis using assms(2,3) by (simp add: move_new_with_def)
qed

lemma move_assign_owned:
  assumes "owned_once owns s" "objs s x = Some this" "objs s y = Some other" "x \<noteq> y"
  shows "\<exists>s'. move_assign_with owns disown x y s = Some s' \<and> owned_once owns s' \<and> objs s' = (objs s)(x \<mapsto> other, y \<mapsto> disown other)"
proof -
  obtain h where h: "release_with owns this s = Some (s\<lparr>heap := h\<rparr>)"
    "\<And>r. h r \<noteq> None \<longleftrightarrow> (\<exists>z. z \<noteq> x \<and> owner owns s z r)" using release_owned [OF assms(1,2)] by blast
  let ?s = "s\<lparr>heap := h, objs := (objs s)(x \<mapsto> other, y \<mapsto> disown other)\<rparr>"
  have o: "owner owns ?s z r \<longleftrightarrow> (if z = x then owner owns s y r else z \<noteq> y \<and> owner owns s z r)" for z r
    using assms(3,4) by (auto simp: owner_def owns_disown)
  have "heap ?s r \<noteq> None \<longleftrightarrow> (\<exists>z. owner owns ?s z r)" for r
    unfolding o using h(2) [of r] assms(4) by (simp, metis)
  moreover have "z = z'" if "owner owns ?s z r" "owner owns ?s z' r" for z z' r
    using that owned_onceD(1) [OF assms(1)] assms(4) unfolding o by (metis (full_types))
  ultimately have "owned_once owns ?s" by (intro owned_onceI)
  then show ?thesis using assms(2-4) h(1) by (simp add: move_assign_with_def)
qed

end

interpretation result: handle result_owns result_disown
  by unfold_locales (simp add: result_owns_def result_disown_def)

interpretation machine: handle vm_owns vm_disown
  by unfold_locales (simp add: vm_owns_def vm_disown_def)

section \<open>Programs that use results\<close>

datatype result_op =
    RNew nat evmc_status_code int "byte list"
  | RDelete nat
  | RMove nat nat
  | RAssign nat nat
  | RRaw nat nat

fun result_step ::
  "((nat \<rightharpoonup> byte list) \<Rightarrow> nat option) \<Rightarrow> result_op \<Rightarrow> (raw_result, byte list) store \<Rightarrow> (raw_result, byte list) store option" where
  "result_step malloc (RNew x sc gas outp) s = result_new malloc x sc gas outp s"
| "result_step malloc (RDelete x) s = result_delete x s"
| "result_step malloc (RMove x y) s = result_move x y s"
| "result_step malloc (RAssign x y) s = result_assign x y s"
| "result_step malloc (RRaw x y) s = release_raw x y s"

fun result_run ::
  "((nat \<rightharpoonup> byte list) \<Rightarrow> nat option) \<Rightarrow> result_op list \<Rightarrow> (raw_result, byte list) store \<Rightarrow> (raw_result, byte list) store option" where
  "result_run malloc [] s = Some s"
| "result_run malloc (op # ops) s = Option.bind (result_step malloc op s) (result_run malloc ops)"

text \<open>
  The names a program has in scope: a constructor introduces a new one, the other operations use
  names in scope, and nothing is assigned to itself.
\<close>

fun scope_step :: "result_op \<Rightarrow> nat set \<Rightarrow> nat set option" where
  "scope_step (RNew x _ _ _) N = (if x \<in> N then None else Some (insert x N))"
| "scope_step (RDelete x) N = (if x \<in> N then Some (N - {x}) else None)"
| "scope_step (RMove x y) N = (if x \<in> N \<and> y \<notin> N then Some (insert y N) else None)"
| "scope_step (RAssign x y) N = (if x \<in> N \<and> y \<in> N \<and> x \<noteq> y then Some N else None)"
| "scope_step (RRaw x y) N = (if x \<in> N \<and> y \<notin> N then Some (insert y N) else None)"

fun scope_run :: "result_op list \<Rightarrow> nat set \<Rightarrow> nat set option" where
  "scope_run [] N = Some N"
| "scope_run (op # ops) N = Option.bind (scope_step op N) (scope_run ops)"

text \<open>What is asked of the allocator: an address it returns is not in use.\<close>

definition fresh_malloc :: "((nat \<rightharpoonup> byte list) \<Rightarrow> nat option) \<Rightarrow> bool" where
  "fresh_malloc malloc \<longleftrightarrow> (\<forall>h p. malloc h = Some p \<longrightarrow> h p = None)"

lemma result_new_owned:
  assumes fresh: "fresh_malloc malloc" and s: "owned_once result_owns s" "objs s x = None"
  shows "\<exists>s' ob. result_new malloc x sc gas outp s = Some s' \<and> owned_once result_owns s' \<and> objs s' = (objs s)(x \<mapsto> ob)"
proof -
  obtain ob h where m: "evmc_make_result malloc sc gas outp (heap s) = (ob, h)" by fastforce
  let ?s = "s\<lparr>objs := (objs s)(x \<mapsto> ob), heap := h\<rparr>"
  have h: "(result_owns ob = None \<and> h = heap s) \<or> (\<exists>p. result_owns ob = Some p \<and> h = (heap s)(p \<mapsto> outp) \<and> heap s p = None)"
    using m fresh by (auto simp: fresh_malloc_def evmc_make_result_def result_owns_def zeroed_result_def split: if_splits option.splits)
  have o: "owner result_owns ?s y r \<longleftrightarrow> (if y = x then result_owns ob = Some r else owner result_owns s y r)" for y r
    by (simp add: owner_def)
  have nx: "\<not> owner result_owns s x r" for r using s(2) by (simp add: owner_def)
  have "owned_once result_owns ?s"
  proof (rule owned_onceI)
    fix y z r assume "owner result_owns ?s y r" "owner result_owns ?s z r"
    moreover have "heap s r \<noteq> None" if "owner result_owns s w r" for w
      using that owned_onceD(2) [OF s(1), of r] by blast
    ultimately show "y = z" unfolding o using h owned_onceD(1) [OF s(1)] by (auto split: if_splits)
  next
    fix r
    show "heap ?s r \<noteq> None \<longleftrightarrow> (\<exists>y. owner result_owns ?s y r)"
      unfolding o using h owned_onceD(2) [OF s(1), of r] nx [of r] by auto
  qed
  then show ?thesis using s(2) m by (auto simp: result_new_def)
qed

lemma release_raw_is_move: "release_raw = result_move"
proof (intro ext)
  fix x y and s :: "(raw_result, byte list) store"
  show "release_raw x y s = result_move x y s"
    by (cases "objs s x") (simp_all add: release_raw_def result_move_def move_new_with_def result_disown_def)
qed

lemma result_step_ok:
  assumes fresh: "fresh_malloc malloc" and s: "owned_once result_owns s"
    and N: "scope_step op (dom (objs s)) = Some N"
  shows "\<exists>s'. result_step malloc op s = Some s' \<and> owned_once result_owns s' \<and> dom (objs s') = N"
proof (cases op)
  case (RNew x sc gas outp)
  with N have x: "objs s x = None" "N = insert x (dom (objs s))" by (auto split: if_splits)
  with result_new_owned [OF fresh s x(1), of sc gas outp] RNew show ?thesis by auto
next
  case (RDelete x)
  with N obtain ob where x: "objs s x = Some ob" "N = dom (objs s) - {x}" by (auto split: if_splits)
  with result.destroy_owned [OF s x(1)] RDelete show ?thesis by (auto simp: result_delete_def)
next
  case (RMove x y)
  with N obtain ob where x: "objs s x = Some ob" "objs s y = None" "N = insert y (dom (objs s))" by (auto split: if_splits)
  with result.move_new_owned [OF s x(1,2)] RMove show ?thesis by (fastforce simp: result_move_def)
next
  case (RAssign x y)
  with N obtain ob ob' where x: "objs s x = Some ob" "objs s y = Some ob'" "x \<noteq> y" "N = dom (objs s)" by (auto split: if_splits)
  with result.move_assign_owned [OF s x(1-3)] RAssign show ?thesis by (fastforce simp: result_assign_def)
next
  case (RRaw x y)
  with N obtain ob where x: "objs s x = Some ob" "objs s y = None" "N = insert y (dom (objs s))" by (auto split: if_splits)
  with result.move_new_owned [OF s x(1,2)] RRaw show ?thesis by (fastforce simp: release_raw_is_move result_move_def)
qed

lemma result_run_ok:
  assumes fresh: "fresh_malloc malloc"
  shows "owned_once result_owns s \<Longrightarrow> scope_run ops (dom (objs s)) = Some N \<Longrightarrow>
    \<exists>s'. result_run malloc ops s = Some s' \<and> owned_once result_owns s' \<and> dom (objs s') = N"
proof (induction ops arbitrary: s)
  case (Cons op ops)
  from Cons.prems(2) obtain N1 where n1: "scope_step op (dom (objs s)) = Some N1" and n2: "scope_run ops N1 = Some N"
    by (auto simp: Option.bind_eq_Some_conv)
  from result_step_ok [OF fresh Cons.prems(1) n1] obtain s1 where
    "result_step malloc op s = Some s1" "owned_once result_owns s1" "dom (objs s1) = N1" by blast
  with Cons.IH [of s1] n2 show ?case by auto
qed simp

definition empty_store :: "('ob, 'res) store" where
  "empty_store = \<lparr>objs = Map.empty, heap = Map.empty\<rparr>"

text \<open>
  C27: Results release their output exactly once. A program that respects the scope of its results
  and assigns none to itself runs without releasing a buffer twice, whatever it creates, moves,
  assigns and hands out; at each of its ends every allocated buffer belongs to exactly one result, and
  when all results are gone no buffer is left. The allocator is only asked to return addresses
  that are free.
\<close>

theorem results_released_once:
  assumes "fresh_malloc malloc" "scope_run ops {} = Some N"
  shows "\<exists>s. result_run malloc ops empty_store = Some s \<and> owned_once result_owns s
    \<and> dom (objs s) = N \<and> (N = {} \<longrightarrow> heap s = Map.empty)"
proof -
  have "owned_once result_owns empty_store" by (simp add: owned_once_def owner_def empty_store_def)
  moreover have "scope_run ops (dom (objs empty_store)) = Some N" using assms(2) by (simp add: empty_store_def)
  ultimately obtain s where s: "result_run malloc ops empty_store = Some s" "owned_once result_owns s" "dom (objs s) = N"
    using result_run_ok [OF assms(1)] by blast
  have "heap s = Map.empty" if "N = {}"
  proof (rule ext)
    fix r
    have "\<not> owner result_owns s x r" for x using s(3) that by (simp add: owner_def)
    then show "heap s r = None" using owned_onceD(2) [OF s(2), of r] by blast
  qed
  with s show ?thesis by blast
qed

text \<open>An allocator with room for one buffer.\<close>

definition sample_malloc :: "(nat \<rightharpoonup> byte list) \<Rightarrow> nat option" where
  "sample_malloc h = (if h 0 = None then Some 0 else None)"

theorem results_released_once_witness:
  "\<exists>s. result_run sample_malloc [RNew 0 EVMC_SUCCESS 5 [1, 2], RMove 0 1, RNew 2 EVMC_REVERT 0 [3], RAssign 2 1, RDelete 1, RDelete 2, RDelete 0]
       empty_store = Some s \<and> heap s = Map.empty"
proof -
  let ?ops = "[RNew 0 EVMC_SUCCESS 5 [1, 2], RMove 0 1, RNew 2 EVMC_REVERT 0 [3], RAssign 2 1, RDelete 1, RDelete 2, RDelete 0]"
  have "fresh_malloc sample_malloc" by (simp add: fresh_malloc_def sample_malloc_def)
  moreover have "scope_run ?ops {} = Some {}" by auto
  ultimately show ?thesis using results_released_once [of sample_malloc ?ops "{}"] by blast
qed

text \<open>
  The comment on the move assignment forbids self-assignment: it frees the output and leaves
  the result pointing to it.
\<close>

theorem self_assignment_dangles:
  assumes "objs s x = Some ob" "rr_release ob" "rr_output ob = Some p" "heap s p \<noteq> None"
  shows "\<exists>s' ob'. result_assign x x s = Some s' \<and> objs s' x = Some ob' \<and> rr_output ob' = Some p \<and> heap s' p = None"
  using assms by (auto simp: result_assign_def move_assign_with_def release_with_def result_owns_def result_disown_def)

end
