(* ===== verification/Loader_Correct.thy ===== *)
theory Loader_Correct
  imports Loader Hera
begin

text \<open>
  What loader.h promises: the names of the create function and their order, the order in which
  options reach the virtual machine, and who owns what after an error. The last section
  configures a Hera instance through the loader.
\<close>

section \<open>The names of the create function\<close>

fun join :: "char \<Rightarrow> string list \<Rightarrow> string" where
  "join c [] = []"
| "join c [w] = w"
| "join c (w # ws) = w @ c # join c ws"

fun create_names :: "string list \<Rightarrow> string list" where
  "create_names [] = []"
| "create_names (w # ws) = (create_prefix @ join (CHR ''_'') (w # ws)) # create_names ws"

fun first_some :: "('a \<Rightarrow> 'b option) \<Rightarrow> 'a list \<Rightarrow> 'b option" where
  "first_some f [] = None"
| "first_some f (x # xs) = (case f x of Some y \<Rightarrow> Some y | None \<Rightarrow> first_some f xs)"

lemma first_some_append:
  "first_some f (xs @ ys) = (case first_some f xs of Some y \<Rightarrow> Some y | None \<Rightarrow> first_some f ys)"
  by (induction xs) (auto split: option.splits)

lemma sep_while [simp]:
  "c \<notin> set s \<Longrightarrow> takeWhile (\<lambda>x. x \<noteq> c) s = s"
  "c \<notin> set s \<Longrightarrow> dropWhile (\<lambda>x. x \<noteq> c) s = []"
  "c \<notin> set s \<Longrightarrow> takeWhile (\<lambda>x. x \<noteq> c) (s @ c # rest) = s"
  "c \<notin> set s \<Longrightarrow> dropWhile (\<lambda>x. x \<noteq> c) (s @ c # rest) = c # rest"
  by (induction s) auto

lemma set_join: "set (join c ws) \<subseteq> \<Union> (set ` set ws) \<union> {c}"
  by (induction c ws rule: join.induct) auto

lemma dash_join:
  "\<forall>w \<in> set ws. CHR ''-'' \<notin> set w \<Longrightarrow>
   map (\<lambda>c. if c = CHR ''-'' then CHR ''_'' else c) (join (CHR ''-'') ws) = join (CHR ''_'') ws"
proof (induction "CHR ''-''" ws rule: join.induct)
  case (2 w)
  then show ?case by (auto intro!: map_idI)
next
  case (3 w v vs)
  have "map (\<lambda>c. if c = CHR ''-'' then CHR ''_'' else c) w = w" using 3(2) by (auto intro!: map_idI)
  then show ?case using 3 by simp
qed simp

lemma search_join:
  "ws \<noteq> [] \<Longrightarrow> \<forall>w \<in> set ws. CHR ''_'' \<notin> set w \<Longrightarrow>
   search dlsym (join (CHR ''_'') ws) = first_some dlsym (create_names ws)"
proof (induction "CHR ''_''" ws rule: join.induct)
  case (3 w v vs)
  then show ?case by (subst search.simps) (simp split: option.splits)
qed (auto simp: search.simps split: option.splits)

lemma after_last_path:
  assumes "c \<notin> set name" "dir = [] \<or> last dir = c"
  shows "after_last c (dir @ name) = name"
proof (cases dir rule: rev_cases)
  case Nil
  then show ?thesis using assms by (simp add: after_last_def)
next
  case (snoc d x)
  then show ?thesis using assms by (simp add: after_last_def)
qed

lemma before_last_ext: "c \<notin> set ext \<Longrightarrow> before_last c (name @ c # ext) = name"
  by (simp add: before_last_def)

definition plain_word :: "string \<Rightarrow> bool" where
  "plain_word w \<longleftrightarrow> set w \<inter> {CHR ''/'', CHR ''.'', CHR ''-'', CHR ''_''} = {}"

lemma base_name_words:
  assumes "\<forall>w \<in> set ws. plain_word w" "CHR ''/'' \<notin> set ext" "CHR ''.'' \<notin> set ext"
    and "dir = [] \<or> last dir = CHR ''/''" "length (join (CHR ''-'') ws @ CHR ''.'' # ext) < PATH_MAX_LENGTH"
  shows "base_name (dir @ ''lib'' @ join (CHR ''-'') ws @ CHR ''.'' # ext) = join (CHR ''_'') ws"
proof -
  let ?name = "join (CHR ''-'') ws @ CHR ''.'' # ext"
  have "CHR ''/'' \<notin> set (''lib'' @ ?name)"
    using set_join [of "CHR ''-''" ws] assms(1,2) by (auto simp: plain_word_def)
  then have "after_last (CHR ''/'') (dir @ ''lib'' @ ?name) = ''lib'' @ ?name" by (rule after_last_path [OF _ assms(4)])
  moreover have "before_last (CHR ''.'') (create_prefix @ ?name) = create_prefix @ join (CHR ''-'') ws"
    using before_last_ext [OF assms(3), of "create_prefix @ join (CHR ''-'') ws"] by simp
  moreover have "map (\<lambda>c. if c = CHR ''-'' then CHR ''_'' else c) (join (CHR ''-'') ws) = join (CHR ''_'') ws"
    using assms(1) by (intro dash_join) (auto simp: plain_word_def)
  ultimately show ?thesis using assms(5) by (simp add: base_name_def Let_def skip_lib_def strcpy_sx_def)
qed

section \<open>Options\<close>

fun options_text :: "(string \<times> string) list \<Rightarrow> string" where
  "options_text [] = []"
| "options_text ((n, x) # os) = CHR '','' # n @ CHR ''='' # x @ options_text os"

fun apply_options ::
  "('v \<Rightarrow> string \<Rightarrow> string \<Rightarrow> evmc_set_option_result \<times> 'v) \<Rightarrow> (string \<times> string) list \<Rightarrow> 'v
   \<Rightarrow> evmc_set_option_result + 'v" where
  "apply_options setopt [] v = Inr v"
| "apply_options setopt ((n, x) # os) v =
     (case setopt v n x of
        (EVMC_SET_OPTION_SUCCESS, v') \<Rightarrow> apply_options setopt os v'
      | (r, _) \<Rightarrow> Inl r)"

definition option_error :: "evmc_set_option_result \<Rightarrow> evmc_loader_error_code" where
  "option_error r =
     (case r of
        EVMC_SET_OPTION_SUCCESS \<Rightarrow> EVMC_LOADER_SUCCESS
      | EVMC_SET_OPTION_INVALID_NAME \<Rightarrow> EVMC_LOADER_INVALID_OPTION_NAME
      | EVMC_SET_OPTION_INVALID_VALUE \<Rightarrow> EVMC_LOADER_INVALID_OPTION_VALUE)"

definition plain_option :: "string \<times> string \<Rightarrow> bool" where
  "plain_option \<equiv> (\<lambda>(n, x). CHR '','' \<notin> set n \<and> CHR ''='' \<notin> set n \<and> CHR '','' \<notin> set x)"

lemma get_token_here: "c \<notin> set s \<Longrightarrow> get_token (s @ c # rest) c = (s, rest)"
  by (simp add: get_token_def)

lemma get_token_all: "c \<notin> set s \<Longrightarrow> get_token s c = (s, [])"
  by (simp add: get_token_def)

lemma options_token:
  "CHR '','' \<notin> set s \<Longrightarrow> get_token (s @ options_text os) (CHR '','') = (s, drop 1 (options_text os))"
  by (cases os rule: options_text.cases) (simp_all add: get_token_here get_token_all)

text \<open>The text after the first comma, parsed by the loop.\<close>

lemma configure_options:
  "\<forall>p \<in> set os. plain_option p \<Longrightarrow>
   case apply_options setopt os v of
     Inr v' \<Rightarrow> configure vmname path setopt (drop 1 (options_text os)) v st = ((EVMC_LOADER_SUCCESS, st), v')
   | Inl r \<Rightarrow> r \<noteq> EVMC_SET_OPTION_SUCCESS \<and>
       (\<exists>st' v'. configure vmname path setopt (drop 1 (options_text os)) v st = ((option_error r, st'), v')
          \<and> live st' = live st)"
proof (induction os arbitrary: v)
  case Nil
  then show ?case by (simp add: configure.simps)
next
  case (Cons p os)
  obtain n x where p: "p = (n, x)" by fastforce
  have plain: "CHR '','' \<notin> set n" "CHR ''='' \<notin> set n" "CHR '','' \<notin> set x" using Cons.prems p by (auto simp: plain_option_def)
  have "get_token ((n @ CHR ''='' # x) @ options_text os) (CHR '','') = (n @ CHR ''='' # x, drop 1 (options_text os))"
    using plain by (intro options_token) simp
  then have tok: "get_token (n @ CHR ''='' # x @ options_text os) (CHR '','') = (n @ CHR ''='' # x, drop 1 (options_text os))"
    by simp
  have tok2: "get_token (n @ CHR ''='' # x) (CHR ''='') = (n, x)" using plain by (simp add: get_token_here)
  obtain r v' where r: "setopt v n x = (r, v')" by fastforce
  show ?case using Cons.IH [of v'] Cons.prems
    by (cases r) (auto simp: p r configure.simps [of vmname path setopt "n @ _"] tok tok2 option_error_def
        set_error_def split: sum.splits)
qed


section \<open>Ownership\<close>

lemma load_live:
  "evmc_load P f st = (r, ec, st') \<Longrightarrow> live st' = live st \<and> (ec = EVMC_LOADER_SUCCESS \<longleftrightarrow> r \<noteq> None)
     \<and> (ec = EVMC_LOADER_SUCCESS \<longrightarrow> last_error_msg st' = None)"
  by (auto simp: evmc_load_def set_error_def Let_def dest!: sym [of "Some x" for x] split: option.splits if_splits)

lemma load_and_create_live:
  assumes "evmc_load_and_create P f st = (r, ec, st')"
  shows "live st' = live st + (if r = None then 0 else 1) \<and> (ec = EVMC_LOADER_SUCCESS \<longleftrightarrow> r \<noteq> None)
     \<and> (ec = EVMC_LOADER_SUCCESS \<longrightarrow> last_error_msg st' = None)"
proof -
  obtain fn ec1 st1 where l: "evmc_load P f st = (fn, ec1, st1)" by (rule prod_cases3)
  show ?thesis using assms load_live [OF l]
    by (auto simp: evmc_load_and_create_def l set_error_def evmc_destroy_def Let_def
        dest!: sym [of "Some x" for x] split: option.splits if_splits)
qed

lemma configure_live:
  "configure vmname path setopt options v st = ((ec, st'), v') \<Longrightarrow>
   live st' = live st \<and> (ec = EVMC_LOADER_SUCCESS \<longrightarrow> st' = st)"
proof (induction vmname path setopt options v st arbitrary: ec st' v' rule: configure.induct)
  case (1 vmname path setopt options v st)
  obtain option rest where tok: "get_token options (CHR '','') = (option, rest)" by fastforce
  obtain name val where tok2: "get_token option (CHR ''='') = (name, val)" by fastforce
  obtain r w where r: "setopt v name val = (r, w)" by fastforce
  show ?case
  proof (cases "options = []")
    case True
    then show ?thesis using "1.prems" by (simp add: configure.simps)
  next
    case False
    note IH = "1.IH" [OF False tok [symmetric] refl tok2 [symmetric] refl r [symmetric]]
    show ?thesis using "1.prems" False IH
      by (subst (asm) configure.simps) (auto simp: tok tok2 r set_error_def split: evmc_set_option_result.splits if_splits)
  qed
qed

section \<open>The properties\<close>

text \<open>The create function of a module. For a library named lib, words joined by dashes and an
extension, in any directory, the loader asks for the create prefix followed by all words
joined by underscores, then by all but the first, and so on, and at last for the bare name;
it returns the first function the library exports, and when there is none it closes the
library and says so. The search always ends.\<close>

theorem evmc_load_names:
  assumes "ws \<noteq> []" "\<forall>w \<in> set ws. plain_word w" "CHR ''/'' \<notin> set ext" "CHR ''.'' \<notin> set ext"
    and "dir = [] \<or> last dir = CHR ''/''" "file = dir @ ''lib'' @ join (CHR ''-'') ws @ CHR ''.'' # ext"
    and "length file \<le> 4096" "dll_open P file = Some lib"
  shows "evmc_load P (Some file) st =
    (case first_some (dll_sym P lib) (create_names ws @ [''evmc_create'']) of
       Some fn \<Rightarrow> (Some fn, EVMC_LOADER_SUCCESS, st\<lparr>last_error_msg := None, handles := lib # handles st\<rparr>)
     | None \<Rightarrow>
         (None, set_error EVMC_LOADER_SYMBOL_NOT_FOUND (''EVMC create function not found in '' @ file)
            (st\<lparr>last_error_msg := None\<rparr>)))"
proof -
  have "base_name file = join (CHR ''_'') ws"
    unfolding assms(6) using assms(2-5) assms(7) [unfolded assms(6)]
    by (intro base_name_words) (simp_all add: PATH_MAX_LENGTH_def)
  moreover have "\<forall>w \<in> set ws. CHR ''_'' \<notin> set w" using assms(2) by (auto simp: plain_word_def)
  moreover have "0 < length file" "\<not> PATH_MAX_LENGTH < length file" using assms(6,7) by (simp_all add: PATH_MAX_LENGTH_def)
  ultimately show ?thesis using assms(1,8)
    by (simp add: evmc_load_def search_join first_some_append Let_def split: option.splits)
qed

definition demo_platform :: "(unit, unit, nat) platform" where
  "demo_platform =
     \<lparr>dll_open = (\<lambda>f. Some ()), dll_error = (\<lambda>f. None),
      dll_sym = (\<lambda>l n. if n = ''evmc_create_interpreter'' then Some () else None), create = (\<lambda>f. None)\<rparr>"

theorem evmc_load_names_witness:
  "evmc_load demo_platform (Some ''/ethereum/libexample-interpreter.so'') \<lparr>last_error_msg = None, handles = [], live = 0\<rparr>
   = (Some (), EVMC_LOADER_SUCCESS, \<lparr>last_error_msg = None, handles = [()], live = 0\<rparr>)"
  using evmc_load_names [of "[''example'', ''interpreter'']" "''so''" "''/ethereum/''"
      "''/ethereum/libexample-interpreter.so''" demo_platform "()" "\<lparr>last_error_msg = None, handles = [], live = 0\<rparr>"]
  by (simp add: plain_word_def demo_platform_def create_prefix_def)

text \<open>configuring a virtual machine. From a configuration string that lists options after the
path, every option reaches the machine, with its name and its value as written, in the order
of the string, until the first one the machine refuses. If all are accepted the configured
machine is returned and owned by the caller; otherwise it is destroyed and the error code
says whether the name or the value was refused.\<close>

theorem configure_in_order:
  assumes "config = path @ options_text os" "CHR '','' \<notin> set path" "\<forall>p \<in> set os. plain_option p"
    and "length config < 4096" "evmc_load_and_create P (Some path) st = (Some inst, ec, st')"
    and "set_option inst = Some setopt"
  shows "case apply_options setopt os (vm inst) of
      Inr v \<Rightarrow> evmc_load_and_configure P config st = (Some (inst\<lparr>vm := v\<rparr>), EVMC_LOADER_SUCCESS, st')
    | Inl r \<Rightarrow> \<exists>st''. evmc_load_and_configure P config st = (None, option_error r, st'') \<and> live st'' = live st"
proof -
  have tok: "get_token config (CHR '','') = (path, drop 1 (options_text os))"
    unfolding assms(1) by (rule options_token [OF assms(2)])
  have live: "live st' = live st + 1" using load_and_create_live [OF assms(5)] by simp
  have copy: "strcpy_sx PATH_MAX_LENGTH config = (config, 0)" using assms(4) by (simp add: strcpy_sx_def PATH_MAX_LENGTH_def)
  show ?thesis
    using configure_options [OF assms(3), where setopt = setopt and v = "vm inst" and vmname = "vm_name inst" and path = path and st = st']
    by (auto simp: evmc_load_and_configure_def copy tok assms(5,6) evmc_destroy_def live option_error_def
        split: sum.splits evmc_set_option_result.splits)
qed

text \<open>Hera as a module: its instance with the method that sets options.\<close>

definition hera_module ::
  "(string \<Rightarrow> byte list) \<Rightarrow> 'h WasmEngine \<Rightarrow> ('h hera_instance \<times> bool) evmc_instance" where
  "hera_module files newEngine =
     \<lparr>abi_version = EVMC_ABI_VERSION, vm_name = ''hera'', vm = (evmc_create_hera newEngine, False),
      set_option = Some (\<lambda>(v, bench) name x. case hera_set_option files newEngine v bench name x of
        (r, v', bench') \<Rightarrow> (r, (v', bench')))\<rparr>"

definition hera_platform :: "'h WasmEngine \<Rightarrow> (unit, unit, 'h hera_instance \<times> bool) platform" where
  "hera_platform newEngine =
     \<lparr>dll_open = (\<lambda>f. Some ()), dll_error = (\<lambda>f. None),
      dll_sym = (\<lambda>l n. if n = ''evmc_create_hera'' then Some () else None),
      create = (\<lambda>f. Some (hera_module (\<lambda>_. []) newEngine))\<rparr>"

definition no_engine :: "ExampleHost WasmEngine" where
  "no_engine = \<lparr>we_execute = (\<lambda>c _ _ _ _. (Inl VMTrap, c)), we_verifyContract = (\<lambda>_. Inl ContractValidationFailure)\<rparr>"

lemma hera_loads:
  "evmc_load_and_create (hera_platform E) (Some ''libhera.so'') \<lparr>last_error_msg = None, handles = [], live = 0\<rparr>
   = (Some (hera_module (\<lambda>_. []) E), EVMC_LOADER_SUCCESS, \<lparr>last_error_msg = None, handles = [()], live = 1\<rparr>)"
  by (simp add: evmc_load_and_create_def evmc_load_def hera_platform_def base_name_def after_last_def before_last_def
      skip_lib_def strcpy_sx_def create_prefix_def PATH_MAX_LENGTH_def search.simps hera_module_def
      evmc_is_abi_compatible_def)

theorem configure_in_order_witness:
  "\<exists>inst st. evmc_load_and_configure (hera_platform no_engine) ''libhera.so,metering=true,evm1mode=fallback''
       \<lparr>last_error_msg = None, handles = [], live = 0\<rparr> = (Some inst, EVMC_LOADER_SUCCESS, st)
     \<and> metering (fst (vm inst)) \<and> evm1mode (fst (vm inst)) = Fallback"
  using configure_in_order [of "''libhera.so,metering=true,evm1mode=fallback''" "''libhera.so''"
      "[(''metering'', ''true''), (''evm1mode'', ''fallback'')]", OF _ _ _ _ hera_loads [of no_engine]]
  by (simp add: plain_option_def hera_module_def hera_set_option_def evm1mode_options_def evmc_create_hera_def)

text \<open>nothing leaks from the loader. Whatever the library and the virtual machine do,
configuring from a string returns a machine exactly when the error code is success; then one
more machine is alive and there is no error message, and in every other case the number of
live machines is what it was.\<close>

theorem load_and_configure_ownership:
  assumes "evmc_load_and_configure P config st = (r, ec, st')"
  shows "(r \<noteq> None \<longleftrightarrow> ec = EVMC_LOADER_SUCCESS) \<and> live st' = live st + (if r = None then 0 else 1)
    \<and> (ec = EVMC_LOADER_SUCCESS \<longrightarrow> last_error_msg st' = None)"
proof -
  obtain buffer rc where c: "strcpy_sx PATH_MAX_LENGTH config = (buffer, rc)" by fastforce
  obtain path options where tok: "get_token buffer (CHR '','') = (path, options)" by fastforce
  obtain inst ec1 st1 where l: "evmc_load_and_create P (Some path) st = (inst, ec1, st1)" by (rule prod_cases3)
  show ?thesis
  proof (cases "rc \<noteq> 0 \<or> inst = None")
    case True
    then show ?thesis using assms load_and_create_live [OF l]
      by (auto simp: evmc_load_and_configure_def c tok l set_error_def split: option.splits if_splits)
  next
    case False
    then obtain i where i: "inst = Some i" "rc = 0" by auto
    obtain ec2 st2 v where cf: "(case set_option i of
        None \<Rightarrow>
          (if options \<noteq> [] then set_error EVMC_LOADER_INVALID_OPTION_NAME
             (vm_name i @ '' ('' @ path @ '') does not support any options'') st1
           else (EVMC_LOADER_SUCCESS, st1), vm i)
      | Some setopt \<Rightarrow> configure (vm_name i) path setopt options (vm i) st1) = ((ec2, st2), v)"
      by (metis prod.exhaust)
    then have "live st2 = live st1 \<and> (ec2 = EVMC_LOADER_SUCCESS \<longrightarrow> st2 = st1)"
      by (auto simp: set_error_def dest: configure_live split: option.splits if_splits)
    then show ?thesis using assms load_and_create_live [OF l] i cf
      by (auto simp: evmc_load_and_configure_def c tok l evmc_destroy_def split: if_splits)
  qed
qed

theorem load_and_configure_ownership_witness:
  "fst (evmc_load_and_configure (hera_platform no_engine) [] \<lparr>last_error_msg = None, handles = [], live = 3\<rparr>) = None
   \<and> live (snd (snd (evmc_load_and_configure (hera_platform no_engine) []
        \<lparr>last_error_msg = None, handles = [], live = 3\<rparr>))) = 3"
proof -
  have run: "evmc_load_and_configure (hera_platform no_engine) [] \<lparr>last_error_msg = None, handles = [], live = 3\<rparr>
    = (None, EVMC_LOADER_INVALID_ARGUMENT,
       \<lparr>last_error_msg = Some ''invalid argument: file name cannot be empty'', handles = [], live = 3\<rparr>)"
    by (simp add: evmc_load_and_configure_def strcpy_sx_def PATH_MAX_LENGTH_def get_token_def
        evmc_load_and_create_def evmc_load_def set_error_def LAST_ERROR_MSG_BUFFER_SIZE_def)
  from load_and_configure_ownership [OF run] run show ?thesis by simp
qed

end
