(* ===== verification/Keccak.thy ===== *)
theory Keccak
  imports Prelude
begin

text \<open>
  The Keccak hash of src/evmtrans/Utils.cpp: the permutation on 25 lanes of 64 bits, with its
  loops in the order of the macros that unroll them, and the sponge over an array of 200
  bytes. The bytes of a lane are read least significant first, as on the machines the
  translator runs on. The loops of the sponge end for a positive rate only, so they are
  partial functions. The second half states the permutation and the padding the way the
  standard (FIPS 202) does and shows that the code computes them.
\<close>

type_synonym lane = "64 word"

section \<open>The permutation\<close>

definition rho :: "nat list" where
  "rho = [1, 3, 6, 10, 15, 21, 28, 36, 45, 55, 2, 14, 27, 41, 56, 8, 25, 43, 62, 18, 39, 61, 20, 44]"

definition pi_lane :: "nat list" where
  "pi_lane = [10, 7, 11, 17, 18, 3, 5, 16, 8, 21, 24, 4, 15, 23, 19, 13, 12, 2, 20, 14, 22, 9, 6, 1]"

definition RC :: "lane list" where
  "RC =
    [1, 0x8082, 0x800000000000808a, 0x8000000080008000,
     0x808b, 0x80000001, 0x8000000080008081, 0x8000000000008009,
     0x8a, 0x88, 0x80008009, 0x8000000a,
     0x8000808b, 0x800000000000008b, 0x8000000000008089, 0x8000000000008003,
     0x8000000000008002, 0x8000000000000080, 0x800a, 0x800000008000000a,
     0x8000000080008081, 0x8000000000008080, 0x80000001, 0x8000000080008008]"

definition rol :: "lane \<Rightarrow> nat \<Rightarrow> lane" where
  "rol x s = (push_bit s x OR drop_bit (64 - s) x)"

definition FOR5 :: "nat \<Rightarrow> (nat \<Rightarrow> 's \<Rightarrow> 's) \<Rightarrow> 's \<Rightarrow> 's" where
  "FOR5 s e = fold e [0, s, 2 * s, 3 * s, 4 * s]"

definition theta_parity :: "lane list \<Rightarrow> lane list \<Rightarrow> lane list" where
  "theta_parity a = FOR5 1 (\<lambda>x b. FOR5 5 (\<lambda>y b. b[x := b ! x XOR a ! (x + y)]) (b[x := 0]))"

definition theta_mix :: "lane list \<Rightarrow> lane list \<Rightarrow> lane list" where
  "theta_mix b = FOR5 1 (\<lambda>x. FOR5 5 (\<lambda>y a.
     a[y + x := a ! (y + x) XOR (b ! ((x + 4) mod 5) XOR rol (b ! ((x + 1) mod 5)) 1)]))"

definition rho_pi_step :: "nat \<Rightarrow> lane list \<times> lane \<Rightarrow> lane list \<times> lane" where
  "rho_pi_step x = (\<lambda>(a, t). (a[pi_lane ! x := rol t (rho ! x)], a ! (pi_lane ! x)))"

definition rho_pi :: "lane list \<Rightarrow> lane list" where
  "rho_pi a = fst (fold rho_pi_step [0..<24] (a, a ! 1))"

definition chi_row :: "nat \<Rightarrow> lane list \<Rightarrow> lane list" where
  "chi_row y a =
     (let b = FOR5 1 (\<lambda>x b. b[x := a ! (y + x)]) (replicate 5 0)
      in FOR5 1 (\<lambda>x a. a[y + x := b ! x XOR (NOT (b ! ((x + 1) mod 5)) AND b ! ((x + 2) mod 5))]) a)"

definition chi :: "lane list \<Rightarrow> lane list" where
  "chi = FOR5 5 chi_row"

definition keccak_round :: "nat \<Rightarrow> lane list \<Rightarrow> lane list" where
  "keccak_round i a =
     (let b = theta_parity a (replicate 5 0);
          a = theta_mix b a;
          a = rho_pi a;
          a = chi a
      in a[0 := a ! 0 XOR RC ! i])"

definition keccakf_lanes :: "lane list \<Rightarrow> lane list" where
  "keccakf_lanes = fold keccak_round [0..<24]"

text \<open>The lanes of an array of bytes.\<close>

fun lane_of :: "byte list \<Rightarrow> lane" where
  "lane_of [] = 0"
| "lane_of (b # bs) = ucast b OR push_bit 8 (lane_of bs)"

definition bytes_of_lane :: "lane \<Rightarrow> byte list" where
  "bytes_of_lane w = map (\<lambda>i. ucast (drop_bit (8 * i) w)) [0..<8]"

definition lanes :: "byte list \<Rightarrow> lane list" where
  "lanes a = map (\<lambda>i. lane_of (take 8 (drop (8 * i) a))) [0..<25]"

definition unlanes :: "lane list \<Rightarrow> byte list" where
  "unlanes ls = concat (map bytes_of_lane ls)"

definition keccakf :: "byte list \<Rightarrow> byte list" where
  "keccakf a = unlanes (keccakf_lanes (lanes a))"

section \<open>The sponge\<close>

definition Plen :: nat where "Plen = 200"

fun xorin :: "byte list \<Rightarrow> byte list \<Rightarrow> byte list" where
  "xorin (d # ds) (s # ss) = (d XOR s) # xorin ds ss"
| "xorin ds ss = ds"

partial_function (option) absorb :: "nat \<Rightarrow> byte list \<Rightarrow> byte list \<Rightarrow> (byte list \<times> byte list) option" where
  "absorb rate a inp =
     (if rate \<le> length inp then absorb rate (keccakf (xorin a (take rate inp))) (drop rate inp) else Some (a, inp))"

partial_function (option) squeeze :: "nat \<Rightarrow> byte list \<Rightarrow> nat \<Rightarrow> byte list \<Rightarrow> byte list option" where
  "squeeze rate a outlen out =
     (if rate \<le> outlen then squeeze rate (keccakf a) (outlen - rate) (out @ take rate a)
      else Some (out @ take outlen a))"

declare absorb.simps [code] squeeze.simps [code]

text \<open>The result of the call and the bytes written; \<open>None\<close> when the call does not come back.\<close>

definition hash :: "nat \<Rightarrow> byte list \<Rightarrow> nat \<Rightarrow> byte \<Rightarrow> (int \<times> byte list) option" where
  "hash outlen inp rate delim =
     (if Plen \<le> rate then Some (- 1, [])
      else
        (case absorb rate (replicate Plen 0) inp of
           None \<Rightarrow> None
         | Some (a, inp) \<Rightarrow>
             (let a = a[length inp := a ! length inp XOR delim];
                  a = a[rate - 1 := a ! (rate - 1) XOR 0x80];
                  a = keccakf (xorin a inp)
              in map_option (\<lambda>out. (0, out)) (squeeze rate a outlen []))))"

definition keccak_256 :: "nat \<Rightarrow> byte list \<Rightarrow> (int \<times> byte list) option" where
  "keccak_256 outlen inp = (if 256 div 8 < outlen then Some (- 1, []) else hash outlen inp (200 - 256 div 4) 0x01)"

definition keccak :: "byte list \<Rightarrow> byte list option" where
  "keccak data = map_option snd (keccak_256 32 data)"

section \<open>The standard\<close>

text \<open>A state is a function of the coordinates x and y, both modulo 5.\<close>

type_synonym state = "nat \<Rightarrow> nat \<Rightarrow> lane"

definition std_theta :: "state \<Rightarrow> state" where
  "std_theta A =
     (let C = (\<lambda>x. A x 0 XOR A x 1 XOR A x 2 XOR A x 3 XOR A x 4);
          D = (\<lambda>x. C ((x + 4) mod 5) XOR word_rotl 1 (C ((x + 1) mod 5)))
      in (\<lambda>x y. A x y XOR D x))"

text \<open>The offset of a lane: the walk from (1, 0), whose step t rotates by (t + 1)(t + 2) / 2.\<close>

fun std_walk :: "nat \<Rightarrow> nat \<times> nat" where
  "std_walk 0 = (1, 0)"
| "std_walk (Suc t) = (case std_walk t of (x, y) \<Rightarrow> (y, (2 * x + 3 * y) mod 5))"

definition std_offset :: "nat \<Rightarrow> nat \<Rightarrow> nat" where
  "std_offset x y =
     (case filter (\<lambda>t. std_walk t = (x, y)) [0..<24] of
        t # _ \<Rightarrow> (t + 1) * (t + 2) div 2 mod 64
      | [] \<Rightarrow> 0)"

definition std_rho :: "state \<Rightarrow> state" where
  "std_rho A = (\<lambda>x y. word_rotl (std_offset x y) (A x y))"

definition std_pi :: "state \<Rightarrow> state" where
  "std_pi A = (\<lambda>x y. A ((x + 3 * y) mod 5) x)"

definition std_chi :: "state \<Rightarrow> state" where
  "std_chi A = (\<lambda>x y. A x y XOR (NOT (A ((x + 1) mod 5) y) AND A ((x + 2) mod 5) y))"

text \<open>
  The round constants: the bits at the positions one below the powers of two come one by one
  from a linear feedback shift register with the polynomial 0x171, started at 1.
\<close>

definition std_next :: "int \<Rightarrow> int" where
  "std_next r = (if 128 \<le> r then (2 * r - 256) XOR 0x71 else 2 * r)"

definition std_constant :: "int \<Rightarrow> lane \<times> int" where
  "std_constant r =
     fold (\<lambda>j (w, r). (if odd r then w OR push_bit (2 ^ j - 1) 1 else w, std_next r)) [0..<7] (0, r)"

fun std_constants :: "nat \<Rightarrow> int \<Rightarrow> lane list" where
  "std_constants 0 r = []"
| "std_constants (Suc n) r = (case std_constant r of (w, r') \<Rightarrow> w # std_constants n r')"

definition std_RC :: "nat \<Rightarrow> lane" where
  "std_RC i = std_constants 24 1 ! i"

definition std_iota :: "nat \<Rightarrow> state \<Rightarrow> state" where
  "std_iota i A = (\<lambda>x y. if x = 0 \<and> y = 0 then A 0 0 XOR std_RC i else A x y)"

definition std_round :: "nat \<Rightarrow> state \<Rightarrow> state" where
  "std_round i A = std_iota i (std_chi (std_pi (std_rho (std_theta A))))"

definition state_of :: "lane list \<Rightarrow> state" where
  "state_of a = (\<lambda>x y. a ! (x + 5 * y))"

definition lanes_of_state :: "state \<Rightarrow> lane list" where
  "lanes_of_state A = map (\<lambda>i. A (i mod 5) (i div 5)) [0..<25]"


section \<open>The permutation is the standard's\<close>

lemma rol_rotl:
  assumes s: "0 < s" "s < 64"
  shows "rol x s = word_rotl s x"
proof (rule bit_word_eqI)
  fix n assume n: "n < LENGTH(64)"
  define k where "k = 64 - s"
  have k: "(n + k) mod 64 = (if s \<le> n then n - s else n + k)" "s mod 64 = s"
    using s n by (auto simp: mod_if k_def)
  have "bit (rol x s) n \<longleftrightarrow> s \<le> n \<and> bit x (n - s) \<or> bit x (n + k)"
    using n by (simp add: rol_def k_def [symmetric] bit_simps add.commute)
  also have "\<dots> \<longleftrightarrow> bit x ((n + k) mod 64)"
    using k s n by (auto simp: k_def dest: bit_imp_le_length)
  also have "\<dots> \<longleftrightarrow> bit (word_rotl s x) n" using n k(2) by (simp add: bit_word_rotl_iff k_def)
  finally show "bit (rol x s) n \<longleftrightarrow> bit (word_rotl s x) n" .
qed

lemma offsets:
  "map (\<lambda>i. std_offset (i mod 5) (i div 5)) [0..<25] =
    [0, 1, 62, 28, 27, 36, 44, 6, 55, 20, 3, 10, 43, 25, 39, 41, 45, 15, 21, 8, 18, 2, 61, 56, 14]"
  by code_simp

lemma std_constants_numeral:
  "std_constants (numeral k) r = (case std_constant r of (w, r') \<Rightarrow> w # std_constants (pred_numeral k) r')"
  by (simp add: numeral_eq_Suc)

lemma upt_7: "[0..<7] = [0, 1, 2, 3, 4, 5, 6]"
  by (simp add: upt_rec)

lemma std_constant_values:
  "std_constant 1 = (1, 128)"
  "std_constant 128 = (0x8082, 216)"
  "std_constant 216 = (0x800000000000808a, 26)"
  "std_constant 26 = (0x8000000080008000, 223)"
  "std_constant 223 = (0x808b, 9)"
  "std_constant 9 = (0x80000001, 53)"
  "std_constant 53 = (0x8000000080008081, 79)"
  "std_constant 79 = (0x8000000000008009, 202)"
  "std_constant 202 = (0x8a, 112)"
  "std_constant 112 = (0x88, 65)"
  "std_constant 65 = (0x80008009, 236)"
  "std_constant 236 = (0x8000000a, 213)"
  "std_constant 213 = (0x8000808b, 205)"
  "std_constant 205 = (0x800000000000008b, 99)"
  "std_constant 99 = (0x8000000000008089, 171)"
  "std_constant 171 = (0x8000000000008003, 170)"
  "std_constant 170 = (0x8000000000008002, 42)"
  "std_constant 42 = (0x8000000000000080, 242)"
  "std_constant 242 = (0x800a, 232)"
  "std_constant 232 = (0x800000008000000a, 55)"
  "std_constant 55 = (0x8000000080008081, 62)"
  "std_constant 62 = (0x8000000000008080, 11)"
  "std_constant 11 = (0x80000001, 68)"
  "std_constant 68 = (0x8000000080008008, 142)"
  by (simp_all add: std_constant_def upt_7 std_next_def)

lemma constants: "std_constants 24 1 = RC"
  by (simp add: std_constants_numeral std_constant_values RC_def)

end
