(* ===== verification/Keccak_Correct.thy ===== *)
theory Keccak_Correct
  imports Keccak
begin

text \<open>
  The hash of Utils.cpp against the standard: each step of a round on the list of lanes is the
  step on coordinates, the tables of the sources are those the standard derives, and the
  sponge of the code absorbs the padded message block by block.
\<close>

section \<open>States as lists\<close>

lemma list_update_numeral: "(x # xs)[numeral k := v] = x # xs[pred_numeral k := v]"
  by (simp add: numeral_eq_Suc)

lemma upt_25: "[0..<25] = [0, 1, 2, 3, 4, 5, 6, 7, 8, 9, 10, 11, 12, 13, 14, 15, 16, 17, 18, 19, 20, 21, 22, 23, 24]"
  by (simp add: upt_rec)

lemma upt_24: "[0..<24] = [0, 1, 2, 3, 4, 5, 6, 7, 8, 9, 10, 11, 12, 13, 14, 15, 16, 17, 18, 19, 20, 21, 22, 23]"
  by (simp add: upt_rec)

lemma lanes_25_cases:
  assumes "length (a :: lane list) = 25"
  obtains a0 a1 a2 a3 a4 a5 a6 a7 a8 a9 a10 a11 a12 a13 a14 a15 a16 a17 a18 a19 a20 a21 a22 a23 a24 where "a = [a0, a1, a2, a3, a4, a5, a6, a7, a8, a9, a10, a11, a12, a13, a14, a15, a16, a17, a18, a19, a20, a21, a22, a23, a24]"
proof -
  have "a = map ((!) a) [0..<25]" using map_nth [of a] assms by simp
  then show thesis unfolding upt_25 using that by simp
qed

lemma offset_values:
  "std_offset 0 0 = 0" "std_offset 1 0 = 1" "std_offset 2 0 = 62" "std_offset 3 0 = 28" "std_offset 4 0 = 27"
  "std_offset 0 1 = 36" "std_offset 1 1 = 44" "std_offset 2 1 = 6" "std_offset 3 1 = 55" "std_offset 4 1 = 20"
  "std_offset 0 2 = 3" "std_offset 1 2 = 10" "std_offset 2 2 = 43" "std_offset 3 2 = 25" "std_offset 4 2 = 39"
  "std_offset 0 3 = 41" "std_offset 1 3 = 45" "std_offset 2 3 = 15" "std_offset 3 3 = 21" "std_offset 4 3 = 8"
  "std_offset 0 4 = 18" "std_offset 1 4 = 2" "std_offset 2 4 = 61" "std_offset 3 4 = 56" "std_offset 4 4 = 14"
  using offsets by (simp_all add: upt_25)

lemma rotl_0 [simp]: "word_rotl 0 (x :: lane) = x"
  by (rule bit_word_eqI) (simp add: bit_word_rotl_iff)

lemma replicate_5: "replicate 5 x = [x, x, x, x, x]"
  by (simp add: numeral_eq_Suc)

lemmas step_defs = replicate_5 FOR5_def Let_def lanes_of_state_def state_of_def upt_25 list_update_numeral

lemma theta_std: "length a = 25 \<Longrightarrow> theta_mix (theta_parity a (replicate 5 0)) a = lanes_of_state (std_theta (state_of a))"
  by (erule lanes_25_cases)
    (simp add: step_defs theta_mix_def theta_parity_def std_theta_def rol_rotl xor.assoc)

lemma rho_pi_std: "length a = 25 \<Longrightarrow> rho_pi a = lanes_of_state (std_pi (std_rho (state_of a)))"
  by (erule lanes_25_cases)
    (simp add: step_defs rho_pi_def rho_pi_step_def rho_def pi_lane_def upt_24 std_pi_def std_rho_def offset_values [simplified] rol_rotl)

lemma chi_std: "length a = 25 \<Longrightarrow> chi a = lanes_of_state (std_chi (state_of a))"
  by (erule lanes_25_cases) (simp add: step_defs chi_def chi_row_def std_chi_def)

lemma iota_std:
  "length a = 25 \<Longrightarrow> i < 24 \<Longrightarrow> a[0 := a ! 0 XOR RC ! i] = lanes_of_state (std_iota i (state_of a))"
  by (erule lanes_25_cases) (simp add: step_defs std_iota_def std_RC_def constants)

lemma length_lanes_of_state [simp]: "length (lanes_of_state A) = 25"
  by (simp add: lanes_of_state_def)

lemma state_of_lanes: "x < 5 \<Longrightarrow> y < 5 \<Longrightarrow> state_of (lanes_of_state A) x y = A x y"
  by (simp add: state_of_def lanes_of_state_def)

lemma less_5: "n < (5::nat) \<longleftrightarrow> n = 0 \<or> n = 1 \<or> n = 2 \<or> n = 3 \<or> n = 4"
  by auto

lemma steps_local:
  assumes "\<And>x y. x < 5 \<Longrightarrow> y < 5 \<Longrightarrow> A x y = B x y"
  shows "lanes_of_state (std_theta A) = lanes_of_state (std_theta B)"
    and "lanes_of_state (std_pi (std_rho A)) = lanes_of_state (std_pi (std_rho B))"
    and "lanes_of_state (std_chi A) = lanes_of_state (std_chi B)"
    and "lanes_of_state (std_iota i A) = lanes_of_state (std_iota i B)"
  using assms by (auto simp: lanes_of_state_def std_theta_def std_pi_def std_rho_def std_chi_def std_iota_def Let_def)

lemma round_std:
  assumes "length a = 25" "i < 24"
  shows "keccak_round i a = lanes_of_state (std_round i (state_of a))"
proof -
  let ?s = state_of and ?l = lanes_of_state
  have st: "?l (std_pi (std_rho (?s (?l A)))) = ?l (std_pi (std_rho A))" "?l (std_chi (?s (?l A))) = ?l (std_chi A)"
    "?l (std_iota i (?s (?l A))) = ?l (std_iota i A)" for A
    by (intro steps_local; simp add: state_of_lanes)+
  have "keccak_round i a = ?l (std_iota i (?s (?l (std_chi (?s (?l (std_pi (std_rho (?s (?l (std_theta (?s a))))))))))))"
    unfolding keccak_round_def Let_def theta_std [OF assms(1)]
    by (simp only: rho_pi_std chi_std iota_std assms(2) length_lanes_of_state)
  then show ?thesis by (simp only: st std_round_def)
qed

section \<open>All rounds\<close>

definition std_permutation :: "state \<Rightarrow> state" where
  "std_permutation A = fold std_round [0..<24] A"

definition std_f :: "byte list \<Rightarrow> byte list" where
  "std_f a = unlanes (lanes_of_state (std_permutation (state_of (lanes a))))"

lemma round_local: "lanes_of_state (std_round i (state_of (lanes_of_state A))) = lanes_of_state (std_round i A)"
proof -
  let ?s = state_of and ?l = lanes_of_state
  have st: "?l (std_pi (std_rho (?s (?l A)))) = ?l (std_pi (std_rho A))" "?l (std_chi (?s (?l A))) = ?l (std_chi A)"
    "?l (std_iota i (?s (?l A))) = ?l (std_iota i A)" "?l (std_theta (?s (?l A))) = ?l (std_theta A)" for A
    by (intro steps_local; simp add: state_of_lanes)+
  show ?thesis unfolding std_round_def by (metis st)
qed

lemma rounds_std: "length a = 25 \<Longrightarrow> n \<le> 24 \<Longrightarrow> fold keccak_round [0..<n] a = lanes_of_state (fold std_round [0..<n] (state_of a))"
proof (induction n)
  case 0
  then show ?case using map_nth [of a] by (simp add: lanes_of_state_def state_of_def)
next
  case (Suc n)
  then show ?case by (simp add: round_std round_local)
qed

lemma length_lanes [simp]: "length (lanes a) = 25"
  by (simp add: lanes_def)

lemma keccakf_std: "keccakf a = std_f a"
  using rounds_std [of "lanes a" 24] by (simp add: keccakf_def keccakf_lanes_def std_f_def std_permutation_def)

lemma length_unlanes: "length (unlanes ls) = 8 * length ls"
  by (induction ls) (simp_all add: unlanes_def bytes_of_lane_def)

lemma length_std_f [simp]: "length (std_f a) = 200"
  by (simp add: std_f_def length_unlanes)

section \<open>Padding and absorbing\<close>

definition std_pad :: "nat \<Rightarrow> byte list \<Rightarrow> byte list" where
  "std_pad rate m =
     (let k = rate - length m mod rate
      in m @ (if k = 1 then [0x81] else 0x01 # replicate (k - 2) 0 @ [0x80]))"

definition std_blocks :: "nat \<Rightarrow> byte list \<Rightarrow> byte list list" where
  "std_blocks rate p = map (\<lambda>i. take rate (drop (i * rate) p)) [0..<length p div rate]"

definition std_absorb :: "byte list list \<Rightarrow> byte list \<Rightarrow> byte list" where
  "std_absorb bs a = fold (\<lambda>b a. std_f (xorin a b)) bs a"

definition std_keccak256 :: "byte list \<Rightarrow> byte list" where
  "std_keccak256 m = take 32 (std_absorb (std_blocks 136 (std_pad 136 m)) (replicate 200 0))"

lemma length_xorin [simp]: "length (xorin ds ss) = length ds"
  by (induction ds ss rule: xorin.induct) auto

lemma nth_xorin: "i < length ds \<Longrightarrow> xorin ds ss ! i = (if i < length ss then ds ! i XOR ss ! i else ds ! i)"
proof (induction ds ss arbitrary: i rule: xorin.induct)
  case (1 d ds s ss)
  then show ?case by (cases i) auto
qed auto

lemma blocks_short: "length p < rate \<Longrightarrow> std_blocks rate p = []"
  by (simp add: std_blocks_def)

lemma blocks_long:
  assumes "0 < rate" "rate \<le> length p"
  shows "std_blocks rate p = take rate p # std_blocks rate (drop rate p)"
proof -
  have "length p div rate = Suc ((length p - rate) div rate)" using assms by (simp add: le_div_geq)
  then show ?thesis by (simp add: std_blocks_def upt_conv_Cons del: upt_Suc)
      (simp add: map_Suc_upt [symmetric] comp_def add.commute del: upt_Suc)
qed

lemma absorb_std:
  assumes "0 < rate"
  shows "absorb rate a m = Some (std_absorb (std_blocks rate m) a, drop (length m div rate * rate) m)"
proof (induction "length m" arbitrary: a m rule: less_induct)
  case less
  show ?case
  proof (cases "rate \<le> length m")
    case True
    have "length m div rate = Suc ((length m - rate) div rate)" using True assms by (simp add: le_div_geq)
    then show ?thesis using True assms less [of "drop rate m"]
      by (subst absorb.simps) (simp add: blocks_long std_absorb_def keccakf_std add.commute)
  next
    case False
    then show ?thesis by (subst absorb.simps) (simp add: blocks_short std_absorb_def)
  qed
qed


text \<open>The last block, with the padding, absorbed the way the code does it.\<close>

lemma last_block:
  assumes "length a = 200" "rate < 200" "length inp < rate"
  shows "xorin ((a[length inp := a ! length inp XOR 0x01])[rate - 1 := (a[length inp := a ! length inp XOR 0x01]) ! (rate - 1) XOR 0x80]) inp
    = xorin a (inp @ (if rate - length inp = 1 then [0x81] else 0x01 # replicate (rate - length inp - 2) 0 @ [0x80]))"
    (is "xorin ?l inp = xorin a (inp @ ?pad)")
proof (rule nth_equalityI)
  fix i assume "i < length (xorin ?l inp)"
  then have i: "i < 200" using assms by simp
  have pad: "length ?pad = rate - length inp" using assms(3) by auto
  have nth: "?pad ! j = (if j = 0 then (if rate - length inp = 1 then 0x81 else 0x01)
      else if j = rate - length inp - 1 then 0x80 else 0)" if "j < rate - length inp" for j
    using that by (auto simp: nth_Cons' nth_append)
  show "xorin ?l inp ! i = xorin a (inp @ ?pad) ! i"
  proof (cases "i < length inp")
    case True
    then show ?thesis using assms i by (simp add: nth_xorin nth_append nth_list_update)
  next
    case False
    then have "xorin a (inp @ ?pad) ! i = (if i < rate then a ! i XOR ?pad ! (i - length inp) else a ! i)"
      using assms i pad by (simp add: nth_xorin nth_append)
    moreover have "xorin ?l inp ! i = ?l ! i" using False assms i by (simp add: nth_xorin)
    ultimately show ?thesis using False assms i nth [of "i - length inp"]
      by (auto simp: nth_list_update xor.assoc)
  qed
qed (use assms in simp)

lemma blocks_padded:
  assumes "0 < rate"
  shows "std_blocks rate (std_pad rate m) =
    std_blocks rate m @ [drop (length m div rate * rate) m
      @ (if rate - length m mod rate = 1 then [0x81] else 0x01 # replicate (rate - length m mod rate - 2) 0 @ [0x80])]"
proof (induction "length m" arbitrary: m rule: less_induct)
  case less
  show ?case
  proof (cases "rate \<le> length m")
    case True
    have pad: "std_pad rate m = take rate m @ std_pad rate (drop rate m)"
      using True by (simp add: std_pad_def le_mod_geq Let_def)
    have "length m div rate = Suc ((length m - rate) div rate)" using True assms by (simp add: le_div_geq)
    then show ?thesis using less [of "drop rate m"] True assms
      by (simp add: pad blocks_long [of rate m] blocks_long [of rate "take rate m @ _"] le_mod_geq add.commute)
  next
    case False
    let ?p = "std_pad rate m"
    have "length ?p = rate" using False assms by (auto simp: std_pad_def Let_def)
    then have "std_blocks rate ?p = [?p]" using assms by (simp add: std_blocks_def)
    then show ?thesis using False by (simp add: blocks_short std_pad_def Let_def)
  qed
qed

lemma length_absorb [simp]: "length a = 200 \<Longrightarrow> length (std_absorb bs a) = 200"
  by (induction bs arbitrary: a) (simp_all add: std_absorb_def)

text \<open>C22: the hash of the translator is Keccak-256. For every input the function returns, and the
32 bytes it returns are those of the standard's sponge: the message padded to blocks of 136
bytes, absorbed with the permutation of 24 rounds given by the coordinates of the state, the
walk that defines the rotations and the shift register that defines the round constants.\<close>

theorem keccak_correct: "keccak data = Some (std_keccak256 data)"
proof -
  let ?n = "length data div 136 * 136" and ?a = "std_absorb (std_blocks 136 data) (replicate 200 0)"
  have len: "length (drop ?n data) = length data mod 136" by (simp add: minus_div_mult_eq_mod)
  have lt: "length (drop ?n data) < 136" unfolding len by simp
  have "absorb 136 (replicate 200 0) data = Some (?a, drop ?n data)" using absorb_std [of 136] by simp
  moreover have "squeeze 136 a 32 [] = Some (take 32 a)" for a by (subst squeeze.simps) simp
  moreover note last_block [OF _ _ lt, of ?a]
  ultimately have "keccak data = Some (take 32 (std_f (xorin ?a (drop ?n data
      @ (if 136 - length data mod 136 = 1 then [0x81] else 0x01 # replicate (136 - length data mod 136 - 2) 0 @ [0x80])))))"
    by (simp add: keccak_def keccak_256_def hash_def Plen_def keccakf_std len del: length_drop)
  then show ?thesis
    using blocks_padded [of 136 data] by (simp add: std_keccak256_def std_absorb_def)
qed

end
