(* ===== verification/Cache.thy ===== *)
theory Cache
  imports Prelude "HOL-Library.AList"
begin

text \<open>
  The cache of compiled objects (src/evmtrans/Cache.cpp): a directory of files, the object read
  last, and the mutex that every operation holds from its first statement to its return. The
  mutex is not recursive, so an operation that is called by an operation of the same thread
  waits for itself: such a call has no result, which is \<open>None\<close>. A fake module is its
  identifier. The directory is a list of file names and contents; creating it and writing to
  it succeed. The execution engine is the list of names whose addresses it was asked for.
\<close>

section \<open>The operations\<close>

datatype CacheMode = CacheOff | CacheOn | CacheRead | CacheWrite | CacheClear | CachePreload

record cache =
  x_cacheMutex :: bool
  g_mode :: CacheMode
  g_lastObject :: "byte list option"
  g_listener :: "nat option"
  files :: "(string \<times> byte list) list"

type_synonym 'a cache_op = "cache \<Rightarrow> ('a \<times> cache) option"

definition guarded :: "'a cache_op \<Rightarrow> 'a cache_op" where
  "guarded m st =
     (if x_cacheMutex st then None
      else map_option (\<lambda>(x, st'). (x, st'\<lparr>x_cacheMutex := False\<rparr>)) (m (st\<lparr>x_cacheMutex := True\<rparr>)))"

definition Cache_clear :: "unit cache_op" where
  "Cache_clear = guarded (\<lambda>st. Some ((), st\<lparr>files := []\<rparr>))"

text \<open>The result says whether the address of the object cache is returned.\<close>

definition Cache_init :: "CacheMode \<Rightarrow> nat option \<Rightarrow> bool cache_op" where
  "Cache_init mode listener = guarded (\<lambda>st.
     (let st = st\<lparr>g_mode := mode, g_listener := listener\<rparr> in
      if mode = CacheClear then
        (case Cache_clear st of
           None \<Rightarrow> None
         | Some (_, st) \<Rightarrow> Some (False, st\<lparr>g_mode := CacheOff\<rparr>))
      else Some (mode \<noteq> CacheOff, st)))"

definition Cache_getObject :: "string \<Rightarrow> string option cache_op" where
  "Cache_getObject ident = guarded (\<lambda>st.
     (if g_mode st \<noteq> CacheOn \<and> g_mode st \<noteq> CacheRead then Some (None, st)
      else
        (let st = (case map_of (files st) ident of Some obj \<Rightarrow> st\<lparr>g_lastObject := Some obj\<rparr> | None \<Rightarrow> st)
         in Some (if g_lastObject st \<noteq> None then Some ident else None, st))))"

fun preload_files :: "string list \<Rightarrow> string list \<Rightarrow> string list cache_op" where
  "preload_files [] loaded st = Some (loaded, st)"
| "preload_files (name # names) loaded st =
     (case Cache_getObject name st of
        None \<Rightarrow> None
      | Some (None, st) \<Rightarrow> preload_files names loaded st
      | Some (Some m, st) \<Rightarrow> preload_files names (loaded @ [m]) st)"

definition Cache_preload :: "string list cache_op" where
  "Cache_preload = guarded (\<lambda>st.
     (let listener = g_listener st in
      case preload_files (map fst (files st)) [] (st\<lparr>g_listener := None\<rparr>) of
        None \<Rightarrow> None
      | Some (loaded, st) \<Rightarrow> Some (loaded, st\<lparr>g_listener := listener\<rparr>)))"

definition ObjectCache_notifyObjectCompiled :: "string \<Rightarrow> byte list \<Rightarrow> unit cache_op" where
  "ObjectCache_notifyObjectCompiled ident obj = guarded (\<lambda>st.
     (if g_mode st \<noteq> CacheOn \<and> g_mode st \<noteq> CacheWrite then Some ((), st)
      else Some ((), st\<lparr>files := AList.update ident obj (files st)\<rparr>)))"

definition ObjectCache_getObject :: "byte list option cache_op" where
  "ObjectCache_getObject = guarded (\<lambda>st. Some (g_lastObject st, st\<lparr>g_lastObject := None\<rparr>))"

lemmas cache_defs = guarded_def Cache_clear_def Cache_init_def Cache_getObject_def Cache_preload_def
  ObjectCache_notifyObjectCompiled_def ObjectCache_getObject_def

section \<open>The properties\<close>

text \<open>the cache returns what was stored. In the mode that reads and writes, after an object was
compiled under an identifier, looking the identifier up finds it, and the object cache then
hands out exactly the bytes that were stored; afterwards nothing is left to hand out.\<close>

theorem cache_roundtrip:
  assumes "\<not> x_cacheMutex st" "g_mode st = CacheOn"
    and "ObjectCache_notifyObjectCompiled ident obj st = Some (u, st1)"
  shows "\<exists>st2 st3. Cache_getObject ident st1 = Some (Some ident, st2) \<and> ObjectCache_getObject st2 = Some (Some obj, st3)
    \<and> g_lastObject st3 = None \<and> \<not> x_cacheMutex st3"
proof -
  have st1: "st1 = st\<lparr>files := AList.update ident obj (files st)\<rparr>"
    using assms by (cases st) (simp add: cache_defs)
  have "Cache_getObject ident st1 = Some (Some ident, st1\<lparr>g_lastObject := Some obj\<rparr>)"
    using assms by (cases st) (simp add: st1 cache_defs update_conv')
  moreover have "ObjectCache_getObject (st1\<lparr>g_lastObject := Some obj\<rparr>) = Some (Some obj, st1\<lparr>g_lastObject := None\<rparr>)"
    using assms by (cases st) (simp add: st1 cache_defs)
  ultimately show ?thesis using assms by (auto simp: st1)
qed

definition empty_cache :: "CacheMode \<Rightarrow> cache" where
  "empty_cache m = \<lparr>x_cacheMutex = False, g_mode = m, g_lastObject = None, g_listener = None, files = []\<rparr>"

theorem cache_roundtrip_witness:
  "\<exists>st1 st2 st3. ObjectCache_notifyObjectCompiled ''a'' [1, 2] (empty_cache CacheOn) = Some ((), st1)
     \<and> Cache_getObject ''a'' st1 = Some (Some ''a'', st2) \<and> ObjectCache_getObject st2 = Some (Some [1, 2], st3)"
  using cache_roundtrip [of "empty_cache CacheOn" "''a''" "[1, 2]" "()"
      "(empty_cache CacheOn)\<lparr>files := [(''a'', [1, 2])]\<rparr>"]
  by (auto simp: empty_cache_def cache_defs)

text \<open>which operations of the cache return. With the mutex free, every operation returns and
frees it, except two that call another operation while they hold it: initialising in the
mode that clears never returns, and preloading returns only if the directory is empty.\<close>

theorem cache_returns:
  assumes "\<not> x_cacheMutex st"
  shows "(Cache_init mode listener st = None \<longleftrightarrow> mode = CacheClear)
    \<and> (Cache_preload st = None \<longleftrightarrow> files st \<noteq> [])
    \<and> Cache_clear st \<noteq> None \<and> Cache_getObject ident st \<noteq> None
    \<and> ObjectCache_notifyObjectCompiled ident obj st \<noteq> None \<and> ObjectCache_getObject st \<noteq> None"
  using assms by (cases "files st") (auto simp: cache_defs Let_def)

theorem cache_returns_witness: "Cache_init CacheClear None (empty_cache CacheOn) = None"
  using cache_returns [of "empty_cache CacheOn" CacheClear None "''a''" "[]"] by (simp add: empty_cache_def)

text \<open>
  The object read last outlives a lookup that finds nothing: an identifier without a file is
  then reported as found, and the bytes handed out for it are those of another identifier.
\<close>

lemma cache_stale_object:
  assumes "\<not> x_cacheMutex st" "g_mode st = CacheOn" "g_lastObject st = Some obj" "map_of (files st) ident = None"
  shows "\<exists>st'. Cache_getObject ident st = Some (Some ident, st') \<and> g_lastObject st' = Some obj"
  using assms by (simp add: cache_defs)

end
