(* ===== verification/Exp_Case.thy ===== *)
theory Exp_Case
  imports Arith_Correct Host_Codegen
begin

text \<open>
  The case EXP of compileBasicBlock, which alone of the arithmetic cases asks Arith256 for its
  code: Arith256::exp folds a power of two constants with a loop on APInt values and otherwise
  emits a call of the function evm.exp. APInt multiplies operands of equal width only, so a
  base of another width than 256 fails an assertion as soon as the exponent has a bit set.
\<close>

definition createExp :: "val \<Rightarrow> val \<Rightarrow> val cg" where
  "createExp arg1 arg2 =
     (case (arg1, arg2) of
        (VConst w b, VConst _ e) \<Rightarrow>
          if e \<noteq> 0 \<and> w \<noteq> 256 then throwE BadTypes
          else returnE (VConst 256 (uint (expLoop 1 (word_of_int b) (word_of_int e))))
      | _ \<Rightarrow> createCallTyped ''evm.exp'' [TInt 256, TInt 256] (TInt 256) [arg1, arg2])"

definition hc_EXP :: "unit cg" where
  "hc_EXP =
     bindE pop (\<lambda>base.
     bindE pop (\<lambda>exponent.
     bindE (createExp base exponent) (\<lambda>ret.
     push ret)))"

lemma pop_two:
  assumes "h_stack g = vs @ [y, x]"
  shows "pop g = (Inr x, g\<lparr>h_stack := vs @ [y]\<rparr>)"
    and "pop (g\<lparr>h_stack := vs @ [y]\<rparr>) = (Inr y, g\<lparr>h_stack := vs\<rparr>)"
  using assms by (simp_all add: pop_def butlast_append)

lemma exp_module:
  fixes b e :: w256
  shows "run_module arith_module ext ''evm.exp'' [I (uint b), I (uint e)] = Some (Returns (I (uint (b ^ unat e))))"
  using exp_correct by blast

text \<open>Constant operands leave the folded power on the stack and emit nothing.\<close>

theorem exp_case_folds:
  fixes b e :: w256
  assumes "h_stack g = vs @ [VConst 256 (uint e), VConst 256 (uint b)]"
  shows "hc_EXP g = (Inr (), g\<lparr>h_stack := vs @ [VConst 256 (uint (b ^ unat e))]\<rparr>)"
  by (simp add: hc_EXP_def createExp_def pop_two [OF assms] bindE_def returnE_def push_def modifyE_def
      expLoop_power)

text \<open>Other operands emit one call, whose register goes on the stack, and the function it
names returns the power of what its operands stand for.\<close>

theorem exp_case_calls:
  fixes b e :: w256
  assumes "h_stack g = vs @ [y, x]" "val_type g x = TInt 256" "val_type g y = TInt 256"
    and "\<not> (\<exists>m n. x = VConst 256 m \<and> y = VConst 256 n)"
  shows "hc_EXP g = (Inr (), g\<lparr>h_code := h_code g @ [(ICall ''evm.exp'' [x, y], TInt 256)],
             h_stack := vs @ [VReg (length (h_code g))]\<rparr>)
    \<and> run_module arith_module ext ''evm.exp'' [I (uint b), I (uint e)] = Some (Returns (I (uint (b ^ unat e))))"
proof -
  have same: "val_type (g\<lparr>h_stack := vs\<rparr>) v = val_type g v" for v
    by (cases v) (simp_all add: val_type_def)
  have "createExp x y = createCallTyped ''evm.exp'' [TInt 256, TInt 256] (TInt 256) [x, y]"
    using assms(2-4) by (auto simp: createExp_def val_type_def split: val.splits)
  then show ?thesis using assms(2,3)
    by (simp add: hc_EXP_def pop_two [OF assms(1)] createCallTyped_def bindE_def getE_def emit_def push_def
        modifyE_def same exp_module)
qed

text \<open>A base of another width stops the translation.\<close>

theorem exp_case_narrow:
  assumes "h_stack g = vs @ [VConst 256 e, VConst w b]" "w \<noteq> 256" "e \<noteq> 0"
  shows "fst (hc_EXP g) = Inl BadTypes"
  using assms(2,3) by (simp add: hc_EXP_def createExp_def pop_two [OF assms(1)] bindE_def throwE_def)

end
