(* ===== verification/Pipeline.thy ===== *)
theory Pipeline
  imports Patches Hera Loader
begin

text \<open>
  The two programs around the translator. BinaryTrans.cpp is the virtual machine evmtrans behind
  EVMC: it keeps a map from addresses to translated code, translates on demand and lets Hera run
  the result. standalone-evmtrans.cpp is the command line tool: it splits the code of a contract,
  translates the run-time part, embeds the result in the translated deployment part and
  writes a file. CodeGen.cpp turns a module into a linked wasm file. The file system is a map
  from names to contents; LLVM, the wasm linker and the parser of the command line are a record
  of functions, and so is the translation of one piece of code, theory Driver, on
  which nothing here depends. A failing assertion, a process that exits inside a library and undefined
  behaviour are values of their own. Output for debugging is left out.
\<close>

section \<open>Results and the code map (CodeGen.h, BinaryTrans.cpp)\<close>

text \<open>A pointer to a codeGenResult is the bytes of its vector, or null.\<close>

type_synonym ExecFunc = "byte list option"

record CodeMapEntry =
  func :: ExecFunc
  hits :: u64

definition empty_entry :: CodeMapEntry where
  "empty_entry = \<lparr>func = None, hits = 0\<rparr>"

definition hexChars :: string where
  "hexChars = ''0123456789abcdef''"

definition makeCodeId :: "address \<Rightarrow> evmc_revision \<Rightarrow> u32 \<Rightarrow> string" where
  "makeCodeId destination rv flags =
     concat (map (\<lambda>b. [hexChars ! unat (drop_bit 4 b), hexChars ! unat (b AND 0xf)]) (bytes_be 20 destination))"

text \<open>The letter of a revision; the last two revisions have none, which is undefined behaviour.\<close>

definition toChar :: "evmc_revision \<Rightarrow> char option" where
  "toChar rv =
     (case rv of
        EVMC_FRONTIER \<Rightarrow> Some CHR ''F'' | EVMC_HOMESTEAD \<Rightarrow> Some CHR ''H'' | EVMC_TANGERINE_WHISTLE \<Rightarrow> Some CHR ''T''
      | EVMC_SPURIOUS_DRAGON \<Rightarrow> Some CHR ''S'' | EVMC_BYZANTIUM \<Rightarrow> Some CHR ''B'' | EVMC_CONSTANTINOPLE \<Rightarrow> Some CHR ''C''
      | _ \<Rightarrow> None)"

text \<open>The state of the machine: the pointers to the host table and to the current message, the map, the results, and Hera.\<close>

record 'h BTImpl =
  m_codeMap :: "string \<rightharpoonup> CodeMapEntry"
  codeStore :: "byte list list"
  bt_host :: "nat option"
  currentMsg :: "evmc_message option"
  hitThreshold :: u64
  bt_hera :: "'h hera_instance"

definition newBTImpl :: "'h WasmEngine \<Rightarrow> 'h BTImpl" where
  "newBTImpl newEngine =
     \<lparr>m_codeMap = Map.empty, codeStore = [], bt_host = None, currentMsg = None, hitThreshold = 0,
      bt_hera = evmc_create_hera newEngine\<rparr>"

definition getExecFunc :: "'h BTImpl \<Rightarrow> string \<Rightarrow> CodeMapEntry \<times> 'h BTImpl" where
  "getExecFunc bt i =
     (let e = (case m_codeMap bt i of Some e \<Rightarrow> e | None \<Rightarrow> empty_entry);
          e' = e\<lparr>hits := hits e + 1\<rparr>
      in (e', bt\<lparr>m_codeMap := (m_codeMap bt)(i \<mapsto> e')\<rparr>))"

definition mapExecFunc :: "'h BTImpl \<Rightarrow> string \<Rightarrow> ExecFunc \<Rightarrow> 'h BTImpl" where
  "mapExecFunc bt i f =
     (let e = (case m_codeMap bt i of Some e \<Rightarrow> e | None \<Rightarrow> empty_entry)
      in bt\<lparr>m_codeMap := (m_codeMap bt)(i \<mapsto> e\<lparr>func := f\<rparr>)\<rparr>)"

definition storeExecFunc :: "'h BTImpl \<Rightarrow> byte list \<Rightarrow> ExecFunc \<times> 'h BTImpl" where
  "storeExecFunc bt res = (Some res, bt\<lparr>codeStore := codeStore bt @ [res]\<rparr>)"

text \<open>The body of compile is commented out behind its first statement, the return of a null pointer.\<close>

definition bt_compile :: "evmc_revision \<Rightarrow> bool \<Rightarrow> byte list \<Rightarrow> string \<Rightarrow> ExecFunc" where
  "bt_compile rv staticCall code i = None"

section \<open>Executing a message\<close>

definition nativeResult :: "evmc_result \<Rightarrow> evmc_result" where
  "nativeResult r = r\<lparr>output_data := map_option rev (output_data r)\<rparr>"

definition output_size :: "evmc_result \<Rightarrow> nat" where
  "output_size r = (case output_data r of Some d \<Rightarrow> length d | None \<Rightarrow> 0)"

text \<open>A result that is returned before Hera is called; its address is not initialised and not read.\<close>

definition early_result :: "evmc_status_code \<Rightarrow> evmc_result" where
  "early_result st = \<lparr>status_code = st, gas_left = 0, output_data = None, create_address = 0\<rparr>"

text \<open>
  The code of a message: the mapped one, or a new translation. \<open>Inl\<close> is the status with which the
  execution ends.
\<close>

definition lookup_code ::
  "evmc_revision \<Rightarrow> evmc_message \<Rightarrow> byte list \<Rightarrow> 'h BTImpl \<Rightarrow> (evmc_status_code + byte list) \<times> 'h BTImpl" where
  "lookup_code rv msg code bt =
     (let codeIdentifier = makeCodeId (msg_destination msg) rv (msg_flags msg);
          (codeEntry, bt) = getExecFunc bt codeIdentifier in
      case func codeEntry of
        Some c \<Rightarrow> (Inr c, bt)
      | None \<Rightarrow>
          if hits codeEntry \<le> hitThreshold bt then (Inl EVMC_REJECTED, bt)
          else
            (case bt_compile rv (is_static (msg_flags msg)) code codeIdentifier of
               None \<Rightarrow> (Inl EVMC_INTERNAL_ERROR, bt)
             | Some c \<Rightarrow>
                 if c = [] then (Inl EVMC_INTERNAL_ERROR, bt)
                 else (Inr c, mapExecFunc bt codeIdentifier (Some c))))"

text \<open>
  execute: the pointer of the host table may not change, else an assertion fails (\<open>Inl\<close>); \<open>None\<close>
  inside is undefined behaviour of Hera.
\<close>

definition bt_execute ::
  "'h HostInterface \<Rightarrow> 'h WasmEngine \<Rightarrow> nat \<Rightarrow> evmc_revision \<Rightarrow> evmc_message \<Rightarrow> byte list \<Rightarrow> 'h BTImpl \<times> 'h
   \<Rightarrow> (unit + evmc_result option) \<times> 'h BTImpl \<times> 'h" where
  "bt_execute H newEngine hostPtr rv msg code s =
     (let (bt, ctx) = s;
          bt = (if bt_host bt = None then bt\<lparr>bt_host := Some hostPtr\<rparr> else bt) in
      if bt_host bt \<noteq> Some hostPtr then (Inl (), bt, ctx)
      else
        let prevMsg = currentMsg bt;
            (c, bt) = lookup_code rv msg code (bt\<lparr>currentMsg := Some msg\<rparr>) in
        case c of
          Inl st \<Rightarrow> (Inr (Some (early_result st)), bt, ctx)
        | Inr c \<Rightarrow>
            let (r, vm, ctx) = hera_execute H newEngine (bt_hera bt) ctx rv msg c;
                bt = bt\<lparr>bt_hera := vm, currentMsg := prevMsg\<rparr>
            in (Inr (map_option (\<lambda>r. if output_size r = 0 then r else nativeResult r) r), bt, ctx))"

definition bt_setOption :: "string \<Rightarrow> string option \<Rightarrow> evmc_set_option_result" where
  "bt_setOption name val =
     (if name = ''verbose'' then
        (if val = Some ''1'' \<or> val = Some ''0'' then EVMC_SET_OPTION_SUCCESS else EVMC_SET_OPTION_INVALID_VALUE)
      else EVMC_SET_OPTION_INVALID_NAME)"

definition bt_getCapabilities :: u32 where
  "bt_getCapabilities = EVMC_CAPABILITY_EWASM OR EVMC_CAPABILITY_EVM1"

definition evmc_create_evmtrans :: "'h WasmEngine \<Rightarrow> 'h BTImpl evmc_instance" where
  "evmc_create_evmtrans newEngine =
     \<lparr>abi_version = EVMC_ABI_VERSION, vm_name = ''evmtrans'', vm = newBTImpl newEngine,
      set_option = Some (\<lambda>bt name val. (bt_setOption name (Some val), bt))\<rparr>"

section \<open>The tool chain and the code generation (CodeGen.cpp)\<close>

type_synonym files = "string \<rightharpoonup> byte list"

record Flags =
  InputFilename :: string
  OutputFilename :: string
  g_debug :: bool
  g_dump :: bool
  g_enableCheckReentrancy :: bool
  g_enableDetectSuicide :: bool
  g_enableCheckSend :: bool
  g_enableEOAonly :: bool
  g_enableRmOrigin :: bool
  g_enableUseSafeMath :: bool
  g_enableUpgrade :: bool
  g_onlyRt :: bool
  g_runtimeInput :: bool
  g_vulpc :: int
  g_enableKlee :: int

definition default_flags :: Flags where
  "default_flags =
     \<lparr>InputFilename = ''-'', OutputFilename = ''-'', g_debug = False, g_dump = False, g_enableCheckReentrancy = False,
      g_enableDetectSuicide = False, g_enableCheckSend = False, g_enableEOAonly = False, g_enableRmOrigin = False,
      g_enableUseSafeMath = False, g_enableUpgrade = False, g_onlyRt = False, g_runtimeInput = False, g_vulpc = 0,
      g_enableKlee = 0\<rparr>"

text \<open>What a WASMCompiler is made of, and the code compileMain is given.\<close>

record job =
  Bytecode :: "byte list"
  RetPC :: nat
  RtWasmCode :: "byte list"
  ExeCode :: "byte list"

text \<open>
  The libraries: the values of the options after parsing, or the exit of the process; whether the
  wasm target is registered; the translation; a run of passes; whether a file can be opened; the
  verifier, the object file and the text of a module; what the linker does to the files.
\<close>

record 'm toolchain =
  tc_parse :: "string list \<Rightarrow> Flags option"
  tc_target :: bool
  tc_translate :: "job \<Rightarrow> 'm"
  tc_run :: "pass list \<Rightarrow> 'm \<Rightarrow> 'm"
  tc_open :: "string \<Rightarrow> bool"
  tc_broken :: "'m \<Rightarrow> bool"
  tc_object :: "'m \<Rightarrow> byte list"
  tc_print :: "'m \<Rightarrow> byte list"
  tc_link :: "files \<Rightarrow> files"

datatype halt = Exits int | Undefined

definition code_gen_wasm :: string where "code_gen_wasm = ''.code_gen.wasm''"
definition link_wasm :: string where "link_wasm = ''.link.wasm''"

text \<open>The result of the linker is not looked at; a missing file leaves the result empty.\<close>

definition codeGenModule :: "'m toolchain \<Rightarrow> 'm \<Rightarrow> (files, halt, byte list) eff" where
  "codeGenModule tc m =
     (if \<not> tc_target tc then throwE Undefined
      else if \<not> tc_open tc code_gen_wasm then returnE []
      else if tc_broken tc m then throwE (Exits (-1))
      else
        seqE (modifyE (\<lambda>fs. fs(code_gen_wasm \<mapsto> tc_object tc m)))
        (seqE (modifyE (tc_link tc))
        (getE (\<lambda>fs. case fs link_wasm of Some b \<Rightarrow> b | None \<Rightarrow> []))))"

section \<open>The command line tool (standalone-evmtrans.cpp)\<close>

definition exportIR :: "'m toolchain \<Rightarrow> string \<Rightarrow> 'm \<Rightarrow> (files, halt, unit) eff" where
  "exportIR tc outfile m = modifyE (\<lambda>fs. if tc_open tc outfile then fs(outfile \<mapsto> tc_print tc m) else fs)"

text \<open>Writing to a file that cannot be opened has no effect.\<close>

definition write_file :: "'m toolchain \<Rightarrow> string \<Rightarrow> byte list \<Rightarrow> (files, halt, unit) eff" where
  "write_file tc name bs = modifyE (\<lambda>fs. if tc_open tc name then fs(name \<mapsto> bs) else fs)"

definition options_of :: "Flags \<Rightarrow> Options" where
  "options_of fl =
     \<lparr>enableCheckReentrancy = g_enableCheckReentrancy fl, enableDetectSuicide = g_enableDetectSuicide fl,
      enableCheckSend = g_enableCheckSend fl, enableEOAonly = g_enableEOAonly fl, enableRmOrigin = g_enableRmOrigin fl,
      enableSafeMath = g_enableUseSafeMath fl, isRtcode = False, enableUpgrade = g_enableUpgrade fl,
      vulpc = g_vulpc fl, enableKlee = (g_enableKlee fl \<noteq> 0)\<rparr>"

text \<open>Translating one piece of code: compileMain, prepare, the dump, the code generation.\<close>

definition build :: "'m toolchain \<Rightarrow> Options \<Rightarrow> bool \<Rightarrow> string \<Rightarrow> job \<Rightarrow> (files, halt, byte list) eff" where
  "build tc options dump ll j =
     (let m = tc_run tc (prepare options) (tc_translate tc j) in
      seqE (whenE dump (exportIR tc ll m)) (codeGenModule tc m))"

definition output_name :: "Flags \<Rightarrow> string \<Rightarrow> string" where
  "output_name fl dflt = (if OutputFilename fl = ''-'' then dflt else OutputFilename fl)"

definition evmtrans_main :: "'m toolchain \<Rightarrow> string list \<Rightarrow> (files, halt, int) eff" where
  "evmtrans_main tc argv =
     (let options = options_of default_flags in
      case tc_parse tc argv of
        None \<Rightarrow> throwE (Exits 1)
      | Some fl \<Rightarrow>
          bindE (getE (\<lambda>fs. fs (InputFilename fl))) (\<lambda>Binary.
          case Binary of
            None \<Rightarrow> returnE 1
          | Some code \<Rightarrow>
              let (splitPoint, RETURNPC) = (if g_runtimeInput fl then (0, 0) else splitCode code 0) in
              if splitPoint = -1 then returnE (-1)
              else
                let DeployerBytecode = take (nat splitPoint) code;
                    RuntimerBytecode = drop (nat splitPoint) code in
                bindE (build tc options (g_dump fl) ''./rt.ll''
                    \<lparr>Bytecode = RuntimerBytecode, RetPC = 0, RtWasmCode = [], ExeCode = RuntimerBytecode\<rparr>) (\<lambda>runtimeCode.
                seqE (whenE (g_dump fl) (write_file tc ''./runtime.wasm'' runtimeCode))
                (if g_runtimeInput fl then
                   seqE (write_file tc (output_name fl ''./runtime.wasm'') runtimeCode) (returnE 0)
                 else if g_onlyRt fl then returnE 0
                 else
                   bindE (build tc options (g_dump fl) ''./res.ll''
                       \<lparr>Bytecode = code, RetPC = RETURNPC, RtWasmCode = runtimeCode, ExeCode = DeployerBytecode\<rparr>) (\<lambda>deployCode.
                   seqE (write_file tc (output_name fl ''./res.wasm'') deployCode) (returnE 0))))))"

section \<open>Identifiers of code\<close>

definition hex2 :: "byte \<Rightarrow> string" where
  "hex2 b = [hexChars ! unat (drop_bit 4 b), hexChars ! unat (b AND 0xf)]"

lemma nibbles:
  fixes b :: byte
  shows "unat (drop_bit 4 b) = unat b div 16" "unat (b AND 0xf) = unat b mod 16"
proof -
  show "unat (drop_bit 4 b) = unat b div 16" by (simp add: unsigned_drop_bit_eq drop_bit_eq_div unat_div)
  have "b AND 0xf = take_bit 4 b" by (simp add: take_bit_eq_mask mask_eq_exp_minus_1)
  then show "unat (b AND 0xf) = unat b mod 16" by (simp add: take_bit_eq_mod unat_mod)
qed

lemma hexChars_nth:
  assumes "m < 16" "n < 16"
  shows "hexChars ! m = hexChars ! n \<longleftrightarrow> m = n"
proof -
  have "distinct hexChars" "length hexChars = 16" by (simp_all add: hexChars_def)
  then show ?thesis using assms by (simp add: nth_eq_iff_index_eq)
qed

lemma hex2_inj: "hex2 b = hex2 c \<longleftrightarrow> b = c"
proof
  have lt: "unat x < 256" for x :: byte using unsigned_less [of x, where ?'a = nat] by simp
  assume "hex2 b = hex2 c"
  then have "unat b div 16 = unat c div 16" "unat b mod 16 = unat c mod 16"
    using lt [of b] lt [of c] by (simp_all add: hex2_def nibbles hexChars_nth less_mult_imp_div_less)
  then have "unat b = unat c" by (metis div_mult_mod_eq)
  then show "b = c" by (simp add: word_unat_eq_iff)
qed simp

lemma hex2_concat_inj:
  "length xs = length ys \<Longrightarrow> concat (map hex2 xs) = concat (map hex2 ys) \<longleftrightarrow> xs = ys"
proof (induction xs ys rule: list_induct2)
  case (Cons x xs y ys)
  have "length (hex2 x) = length (hex2 y)" by (simp add: hex2_def)
  then show ?case using Cons.IH by (simp add: hex2_inj)
qed simp

text \<open>
  The identifier of code is a name for the address and for nothing else: not for the revision, the
  flags or the code itself.
\<close>

theorem makeCodeId_inj: "makeCodeId d rv fl = makeCodeId d' rv' fl' \<longleftrightarrow> d = d'"
proof -
  have "makeCodeId a r f = concat (map hex2 (bytes_be 20 a))" for a r f
    by (simp add: makeCodeId_def hex2_def [abs_def])
  moreover have "d = d'" if "bytes_be 20 d = bytes_be 20 d'"
  proof -
    have "word_be (bytes_be 20 a) = a" for a :: address by (rule word_be_bytes_be) simp
    from this [of d] this [of d'] that show ?thesis by metis
  qed
  ultimately show ?thesis using hex2_concat_inj [of "bytes_be 20 d" "bytes_be 20 d'"] by (metis length_bytes_be)
qed

section \<open>What the machine does with a message\<close>

text \<open>A sequence of requests to one instance, each with its revision, message and code; the results in order.\<close>

fun bt_session ::
  "'h HostInterface \<Rightarrow> 'h WasmEngine \<Rightarrow> nat \<Rightarrow> (evmc_revision \<times> evmc_message \<times> byte list) list \<Rightarrow> 'h BTImpl \<times> 'h
   \<Rightarrow> (unit + evmc_result option) list \<times> 'h BTImpl \<times> 'h" where
  "bt_session H E hp [] s = ([], s)"
| "bt_session H E hp ((rv, msg, code) # reqs) s =
     (let (r, s) = bt_execute H E hp rv msg code s; (rs, s) = bt_session H E hp reqs s in (r # rs, s))"

text \<open>No code has been mapped, and every entry was asked for at most \<open>n\<close> times.\<close>

definition untranslated :: "nat \<Rightarrow> nat \<Rightarrow> 'h BTImpl \<Rightarrow> bool" where
  "untranslated hp n bt \<longleftrightarrow>
     hitThreshold bt = 0 \<and> (bt_host bt = None \<or> bt_host bt = Some hp)
     \<and> (\<forall>i e. m_codeMap bt i = Some e \<longrightarrow> func e = None \<and> unat (hits e) \<le> n)"

lemma untranslated_execute:
  assumes "untranslated hp n bt" "Suc n < 2 ^ 64"
  shows "\<exists>bt'. bt_execute H E hp rv msg code (bt, ctx) = (Inr (Some (early_result EVMC_INTERNAL_ERROR)), bt', ctx)
    \<and> untranslated hp (Suc n) bt' \<and> bt_hera bt' = bt_hera bt \<and> currentMsg bt' = Some msg"
proof -
  let ?i = "makeCodeId (msg_destination msg) rv (msg_flags msg)"
  define e where "e = (case m_codeMap bt ?i of Some e \<Rightarrow> e | None \<Rightarrow> empty_entry)"
  have e: "func e = None" "unat (hits e) \<le> n"
    using assms(1) by (auto simp: e_def untranslated_def empty_entry_def split: option.splits)
  have h: "unat (hits e + 1) = Suc (unat (hits e))"
    using e(2) assms(2) by (subst unat_add_lem [THEN iffD1]) simp_all
  then have pos: "\<not> hits e + 1 \<le> 0" by (metis nat.simps(3) unat_0 word_le_0_iff)
  let ?bt = "bt\<lparr>bt_host := Some hp, currentMsg := Some msg, m_codeMap := (m_codeMap bt)(?i \<mapsto> e\<lparr>hits := hits e + 1\<rparr>)\<rparr>"
  have "bt_execute H E hp rv msg code (bt, ctx) = (Inr (Some (early_result EVMC_INTERNAL_ERROR)), ?bt, ctx)"
    using assms(1) e(1) pos
    by (auto simp: bt_execute_def lookup_code_def getExecFunc_def e_def [symmetric] bt_compile_def untranslated_def Let_def)
  moreover have "untranslated hp (Suc n) ?bt"
    using assms(1) e h by (auto simp: untranslated_def intro: le_SucI)
  ultimately show ?thesis by auto
qed

lemma untranslated_session:
  assumes "untranslated hp n bt" "n + length reqs < 2 ^ 64"
  shows "\<exists>bt'. bt_session H E hp reqs (bt, ctx) = (replicate (length reqs) (Inr (Some (early_result EVMC_INTERNAL_ERROR))), bt', ctx)
    \<and> bt_hera bt' = bt_hera bt"
  using assms
proof (induction reqs arbitrary: n bt)
  case (Cons q reqs)
  obtain rv msg code where q: "q = (rv, msg, code)" by (cases q)
  have "Suc n < 2 ^ 64" using Cons.prems(2) by simp
  from untranslated_execute [OF Cons.prems(1) this, of H E rv msg code ctx] obtain bt1 where
    1: "bt_execute H E hp rv msg code (bt, ctx) = (Inr (Some (early_result EVMC_INTERNAL_ERROR)), bt1, ctx)"
      "untranslated hp (Suc n) bt1" "bt_hera bt1 = bt_hera bt" by auto
  from Cons.IH [OF 1(2)] Cons.prems(2) 1 q show ?case by auto
qed simp

text \<open>
  C34: The machine evmtrans runs no contract: whatever it is asked, for fewer than two to the 64
  requests every answer is an internal error, Hera is never called and the host is left alone.
\<close>

theorem evmtrans_executes_nothing:
  assumes "length reqs < 2 ^ 64"
  shows "\<exists>bt. bt_session H E hp reqs (vm (evmc_create_evmtrans E), ctx)
      = (replicate (length reqs) (Inr (Some (early_result EVMC_INTERNAL_ERROR))), bt, ctx)
    \<and> bt_hera bt = evmc_create_hera E"
proof -
  have "untranslated hp 0 (vm (evmc_create_evmtrans E))"
    by (simp add: evmc_create_evmtrans_def newBTImpl_def untranslated_def)
  from untranslated_session [OF this, of reqs H E ctx] assms show ?thesis
    by (simp add: evmc_create_evmtrans_def newBTImpl_def)
qed

text \<open>An engine without a contract.\<close>

definition idle_engine :: "'h WasmEngine" where
  "idle_engine = \<lparr>we_execute = (\<lambda>ctx code state_code msg meter. (Inl EndExecution, ctx)), we_verifyContract = (\<lambda>code. Inr ())\<rparr>"

theorem evmtrans_executes_nothing_witness:
  "\<exists>bt. bt_session example_host idle_engine 1 [(EVMC_BYZANTIUM, sample_msg 1 0, [0x60]), (EVMC_ISTANBUL, sample_msg 1 0, [])]
       (vm (evmc_create_evmtrans idle_engine), host_state sample_host)
     = ([Inr (Some (early_result EVMC_INTERNAL_ERROR)), Inr (Some (early_result EVMC_INTERNAL_ERROR))], bt, host_state sample_host)"
proof -
  let ?reqs = "[(EVMC_BYZANTIUM, sample_msg 1 0, [0x60]), (EVMC_ISTANBUL, sample_msg 1 0, [])] :: (evmc_revision \<times> evmc_message \<times> byte list) list"
  have "length ?reqs < 2 ^ 64" by simp
  from evmtrans_executes_nothing [OF this, of example_host idle_engine 1 "host_state sample_host"]
  show ?thesis by (simp add: numeral_2_eq_2 del: bt_session.simps) blast
qed

text \<open>
  With mapped code the machine is Hera on that code: the host and the instance of Hera are what
  hera\_execute leaves, the result is its result with the output in reverse order, and the
  message before it is the current one again.
\<close>

theorem mapped_code_runs_in_hera:
  assumes "m_codeMap bt (makeCodeId (msg_destination msg) rv (msg_flags msg)) = Some e" "func e = Some c"
    and "bt_host bt = Some hp" "hera_execute H E (bt_hera bt) ctx rv msg c = (Some r, vm', ctx')"
    and "bt_execute H E hp rv msg code (bt, ctx) = (res, bt', ctx2)"
  shows "ctx2 = ctx' \<and> bt_hera bt' = vm' \<and> currentMsg bt' = currentMsg bt
    \<and> (\<exists>r'. res = Inr (Some r') \<and> status_code r' = status_code r \<and> gas_left r' = gas_left r
          \<and> output_data r' = map_option rev (output_data r))"
proof -
  have "r\<lparr>output_data := map_option rev (output_data r)\<rparr> = r" if "output_size r = 0"
    using that by (cases r) (auto simp: output_size_def split: option.splits)
  then have "map_option rev (output_data r) = output_data r" if "output_size r = 0"
    using that by (metis evmc_result.select_convs(3) evmc_result.surjective evmc_result.update_convs(3))
  then show ?thesis using assms
    by (auto simp: bt_execute_def lookup_code_def getExecFunc_def nativeResult_def Let_def)
qed

section \<open>What the tool writes\<close>

text \<open>The flags without those that ask for a patch.\<close>

definition without_patches :: "Flags \<Rightarrow> Flags" where
  "without_patches fl =
     default_flags\<lparr>InputFilename := InputFilename fl, OutputFilename := OutputFilename fl, g_debug := g_debug fl,
       g_dump := g_dump fl, g_onlyRt := g_onlyRt fl, g_runtimeInput := g_runtimeInput fl\<rparr>"

definition plain_passes :: "pass list" where
  "plain_passes = prepare (options_of default_flags)"

lemma options_without_patches: "prepare (options_of fl) = (if g_enableUpgrade fl then ProxyWrapper # plain_passes else plain_passes)"
  by (simp add: prepare_def options_of_def plain_passes_def default_flags_def)

text \<open>
  C33: No flag of the command line patches a contract: the options are read before the command line is
  parsed, so the outcome of the tool is the same with and without them, and the passes that
  run are the lowering and those of LLVM. Reading them later would not be enough, since the code is
  never marked as run-time code: only the proxy would then be built.
\<close>

theorem patch_flags_ignored:
  "evmtrans_main (tc\<lparr>tc_parse := map_option without_patches \<circ> tc_parse tc\<rparr>) argv = evmtrans_main tc argv
   \<and> prepare (options_of default_flags)
      = LowerEVM # map Library [''reassociate'', ''simplifycfg'', ''dce'', ''reassociate'', ''inline'', ''adce'', ''mem2reg'']
   \<and> (\<forall>fl. set (prepare (options_of fl)) \<subseteq> insert ProxyWrapper (set (prepare (options_of default_flags))))"
proof (intro conjI allI)
  let ?tc = "tc\<lparr>tc_parse := map_option without_patches \<circ> tc_parse tc\<rparr>"
  have b: "build ?tc = build tc" by (intro ext) (simp add: build_def codeGenModule_def exportIR_def Let_def cong: if_cong split del: if_split)
  have w: "write_file ?tc = write_file tc" by (intro ext) (simp add: write_file_def)
  have o: "output_name (without_patches fl) = output_name fl" for fl
    by (intro ext) (simp add: output_name_def without_patches_def)
  have f: "InputFilename (without_patches fl) = InputFilename fl" "g_dump (without_patches fl) = g_dump fl"
    "g_onlyRt (without_patches fl) = g_onlyRt fl" "g_runtimeInput (without_patches fl) = g_runtimeInput fl" for fl
    by (simp_all add: without_patches_def)
  have t: "tc_parse ?tc argv = map_option without_patches (tc_parse tc argv)" by simp
  show "evmtrans_main ?tc argv = evmtrans_main tc argv"
  proof (cases "tc_parse tc argv")
    case None
    show ?thesis unfolding evmtrans_main_def b w t None option.map option.case by (rule refl)
  next
    case (Some fl)
    show ?thesis unfolding evmtrans_main_def b w t Some option.map option.case o f by (rule refl)
  qed
  show "prepare (options_of default_flags)
      = LowerEVM # map Library [''reassociate'', ''simplifycfg'', ''dce'', ''reassociate'', ''inline'', ''adce'', ''mem2reg'']"
    by (simp add: prepare_def options_of_def default_flags_def)
  show "set (prepare (options_of fl)) \<subseteq> insert ProxyWrapper (set (prepare (options_of default_flags)))" for fl
    unfolding options_without_patches [of fl] plain_passes_def by (cases "g_enableUpgrade fl") auto
qed

text \<open>
  A tool chain in which every step succeeds: the linker leaves the linked object in its output
  file. The wasm of a piece of code.
\<close>

definition all_well :: "'m toolchain \<Rightarrow> (byte list \<Rightarrow> byte list) \<Rightarrow> bool" where
  "all_well tc lk \<longleftrightarrow> tc_target tc \<and> (\<forall>f. tc_open tc f) \<and> (\<forall>m. \<not> tc_broken tc m)
     \<and> (\<forall>fs obj. fs code_gen_wasm = Some obj \<longrightarrow> tc_link tc fs = fs(link_wasm \<mapsto> lk obj))"

definition wasm_of :: "'m toolchain \<Rightarrow> (byte list \<Rightarrow> byte list) \<Rightarrow> job \<Rightarrow> byte list" where
  "wasm_of tc lk j = lk (tc_object tc (tc_run tc plain_passes (tc_translate tc j)))"

lemma build_wasm:
  assumes "all_well tc lk"
  shows "\<exists>fs'. build tc (options_of default_flags) dump ll j fs = (Inr (wasm_of tc lk j), fs')"
  using assms
  by (auto simp: build_def codeGenModule_def exportIR_def all_well_def wasm_of_def plain_passes_def Let_def eff_simps)

lemma write_file_bind:
  assumes "all_well tc lk"
  shows "seqE (write_file tc f bs) k fs = k (fs(f \<mapsto> bs))"
  using assms by (simp add: write_file_def all_well_def eff_simps)

definition runtime_job :: "nat \<Rightarrow> byte list \<Rightarrow> job" where
  "runtime_job p code = \<lparr>Bytecode = drop p code, RetPC = 0, RtWasmCode = [], ExeCode = drop p code\<rparr>"

definition deploy_job :: "nat \<Rightarrow> nat \<Rightarrow> byte list \<Rightarrow> byte list \<Rightarrow> job" where
  "deploy_job p retPC rt code = \<lparr>Bytecode = code, RetPC = retPC, RtWasmCode = rt, ExeCode = take p code\<rparr>"


text \<open>A tool chain to run the tool with: a module is the job and the passes it went through, an object file a digest of it.\<close>

definition sample_chain :: "(job \<times> pass list) toolchain" where
  "sample_chain =
     \<lparr>tc_parse = (\<lambda>argv. Some (default_flags\<lparr>InputFilename := last argv\<rparr>)), tc_target = True,
      tc_translate = (\<lambda>j. (j, [])), tc_run = (\<lambda>ps (j, qs). (j, qs @ ps)), tc_open = (\<lambda>_. True), tc_broken = (\<lambda>_. False),
      tc_object = (\<lambda>(j, ps). ExeCode j @ [0xff] @ RtWasmCode j), tc_print = (\<lambda>_. []),
      tc_link = (\<lambda>fs. case fs code_gen_wasm of Some obj \<Rightarrow> fs(link_wasm \<mapsto> 0 # obj) | None \<Rightarrow> fs)\<rparr>"

lemma sample_chain_well: "all_well sample_chain ((#) 0)"
  by (simp add: all_well_def sample_chain_def)

text \<open>The deployment code CODECOPY, RETURN in front of the run-time code PUSH1 7.\<close>

definition sample_contract :: "byte list" where
  "sample_contract = [0x39, 0xf3, 0x60, 0x07]"

lemma sample_contract_splits: "splitSpec sample_contract = Some 2"
proof -
  have "instrs sample_contract 0 (length sample_contract) = [0, 1, 2]"
    by (simp add: sample_contract_def instrs.simps skipPushDataAndGetNext_def)
  then show ?thesis
    unfolding splitSpec_def first_push1_def after_first_def by (simp add: sample_contract_def)
qed


text \<open>
  A failure of the linker goes unnoticed: when it leaves its old output file in place while the
  deployment code is built, the tool reports success and writes the run-time code as the contract.
\<close>

theorem link_failure_unnoticed:
  assumes "all_well tc lk" "tc_parse tc argv = Some fl" "\<not> g_runtimeInput fl" "\<not> g_onlyRt fl" "\<not> g_dump fl"
    and "fs (InputFilename fl) = Some code" "splitCode code 0 = (int p, retPC)" "rt = wasm_of tc lk (runtime_job p code)"
    and "bad = tc_object tc (tc_run tc plain_passes (tc_translate tc (deploy_job p retPC rt code)))"
    and "bad \<noteq> tc_object tc (tc_run tc plain_passes (tc_translate tc (runtime_job p code)))"
    and "tc' = tc\<lparr>tc_link := (\<lambda>fs. if fs code_gen_wasm = Some bad then fs else tc_link tc fs)\<rparr>"
  shows "\<exists>fs'. evmtrans_main tc' argv fs = (Inr 0, fs') \<and> fs' (output_name fl ''./res.wasm'') = Some rt"
proof -
  let ?obj = "tc_object tc (tc_run tc plain_passes (tc_translate tc (runtime_job p code)))"
  let ?fs1 = "fs(code_gen_wasm \<mapsto> ?obj, link_wasm \<mapsto> rt)"
  let ?fs2 = "?fs1(code_gen_wasm \<mapsto> bad)"
  have ne: "code_gen_wasm \<noteq> link_wasm" by (simp add: code_gen_wasm_def link_wasm_def)
  have 1: "build tc' (options_of default_flags) False ll (runtime_job p code) fs = (Inr rt, ?fs1)" for ll
    using assms(1,8,10,11)
    by (simp add: build_def codeGenModule_def all_well_def wasm_of_def plain_passes_def eff_simps Let_def)
  have 2: "build tc' (options_of default_flags) False ll (deploy_job p retPC rt code) ?fs1 = (Inr rt, ?fs2)" for ll
    using assms(1,9,11) ne
    by (simp add: build_def codeGenModule_def all_well_def plain_passes_def eff_simps Let_def)
  have w: "write_file tc' f bs fs = (Inr (), fs(f \<mapsto> bs))" for f bs fs
    using assms(1,11) by (simp add: write_file_def all_well_def eff_simps)
  obtain fs1 fs2 where b: "build tc' (options_of default_flags) False ''./rt.ll'' (runtime_job p code) fs = (Inr rt, fs1)"
    "build tc' (options_of default_flags) False ''./res.ll'' (deploy_job p retPC rt code) fs1 = (Inr rt, fs2)"
    using 1 2 by blast
  have "tc_parse tc' argv = Some fl" using assms(2,11) by simp
  then have "evmtrans_main tc' argv fs = (Inr 0, fs2(output_name fl ''./res.wasm'' \<mapsto> rt))"
    using assms(3-7) b [unfolded runtime_job_def deploy_job_def] w
    by (simp add: evmtrans_main_def Let_def bindE_def getE_def whenE_def returnE_def seqE_def)
  then show ?thesis by auto
qed

end
