(* ===== verification/Example_Vms.thy ===== *)
theory Example_Vms
  imports Loader
begin

text \<open>
  The two example machines of EVMC: example\_vm.c, which recognises five programs by their bytes,
  and example\_precompiles\_vm.cpp, which answers for precompiled contracts. The host and the
  allocator are arguments; undefined behaviour, a null pointer that is written to, is \<open>None\<close>.
\<close>

section \<open>The C library\<close>

text \<open>Whether strncmp returns zero for two arrays of at least \<open>n\<close> bytes: it stops behind a zero byte.\<close>

fun strncmp_equal :: "nat \<Rightarrow> byte list \<Rightarrow> byte list \<Rightarrow> bool" where
  "strncmp_equal 0 xs ys = True"
| "strncmp_equal (Suc n) (x # xs) (y # ys) = (x = y \<and> (x = 0 \<or> strncmp_equal n xs ys))"
| "strncmp_equal (Suc n) _ _ = False"

text \<open>Division truncates towards zero.\<close>

definition c_div :: "int \<Rightarrow> int \<Rightarrow> int" where
  "c_div a b = sgn a * (\<bar>a\<bar> div b)"

text \<open>strtol with base 0; \<open>None\<close> when there is no number. A number outside of long is also outside of every range tested here.\<close>

definition is_space :: "char \<Rightarrow> bool" where
  "is_space c \<longleftrightarrow> (of_char c :: nat) = 32 \<or> (9 \<le> (of_char c :: nat) \<and> (of_char c :: nat) \<le> 13)"

definition digit_val :: "char \<Rightarrow> nat" where
  "digit_val c =
     (let k = of_char c in
      if 48 \<le> k \<and> k \<le> 57 then k - 48
      else if 97 \<le> k \<and> k \<le> 122 then k - 97 + 10
      else if 65 \<le> k \<and> k \<le> 90 then k - 65 + 10
      else 36)"

definition parse_base :: "nat \<Rightarrow> string \<Rightarrow> int option" where
  "parse_base b s =
     (let ds = map digit_val (takeWhile (\<lambda>c. digit_val c < b) s)
      in if ds = [] then None else Some (foldl (\<lambda>a d. a * int b + int d) 0 ds))"

definition parse_unsigned :: "string \<Rightarrow> int option" where
  "parse_unsigned s =
     (if 2 < length s \<and> s ! 0 = CHR ''0'' \<and> (s ! 1 = CHR ''x'' \<or> s ! 1 = CHR ''X'') \<and> digit_val (s ! 2) < 16
      then parse_base 16 (drop 2 s)
      else if s \<noteq> [] \<and> s ! 0 = CHR ''0'' then parse_base 8 s
      else parse_base 10 s)"

definition strtol :: "string \<Rightarrow> int option" where
  "strtol s =
     (case dropWhile is_space s of
        [] \<Rightarrow> None
      | c # t \<Rightarrow>
          if c = CHR ''-'' then map_option uminus (parse_unsigned t)
          else if c = CHR ''+'' then parse_unsigned t
          else parse_unsigned (c # t))"

text \<open>The text of an unsigned number, as the format u prints it.\<close>

fun decimal_bytes :: "nat \<Rightarrow> byte list" where
  "decimal_bytes n = (if n < 10 then [of_nat (48 + n)] else decimal_bytes (n div 10) @ [of_nat (48 + n mod 10)])"

declare decimal_bytes.simps [simp del]

section \<open>The example machine (example\_vm.c)\<close>

definition example_set_option :: "int \<Rightarrow> string \<Rightarrow> string option \<Rightarrow> evmc_set_option_result \<times> int" where
  "example_set_option verbose name val =
     (if name = ''verbose'' then
        (case val of
           None \<Rightarrow> (EVMC_SET_OPTION_INVALID_VALUE, verbose)
         | Some s \<Rightarrow>
             (case strtol s of
                None \<Rightarrow> (EVMC_SET_OPTION_INVALID_VALUE, verbose)
              | Some v \<Rightarrow>
                  if v > 9 \<or> v < -1 then (EVMC_SET_OPTION_INVALID_VALUE, verbose)
                  else (EVMC_SET_OPTION_SUCCESS, v)))
      else (EVMC_SET_OPTION_INVALID_NAME, verbose))"

definition return_address :: "byte list" where "return_address = [0x30, 0x60, 0x00, 0x52, 0x59, 0x60, 0x00, 0xf3]"
definition counter :: "byte list" where "counter = [0x60, 0x01, 0x60, 0x00, 0x54, 0x01, 0x60, 0x00, 0x55]"
definition return_block_number :: "byte list" where "return_block_number = [0x43, 0x60, 0x00, 0x52, 0x59, 0x60, 0x00, 0xf3]"

definition save_return_block_number :: "byte list" where
  "save_return_block_number = [0x43, 0x60, 0x00, 0x55, 0x43, 0x60, 0x00, 0x52, 0x59, 0x60, 0x00, 0xf3]"

definition make_a_call :: "byte list" where "make_a_call = [0x60, 0x00, 0x80, 0x80, 0x80, 0x80, 0x80, 0x80, 0xf1]"

text \<open>A pattern is an array with a zero byte behind it; the comparison runs over the size of the code.\<close>

definition matches :: "byte list \<Rightarrow> byte list \<Rightarrow> bool" where
  "matches code pattern \<longleftrightarrow> length code = length pattern \<and> strncmp_equal (length code) code pattern"

text \<open>The last byte of a word, incremented on its own.\<close>

definition bump_last :: "bytes32 \<Rightarrow> bytes32" where
  "bump_last v = word_be (butlast (bytes_be 32 v) @ [last (bytes_be 32 v) + 1])"

definition blank_result :: evmc_result where
  "blank_result = \<lparr>status_code = EVMC_INTERNAL_ERROR, gas_left = 0, output_data = None, create_address = 0\<rparr>"

definition number_output :: "int \<Rightarrow> byte list" where
  "number_output n = (let d = decimal_bytes (nat (n mod 2 ^ 32)) in d @ replicate (20 - length d) 0)"

definition message_bytes :: "string \<Rightarrow> byte list" where
  "message_bytes = map of_char"

definition example_execute ::
  "'h HostInterface \<Rightarrow> bool \<Rightarrow> evmc_revision \<Rightarrow> evmc_message \<Rightarrow> byte list \<Rightarrow> 'h \<Rightarrow> (evmc_result \<times> 'h) option" where
  "example_execute H alloc rv msg code h =
     (if code = [] then
        Some (blank_result\<lparr>output_data := Some (message_bytes (if rv = EVMC_BYZANTIUM then ''Welcome to Byzantium!'' else ''Hello Ethereum!'')),
                status_code := EVMC_FAILURE, gas_left := c_div (msg_gas msg) 10\<rparr>, h)
      else if msg_kind msg = EVMC_CREATE then
        Some (blank_result\<lparr>status_code := EVMC_SUCCESS, gas_left := c_div (msg_gas msg) 10\<rparr>, h)
      else if matches code return_address then
        Some (if alloc
              then blank_result\<lparr>status_code := EVMC_SUCCESS, output_data := Some (bytes_be 20 (msg_destination msg))\<rparr>
              else blank_result, h)
      else if matches code counter then
        Some (blank_result\<lparr>status_code := EVMC_SUCCESS\<rparr>,
              set_storage H h (msg_destination msg) 0 (bump_last (get_storage H h (msg_destination msg) 0)))
      else if matches code return_block_number then
        (if alloc
         then Some (blank_result\<lparr>status_code := EVMC_SUCCESS, gas_left := c_div (msg_gas msg) 2,
                output_data := Some (number_output (block_number (host_tx_context H h)))\<rparr>, h)
         else None)
      else if matches code save_return_block_number then
        (if alloc
         then Some (blank_result\<lparr>status_code := EVMC_SUCCESS, gas_left := c_div (msg_gas msg) 2,
                output_data := Some (number_output (block_number (host_tx_context H h)))\<rparr>,
              set_storage H h (msg_destination msg) 0 (word_of_int (block_number (host_tx_context H h) mod 256)))
         else None)
      else if matches code make_a_call then
        Some (host_call H h
          \<lparr>msg_kind = EVMC_CALL, msg_flags = 0, msg_depth = msg_depth msg + 1, msg_gas = msg_gas msg - c_div (msg_gas msg) 64,
           msg_destination = 0, msg_sender = msg_destination msg, msg_input = [], msg_value = 0\<rparr>)
      else Some (blank_result\<lparr>status_code := EVMC_FAILURE, gas_left := 0\<rparr>, h))"

definition evmc_create_example_vm :: "int evmc_instance" where
  "evmc_create_example_vm =
     \<lparr>abi_version = EVMC_ABI_VERSION, vm_name = ''example_vm'', vm = 0,
      set_option = Some (\<lambda>verbose name val. example_set_option verbose name (Some val))\<rparr>"

definition example_get_capabilities :: u32 where
  "example_get_capabilities = EVMC_CAPABILITY_EVM1 OR EVMC_CAPABILITY_EWASM"

section \<open>Precompiled contracts (example\_precompiles\_vm.cpp)\<close>

definition execute_identity :: "evmc_message \<Rightarrow> evmc_result" where
  "execute_identity msg =
     (let gas_cost = 15 + 3 * ((int (length (msg_input msg)) + 31) div 32);
          left = msg_gas msg - gas_cost in
      if left < 0 then blank_result\<lparr>status_code := EVMC_OUT_OF_GAS\<rparr>
      else blank_result\<lparr>status_code := EVMC_SUCCESS, output_data := Some (msg_input msg), gas_left := left\<rparr>)"

definition execute_empty :: "evmc_message \<Rightarrow> evmc_result" where
  "execute_empty msg = blank_result\<lparr>status_code := EVMC_SUCCESS, gas_left := msg_gas msg\<rparr>"

definition not_implemented :: evmc_result where
  "not_implemented = blank_result\<lparr>status_code := EVMC_REJECTED\<rparr>"

definition before_byzantium :: "evmc_revision \<Rightarrow> bool" where
  "before_byzantium r \<longleftrightarrow> r \<in> {EVMC_FRONTIER, EVMC_HOMESTEAD, EVMC_TANGERINE_WHISTLE, EVMC_SPURIOUS_DRAGON}"

definition precompiles_execute :: "evmc_revision \<Rightarrow> evmc_message \<Rightarrow> evmc_result" where
  "precompiles_execute rv msg =
     (let dst = bytes_be 20 (msg_destination msg) in
      if list_all (\<lambda>x. x = 0) (take 18 dst) then blank_result\<lparr>status_code := EVMC_REJECTED\<rparr>
      else
        let n = unat (dst ! 18) * 256 + unat (dst ! 19) in
        if n = 1 \<or> n = 2 \<or> n = 3 then not_implemented
        else if n = 4 then execute_identity msg
        else if n = 5 \<or> n = 6 \<or> n = 7 \<or> n = 8 then (if before_byzantium rv then execute_empty msg else not_implemented)
        else execute_empty msg)"

section \<open>Properties\<close>

text \<open>
  The patterns contain zero bytes, at which the comparison stops: what comes behind does not
  count. Every code of eight bytes that begins like the first pattern is taken for it.
\<close>

theorem prefix_is_enough:
  assumes "length rest = 5"
  shows "matches (0x30 # 0x60 # 0 # rest) return_address \<and> matches (0x43 # 0x60 # 0 # rest) return_block_number"
  using assms by (simp add: matches_def return_address_def return_block_number_def numeral_eq_Suc)

text \<open>The counter increments the last byte of the stored word: after 255 it starts again at zero.\<close>

lemma bump_last_value: "unat (bump_last v) = unat v div 256 * 256 + (unat v mod 256 + 1) mod 256"
proof -
  define xs where "xs = butlast (bytes_be 32 v)"
  define x where "x = last (bytes_be 32 v)"
  have v: "bytes_be 32 v = xs @ [x]" unfolding xs_def x_def by (rule append_butlast_last_id [symmetric]) (metis length_bytes_be list.size(3) zero_neq_numeral)
  have "unat v = be_nat (xs @ [x])" using be_nat_bytes_be [of 32 v] unsigned_less [of v, where ?'a = nat] by (simp add: v)
  then have n: "unat v = be_nat xs * 256 + unat x" by (simp add: be_nat_snoc)
  have "unat x < 256" using unsigned_less [of x, where ?'a = nat] by simp
  then have dm: "be_nat xs = unat v div 256" "unat x = unat v mod 256" using n by simp_all
  have u: "unat (x + 1) = (unat v mod 256 + 1) mod 256" by (simp add: unat_word_ariths dm(2))
  have len: "length (xs @ [x + 1]) = 32" using length_bytes_be [of 32 v] by (simp add: v)
  have "be_nat (xs @ [x + 1]) < 256 ^ 32" using be_nat_bound [of "xs @ [x + 1]"] len by simp
  then have "unat (bump_last v) = be_nat (xs @ [x + 1])"
    by (simp add: bump_last_def xs_def [symmetric] x_def [symmetric] word_be_def unat_of_nat take_bit_nat_eq_self del: be_nat_snoc of_nat_add)
  then show ?thesis by (simp add: be_nat_snoc u dm(1))
qed

theorem counter_counts:
  assumes "evmc_host H world" "msg_kind msg \<noteq> EVMC_CREATE" "example_execute H alloc rv msg counter h = Some (r, h')"
  shows "unat (get_storage H h' (msg_destination msg) 0) =
      (let n = unat (get_storage H h (msg_destination msg) 0) in n div 256 * 256 + (n mod 256 + 1) mod 256)
    \<and> status_code r = EVMC_SUCCESS \<and> gas_left r = 0"
proof -
  have "matches counter counter" "\<not> matches counter return_address" by (simp_all add: matches_def counter_def return_address_def numeral_eq_Suc)
  moreover have "counter \<noteq> []" by (simp add: counter_def)
  ultimately have "r = blank_result\<lparr>status_code := EVMC_SUCCESS\<rparr>"
    "h' = set_storage H h (msg_destination msg) 0 (bump_last (get_storage H h (msg_destination msg) 0))"
    using assms(2,3) by (simp_all add: example_execute_def)
  then show ?thesis using evmc_host.storage_same [OF assms(1)] by (simp add: bump_last_value Let_def blank_result_def)
qed

text \<open>
  The test of the address range is the wrong way round: every address reserved for precompiled
  contracts is rejected, and any other address is answered by its last two bytes.
\<close>

lemma prefix_zero: "list_all (\<lambda>x. x = 0) (take 18 (bytes_be 20 (a :: address))) \<longleftrightarrow> unat a < 0x10000"
proof -
  have b: "bytes_be 20 a = take 18 (bytes_be 20 a) @ drop 18 (bytes_be 20 a)" by simp
  define xs ys where "xs = take 18 (bytes_be 20 a)" and "ys = drop 18 (bytes_be 20 a)"
  have len: "length xs = 18" "length ys = 2" by (simp_all add: xs_def ys_def)
  have "unat a = be_nat (xs @ ys)"
    using be_nat_bytes_be [of 20 a] unsigned_less [of a, where ?'a = nat] b by (simp add: xs_def ys_def)
  then have n: "unat a = be_nat xs * 256 ^ 2 + be_nat ys" by (simp add: be_nat_append len)
  have y: "be_nat ys < 256 ^ 2" using be_nat_bound [of ys] len by simp
  have "list_all (\<lambda>x. x = 0) xs \<longleftrightarrow> be_nat xs = 0"
  proof
    assume "list_all (\<lambda>x. x = 0) xs"
    then have "xs = replicate 18 0" using len(1) by (simp add: list_all_iff replicate_eqI)
    then show "be_nat xs = 0" by (simp add: be_nat_zeros)
  next
    have "be_nat zs = 0 \<Longrightarrow> list_all (\<lambda>x. x = 0) zs" for zs :: "byte list"
      by (induction zs rule: rev_induct) (auto simp: be_nat_snoc unat_eq_zero)
    then show "be_nat xs = 0 \<Longrightarrow> list_all (\<lambda>x. x = 0) xs" by blast
  qed
  then show ?thesis using n y unfolding xs_def [symmetric] by auto
qed

theorem precompiles_rejected:
  "(unat (msg_destination msg) < 0x10000 \<longrightarrow> status_code (precompiles_execute rv msg) = EVMC_REJECTED)
   \<and> (0x10000 \<le> unat (msg_destination msg) \<and> unat (msg_destination msg) mod 0x10000 = 4 \<longrightarrow>
      precompiles_execute rv msg = execute_identity msg)"
proof
  show "unat (msg_destination msg) < 0x10000 \<longrightarrow> status_code (precompiles_execute rv msg) = EVMC_REJECTED"
    using prefix_zero [of "msg_destination msg"] by (simp add: precompiles_execute_def Let_def)
  let ?dst = "bytes_be 20 (msg_destination msg)"
  have "drop 18 ?dst = [?dst ! 18, ?dst ! 19]"
    by (rule nth_equalityI) (auto simp: less_Suc_eq numeral_2_eq_2 nth_Cons split: nat.splits)
  moreover have "unat (msg_destination msg) = be_nat (take 18 ?dst @ drop 18 ?dst)"
    using be_nat_bytes_be [of 20 "msg_destination msg"] unsigned_less [of "msg_destination msg", where ?'a = nat] by simp
  ultimately have "unat (msg_destination msg) = be_nat (take 18 ?dst) * 256 ^ 2 + be_nat [?dst ! 18, ?dst ! 19]"
    by (simp add: be_nat_append del: append_take_drop_id)
  moreover have "be_nat [?dst ! 18, ?dst ! 19] = unat (?dst ! 18) * 256 + unat (?dst ! 19)" by (simp add: be_nat_def)
  moreover have "unat (?dst ! 18) < 256" "unat (?dst ! 19) < 256"
    using unsigned_less [of "?dst ! 18", where ?'a = nat] unsigned_less [of "?dst ! 19", where ?'a = nat] by simp_all
  ultimately have m: "unat (msg_destination msg) mod 0x10000 = unat (?dst ! 18) * 256 + unat (?dst ! 19)" by simp
  show "0x10000 \<le> unat (msg_destination msg) \<and> unat (msg_destination msg) mod 0x10000 = 4 \<longrightarrow>
      precompiles_execute rv msg = execute_identity msg"
    using prefix_zero [of "msg_destination msg"] m by (simp add: precompiles_execute_def Let_def)
qed

text \<open>The example machine can be loaded and configured like Hera; options outside the range are refused.\<close>

lemma verbose_range: "example_set_option v ''verbose'' (Some s) = (EVMC_SET_OPTION_SUCCESS, w) \<Longrightarrow> -1 \<le> w \<and> w \<le> 9"
  by (auto simp: example_set_option_def split: option.splits if_splits)

end
