(* ===== verification/Taint.thy ===== *)
theory Taint
  imports Prelude
begin

text \<open>
  The taint analysis of src/evmtrans/Tainter.cpp. A function is its arguments and its instructions,
  block after block, as far as the analysis looks at them: by the names of the values, and calls
  by the name of the callee. The analysis follows each argument through a function once, in the order
  of the code, and records an edge for every tainted argument of a call; then it walks from each
  edge of an entry function along the first edge that fits until it finds a sink. What it
  prints is the trace; the walk is a partial function, \<open>None\<close> when it does not end.
\<close>

section \<open>Data (Tainter.h)\<close>

datatype ApiType = API_ENTRY | API_SOURCE | API_SINK | API_SANITIZE | API_USERFUNC

record ApiFunc =
  interestingArg :: int
  funcName :: string
  api_type :: ApiType

record TaintNode =
  tn_name :: string
  tn_arg :: int
  tn_type :: ApiType

text \<open>Two nodes are equal when name and argument are.\<close>

definition same_node :: "TaintNode \<Rightarrow> TaintNode \<Rightarrow> bool" where
  "same_node n1 n2 \<longleftrightarrow> tn_name n1 = tn_name n2 \<and> tn_arg n1 = tn_arg n2"

record TaintEdge =
  te_src :: TaintNode
  te_dst :: TaintNode

datatype tinst =
    TStore string string
  | TLoad string string
  | TGep string string
  | TCall string "string list"
  | TOther

record tfunc =
  tf_name :: string
  tf_args :: "string list"
  tf_code :: "tinst list"

section \<open>Edges\<close>

definition apiFuncs :: "ApiFunc list" where
  "apiFuncs = [\<lparr>interestingArg = 1, funcName = ''strcpy'', api_type = API_SINK\<rparr>, \<lparr>interestingArg = 1, funcName = ''main'', api_type = API_ENTRY\<rparr>]"

definition type_of :: "string \<Rightarrow> ApiType" where
  "type_of name = foldl (\<lambda>t s. if funcName s = name then api_type s else t) API_USERFUNC apiFuncs"

definition call_edges :: "string \<Rightarrow> int \<Rightarrow> string \<Rightarrow> string list \<Rightarrow> string list \<Rightarrow> TaintEdge list" where
  "call_edges f argNo callee args tainted =
     map (\<lambda>i. \<lparr>te_src = \<lparr>tn_name = f, tn_arg = argNo, tn_type = type_of f\<rparr>,
               te_dst = \<lparr>tn_name = callee, tn_arg = int i, tn_type = type_of callee\<rparr>\<rparr>)
       (filter (\<lambda>i. args ! i \<in> set tainted) [0..<length args])"

fun taint_code :: "string \<Rightarrow> int \<Rightarrow> tinst list \<Rightarrow> string list \<Rightarrow> TaintEdge list" where
  "taint_code f argNo [] tainted = []"
| "taint_code f argNo (TStore v p # c) tainted = taint_code f argNo c (if v \<in> set tainted then tainted @ [p] else tainted)"
| "taint_code f argNo (TLoad r p # c) tainted = taint_code f argNo c (if p \<in> set tainted then tainted @ [r] else tainted)"
| "taint_code f argNo (TGep r p # c) tainted = taint_code f argNo c (if p \<in> set tainted then tainted @ [r] else tainted)"
| "taint_code f argNo (TCall g args # c) tainted = call_edges f argNo g args tainted @ taint_code f argNo c tainted"
| "taint_code f argNo (TOther # c) tainted = taint_code f argNo c tainted"

definition taintList :: "tfunc list \<Rightarrow> TaintEdge list" where
  "taintList m = concat (map (\<lambda>f. concat (map (\<lambda>i. taint_code (tf_name f) (int i) (tf_code f) [tf_args f ! i]) [0..<length (tf_args f)])) m)"

section \<open>Traces\<close>

text \<open>A node that is not found is value-initialised: an empty name, argument zero and the first type.\<close>

definition no_node :: TaintNode where
  "no_node = \<lparr>tn_name = [], tn_arg = 0, tn_type = API_ENTRY\<rparr>"

definition getCallee :: "TaintEdge list \<Rightarrow> TaintNode \<Rightarrow> TaintNode" where
  "getCallee es node = (case find (\<lambda>t. same_node (te_src t) node) es of Some t \<Rightarrow> te_dst t | None \<Rightarrow> no_node)"

text \<open>
  The walk from an entry: the trace when a sink is found. The test of the argument of a sink only
  leaves the inner loop over the known functions, and nothing depends on it.
\<close>

partial_function (option) walk :: "TaintEdge list \<Rightarrow> TaintNode \<Rightarrow> TaintNode list \<Rightarrow> TaintNode list option option" where
  "walk es caller trace =
     (if tn_name caller = [] then Some None
      else
        let callee = getCallee es caller; trace = trace @ [caller] in
        if tn_type callee = API_SINK then Some (Some (trace @ [callee]))
        else walk es callee trace)"

declare walk.simps [code]

text \<open>All traces that are printed, one per edge of an entry function.\<close>

fun report :: "TaintEdge list \<Rightarrow> TaintEdge list \<Rightarrow> TaintNode list list option" where
  "report es [] = Some []"
| "report es (t # ts) =
     (if tn_type (te_src t) = API_ENTRY then
        Option.bind (walk es (te_src t) []) (\<lambda>tr. map_option (\<lambda>rs. (case tr of Some x \<Rightarrow> x # rs | None \<Rightarrow> rs)) (report es ts))
      else report es ts)"

definition runOnModule :: "tfunc list \<Rightarrow> TaintNode list list option" where
  "runOnModule m = report (taintList m) (taintList m)"

section \<open>When the walk ends\<close>

definition stops :: "TaintEdge list \<Rightarrow> TaintNode \<Rightarrow> bool" where
  "stops es n \<longleftrightarrow> tn_name n = [] \<or> tn_type (getCallee es n) = API_SINK"

lemma walk_stop: "stops es n \<Longrightarrow> walk es n tr = Some (if tn_name n = [] then None else Some (tr @ [n, getCallee es n]))"
  by (auto simp: stops_def walk.simps [of es n] Let_def)

lemma walk_step: "\<not> stops es n \<Longrightarrow> walk es n tr = walk es (getCallee es n) (tr @ [n])"
  by (auto simp: stops_def walk.simps [of es n] Let_def)

lemma walk_returns: "stops es ((getCallee es ^^ k) n) \<Longrightarrow> \<exists>x. walk es n tr = Some x"
proof (induction k arbitrary: n tr)
  case 0
  then show ?case using walk_stop [of es n tr] by auto
next
  case (Suc k)
  show ?case
  proof (cases "stops es n")
    case True
    then show ?thesis using walk_stop [of es n tr] by auto
  next
    case False
    then show ?thesis using Suc walk_step [OF False, of tr] by (simp add: funpow_swap1)
  qed
qed

lemma walk_result: "walk es n tr = Some x \<Longrightarrow> \<exists>k. stops es ((getCallee es ^^ k) n)"
proof (rule walk.raw_induct [where P = "\<lambda>es n tr x. \<exists>k. stops es ((getCallee es ^^ k) n)"])
  fix w es caller trace y
  assume IH: "\<And>es n tr x. w es n tr = Some x \<Longrightarrow> \<exists>k. stops es ((getCallee es ^^ k) n)"
    and w: "(if tn_name caller = [] then Some None
      else let callee = getCallee es caller; trace = trace @ [caller]
           in if tn_type callee = API_SINK then Some (Some (trace @ [callee])) else w es callee trace) = Some y"
  show "\<exists>k. stops es ((getCallee es ^^ k) caller)"
  proof (cases "stops es caller")
    case True
    then show ?thesis by (intro exI [of _ 0]) simp
  next
    case False
    then have "w es (getCallee es caller) (trace @ [caller]) = Some y" using w by (auto simp: stops_def Let_def split: if_splits)
    then obtain k where "stops es ((getCallee es ^^ k) (getCallee es caller))" using IH by blast
    then show ?thesis by (intro exI [of _ "Suc k"]) (simp add: funpow_swap1)
  qed
qed

text \<open>
  The walk from a node comes back exactly when the chain of first callees reaches a sink or a node
  without a callee; a function that passes a tainted argument to itself in the same position is
  walked forever.
\<close>

theorem walk_returns_iff: "(\<exists>x. walk es n tr = Some x) \<longleftrightarrow> (\<exists>k. stops es ((getCallee es ^^ k) n))"
  using walk_returns [of es] walk_result [of es n tr] by blast

theorem recursion_walks_forever:
  assumes "tf_name f = ''main''" "tf_args f = [a]" "tf_code f = [TCall ''main'' [a]]"
  shows "runOnModule [f] = None"
proof -
  let ?n = "\<lparr>tn_name = ''main'', tn_arg = 0, tn_type = API_ENTRY\<rparr>"
  let ?e = "\<lparr>te_src = ?n, te_dst = ?n\<rparr>"
  have es: "taintList [f] = [?e]"
    using assms by (simp add: taintList_def call_edges_def type_of_def apiFuncs_def)
  have "getCallee [?e] ?n = ?n" by (simp add: getCallee_def same_node_def)
  then have it: "(getCallee [?e] ^^ k) ?n = ?n" for k by (induction k) simp_all
  have "\<not> stops [?e] ?n" by (simp add: stops_def getCallee_def same_node_def)
  then have "walk [?e] ?n [] = None" using walk_returns_iff [of "[?e]" ?n "[]"] it by (cases "walk [?e] ?n []") auto
  then show ?thesis by (simp add: runOnModule_def es)
qed

text \<open>The sink is reported whichever argument the tainted value is passed to, although only the second one is dangerous.\<close>

theorem harmless_argument_reported:
  assumes "tf_name f = ''main''" "tf_args f = [a]" "tf_code f = [TCall ''strcpy'' [a, b]]" "a \<noteq> b"
  shows "runOnModule [f] = Some [[\<lparr>tn_name = ''main'', tn_arg = 0, tn_type = API_ENTRY\<rparr>, \<lparr>tn_name = ''strcpy'', tn_arg = 0, tn_type = API_SINK\<rparr>]]"
proof -
  let ?n = "\<lparr>tn_name = ''main'', tn_arg = 0, tn_type = API_ENTRY\<rparr>"
  let ?e = "\<lparr>te_src = ?n, te_dst = \<lparr>tn_name = ''strcpy'', tn_arg = 0, tn_type = API_SINK\<rparr>\<rparr>"
  have es: "taintList [f] = [?e]"
    using assms by (simp add: taintList_def call_edges_def type_of_def apiFuncs_def)
  have "stops [?e] ?n" by (simp add: stops_def getCallee_def same_node_def)
  from walk_stop [OF this, of "[]"] show ?thesis by (simp add: runOnModule_def es getCallee_def same_node_def)
qed

end
