(* ===== verification/Symbolic.thy ===== *)
theory Symbolic
  imports Llvm
begin

text \<open>
  The symbolic execution of SECore.h and SECore.cpp: a walk over the blocks of a function up to a
  depth, which executes the instructions of each block on terms of the z3 library and records a
  graph of visited blocks. z3 is a record of functions over an abstract type of terms, a
  parameter; an operation on operands of the wrong sorts throws (\<open>None\<close>). An LLVM value is what the engine asks
  of it: its kind, its number and its name. Pointers to blocks are their positions in the
  function; the identity of an instruction is its printed address. A failing assertion, an
  exception of z3, an exit of the process and an access outside of a vector are errors of their own.
  Output for debugging is left out.
\<close>

section \<open>The library z3\<close>

datatype zbin =
    ZAdd | ZSub | ZMul | ZUDiv | ZSDiv | ZURem | ZSRem | ZAnd | ZOr | ZXor | ZShl | ZLShr | ZAShr

datatype zcmp = ZEq | ZNe | ZUgt | ZUge | ZUlt | ZUle | ZSgt | ZSge | ZSlt | ZSle

record 'e Z3 =
  bv_val :: "int \<Rightarrow> nat \<Rightarrow> 'e"
  bv_const :: "string \<Rightarrow> nat \<Rightarrow> 'e"
  array_const :: "string \<Rightarrow> nat \<Rightarrow> nat \<Rightarrow> 'e"
  bool_val :: "bool \<Rightarrow> 'e"
  z_bin :: "zbin \<Rightarrow> 'e \<Rightarrow> 'e \<Rightarrow> 'e option"
  z_cmp :: "zcmp \<Rightarrow> 'e \<Rightarrow> 'e \<Rightarrow> 'e option"
  z_ite :: "'e \<Rightarrow> 'e \<Rightarrow> 'e \<Rightarrow> 'e option"
  z_concat :: "'e \<Rightarrow> 'e \<Rightarrow> 'e option"
  z_extract :: "nat \<Rightarrow> nat \<Rightarrow> 'e \<Rightarrow> 'e option"
  z_zext :: "nat \<Rightarrow> 'e \<Rightarrow> 'e option"
  z_sext :: "nat \<Rightarrow> 'e \<Rightarrow> 'e option"
  z_select :: "'e \<Rightarrow> 'e \<Rightarrow> 'e option"
  z_store :: "'e \<Rightarrow> 'e \<Rightarrow> 'e \<Rightarrow> 'e option"
  z_simplify :: "'e \<Rightarrow> 'e"
  z_to_string :: "'e \<Rightarrow> string"
  z_bv_size :: "'e \<Rightarrow> nat option"
  z_numeral :: "'e \<Rightarrow> int option"

section \<open>LLVM values and instructions\<close>

datatype se_type = SInt nat | SPtr se_type | SArr nat se_type | SVoid

datatype se_value =
    OInst string string
  | OArg nat string
  | OLabel string
  | OConstInt nat int
  | OGlobal string
  | OOther string

fun vname :: "se_value \<Rightarrow> string" where
  "vname (OInst _ n) = n"
| "vname (OArg _ n) = n"
| "vname (OLabel n) = n"
| "vname (OConstInt _ _) = []"
| "vname (OGlobal n) = n"
| "vname (OOther n) = n"

datatype se_pred =
    ICMP_EQ | ICMP_NE | ICMP_UGT | ICMP_UGE | ICMP_ULT | ICMP_ULE | ICMP_SGT | ICMP_SGE | ICMP_SLT | ICMP_SLE

datatype se_callee = CDebug | CInlineAsm | CFunction string | CIndirect

text \<open>A branch has its successors, a comparison no predicate when it is none of the integer predicates, an alloca the size of its type in bytes.\<close>

datatype se_opcode =
    XRet | XBr "nat list" | XIndirectBr | XSwitch | XUnreachable
  | XCall se_callee | XSelect | XBin binop | XICmp "se_pred option"
  | XAlloca nat | XLoad | XStore | XGetElementPtr
  | XTrunc | XZExt | XSExt | XIntToPtr | XPtrToInt | XBitCast
  | XInsertValue | XExtractValue | XFence | XInsertElement | XExtractElement
  | XShuffleVector | XAtomicRMW | XAtomicCmpXchg | XOther

text \<open>The operands of a call are its arguments and, last, the callee.\<close>

record se_inst =
  si_addr :: string
  si_op :: se_opcode
  si_type :: se_type
  si_operands :: "se_value list"

record se_block =
  sb_name :: string
  sb_insts :: "se_inst list"

section \<open>The engine\<close>

record KInstruction =
  k_inst :: se_inst
  k_operands :: "int list"
  k_dest :: nat

record 'e SNode =
  uid :: nat
  bbPtr :: nat
  n_constraints :: "'e list"
  n_states :: "'e list list"

text \<open>
  The members of SEngine and the counter of nodes; at the end the state of the block that is
  executed: its registers, the constraints of its node and the recorded states.
\<close>

record 'e SEngine =
  m_targetPtr :: 'e
  m_calldata :: 'e
  m_calldatasize :: 'e
  m_memory :: 'e
  m_stk :: 'e
  m_storage :: 'e
  m_Nodes :: "'e SNode list"
  m_Edges :: "(nat \<times> nat) list"
  m_numRegisters :: nat
  m_numInstructions :: nat
  m_instructions :: "KInstruction list"
  m_basicBlockEntry :: "nat \<Rightarrow> nat"
  m_constants :: "'e list"
  m_gZ3Map :: "string \<rightharpoonup> 'e"
  gbl_next_uid :: nat
  locals :: "'e list"
  constraints :: "'e list"
  states :: "'e list list"

definition newSEngine :: "'e Z3 \<Rightarrow> 'e SEngine" where
  "newSEngine Z =
     \<lparr>m_targetPtr = bv_val Z 0 256, m_calldata = array_const Z ''calldata'' 32 8,
      m_calldatasize = bv_const Z ''CALLDATASIZE'' 256, m_memory = array_const Z ''mem'' 256 8,
      m_stk = array_const Z ''mstk'' 256 256, m_storage = array_const Z ''storage'' 256 256,
      m_Nodes = [], m_Edges = [], m_numRegisters = 0, m_numInstructions = 0, m_instructions = [],
      m_basicBlockEntry = (\<lambda>_. 0), m_constants = [], m_gZ3Map = Map.empty, gbl_next_uid = 0,
      locals = [], constraints = [], states = []\<rparr>"

datatype se_error =
    BadOperand | NoGlobal | Z3Exception | BadRegister | OutOfRange | ExitProcess | NotCalldataWord | NotBitVector | NullCallee

type_synonym ('e, 'a) se = "('e SEngine, se_error, 'a) eff"

definition m_maxDepth :: nat where "m_maxDepth = 32"
definition m_maxLoopDepth :: nat where "m_maxLoopDepth = 5"

definition z3 :: "'a option \<Rightarrow> ('e, 'a) se" where
  "z3 r = (case r of Some x \<Rightarrow> returnE x | None \<Rightarrow> throwE Z3Exception)"

text \<open>An element of a vector.\<close>

definition at :: "'a list \<Rightarrow> nat \<Rightarrow> ('e, 'a) se" where
  "at xs i = (if i < length xs then returnE (xs ! i) else throwE OutOfRange)"

text \<open>A term and a number of the same sort, as the operators of z3 with an int operand take them.\<close>

definition z_plus_int :: "'e Z3 \<Rightarrow> 'e \<Rightarrow> int \<Rightarrow> ('e, 'e) se" where
  "z_plus_int Z e n = bindE (z3 (z_bv_size Z e)) (\<lambda>w. z3 (z_bin Z ZAdd e (bv_val Z n w)))"

definition z_equals_int :: "'e Z3 \<Rightarrow> 'e \<Rightarrow> int \<Rightarrow> ('e, 'e) se" where
  "z_equals_int Z e n = bindE (z3 (z_bv_size Z e)) (\<lambda>w. z3 (z_cmp Z ZEq e (bv_val Z n w)))"

section \<open>Widths and operands\<close>

fun primitive_bits :: "se_type \<Rightarrow> nat" where
  "primitive_bits (SInt w) = w"
| "primitive_bits _ = 0"

fun getWidthForLLVMType :: "se_type \<Rightarrow> nat" where
  "getWidthForLLVMType (SPtr t) = primitive_bits t"
| "getWidthForLLVMType (SArr _ t) = primitive_bits t"
| "getWidthForLLVMType t = primitive_bits t"

definition resizeVec :: "'e Z3 \<Rightarrow> 'e \<Rightarrow> nat \<Rightarrow> bool \<Rightarrow> ('e, 'e) se" where
  "resizeVec Z e w isSigned =
     (case z_bv_size Z e of
        None \<Rightarrow> throwE NotBitVector
      | Some sz \<Rightarrow>
          if sz < w then z3 (if isSigned then z_sext Z (w - sz) e else z_zext Z (w - sz) e)
          else if w = 0 then throwE Z3Exception
          else z3 (z_extract Z (w - 1) 0 e))"

text \<open>The term of a constant, 64 bits at a time from the most significant ones.\<close>

primrec const_words :: "'e Z3 \<Rightarrow> nat \<Rightarrow> int \<Rightarrow> nat \<Rightarrow> 'e \<Rightarrow> ('e, 'e) se" where
  "const_words Z w n 0 z = returnE z"
| "const_words Z w n (Suc j) z =
     bindE (z3 (z_bin Z ZShl z (bv_val Z 64 w))) (\<lambda>z.
     bindE (z3 (z_bin Z ZOr z (bv_val Z (take_bit 64 (drop_bit (64 * j) n)) w))) (\<lambda>z.
     const_words Z w n j z))"

definition getOperandNum :: "'e Z3 \<Rightarrow> (string \<Rightarrow> nat) \<Rightarrow> se_value \<Rightarrow> ('e, int) se" where
  "getOperandNum Z registerMap v =
     (case v of
        OInst i _ \<Rightarrow> returnE (int (registerMap i))
      | OArg n _ \<Rightarrow> returnE (int n)
      | OLabel _ \<Rightarrow> returnE (-1)
      | OConstInt w n \<Rightarrow>
          bindE (const_words Z w (take_bit w n) ((w + 63) div 64) (bv_val Z 0 w)) (\<lambda>z.
          seqE (modifyE (\<lambda>s. s\<lparr>m_constants := m_constants s @ [z_simplify Z z]\<rparr>))
          (getE (\<lambda>s. - int (length (m_constants s)) - 2)))
      | OGlobal _ \<Rightarrow> returnE (-2)
      | OOther _ \<Rightarrow> returnE (-1))"

definition eval :: "KInstruction \<Rightarrow> nat \<Rightarrow> ('e, 'e) se" where
  "eval ki index =
     seqE (ensureE (index < length (si_operands (k_inst ki))) BadOperand)
     (bindE (at (k_operands ki) index) (\<lambda>vnumber.
      seqE (ensureE (vnumber \<noteq> -1) BadOperand)
      (if vnumber = -2 then
         bindE (getE (\<lambda>s. m_gZ3Map s (vname (si_operands (k_inst ki) ! index)))) (\<lambda>g.
         case g of Some e \<Rightarrow> returnE e | None \<Rightarrow> throwE NoGlobal)
       else if vnumber \<le> -3 then bindE (getE m_constants) (\<lambda>cs. at cs (nat (- vnumber - 3)))
       else bindE (getE locals) (\<lambda>ls. at ls (nat vnumber)))))"

definition bindLocal :: "KInstruction \<Rightarrow> 'e \<Rightarrow> ('e, unit) se" where
  "bindLocal target v =
     bindE (getE locals) (\<lambda>ls.
     seqE (ensureE (k_dest target < length ls) BadRegister)
     (modifyE (\<lambda>s. s\<lparr>locals := (locals s)[k_dest target := v]\<rparr>)))"

section \<open>Memory\<close>

fun contains :: "string \<Rightarrow> string \<Rightarrow> bool" where
  "contains pat [] = (pat = [])"
| "contains pat (c # s) = (take (length pat) (c # s) = pat \<or> contains pat s)"

definition in_stack :: "'e Z3 \<Rightarrow> 'e \<Rightarrow> bool" where
  "in_stack Z adr = contains ''mstk'' (z_to_string Z adr)"

definition stack_index :: "'e Z3 \<Rightarrow> 'e \<Rightarrow> ('e, 'e) se" where
  "stack_index Z adr =
     bindE (z3 (z_bin Z ZSub adr (bv_const Z ''mstk'' 256))) (\<lambda>iadr. returnE (z_simplify Z iadr))"

fun store_bytes :: "'e Z3 \<Rightarrow> 'e \<Rightarrow> 'e \<Rightarrow> nat list \<Rightarrow> ('e, unit) se" where
  "store_bytes Z adr v [] = returnE ()"
| "store_bytes Z adr v (i # is) =
     bindE (z3 (z_extract Z (i + 7) i v)) (\<lambda>b.
     bindE (z_plus_int Z adr (int i)) (\<lambda>a.
     bindE (getE m_memory) (\<lambda>m.
     bindE (z3 (z_store Z m a b)) (\<lambda>m.
     seqE (modifyE (\<lambda>s. s\<lparr>m_memory := m\<rparr>)) (store_bytes Z adr v is)))))"

text \<open>The offsets of the bytes of a value: its bit positions.\<close>

definition bit_offsets :: "nat \<Rightarrow> nat \<Rightarrow> nat list" where
  "bit_offsets from' sz = filter (\<lambda>i. i mod 8 = 0) [from'..<sz]"

definition memStore :: "'e Z3 \<Rightarrow> 'e \<Rightarrow> 'e \<Rightarrow> ('e, unit) se" where
  "memStore Z adr v =
     bindE (z3 (z_bv_size Z v)) (\<lambda>sz.
     if in_stack Z adr then
       bindE (stack_index Z adr) (\<lambda>iadr.
       bindE (getE m_stk) (\<lambda>m.
       bindE (z3 (z_store Z m iadr v)) (\<lambda>m. modifyE (\<lambda>s. s\<lparr>m_stk := m\<rparr>))))
     else store_bytes Z adr v (bit_offsets 0 sz))"

fun load_bytes :: "'e Z3 \<Rightarrow> 'e \<Rightarrow> nat list \<Rightarrow> 'e \<Rightarrow> ('e, 'e) se" where
  "load_bytes Z adr [] v = returnE v"
| "load_bytes Z adr (i # is) v =
     bindE (z_plus_int Z adr (int i)) (\<lambda>a.
     bindE (getE m_memory) (\<lambda>m.
     bindE (z3 (z_select Z m a)) (\<lambda>b.
     bindE (z3 (z_concat Z (z_simplify Z b) v)) (\<lambda>v.
     load_bytes Z adr is (z_simplify Z v)))))"

definition memLoad :: "'e Z3 \<Rightarrow> 'e \<Rightarrow> nat \<Rightarrow> ('e, 'e) se" where
  "memLoad Z adr sz =
     (if in_stack Z adr then
        bindE (stack_index Z adr) (\<lambda>iadr.
        bindE (getE m_stk) (\<lambda>m.
        bindE (z3 (z_select Z m iadr)) (\<lambda>v. returnE (z_simplify Z v))))
      else
        bindE (getE m_memory) (\<lambda>m.
        bindE (z3 (z_select Z m adr)) (\<lambda>v.
        bindE (load_bytes Z adr (bit_offsets 8 sz) (z_simplify Z v)) (\<lambda>v.
        returnE (z_simplify Z v)))))"

section \<open>Calls\<close>

fun read_calldata :: "'e Z3 \<Rightarrow> 'e \<Rightarrow> nat list \<Rightarrow> 'e \<Rightarrow> ('e, 'e) se" where
  "read_calldata Z adr [] v = returnE v"
| "read_calldata Z adr (i # is) v =
     bindE (z_plus_int Z adr (int i)) (\<lambda>a.
     bindE (getE m_calldata) (\<lambda>m.
     bindE (z3 (z_select Z m a)) (\<lambda>b.
     bindE (z3 (z_concat Z v b)) (\<lambda>v. read_calldata Z adr is v))))"

definition se_callDataCopy :: "'e Z3 \<Rightarrow> 'e list \<Rightarrow> ('e, unit) se" where
  "se_callDataCopy Z arguments =
     bindE (at arguments 0) (\<lambda>presult.
     bindE (at arguments 1) (\<lambda>adr.
     bindE (at arguments 2) (\<lambda>offset.
     seqE (ensureE (z_numeral Z offset = Some 32) NotCalldataWord)
     (bindE (getE m_calldata) (\<lambda>m.
      bindE (z3 (z_select Z m adr)) (\<lambda>v.
      bindE (read_calldata Z adr [1..<32] v) (\<lambda>v.
      seqE (memStore Z presult (z_simplify Z v))
      (seqE (memLoad Z presult 256) (returnE ())))))))))"

definition se_storageLoad :: "'e Z3 \<Rightarrow> 'e list \<Rightarrow> ('e, unit) se" where
  "se_storageLoad Z arguments =
     bindE (at arguments 0) (\<lambda>a.
     bindE (memLoad Z a 256) (\<lambda>sidx.
     bindE (getE m_storage) (\<lambda>m.
     bindE (z3 (z_select Z m sidx)) (\<lambda>sval.
     memStore Z sidx sval))))"

definition se_storageStore :: "'e Z3 \<Rightarrow> 'e list \<Rightarrow> ('e, unit) se" where
  "se_storageStore Z arguments =
     bindE (at arguments 0) (\<lambda>a.
     bindE (memLoad Z a 256) (\<lambda>sidx.
     bindE (at arguments 1) (\<lambda>b.
     bindE (memLoad Z b 256) (\<lambda>v.
     bindE (getE m_storage) (\<lambda>m.
     bindE (z3 (z_store Z m sidx v)) (\<lambda>m.
     modifyE (\<lambda>s. s\<lparr>m_storage := m\<rparr>)))))))"

text \<open>The queries of the environment that store a constant of 256 bits: the argument that points to the result, and its name.\<close>

definition env_constants :: "(string \<times> nat \<times> string) list" where
  "env_constants =
     [(''ethereum.getTxOrigin'', 0, ''origin''), (''ethereum.getBlockCoinbase'', 0, ''coinbase''),
      (''ethereum.getBlockDifficulty'', 0, ''difficult''), (''ethereum.getBlockGasLimit'', 0, ''gaslimit''),
      (''ethereum.getBlockNumber'', 0, ''blocknumber''), (''ethereum.getBlockTimestamp'', 0, ''timestamp''),
      (''ethereum.getBlockHash'', 0, ''blockhash''), (''ethereum.getExternalBalance'', 0, ''balance''),
      (''ethereum.getAddress'', 0, ''address''), (''ethereum.getCodeSize'', 0, ''codeSize''),
      (''ethereum.getExternalCodeSize'', 1, ''codesize''), (''ethereum.getReturnDataSize'', 0, ''returnsize'')]"

text \<open>Every function that is not named here has no effect.\<close>

definition se_call :: "'e Z3 \<Rightarrow> KInstruction \<Rightarrow> string \<Rightarrow> 'e list \<Rightarrow> ('e, unit) se" where
  "se_call Z ki fName arguments =
     (if fName = ''ethereum.callDataCopy'' then se_callDataCopy Z arguments
      else if fName = ''ethereum.getCallDataSize'' then bindE (getE m_calldatasize) (bindLocal ki)
      else if fName = ''ethereum.getGasLeft'' then bindLocal ki (bv_val Z 1000000000000000000 64)
      else if fName = ''ethereum.storageLoad'' then se_storageLoad Z arguments
      else if fName = ''ethereum.storageStore'' then se_storageStore Z arguments
      else if fName = ''ethereum.getTxGasPrice'' then bindE (at arguments 0) (\<lambda>a. memStore Z a (bv_val Z 10 128))
      else if fName = ''solidity.bswapi256'' then bindE (at arguments 0) (bindLocal ki)
      else
        (case map_of env_constants fName of
           Some (k, name) \<Rightarrow> bindE (at arguments k) (\<lambda>a. memStore Z a (bv_const Z name 256))
         | None \<Rightarrow> returnE ()))"

fun eval_all :: "KInstruction \<Rightarrow> nat list \<Rightarrow> ('e, 'e list) se" where
  "eval_all ki [] = returnE []"
| "eval_all ki (i # is) = bindE (eval ki i) (\<lambda>e. bindE (eval_all ki is) (\<lambda>es. returnE (e # es)))"

definition exec_call :: "'e Z3 \<Rightarrow> KInstruction \<Rightarrow> se_callee \<Rightarrow> ('e, unit) se" where
  "exec_call Z ki callee =
     (let numArgs = length (si_operands (k_inst ki)) - 1 in
      case callee of
        CDebug \<Rightarrow> returnE ()
      | CInlineAsm \<Rightarrow> returnE ()
      | CIndirect \<Rightarrow> seqE (eval_all ki [1..<numArgs + 1]) (throwE NullCallee)
      | CFunction fName \<Rightarrow> bindE (eval_all ki [1..<numArgs + 1]) (se_call Z ki fName))"

section \<open>Instructions\<close>

fun se_bin :: "binop \<Rightarrow> zbin" where
  "se_bin Add = ZAdd" | "se_bin NUWAdd = ZAdd"
| "se_bin Sub = ZSub" | "se_bin NUWSub = ZSub"
| "se_bin Mul = ZMul" | "se_bin NUWMul = ZMul"
| "se_bin UDiv = ZUDiv" | "se_bin SDiv = ZSDiv"
| "se_bin URem = ZURem" | "se_bin SRem = ZSRem"
| "se_bin And = ZAnd" | "se_bin Or = ZOr" | "se_bin Xor = ZXor"
| "se_bin Shl = ZShl" | "se_bin LShr = ZLShr" | "se_bin AShr = ZAShr"

fun se_cmp :: "se_pred \<Rightarrow> zcmp" where
  "se_cmp ICMP_EQ = ZEq" | "se_cmp ICMP_NE = ZNe"
| "se_cmp ICMP_UGT = ZUgt" | "se_cmp ICMP_UGE = ZUge" | "se_cmp ICMP_ULT = ZUlt" | "se_cmp ICMP_ULE = ZUle"
| "se_cmp ICMP_SGT = ZSgt" | "se_cmp ICMP_SGE = ZSge" | "se_cmp ICMP_SLT = ZSlt" | "se_cmp ICMP_SLE = ZSle"

definition exec_bin :: "'e Z3 \<Rightarrow> KInstruction \<Rightarrow> binop \<Rightarrow> ('e, unit) se" where
  "exec_bin Z ki op =
     bindE (eval ki 0) (\<lambda>left.
     bindE (eval ki 1) (\<lambda>right.
     bindE (z3 (z_bin Z (se_bin op) left right)) (bindLocal ki)))"

definition exec_icmp :: "'e Z3 \<Rightarrow> KInstruction \<Rightarrow> se_pred \<Rightarrow> ('e, unit) se" where
  "exec_icmp Z ki p =
     bindE (eval ki 0) (\<lambda>left.
     bindE (eval ki 1) (\<lambda>right.
     bindE (z3 (z_cmp Z (se_cmp p) left right)) (\<lambda>c.
     bindE (z3 (z_ite Z c (bv_val Z 1 1) (bv_val Z 0 1))) (bindLocal ki))))"

definition exec_select :: "'e Z3 \<Rightarrow> KInstruction \<Rightarrow> ('e, unit) se" where
  "exec_select Z ki =
     bindE (eval ki 0) (\<lambda>cond.
     bindE (eval ki 1) (\<lambda>tExpr.
     bindE (eval ki 2) (\<lambda>fExpr.
     bindE (z3 (z_cmp Z ZEq cond (bv_val Z 1 1))) (\<lambda>c.
     bindE (z3 (z_ite Z c tExpr fExpr)) (bindLocal ki)))))"

definition exec_cast :: "'e Z3 \<Rightarrow> KInstruction \<Rightarrow> bool \<Rightarrow> ('e, unit) se" where
  "exec_cast Z ki isSigned =
     bindE (eval ki 0) (\<lambda>e.
     bindE (resizeVec Z e (getWidthForLLVMType (si_type (k_inst ki))) isSigned) (bindLocal ki))"

definition operand_name :: "KInstruction \<Rightarrow> nat \<Rightarrow> ('e, string) se" where
  "operand_name ki i = bindE (at (si_operands (k_inst ki)) i) (\<lambda>v. returnE (vname v))"

definition exec_load :: "'e Z3 \<Rightarrow> KInstruction \<Rightarrow> ('e, unit) se" where
  "exec_load Z ki =
     bindE (operand_name ki 0) (\<lambda>n.
     if n = ''target'' then bindE (getE m_targetPtr) (bindLocal ki)
     else
       bindE (eval ki 0) (\<lambda>base.
       bindE (memLoad Z base (getWidthForLLVMType (si_type (k_inst ki)))) (bindLocal ki)))"

definition exec_store :: "'e Z3 \<Rightarrow> KInstruction \<Rightarrow> ('e, unit) se" where
  "exec_store Z ki =
     bindE (eval ki 0) (\<lambda>v.
     bindE (operand_name ki 1) (\<lambda>n.
     if n = ''target'' then modifyE (\<lambda>s. s\<lparr>m_targetPtr := v\<rparr>)
     else bindE (eval ki 1) (\<lambda>base. memStore Z base v)))"

definition push_constraint :: "'e \<Rightarrow> ('e, unit) se" where
  "push_constraint c = modifyE (\<lambda>s. s\<lparr>constraints := constraints s @ [c]\<rparr>)"

text \<open>
  One instruction. The indices of a pointer computation are never filled in and its offset is zero, so the
  result is the base.
\<close>

definition exec_inst :: "'e Z3 \<Rightarrow> KInstruction \<Rightarrow> ('e, unit) se" where
  "exec_inst Z ki =
     (case si_op (k_inst ki) of
        XRet \<Rightarrow> returnE ()
      | XBr succs \<Rightarrow> if length succs = 2 then bindE (eval ki 0) push_constraint else returnE ()
      | XIndirectBr \<Rightarrow> returnE ()
      | XSwitch \<Rightarrow> bindE (eval ki 0) push_constraint
      | XUnreachable \<Rightarrow> returnE ()
      | XCall callee \<Rightarrow> exec_call Z ki callee
      | XSelect \<Rightarrow> exec_select Z ki
      | XBin op \<Rightarrow> exec_bin Z ki op
      | XICmp p \<Rightarrow> (case p of Some p \<Rightarrow> exec_icmp Z ki p | None \<Rightarrow> returnE ())
      | XAlloca bytes \<Rightarrow> bindLocal ki (bv_const Z (CHR ''%'' # si_addr (k_inst ki)) (8 * bytes))
      | XLoad \<Rightarrow> exec_load Z ki
      | XStore \<Rightarrow> exec_store Z ki
      | XGetElementPtr \<Rightarrow> bindE (eval ki 0) (bindLocal ki)
      | XTrunc \<Rightarrow> exec_cast Z ki False
      | XZExt \<Rightarrow> exec_cast Z ki False
      | XSExt \<Rightarrow> exec_cast Z ki True
      | XIntToPtr \<Rightarrow> exec_cast Z ki False
      | XPtrToInt \<Rightarrow> exec_cast Z ki False
      | XBitCast \<Rightarrow> bindE (eval ki 0) (bindLocal ki)
      | XInsertValue \<Rightarrow> seqE (eval_all ki [0, 1]) (returnE ())
      | XExtractValue \<Rightarrow> seqE (eval ki 0) (returnE ())
      | XInsertElement \<Rightarrow> seqE (eval_all ki [0, 1, 2]) (returnE ())
      | XExtractElement \<Rightarrow> seqE (eval_all ki [0, 1]) (returnE ())
      | _ \<Rightarrow> returnE ())"

section \<open>Blocks and paths\<close>

text \<open>The loop of symExec over the instructions of a block; each leaves a copy of the registers.\<close>

fun exec_range :: "'e Z3 \<Rightarrow> nat list \<Rightarrow> ('e, unit) se" where
  "exec_range Z [] = returnE ()"
| "exec_range Z (i # is) =
     bindE (bindE (getE m_instructions) (\<lambda>ins. at ins i)) (\<lambda>ki.
     seqE (exec_inst Z ki)
     (seqE (modifyE (\<lambda>s. s\<lparr>states := states s @ [locals s]\<rparr>))
     (exec_range Z is)))"

definition symExec :: "'e Z3 \<Rightarrow> se_block list \<Rightarrow> nat \<Rightarrow> ('e, unit) se" where
  "symExec Z f b =
     seqE (modifyE (\<lambda>s. s\<lparr>locals := replicate (m_numRegisters s) (bv_val Z 0 256), states := []\<rparr>))
     (bindE (getE (\<lambda>s. m_basicBlockEntry s b)) (\<lambda>entry.
      exec_range Z [entry..<entry + length (sb_insts (f ! b))]))"

definition reachedMaxLoopDepth :: "nat \<Rightarrow> 'e SNode list \<Rightarrow> bool" where
  "reachedMaxLoopDepth b ns = (m_maxLoopDepth \<le> length (filter (\<lambda>n. bbPtr n = b) ns))"

text \<open>A new node: its number, its first constraint, the execution of its block, and the edge to it.\<close>

definition new_node :: "'e Z3 \<Rightarrow> se_block list \<Rightarrow> nat \<Rightarrow> nat \<Rightarrow> 'e \<Rightarrow> ('e, nat) se" where
  "new_node Z f b from' preCst =
     bindE (getE gbl_next_uid) (\<lambda>u.
     seqE (modifyE (\<lambda>s. s\<lparr>gbl_next_uid := u + 1, constraints := [preCst]\<rparr>))
     (seqE (symExec Z f b)
     (seqE (modifyE (\<lambda>s. s\<lparr>m_Nodes := m_Nodes s @ [\<lparr>uid = u, bbPtr = b, n_constraints = constraints s, n_states = states s\<rparr>]\<rparr>))
     (seqE (modifyE (\<lambda>s. s\<lparr>m_Edges := m_Edges s @ [(from', u)]\<rparr>))
     (returnE u)))))"

text \<open>Taking the condition off the constraints of the node that was added last.\<close>

definition pop_condition :: "('e, 'e) se" where
  "pop_condition =
     bindE (getE constraints) (\<lambda>cs.
     seqE (ensureE (cs \<noteq> []) OutOfRange)
     (seqE (modifyE (\<lambda>s. s\<lparr>m_Nodes := butlast (m_Nodes s) @ [(last (m_Nodes s))\<lparr>n_constraints := butlast cs\<rparr>]\<rparr>))
     (returnE (last cs))))"

text \<open>
  Where the walk goes behind a block, with the walk of the next level as an argument. The solver is
  asked nothing: the tests of feasibility are short-circuited. A switch ends the walk.
\<close>

definition follow :: "'e Z3 \<Rightarrow> (nat \<Rightarrow> nat \<Rightarrow> 'e \<Rightarrow> ('e, unit) se) \<Rightarrow> nat \<Rightarrow> se_opcode \<Rightarrow> ('e, unit) se" where
  "follow Z process u terminator =
     (case terminator of
        XBr [t1, t2] \<Rightarrow>
          bindE pop_condition (\<lambda>cond.
          bindE (z_equals_int Z cond 1) (\<lambda>c1.
          seqE (process t1 u c1)
          (bindE (z_equals_int Z cond 0) (\<lambda>c0.
           process t2 u c0))))
      | XBr [t] \<Rightarrow> process t u (bool_val Z True)
      | XSwitch \<Rightarrow> seqE pop_condition (returnE ())
      | _ \<Rightarrow> returnE ())"

text \<open>The walk, with the number of levels that are left in place of the depth.\<close>

fun processBB :: "'e Z3 \<Rightarrow> se_block list \<Rightarrow> nat \<Rightarrow> nat \<Rightarrow> nat \<Rightarrow> 'e \<Rightarrow> ('e, unit) se" where
  "processBB Z f 0 b from' preCst = returnE ()"
| "processBB Z f (Suc d) b from' preCst =
     bindE (at f b) (\<lambda>bb.
     if sb_name bb = ''Abort'' \<or> sb_name bb = ''Exit'' then returnE ()
     else
       bindE (getE m_Nodes) (\<lambda>ns.
       if reachedMaxLoopDepth b ns then returnE ()
       else
         bindE (new_node Z f b from' preCst) (\<lambda>u.
         seqE (ensureE (sb_insts bb \<noteq> []) OutOfRange)
         (follow Z (\<lambda>t u c. processBB Z f d t u c) u (si_op (last (sb_insts bb)))))))"

section \<open>Running a function\<close>

definition number_insts :: "se_block list \<Rightarrow> string \<Rightarrow> nat" where
  "number_insts f i =
     (case find (\<lambda>k. si_addr (concat (map sb_insts f) ! k) = i) [0..<length (concat (map sb_insts f))] of
        Some k \<Rightarrow> k | None \<Rightarrow> 0)"

fun enter_blocks :: "se_block list \<Rightarrow> nat \<Rightarrow> ('e, unit) se" where
  "enter_blocks [] b = returnE ()"
| "enter_blocks (bb # bbs) b =
     seqE (modifyE (\<lambda>s. s\<lparr>m_basicBlockEntry := (m_basicBlockEntry s)(b := m_numInstructions s),
                        m_numInstructions := m_numInstructions s + length (sb_insts bb)\<rparr>))
     (enter_blocks bbs (b + 1))"

definition known_globals :: "string list" where
  "known_globals = [''memory.size'', ''mstk'', ''target'', ''spPtr'']"

fun enter_globals :: "'e Z3 \<Rightarrow> string list \<Rightarrow> ('e, unit) se" where
  "enter_globals Z [] = returnE ()"
| "enter_globals Z (g # gs) =
     (if g = [] then enter_globals Z gs
      else if g \<in> set known_globals then
        seqE (modifyE (\<lambda>s. s\<lparr>m_gZ3Map :=
               (if m_gZ3Map s g = None then (m_gZ3Map s)(g \<mapsto> bv_const Z g 256) else m_gZ3Map s)\<rparr>))
        (enter_globals Z gs)
      else throwE ExitProcess)"

fun operand_numbers :: "'e Z3 \<Rightarrow> (string \<Rightarrow> nat) \<Rightarrow> se_value list \<Rightarrow> ('e, int list) se" where
  "operand_numbers Z rm [] = returnE []"
| "operand_numbers Z rm (v # vs) =
     bindE (getOperandNum Z rm v) (\<lambda>n. bindE (operand_numbers Z rm vs) (\<lambda>ns. returnE (n # ns)))"

definition is_call :: "se_opcode \<Rightarrow> bool" where
  "is_call op = (case op of XCall _ \<Rightarrow> True | _ \<Rightarrow> False)"

definition make_kinst :: "'e Z3 \<Rightarrow> (string \<Rightarrow> nat) \<Rightarrow> se_inst \<Rightarrow> ('e, KInstruction) se" where
  "make_kinst Z rm i =
     (if is_call (si_op i) then
        bindE (operand_numbers Z rm (butlast (si_operands i))) (\<lambda>ns.
        returnE \<lparr>k_inst = i, k_operands = int (rm (si_addr i)) # ns, k_dest = rm (si_addr i)\<rparr>)
      else
        bindE (operand_numbers Z rm (si_operands i)) (\<lambda>ns.
        returnE \<lparr>k_inst = i, k_operands = ns, k_dest = rm (si_addr i)\<rparr>))"

fun make_kinsts :: "'e Z3 \<Rightarrow> (string \<Rightarrow> nat) \<Rightarrow> se_inst list \<Rightarrow> ('e, KInstruction list) se" where
  "make_kinsts Z rm [] = returnE []"
| "make_kinsts Z rm (i # is) =
     bindE (make_kinst Z rm i) (\<lambda>k. bindE (make_kinsts Z rm is) (\<lambda>ks. returnE (k # ks)))"

definition se_run :: "'e Z3 \<Rightarrow> string list \<Rightarrow> se_block list \<Rightarrow> ('e, unit) se" where
  "se_run Z globals f =
     (let is = concat (map sb_insts f); registerMap = number_insts f in
      seqE (enter_blocks f 0)
      (seqE (enter_globals Z globals)
      (seqE (modifyE (\<lambda>s. s\<lparr>m_numRegisters := length is\<rparr>))
      (bindE (make_kinsts Z registerMap is) (\<lambda>ks.
       seqE (modifyE (\<lambda>s. s\<lparr>m_instructions := ks\<rparr>))
       (processBB Z f m_maxDepth 0 0 (bool_val Z True)))))))"

end
