(* ===== verification/Symbolic_Sound.thy ===== *)
theory Symbolic_Sound
  imports Symbolic
begin

text \<open>
  The symbolic execution computes what LLVM computes. The locale z3\_terms states what the terms of
  the library mean under an assignment of their constants, as the theory of fixed-size bit vectors and arrays
  defines it; it is interpreted by terms that carry their value. A block of arithmetic,
  comparisons, selections and casts, run on numbers by the reference below, is simulated
  by the engine register by register.
\<close>

section \<open>The meaning of terms\<close>

datatype zval = BV nat int | BA nat nat "int \<Rightarrow> int" | BB bool

text \<open>The operations of SMT-LIB, which are total: a division by zero gives all ones, its remainder the dividend.\<close>

definition zbin_value :: "zbin \<Rightarrow> nat \<Rightarrow> int \<Rightarrow> int \<Rightarrow> int" where
  "zbin_value op w x y =
     (case op of
        ZAdd \<Rightarrow> bin_value Add w x y
      | ZSub \<Rightarrow> bin_value Sub w x y
      | ZMul \<Rightarrow> bin_value Mul w x y
      | ZUDiv \<Rightarrow> if y = 0 then mask w else bin_value UDiv w x y
      | ZSDiv \<Rightarrow> if y = 0 then (if signed w x < 0 then take_bit w 1 else mask w) else bin_value SDiv w x y
      | ZURem \<Rightarrow> if y = 0 then x else bin_value URem w x y
      | ZSRem \<Rightarrow> if y = 0 then x else bin_value SRem w x y
      | ZAnd \<Rightarrow> bin_value And w x y
      | ZOr \<Rightarrow> bin_value Or w x y
      | ZXor \<Rightarrow> bin_value Xor w x y
      | ZShl \<Rightarrow> bin_value Shl w x y
      | ZLShr \<Rightarrow> bin_value LShr w x y
      | ZAShr \<Rightarrow> bin_value AShr w x y)"

definition zcmp_value :: "zcmp \<Rightarrow> nat \<Rightarrow> int \<Rightarrow> int \<Rightarrow> bool" where
  "zcmp_value op w x y =
     (case op of
        ZEq \<Rightarrow> x = y | ZNe \<Rightarrow> x \<noteq> y
      | ZUgt \<Rightarrow> y < x | ZUge \<Rightarrow> y \<le> x | ZUlt \<Rightarrow> x < y | ZUle \<Rightarrow> x \<le> y
      | ZSgt \<Rightarrow> signed w y < signed w x | ZSge \<Rightarrow> signed w y \<le> signed w x
      | ZSlt \<Rightarrow> signed w x < signed w y | ZSle \<Rightarrow> signed w x \<le> signed w y)"

locale z3_terms =
  fixes Z :: "'e Z3" and den :: "'e \<Rightarrow> zval"
  assumes val_law: "den (bv_val Z num w) = BV w (take_bit w num)"
    and bin_law: "\<lbrakk>den a = BV w x; den b = BV w y\<rbrakk> \<Longrightarrow> \<exists>c. z_bin Z op a b = Some c \<and> den c = BV w (zbin_value op w x y)"
    and cmp_law: "\<lbrakk>den a = BV w x; den b = BV w y\<rbrakk> \<Longrightarrow> \<exists>c. z_cmp Z p a b = Some c \<and> den c = BB (zcmp_value p w x y)"
    and ite_law: "\<lbrakk>den c = BB k; den a = BV w x; den b = BV w y\<rbrakk> \<Longrightarrow> \<exists>d. z_ite Z c a b = Some d \<and> den d = BV w (if k then x else y)"
    and concat_law: "\<lbrakk>den a = BV w x; den b = BV v y\<rbrakk> \<Longrightarrow> \<exists>c. z_concat Z a b = Some c \<and> den c = BV (w + v) (push_bit v x + y)"
    and extract_law: "\<lbrakk>den a = BV w x; lo \<le> hi; hi < w\<rbrakk> \<Longrightarrow>
       \<exists>c. z_extract Z hi lo a = Some c \<and> den c = BV (hi - lo + 1) (take_bit (hi - lo + 1) (drop_bit lo x))"
    and zext_law: "den a = BV w x \<Longrightarrow> \<exists>c. z_zext Z n a = Some c \<and> den c = BV (w + n) x"
    and sext_law: "den a = BV w x \<Longrightarrow> \<exists>c. z_sext Z n a = Some c \<and> den c = BV (w + n) (take_bit (w + n) (signed w x))"
    and select_law: "\<lbrakk>den m = BA w v f; den i = BV w x\<rbrakk> \<Longrightarrow> \<exists>c. z_select Z m i = Some c \<and> den c = BV v (f x)"
    and store_law: "\<lbrakk>den m = BA w v f; den i = BV w x; den e = BV v y\<rbrakk> \<Longrightarrow> \<exists>c. z_store Z m i e = Some c \<and> den c = BA w v (f(x := y))"
    and simplify_law: "den (z_simplify Z a) = den a"
    and size_law: "den a = BV w x \<Longrightarrow> z_bv_size Z a = Some w"
    and range_law: "den a = BV w x \<Longrightarrow> 0 \<le> x \<and> x < 2 ^ w"

section \<open>The reference\<close>

definition pred_value :: "se_pred \<Rightarrow> nat \<Rightarrow> int \<Rightarrow> int \<Rightarrow> bool" where
  "pred_value p w x y =
     (case p of
        ICMP_EQ \<Rightarrow> icmp_value ICmpEQ w x y
      | ICMP_NE \<Rightarrow> icmp_value ICmpNE w x y
      | ICMP_UGT \<Rightarrow> icmp_value ICmpUGT w x y
      | ICMP_UGE \<Rightarrow> icmp_value ICmpUGE w x y
      | ICMP_ULT \<Rightarrow> icmp_value ICmpULT w x y
      | ICMP_ULE \<Rightarrow> icmp_value ICmpULE w x y
      | ICMP_SGT \<Rightarrow> icmp_value ICmpSGT w x y
      | ICMP_SGE \<Rightarrow> \<not> icmp_value ICmpSLT w x y
      | ICMP_SLT \<Rightarrow> icmp_value ICmpSLT w x y
      | ICMP_SLE \<Rightarrow> \<not> icmp_value ICmpSGT w x y)"

text \<open>
  What LLVM computes, on the widths and values of the operands; \<open>None\<close> when the value is not
  defined, when the types do not fit and for the instructions that are not pure.
\<close>

definition llvm_value :: "se_opcode \<Rightarrow> se_type \<Rightarrow> (nat \<times> int) list \<Rightarrow> (nat \<times> int) option" where
  "llvm_value op ty vs =
     (case (op, vs) of
        (XBin op, [(w, x), (w', y)]) \<Rightarrow> if w' = w \<and> bin_defined op w x y then Some (w, bin_value op w x y) else None
      | (XICmp (Some p), [(w, x), (w', y)]) \<Rightarrow> if w' = w then Some (1, if pred_value p w x y then 1 else 0) else None
      | (XSelect, [(v, k), (w, x), (w', y)]) \<Rightarrow> if v = 1 \<and> w' = w then Some (w, if k = 1 then x else y) else None
      | (XTrunc, [(w, x)]) \<Rightarrow> (case ty of SInt w' \<Rightarrow> if 0 < w' \<and> w' < w then Some (w', take_bit w' x) else None | _ \<Rightarrow> None)
      | (XZExt, [(w, x)]) \<Rightarrow> (case ty of SInt w' \<Rightarrow> if w < w' then Some (w', x) else None | _ \<Rightarrow> None)
      | (XSExt, [(w, x)]) \<Rightarrow> (case ty of SInt w' \<Rightarrow> if w < w' then Some (w', take_bit w' (signed w x)) else None | _ \<Rightarrow> None)
      | _ \<Rightarrow> None)"

text \<open>The operand numbers of the engine, read in a table of constants and a file of registers.\<close>

definition ref_operand :: "(nat \<times> int) list \<Rightarrow> (nat \<times> int) option list \<Rightarrow> int \<Rightarrow> (nat \<times> int) option" where
  "ref_operand cs regs v =
     (if v \<le> -3 then (if nat (- v - 3) < length cs then Some (cs ! nat (- v - 3)) else None)
      else if 0 \<le> v \<and> nat v < length regs then regs ! nat v
      else None)"

fun ref_operands :: "(nat \<times> int) list \<Rightarrow> (nat \<times> int) option list \<Rightarrow> int list \<Rightarrow> (nat \<times> int) list option" where
  "ref_operands cs regs [] = Some []"
| "ref_operands cs regs (v # vs) =
     Option.bind (ref_operand cs regs v) (\<lambda>x. map_option (\<lambda>xs. x # xs) (ref_operands cs regs vs))"

text \<open>
  One instruction: the registers and the conditions branched on so far. An instruction that ends the
  function and a jump change nothing.
\<close>

type_synonym ref_state = "(nat \<times> int) option list \<times> (nat \<times> int) list"

definition ref_compute :: "(nat \<times> int) list \<Rightarrow> KInstruction \<Rightarrow> ref_state \<Rightarrow> ref_state option" where
  "ref_compute cs ki st =
     (case st of (regs, conds) \<Rightarrow>
      Option.bind (ref_operands cs regs (k_operands ki)) (\<lambda>vs.
      if k_dest ki < length regs \<and> length (k_operands ki) = length (si_operands (k_inst ki)) then
        map_option (\<lambda>r. (regs[k_dest ki := Some r], conds)) (llvm_value (si_op (k_inst ki)) (si_type (k_inst ki)) vs)
      else None))"

definition ref_branch :: "(nat \<times> int) list \<Rightarrow> KInstruction \<Rightarrow> ref_state \<Rightarrow> ref_state option" where
  "ref_branch cs ki st =
     (case st of (regs, conds) \<Rightarrow>
      if k_operands ki \<noteq> [] \<and> length (k_operands ki) = length (si_operands (k_inst ki)) then
        map_option (\<lambda>c. (regs, conds @ [c])) (ref_operand cs regs (k_operands ki ! 0))
      else None)"

definition ref_step :: "(nat \<times> int) list \<Rightarrow> KInstruction \<Rightarrow> ref_state \<Rightarrow> ref_state option" where
  "ref_step cs ki st =
     (case si_op (k_inst ki) of
        XRet \<Rightarrow> Some st
      | XUnreachable \<Rightarrow> Some st
      | XBr succs \<Rightarrow> if length succs = 2 then ref_branch cs ki st else Some st
      | _ \<Rightarrow> ref_compute cs ki st)"

fun ref_run :: "(nat \<times> int) list \<Rightarrow> KInstruction list \<Rightarrow> ref_state \<Rightarrow> ref_state option" where
  "ref_run cs [] st = Some st"
| "ref_run cs (ki # ks) st = Option.bind (ref_step cs ki st) (ref_run cs ks)"

text \<open>The terms mean the numbers, where there are numbers.\<close>

definition means :: "('e \<Rightarrow> zval) \<Rightarrow> 'e list \<Rightarrow> (nat \<times> int) option list \<Rightarrow> bool" where
  "means den es vs \<longleftrightarrow> length es = length vs \<and> (\<forall>i w x. i < length vs \<longrightarrow> vs ! i = Some (w, x) \<longrightarrow> den (es ! i) = BV w x)"

lemma means_update: "means den es vs \<Longrightarrow> den e = BV w x \<Longrightarrow> means den (es[i := e]) (vs[i := Some (w, x)])"
proof -
  assume m: "means den es vs" and e: "den e = BV w x"
  have "den (es[i := e] ! j) = BV w' x'" if "j < length vs" "vs[i := Some (w, x)] ! j = Some (w', x')" for j w' x'
    using that m e by (cases "j = i") (auto simp: means_def)
  then show ?thesis using m by (auto simp: means_def)
qed

section \<open>Bytes at bit offsets\<close>

definition byte_at :: "int \<Rightarrow> nat \<Rightarrow> int" where
  "byte_at x i = take_bit 256 (x + int i)"

fun put_bytes :: "int \<Rightarrow> int \<Rightarrow> nat list \<Rightarrow> (int \<Rightarrow> int) \<Rightarrow> int \<Rightarrow> int" where
  "put_bytes x y [] g = g"
| "put_bytes x y (i # is) g = put_bytes x y is (g(byte_at x i := take_bit 8 (drop_bit i y)))"

lemma offsets_multiples: "bit_offsets 0 (8 * k) = map ((*) 8) [0..<k]" "bit_offsets 8 (8 * k) = map ((*) 8) [1..<k]"
proof -
  have "filter (\<lambda>i. i mod 8 = 0) [8 * j..<8 * k] = map ((*) 8) [j..<k]" for j
  proof (induction k)
    case (Suc k)
    show ?case
    proof (cases "j \<le> k")
      case True
      have "[8 * j..<8 * Suc k] = [8 * j..<8 * k] @ [8 * k..<8 * k + 8]" using True upt_add_eq_append [of "8 * j" "8 * k" 8] by (simp add: add.commute)
      moreover have "[8 * k..<8 * k + 8] = map (\<lambda>i. i + 8 * k) [0..<8]" by (simp add: map_add_upt add.commute)
      moreover have "filter (\<lambda>i. i mod 8 = 0) (map (\<lambda>i. i + 8 * k) [0..<8])
          = map (\<lambda>i. i + 8 * k) (filter (\<lambda>i. i mod 8 = 0) [0..<8])" by (simp add: filter_map comp_def)
      moreover have "filter (\<lambda>i. i mod 8 = 0) [0..<8] = [0 :: nat]" by (simp add: upt_rec)
      ultimately show ?thesis using Suc.IH True by simp
    qed simp
  qed simp
  from this [of 0] this [of 1] show "bit_offsets 0 (8 * k) = map ((*) 8) [0..<k]" "bit_offsets 8 (8 * k) = map ((*) 8) [1..<k]"
    by (simp_all add: bit_offsets_def)
qed

lemma byte_at_inj:
  assumes "i < 2 ^ 256" "j < 2 ^ 256"
  shows "byte_at x i = byte_at x j \<longleftrightarrow> i = j"
proof
  assume "byte_at x i = byte_at x j"
  then have "(2 ^ 256 :: int) dvd int i - int j" by (simp add: byte_at_def take_bit_eq_mod mod_eq_dvd_iff)
  moreover have "\<bar>int i - int j\<bar> < 2 ^ 256" using assms by (simp add: abs_if)
  ultimately have "int i - int j = 0" using dvd_imp_le_int [of "int i - int j" "2 ^ 256"] by fastforce
  then show "i = j" by simp
qed simp

lemma put_other: "(\<forall>i \<in> set is. z \<noteq> byte_at x i) \<Longrightarrow> put_bytes x y is g z = g z"
  by (induction "is" arbitrary: g) auto

lemma put_at: "\<forall>i \<in> set is. i < 2 ^ 256 \<Longrightarrow> i \<in> set is \<Longrightarrow> put_bytes x y is g (byte_at x i) = take_bit 8 (drop_bit i y)"
proof (induction "is" arbitrary: g)
  case (Cons j "is")
  show ?case
  proof (cases "i \<in> set is")
    case False
    then have "\<forall>k \<in> set is. byte_at x i \<noteq> byte_at x k" using Cons.prems by (metis byte_at_inj list.set_intros(1) list.set_intros(2))
    then show ?thesis using Cons.prems(2) False by (simp add: put_other)
  qed (use Cons in auto)
qed simp

lemma join_bytes: "push_bit m (take_bit n (drop_bit m y)) + take_bit m y = take_bit (n + m) (y :: int)"
proof -
  have "y mod (2 ^ m * 2 ^ n) = 2 ^ m * (y div 2 ^ m mod 2 ^ n) + y mod 2 ^ m" by (rule zmod_zmult2_eq) simp
  then show ?thesis by (simp add: push_bit_eq_mult take_bit_eq_mod drop_bit_eq_div power_add mult.commute)
qed

section \<open>Simulation\<close>

context z3_terms
begin

lemma eval_ref:
  assumes "means den (m_constants s) (map Some cs)" "means den (locals s) regs"
    and "i < length (k_operands ki)" "length (k_operands ki) = length (si_operands (k_inst ki))"
    and "ref_operand cs regs (k_operands ki ! i) = Some (w, x)"
  shows "\<exists>e. eval ki i s = (Inr e, s) \<and> den e = BV w x"
proof -
  let ?v = "k_operands ki ! i"
  show ?thesis
  proof (cases "?v \<le> -3")
    case True
    then have "nat (- ?v - 3) < length cs" "cs ! nat (- ?v - 3) = (w, x)"
      using assms(5) by (auto simp: ref_operand_def split: if_splits)
    then show ?thesis using assms(1,3,4) True
      by (auto simp: eval_def at_def eff_simps means_def)
  next
    case False
    then have "0 \<le> ?v" "nat ?v < length regs" "regs ! nat ?v = Some (w, x)"
      using assms(5) by (auto simp: ref_operand_def split: if_splits)
    then show ?thesis using assms(2,3,4) False
      by (auto simp: eval_def at_def eff_simps means_def)
  qed
qed

lemma bindLocal_run: "k_dest ki < length (locals s) \<Longrightarrow> bindLocal ki e s = (Inr (), s\<lparr>locals := (locals s)[k_dest ki := e]\<rparr>)"
  by (simp add: bindLocal_def eff_simps)

lemma bin_refines:
  assumes "bin_defined op w x y" "0 \<le> x" "x < 2 ^ w" "0 \<le> y" "y < 2 ^ w"
  shows "zbin_value (se_bin op) w x y = bin_value op w x y"
  using assms by (cases op) (auto simp: zbin_value_def bin_value_def bin_defined_def take_bit_int_eq_self)

lemma cmp_refines: "zcmp_value (se_cmp p) w x y = pred_value p w x y"
  by (cases p) (auto simp: zcmp_value_def pred_value_def icmp_value_def)

lemma resize_run:
  assumes "den e = BV w x"
  shows "w < w' \<Longrightarrow> \<exists>c. resizeVec Z e w' False s = (Inr c, s) \<and> den c = BV w' x"
    and "w < w' \<Longrightarrow> \<exists>c. resizeVec Z e w' True s = (Inr c, s) \<and> den c = BV w' (take_bit w' (signed w x))"
    and "0 < w' \<Longrightarrow> w' \<le> w \<Longrightarrow> \<exists>c. resizeVec Z e w' b s = (Inr c, s) \<and> den c = BV w' (take_bit w' x)"
proof -
  note sz = size_law [OF assms]
  show "\<exists>c. resizeVec Z e w' False s = (Inr c, s) \<and> den c = BV w' x" if "w < w'"
    using zext_law [OF assms, of "w' - w"] that sz by (auto simp: resizeVec_def z3_def returnE_def)
  show "\<exists>c. resizeVec Z e w' True s = (Inr c, s) \<and> den c = BV w' (take_bit w' (signed w x))" if "w < w'"
    using sext_law [OF assms, of "w' - w"] that sz by (auto simp: resizeVec_def z3_def returnE_def)
  show "\<exists>c. resizeVec Z e w' b s = (Inr c, s) \<and> den c = BV w' (take_bit w' x)" if "0 < w'" "w' \<le> w"
    using extract_law [OF assms, of 0 "w' - 1"] that sz less_le_trans [of "w' - 1" w' w] by (auto simp: resizeVec_def z3_def returnE_def)
qed

lemma eval2:
  assumes "means den (m_constants s) (map Some cs)" "means den (locals s) regs"
    and "ref_operands cs regs (k_operands ki) = Some vs" "length (k_operands ki) = length (si_operands (k_inst ki))"
    and "i < length vs" "vs ! i = (w, x)"
  shows "\<exists>e. eval ki i s = (Inr e, s) \<and> den e = BV w x"
proof -
  have ops: "length vs = length ns \<and> (\<forall>i < length ns. ref_operand cs regs (ns ! i) = Some (vs ! i))"
    if "ref_operands cs regs ns = Some vs" for ns vs
    using that
  proof (induction ns arbitrary: vs)
    case (Cons n ns)
    then obtain y ys where "ref_operand cs regs n = Some y" "ref_operands cs regs ns = Some ys" "vs = y # ys"
      by (auto simp: bind_eq_Some_conv)
    with Cons.IH [of ys] show ?case by (auto simp: less_Suc_eq_0_disj)
  qed simp
  from ops [OF assms(3)] assms(5,6) have "i < length (k_operands ki)" "ref_operand cs regs (k_operands ki ! i) = Some (w, x)" by auto
  from eval_ref [OF assms(1,2) this(1) assms(4) this(2)] show ?thesis .
qed

lemma z3_run: "z3 (Some x) s = (Inr x, s)"
  by (simp add: z3_def returnE_def)

lemma bin_run:
  assumes "eval ki 0 s = (Inr a, s)" "den a = BV w x" "eval ki (Suc 0) s = (Inr b, s)" "den b = BV w y" "bin_defined op w x y"
    and "k_dest ki < length (locals s)"
  shows "\<exists>e. exec_bin Z ki op s = (Inr (), s\<lparr>locals := (locals s)[k_dest ki := e]\<rparr>) \<and> den e = BV w (bin_value op w x y)"
proof -
  obtain c where c: "z_bin Z (se_bin op) a b = Some c" "den c = BV w (zbin_value (se_bin op) w x y)"
    using bin_law [OF assms(2,4)] by blast
  have "zbin_value (se_bin op) w x y = bin_value op w x y"
    using bin_refines assms(5) range_law [OF assms(2)] range_law [OF assms(4)] by blast
  then show ?thesis using assms(1,3,6) c by (auto simp: exec_bin_def bindE_def z3_run bindLocal_run)
qed

lemma icmp_run:
  assumes "eval ki 0 s = (Inr a, s)" "den a = BV w x" "eval ki (Suc 0) s = (Inr b, s)" "den b = BV w y"
    and "k_dest ki < length (locals s)"
  shows "\<exists>e. exec_icmp Z ki p s = (Inr (), s\<lparr>locals := (locals s)[k_dest ki := e]\<rparr>) \<and> den e = BV 1 (if pred_value p w x y then 1 else 0)"
proof -
  obtain c where c: "z_cmp Z (se_cmp p) a b = Some c" "den c = BB (pred_value p w x y)"
    using cmp_law [OF assms(2,4), of "se_cmp p"] by (auto simp: cmp_refines)
  have one: "den (bv_val Z 1 1) = BV 1 1" "den (bv_val Z 0 1) = BV 1 0" by (simp_all add: val_law)
  obtain d where "z_ite Z c (bv_val Z 1 1) (bv_val Z 0 1) = Some d" "den d = BV 1 (if pred_value p w x y then 1 else 0)"
    using ite_law [OF c(2) one] by blast
  then show ?thesis using assms(1,3,5) c(1) by (auto simp: exec_icmp_def bindE_def z3_run bindLocal_run)
qed

lemma select_run:
  assumes "eval ki 0 s = (Inr k, s)" "den k = BV 1 n" "eval ki (Suc 0) s = (Inr a, s)" "den a = BV w x"
    and "eval ki 2 s = (Inr b, s)" "den b = BV w y" "k_dest ki < length (locals s)"
  shows "\<exists>e. exec_select Z ki s = (Inr (), s\<lparr>locals := (locals s)[k_dest ki := e]\<rparr>) \<and> den e = BV w (if n = 1 then x else y)"
proof -
  have "den (bv_val Z 1 1) = BV 1 1" by (simp add: val_law)
  then obtain c where c: "z_cmp Z ZEq k (bv_val Z 1 1) = Some c" "den c = BB (n = 1)"
    using cmp_law [OF assms(2), of "bv_val Z 1 1" 1 ZEq] by (auto simp: zcmp_value_def)
  obtain d where "z_ite Z c a b = Some d" "den d = BV w (if n = 1 then x else y)"
    using ite_law [OF c(2) assms(4,6)] by blast
  then show ?thesis using assms(1,3,5,7) c(1) by (auto simp: exec_select_def bindE_def z3_run bindLocal_run)
qed

lemma cast_run:
  assumes "eval ki 0 s = (Inr a, s)" "resizeVec Z a (getWidthForLLVMType (si_type (k_inst ki))) b s = (Inr c, s)"
    and "k_dest ki < length (locals s)"
  shows "exec_cast Z ki b s = (Inr (), s\<lparr>locals := (locals s)[k_dest ki := c]\<rparr>)"
  using assms by (simp add: exec_cast_def bindE_def bindLocal_run)

text \<open>One instruction.\<close>

lemma compute_simulates:
  assumes "means den (m_constants s) (map Some cs)" "means den (locals s) regs" "ref_compute cs ki (regs, conds) = Some (regs', conds')"
  shows "\<exists>e. exec_inst Z ki s = (Inr (), s\<lparr>locals := (locals s)[k_dest ki := e]\<rparr>)
    \<and> means den ((locals s)[k_dest ki := e]) regs' \<and> conds' = conds"
proof -
  obtain vs w r where vs: "ref_operands cs regs (k_operands ki) = Some vs"
    and len: "length (k_operands ki) = length (si_operands (k_inst ki))" and dest: "k_dest ki < length regs"
    and r: "llvm_value (si_op (k_inst ki)) (si_type (k_inst ki)) vs = Some (w, r)"
    and regs': "regs' = regs[k_dest ki := Some (w, r)]" "conds' = conds"
    using assms(3) by (auto simp: ref_compute_def bind_eq_Some_conv split: if_splits)
  note ev = eval2 [OF assms(1,2) vs len]
  have d: "k_dest ki < length (locals s)" using dest assms(2) by (simp add: means_def)
  have "\<exists>e. exec_inst Z ki s = (Inr (), s\<lparr>locals := (locals s)[k_dest ki := e]\<rparr>) \<and> den e = BV w r"
  proof (cases "si_op (k_inst ki)")
    case (XBin op)
    then obtain x y where v: "vs = [(w, x), (w, y)]" and bd: "bin_defined op w x y" "r = bin_value op w x y"
      using r by (auto simp: llvm_value_def split: list.splits prod.splits if_splits)
    obtain a b where "eval ki 0 s = (Inr a, s)" "den a = BV w x" "eval ki (Suc 0) s = (Inr b, s)" "den b = BV w y"
      using ev [of 0 w x] ev [of "Suc 0" w y] v by auto
    from bin_run [OF this bd(1) d] XBin bd(2) show ?thesis by (simp add: exec_inst_def)
  next
    case (XICmp p)
    then obtain q v x y where v: "p = Some q" "vs = [(v, x), (v, y)]" "w = 1" "r = (if pred_value q v x y then 1 else 0)"
      using r by (auto simp: llvm_value_def split: list.splits prod.splits if_splits option.splits)
    obtain a b where "eval ki 0 s = (Inr a, s)" "den a = BV v x" "eval ki (Suc 0) s = (Inr b, s)" "den b = BV v y"
      using ev [of 0 v x] ev [of "Suc 0" v y] v by auto
    from icmp_run [OF this d, of q] XICmp v show ?thesis by (simp add: exec_inst_def)
  next
    case XSelect
    then obtain k x y where v: "vs = [(1, k), (w, x), (w, y)]" "r = (if k = 1 then x else y)"
      using r by (auto simp: llvm_value_def split: list.splits prod.splits if_splits)
    obtain a b c where "eval ki 0 s = (Inr a, s)" "den a = BV 1 k" "eval ki (Suc 0) s = (Inr b, s)" "den b = BV w x"
      "eval ki 2 s = (Inr c, s)" "den c = BV w y"
      using ev [of 0 1 k] ev [of "Suc 0" w x] ev [of 2 w y] v by auto
    from select_run [OF this d] XSelect v(2) show ?thesis by (simp add: exec_inst_def)
  next
    case XTrunc
    then obtain v x where v: "vs = [(v, x)]" "si_type (k_inst ki) = SInt w" "0 < w" "w < v" "r = take_bit w x"
      using r by (auto simp: llvm_value_def split: list.splits prod.splits if_splits se_type.splits)
    obtain a where a: "eval ki 0 s = (Inr a, s)" "den a = BV v x" using ev [of 0 v x] v by auto
    obtain c where "resizeVec Z a w False s = (Inr c, s)" "den c = BV w r"
      using resize_run(3) [OF a(2) v(3) less_imp_le [OF v(4)], of False s] v(5) by blast
    with cast_run [OF a(1) _ d, of False c] XTrunc v(2) show ?thesis by (auto simp: exec_inst_def)
  next
    case XZExt
    then obtain v x where v: "vs = [(v, x)]" "si_type (k_inst ki) = SInt w" "v < w" "r = x"
      using r by (auto simp: llvm_value_def split: list.splits prod.splits if_splits se_type.splits)
    obtain a where a: "eval ki 0 s = (Inr a, s)" "den a = BV v x" using ev [of 0 v x] v by auto
    obtain c where "resizeVec Z a w False s = (Inr c, s)" "den c = BV w r"
      using resize_run(1) [OF a(2) v(3), of s] v(4) by blast
    with cast_run [OF a(1) _ d, of False c] XZExt v(2) show ?thesis by (auto simp: exec_inst_def)
  next
    case XSExt
    then obtain v x where v: "vs = [(v, x)]" "si_type (k_inst ki) = SInt w" "v < w" "r = take_bit w (signed v x)"
      using r by (auto simp: llvm_value_def split: list.splits prod.splits if_splits se_type.splits)
    obtain a where a: "eval ki 0 s = (Inr a, s)" "den a = BV v x" using ev [of 0 v x] v by auto
    obtain c where "resizeVec Z a w True s = (Inr c, s)" "den c = BV w r"
      using resize_run(2) [OF a(2) v(3), of s] v(4) by blast
    with cast_run [OF a(1) _ d, of True c] XSExt v(2) show ?thesis by (auto simp: exec_inst_def)
  qed (use r in \<open>simp_all add: llvm_value_def\<close>)
  then show ?thesis using means_update [OF assms(2)] regs' by blast
qed

text \<open>The engine is in step with the reference: its registers, and the conditions it has added to the constraints \<open>pre\<close>.\<close>

definition in_step :: "(nat \<times> int) list \<Rightarrow> 'e list \<Rightarrow> 'e SEngine \<Rightarrow> ref_state \<Rightarrow> bool" where
  "in_step cs pre s st \<longleftrightarrow> means den (m_constants s) (map Some cs) \<and> means den (locals s) (fst st)
     \<and> (\<exists>es. constraints s = pre @ es \<and> list_all2 (\<lambda>e (w, x). den e = BV w x) es (snd st))"

definition same_rest :: "'e SEngine \<Rightarrow> 'e SEngine \<Rightarrow> bool" where
  "same_rest s s' \<longleftrightarrow> m_instructions s' = m_instructions s \<and> m_memory s' = m_memory s \<and> m_stk s' = m_stk s \<and> m_storage s' = m_storage s"

lemma step_simulates:
  assumes "in_step cs pre s st" "ref_step cs ki st = Some st'"
  shows "\<exists>s'. exec_inst Z ki s = (Inr (), s') \<and> in_step cs pre s' st' \<and> same_rest s s'"
proof -
  obtain regs conds where st: "st = (regs, conds)" by (cases st)
  obtain regs' conds' where st': "st' = (regs', conds')" by (cases st')
  from assms(1) st obtain es where m: "means den (m_constants s) (map Some cs)" "means den (locals s) regs"
    and es: "constraints s = pre @ es" "list_all2 (\<lambda>e (w, x). den e = BV w x) es conds"
    by (auto simp: in_step_def)
  consider (skip) "ref_step cs ki st = Some st" "exec_inst Z ki s = (Inr (), s)"
    | (branch) t1 t2 where "si_op (k_inst ki) = XBr [t1, t2]" "ref_branch cs ki st = Some st'"
    | (compute) "ref_compute cs ki st = Some st'"
  proof (cases "si_op (k_inst ki)")
    case (XBr succs)
    show thesis
    proof (cases "length succs = 2")
      case True
      then obtain t1 t2 where "succs = [t1, t2]" by (auto simp: length_Suc_conv numeral_2_eq_2)
      then show thesis using that(2) XBr assms(2) by (simp add: ref_step_def)
    next
      case False
      then show thesis using that(1) XBr by (simp add: ref_step_def exec_inst_def returnE_def)
    qed
  next
    case XRet
    then show thesis using that(1) by (simp add: ref_step_def exec_inst_def returnE_def)
  next
    case XUnreachable
    then show thesis using that(1) by (simp add: ref_step_def exec_inst_def returnE_def)
  qed (use that(3) assms(2) in \<open>simp_all add: ref_step_def\<close>)
  then show ?thesis
  proof cases
    case skip
    moreover have "same_rest s s" by (simp add: same_rest_def)
    ultimately show ?thesis using assms by auto
  next
    case branch
    then obtain w x where c: "k_operands ki \<noteq> []" "length (k_operands ki) = length (si_operands (k_inst ki))"
      "ref_operand cs regs (k_operands ki ! 0) = Some (w, x)" "st' = (regs, conds @ [(w, x)])"
      by (auto simp: ref_branch_def st split: if_splits)
    from eval_ref [OF m _ c(2,3)] c(1) obtain e where e: "eval ki 0 s = (Inr e, s)" "den e = BV w x" by blast
    let ?s = "s\<lparr>constraints := constraints s @ [e]\<rparr>"
    have "exec_inst Z ki s = (Inr (), ?s)"
      using branch(1) e(1) by (simp add: exec_inst_def bindE_def push_constraint_def modifyE_def)
    moreover have "list_all2 (\<lambda>e (w, x). den e = BV w x) (es @ [e]) (conds @ [(w, x)])"
      using es(2) e(2) by (simp add: list_all2_appendI)
    then have "in_step cs pre ?s st'" using m es(1) c(4) by (simp add: in_step_def)
    moreover have "same_rest s ?s" by (simp add: same_rest_def)
    ultimately show ?thesis by blast
  next
    case compute
    from compute_simulates [OF m compute [unfolded st st']] obtain e where
      e: "exec_inst Z ki s = (Inr (), s\<lparr>locals := (locals s)[k_dest ki := e]\<rparr>)"
      "means den ((locals s)[k_dest ki := e]) regs'" "conds' = conds" by blast
    have "in_step cs pre (s\<lparr>locals := (locals s)[k_dest ki := e]\<rparr>) st'" using m(1) e(2,3) es st' by (simp add: in_step_def)
    moreover have "same_rest s (s\<lparr>locals := (locals s)[k_dest ki := e]\<rparr>)" by (simp add: same_rest_def)
    ultimately show ?thesis using e(1) by blast
  qed
qed

text \<open>A run of instructions.\<close>

lemma run_simulates:
  assumes "in_step cs pre s st" "ref_run cs (map ((!) (m_instructions s)) is) st = Some st'"
    and "\<forall>i \<in> set is. i < length (m_instructions s)"
  shows "\<exists>s'. exec_range Z is s = (Inr (), s') \<and> in_step cs pre s' st' \<and> same_rest s s'"
  using assms
proof (induction "is" arbitrary: s st)
  case Nil
  then show ?case by (simp add: returnE_def same_rest_def)
next
  case (Cons i "is")
  let ?ki = "m_instructions s ! i"
  obtain st1 where 1: "ref_step cs ?ki st = Some st1" "ref_run cs (map ((!) (m_instructions s)) is) st1 = Some st'"
    using Cons.prems(2) by (auto simp: bind_eq_Some_conv)
  from step_simulates [OF Cons.prems(1) 1(1)] obtain s1 where
    e: "exec_inst Z ?ki s = (Inr (), s1)" "in_step cs pre s1 st1" "same_rest s s1" by blast
  let ?s1 = "s1\<lparr>states := states s1 @ [locals s1]\<rparr>"
  have run: "exec_range Z (i # is) s = exec_range Z is ?s1"
    using Cons.prems(3) e(1) by (simp add: bindE_def seqE_def getE_def modifyE_def at_def returnE_def)
  have "in_step cs pre ?s1 st1" using e(2) by (simp add: in_step_def)
  from Cons.IH [OF this] Cons.prems(3) 1(2) e(3) obtain s' where
    "exec_range Z is ?s1 = (Inr (), s')" "in_step cs pre s' st'" "same_rest ?s1 s'" by (auto simp: same_rest_def)
  then show ?case using run e(3) by (auto simp: same_rest_def)
qed

text \<open>A block, from the registers and constraints a new node has.\<close>

lemma block_simulates:
  assumes "means den (m_constants s) (map Some cs)" "entry = m_basicBlockEntry s b" "is = [entry..<entry + length (sb_insts (f ! b))]"
    and "entry + length (sb_insts (f ! b)) \<le> length (m_instructions s)"
    and "ref_run cs (map ((!) (m_instructions s)) is) (replicate (m_numRegisters s) None, []) = Some (regs, conds)"
  shows "\<exists>s' es. symExec Z f b s = (Inr (), s') \<and> means den (locals s') regs \<and> same_rest s s'
    \<and> constraints s' = constraints s @ es \<and> list_all2 (\<lambda>e (w, x). den e = BV w x) es conds"
proof -
  let ?s0 = "s\<lparr>locals := replicate (m_numRegisters s) (bv_val Z 0 256), states := []\<rparr>"
  have "in_step cs (constraints s) ?s0 (replicate (m_numRegisters s) None, [])"
    using assms(1) by (simp add: in_step_def means_def)
  moreover have "ref_run cs (map ((!) (m_instructions ?s0)) is) (replicate (m_numRegisters s) None, []) = Some (regs, conds)"
    using assms(5) by simp
  moreover have "\<forall>i \<in> set is. i < length (m_instructions ?s0)" using assms(3,4) by auto
  ultimately obtain s' where s': "exec_range Z is ?s0 = (Inr (), s')" "in_step cs (constraints s) s' (regs, conds)" "same_rest ?s0 s'"
    using run_simulates by blast
  have "symExec Z f b s = (Inr (), s')"
    using s'(1) assms(2,3) by (simp add: symExec_def seqE_def bindE_def modifyE_def getE_def)
  moreover have "same_rest s s'" using s'(3) by (simp add: same_rest_def)
  ultimately show ?thesis using s'(2) by (auto simp: in_step_def)
qed

section \<open>Memory\<close>

lemma plus_int_run:
  assumes "den a = BV w x"
  shows "\<exists>c. z_plus_int Z a n s = (Inr c, s) \<and> den c = BV w (take_bit w (x + n))"
proof -
  have "den (bv_val Z n w) = BV w (take_bit w n)" by (rule val_law)
  from bin_law [OF assms this, of ZAdd] obtain c where c: "z_bin Z ZAdd a (bv_val Z n w) = Some c" "den c = BV w (take_bit w (x + take_bit w n))"
    by (auto simp: zbin_value_def bin_value_def)
  have "take_bit w (x + take_bit w n) = take_bit w (x + n)" by (simp add: take_bit_eq_mod mod_add_right_eq)
  then show ?thesis using c size_law [OF assms] by (auto simp: z_plus_int_def bindE_def z3_run)
qed

lemma store_bytes_run:
  assumes "den a = BV 256 x" "den v = BV n y" "den (m_memory s) = BA 256 8 g" "\<forall>i \<in> set is. i + 7 < n"
  shows "\<exists>m. store_bytes Z a v is s = (Inr (), s\<lparr>m_memory := m\<rparr>) \<and> den m = BA 256 8 (put_bytes x y is g)"
  using assms(3,4)
proof (induction "is" arbitrary: s g)
  case Nil
  then show ?case by (auto simp: returnE_def intro: exI [of _ "m_memory s"])
next
  case (Cons i "is")
  let ?g = "g(byte_at x i := take_bit 8 (drop_bit i y))"
  from extract_law [OF assms(2), of i "i + 7"] Cons.prems(2) obtain b where
    b: "z_extract Z (i + 7) i v = Some b" "den b = BV 8 (take_bit 8 (drop_bit i y))" by auto
  from plus_int_run [OF assms(1), of "int i" s] obtain c where
    c: "z_plus_int Z a (int i) s = (Inr c, s)" "den c = BV 256 (byte_at x i)" unfolding byte_at_def by blast
  from store_law [OF Cons.prems(1) c(2) b(2)] obtain m where m: "z_store Z (m_memory s) c b = Some m" "den m = BA 256 8 ?g" by blast
  let ?s1 = "s\<lparr>m_memory := m\<rparr>"
  have run: "store_bytes Z a v (i # is) s = store_bytes Z a v is ?s1"
    using b(1) c(1) m(1) by (simp add: bindE_def seqE_def getE_def modifyE_def z3_run)
  have "den (m_memory ?s1) = BA 256 8 ?g" using m(2) by simp
  moreover have "\<forall>i \<in> set is. i + 7 < n" using Cons.prems(2) by simp
  ultimately obtain m' where
    m': "store_bytes Z a v is ?s1 = (Inr (), ?s1\<lparr>m_memory := m'\<rparr>)" "den m' = BA 256 8 (put_bytes x y is ?g)"
    using Cons.IH by blast
  have "?s1\<lparr>m_memory := m'\<rparr> = s\<lparr>m_memory := m'\<rparr>" by simp
  with m' show ?case unfolding run by (intro exI [of _ m']) simp
qed

lemma memStore_run:
  assumes "den a = BV 256 x" "den v = BV (8 * k) y" "den (m_memory s) = BA 256 8 g" "\<not> in_stack Z a"
  shows "\<exists>m. memStore Z a v s = (Inr (), s\<lparr>m_memory := m\<rparr>) \<and> den m = BA 256 8 (put_bytes x y (map ((*) 8) [0..<k]) g)"
proof -
  have "\<forall>i \<in> set (map ((*) 8) [0..<k]). i + 7 < 8 * k" by auto
  from store_bytes_run [OF assms(1,2,3) this] show ?thesis
    using size_law [OF assms(2)] assms(4) by (simp add: memStore_def bindE_def z3_run offsets_multiples)
qed

lemma load_bytes_run:
  assumes "den a = BV 256 x" "den (m_memory s) = BA 256 8 g" "\<forall>i < k. g (byte_at x (8 * i)) = take_bit 8 (drop_bit (8 * i) y)"
    and "den v = BV (8 * j) (take_bit (8 * j) y)" "j \<le> k"
  shows "\<exists>e. load_bytes Z a (map ((*) 8) [j..<k]) v s = (Inr e, s) \<and> den e = BV (8 * k) (take_bit (8 * k) y)"
  using assms(4,5)
proof (induction "k - j" arbitrary: j v)
  case 0
  then show ?case by (simp add: returnE_def)
next
  case (Suc d)
  then have j: "j < k" by simp
  then have list: "map ((*) 8) [j..<k] = 8 * j # map ((*) 8) [Suc j..<k]" by (simp add: upt_rec)
  from plus_int_run [OF assms(1), of "int (8 * j)" s] obtain c where
    c: "z_plus_int Z a (int (8 * j)) s = (Inr c, s)" "den c = BV 256 (byte_at x (8 * j))" unfolding byte_at_def by blast
  from select_law [OF assms(2) c(2)] assms(3) j obtain b where
    b: "z_select Z (m_memory s) c = Some b" "den b = BV 8 (take_bit 8 (drop_bit (8 * j) y))" by auto
  from concat_law [of "z_simplify Z b" 8 _ v] b(2) Suc.prems(1) obtain e where
    e: "z_concat Z (z_simplify Z b) v = Some e" "den e = BV (8 + 8 * j) (push_bit (8 * j) (take_bit 8 (drop_bit (8 * j) y)) + take_bit (8 * j) y)"
    by (auto simp: simplify_law)
  have "den (z_simplify Z e) = BV (8 * Suc j) (take_bit (8 * Suc j) y)"
    using e(2) by (simp add: simplify_law join_bytes)
  moreover have "d = k - Suc j" "Suc j \<le> k" using Suc.hyps(2) by simp_all
  ultimately obtain r where
    "load_bytes Z a (map ((*) 8) [Suc j..<k]) (z_simplify Z e) s = (Inr r, s)" "den r = BV (8 * k) (take_bit (8 * k) y)" using Suc.hyps(1) by blast
  then show ?case unfolding list using c(1) b(1) e(1) by (auto simp: bindE_def getE_def z3_run)
qed

lemma memLoad_run:
  assumes "den a = BV 256 x" "den (m_memory s) = BA 256 8 g" "\<forall>i < k. g (byte_at x (8 * i)) = take_bit 8 (drop_bit (8 * i) y)"
    and "0 < k" "\<not> in_stack Z a"
  shows "\<exists>e. memLoad Z a (8 * k) s = (Inr e, s) \<and> den e = BV (8 * k) (take_bit (8 * k) y)"
proof -
  have x: "byte_at x 0 = x" using range_law [OF assms(1)] by (simp add: byte_at_def take_bit_int_eq_self)
  from select_law [OF assms(2,1)] assms(3,4) x obtain v where v: "z_select Z (m_memory s) a = Some v" "den v = BV 8 (take_bit 8 y)" by auto
  then have "den (z_simplify Z v) = BV (8 * 1) (take_bit (8 * 1) y)" by (simp add: simplify_law)
  from load_bytes_run [OF assms(1-3) this] assms(4) obtain e where
    e: "load_bytes Z a (map ((*) 8) [1..<k]) (z_simplify Z v) s = (Inr e, s)" "den e = BV (8 * k) (take_bit (8 * k) y)" by auto
  then show ?thesis using v(1) assms(5)
    by (auto simp: memLoad_def bindE_def getE_def z3_run offsets_multiples returnE_def simplify_law)
qed

end

end
