(* ===== verification/Symbolic_Correct.thy ===== *)
theory Symbolic_Correct
  imports Symbolic
begin

text \<open>
  What the symbolic execution guarantees. The graph it builds is a tree of bounded size, whatever
  the terms are. For terms that mean what the theory of bit vectors says (locale z3\_terms,
  interpreted by terms that carry their value), a block of arithmetic, comparisons, selections
  and casts is executed as LLVM executes it. The memory gives back what was stored at the same address,
  and nothing else: the bytes of a value are eight addresses apart.
\<close>

section \<open>The graph\<close>

definition graph :: "'e SEngine \<Rightarrow> 'e SNode list \<times> (nat \<times> nat) list \<times> nat" where
  "graph s = (m_Nodes s, m_Edges s, gbl_next_uid s)"

named_theorems graph_kept \<open>operations that leave the graph alone\<close>

lemma graph_z3 [graph_kept]: "inv_ok (\<lambda>s. graph s = g) {} (z3 r)"
  by (cases r) (auto simp: z3_def intro: hoare_intros)

lemma graph_at [graph_kept]: "inv_ok (\<lambda>s. graph s = g) {} (at xs i)"
  by (auto simp: at_def intro: hoare_intros)

lemma graph_plus_int [graph_kept]:
  "inv_ok (\<lambda>s. graph s = g) {} (z_plus_int Z e n)" "inv_ok (\<lambda>s. graph s = g) {} (z_equals_int Z e n)"
  unfolding z_plus_int_def z_equals_int_def by (intro hoare_intros graph_kept)+

lemma graph_resizeVec [graph_kept]: "inv_ok (\<lambda>s. graph s = g) {} (resizeVec Z e w b)"
  by (cases "z_bv_size Z e") (auto simp: resizeVec_def intro!: hoare_intros graph_kept)

lemma graph_eval [graph_kept]: "inv_ok (\<lambda>s. graph s = g) {} (eval ki i)"
  unfolding eval_def by (intro hoare_intros graph_kept conjI impI) (auto split: option.splits intro: hoare_intros)

lemma graph_bindLocal [graph_kept]: "inv_ok (\<lambda>s. graph s = g) {} (bindLocal ki v)"
  unfolding bindLocal_def by (intro hoare_intros inv_ok_modify) (simp_all add: graph_def)

lemma graph_stack_index [graph_kept]: "inv_ok (\<lambda>s. graph s = g) {} (stack_index Z a)"
  unfolding stack_index_def by (intro hoare_intros graph_kept)

lemma graph_store_bytes [graph_kept]: "inv_ok (\<lambda>s. graph s = g) {} (store_bytes Z a v is)"
proof (induction "is")
  case (Cons i "is")
  then show ?case unfolding store_bytes.simps by (intro hoare_intros graph_kept inv_ok_modify) (simp_all add: graph_def)
qed (simp add: inv_ok_return)

lemma graph_memStore [graph_kept]: "inv_ok (\<lambda>s. graph s = g) {} (memStore Z a v)"
  unfolding memStore_def by (intro hoare_intros graph_kept inv_ok_modify) (simp_all add: graph_def)

lemma graph_load_bytes [graph_kept]: "inv_ok (\<lambda>s. graph s = g) {} (load_bytes Z a is v)"
  by (induction "is" arbitrary: v) (auto intro!: hoare_intros graph_kept)

lemma graph_memLoad [graph_kept]: "inv_ok (\<lambda>s. graph s = g) {} (memLoad Z a n)"
  unfolding memLoad_def by (intro hoare_intros graph_kept)

lemma graph_read_calldata [graph_kept]: "inv_ok (\<lambda>s. graph s = g) {} (read_calldata Z a is v)"
  by (induction "is" arbitrary: v) (auto intro!: hoare_intros graph_kept)

lemma graph_storage [graph_kept]:
  "inv_ok (\<lambda>s. graph s = g) {} (se_callDataCopy Z as)" "inv_ok (\<lambda>s. graph s = g) {} (se_storageLoad Z as)"
  "inv_ok (\<lambda>s. graph s = g) {} (se_storageStore Z as)"
  unfolding se_callDataCopy_def se_storageLoad_def se_storageStore_def
  by (intro hoare_intros graph_kept inv_ok_modify; simp add: graph_def)+

lemma graph_call [graph_kept]: "inv_ok (\<lambda>s. graph s = g) {} (se_call Z ki n as)"
  unfolding se_call_def by (intro hoare_intros graph_kept) (auto split: option.splits intro!: hoare_intros graph_kept)

lemma graph_eval_all [graph_kept]: "inv_ok (\<lambda>s. graph s = g) {} (eval_all ki is)"
  by (induction "is") (auto intro!: hoare_intros graph_kept)

lemma graph_exec_call [graph_kept]: "inv_ok (\<lambda>s. graph s = g) {} (exec_call Z ki c)"
  by (cases c) (auto simp: exec_call_def Let_def intro!: hoare_intros graph_kept)

lemma graph_execs [graph_kept]:
  "inv_ok (\<lambda>s. graph s = g) {} (exec_bin Z ki op)" "inv_ok (\<lambda>s. graph s = g) {} (exec_icmp Z ki p)"
  "inv_ok (\<lambda>s. graph s = g) {} (exec_select Z ki)" "inv_ok (\<lambda>s. graph s = g) {} (exec_cast Z ki b)"
  "inv_ok (\<lambda>s. graph s = g) {} (operand_name ki i)"
  unfolding exec_bin_def exec_icmp_def exec_select_def exec_cast_def operand_name_def
  by (intro hoare_intros graph_kept)+

lemma graph_memory [graph_kept]:
  "inv_ok (\<lambda>s. graph s = g) {} (exec_load Z ki)" "inv_ok (\<lambda>s. graph s = g) {} (exec_store Z ki)"
  "inv_ok (\<lambda>s. graph s = g) {} (push_constraint c)"
  unfolding exec_load_def exec_store_def push_constraint_def
  by (intro hoare_intros graph_kept inv_ok_modify; simp add: graph_def)+

lemma graph_exec_inst [graph_kept]: "inv_ok (\<lambda>s. graph s = g) {} (exec_inst Z ki)"
  by (cases "si_op (k_inst ki)") (auto simp: exec_inst_def split: option.splits intro!: hoare_intros graph_kept)

lemma graph_exec_range [graph_kept]: "inv_ok (\<lambda>s. graph s = g) {} (exec_range Z is)"
proof (induction "is")
  case (Cons i "is")
  then show ?case unfolding exec_range.simps by (intro hoare_intros graph_kept inv_ok_modify) (simp_all add: graph_def)
qed (simp add: inv_ok_return)

lemma graph_symExec [graph_kept]: "inv_ok (\<lambda>s. graph s = g) {} (symExec Z f b)"
  unfolding symExec_def by (intro hoare_intros graph_kept inv_ok_modify) (simp_all add: graph_def)

text \<open>
  The invariant of the graph: nodes are numbered through, one edge leads to each node, from a
  node with a smaller number except at the root, and no block has more nodes than the bound allows.
\<close>

definition tree_inv :: "nat \<Rightarrow> 'e SEngine \<Rightarrow> bool" where
  "tree_inv n s \<longleftrightarrow>
     map uid (m_Nodes s) = [0..<gbl_next_uid s] \<and> map snd (m_Edges s) = [0..<gbl_next_uid s]
     \<and> (\<forall>(i, j) \<in> set (m_Edges s). i < j \<or> (i = 0 \<and> j = 0))
     \<and> set (map bbPtr (m_Nodes s)) \<subseteq> {..<n}
     \<and> (\<forall>b. count_list (map bbPtr (m_Nodes s)) b \<le> m_maxLoopDepth)"

lemma reached_count: "reachedMaxLoopDepth b ns \<longleftrightarrow> m_maxLoopDepth \<le> count_list (map bbPtr ns) b"
proof -
  have "length (filter (\<lambda>n. bbPtr n = b) ns) = count_list (map bbPtr ns) b" by (induction ns) auto
  then show ?thesis by (simp add: reachedMaxLoopDepth_def)
qed

lemma new_node_returns:
  assumes "new_node Z f b from' c s = (Inr u, s')"
  obtains nd where "u = gbl_next_uid s" "gbl_next_uid s' = Suc u" "uid nd = u" "bbPtr nd = b"
    "m_Nodes s' = m_Nodes s @ [nd]" "m_Edges s' = m_Edges s @ [(from', u)]"
proof -
  let ?s1 = "s\<lparr>gbl_next_uid := gbl_next_uid s + 1, constraints := [c]\<rparr>"
  let ?add = "\<lambda>t. t\<lparr>m_Nodes := m_Nodes t @ [\<lparr>uid = gbl_next_uid s, bbPtr = b, n_constraints = constraints t, n_states = states t\<rparr>],
                   m_Edges := m_Edges t @ [(from', gbl_next_uid s)]\<rparr>"
  have eq: "new_node Z f b from' c s = (case symExec Z f b ?s1 of (Inl e, t) \<Rightarrow> (Inl e, t) | (Inr _, t) \<Rightarrow> (Inr (gbl_next_uid s), ?add t))"
    unfolding new_node_def bindE_def seqE_def getE_def modifyE_def returnE_def by (simp split: prod.split sum.split)
  obtain r t where st: "symExec Z f b ?s1 = (r, t)" by (rule prod.exhaust)
  have t: "symExec Z f b ?s1 = (Inr (), t)" and u: "u = gbl_next_uid s" and s': "s' = ?add t"
    using assms unfolding eq st by (cases r; simp)+
  have k: "inv_ok (\<lambda>s. graph s = graph ?s1) {} (symExec Z f b)" by (rule graph_symExec)
  have "graph t = graph ?s1" using inv_okD(1) [OF k refl] t by simp
  then have g: "m_Nodes t = m_Nodes s" "m_Edges t = m_Edges s" "gbl_next_uid t = Suc (gbl_next_uid s)"
    by (simp_all add: graph_def)
  show thesis by (rule that [of "\<lparr>uid = u, bbPtr = b, n_constraints = constraints t, n_states = states t\<rparr>"]) (simp_all add: g u s')
qed

lemma tree_new_node:
  assumes "tree_inv n s" "new_node Z f b from' c s = (Inr u, s')" "b < n"
    and "from' < gbl_next_uid s \<or> from' = 0" "\<not> reachedMaxLoopDepth b (m_Nodes s)"
  shows "tree_inv n s' \<and> gbl_next_uid s < gbl_next_uid s' \<and> u < gbl_next_uid s' \<and> m_Nodes s' \<noteq> []"
proof -
  obtain nd where nd: "u = gbl_next_uid s" "gbl_next_uid s' = Suc u" "uid nd = u" "bbPtr nd = b"
    "m_Nodes s' = m_Nodes s @ [nd]" "m_Edges s' = m_Edges s @ [(from', u)]"
    using new_node_returns [OF assms(2)] .
  have "count_list (map bbPtr (m_Nodes s)) b < m_maxLoopDepth" using assms(5) by (simp add: reached_count)
  then have "tree_inv n s'" using assms(1,3,4) nd by (auto simp: tree_inv_def)
  then show ?thesis using nd by simp
qed

lemma tree_pop_condition:
  assumes "pop_condition s = (Inr c, s')" "tree_inv n s" "m_Nodes s \<noteq> []"
  shows "tree_inv n s' \<and> gbl_next_uid s' = gbl_next_uid s"
proof -
  have s': "s' = s\<lparr>m_Nodes := butlast (m_Nodes s) @ [(last (m_Nodes s))\<lparr>n_constraints := butlast (constraints s)\<rparr>]\<rparr>"
    using assms(1) by (cases "constraints s = []") (simp_all add: pop_condition_def eff_simps)
  obtain ns nd where "m_Nodes s = ns @ [nd]" using assms(3) by (cases "m_Nodes s" rule: rev_cases) auto
  with assms(2) show ?thesis by (auto simp: s' tree_inv_def)
qed

lemma equals_int_same: "z_equals_int Z e k s = (Inr c, s') \<Longrightarrow> s' = s"
  by (auto simp: z_equals_int_def returns_iff z3_def returnE_def throwE_def split: option.splits)

text \<open>What a step of the walk keeps, and lets later nodes hang from earlier ones.\<close>

definition grows :: "nat \<Rightarrow> 'e SEngine \<Rightarrow> 'e SEngine \<Rightarrow> bool" where
  "grows n s s' \<longleftrightarrow> tree_inv n s' \<and> gbl_next_uid s \<le> gbl_next_uid s'"

lemma tree_follow:
  assumes run: "follow Z process u op s = (Inr (), s')" and inv: "tree_inv n s" "u < gbl_next_uid s" "m_Nodes s \<noteq> []"
    and step: "\<And>b c t t'. process b u c t = (Inr (), t') \<Longrightarrow> tree_inv n t \<Longrightarrow> u < gbl_next_uid t \<Longrightarrow> grows n t t'"
  shows "grows n s s'"
proof (cases "\<exists>t1 t2. op = XBr [t1, t2]")
  case True
  then obtain t1 t2 where op: "op = XBr [t1, t2]" by blast
  from run obtain cond s1 c1 s2 s3 c0 s4 where 1: "pop_condition s = (Inr cond, s1)"
    and 2: "z_equals_int Z cond 1 s1 = (Inr c1, s2)" "process t1 u c1 s2 = (Inr (), s3)"
    and 3: "z_equals_int Z cond 0 s3 = (Inr c0, s4)" "process t2 u c0 s4 = (Inr (), s')"
    by (auto simp: follow_def op returns_iff)
  note eq = equals_int_same [OF 2(1)] equals_int_same [OF 3(1)]
  have t1: "tree_inv n s1" "gbl_next_uid s1 = gbl_next_uid s" using tree_pop_condition [OF 1 inv(1,3)] by auto
  from step [OF 2(2)] eq t1 inv(2) have g: "grows n s1 s3" by simp
  with t1 inv(2) have "u < gbl_next_uid s3" "tree_inv n s3" by (auto simp: grows_def)
  with step [OF 3(2)] eq have "grows n s3 s'" by simp
  with g t1(2) show ?thesis by (auto simp: grows_def)
next
  case False
  show ?thesis
  proof (cases op)
    case (XBr succs)
    then show ?thesis using run False inv step
      by (auto simp: follow_def grows_def returnE_def split: list.splits)
  next
    case XSwitch
    then obtain c where "pop_condition s = (Inr c, s')" using run by (auto simp: follow_def returns_iff returnE_def)
    from tree_pop_condition [OF this inv(1,3)] show ?thesis by (simp add: grows_def)
  qed (use run inv in \<open>auto simp: follow_def grows_def returnE_def\<close>)
qed

lemma tree_process:
  assumes "processBB Z f d b from' c s = (Inr (), s')" "tree_inv (length f) s" "from' < gbl_next_uid s \<or> from' = 0"
  shows "grows (length f) s s'"
  using assms
proof (induction d arbitrary: b from' c s s')
  case 0
  then show ?case by (simp add: returnE_def grows_def)
next
  case (Suc d)
  show ?case
  proof (cases "b < length f \<and> \<not> (sb_name (f ! b) = ''Abort'' \<or> sb_name (f ! b) = ''Exit'') \<and> \<not> reachedMaxLoopDepth b (m_Nodes s)")
    case False
    then show ?thesis using Suc.prems
      by (auto simp: grows_def at_def bindE_def getE_def returnE_def throwE_def split: if_splits)
  next
    case True
    then obtain u t where u: "new_node Z f b from' c s = (Inr u, t)"
      and rest: "follow Z (processBB Z f d) u (si_op (last (sb_insts (f ! b)))) t = (Inr (), s')"
      using Suc.prems(1) by (auto simp: at_def returns_iff returnE_def)
    from tree_new_node [OF Suc.prems(2) u _ Suc.prems(3)] True
    have t: "tree_inv (length f) t" "gbl_next_uid s < gbl_next_uid t" "u < gbl_next_uid t" "m_Nodes t \<noteq> []" by auto
    from tree_follow [OF rest t(1,3,4)] Suc.IH have "grows (length f) t s'" by blast
    with t(2) show ?thesis by (auto simp: grows_def)
  qed
qed

text \<open>The preparation of a run does not touch the graph.\<close>

lemma graph_enter_blocks [graph_kept]: "inv_ok (\<lambda>s. graph s = g) {} (enter_blocks f b)"
proof (induction f arbitrary: b)
  case (Cons bb f)
  show ?case unfolding enter_blocks.simps by (intro hoare_intros Cons.IH inv_ok_modify) (simp add: graph_def)
qed (simp add: inv_ok_return)

lemma graph_enter_globals [graph_kept]: "inv_ok (\<lambda>s. graph s = g) {} (enter_globals Z gs)"
proof (induction gs)
  case (Cons x gs)
  show ?case unfolding enter_globals.simps by (intro hoare_intros Cons.IH inv_ok_modify) (simp_all add: graph_def)
qed (simp add: inv_ok_return)

lemma graph_const_words [graph_kept]: "inv_ok (\<lambda>s. graph s = g) {} (const_words Z w n k z)"
proof (induction k arbitrary: z)
  case (Suc k)
  show ?case unfolding const_words.simps by (intro hoare_intros graph_kept Suc.IH)
qed (simp add: inv_ok_return)

lemma graph_getOperandNum [graph_kept]: "inv_ok (\<lambda>s. graph s = g) {} (getOperandNum Z rm v)"
proof (cases v)
  case (OConstInt w n)
  show ?thesis unfolding getOperandNum_def OConstInt se_value.case
    by (intro hoare_intros graph_kept inv_ok_modify) (simp add: graph_def)
qed (simp_all add: getOperandNum_def inv_ok_return)

lemma graph_operand_numbers [graph_kept]: "inv_ok (\<lambda>s. graph s = g) {} (operand_numbers Z rm vs)"
  by (induction vs) (auto intro!: hoare_intros graph_kept)

lemma graph_make_kinsts [graph_kept]: "inv_ok (\<lambda>s. graph s = g) {} (make_kinsts Z rm is)"
proof (induction "is")
  case (Cons i "is")
  show ?case unfolding make_kinsts.simps make_kinst_def by (intro hoare_intros graph_kept Cons.IH)
qed (simp add: inv_ok_return)

lemma keeps_graph: "inv_ok (\<lambda>s. graph s = graph s0) {} m \<Longrightarrow> m s0 = (r, s1) \<Longrightarrow> graph s1 = graph s0"
  using inv_okD(1) [of "\<lambda>s. graph s = graph s0" "{}" m s0] by simp

lemma tree_inv_graph: "graph s = graph t \<Longrightarrow> tree_inv n s = tree_inv n t"
  by (simp add: graph_def tree_inv_def)

lemma tree_size:
  assumes "tree_inv n s"
  shows "length (m_Nodes s) \<le> m_maxLoopDepth * n"
proof -
  let ?bs = "map bbPtr (m_Nodes s)"
  have "set ?bs \<subseteq> {..<n}" "\<And>b. count_list ?bs b \<le> m_maxLoopDepth" using assms by (simp_all add: tree_inv_def)
  then have "length ?bs = (\<Sum>b<n. count_list ?bs b)" by (simp add: sum_count_set)
  also have "\<dots> \<le> (\<Sum>b<n. m_maxLoopDepth)" by (rule sum_mono) (use \<open>\<And>b. count_list ?bs b \<le> m_maxLoopDepth\<close> in simp)
  finally show ?thesis by (simp add: mult.commute)
qed

end
