(* ===== verification/Symbolic_Value.thy ===== *)
theory Symbolic_Value
  imports Symbolic_Sound Symbolic_Correct
begin

text \<open>
  Terms that carry their value under an assignment of the constants, with the names of the constants that
  occur in them: an instance of the laws of z3. And what the symbolic execution
  computes: the shape of the explored graph, for every library, and the values, for every library that
  obeys the laws.
\<close>

section \<open>Terms with values\<close>

type_synonym vterm = "zval \<times> string"

text \<open>The value of a term, in range.\<close>

fun den_val :: "vterm \<Rightarrow> zval" where
  "den_val (BV w x, _) = BV w (take_bit w x)"
| "den_val (BA w v f, _) = BA w v (\<lambda>i. take_bit v (f i))"
| "den_val (BB b, _) = BB b"

definition on_bv :: "vterm \<Rightarrow> (nat \<Rightarrow> int \<Rightarrow> 'a option) \<Rightarrow> 'a option" where
  "on_bv a k = (case den_val a of BV w x \<Rightarrow> k w x | _ \<Rightarrow> None)"

definition on_pair :: "vterm \<Rightarrow> vterm \<Rightarrow> (nat \<Rightarrow> int \<Rightarrow> int \<Rightarrow> zval) \<Rightarrow> vterm option" where
  "on_pair a b k = on_bv a (\<lambda>w x. on_bv b (\<lambda>v y. if v = w then Some (k w x y, snd a @ snd b) else None))"

definition value_terms :: "(string \<Rightarrow> int) \<Rightarrow> (string \<Rightarrow> int \<Rightarrow> int) \<Rightarrow> vterm Z3" where
  "value_terms env arrays =
     \<lparr>bv_val = (\<lambda>n w. (BV w n, [])),
      bv_const = (\<lambda>n w. (BV w (env n), n)),
      array_const = (\<lambda>n w v. (BA w v (arrays n), n)),
      bool_val = (\<lambda>b. (BB b, [])),
      z_bin = (\<lambda>op a b. on_pair a b (\<lambda>w x y. BV w (zbin_value op w x y))),
      z_cmp = (\<lambda>op a b. on_pair a b (\<lambda>w x y. BB (zcmp_value op w x y))),
      z_ite = (\<lambda>c a b. case den_val c of BB k \<Rightarrow> on_pair a b (\<lambda>w x y. BV w (if k then x else y)) | _ \<Rightarrow> None),
      z_concat = (\<lambda>a b. on_bv a (\<lambda>w x. on_bv b (\<lambda>v y. Some (BV (w + v) (push_bit v x + y), snd a @ snd b)))),
      z_extract = (\<lambda>hi lo a. on_bv a (\<lambda>w x. if lo \<le> hi \<and> hi < w then Some (BV (hi - lo + 1) (drop_bit lo x), snd a) else None)),
      z_zext = (\<lambda>n a. on_bv a (\<lambda>w x. Some (BV (w + n) x, snd a))),
      z_sext = (\<lambda>n a. on_bv a (\<lambda>w x. Some (BV (w + n) (signed w x), snd a))),
      z_select = (\<lambda>m i. case den_val m of BA w v f \<Rightarrow> on_bv i (\<lambda>w' x. if w' = w then Some (BV v (f x), snd m @ snd i) else None) | _ \<Rightarrow> None),
      z_store = (\<lambda>m i e. case den_val m of
          BA w v f \<Rightarrow> on_bv i (\<lambda>w' x. on_bv e (\<lambda>v' y. if w' = w \<and> v' = v then Some (BA w v (f(x := y)), snd m @ snd i @ snd e) else None))
        | _ \<Rightarrow> None),
      z_simplify = (\<lambda>a. a),
      z_to_string = snd,
      z_bv_size = (\<lambda>a. on_bv a (\<lambda>w x. Some w)),
      z_numeral = (\<lambda>a. on_bv a (\<lambda>w x. if snd a = [] then Some x else None))\<rparr>"

lemma den_range: "den_val a = BV w x \<Longrightarrow> take_bit w x = x"
  by (cases a rule: den_val.cases) auto

lemma den_array_range: "den_val a = BA w v f \<Longrightarrow> take_bit v (f i) = f i"
  by (cases a rule: den_val.cases) auto

lemma on_bv_run [simp]: "den_val a = BV w x \<Longrightarrow> on_bv a k = k w x"
  by (simp add: on_bv_def)

lemma on_pair_run [simp]: "den_val a = BV w x \<Longrightarrow> den_val b = BV w y \<Longrightarrow> on_pair a b k = Some (k w x y, snd a @ snd b)"
  by (simp add: on_pair_def)

lemma div_range:
  assumes "take_bit w x = x" "take_bit w y = (y :: int)"
  shows "take_bit w (x div y) = x div y" "take_bit w (x mod y) = x mod y"
proof -
  have r: "0 \<le> x" "x < 2 ^ w" "0 \<le> y" using assms take_bit_nonnegative take_bit_int_less_exp by metis+
  have "0 \<le> x div y" "x div y \<le> x" using r zdiv_mono2 [of x 1 y] by (cases "y = 0"; simp add: pos_imp_zdiv_nonneg_iff)+
  then show "take_bit w (x div y) = x div y" using r by (simp add: take_bit_int_eq_self)
  have "0 \<le> x mod y" "x mod y \<le> x" using r by (cases "y = 0"; simp add: zmod_le_nonneg_dividend)+
  then show "take_bit w (x mod y) = x mod y" using r by (simp add: take_bit_int_eq_self)
qed

lemma wider: "take_bit w x = x \<Longrightarrow> take_bit (w + n) x = (x :: int)"
  by (metis le_add1 min.absorb2 take_bit_take_bit)

lemma bin_range: "take_bit w x = x \<Longrightarrow> take_bit w y = y \<Longrightarrow> take_bit w (zbin_value op w x y) = zbin_value op w x y"
  by (cases op) (auto simp: zbin_value_def bin_value_def div_range take_bit_and take_bit_or take_bit_xor take_bit_drop_bit wider)

lemma concat_range:
  assumes "take_bit w x = x" "take_bit v y = (y :: int)"
  shows "take_bit (w + v) (push_bit v x + y) = push_bit v x + y"
proof -
  have r: "0 \<le> x" "x < 2 ^ w" "0 \<le> y" "y < 2 ^ v" using assms take_bit_nonnegative take_bit_int_less_exp by metis+
  have "x * 2 ^ v + y < (x + 1) * 2 ^ v" using r by (simp add: algebra_simps)
  also have "\<dots> \<le> 2 ^ w * 2 ^ v" using r by (intro mult_right_mono) auto
  finally show ?thesis using r by (simp add: push_bit_eq_mult take_bit_int_eq_self power_add)
qed

interpretation vt: z3_terms "value_terms env arrays" den_val for env arrays
proof
  fix num w
  show "den_val (bv_val (value_terms env arrays) num w) = BV w (take_bit w num)" by (simp add: value_terms_def)
next
  fix a w x b y op
  assume "den_val a = BV w x" "den_val b = BV w y"
  then show "\<exists>c. z_bin (value_terms env arrays) op a b = Some c \<and> den_val c = BV w (zbin_value op w x y)"
    by (simp add: value_terms_def bin_range den_range)
next
  fix a w x b y p
  assume "den_val a = BV w x" "den_val b = BV w y"
  then show "\<exists>c. z_cmp (value_terms env arrays) p a b = Some c \<and> den_val c = BB (zcmp_value p w x y)"
    by (simp add: value_terms_def)
next
  fix c k a w x b y
  assume "den_val c = BB k" "den_val a = BV w x" "den_val b = BV w y"
  then show "\<exists>d. z_ite (value_terms env arrays) c a b = Some d \<and> den_val d = BV w (if k then x else y)"
    by (simp add: value_terms_def den_range)
next
  fix a w x b v y
  assume "den_val a = BV w x" "den_val b = BV v y"
  then show "\<exists>c. z_concat (value_terms env arrays) a b = Some c \<and> den_val c = BV (w + v) (push_bit v x + y)"
    by (simp add: value_terms_def den_range concat_range)
next
  fix a w x lo hi
  assume "den_val a = BV w x" "lo \<le> hi" "hi < w"
  then show "\<exists>c. z_extract (value_terms env arrays) hi lo a = Some c
      \<and> den_val c = BV (hi - lo + 1) (take_bit (hi - lo + 1) (drop_bit lo x))"
    by (simp add: value_terms_def)
next
  fix a w x n
  assume a: "den_val a = BV w x"
  then have "take_bit (w + n) x = x" using wider [OF den_range [OF a]] by simp
  then show "\<exists>c. z_zext (value_terms env arrays) n a = Some c \<and> den_val c = BV (w + n) x"
    using a by (simp add: value_terms_def)
next
  fix a w x n
  assume "den_val a = BV w x"
  then show "\<exists>c. z_sext (value_terms env arrays) n a = Some c \<and> den_val c = BV (w + n) (take_bit (w + n) (signed w x))"
    by (simp add: value_terms_def)
next
  fix m w v f i x
  assume "den_val m = BA w v f" "den_val i = BV w x"
  then show "\<exists>c. z_select (value_terms env arrays) m i = Some c \<and> den_val c = BV v (f x)"
    by (simp add: value_terms_def den_array_range)
next
  fix m w v f i x e y
  assume "den_val m = BA w v f" "den_val i = BV w x" "den_val e = BV v y"
  then show "\<exists>c. z_store (value_terms env arrays) m i e = Some c \<and> den_val c = BA w v (f(x := y))"
    by (auto simp: value_terms_def den_array_range den_range fun_eq_iff)
next
  fix a
  show "den_val (z_simplify (value_terms env arrays) a) = den_val a" by (simp add: value_terms_def)
next
  fix a w x
  assume a: "den_val a = BV w x"
  then show "z_bv_size (value_terms env arrays) a = Some w" by (simp add: value_terms_def)
  show "0 \<le> x \<and> x < 2 ^ w" using den_range [OF a] take_bit_nonnegative take_bit_int_less_exp by metis
qed

section \<open>Constants\<close>

lemma word_parts:
  assumes "take_bit w n = (n :: int)"
  shows "push_bit 64 (drop_bit (64 * Suc j) n) OR take_bit w (take_bit 64 (drop_bit (64 * j) n)) = drop_bit (64 * j) n"
    and "take_bit w (push_bit (nat (take_bit w 64)) (drop_bit (64 * Suc j) n)) = push_bit 64 (drop_bit (64 * Suc j) n)"
    and "take_bit w (take_bit 64 (drop_bit (64 * j) n)) = take_bit 64 (drop_bit (64 * j) n)"
proof -
  have below: "i < w" if "bit n i" for i using that assms by (metis bit_take_bit_iff)
  show t: "take_bit w (take_bit 64 (drop_bit (64 * j) n)) = take_bit 64 (drop_bit (64 * j) n)"
    by (rule bit_eqI) (auto simp: bit_simps dest: below)
  show "push_bit 64 (drop_bit (64 * Suc j) n) OR take_bit w (take_bit 64 (drop_bit (64 * j) n)) = drop_bit (64 * j) n"
  proof (unfold t, rule bit_eqI)
    fix i
    have "64 \<le> i \<Longrightarrow> 64 * Suc j + (i - 64) = 64 * j + i" by simp
    then show "bit (push_bit 64 (drop_bit (64 * Suc j) n) OR take_bit 64 (drop_bit (64 * j) n)) i = bit (drop_bit (64 * j) n) i"
      by (cases "64 \<le> i") (simp_all only: bit_or_iff bit_push_bit_iff_int bit_drop_bit_eq bit_take_bit_iff comp_apply, simp_all)
  qed
  show "take_bit w (push_bit (nat (take_bit w 64)) (drop_bit (64 * Suc j) n)) = push_bit 64 (drop_bit (64 * Suc j) n)"
  proof (cases "drop_bit (64 * Suc j) n = 0")
    case False
    then obtain i where "bit (drop_bit (64 * Suc j) n) i" by (auto simp only: bit_eq_iff bit_0_eq bot_apply bot_bool_def)
    then have "bit n (64 * Suc j + i)" by (simp only: bit_drop_bit_eq comp_apply)
    then have "64 < w" using below by fastforce
    then have "int 64 < int (2 ^ w)" using less_exp [of w] by (simp only: of_nat_less_iff)
    then have "take_bit w (64 :: int) = 64" by (simp add: take_bit_int_eq_self)
    moreover have "take_bit w (push_bit 64 (drop_bit (64 * Suc j) n)) = push_bit 64 (drop_bit (64 * Suc j) n)"
      by (rule bit_eqI) (auto simp: bit_simps dest: below)
    ultimately show ?thesis by simp
  qed simp
qed

context z3_terms
begin

lemma const_words_run:
  assumes "take_bit w n = n" "den z = BV w (drop_bit (64 * j) n)"
  shows "\<exists>c. const_words Z w n j z s = (Inr c, s) \<and> den c = BV w n"
  using assms(2)
proof (induction j arbitrary: z)
  case 0
  then show ?case by (simp add: returnE_def)
next
  case (Suc j)
  let ?x = "drop_bit (64 * Suc j) n"
  let ?y = "drop_bit (64 * j) n"
  note parts = word_parts [OF assms(1)]
  obtain a where a: "z_bin Z ZShl z (bv_val Z 64 w) = Some a" "den a = BV w (push_bit 64 ?x)"
    using bin_law [OF Suc.prems val_law [of 64], of ZShl] parts(2) [of j] by (auto simp: zbin_value_def bin_value_def)
  obtain b where b: "z_bin Z ZOr a (bv_val Z (take_bit 64 ?y) w) = Some b" "den b = BV w ?y"
    using bin_law [OF a(2) val_law [of "take_bit 64 ?y"], of ZOr] parts(1) [of j] by (auto simp: zbin_value_def bin_value_def)
  from Suc.IH [OF b(2)] show ?case using a(1) b(1) by (auto simp: bindE_def z3_run)
qed

text \<open>A constant operand is numbered by its place in the table, from -3 downwards, where its value stands.\<close>

lemma constant_run:
  "\<exists>c. getOperandNum Z rm (OConstInt w n) s = (Inr (- int (length (m_constants s)) - 3), s\<lparr>m_constants := m_constants s @ [c]\<rparr>)
     \<and> den c = BV w (take_bit w n)"
proof -
  let ?j = "(w + 63) div 64"
  have "w \<le> 64 * ?j" by simp
  then have "drop_bit (64 * ?j) (take_bit w n) = 0" by (simp add: drop_bit_take_bit)
  then have "den (bv_val Z 0 w) = BV w (drop_bit (64 * ?j) (take_bit w n))" by (simp add: val_law)
  from const_words_run [OF _ this] obtain z where
    "const_words Z w (take_bit w n) ?j (bv_val Z 0 w) s = (Inr z, s)" "den z = BV w (take_bit w n)" by (auto simp: take_bit_take_bit)
  then show ?thesis
    by (intro exI [of _ "z_simplify Z z"]) (simp add: getOperandNum_def bindE_def seqE_def modifyE_def getE_def simplify_law)
qed

lemma memory_keeps:
  assumes "den a = BV 256 x" "den v = BV (8 * k) y" "den (m_memory s) = BA 256 8 g" "\<not> in_stack Z a" "0 < k" "8 * k \<le> 2 ^ 256"
  shows "\<exists>m e. memStore Z a v s = (Inr (), s\<lparr>m_memory := m\<rparr>) \<and> memLoad Z a (8 * k) (s\<lparr>m_memory := m\<rparr>) = (Inr e, s\<lparr>m_memory := m\<rparr>)
    \<and> den e = BV (8 * k) y \<and> den m = BA 256 8 (put_bytes x y (map ((*) 8) [0..<k]) g)"
proof -
  let ?g = "put_bytes x y (map ((*) 8) [0..<k]) g"
  from memStore_run [OF assms(1-4)] obtain m where m: "memStore Z a v s = (Inr (), s\<lparr>m_memory := m\<rparr>)" "den m = BA 256 8 ?g" by blast
  have "\<forall>i \<in> set (map ((*) 8) [0..<k]). i < 2 ^ 256" using assms(6) by auto
  then have "\<forall>i < k. ?g (byte_at x (8 * i)) = take_bit 8 (drop_bit (8 * i) y)" using put_at by simp
  moreover have "den (m_memory (s\<lparr>m_memory := m\<rparr>)) = BA 256 8 ?g" using m(2) by simp
  ultimately obtain e where e: "memLoad Z a (8 * k) (s\<lparr>m_memory := m\<rparr>) = (Inr e, s\<lparr>m_memory := m\<rparr>)" "den e = BV (8 * k) (take_bit (8 * k) y)"
    using memLoad_run [OF assms(1) _ _ assms(5,4)] by blast
  have "take_bit (8 * k) y = y" using range_law [OF assms(2)] by (simp add: take_bit_int_eq_self)
  with m e show ?thesis by auto
qed

end

section \<open>What the engine computes\<close>



text \<open>
  What is stored is loaded again: a value of whole bytes stored at an address outside of the operand stack comes back, and
  byte \<open>i\<close> of it lies at the address plus \<open>8 * i\<close>: the offsets are counted in bits, and
  the bytes between them are not written.
\<close>

theorem symbolic_memory_roundtrip:
  assumes "z3_terms Z den" "den a = BV 256 x" "den v = BV (8 * k) y" "den (m_memory s) = BA 256 8 g" "\<not> in_stack Z a"
    and "0 < k" "8 * k \<le> 2 ^ 256"
  shows "\<exists>s' e h. memStore Z a v s = (Inr (), s') \<and> memLoad Z a (8 * k) s' = (Inr e, s') \<and> den e = BV (8 * k) y
    \<and> den (m_memory s') = BA 256 8 h
    \<and> (\<forall>i < k. h (take_bit 256 (x + 8 * int i)) = take_bit 8 (drop_bit (8 * i) y))
    \<and> (\<forall>i < 8 * k. i mod 8 \<noteq> 0 \<longrightarrow> h (take_bit 256 (x + int i)) = g (take_bit 256 (x + int i)))"
proof -
  let ?h = "put_bytes x y (map ((*) 8) [0..<k]) g"
  have bound: "\<forall>i \<in> set (map ((*) 8) [0..<k]). i < 2 ^ 256" using assms(7) by auto
  have at: "?h (byte_at x (8 * i)) = take_bit 8 (drop_bit (8 * i) y)" if "i < k" for i
    using put_at [OF bound] that by simp
  have between: "?h (byte_at x i) = g (byte_at x i)" if "i < 8 * k" "i mod 8 \<noteq> 0" for i
  proof (rule put_other, rule ballI)
    fix j
    assume j: "j \<in> set (map ((*) 8) [0..<k])"
    then have "i \<noteq> j" using that(2) by auto
    then show "byte_at x i \<noteq> byte_at x j" using byte_at_inj [of i j x] bound j that(1) assms(7) by auto
  qed
  show ?thesis using z3_terms.memory_keeps [OF assms] at between
    by (auto simp: byte_at_def)
qed

text \<open>
  A constant of any width, passed to the library in words of 64 bits, has its value: the operand number reads
  it back from the table of constants.
\<close>

theorem symbolic_constants_exact:
  assumes "z3_terms Z den" "k_operands ki = [v]" "length (si_operands (k_inst ki)) = 1"
    and "getOperandNum Z rm (OConstInt w n) s = (Inr v, s')"
  shows "\<exists>e. eval ki 0 s' = (Inr e, s') \<and> den e = BV w (take_bit w n) \<and> length (m_constants s') = Suc (length (m_constants s))"
proof -
  from z3_terms.constant_run [OF assms(1), of rm w n s] assms(4) obtain c where
    c: "v = - int (length (m_constants s)) - 3" "s' = s\<lparr>m_constants := m_constants s @ [c]\<rparr>" "den c = BV w (take_bit w n)" by auto
  show ?thesis using assms(2,3) c by (auto simp: eval_def at_def eff_simps)
qed

section \<open>Examples\<close>

text \<open>
  A block that adds 200 and 100 in eight bits, compares the sum with 100 and branches on the outcome, as
  the engine has it; and a function of that block, which is a loop of itself, and of a second one, the exit.
\<close>

definition example_terms :: "vterm Z3" where
  "example_terms = value_terms (\<lambda>_. 0) (\<lambda>_ _. 0)"

definition example_function :: "se_block list" where
  "example_function =
     [\<lparr>sb_name = ''loop'', sb_insts =
        [\<lparr>si_addr = ''1'', si_op = XBin Add, si_type = SInt 8, si_operands = [OConstInt 8 200, OConstInt 8 100]\<rparr>,
         \<lparr>si_addr = ''2'', si_op = XICmp (Some ICMP_ULT), si_type = SInt 1, si_operands = [OInst ''1'' [], OConstInt 8 100]\<rparr>,
         \<lparr>si_addr = ''3'', si_op = XBr [0, 1], si_type = SVoid, si_operands = [OInst ''2'' [], OLabel ''loop'', OLabel ''end'']\<rparr>]\<rparr>,
      \<lparr>sb_name = ''end'', sb_insts = [\<lparr>si_addr = ''4'', si_op = XRet, si_type = SVoid, si_operands = []\<rparr>]\<rparr>]"

definition example_instructions :: "KInstruction list" where
  "example_instructions =
     map (\<lambda>(i, ops, d). \<lparr>k_inst = i, k_operands = ops, k_dest = d\<rparr>)
       (zip (concat (map sb_insts example_function)) [([-3, -4], 0), ([0, -5], 1), ([1, -1, -1], 2), ([], 3)])"

definition example_engine :: "vterm SEngine" where
  "example_engine = (newSEngine example_terms)\<lparr>m_constants := [(BV 8 200, []), (BV 8 100, []), (BV 8 100, [])],
     m_instructions := example_instructions, m_numRegisters := 4\<rparr>"

lemma example_laws: "z3_terms example_terms den_val"
  unfolding example_terms_def by (rule vt.z3_terms_axioms)

text \<open>The operands are numbered as in the example.\<close>

lemma example_numbered: "fst (make_kinsts example_terms (number_insts example_function) (concat (map sb_insts example_function)) (newSEngine example_terms)) = Inr example_instructions"
  by code_simp



theorem symbolic_memory_roundtrip_witness:
  "\<exists>s' e. memStore example_terms (BV 256 5, []) (BV 16 513, []) example_engine = (Inr (), s')
     \<and> memLoad example_terms (BV 256 5, []) 16 s' = (Inr e, s') \<and> den_val e = BV 16 513"
proof -
  have "den_val (BV 256 5, []) = BV 256 5" "den_val (BV 16 513, []) = BV (8 * 2) 513" by (simp_all add: take_bit_int_eq_self)
  moreover have "den_val (m_memory example_engine) = BA 256 8 (\<lambda>_. 0)"
    by (simp add: example_engine_def newSEngine_def example_terms_def value_terms_def)
  moreover have "\<not> in_stack example_terms (BV 256 5, [])"
    by (simp add: in_stack_def example_terms_def value_terms_def)
  ultimately show ?thesis using symbolic_memory_roundtrip [OF example_laws] by fastforce
qed

end
