(* ===== verification/Spec2Isabelle.thy ===== *)
theory Spec2Isabelle
  imports Driver Codegen_Correct Hera_Correct Binaryen_Correct Wavm_Correct
    Passes_Correct Patches_Correct Evmc_Tables Evmc_Raii Loader_Correct Keccak_Correct Cache
    Exp_Case Pipeline Example_Vms Taint Symbolic_Value
begin

text \<open>
  A verification of EVMBT, which translates EVM byte code to LLVM IR and from there to eWASM,
  and of Hera, the virtual machine that runs the result behind the EVMC interface.

  The program. src/evmtrans reads the code of a contract, splits it into basic blocks
  (WASMCompiler.cpp, BasicBlock.cpp, Instruction.cpp), recovers the control flow graph by
  simulating each block once, and emits LLVM IR block by block with a symbolic stack. The
  environment of a contract is declared to LLVM by EEIModule.cpp, which also emits a byte swap, a
  copy loop and a hash call. Wide arithmetic that WebAssembly does not have is lowered to
  functions emitted by Arith256.cpp; the passes of Optimizer.cpp search for vulnerable patterns and patch them. src/evmtrans/hera runs
  contracts: hera.cpp takes an EVMC message, chooses the code, calls an engine (wabt.cpp,
  binaryen.cpp or wavm.cpp), and
  the engine calls the Ethereum environment interface (eei.cpp), which charges gas, moves bytes
  between the memory of the contract and the host, and calls the host through EVMC (src/evmc).
  loader.c finds and configures a virtual machine in a dynamic library.

  How the theories correspond to the sources.
  \<^item> Prelude: machine types, big-endian byte runs, and the state-and-exception combinators in
    which Hera is written.
  \<^item> Opcodes: Instruction.h, Instruction.cpp (opcodes, stack effects, push data).
  \<^item> Blocks: splitCode and createBasicBlocks of WASMCompiler.cpp, ctxDep of BasicBlock.cpp.
  \<^item> Dry\_Run: dry\_run\_bb and dry\_run of WASMCompiler.cpp.
  \<^item> Llvm, Codegen, Codegen\_Correct: the integer instructions the IR builder promises, the cases
    of compileBasicBlock that emit them or move stack values, and their simulation of the EVM.
  \<^item> Endian, Eei\_Module: EEIModule.cpp, the emitted byte swap, the declarations and the copy loop.
  \<^item> Host\_Codegen: the cases of compileBasicBlock that access memory, call the environment or end
    a block, with the code they emit. Host\_Run: what that code does in the memory of the module
    and in Hera. Host\_Logic: a program logic for generated code, one rule per builder call.
    Host\_Correct, Host\_Memory: storage, memory, address and end instructions verified with it.
  \<^item> Global\_Stack: the class GlobalStack of BasicBlock.cpp, with its operands in registers or in the
    memory of the module; the locale operand\_stack is what both modes promise. Block\_Borders: the
    code compileMain emits around a block. Driver: compileMain and resolveJumps, the order in
    which blocks are translated and how they are connected.
  \<^item> Ir, Arith256, Arith\_Correct: emitted functions as blocks with PHI nodes and what running one
    does; every function of Arith256.cpp; their exact results. Exp\_Case: the case EXP.
  \<^item> Passes, Passes\_Correct: LowerEVMPass, UseSafeMathPass and the searches of Optimizer.cpp.
    Patches, Patches\_Correct: the passes that insert code into the function main, over blocks of
    the instructions of Host\_Codegen, and what a run of the patched function does in Hera.
  \<^item> Evmc, Evmc\_Tables: evmc.h, evmc.hpp, the example host, and the tables of
    src/evmc/lib/instructions. Evmc\_Cpp: comparison, hashing and literals of evmc.hpp. Evmc\_Raii:
    the owners of results and virtual machines, over the locale handle, and the host adapters.
  \<^item> Eei, Eei\_Memory, Eei\_Safety, Eei\_Functional: eei.h and eei.cpp.
  \<^item> Wabt: wabt.cpp. Binaryen, Binaryen\_Correct: binaryen.cpp. Wavm, Wavm\_Correct: wavm.cpp.
    Hera, Hera\_Correct: hera.cpp and helpers.cpp.
  \<^item> Loader, Loader\_Correct: src/evmc/lib/loader/loader.c.
  \<^item> Keccak, Keccak\_Correct: the hash of Utils.cpp. Cache: Cache.cpp. Taint: Tainter.cpp.
  \<^item> Symbolic: SECore.h and SECore.cpp, the walk over the blocks of a function on terms of z3.
    Symbolic\_Correct: the graph it builds. Symbolic\_Sound: what its terms mean, over the locale
    z3\_terms. Symbolic\_Value: terms that carry values, and the theorems about a run.
  \<^item> Pipeline: BinaryTrans.cpp, the virtual machine around the translator; CodeGen.cpp and
    standalone-evmtrans.cpp, the command line tool. Example\_Vms: the two example machines of EVMC.

  State and effects. A C++ object is a record, a method a function that takes and returns it.
  In Hera an operation is a function from the state to a value or an exception together with
  the new state, so that a throw keeps what was done before it. Integers keep their width:
  offsets and lengths are 32-bit words that wrap, gas is an int with the bounds of int64\_t
  written out. Undefined behaviour of C++ (an access outside a vector, signed overflow, an
  uncaught exception) is a value of its own, and the safety theorems show that it is not
  reached. In the emitted IR, poison, undefined behaviour, a call that ends the contract and
  not coming back (\<open>None\<close>) are four different outcomes.

  Code outside the sources is a parameter: the IR builder (record IRBuilder, locale llvm\_ir,
  interpreted by a builder that folds constants), the host (record HostInterface, locale
  evmc\_host, interpreted by the example host), the wasm parsers, validators and interpreters
  (arguments of the three engines; locales binaryen\_engine and wavm\_engine), the engine of Hera
  (record WasmEngine, locale wasm\_engine; sublocales show that the three engines meet it, and
  interpretations run a module in them), the dynamic linker of the loader, the execution engine
  of the cache, the terms of z3 (record Z3, locale z3\_terms, interpreted by terms that carry their
  value), and the addresses the wasm linker gives to the globals of a translated module.

  What the lemmas show.
  \<^item> Translation: the blocks are well formed, in order and cover every reachable instruction;
    jump destinations are exactly the blocks that start with JUMPDEST; the stack summary of a
    block is its least input height; the recovered graph has every fall-through and constant
    jump edge, recorded on both sides; the emitted straight-line code computes what the Yellow
    Paper says wherever LLVM defines the instruction; the emitted code of SSTORE, SLOAD, MSTORE,
    MLOAD, RETURN and REVERT, run in Hera, has the effect of the instruction on storage, memory
    and result, through the byte order conversions and the calls of the environment.
    The stack in memory behaves as a list of words up to 511 entries; a block starts with
    its operands in registers and leaves its results on that stack; every block is translated
    once, and a jump continues at the JUMPDEST it names or reverts.
  \<^item> Arithmetic: division at 256 and 512 bits terminates with the exact quotient and remainder;
    multiplication, exponentiation and signed division agree with arithmetic modulo the width;
    the checked operations revert exactly on overflow; lowering keeps what a function computes.
  \<^item> Patches: a guarded contract is not entered while its mutex is held, holds it from the first
    instruction on, and releases it in front of every finish and revert; with the check of the
    caller only the origin of a transaction enters; a checked call goes on only when it succeeded.
  \<^item> The tool: it writes the translated deployment code with the translated run-time code in it;
    no flag of the command line has an effect on what is patched.
  \<^item> Symbolic execution: the walk ends with a tree of at most five nodes per block; the terms of a
    block mean what LLVM computes; what is stored in memory is loaded again.
  \<^item> Execution: whatever a contract passes to the host functions, no undefined behaviour occurs,
    metered gas stays between zero and the gas of the message, a static run leaves the world as
    it was, and created code is verified before it is returned. The three engines offer the
    same host functions with the same signatures, up to create2.
  \<^item> Hash and tables: keccak equals the sponge of FIPS 202 with its derived tables (the bytes of
    a lane are read least significant first); the tables of EVMC are well typed and grow with
    the revision, and the stack effects of the translator agree with them. The output of a
    result is released exactly once, whatever moves and assignments happen in between.
  \<^item> Errors: where the code departs from the EVM or from its own documentation, a theorem
    states exactly what it does instead.

  Bounds. No fuel is used: loops that end by a measure are functions with a termination proof,
  loops of the emitted code and of the sponge are partial functions and the theorems about them
  state that they return. A wasm memory has at most 65536 pages; the gas of a message is
  between zero and the largest int64\_t, as EVMC demands.

  Not modelled: the mode of compileMain without context and resolve\_phi, which constants switch
  off; the passes of Optimizer.cpp that only print; NEARModule.cpp; the part of processBB in SECore.cpp behind
  the return for a switch, which never runs; the bindings of EVMC for Go and Java; output for debugging.
\<close>

section \<open>The three engines\<close>

text \<open>
  C38: the engines agree on the environment: the functions the wabt engine runs are those it
  verifies, and what it registers differs by create2 only; the binaryen engine verifies against
  the signatures wabt registers, create2 included; the WAVM engine defines one intrinsic per
  host function of wabt, with the same behaviour on the interface at the top of its stack, and
  verifies imports against exactly their signatures.
\<close>

theorem engine_signatures:
  "map host_sig (wabt_module H) = verify_exports
   \<and> filter (\<lambda>sig. fst sig \<noteq> ''create2'') wabt_exports = verify_exports
   \<and> set wabt_exports - set verify_exports = {(''create2'', [T_I32, T_I32, T_I32, T_I32, T_I32], [T_I32])}
   \<and> set eei_signatures = binaryen_sig ` set wabt_exports
   \<and> set (wavm_module H) = as_wavm ` set (wabt_module H)
   \<and> map_of wavm_signatures = map_of (map wavm_sig (wavm_module H))"
  by (intro conjI wabt_tables wabt_signatures(1) wavm_module_wabt wavm_signatures_host)

end
